(* ===== verification/Program.thy ===== *)
theory Program
  imports Main "HOL-Library.AList"
begin

text \<open>
  Prelude of the development: exceptions, the state-and-exception programs in which the Python
  methods are written, and the two styles of reasoning the component theories share.

  \<^item> \<open>exn\<close> is a raised exception: its class and its message.  The subclass relation of the source
    (\<open>InvalidStatusTransitionError\<close> is a \<open>ValueError\<close>, and so on) is written out as the test
    functions an \<open>except\<close> clause needs.
  \<^item> \<open>('s, 'a) prog\<close> is a method with side effects on a state of type \<open>'s\<close>.  A raised exception
    keeps the effects that happened before it, as the Python code does: nothing is rolled back.
  \<^item> \<open>hoare\<close> is a triple with one postcondition for the result and one for an exception; the
    locale \<open>step_preorder\<close> composes two-state relations (what an operation may change).
\<close>

section \<open>Exceptions\<close>

datatype exn_class =
    KeyError | ValueError | TypeError | AssertionError | RuntimeError
  | PydanticValidationError
  | InvalidStatusTransitionError | OrchestrationError
  | ReplayError | ReplayNotFoundError | ReplayValidationError
  | TransientToolError | ToolValidationError | ToolCancelledError
  | TimeoutError | ConnectionError | PermissionError | URLError | HTTPError
  | OSErrorNo int
  | TransientModelError | SchemaValidationModelError | NonRetryableModelError
  | OtherException string

datatype exn = Exn (exn_class: exn_class) (exn_message: string)

text \<open>\<open>type(exc).__name__\<close>.\<close>

fun exn_class_name :: "exn_class \<Rightarrow> string" where
  "exn_class_name KeyError = ''KeyError''"
| "exn_class_name ValueError = ''ValueError''"
| "exn_class_name TypeError = ''TypeError''"
| "exn_class_name AssertionError = ''AssertionError''"
| "exn_class_name RuntimeError = ''RuntimeError''"
| "exn_class_name PydanticValidationError = ''ValidationError''"
| "exn_class_name InvalidStatusTransitionError = ''InvalidStatusTransitionError''"
| "exn_class_name OrchestrationError = ''OrchestrationError''"
| "exn_class_name ReplayError = ''ReplayError''"
| "exn_class_name ReplayNotFoundError = ''ReplayNotFoundError''"
| "exn_class_name ReplayValidationError = ''ReplayValidationError''"
| "exn_class_name TransientToolError = ''TransientToolError''"
| "exn_class_name ToolValidationError = ''ToolValidationError''"
| "exn_class_name ToolCancelledError = ''ToolCancelledError''"
| "exn_class_name TimeoutError = ''TimeoutError''"
| "exn_class_name ConnectionError = ''ConnectionError''"
| "exn_class_name PermissionError = ''PermissionError''"
| "exn_class_name URLError = ''URLError''"
| "exn_class_name HTTPError = ''HTTPError''"
| "exn_class_name (OSErrorNo _) = ''OSError''"
| "exn_class_name TransientModelError = ''TransientModelError''"
| "exn_class_name SchemaValidationModelError = ''SchemaValidationModelError''"
| "exn_class_name NonRetryableModelError = ''NonRetryableModelError''"
| "exn_class_name (OtherException n) = n"

definition exn_name :: "exn \<Rightarrow> string" where
  "exn_name e = exn_class_name (exn_class e)"

definition is_orchestration_error :: "exn \<Rightarrow> bool" where
  "is_orchestration_error e \<longleftrightarrow> exn_class e = OrchestrationError"

definition is_value_error :: "exn \<Rightarrow> bool" where
  "is_value_error e \<longleftrightarrow>
     exn_class e \<in> {ValueError, PydanticValidationError, InvalidStatusTransitionError}"

definition is_key_error :: "exn \<Rightarrow> bool" where
  "is_key_error e \<longleftrightarrow> exn_class e = KeyError"

section \<open>Programs\<close>

type_synonym ('s, 'a) prog = "'s \<Rightarrow> (exn + 'a) \<times> 's"

definition ret :: "'a \<Rightarrow> ('s, 'a) prog" where
  "ret x = (\<lambda>s. (Inr x, s))"

definition throw :: "exn_class \<Rightarrow> string \<Rightarrow> ('s, 'a) prog" where
  "throw c msg = (\<lambda>s. (Inl (Exn c msg), s))"

definition rethrow :: "exn \<Rightarrow> ('s, 'a) prog" where
  "rethrow e = (\<lambda>s. (Inl e, s))"

definition bnd :: "('s, 'a) prog \<Rightarrow> ('a \<Rightarrow> ('s, 'b) prog) \<Rightarrow> ('s, 'b) prog" where
  "bnd m f = (\<lambda>s. case m s of (Inl e, t) \<Rightarrow> (Inl e, t) | (Inr x, t) \<Rightarrow> f x t)"

definition andthen :: "('s, 'a) prog \<Rightarrow> ('s, 'b) prog \<Rightarrow> ('s, 'b) prog" where
  "andthen m n = bnd m (\<lambda>_. n)"

text \<open>\<open>try: m except Exception as e: h e\<close>; the handler tests the class itself.\<close>

definition try_except :: "('s, 'a) prog \<Rightarrow> (exn \<Rightarrow> ('s, 'a) prog) \<Rightarrow> ('s, 'a) prog" where
  "try_except m h = (\<lambda>s. case m s of (Inl e, t) \<Rightarrow> h e t | (Inr x, t) \<Rightarrow> (Inr x, t))"

definition reads :: "('s \<Rightarrow> 'a) \<Rightarrow> ('s, 'a) prog" where
  "reads f = (\<lambda>s. (Inr (f s), s))"

definition modifies :: "('s \<Rightarrow> 's) \<Rightarrow> ('s, unit) prog" where
  "modifies f = (\<lambda>s. (Inr (), f s))"

text \<open>\<open>if cond: body\<close> with no else branch.\<close>

definition only_if :: "bool \<Rightarrow> ('s, unit) prog \<Rightarrow> ('s, unit) prog" where
  "only_if c m = (if c then m else ret ())"

text \<open>\<open>for x in xs: body\<close>, and a loop that appends one value per element.\<close>

fun for_each :: "'b list \<Rightarrow> ('b \<Rightarrow> ('s, unit) prog) \<Rightarrow> ('s, unit) prog" where
  "for_each [] body = ret ()"
| "for_each (x # xs) body = andthen (body x) (for_each xs body)"

fun map_prog :: "('b \<Rightarrow> ('s, 'c) prog) \<Rightarrow> 'b list \<Rightarrow> ('s, 'c list) prog" where
  "map_prog f [] = ret []"
| "map_prog f (x # xs) = bnd (f x) (\<lambda>y. bnd (map_prog f xs) (\<lambda>ys. ret (y # ys)))"

text \<open>Final state of a program, whatever its outcome.\<close>

definition final :: "('s, 'a) prog \<Rightarrow> 's \<Rightarrow> 's" where
  "final m s = snd (m s)"

named_theorems prog_defs \<open>unfolding the program combinators\<close>

declare ret_def [prog_defs] throw_def [prog_defs] rethrow_def [prog_defs] bnd_def [prog_defs]
  andthen_def [prog_defs] try_except_def [prog_defs] reads_def [prog_defs]
  modifies_def [prog_defs] only_if_def [prog_defs] final_def [prog_defs]

lemma bnd_ret [simp]: "bnd (ret x) f = f x"
  by (simp add: prog_defs)

lemma bnd_throw [simp]: "bnd (throw c msg) f = throw c msg"
  by (simp add: prog_defs)

lemma bnd_assoc: "bnd (bnd m f) g = bnd m (\<lambda>x. bnd (f x) g)"
  by (auto simp: bnd_def fun_eq_iff split: prod.split sum.split)

lemma only_if_True [simp]: "only_if True m = m"
  and only_if_False [simp]: "only_if False m = ret ()"
  by (simp_all add: only_if_def)

lemma bnd_Inr: "m s = (Inr x, t) \<Longrightarrow> bnd m f s = f x t"
  by (simp add: bnd_def)

lemma bnd_Inl: "m s = (Inl e, t) \<Longrightarrow> bnd m f s = (Inl e, t)"
  by (simp add: bnd_def)

lemma bnd_InrE:
  assumes "bnd m f s = (Inr y, u)"
  obtains x t where "m s = (Inr x, t)" and "f x t = (Inr y, u)"
  using assms by (auto simp: bnd_def split: prod.splits sum.splits)

section \<open>Triples\<close>

definition hoare ::
  "('s \<Rightarrow> bool) \<Rightarrow> ('s, 'a) prog \<Rightarrow> ('a \<Rightarrow> 's \<Rightarrow> bool) \<Rightarrow> (exn \<Rightarrow> 's \<Rightarrow> bool) \<Rightarrow> bool" where
  "hoare P m Q E \<longleftrightarrow>
     (\<forall>s. P s \<longrightarrow> (case m s of (Inl e, t) \<Rightarrow> E e t | (Inr x, t) \<Rightarrow> Q x t))"

named_theorems hoare_rules \<open>syntax-directed rules of the program logic\<close>

lemma hoareD_Inr: "hoare P m Q E \<Longrightarrow> P s \<Longrightarrow> m s = (Inr x, t) \<Longrightarrow> Q x t"
  by (fastforce simp: hoare_def)

lemma hoareD_Inl: "hoare P m Q E \<Longrightarrow> P s \<Longrightarrow> m s = (Inl e, t) \<Longrightarrow> E e t"
  by (fastforce simp: hoare_def)

lemma hoareI:
  "(\<And>s x t. P s \<Longrightarrow> m s = (Inr x, t) \<Longrightarrow> Q x t) \<Longrightarrow>
   (\<And>s e t. P s \<Longrightarrow> m s = (Inl e, t) \<Longrightarrow> E e t) \<Longrightarrow> hoare P m Q E"
  by (auto simp: hoare_def split: prod.split sum.split)

lemma hoare_final: "hoare P m (\<lambda>_. R) (\<lambda>_. R) \<Longrightarrow> P s \<Longrightarrow> R (final m s)"
  by (cases "m s"; cases "fst (m s)") (auto simp: hoare_def final_def)

lemma hoare_conseq:
  "hoare P' m Q' E' \<Longrightarrow> (\<And>s. P s \<Longrightarrow> P' s) \<Longrightarrow> (\<And>x s. Q' x s \<Longrightarrow> Q x s) \<Longrightarrow>
   (\<And>e s. E' e s \<Longrightarrow> E e s) \<Longrightarrow> hoare P m Q E"
  by (fastforce simp: hoare_def split: prod.splits sum.splits)

lemma hoare_pre: "hoare P' m Q E \<Longrightarrow> (\<And>s. P s \<Longrightarrow> P' s) \<Longrightarrow> hoare P m Q E"
  by (auto simp: hoare_def)

lemma hoare_ret [hoare_rules]: "(\<And>s. P s \<Longrightarrow> Q x s) \<Longrightarrow> hoare P (ret x) Q E"
  by (simp add: hoare_def ret_def)

lemma hoare_throw [hoare_rules]: "(\<And>s. P s \<Longrightarrow> E (Exn c msg) s) \<Longrightarrow> hoare P (throw c msg) Q E"
  by (simp add: hoare_def throw_def)

lemma hoare_rethrow [hoare_rules]: "(\<And>s. P s \<Longrightarrow> E e s) \<Longrightarrow> hoare P (rethrow e) Q E"
  by (simp add: hoare_def rethrow_def)

lemma hoare_bnd [hoare_rules]:
  "hoare P m R E \<Longrightarrow> (\<And>x. hoare (R x) (f x) Q E) \<Longrightarrow> hoare P (bnd m f) Q E"
  by (fastforce simp: hoare_def bnd_def split: prod.splits sum.splits)

lemma hoare_andthen [hoare_rules]:
  "hoare P m (\<lambda>_. R) E \<Longrightarrow> hoare R n Q E \<Longrightarrow> hoare P (andthen m n) Q E"
  unfolding andthen_def by (rule hoare_bnd)

lemma hoare_try [hoare_rules]:
  "hoare P m Q F \<Longrightarrow> (\<And>e. hoare (F e) (h e) Q E) \<Longrightarrow> hoare P (try_except m h) Q E"
  by (fastforce simp: hoare_def try_except_def split: prod.splits sum.splits)

lemma hoare_reads [hoare_rules]: "(\<And>s. P s \<Longrightarrow> Q (f s) s) \<Longrightarrow> hoare P (reads f) Q E"
  by (simp add: hoare_def reads_def)

lemma hoare_modifies [hoare_rules]: "(\<And>s. P s \<Longrightarrow> Q () (f s)) \<Longrightarrow> hoare P (modifies f) Q E"
  by (simp add: hoare_def modifies_def)

lemma hoare_only_if [hoare_rules]:
  "(c \<Longrightarrow> hoare P m (\<lambda>_. R) E) \<Longrightarrow> (\<not> c \<Longrightarrow> (\<And>s. P s \<Longrightarrow> R s)) \<Longrightarrow>
   hoare P (only_if c m) (\<lambda>_. R) E"
  by (auto simp: hoare_def only_if_def ret_def)

lemma hoare_if [hoare_rules]:
  "(c \<Longrightarrow> hoare P m Q E) \<Longrightarrow> (\<not> c \<Longrightarrow> hoare P n Q E) \<Longrightarrow> hoare P (if c then m else n) Q E"
  by simp

lemma hoare_option [hoare_rules]:
  "(v = None \<Longrightarrow> hoare P m Q E) \<Longrightarrow> (\<And>x. v = Some x \<Longrightarrow> hoare P (f x) Q E) \<Longrightarrow>
   hoare P (case v of None \<Rightarrow> m | Some x \<Rightarrow> f x) Q E"
  by (cases v) auto

lemma hoare_let [hoare_rules]: "(\<And>x. x = v \<Longrightarrow> hoare P (f x) Q E) \<Longrightarrow> hoare P (let x = v in f x) Q E"
  by (simp add: Let_def)

lemma hoare_prod [hoare_rules]:
  "(\<And>a b. v = (a, b) \<Longrightarrow> hoare P (f a b) Q E) \<Longrightarrow> hoare P (case v of (a, b) \<Rightarrow> f a b) Q E"
  by (cases v) auto

lemma hoare_for_each:
  "(\<And>x. x \<in> set xs \<Longrightarrow> hoare I (body x) (\<lambda>_. I) E) \<Longrightarrow> hoare I (for_each xs body) (\<lambda>_. I) E"
  by (induction xs) (auto intro!: hoare_ret hoare_andthen)

section \<open>Weakest preconditions\<close>

text \<open>
  The triple at one state, as a function: the combinators compute, so that \<open>simp add: wp_simps\<close>
  walks through a method and leaves its primitive operations.
\<close>

definition wp :: "('s, 'a) prog \<Rightarrow> ('a \<Rightarrow> 's \<Rightarrow> bool) \<Rightarrow> (exn \<Rightarrow> 's \<Rightarrow> bool) \<Rightarrow> 's \<Rightarrow> bool" where
  "wp m Q E s \<longleftrightarrow> (case m s of (Inl e, t) \<Rightarrow> E e t | (Inr x, t) \<Rightarrow> Q x t)"

named_theorems wp_simps \<open>computation of weakest preconditions\<close>

lemma hoare_wp: "hoare P m Q E \<longleftrightarrow> (\<forall>s. P s \<longrightarrow> wp m Q E s)"
  by (simp add: hoare_def wp_def)

lemma wp_Inr: "wp m Q E s \<Longrightarrow> m s = (Inr x, t) \<Longrightarrow> Q x t"
  and wp_Inl: "wp m Q E s \<Longrightarrow> m s = (Inl e, t) \<Longrightarrow> E e t"
  by (simp_all add: wp_def)

lemma wp_final: "wp m (\<lambda>_. R) (\<lambda>_. R) s \<Longrightarrow> R (final m s)"
  by (auto simp: wp_def final_def split: prod.splits sum.splits)

lemma wp_mono:
  "wp m Q E s \<Longrightarrow> (\<And>x t. Q x t \<Longrightarrow> Q' x t) \<Longrightarrow> (\<And>e t. E e t \<Longrightarrow> E' e t) \<Longrightarrow> wp m Q' E' s"
  by (auto simp: wp_def split: prod.splits sum.splits)

lemma wp_result: "m s = (Inr x, t) \<Longrightarrow> wp m Q E s = Q x t"
  and wp_raise: "m s = (Inl e, t) \<Longrightarrow> wp m Q E s = E e t"
  by (simp_all add: wp_def)

lemma wp_ret [wp_simps]: "wp (ret x) Q E s = Q x s"
  by (simp add: wp_def prog_defs)

lemma wp_throw [wp_simps]: "wp (throw c msg) Q E s = E (Exn c msg) s"
  by (simp add: wp_def prog_defs)

lemma wp_rethrow [wp_simps]: "wp (rethrow e) Q E s = E e s"
  by (simp add: wp_def prog_defs)

lemma wp_reads [wp_simps]: "wp (reads f) Q E s = Q (f s) s"
  by (simp add: wp_def prog_defs)

lemma wp_modifies [wp_simps]: "wp (modifies g) Q E s = Q () (g s)"
  by (simp add: wp_def prog_defs)

lemma wp_bnd [wp_simps]: "wp (bnd m f) Q E s = wp m (\<lambda>x. wp (f x) Q E) E s"
  by (auto simp: wp_def bnd_def split: prod.split sum.split)

lemma wp_andthen [wp_simps]: "wp (andthen m n) Q E s = wp m (\<lambda>_. wp n Q E) E s"
  by (simp add: andthen_def wp_bnd)

lemma wp_try [wp_simps]: "wp (try_except m h) Q E s = wp m Q (\<lambda>e. wp (h e) Q E) s"
  by (auto simp: wp_def try_except_def split: prod.split sum.split)

lemma wp_only_if [wp_simps]: "wp (only_if c m) Q E s = (if c then wp m Q E s else Q () s)"
  by (simp add: only_if_def wp_ret)

lemma wp_if [wp_simps]: "wp (if c then m else n) Q E s = (if c then wp m Q E s else wp n Q E s)"
  by simp

lemma wp_let [wp_simps]: "wp (let x = v in f x) Q E s = wp (f v) Q E s"
  by simp

lemma wp_option [wp_simps]: "wp (case v of None \<Rightarrow> m | Some x \<Rightarrow> f x) Q E s =
    (case v of None \<Rightarrow> wp m Q E s | Some x \<Rightarrow> wp (f x) Q E s)"
  by (cases v) auto

lemma wp_prod [wp_simps]: "wp (case v of (a, b) \<Rightarrow> f a b) Q E s = (case v of (a, b) \<Rightarrow> wp (f a b) Q E s)"
  by (cases v) auto

lemma wp_for_each:
  "I s \<Longrightarrow> (\<And>x s. x \<in> set xs \<Longrightarrow> I s \<Longrightarrow> wp (body x) (\<lambda>_. I) E s) \<Longrightarrow> (\<And>s. I s \<Longrightarrow> Q () s) \<Longrightarrow>
   wp (for_each xs body) Q E s"
proof (induction xs arbitrary: s)
  case (Cons x xs)
  have "wp (body x) (\<lambda>_. I) E s" using Cons.prems by auto
  then show ?case
    unfolding for_each.simps wp_andthen
    by (rule wp_mono) (use Cons in auto)
qed (simp add: wp_ret)

section \<open>Two-state relations\<close>

text \<open>
  What an operation may change is a relation between the state before and after.  Where the
  relation is a preorder it composes over every combinator, so that one lemma per primitive
  operation gives the relation for a whole method.
\<close>

definition steps :: "('s \<Rightarrow> 's \<Rightarrow> bool) \<Rightarrow> ('s, 'a) prog \<Rightarrow> bool" where
  "steps R m \<longleftrightarrow> (\<forall>s. R s (snd (m s)))"

lemma stepsI: "(\<And>s. R s (snd (m s))) \<Longrightarrow> steps R m"
  by (simp add: steps_def)

lemma stepsD: "steps R m \<Longrightarrow> m s = (r, t) \<Longrightarrow> R s t"
  by (metis steps_def snd_conv)

lemma steps_mono: "steps R m \<Longrightarrow> (\<And>s t. R s t \<Longrightarrow> R' s t) \<Longrightarrow> steps R' m"
  by (auto simp: steps_def)

locale step_preorder =
  fixes R :: "'s \<Rightarrow> 's \<Rightarrow> bool"
  assumes R_refl: "R s s"
    and R_trans: "R s t \<Longrightarrow> R t u \<Longrightarrow> R s u"
begin

lemma st_ret: "steps R (ret x)"
  by (simp add: steps_def ret_def R_refl)

lemma st_throw: "steps R (throw c msg)"
  by (simp add: steps_def throw_def R_refl)

lemma st_rethrow: "steps R (rethrow e)"
  by (simp add: steps_def rethrow_def R_refl)

lemma st_reads: "steps R (reads f)"
  by (simp add: steps_def reads_def R_refl)

lemma st_bnd: "steps R m \<Longrightarrow> (\<And>x. steps R (f x)) \<Longrightarrow> steps R (bnd m f)"
  by (auto simp: steps_def bnd_def split: prod.split sum.split) (metis R_trans snd_conv)+

lemma st_andthen: "steps R m \<Longrightarrow> steps R n \<Longrightarrow> steps R (andthen m n)"
  unfolding andthen_def by (rule st_bnd)

lemma st_try: "steps R m \<Longrightarrow> (\<And>e. steps R (h e)) \<Longrightarrow> steps R (try_except m h)"
  by (auto simp: steps_def try_except_def split: prod.split sum.split) (metis R_trans snd_conv)+

lemma st_only_if: "(c \<Longrightarrow> steps R m) \<Longrightarrow> steps R (only_if c m)"
  by (simp add: only_if_def st_ret)

lemma st_if: "(c \<Longrightarrow> steps R m) \<Longrightarrow> (\<not> c \<Longrightarrow> steps R n) \<Longrightarrow> steps R (if c then m else n)"
  by simp

lemma st_option:
  "(v = None \<Longrightarrow> steps R m) \<Longrightarrow> (\<And>x. v = Some x \<Longrightarrow> steps R (f x)) \<Longrightarrow>
   steps R (case v of None \<Rightarrow> m | Some x \<Rightarrow> f x)"
  by (cases v) auto

lemma st_sum:
  "(\<And>e. v = Inl e \<Longrightarrow> steps R (g e)) \<Longrightarrow> (\<And>x. v = Inr x \<Longrightarrow> steps R (f x)) \<Longrightarrow>
   steps R (case v of Inl e \<Rightarrow> g e | Inr x \<Rightarrow> f x)"
  by (cases v) auto

lemma st_prod:
  "(\<And>a b. v = (a, b) \<Longrightarrow> steps R (f a b)) \<Longrightarrow> steps R (case v of (a, b) \<Rightarrow> f a b)"
  by (cases v) auto

lemma st_let: "(\<And>x. steps R (f x)) \<Longrightarrow> steps R (let x = v in f x)"
  by (simp add: Let_def)

lemma st_for_each: "(\<And>x. steps R (body x)) \<Longrightarrow> steps R (for_each xs body)"
  by (induction xs) (auto intro: st_ret st_andthen)

lemma st_map_prog: "(\<And>x. steps R (f x)) \<Longrightarrow> steps R (map_prog f xs)"
  by (induction xs) (auto intro!: st_ret st_bnd)

lemmas st_rules = st_ret st_throw st_rethrow st_reads st_bnd st_andthen st_try st_only_if st_if
  st_option st_sum st_prod st_let st_for_each st_map_prog

end

section \<open>Ordered dictionaries\<close>

text \<open>
  A Python \<open>dict\<close> iterates in insertion order and assigning to an existing key keeps its
  place: the association list operations of the library do the same.
\<close>

lemma map_of_update [simp]: "map_of (AList.update k v al) = (map_of al)(k \<mapsto> v)"
  by (rule update_conv')

lemma keys_update: "map fst (AList.update k v al) =
    (if k \<in> set (map fst al) then map fst al else map fst al @ [k])"
  by (induction al) auto

lemma distinct_keys_update: "distinct (map fst al) \<Longrightarrow> distinct (map fst (AList.update k v al))"
  by (simp add: keys_update)

lemma set_update:
  "distinct (map fst al) \<Longrightarrow>
   set (AList.update k v al) = insert (k, v) {p \<in> set al. fst p \<noteq> k}"
  by (induction al) (auto simp: image_iff)

lemma set_values_update:
  "x \<in> snd ` set (AList.update k v al) \<Longrightarrow> x = v \<or> x \<in> snd ` set al"
  by (induction al) (auto split: if_splits)

end
