(* ===== verification/PyValues.thy ===== *)
theory PyValues
  imports Program Sha256 Complex_Main "HOL-Library.List_Lexorder" "HOL-Library.Char_ord"
begin

text \<open>
  The Python values the records carry (\<open>dict[str, Any]\<close> payloads, trace rows, results) and the
  standard-library operations the code applies to them: truth value, \<open>str\<close>, \<open>repr\<close>, \<open>json.dumps\<close>,
  dictionary access and merge, text slicing, identifiers and timestamps.

  \<^item> A dictionary is an association list in insertion order.
  \<^item> Text is a list of characters with code points below 256; its UTF-8 encoding is written out.
  \<^item> A \<open>float\<close> is the exact rational it denotes in decimal; the code does no arithmetic whose
    rounding it relies on.
  \<^item> A \<open>UUID\<close> is its 128-bit integer, a \<open>datetime\<close> (always UTC) its microseconds since the epoch.
\<close>

datatype pyval =
    PNone
  | PBool bool
  | PInt int
  | PFloat rat
  | PStr string
  | PList "pyval list"
  | PDict "(string \<times> pyval) list"

type_synonym pydict = "(string \<times> pyval) list"

section \<open>Text\<close>

fun nat_digits :: "nat \<Rightarrow> string" where
  "nat_digits n = (if n < 10 then [char_of (48 + n)]
                   else nat_digits (n div 10) @ [char_of (48 + n mod 10)])"

declare nat_digits.simps [simp del]

definition int_str :: "int \<Rightarrow> string" where
  "int_str i = (if i < 0 then CHR ''-'' # nat_digits (nat (- i)) else nat_digits (nat i))"

text \<open>Zero-padded decimal, as \<open>isoformat\<close> and \<open>{n:06d}\<close> print it.\<close>

definition pad_digits :: "nat \<Rightarrow> nat \<Rightarrow> string" where
  "pad_digits k n = (let s = nat_digits n in replicate (k - length s) (CHR ''0'') @ s)"

fun join :: "string \<Rightarrow> string list \<Rightarrow> string" where
  "join sep [] = []"
| "join sep [x] = x"
| "join sep (x # y # xs) = x @ sep @ join sep (y # xs)"

definition startswith :: "string \<Rightarrow> string \<Rightarrow> bool" where
  "startswith s p \<longleftrightarrow> take (length p) s = p"

fun contains :: "string \<Rightarrow> string \<Rightarrow> bool" where
  "contains p [] \<longleftrightarrow> p = []"
| "contains p (c # s) \<longleftrightarrow> startswith (c # s) p \<or> contains p s"

text \<open>\<open>s[-n:]\<close>.\<close>

definition last_chars :: "nat \<Rightarrow> string \<Rightarrow> string" where
  "last_chars n s = drop (length s - n) s"

definition lower_char :: "char \<Rightarrow> char" where
  "lower_char c =
     (let n = of_char c :: nat
      in if (65 \<le> n \<and> n \<le> 90) \<or> (192 \<le> n \<and> n \<le> 222 \<and> n \<noteq> 215) then char_of (n + 32) else c)"

definition lower :: "string \<Rightarrow> string" where
  "lower s = map lower_char s"

definition is_space :: "char \<Rightarrow> bool" where
  "is_space c \<longleftrightarrow> (of_char c :: nat) \<in> {9, 10, 11, 12, 13, 28, 29, 30, 31, 32, 133, 160}"

definition strip :: "string \<Rightarrow> string" where
  "strip s = rev (dropWhile is_space (rev (dropWhile is_space s)))"

text \<open>\<open>s.encode()\<close>.\<close>

definition utf8 :: "string \<Rightarrow> nat list" where
  "utf8 s = concat (map (\<lambda>c. let n = of_char c :: nat in
      if n < 128 then [n] else [192 + n div 64, 128 + n mod 64]) s)"

section \<open>Rendering values\<close>

text \<open>
  \<open>str\<close> of a float: the shortest decimal with at least one fractional digit.  It agrees with
  CPython on the numbers with at most twelve fractional digits and magnitude in the range that
  prints without an exponent; beyond twelve digits it truncates.
\<close>

fun frac_digits :: "nat \<Rightarrow> rat \<Rightarrow> string" where
  "frac_digits 0 r = []"
| "frac_digits (Suc k) r =
     (if r = 0 then [] else
        (let d = \<lfloor>r * 10\<rfloor> in char_of (48 + nat d) # frac_digits k (r * 10 - of_int d)))"

definition float_str :: "rat \<Rightarrow> string" where
  "float_str r =
     (let a = \<bar>r\<bar>; ip = \<lfloor>a\<rfloor>; fp = frac_digits 12 (a - of_int ip)
      in (if r < 0 then ''-'' else []) @ nat_digits (nat ip) @ ''.''
         @ (if fp = [] then ''0'' else fp))"

definition hex2 :: "nat \<Rightarrow> string" where
  "hex2 n = hex_fixed 2 n"

text \<open>\<open>repr\<close> of text: single quotes unless only a single quote occurs inside.\<close>

definition repr_char :: "char \<Rightarrow> char \<Rightarrow> string" where
  "repr_char q c =
     (let n = of_char c :: nat
      in if c = q \<or> n = 92 then [char_of (92 :: nat), c]
         else if n = 10 then [char_of (92 :: nat)] @ ''n''
         else if n = 13 then [char_of (92 :: nat)] @ ''r''
         else if n = 9 then [char_of (92 :: nat)] @ ''t''
         else if n < 32 \<or> (127 \<le> n \<and> n \<le> 160) \<or> n = 173 then [char_of (92 :: nat)] @ ''x'' @ hex2 n
         else [c])"

definition single_quote :: char where "single_quote = char_of (39 :: nat)"
definition double_quote :: char where "double_quote = char_of (34 :: nat)"

definition repr_str :: "string \<Rightarrow> string" where
  "repr_str s =
     (let q = (if single_quote \<in> set s \<and> double_quote \<notin> set s then double_quote else single_quote)
      in q # concat (map (repr_char q) s) @ [q])"

fun py_repr :: "pyval \<Rightarrow> string"
  and py_repr_list :: "pyval list \<Rightarrow> string list"
  and py_repr_items :: "(string \<times> pyval) list \<Rightarrow> string list" where
  "py_repr PNone = ''None''"
| "py_repr (PBool b) = (if b then ''True'' else ''False'')"
| "py_repr (PInt i) = int_str i"
| "py_repr (PFloat r) = float_str r"
| "py_repr (PStr s) = repr_str s"
| "py_repr (PList vs) = ''['' @ join '', '' (py_repr_list vs) @ '']''"
| "py_repr (PDict kvs) = ''{'' @ join '', '' (py_repr_items kvs) @ ''}''"
| "py_repr_list [] = []"
| "py_repr_list (v # vs) = py_repr v # py_repr_list vs"
| "py_repr_items [] = []"
| "py_repr_items ((k, v) # kvs) = (repr_str k @ '': '' @ py_repr v) # py_repr_items kvs"

fun py_str :: "pyval \<Rightarrow> string" where
  "py_str (PStr s) = s"
| "py_str v = py_repr v"

text \<open>\<open>json.dumps(v, sort_keys=True)\<close> with the default separators and \<open>ensure_ascii\<close>.\<close>

definition json_char :: "char \<Rightarrow> string" where
  "json_char c =
     (let n = of_char c :: nat
      in if n = 34 \<or> n = 92 then [char_of (92 :: nat), c]
         else if n = 10 then [char_of (92 :: nat)] @ ''n''
         else if n = 13 then [char_of (92 :: nat)] @ ''r''
         else if n = 9 then [char_of (92 :: nat)] @ ''t''
         else if n = 8 then [char_of (92 :: nat)] @ ''b''
         else if n = 12 then [char_of (92 :: nat)] @ ''f''
         else if n < 32 \<or> 127 \<le> n then [char_of (92 :: nat)] @ ''u'' @ hex_fixed 4 n
         else [c])"

definition json_str :: "string \<Rightarrow> string" where
  "json_str s = double_quote # concat (map json_char s) @ [double_quote]"

fun json_dumps :: "pyval \<Rightarrow> string"
  and json_list :: "pyval list \<Rightarrow> string list"
  and json_items :: "(string \<times> pyval) list \<Rightarrow> (string \<times> string) list" where
  "json_dumps PNone = ''null''"
| "json_dumps (PBool b) = (if b then ''true'' else ''false'')"
| "json_dumps (PInt i) = int_str i"
| "json_dumps (PFloat r) = float_str r"
| "json_dumps (PStr s) = json_str s"
| "json_dumps (PList vs) = ''['' @ join '', '' (json_list vs) @ '']''"
| "json_dumps (PDict kvs) =
     ''{'' @ join '', '' (map (\<lambda>(k, s). json_str k @ '': '' @ s) (sort_key fst (json_items kvs))) @ ''}''"
| "json_list [] = []"
| "json_list (v # vs) = json_dumps v # json_list vs"
| "json_items [] = []"
| "json_items ((k, v) # kvs) = (k, json_dumps v) # json_items kvs"

text \<open>\<open>json.dumps(v)\<close>: keys in insertion order.\<close>

fun json_text :: "pyval \<Rightarrow> string"
  and json_texts :: "pyval list \<Rightarrow> string list"
  and json_entries :: "(string \<times> pyval) list \<Rightarrow> string list" where
  "json_text PNone = ''null''"
| "json_text (PBool b) = (if b then ''true'' else ''false'')"
| "json_text (PInt i) = int_str i"
| "json_text (PFloat r) = float_str r"
| "json_text (PStr s) = json_str s"
| "json_text (PList vs) = ''['' @ join '', '' (json_texts vs) @ '']''"
| "json_text (PDict kvs) = ''{'' @ join '', '' (json_entries kvs) @ ''}''"
| "json_texts [] = []"
| "json_texts (v # vs) = json_text v # json_texts vs"
| "json_entries [] = []"
| "json_entries ((k, v) # kvs) = (json_str k @ '': '' @ json_text v) # json_entries kvs"

section \<open>Truth, types and equality\<close>

text \<open>\<open>bool(v)\<close>, and the \<open>isinstance\<close> tests the code makes (\<open>bool\<close> is a subclass of \<open>int\<close>).\<close>

fun truthy :: "pyval \<Rightarrow> bool" where
  "truthy PNone \<longleftrightarrow> False"
| "truthy (PBool b) \<longleftrightarrow> b"
| "truthy (PInt i) \<longleftrightarrow> i \<noteq> 0"
| "truthy (PFloat r) \<longleftrightarrow> r \<noteq> 0"
| "truthy (PStr s) \<longleftrightarrow> s \<noteq> []"
| "truthy (PList vs) \<longleftrightarrow> vs \<noteq> []"
| "truthy (PDict kvs) \<longleftrightarrow> kvs \<noteq> []"

fun as_dict :: "pyval \<Rightarrow> pydict option" where
  "as_dict (PDict d) = Some d"
| "as_dict _ = None"

fun as_list :: "pyval \<Rightarrow> pyval list option" where
  "as_list (PList vs) = Some vs"
| "as_list _ = None"

fun as_str :: "pyval \<Rightarrow> string option" where
  "as_str (PStr s) = Some s"
| "as_str _ = None"

fun as_int :: "pyval \<Rightarrow> int option" where
  "as_int (PInt i) = Some i"
| "as_int (PBool b) = Some (if b then 1 else 0)"
| "as_int _ = None"

text \<open>\<open>float(v)\<close> when \<open>isinstance(v, (int, float))\<close>.\<close>

fun as_number :: "pyval \<Rightarrow> rat option" where
  "as_number (PFloat r) = Some r"
| "as_number (PInt i) = Some (of_int i)"
| "as_number (PBool b) = Some (if b then 1 else 0)"
| "as_number _ = None"

text \<open>\<open>==\<close>: numbers across their types, dictionaries whatever their order.\<close>

fun py_eq :: "pyval \<Rightarrow> pyval \<Rightarrow> bool"
  and py_eq_list :: "pyval list \<Rightarrow> pyval list \<Rightarrow> bool"
  and py_sub_dict :: "(string \<times> pyval) list \<Rightarrow> (string \<times> pyval) list \<Rightarrow> bool" where
  "py_eq (PList xs) v = (case v of PList ys \<Rightarrow> py_eq_list xs ys | _ \<Rightarrow> False)"
| "py_eq (PDict xs) v =
     (case v of PDict ys \<Rightarrow> length xs = length ys \<and> py_sub_dict xs ys | _ \<Rightarrow> False)"
| "py_eq (PStr s) v = (v = PStr s)"
| "py_eq PNone v = (v = PNone)"
| "py_eq (PBool b) v = (as_number v = Some (if b then 1 else 0))"
| "py_eq (PInt i) v = (as_number v = Some (of_int i))"
| "py_eq (PFloat r) v = (as_number v = Some r)"
| "py_eq_list [] ys = (ys = [])"
| "py_eq_list (x # xs) ys = (case ys of [] \<Rightarrow> False | y # ys' \<Rightarrow> py_eq x y \<and> py_eq_list xs ys')"
| "py_sub_dict [] d = True"
| "py_sub_dict ((k, v) # kvs) d =
     ((case map_of d k of None \<Rightarrow> False | Some w \<Rightarrow> py_eq v w) \<and> py_sub_dict kvs d)"

text \<open>Values whose dictionaries have no repeated key, as every Python dictionary.\<close>

fun wf_val :: "pyval \<Rightarrow> bool" where
  "wf_val (PList vs) \<longleftrightarrow> (\<forall>v \<in> set vs. wf_val v)"
| "wf_val (PDict kvs) \<longleftrightarrow> distinct (map fst kvs) \<and> (\<forall>p \<in> set kvs. wf_val (snd p))"
| "wf_val _ \<longleftrightarrow> True"

abbreviation wf_dict :: "pydict \<Rightarrow> bool" where
  "wf_dict d \<equiv> wf_val (PDict d)"

section \<open>Dictionaries\<close>

text \<open>\<open>d.get(k)\<close>, \<open>d.get(k, default)\<close>, \<open>d[k] = v\<close>, \<open>d.pop(k, None)\<close> and \<open>{**a, **b}\<close>.\<close>

definition dget :: "pydict \<Rightarrow> string \<Rightarrow> pyval" where
  "dget d k = (case map_of d k of Some v \<Rightarrow> v | None \<Rightarrow> PNone)"

definition dget_default :: "pydict \<Rightarrow> string \<Rightarrow> pyval \<Rightarrow> pyval" where
  "dget_default d k v = (case map_of d k of Some w \<Rightarrow> w | None \<Rightarrow> v)"

definition has_key :: "pydict \<Rightarrow> string \<Rightarrow> bool" where
  "has_key d k \<longleftrightarrow> map_of d k \<noteq> None"

definition dset :: "string \<Rightarrow> pyval \<Rightarrow> pydict \<Rightarrow> pydict" where
  "dset k v d = AList.update k v d"

definition dpop :: "string \<Rightarrow> pydict \<Rightarrow> pydict" where
  "dpop k d = AList.delete k d"

definition dmerge :: "pydict \<Rightarrow> pydict \<Rightarrow> pydict" where
  "dmerge a b = foldl (\<lambda>d (k, v). AList.update k v d) a b"

definition opt_str :: "string option \<Rightarrow> pyval" where
  "opt_str x = (case x of None \<Rightarrow> PNone | Some s \<Rightarrow> PStr s)"

text \<open>\<open>v or w\<close>.\<close>

definition py_or :: "pyval \<Rightarrow> pyval \<Rightarrow> pyval" where
  "py_or v w = (if truthy v then v else w)"

lemma dget_dset [simp]: "dget (dset k v d) k' = (if k = k' then v else dget d k')"
  by (simp add: dget_def dset_def)

lemma dget_dpop [simp]: "dget (dpop k d) k' = (if k = k' then PNone else dget d k')"
  by (simp add: dget_def dpop_def delete_conv')

lemma map_of_dset [simp]: "map_of (dset k v d) = (map_of d)(k \<mapsto> v)"
  by (simp add: dset_def)

lemma map_of_dpop [simp]: "map_of (dpop k d) = (map_of d)(k := None)"
  by (simp add: dpop_def delete_conv')

lemma has_key_dset [simp]: "has_key (dset k v d) k' \<longleftrightarrow> k = k' \<or> has_key d k'"
  by (auto simp: has_key_def)

lemma has_key_dpop [simp]: "has_key (dpop k d) k' \<longleftrightarrow> k \<noteq> k' \<and> has_key d k'"
  by (auto simp: has_key_def)

lemma map_of_dmerge: "distinct (map fst b) \<Longrightarrow> map_of (dmerge a b) = map_of a ++ map_of b"
proof (induction b arbitrary: a)
  case Nil
  then show ?case by (simp add: dmerge_def)
next
  case (Cons p b)
  obtain k v where p: "p = (k, v)" by (cases p)
  have "map_of (dmerge (AList.update k v a) b) = map_of (AList.update k v a) ++ map_of b"
    using Cons by simp
  moreover have "map_of b k = None"
    using Cons.prems p by (simp add: map_of_eq_None_iff)
  ultimately show ?case
    by (auto simp: dmerge_def p fun_eq_iff map_add_def split: option.split)
qed

lemma dget_dmerge:
  "distinct (map fst b) \<Longrightarrow> dget (dmerge a b) k = (case map_of b k of Some v \<Rightarrow> v | None \<Rightarrow> dget a k)"
  by (simp add: dget_def map_of_dmerge map_add_def split: option.split)

lemma distinct_dset: "distinct (map fst d) \<Longrightarrow> distinct (map fst (dset k v d))"
  by (simp add: dset_def distinct_keys_update)

lemma distinct_dpop: "distinct (map fst d) \<Longrightarrow> distinct (map fst (dpop k d))"
  by (simp add: dpop_def distinct_delete)

lemma wf_dset: "wf_dict d \<Longrightarrow> wf_val v \<Longrightarrow> wf_dict (dset k v d)"
  using distinct_dset[of d k v] by (auto simp: dset_def set_update)

lemma wf_dpop: "wf_dict d \<Longrightarrow> wf_dict (dpop k d)"
  using distinct_dpop[of d k] by (auto simp: dpop_def AList.delete_eq)

lemma wf_dmerge: "wf_dict a \<Longrightarrow> (\<forall>p \<in> set b. wf_val (snd p)) \<Longrightarrow> wf_dict (dmerge a b)"
proof (induction b arbitrary: a)
  case (Cons p b)
  have "wf_dict (dset (fst p) (snd p) a)"
    using Cons.prems by (intro wf_dset) auto
  from Cons.IH[OF this] Cons.prems(2) show ?case
    by (cases p) (simp add: dmerge_def dset_def)
qed (simp add: dmerge_def)

lemma wf_dget: "wf_dict d \<Longrightarrow> wf_val (dget d k)"
  by (auto simp: dget_def split: option.split dest: map_of_SomeD)

lemma py_eq_list_refl: "(\<forall>v \<in> set vs. py_eq v v) \<Longrightarrow> py_eq_list vs vs"
  by (induction vs) auto

lemma py_sub_dict_refl:
  "(\<forall>p \<in> set kvs. py_eq (snd p) (snd p) \<and> map_of d (fst p) = Some (snd p)) \<Longrightarrow> py_sub_dict kvs d"
  by (induction kvs) (auto split: prod.splits)

lemma py_eq_refl: "wf_val v \<Longrightarrow> py_eq v v"
proof (induction v)
  case (PList vs)
  then show ?case by (simp add: py_eq_list_refl)
next
  case (PDict kvs)
  have "py_sub_dict kvs kvs"
  proof (rule py_sub_dict_refl, rule ballI)
    fix p assume p: "p \<in> set kvs"
    then have "map_of kvs (fst p) = Some (snd p)"
      using PDict.prems by simp
    moreover have "py_eq (snd p) (snd p)"
      using PDict.IH[of p "snd p"] PDict.prems p by (cases p) auto
    ultimately show "py_eq (snd p) (snd p) \<and> map_of kvs (fst p) = Some (snd p)" by simp
  qed
  then show ?case by simp
qed simp_all

end
