(* ===== verification/Schemas.thy ===== *)
theory Schemas
  imports PyValues
begin

text \<open>
  The shared data model (\<open>packages/common-schemas\<close>): identifiers, timestamps, enumerations and
  the Pydantic records the services exchange.  A record field keeps the name of the source with a
  prefix for its class; an enumeration constructor keeps its member name with a prefix for its
  class; \<open>*_value\<close> is the member's string.  Field bounds (\<open>max_length\<close>, \<open>ge\<close>, \<open>le\<close>) are the
  \<open>*_valid\<close> predicates that the constructors check where a value can break them.
\<close>

section \<open>Identifiers\<close>

type_synonym uuid = nat
type_synonym datetime = int

abbreviation uuid_bound :: nat where
  "uuid_bound \<equiv> 2 ^ 128"

text \<open>\<open>str(u)\<close>: 32 hexadecimal digits grouped 8-4-4-4-12.\<close>

definition uuid_str :: "uuid \<Rightarrow> string" where
  "uuid_str u =
     (let h = hex_fixed 32 u
      in take 8 h @ ''-'' @ take 4 (drop 8 h) @ ''-'' @ take 4 (drop 12 h) @ ''-''
         @ take 4 (drop 16 h) @ ''-'' @ drop 20 h)"

text \<open>\<open>repr(u)\<close>, which is what \<open>str(KeyError(u))\<close> prints.\<close>

definition uuid_repr :: "uuid \<Rightarrow> string" where
  "uuid_repr u = ''UUID('' @ repr_str (uuid_str u) @ '')''"

text \<open>
  \<open>UUID(s)\<close> on text of hexadecimal digits, dashes and outer braces; anything else is the
  \<open>ValueError\<close> of a badly formed identifier.
\<close>

definition uuid_parse :: "string \<Rightarrow> uuid option" where
  "uuid_parse s =
     (let h = lower (filter (\<lambda>c. c \<noteq> CHR ''-'' \<and> c \<noteq> CHR ''{'' \<and> c \<noteq> CHR ''}'') s)
      in if length h = 32 \<and> list_all (\<lambda>c. hex_value c \<noteq> None) h then Some (int_of_hex h) else None)"

lemma hex_value_hex_digit [simp]: "hex_value (hex_digit n) = Some (n mod 16)"
proof -
  have "list_all (\<lambda>m. hex_value (hex_digits ! m) = Some m) [0..<16]"
    by code_simp
  then have "hex_value (hex_digits ! m) = Some m" if "m < 16" for m
    using that by (simp add: list_all_iff)
  then show ?thesis
    by (simp add: hex_digit_def)
qed

lemma hex_fixed_Suc: "hex_fixed (Suc k) n = hex_fixed k (n div 16) @ [hex_digit n]"
proof -
  have "n div 16 div 16 ^ (k - Suc i) = n div 16 ^ (k - i)" if "i < k" for i
    using that by (metis Suc_diff_Suc div_mult2_eq power_Suc)
  then show ?thesis
    by (auto simp: hex_fixed_def div_mult2_eq)
qed

lemma int_of_hex_snoc: "int_of_hex (s @ [hex_digit d]) = 16 * int_of_hex s + d mod 16"
  by (simp add: int_of_hex_def)

lemma int_of_hex_fixed: "int_of_hex (hex_fixed k n) = n mod 16 ^ k"
proof (induction k arbitrary: n)
  case 0
  then show ?case by (simp add: hex_fixed_def int_of_hex_def)
next
  case (Suc k)
  have "n mod 16 ^ Suc k = 16 * (n div 16 mod 16 ^ k) + n mod 16"
    by (simp add: mod_mult2_eq)
  with Suc show ?case
    by (simp add: hex_fixed_Suc int_of_hex_snoc)
qed

lemma lower_hex_digits: "set s \<subseteq> set hex_digits \<Longrightarrow> lower s = s"
  unfolding lower_def by (rule map_idI) (auto simp: hex_digits_def lower_char_def)

lemma hex_value_hex_digits: "c \<in> set hex_digits \<Longrightarrow> hex_value c \<noteq> None"
  by (auto simp: hex_digits_def hex_value_def)

lemma uuid_str_digits:
  "filter (\<lambda>c. c \<noteq> CHR ''-'' \<and> c \<noteq> CHR ''{'' \<and> c \<noteq> CHR ''}'') (uuid_str u) = hex_fixed 32 u"
proof -
  let ?P = "\<lambda>c. c \<noteq> CHR ''-'' \<and> c \<noteq> CHR ''{'' \<and> c \<noteq> CHR ''}''"
  let ?h = "hex_fixed 32 u"
  have keep: "filter ?P s = s" if "set s \<subseteq> set ?h" for s
    using that set_hex_fixed[of 32 u] by (intro filter_True) (auto simp: hex_digits_def)
  have join: "take a ?h @ take b (drop a ?h) @ r = take (a + b) ?h @ r" for a b :: nat and r
    by (simp add: take_add)
  have split: "take 8 ?h @ take 4 (drop 8 ?h) @ take 4 (drop 12 ?h) @ take 4 (drop 16 ?h) @ drop 20 ?h = ?h"
    using join[of 8 4 "take 4 (drop 12 ?h) @ take 4 (drop 16 ?h) @ drop 20 ?h"]
      join[of 12 4 "take 4 (drop 16 ?h) @ drop 20 ?h"] join[of 16 4 "drop 20 ?h"]
    by simp
  have "set (take 8 ?h) \<subseteq> set ?h" "set (take 4 (drop 8 ?h)) \<subseteq> set ?h"
    "set (take 4 (drop 12 ?h)) \<subseteq> set ?h" "set (take 4 (drop 16 ?h)) \<subseteq> set ?h"
    "set (drop 20 ?h) \<subseteq> set ?h"
    by (meson set_drop_subset set_take_subset subset_trans)+
  then show ?thesis
    unfolding uuid_str_def Let_def filter_append by (simp add: keep split)
qed

lemma uuid_parse_mod: "uuid_parse (uuid_str u) = Some (u mod uuid_bound)"
proof -
  have "list_all (\<lambda>c. hex_value c \<noteq> None) (hex_fixed 32 u)"
    using set_hex_fixed[of 32 u] hex_value_hex_digits by (auto simp: list_all_iff)
  then show ?thesis
    using lower_hex_digits[OF set_hex_fixed, of 32 u]
    by (simp add: uuid_parse_def uuid_str_digits int_of_hex_fixed)
qed

lemma uuid_parse_str: "u < uuid_bound \<Longrightarrow> uuid_parse (uuid_str u) = Some u"
  by (simp add: uuid_parse_mod)

text \<open>The text of an identifier depends on its 128 bits only.\<close>

lemma hex_fixed_mod: "hex_fixed k (n mod 16 ^ k) = hex_fixed k n"
proof (induction k arbitrary: n)
  case (Suc k)
  have "n mod 16 ^ Suc k div 16 = n div 16 mod 16 ^ k" by (simp add: mod_mult2_eq)
  moreover have "hex_digit (n mod 16 ^ Suc k) = hex_digit n"
    by (simp add: hex_digit_def mod_mod_cancel)
  ultimately show ?case using Suc by (simp add: hex_fixed_Suc)
qed (simp add: hex_fixed_def)

lemma uuid_str_mod: "uuid_str (u mod uuid_bound) = uuid_str u"
  using hex_fixed_mod[of 32 u] by (simp add: uuid_str_def)

lemma length_uuid_str [simp]: "length (uuid_str u) = 36"
  by (simp add: uuid_str_def Let_def length_hex_fixed)

lemma uuid_str_inj: "u < uuid_bound \<Longrightarrow> v < uuid_bound \<Longrightarrow> uuid_str u = uuid_str v \<longleftrightarrow> u = v"
  by (metis option.inject uuid_parse_str)

section \<open>Timestamps\<close>

text \<open>
  \<open>datetime.isoformat()\<close> in UTC: the civil date from the day number (the era of 400 years begins
  on 1 March), the time of day, and six digits of microseconds when they are not zero.
\<close>

definition civil_from_days :: "int \<Rightarrow> int \<times> int \<times> int" where
  "civil_from_days days =
     (let z = days + 719468;
          era = z div 146097;
          doe = z mod 146097;
          yoe = (doe - doe div 1460 + doe div 36524 - doe div 146096) div 365;
          doy = doe - (365 * yoe + yoe div 4 - yoe div 100);
          mp = (5 * doy + 2) div 153;
          d = doy - (153 * mp + 2) div 5 + 1;
          m = (if mp < 10 then mp + 3 else mp - 9);
          y = yoe + era * 400 + (if m \<le> 2 then 1 else 0)
      in (y, m, d))"

definition iso_body :: "datetime \<Rightarrow> string" where
  "iso_body t =
     (let secs = t div 1000000; us = t mod 1000000;
          (y, m, d) = civil_from_days (secs div 86400);
          sod = secs mod 86400
      in pad_digits 4 (nat y) @ ''-'' @ pad_digits 2 (nat m) @ ''-'' @ pad_digits 2 (nat d) @ ''T''
         @ pad_digits 2 (nat (sod div 3600)) @ '':'' @ pad_digits 2 (nat (sod mod 3600 div 60)) @ '':''
         @ pad_digits 2 (nat (sod mod 60))
         @ (if us = 0 then [] else ''.'' @ pad_digits 6 (nat us)))"

definition isoformat :: "datetime \<Rightarrow> string" where
  "isoformat t = iso_body t @ ''+00:00''"

text \<open>The JSON form Pydantic gives a UTC timestamp.\<close>

definition json_datetime :: "datetime \<Rightarrow> string" where
  "json_datetime t = iso_body t @ ''Z''"

section \<open>Executions\<close>

datatype execution_status =
    ES_CREATED | ES_PLANNING | ES_EXECUTING | ES_VALIDATING | ES_AWAITING_APPROVAL
  | ES_COMPLETED | ES_FAILED | ES_CANCELLED

fun execution_status_value :: "execution_status \<Rightarrow> string" where
  "execution_status_value ES_CREATED = ''created''"
| "execution_status_value ES_PLANNING = ''planning''"
| "execution_status_value ES_EXECUTING = ''executing''"
| "execution_status_value ES_VALIDATING = ''validating''"
| "execution_status_value ES_AWAITING_APPROVAL = ''awaiting_approval''"
| "execution_status_value ES_COMPLETED = ''completed''"
| "execution_status_value ES_FAILED = ''failed''"
| "execution_status_value ES_CANCELLED = ''cancelled''"

definition all_execution_statuses :: "execution_status list" where
  "all_execution_statuses =
     [ES_CREATED, ES_PLANNING, ES_EXECUTING, ES_VALIDATING, ES_AWAITING_APPROVAL,
      ES_COMPLETED, ES_FAILED, ES_CANCELLED]"

text \<open>The lifecycle order of the declaration; the status type is linearly ordered by it.\<close>

fun status_rank :: "execution_status \<Rightarrow> nat" where
  "status_rank ES_CREATED = 0"
| "status_rank ES_PLANNING = 1"
| "status_rank ES_EXECUTING = 2"
| "status_rank ES_VALIDATING = 3"
| "status_rank ES_AWAITING_APPROVAL = 4"
| "status_rank ES_COMPLETED = 5"
| "status_rank ES_FAILED = 6"
| "status_rank ES_CANCELLED = 7"

lemma status_rank_inj: "status_rank a = status_rank b \<Longrightarrow> a = b"
  by (cases a; cases b) simp_all

instantiation execution_status :: linorder
begin

definition less_eq_execution_status :: "execution_status \<Rightarrow> execution_status \<Rightarrow> bool" where
  "less_eq_execution_status a b \<longleftrightarrow> status_rank a \<le> status_rank b"

definition less_execution_status :: "execution_status \<Rightarrow> execution_status \<Rightarrow> bool" where
  "less_execution_status a b \<longleftrightarrow> status_rank a < status_rank b"

instance
  by standard (auto simp: less_eq_execution_status_def less_execution_status_def
      intro: status_rank_inj)

end

lemma execution_status_value_inj: "execution_status_value a = execution_status_value b \<longleftrightarrow> a = b"
  by (cases a; cases b) simp_all

datatype execution_mode = EM_INTERACTIVE | EM_BACKGROUND

fun execution_mode_value :: "execution_mode \<Rightarrow> string" where
  "execution_mode_value EM_INTERACTIVE = ''interactive''"
| "execution_mode_value EM_BACKGROUND = ''background''"

record exec_context =
  ctx_id :: uuid
  ctx_tenant_id :: string
  ctx_principal_id :: "string option"
  ctx_actor :: "string option"
  ctx_request_id :: string
  ctx_environment :: string
  ctx_permissions_scope :: pydict
  ctx_policy_scope :: string
  ctx_feature_flags :: "pydict option"
  ctx_created_at :: datetime
  ctx_updated_at :: datetime

record execution =
  ex_id :: uuid
  ex_workflow_type :: string
  ex_status :: execution_status
  ex_mode :: execution_mode
  ex_context_id :: uuid
  ex_parent_id :: "uuid option"
  ex_plan_id :: "uuid option"
  ex_input :: pydict
  ex_result :: "pydict option"
  ex_timeline :: "pydict list"
  ex_validation_summary :: "pydict option"
  ex_created_at :: datetime
  ex_updated_at :: datetime
  ex_completed_at :: "datetime option"
  ex_cancelled_at :: "datetime option"

datatype replay_mode = RM_EXACT | RM_INVESTIGATIVE

fun replay_mode_value :: "replay_mode \<Rightarrow> string" where
  "replay_mode_value RM_EXACT = ''exact''"
| "replay_mode_value RM_INVESTIGATIVE = ''investigative''"

definition REPLAY_PROVENANCE_INPUT_KEY :: string where
  "REPLAY_PROVENANCE_INPUT_KEY = ''__replay_provenance__''"

record replay_request =
  rr_source :: uuid
  rr_mode :: replay_mode
  rr_environment_target :: string
  rr_anchor_plan :: "uuid option"
  rr_override_plan :: "pydict option"
  rr_input_overrides :: "pydict option"
  rr_reason :: "string option"
  rr_requested_by :: "string option"
  rr_execution_mode :: "execution_mode option"
  rr_label :: "string option"
  rr_start :: bool

record replay_provenance =
  rp_source :: uuid
  rp_mode :: replay_mode
  rp_requested_by :: "string option"
  rp_reason :: "string option"
  rp_label :: "string option"
  rp_input_overrides :: pydict
  rp_anchor_plan :: "uuid option"
  rp_environment_target :: string
  rp_created_execution :: uuid
  rp_created_at :: datetime

record replay_response =
  rs_replay_execution :: uuid
  rs_source :: uuid
  rs_status :: string
  rs_mode :: replay_mode
  rs_provenance :: replay_provenance

section \<open>Plans, steps and results\<close>

datatype step_status = SS_PENDING | SS_RUNNING | SS_SUCCEEDED | SS_FAILED | SS_SKIPPED | SS_CANCELLED

fun step_status_value :: "step_status \<Rightarrow> string" where
  "step_status_value SS_PENDING = ''pending''"
| "step_status_value SS_RUNNING = ''running''"
| "step_status_value SS_SUCCEEDED = ''succeeded''"
| "step_status_value SS_FAILED = ''failed''"
| "step_status_value SS_SKIPPED = ''skipped''"
| "step_status_value SS_CANCELLED = ''cancelled''"

text \<open>\<open>StepType | str\<close>: a member of the enumeration, or a plain string.\<close>

datatype step_type =
  ST_RETRIEVAL | ST_TOOL | ST_REASONING | ST_VALIDATION | ST_ACTION | ST_Plain string

fun step_type_value :: "step_type \<Rightarrow> string" where
  "step_type_value ST_RETRIEVAL = ''retrieval''"
| "step_type_value ST_TOOL = ''tool''"
| "step_type_value ST_REASONING = ''reasoning''"
| "step_type_value ST_VALIDATION = ''validation''"
| "step_type_value ST_ACTION = ''action''"
| "step_type_value (ST_Plain s) = s"

datatype completeness = SC_FULL | SC_PARTIAL | SC_DEGRADED

record execution_plan =
  pl_id :: uuid
  pl_execution_id :: uuid
  pl_parent_id :: "uuid option"
  pl_version :: int
  pl_revision_reason :: "string option"
  pl_goal :: pydict
  pl_steps :: "pydict list"
  pl_dependencies :: "pydict list"
  pl_ordering :: pydict
  pl_metadata :: pydict
  pl_created_at :: datetime

record step =
  st_id :: uuid
  st_execution_id :: uuid
  st_plan_id :: uuid
  st_type :: step_type
  st_agent :: string
  st_input :: pydict
  st_status :: step_status
  st_dependencies :: "uuid list"
  st_retry_count :: int
  st_degraded_allowed :: bool
  st_created_at :: datetime
  st_updated_at :: datetime

record validation_outcome =
  vo_status :: string
  vo_details :: pydict

record step_result =
  sr_id :: uuid
  sr_step_id :: uuid
  sr_output :: "pydict option"
  sr_evidence :: "pydict list"
  sr_errors :: "pydict list"
  sr_latency_ms :: "int option"
  sr_latency_started_at :: "datetime option"
  sr_latency_ended_at :: "datetime option"
  sr_confidence :: "rat option"
  sr_confidence_detail :: "pydict option"
  sr_completeness :: "completeness option"
  sr_validation :: "validation_outcome option"
  sr_created_at :: datetime
  sr_updated_at :: datetime

text \<open>The bounds \<open>StepResult\<close> declares on its numbers.\<close>

definition unit_interval :: "rat option \<Rightarrow> bool" where
  "unit_interval c \<longleftrightarrow> (case c of None \<Rightarrow> True | Some r \<Rightarrow> 0 \<le> r \<and> r \<le> 1)"

definition nonneg_opt :: "int option \<Rightarrow> bool" where
  "nonneg_opt x \<longleftrightarrow> (case x of None \<Rightarrow> True | Some i \<Rightarrow> 0 \<le> i)"

definition step_result_valid :: "step_result \<Rightarrow> bool" where
  "step_result_valid r \<longleftrightarrow> unit_interval (sr_confidence r) \<and> nonneg_opt (sr_latency_ms r)"

end
