(* ===== verification/Contracts.thy ===== *)
theory Contracts
  imports Schemas
begin

text \<open>
  The records exchanged at the service boundaries: governance (\<open>policy.py\<close>,
  \<open>policy_management.py\<close>), tools (\<open>tooling.py\<close>), model reasoning (\<open>reasoning.py\<close>,
  \<open>cost_attribution.py\<close>) and retrieval (\<open>knowledge.py\<close>).
\<close>

section \<open>Governance\<close>

datatype policy_decision = PD_ALLOW | PD_DENY | PD_CONDITIONAL

fun policy_decision_value :: "policy_decision \<Rightarrow> string" where
  "policy_decision_value PD_ALLOW = ''allow''"
| "policy_decision_value PD_DENY = ''deny''"
| "policy_decision_value PD_CONDITIONAL = ''conditional''"

datatype risk_level = RL_LOW | RL_MEDIUM | RL_HIGH

fun risk_level_value :: "risk_level \<Rightarrow> string" where
  "risk_level_value RL_LOW = ''low''"
| "risk_level_value RL_MEDIUM = ''medium''"
| "risk_level_value RL_HIGH = ''high''"

datatype proposal_status =
    AP_PROPOSED | AP_POLICY_DENIED | AP_AWAITING_APPROVAL | AP_APPROVED | AP_REJECTED
  | AP_EXECUTED | AP_FAILED

record policy_evaluation =
  pe_id :: uuid
  pe_execution_id :: uuid
  pe_context_id :: uuid
  pe_decision :: policy_decision
  pe_reason :: string
  pe_rules :: "pydict list"
  pe_subject_ref :: pydict
  pe_created_at :: datetime
  pe_updated_at :: datetime

datatype approval_decision = AD_APPROVE | AD_REJECT | AD_DEFER

fun approval_decision_value :: "approval_decision \<Rightarrow> string" where
  "approval_decision_value AD_APPROVE = ''approve''"
| "approval_decision_value AD_REJECT = ''reject''"
| "approval_decision_value AD_DEFER = ''defer''"

record approval =
  apr_id :: uuid
  apr_execution_id :: uuid
  apr_evaluation_id :: "uuid option"
  apr_proposal_id :: "uuid option"
  apr_approver :: string
  apr_decision :: approval_decision
  apr_notes :: "string option"
  apr_decided_at :: datetime
  apr_created_at :: datetime
  apr_updated_at :: datetime

text \<open>\<open>require_evaluation_or_proposal\<close>, the model validator of \<open>Approval\<close>.\<close>

definition approval_valid :: "approval \<Rightarrow> bool" where
  "approval_valid a \<longleftrightarrow> \<not> (apr_evaluation_id a = None \<and> apr_proposal_id a = None)"

record action_proposal =
  ap_id :: uuid
  ap_execution_id :: uuid
  ap_step_id :: "uuid option"
  ap_action_type :: string
  ap_payload :: pydict
  ap_risk_level :: risk_level
  ap_requires_approval :: bool
  ap_status :: proposal_status
  ap_created_at :: datetime
  ap_updated_at :: datetime

record rule_descriptor =
  rd_rule_id :: string
  rd_description :: string
  rd_applies_to :: "string list"
  rd_decision :: string
  rd_reason :: string

record simulate_request =
  sq_action_type :: string
  sq_risk_level :: risk_level
  sq_context :: pydict
  sq_feature_flags :: "pydict option"

record simulate_result =
  sm_decision :: policy_decision
  sm_reason :: string
  sm_matched_rules :: "pydict list"
  sm_rule_references :: "string list"
  sm_rule_pack_id :: string

text \<open>The bounds \<open>PolicySimulateResult\<close> declares.\<close>

definition simulate_result_valid :: "simulate_result \<Rightarrow> bool" where
  "simulate_result_valid r \<longleftrightarrow>
     length (sm_reason r) \<le> 2000 \<and> length (sm_rule_references r) \<le> 64
     \<and> length (sm_rule_pack_id r) \<le> 64"

section \<open>Tools\<close>

datatype side_effect_class = SE_READ_ONLY | SE_STATE_CHANGING
datatype tool_idempotency = TI_IDEMPOTENT | TI_NON_IDEMPOTENT
datatype tool_call_status = TC_SUCCESS | TC_FAILURE | TC_TIMEOUT | TC_REJECTED_BY_POLICY

fun tool_call_status_value :: "tool_call_status \<Rightarrow> string" where
  "tool_call_status_value TC_SUCCESS = ''success''"
| "tool_call_status_value TC_FAILURE = ''failure''"
| "tool_call_status_value TC_TIMEOUT = ''timeout''"
| "tool_call_status_value TC_REJECTED_BY_POLICY = ''rejected_by_policy''"

record tool_retry_policy =
  rt_max_retries :: nat
  rt_backoff_ms :: nat

definition tool_retry_policy_valid :: "tool_retry_policy \<Rightarrow> bool" where
  "tool_retry_policy_valid p \<longleftrightarrow> rt_max_retries p \<le> 8 \<and> rt_backoff_ms p \<le> 60000"

record registered_tool =
  tl_name :: string
  tl_side_effect :: side_effect_class
  tl_idempotency :: tool_idempotency
  tl_timeout_ms :: nat
  tl_description :: string
  tl_provider_id :: string
  tl_retry_policy :: tool_retry_policy

definition registered_tool_valid :: "registered_tool \<Rightarrow> bool" where
  "registered_tool_valid t \<longleftrightarrow>
     1 \<le> tl_timeout_ms t \<and> length (tl_provider_id t) \<le> 64
     \<and> tool_retry_policy_valid (tl_retry_policy t)"

record tool_request =
  tq_execution_id :: uuid
  tq_step_id :: uuid
  tq_context_id :: uuid
  tq_tool_name :: string
  tq_input :: pydict
  tq_proposal_id :: "uuid option"
  tq_policy_denied :: bool

record tool_call =
  tc_id :: uuid
  tc_execution_id :: uuid
  tc_step_id :: uuid
  tc_context_id :: uuid
  tc_proposal_id :: "uuid option"
  tc_tool_name :: string
  tc_side_effect :: side_effect_class
  tc_idempotency :: tool_idempotency
  tc_input :: pydict
  tc_output :: "pydict option"
  tc_status :: tool_call_status
  tc_latency_ms :: "int option"
  tc_error :: "pydict option"
  tc_created_at :: datetime
  tc_updated_at :: datetime

section \<open>Retrieval\<close>

record retrieval_request =
  rq_tenant_id :: string
  rq_workflow_type :: string
  rq_query :: string
  rq_max_results :: int
  rq_filters :: pydict
  rq_corpus_version :: "string option"
  rq_correlation_id :: "string option"

record evidence_chunk =
  ch_chunk_id :: string
  ch_document_id :: "string option"
  ch_source_uri :: string
  ch_title :: "string option"
  ch_text_excerpt :: string
  ch_score :: "rat option"
  ch_corpus_version :: "string option"
  ch_metadata :: pydict

record retrieval_response =
  rv_retrieval_id :: uuid
  rv_query :: string
  rv_chunks :: "evidence_chunk list"
  rv_corpus_version :: string
  rv_metadata :: pydict

section \<open>Model reasoning\<close>

record incident_analysis_request =
  iq_execution_id :: uuid
  iq_step_id :: uuid
  iq_incident_id :: string
  iq_workflow_type :: string
  iq_excerpt :: pydict

definition incident_analysis_request_valid :: "incident_analysis_request \<Rightarrow> bool" where
  "incident_analysis_request_valid r \<longleftrightarrow>
     length (iq_incident_id r) \<le> 256 \<and> length (iq_workflow_type r) \<le> 64"

record model_telemetry =
  mt_latency_ms :: nat
  mt_retry_count :: nat
  mt_provider_type :: string
  mt_model_name :: string
  mt_input_tokens :: nat
  mt_output_tokens :: nat
  mt_total_tokens :: nat
  mt_timed_out :: bool

text \<open>\<open>invocation.model_dump()\<close>.\<close>

definition telemetry_dump :: "model_telemetry \<Rightarrow> pydict" where
  "telemetry_dump t =
     [(''latency_ms'', PInt (int (mt_latency_ms t))),
      (''retry_count'', PInt (int (mt_retry_count t))),
      (''provider_type'', PStr (mt_provider_type t)),
      (''model_name'', PStr (mt_model_name t)),
      (''input_tokens'', PInt (int (mt_input_tokens t))),
      (''output_tokens'', PInt (int (mt_output_tokens t))),
      (''total_tokens'', PInt (int (mt_total_tokens t))),
      (''timed_out'', PBool (mt_timed_out t))]"

record incident_analysis_output =
  io_incident_summary :: string
  io_possible_causes :: "string list"
  io_invocation_id :: string
  io_provider_label :: string
  io_invocation :: "model_telemetry option"

record incident_validation_request =
  jq_execution_id :: uuid
  jq_step_id :: uuid
  jq_incident_id :: string
  jq_prior_causes :: "string list"
  jq_prior_summary :: string
  jq_evidence_summary :: string

definition incident_validation_request_valid :: "incident_validation_request \<Rightarrow> bool" where
  "incident_validation_request_valid r \<longleftrightarrow>
     length (jq_incident_id r) \<le> 256 \<and> length (jq_prior_causes r) \<le> 16
     \<and> length (jq_prior_summary r) \<le> 2000 \<and> length (jq_evidence_summary r) \<le> 2000"

record incident_validation_output =
  jo_likely_cause :: string
  jo_validation_status :: string
  jo_confidence :: rat
  jo_rationale :: string
  jo_digest :: string
  jo_invocation_id :: string
  jo_provider_label :: string
  jo_invocation :: "model_telemetry option"

record cost_analysis_request =
  cq_execution_id :: uuid
  cq_step_id :: uuid
  cq_scope_id :: string
  cq_workflow_type :: string
  cq_excerpt :: pydict

definition cost_analysis_request_valid :: "cost_analysis_request \<Rightarrow> bool" where
  "cost_analysis_request_valid r \<longleftrightarrow>
     length (cq_scope_id r) \<le> 256 \<and> length (cq_workflow_type r) \<le> 64"

record cost_analysis_output =
  co_service :: string
  co_team :: string
  co_anomaly_type :: string
  co_impact_usd :: rat
  co_summary :: string
  co_candidates :: "string list"
  co_references :: "string list"
  co_invocation_id :: string
  co_provider_label :: string
  co_invocation :: "model_telemetry option"

record cost_validation_request =
  vq_execution_id :: uuid
  vq_step_id :: uuid
  vq_scope_id :: string
  vq_prior_summary :: string
  vq_prior_evidence :: string
  vq_prior_candidates :: "string list"

definition cost_validation_request_valid :: "cost_validation_request \<Rightarrow> bool" where
  "cost_validation_request_valid r \<longleftrightarrow>
     length (vq_scope_id r) \<le> 256 \<and> length (vq_prior_summary r) \<le> 2000
     \<and> length (vq_prior_evidence r) \<le> 2000 \<and> length (vq_prior_candidates r) \<le> 16"

record cost_validation_output =
  wo_validation_status :: string
  wo_confidence :: rat
  wo_service :: string
  wo_team :: string
  wo_rationale :: string
  wo_actions :: "string list"
  wo_digest :: string
  wo_invocation_id :: string
  wo_provider_label :: string
  wo_invocation :: "model_telemetry option"

end
