(* ===== verification/Environment.thy ===== *)
theory Environment
  imports Contracts "HOL-Library.Product_Lexorder"
begin

text \<open>
  What the services share besides the repository: the sources of identifiers and time
  (\<open>uuid4\<close>, \<open>datetime.now\<close>, \<open>time.perf_counter_ns\<close>, the run time of handlers) as arbitrary supplies
  read in order, sleeps,
  the incident status store of the tool fixtures, the metrics registry and the structured event
  log (\<open>packages/observability\<close>).
\<close>

section \<open>State\<close>

type_synonym metric_key = "string \<times> (string \<times> string) list"

record metrics =
  mx_counters :: "(metric_key \<times> rat) list"
  mx_latency_sum :: "(metric_key \<times> rat) list"
  mx_latency_count :: "(metric_key \<times> rat) list"

record env =
  env_uuids :: "nat \<Rightarrow> uuid"
  env_uuid_ix :: nat
  env_clock :: "nat \<Rightarrow> datetime"
  env_clock_ix :: nat
  env_perf :: "nat \<Rightarrow> int"
  env_perf_ix :: nat
  env_overheads :: "nat \<Rightarrow> nat"
  env_overhead_ix :: nat
  env_sleeps :: "nat list"
  env_incidents :: "(string \<times> string) list"
  env_metrics :: metrics
  env_log :: "pydict list"

definition uuid4 :: "(env, uuid) prog" where
  "uuid4 = (\<lambda>e. (Inr (env_uuids e (env_uuid_ix e)), e\<lparr>env_uuid_ix := Suc (env_uuid_ix e)\<rparr>))"

definition utc_now :: "(env, datetime) prog" where
  "utc_now = (\<lambda>e. (Inr (env_clock e (env_clock_ix e)), e\<lparr>env_clock_ix := Suc (env_clock_ix e)\<rparr>))"

text \<open>\<open>now or datetime.now(timezone.utc)\<close>.\<close>

definition now_or_clock :: "datetime option \<Rightarrow> (env, datetime) prog" where
  "now_or_clock now = (case now of Some t \<Rightarrow> ret t | None \<Rightarrow> utc_now)"

definition perf_counter_ns :: "(env, int) prog" where
  "perf_counter_ns =
     (\<lambda>e. (Inr (env_perf e (env_perf_ix e)), e\<lparr>env_perf_ix := Suc (env_perf_ix e)\<rparr>))"

definition sleep_ms :: "nat \<Rightarrow> (env, unit) prog" where
  "sleep_ms ms = modifies (\<lambda>e. e\<lparr>env_sleeps := env_sleeps e @ [ms]\<rparr>)"

text \<open>The time in milliseconds one run of a tool handler takes beside the time it sleeps.\<close>

definition handler_overhead :: "(env, nat) prog" where
  "handler_overhead =
     (\<lambda>e. (Inr (env_overheads e (env_overhead_ix e)), e\<lparr>env_overhead_ix := Suc (env_overhead_ix e)\<rparr>))"

section \<open>Metrics\<close>

definition empty_metrics :: metrics where
  "empty_metrics = \<lparr>mx_counters = [], mx_latency_sum = [], mx_latency_count = []\<rparr>"

definition label_key :: "(string \<times> string) list \<Rightarrow> (string \<times> string) list" where
  "label_key labels = sort labels"

text \<open>A \<open>defaultdict(float)\<close>: a missing key counts as zero and is inserted.\<close>

definition ddict_get :: "('k \<times> rat) list \<Rightarrow> 'k \<Rightarrow> rat" where
  "ddict_get d k = (case map_of d k of Some v \<Rightarrow> v | None \<Rightarrow> 0)"

definition ddict_add :: "'k \<Rightarrow> rat \<Rightarrow> ('k \<times> rat) list \<Rightarrow> ('k \<times> rat) list" where
  "ddict_add k v d = AList.update k (ddict_get d k + v) d"

definition metrics_inc :: "string \<Rightarrow> rat \<Rightarrow> (string \<times> string) list \<Rightarrow> metrics \<Rightarrow> metrics" where
  "metrics_inc name v labels m =
     m\<lparr>mx_counters := ddict_add (name, label_key labels) v (mx_counters m)\<rparr>"

definition metrics_observe :: "string \<Rightarrow> rat \<Rightarrow> (string \<times> string) list \<Rightarrow> metrics \<Rightarrow> metrics" where
  "metrics_observe name v labels m =
     (let key = (name, label_key labels)
      in m\<lparr>mx_latency_sum := ddict_add key v (mx_latency_sum m),
           mx_latency_count := ddict_add key 1 (mx_latency_count m)\<rparr>)"

definition metrics_reset :: "metrics \<Rightarrow> metrics" where
  "metrics_reset m = m\<lparr>mx_counters := [], mx_latency_sum := [], mx_latency_count := []\<rparr>"

definition inc_metric :: "string \<Rightarrow> (string \<times> string) list \<Rightarrow> (env, unit) prog" where
  "inc_metric name labels = modifies (\<lambda>e. e\<lparr>env_metrics := metrics_inc name 1 labels (env_metrics e)\<rparr>)"

definition observe_metric :: "string \<Rightarrow> rat \<Rightarrow> (string \<times> string) list \<Rightarrow> (env, unit) prog" where
  "observe_metric name v labels =
     modifies (\<lambda>e. e\<lparr>env_metrics := metrics_observe name v labels (env_metrics e)\<rparr>)"

text \<open>The module-level \<open>observe_latency_ms(metric_base, latency_ms, labels=...)\<close>.\<close>

definition observe_latency_ms :: "string \<Rightarrow> rat \<Rightarrow> (string \<times> string) list \<Rightarrow> (env, unit) prog" where
  "observe_latency_ms base v labels =
     andthen (observe_metric (base @ ''_ms'') v labels) (inc_metric (base @ ''_count'') labels)"

definition prom_labels :: "(string \<times> string) list \<Rightarrow> string" where
  "prom_labels labels =
     (if labels = [] then []
      else ''{'' @ join '','' (map (\<lambda>(k, v). k @ ''='' @ [double_quote] @ v @ [double_quote]) labels)
           @ ''}'')"

definition render_counter :: "metric_key \<times> rat \<Rightarrow> string list" where
  "render_counter = (\<lambda>((name, labels), v).
     [''# TYPE '' @ name @ '' counter'', name @ prom_labels labels @ '' '' @ float_str v])"

definition endswith :: "string \<Rightarrow> string \<Rightarrow> bool" where
  "endswith s p \<longleftrightarrow> startswith (rev s) (rev p)"

definition render_latency :: "metrics \<Rightarrow> metric_key \<times> rat \<Rightarrow> string list" where
  "render_latency m = (\<lambda>((name, labels), total).
     (let count = ddict_get (mx_latency_count m) (name, labels);
          sum_name = (if endswith name ''_ms'' then name else name @ ''_ms'')
      in [''# TYPE '' @ sum_name @ '' summary'',
          sum_name @ ''_sum'' @ prom_labels labels @ '' '' @ float_str total,
          sum_name @ ''_count'' @ prom_labels labels @ '' '' @ float_str count]))"

definition newline :: string where
  "newline = [char_of (10 :: nat)]"

definition render_prometheus :: "metrics \<Rightarrow> string" where
  "render_prometheus m =
     (let lines = concat (map render_counter (sort_key fst (mx_counters m)))
                @ concat (map (render_latency m) (sort_key fst (mx_latency_sum m)))
      in join newline lines @ (if lines = [] then [] else newline))"

section \<open>Events\<close>

definition forbidden_keys :: "string list" where
  "forbidden_keys = [''prompt'', ''messages'', ''api_key'', ''authorization'']"

definition safe_fields :: "pydict \<Rightarrow> pydict" where
  "safe_fields kvs = filter (\<lambda>(k, v). lower k \<notin> set forbidden_keys) kvs"

definition emit_event :: "string \<Rightarrow> pydict \<Rightarrow> (env, unit) prog" where
  "emit_event ty kvs =
     bnd utc_now (\<lambda>ts.
       modifies (\<lambda>e. e\<lparr>env_log := env_log e @
         [dmerge [(''ts'', PStr (isoformat ts)), (''event_type'', PStr ty)] (safe_fields kvs)]\<rparr>))"

section \<open>Spans\<close>

record span =
  sp_name :: string
  sp_attributes :: pydict
  sp_started_at :: int
  sp_ended :: bool

text \<open>\<open>round(x, 2)\<close>: to the nearest hundredth, ties to even.\<close>

definition round2 :: "rat \<Rightarrow> rat" where
  "round2 x =
     (let y = x * 100; f = \<lfloor>y\<rfloor>; d = y - of_int f
      in (if d < 1 / 2 \<or> (d = 1 / 2 \<and> even f) then of_int f else of_int (f + 1)) / 100)"

definition span_end :: "span \<Rightarrow> string \<Rightarrow> string option \<Rightarrow> (env, span) prog" where
  "span_end s status err =
     (if sp_ended s then ret s
      else bnd perf_counter_ns (\<lambda>t.
        let payload = dmerge
              [(''span'', PStr (sp_name s)),
               (''duration_ms'', PFloat (round2 (of_int (t - sp_started_at s) / 1000000))),
               (''status'', PStr status)] (sp_attributes s);
            payload = (case err of
                None \<Rightarrow> payload
              | Some m \<Rightarrow> if m = [] then payload else dset ''error'' (PStr (take 500 m)) payload)
        in andthen (emit_event ''span_completed'' payload) (ret (s\<lparr>sp_ended := True\<rparr>))))"

text \<open>\<open>with span(name, **attributes): body\<close>; the exception is reported and re-raised.\<close>

definition with_span :: "string \<Rightarrow> pydict \<Rightarrow> (env, 'a) prog \<Rightarrow> (env, 'a) prog" where
  "with_span name attrs body =
     bnd perf_counter_ns (\<lambda>t0.
       let s = \<lparr>sp_name = name, sp_attributes = attrs, sp_started_at = t0, sp_ended = False\<rparr>
       in bnd (try_except body
                 (\<lambda>exc. andthen (span_end s ''error'' (Some (exn_message exc))) (rethrow exc)))
              (\<lambda>x. andthen (span_end s ''ok'' None) (ret x)))"

section \<open>Facts shared by the services\<close>

text \<open>
  Between two states of the environment the supplies stay the same and only advance: an
  identifier that was handed out is never handed out again.
\<close>

definition env_le :: "env \<Rightarrow> env \<Rightarrow> bool" where
  "env_le e e' \<longleftrightarrow> env_uuids e' = env_uuids e \<and> env_uuid_ix e \<le> env_uuid_ix e'"

interpretation env_le: step_preorder env_le
  by unfold_locales (auto simp: env_le_def)

lemma env_le_uuid4: "steps env_le uuid4"
  and env_le_utc_now: "steps env_le utc_now"
  and env_le_perf: "steps env_le perf_counter_ns"
  and env_le_sleep: "steps env_le (sleep_ms ms)"
  and env_le_inc: "steps env_le (inc_metric nm ls)"
  and env_le_observe: "steps env_le (observe_metric nm v ls)"
  by (auto simp: steps_def env_le_def uuid4_def utc_now_def perf_counter_ns_def sleep_ms_def
      inc_metric_def observe_metric_def modifies_def)

lemma env_le_now: "steps env_le (now_or_clock t)"
  unfolding now_or_clock_def by (intro env_le.st_rules env_le_utc_now)

lemma env_le_observe_latency: "steps env_le (observe_latency_ms b v ls)"
  unfolding observe_latency_ms_def by (intro env_le.st_rules env_le_observe env_le_inc)

lemma env_le_emit: "steps env_le (emit_event ty kvs)"
  unfolding emit_event_def
  by (intro env_le.st_rules env_le_utc_now) (auto simp: steps_def env_le_def modifies_def)

lemmas env_le_rules = env_le.st_rules env_le_uuid4 env_le_utc_now env_le_perf env_le_sleep
  env_le_inc env_le_observe env_le_now env_le_observe_latency env_le_emit

text \<open>Observability calls never raise.\<close>

definition no_raise :: "('s, 'a) prog \<Rightarrow> bool" where
  "no_raise m \<longleftrightarrow> (\<forall>s. \<exists>x t. m s = (Inr x, t))"

lemma no_raiseE: "no_raise m \<Longrightarrow> (\<And>x t. m s = (Inr x, t) \<Longrightarrow> P) \<Longrightarrow> P"
  unfolding no_raise_def by metis

lemma no_raise_Inl: "no_raise m \<Longrightarrow> m s \<noteq> (Inl e, t)"
  unfolding no_raise_def by (metis old.sum.distinct(1) prod.inject)

lemma no_raise_ret: "no_raise (ret x)"
  and no_raise_reads: "no_raise (reads f)"
  and no_raise_modifies: "no_raise (modifies g)"
  by (auto simp: no_raise_def prog_defs)

lemma no_raise_bnd: "no_raise m \<Longrightarrow> (\<And>x. no_raise (f x)) \<Longrightarrow> no_raise (bnd m f)"
  unfolding no_raise_def bnd_def by (metis (no_types, lifting) case_prod_conv sum.case(2))

lemma no_raise_andthen: "no_raise m \<Longrightarrow> no_raise n \<Longrightarrow> no_raise (andthen m n)"
  unfolding andthen_def by (rule no_raise_bnd)

lemma no_raise_only_if: "no_raise m \<Longrightarrow> no_raise (only_if c m)"
  by (simp add: only_if_def no_raise_ret)

lemma no_raise_if: "(c \<Longrightarrow> no_raise m) \<Longrightarrow> (\<not> c \<Longrightarrow> no_raise n) \<Longrightarrow> no_raise (if c then m else n)"
  by simp

lemma no_raise_option:
  "(v = None \<Longrightarrow> no_raise m) \<Longrightarrow> (\<And>x. v = Some x \<Longrightarrow> no_raise (f x)) \<Longrightarrow>
   no_raise (case v of None \<Rightarrow> m | Some x \<Rightarrow> f x)"
  by (cases v) auto

lemma no_raise_let: "(\<And>x. no_raise (f x)) \<Longrightarrow> no_raise (let x = v in f x)"
  by (simp add: Let_def)

lemma no_raise_prod:
  "(\<And>a b. v = (a, b) \<Longrightarrow> no_raise (f a b)) \<Longrightarrow> no_raise (case v of (a, b) \<Rightarrow> f a b)"
  by (cases v) auto

lemma no_raise_try: "(\<And>e. no_raise (h e)) \<Longrightarrow> no_raise (try_except m h)"
  unfolding no_raise_def try_except_def
  by (auto split: prod.split sum.split)

lemma no_raise_env:
  "no_raise uuid4" "no_raise utc_now" "no_raise (now_or_clock n)" "no_raise perf_counter_ns"
  "no_raise (sleep_ms ms)" "no_raise (inc_metric nm ls)" "no_raise (observe_metric nm v ls)"
  "no_raise (observe_latency_ms b v ls)" "no_raise (emit_event ty kvs)"
  by (auto simp: no_raise_def uuid4_def utc_now_def now_or_clock_def perf_counter_ns_def
      sleep_ms_def inc_metric_def observe_metric_def observe_latency_ms_def emit_event_def
      prog_defs split: option.split)

lemmas no_raise_rules = no_raise_ret no_raise_reads no_raise_modifies no_raise_bnd
  no_raise_andthen no_raise_only_if no_raise_if no_raise_option no_raise_let no_raise_prod
  no_raise_env

lemma ddict_get_add: "ddict_get (ddict_add k v d) k' = ddict_get d k' + (if k = k' then v else 0)"
  by (simp add: ddict_get_def ddict_add_def split: option.split)

lemma lower_event_keys:
  "lower ''ts'' \<notin> set forbidden_keys" "lower ''event_type'' \<notin> set forbidden_keys"
  by code_simp+

lemma keys_dmerge: "fst ` set (dmerge a b) = fst ` set a \<union> fst ` set b"
proof (induction b arbitrary: a)
  case (Cons p b)
  have keys: "fst ` set (AList.update (fst p) (snd p) a) = insert (fst p) (fst ` set a)"
    using arg_cong[OF keys_update[of "fst p" "snd p" a], of set] by (auto split: if_splits)
  show ?case
    using Cons.IH[of "AList.update (fst p) (snd p) a"] keys
    by (cases p) (auto simp: dmerge_def)
qed (simp add: dmerge_def)

lemma emit_event_row:
  "emit_event ty kvs e =
     (Inr (), e\<lparr>env_clock_ix := Suc (env_clock_ix e),
                 env_log := env_log e @ [dmerge [(''ts'', PStr (isoformat (env_clock e (env_clock_ix e)))),
                    (''event_type'', PStr ty)] (safe_fields kvs)]\<rparr>)"
  by (simp add: emit_event_def prog_defs utc_now_def)

end
