(* ===== verification/Repository.thy ===== *)
theory Repository
  imports Contracts
begin

text \<open>
  The persistence port and its in-memory implementation
  (\<open>app/adapters/repository.py\<close>, \<open>Repository\<close> and \<open>InMemoryRepository\<close>).  The state is the nine
  dictionaries of the class; \<open>save_*\<close> overwrites, \<open>update_*\<close> raises \<open>KeyError\<close> on a missing key.
  The locales \<open>keyed_store\<close> and \<open>updatable_store\<close> are what the engine relies on of the port; they
  are interpreted on every entity.
\<close>

section \<open>The contract\<close>

locale keyed_store =
  fixes key :: "'a \<Rightarrow> uuid"
    and get :: "'s \<Rightarrow> uuid \<Rightarrow> 'a option"
    and save :: "'a \<Rightarrow> 's \<Rightarrow> 's"
  assumes get_save: "get (save x s) k = (if k = key x then Some x else get s k)"
begin

lemma get_save_same: "get (save x s) (key x) = Some x"
  by (simp add: get_save)

lemma get_save_other: "k \<noteq> key x \<Longrightarrow> get (save x s) k = get s k"
  by (simp add: get_save)

lemma get_save_twice: "key x = key y \<Longrightarrow> get (save y (save x s)) k = get (save y s) k"
  by (simp add: get_save)

lemma get_save_comm:
  "key x \<noteq> key y \<Longrightarrow> get (save y (save x s)) k = get (save x (save y s)) k"
  by (simp add: get_save)

lemma get_save_all:
  "distinct (map key xs) \<Longrightarrow>
   get (fold save xs s) k = (case find (\<lambda>x. key x = k) xs of Some x \<Rightarrow> Some x | None \<Rightarrow> get s k)"
proof (induction xs arbitrary: s)
  case (Cons x xs)
  have "find (\<lambda>y. key y = key x) xs = None"
    using Cons.prems by (simp add: find_None_iff image_iff) metis
  then show ?case
    using Cons by (auto simp: get_save split: option.split)
qed simp

end

locale updatable_store = keyed_store key get save
  for key :: "'a \<Rightarrow> uuid" and get :: "'s \<Rightarrow> uuid \<Rightarrow> 'a option" and save :: "'a \<Rightarrow> 's \<Rightarrow> 's" +
  fixes update :: "'a \<Rightarrow> ('s, unit) prog"
  assumes update_hit: "get s (key x) \<noteq> None \<Longrightarrow> update x s = (Inr (), save x s)"
    and update_miss: "get s (key x) = None \<Longrightarrow>
      \<exists>msg. update x s = (Inl (Exn KeyError msg), s)"
begin

lemma update_get: "update x s = (Inr (), t) \<Longrightarrow> get t k = (if k = key x then Some x else get s k)"
  using update_hit[of s x] update_miss[of s x] by (cases "get s (key x)") (auto simp: get_save)

lemma update_keeps_domain: "get (snd (update x s)) k = None \<longleftrightarrow> get s k = None"
  using update_hit[of s x] update_miss[of s x]
  by (cases "get s (key x)") (auto simp: get_save)

lemma update_idem: "get s (key x) \<noteq> None \<Longrightarrow> get (snd (update x (snd (update x s)))) k = get (snd (update x s)) k"
  using update_hit[of s x] update_hit[of "save x s" x] by (simp add: get_save)

end

section \<open>The in-memory repository\<close>

record repo =
  r_contexts :: "(uuid \<times> exec_context) list"
  r_executions :: "(uuid \<times> execution) list"
  r_plans :: "(uuid \<times> execution_plan) list"
  r_steps :: "(uuid \<times> step) list"
  r_step_results :: "(uuid \<times> step_result) list"
  r_proposals :: "(uuid \<times> action_proposal) list"
  r_evaluations :: "(uuid \<times> policy_evaluation) list"
  r_approvals :: "(uuid \<times> approval) list"
  r_tool_calls :: "(uuid \<times> tool_call) list"

definition empty_repo :: repo where
  "empty_repo = \<lparr>r_contexts = [], r_executions = [], r_plans = [], r_steps = [],
     r_step_results = [], r_proposals = [], r_evaluations = [], r_approvals = [], r_tool_calls = []\<rparr>"

definition save_context :: "exec_context \<Rightarrow> repo \<Rightarrow> repo" where
  "save_context c r = r\<lparr>r_contexts := AList.update (ctx_id c) c (r_contexts r)\<rparr>"

definition get_context :: "repo \<Rightarrow> uuid \<Rightarrow> exec_context option" where
  "get_context r k = map_of (r_contexts r) k"

definition save_execution :: "execution \<Rightarrow> repo \<Rightarrow> repo" where
  "save_execution e r = r\<lparr>r_executions := AList.update (ex_id e) e (r_executions r)\<rparr>"

definition get_execution :: "repo \<Rightarrow> uuid \<Rightarrow> execution option" where
  "get_execution r k = map_of (r_executions r) k"

definition update_execution :: "execution \<Rightarrow> (repo, unit) prog" where
  "update_execution e r =
     (if ex_id e \<notin> set (map fst (r_executions r)) then
        (Inl (Exn KeyError (repr_str (''execution '' @ uuid_str (ex_id e) @ '' not found''))), r)
      else (Inr (), save_execution e r))"

definition save_plan :: "execution_plan \<Rightarrow> repo \<Rightarrow> repo" where
  "save_plan p r = r\<lparr>r_plans := AList.update (pl_id p) p (r_plans r)\<rparr>"

definition get_plan :: "repo \<Rightarrow> uuid \<Rightarrow> execution_plan option" where
  "get_plan r k = map_of (r_plans r) k"

definition save_step :: "step \<Rightarrow> repo \<Rightarrow> repo" where
  "save_step s r = r\<lparr>r_steps := AList.update (st_id s) s (r_steps r)\<rparr>"

definition get_step :: "repo \<Rightarrow> uuid \<Rightarrow> step option" where
  "get_step r k = map_of (r_steps r) k"

definition update_step :: "step \<Rightarrow> (repo, unit) prog" where
  "update_step s r =
     (if st_id s \<notin> set (map fst (r_steps r)) then
        (Inl (Exn KeyError (repr_str (''step '' @ uuid_str (st_id s) @ '' not found''))), r)
      else (Inr (), save_step s r))"

definition list_steps_for_execution :: "repo \<Rightarrow> uuid \<Rightarrow> step list" where
  "list_steps_for_execution r eid =
     sort_key st_created_at (filter (\<lambda>s. st_execution_id s = eid) (map snd (r_steps r)))"

definition save_step_result :: "step_result \<Rightarrow> repo \<Rightarrow> repo" where
  "save_step_result x r = r\<lparr>r_step_results := AList.update (sr_step_id x) x (r_step_results r)\<rparr>"

definition get_step_result :: "repo \<Rightarrow> uuid \<Rightarrow> step_result option" where
  "get_step_result r k = map_of (r_step_results r) k"

definition save_action_proposal :: "action_proposal \<Rightarrow> repo \<Rightarrow> repo" where
  "save_action_proposal p r = r\<lparr>r_proposals := AList.update (ap_id p) p (r_proposals r)\<rparr>"

definition get_action_proposal :: "repo \<Rightarrow> uuid \<Rightarrow> action_proposal option" where
  "get_action_proposal r k = map_of (r_proposals r) k"

definition save_policy_evaluation :: "policy_evaluation \<Rightarrow> repo \<Rightarrow> repo" where
  "save_policy_evaluation x r = r\<lparr>r_evaluations := AList.update (pe_id x) x (r_evaluations r)\<rparr>"

definition get_policy_evaluation :: "repo \<Rightarrow> uuid \<Rightarrow> policy_evaluation option" where
  "get_policy_evaluation r k = map_of (r_evaluations r) k"

definition save_approval :: "approval \<Rightarrow> repo \<Rightarrow> repo" where
  "save_approval a r = r\<lparr>r_approvals := AList.update (apr_id a) a (r_approvals r)\<rparr>"

definition get_approval :: "repo \<Rightarrow> uuid \<Rightarrow> approval option" where
  "get_approval r k = map_of (r_approvals r) k"

definition save_tool_call :: "tool_call \<Rightarrow> repo \<Rightarrow> repo" where
  "save_tool_call t r = r\<lparr>r_tool_calls := AList.update (tc_id t) t (r_tool_calls r)\<rparr>"

definition get_tool_call :: "repo \<Rightarrow> uuid \<Rightarrow> tool_call option" where
  "get_tool_call r k = map_of (r_tool_calls r) k"

definition list_tool_calls_for_step :: "repo \<Rightarrow> uuid \<Rightarrow> tool_call list" where
  "list_tool_calls_for_step r sid =
     sort_key tc_created_at (filter (\<lambda>t. tc_step_id t = sid) (map snd (r_tool_calls r)))"

definition list_policy_evaluations_for_execution :: "repo \<Rightarrow> uuid \<Rightarrow> policy_evaluation list" where
  "list_policy_evaluations_for_execution r eid =
     sort_key pe_created_at (filter (\<lambda>e. pe_execution_id e = eid) (map snd (r_evaluations r)))"

definition list_action_proposals_for_execution :: "repo \<Rightarrow> uuid \<Rightarrow> action_proposal list" where
  "list_action_proposals_for_execution r eid =
     sort_key ap_created_at (filter (\<lambda>p. ap_execution_id p = eid) (map snd (r_proposals r)))"

definition list_approvals_for_execution :: "repo \<Rightarrow> uuid \<Rightarrow> approval list" where
  "list_approvals_for_execution r eid =
     sort_key apr_decided_at (filter (\<lambda>a. apr_execution_id a = eid) (map snd (r_approvals r)))"

text \<open>\<open>rows[: max(1, min(limit, 500))]\<close> after the stable reverse sort by creation time.\<close>

definition limit_rows :: "int \<Rightarrow> 'a list \<Rightarrow> 'a list" where
  "limit_rows limit rows = take (nat (max 1 (min limit 500))) rows"

definition newest_first :: "execution list \<Rightarrow> execution list" where
  "newest_first rows = sort_key (\<lambda>e. - ex_created_at e) rows"

text \<open>The status filter is the member's string (\<open>status.value\<close>) or the string itself.\<close>

definition list_executions ::
  "repo \<Rightarrow> string option \<Rightarrow> string option \<Rightarrow> string option \<Rightarrow> int \<Rightarrow> execution list" where
  "list_executions r tenant workflow status limit =
     (let rows = map snd (r_executions r);
          rows = (case tenant of None \<Rightarrow> rows
            | Some t \<Rightarrow> filter (\<lambda>e. case get_context r (ex_context_id e) of
                  None \<Rightarrow> False | Some c \<Rightarrow> ctx_tenant_id c = t) rows);
          rows = (case workflow of None \<Rightarrow> rows
            | Some w \<Rightarrow> filter (\<lambda>e. ex_workflow_type e = w) rows);
          rows = (case status of None \<Rightarrow> rows
            | Some s \<Rightarrow> filter (\<lambda>e. execution_status_value (ex_status e) = s) rows)
      in limit_rows limit (newest_first rows))"

definition list_executions_by_parent :: "repo \<Rightarrow> uuid \<Rightarrow> int \<Rightarrow> execution list" where
  "list_executions_by_parent r parent limit =
     limit_rows limit
       (newest_first (filter (\<lambda>e. ex_parent_id e = Some parent) (map snd (r_executions r))))"

section \<open>The contract holds\<close>

lemmas repo_saves = save_context_def save_execution_def save_plan_def save_step_def
  save_step_result_def save_action_proposal_def save_policy_evaluation_def save_approval_def
  save_tool_call_def

lemmas repo_gets = get_context_def get_execution_def get_plan_def get_step_def
  get_step_result_def get_action_proposal_def get_policy_evaluation_def get_approval_def
  get_tool_call_def

interpretation contexts: keyed_store ctx_id get_context save_context
  by unfold_locales (simp add: repo_saves repo_gets)

interpretation executions: updatable_store ex_id get_execution save_execution update_execution
  by unfold_locales (auto simp: repo_saves repo_gets update_execution_def map_of_eq_None_iff)

interpretation plans: keyed_store pl_id get_plan save_plan
  by unfold_locales (simp add: repo_saves repo_gets)

interpretation steps: updatable_store st_id get_step save_step update_step
  by unfold_locales (auto simp: repo_saves repo_gets update_step_def map_of_eq_None_iff)

interpretation step_results: keyed_store sr_step_id get_step_result save_step_result
  by unfold_locales (simp add: repo_saves repo_gets)

interpretation proposals: keyed_store ap_id get_action_proposal save_action_proposal
  by unfold_locales (simp add: repo_saves repo_gets)

interpretation evaluations: keyed_store pe_id get_policy_evaluation save_policy_evaluation
  by unfold_locales (simp add: repo_saves repo_gets)

interpretation approvals: keyed_store apr_id get_approval save_approval
  by unfold_locales (simp add: repo_saves repo_gets)

interpretation tool_calls: keyed_store tc_id get_tool_call save_tool_call
  by unfold_locales (simp add: repo_saves repo_gets)

section \<open>Consistency of the dictionaries\<close>

text \<open>Every dictionary has distinct keys, and every entity is stored under its own key.\<close>

definition store_ok :: "('a \<Rightarrow> uuid) \<Rightarrow> (uuid \<times> 'a) list \<Rightarrow> bool" where
  "store_ok key d \<longleftrightarrow> distinct (map fst d) \<and> (\<forall>(k, x) \<in> set d. key x = k)"

definition repo_ok :: "repo \<Rightarrow> bool" where
  "repo_ok r \<longleftrightarrow>
     store_ok ctx_id (r_contexts r) \<and> store_ok ex_id (r_executions r) \<and> store_ok pl_id (r_plans r)
     \<and> store_ok st_id (r_steps r) \<and> store_ok sr_step_id (r_step_results r)
     \<and> store_ok ap_id (r_proposals r) \<and> store_ok pe_id (r_evaluations r)
     \<and> store_ok apr_id (r_approvals r) \<and> store_ok tc_id (r_tool_calls r)"

lemma store_ok_update: "store_ok key d \<Longrightarrow> store_ok key (AList.update (key x) x d)"
  by (auto simp: store_ok_def distinct_keys_update set_update)

lemma store_ok_lookup: "store_ok key d \<Longrightarrow> map_of d k = Some x \<Longrightarrow> key x = k"
  by (auto simp: store_ok_def dest: map_of_SomeD)

lemma store_ok_values: "store_ok key d \<Longrightarrow> x \<in> set (map snd d) \<longleftrightarrow> map_of d (key x) = Some x"
  by (force simp: store_ok_def)

lemma store_ok_distinct_values: "store_ok key d \<Longrightarrow> distinct (map key (map snd d))"
proof -
  assume ok: "store_ok key d"
  then have "map key (map snd d) = map fst d"
    by (auto simp: store_ok_def)
  with ok show ?thesis by (simp only: store_ok_def)
qed

lemma repo_ok_saves:
  assumes "repo_ok r"
  shows "repo_ok (save_context c r)" "repo_ok (save_execution e r)" "repo_ok (save_plan p r)"
    "repo_ok (save_step s r)" "repo_ok (save_step_result q r)" "repo_ok (save_action_proposal a r)"
    "repo_ok (save_policy_evaluation v r)" "repo_ok (save_approval b r)" "repo_ok (save_tool_call t r)"
  using assms by (simp_all add: repo_ok_def repo_saves store_ok_update)

lemma repo_ok_empty: "repo_ok empty_repo"
  by (simp add: repo_ok_def empty_repo_def store_ok_def)

lemma get_execution_id: "repo_ok r \<Longrightarrow> get_execution r k = Some e \<Longrightarrow> ex_id e = k"
  and get_step_id: "repo_ok r \<Longrightarrow> get_step r k = Some s \<Longrightarrow> st_id s = k"
  and get_plan_id: "repo_ok r \<Longrightarrow> get_plan r k = Some p \<Longrightarrow> pl_id p = k"
  and get_context_id: "repo_ok r \<Longrightarrow> get_context r k = Some c \<Longrightarrow> ctx_id c = k"
  and get_proposal_id: "repo_ok r \<Longrightarrow> get_action_proposal r k = Some a \<Longrightarrow> ap_id a = k"
  by (auto simp: repo_ok_def repo_gets dest: store_ok_lookup)

lemma list_steps_iff:
  "repo_ok r \<Longrightarrow>
   s \<in> set (list_steps_for_execution r eid) \<longleftrightarrow> get_step r (st_id s) = Some s \<and> st_execution_id s = eid"
  using store_ok_values[of st_id "r_steps r" s]
  by (auto simp: list_steps_for_execution_def repo_ok_def get_step_def)

lemma list_steps_distinct: "repo_ok r \<Longrightarrow> distinct (map st_id (list_steps_for_execution r eid))"
proof -
  assume "repo_ok r"
  then have d: "distinct (map st_id (map snd (r_steps r)))"
    by (intro store_ok_distinct_values) (simp add: repo_ok_def)
  have f: "distinct (map st_id (filter P xs))" if "distinct (map st_id xs)" for P xs
    using that by (induction xs) auto
  have p: "distinct (map st_id (sort_key g xs)) = distinct (map st_id xs)" for g :: "step \<Rightarrow> datetime" and xs
    by (simp add: distinct_map)
  show ?thesis
    unfolding list_steps_for_execution_def p by (rule f[OF d])
qed

text \<open>A save of one kind of entity leaves the others alone.\<close>

lemma get_execution_saves [simp]:
  "get_execution (save_context c r) = get_execution r" "get_execution (save_plan p r) = get_execution r"
  "get_execution (save_step s r) = get_execution r" "get_execution (save_step_result q r) = get_execution r"
  "get_execution (save_action_proposal a r) = get_execution r"
  "get_execution (save_policy_evaluation v r) = get_execution r"
  "get_execution (save_approval b r) = get_execution r" "get_execution (save_tool_call t r) = get_execution r"
  by (simp_all add: fun_eq_iff repo_saves repo_gets)

lemma get_step_saves [simp]:
  "get_step (save_context c r) = get_step r" "get_step (save_plan p r) = get_step r"
  "get_step (save_execution e r) = get_step r" "get_step (save_step_result q r) = get_step r"
  "get_step (save_action_proposal a r) = get_step r" "get_step (save_policy_evaluation v r) = get_step r"
  "get_step (save_approval b r) = get_step r" "get_step (save_tool_call t r) = get_step r"
  by (simp_all add: fun_eq_iff repo_saves repo_gets)

lemma save_execution_fields [simp]:
  "r_contexts (save_execution e r) = r_contexts r" "r_plans (save_execution e r) = r_plans r"
  "r_steps (save_execution e r) = r_steps r" "r_step_results (save_execution e r) = r_step_results r"
  "r_proposals (save_execution e r) = r_proposals r"
  "r_evaluations (save_execution e r) = r_evaluations r"
  "r_approvals (save_execution e r) = r_approvals r" "r_tool_calls (save_execution e r) = r_tool_calls r"
  by (simp_all add: save_execution_def)

end
