(* ===== verification/Work_Queue.thy ===== *)
theory Work_Queue
  imports Schemas
begin

text \<open>
  The in-memory work queue (\<open>app/runtime/queue.py\<close>).  The lock makes each operation atomic, so an
  operation is one function on the list of items; \<open>fifo\<close> is the contract the worker relies on.
\<close>

record work_item =
  wi_execution_id :: uuid
  wi_enqueued_at :: datetime

type_synonym work_queue = "work_item list"

definition queue_enqueue :: "uuid \<Rightarrow> datetime \<Rightarrow> work_queue \<Rightarrow> nat \<times> work_queue" where
  "queue_enqueue eid ts q =
     (let q' = q @ [\<lparr>wi_execution_id = eid, wi_enqueued_at = ts\<rparr>] in (length q', q'))"

definition queue_dequeue :: "work_queue \<Rightarrow> work_item option \<times> work_queue" where
  "queue_dequeue q = (case q of [] \<Rightarrow> (None, []) | item # rest \<Rightarrow> (Some item, rest))"

definition queue_depth :: "work_queue \<Rightarrow> nat" where
  "queue_depth q = length q"

section \<open>The contract\<close>

locale fifo =
  fixes put :: "uuid \<Rightarrow> datetime \<Rightarrow> 'q \<Rightarrow> nat \<times> 'q"
    and take_out :: "'q \<Rightarrow> work_item option \<times> 'q"
    and depth :: "'q \<Rightarrow> nat"
    and contents :: "'q \<Rightarrow> work_item list"
  assumes put_contents: "contents (snd (put eid ts q)) =
      contents q @ [\<lparr>wi_execution_id = eid, wi_enqueued_at = ts\<rparr>]"
    and put_result: "fst (put eid ts q) = length (contents q) + 1"
    and take_empty: "contents q = [] \<Longrightarrow> fst (take_out q) = None \<and> contents (snd (take_out q)) = []"
    and take_first: "contents q = x # xs \<Longrightarrow> fst (take_out q) = Some x \<and> contents (snd (take_out q)) = xs"
    and depth_contents: "depth q = length (contents q)"
begin

fun put_all :: "(uuid \<times> datetime) list \<Rightarrow> 'q \<Rightarrow> 'q" where
  "put_all [] q = q"
| "put_all ((eid, ts) # rest) q = put_all rest (snd (put eid ts q))"

fun take_n :: "nat \<Rightarrow> 'q \<Rightarrow> work_item list \<times> 'q" where
  "take_n 0 q = ([], q)"
| "take_n (Suc n) q =
     (case take_out q of
        (None, q') \<Rightarrow> ([], q')
      | (Some x, q') \<Rightarrow> let (xs, q'') = take_n n q' in (x # xs, q''))"

lemma contents_put_all:
  "contents (put_all items q) =
     contents q @ map (\<lambda>(eid, ts). \<lparr>wi_execution_id = eid, wi_enqueued_at = ts\<rparr>) items"
  by (induction items arbitrary: q) (auto simp: put_contents)

lemma take_n_prefix: "fst (take_n n q) = take n (contents q)"
proof (induction n arbitrary: q)
  case (Suc n)
  show ?case
  proof (cases "contents q")
    case Nil
    with take_empty[OF Nil] show ?thesis by (cases "take_out q") auto
  next
    case (Cons x xs)
    then obtain q' where "take_out q = (Some x, q')" "contents q' = xs"
      using take_first[OF Cons] by (cases "take_out q") auto
    with Suc[of q'] Cons show ?thesis by (simp add: case_prod_beta Let_def)
  qed
qed simp

text \<open>What was put into an empty queue comes out in the same order, once each.\<close>

lemma in_order:
  "contents q = [] \<Longrightarrow>
   map wi_execution_id (fst (take_n (length items) (put_all items q))) = map fst items"
  by (simp add: take_n_prefix contents_put_all case_prod_beta comp_def)

lemma depth_after_put: "depth (snd (put eid ts q)) = Suc (depth q)"
  by (simp add: depth_contents put_contents)

lemma take_decreases: "contents q \<noteq> [] \<Longrightarrow> Suc (depth (snd (take_out q))) = depth q"
  by (cases "contents q") (auto simp: depth_contents take_first)

end

interpretation memory_queue: fifo queue_enqueue queue_dequeue queue_depth "\<lambda>q. q"
  by unfold_locales (auto simp: queue_enqueue_def queue_dequeue_def queue_depth_def Let_def)

end
