(* ===== verification/World.thy ===== *)
theory World
  imports Environment Repository Work_Queue
begin

text \<open>
  The state of a running orchestrator process: the environment, the repository and the work queue.
  A service that has no reference to the repository is a program on the environment alone and is
  lifted with \<open>in_env\<close>: it cannot touch executions or steps.
\<close>

record world =
  w_env :: env
  w_repo :: repo
  w_queue :: work_queue

definition in_env :: "(env, 'a) prog \<Rightarrow> (world, 'a) prog" where
  "in_env m = (\<lambda>w. case m (w_env w) of (r, e) \<Rightarrow> (r, w\<lparr>w_env := e\<rparr>))"

definition in_repo :: "(repo, 'a) prog \<Rightarrow> (world, 'a) prog" where
  "in_repo m = (\<lambda>w. case m (w_repo w) of (r, s) \<Rightarrow> (r, w\<lparr>w_repo := s\<rparr>))"

definition on_repo :: "(repo \<Rightarrow> repo) \<Rightarrow> (world, unit) prog" where
  "on_repo f = modifies (\<lambda>w. w\<lparr>w_repo := f (w_repo w)\<rparr>)"

definition ask :: "(repo \<Rightarrow> 'a) \<Rightarrow> (world, 'a) prog" where
  "ask f = reads (\<lambda>w. f (w_repo w))"

declare in_env_def [prog_defs] in_repo_def [prog_defs] on_repo_def [prog_defs] ask_def [prog_defs]

lemma ask_eq: "ask f w = (Inr (f (w_repo w)), w)"
  and on_repo_eq: "on_repo g w = (Inr (), w\<lparr>w_repo := g (w_repo w)\<rparr>)"
  by (simp_all add: ask_def on_repo_def reads_def modifies_def)

lemma bnd_ask: "bnd (ask f) k w = k (f (w_repo w)) w"
  by (simp add: bnd_def ask_eq)

lemma andthen_on_repo: "andthen (on_repo g) m w = m (w\<lparr>w_repo := g (w_repo w)\<rparr>)"
  by (simp add: andthen_def bnd_def on_repo_eq)

lemma in_env_Inr: "m (w_env w) = (Inr x, e) \<Longrightarrow> in_env m w = (Inr x, w\<lparr>w_env := e\<rparr>)"
  by (simp add: in_env_def)

lemma bnd_in_env: "m (w_env w) = (Inr x, e) \<Longrightarrow> bnd (in_env m) k w = k x (w\<lparr>w_env := e\<rparr>)"
  by (simp add: bnd_def in_env_def)

lemma bnd_uuid4: "bnd (in_env uuid4) k w =
    k (env_uuids (w_env w) (env_uuid_ix (w_env w)))
      (w\<lparr>w_env := (w_env w)\<lparr>env_uuid_ix := Suc (env_uuid_ix (w_env w))\<rparr>\<rparr>)"
  by (simp add: bnd_def in_env_def uuid4_def)

lemma bnd_utc_now: "bnd (in_env utc_now) k w =
    k (env_clock (w_env w) (env_clock_ix (w_env w)))
      (w\<lparr>w_env := (w_env w)\<lparr>env_clock_ix := Suc (env_clock_ix (w_env w))\<rparr>\<rparr>)"
  by (simp add: bnd_def in_env_def utc_now_def)

lemma update_execution_hit:
  "get_execution (w_repo w) (ex_id ex) \<noteq> None \<Longrightarrow>
   in_repo (update_execution ex) w = (Inr (), w\<lparr>w_repo := save_execution ex (w_repo w)\<rparr>)"
  using executions.update_hit[of "w_repo w" ex] by (simp add: in_repo_def)

lemma update_step_hit:
  "get_step (w_repo w) (st_id s) \<noteq> None \<Longrightarrow>
   in_repo (update_step s) w = (Inr (), w\<lparr>w_repo := save_step s (w_repo w)\<rparr>)"
  using steps.update_hit[of "w_repo w" s] by (simp add: in_repo_def)

lemma wp_ask [wp_simps]: "wp (ask f) Q E w = Q (f (w_repo w)) w"
  by (simp add: wp_def ask_eq)

lemma wp_on_repo [wp_simps]: "wp (on_repo g) Q E w = Q () (w\<lparr>w_repo := g (w_repo w)\<rparr>)"
  by (simp add: wp_def on_repo_eq)

lemma wp_uuid4 [wp_simps]: "wp (in_env uuid4) Q E w =
    Q (env_uuids (w_env w) (env_uuid_ix (w_env w)))
      (w\<lparr>w_env := (w_env w)\<lparr>env_uuid_ix := Suc (env_uuid_ix (w_env w))\<rparr>\<rparr>)"
  by (simp add: wp_def in_env_def uuid4_def)

lemma wp_in_env:
  "steps env_le m \<Longrightarrow>
   (\<And>x e. m (w_env w) = (Inr x, e) \<Longrightarrow> env_le (w_env w) e \<Longrightarrow> Q x (w\<lparr>w_env := e\<rparr>)) \<Longrightarrow>
   (\<And>x e. m (w_env w) = (Inl x, e) \<Longrightarrow> env_le (w_env w) e \<Longrightarrow> E x (w\<lparr>w_env := e\<rparr>)) \<Longrightarrow>
   wp (in_env m) Q E w"
  by (auto simp: wp_def in_env_def split: prod.split sum.split dest: stepsD)

lemma wp_in_env_pure:
  "steps env_le m \<Longrightarrow> no_raise m \<Longrightarrow>
   (\<And>x e. env_le (w_env w) e \<Longrightarrow> Q x (w\<lparr>w_env := e\<rparr>)) \<Longrightarrow> wp (in_env m) Q E w"
  by (rule wp_in_env) (auto dest: no_raise_Inl)

text \<open>The environment calls that only count, log or read the clock.\<close>

lemma wp_env_calls:
  assumes "\<And>e. env_le (w_env w) e \<Longrightarrow> Q () (w\<lparr>w_env := e\<rparr>)"
  shows "wp (in_env (inc_metric nm ls)) Q E w" "wp (in_env (observe_metric nm v ls)) Q E w"
    "wp (in_env (observe_latency_ms nm v ls)) Q E w" "wp (in_env (emit_event nm d)) Q E w"
  by (rule wp_in_env_pure, intro env_le_rules, intro no_raise_env, simp add: assms)+

lemma wp_env_clock:
  assumes "\<And>x e. env_le (w_env w) e \<Longrightarrow> Q x (w\<lparr>w_env := e\<rparr>)"
  shows "wp (in_env utc_now) Q E w" "wp (in_env (now_or_clock n)) Q E w"
  by (rule wp_in_env_pure, intro env_le_rules, intro no_raise_env, erule assms)+

lemma wp_update_execution:
  "get_execution (w_repo w) (ex_id ex) \<noteq> None \<Longrightarrow> Q () (w\<lparr>w_repo := save_execution ex (w_repo w)\<rparr>) \<Longrightarrow>
   wp (in_repo (update_execution ex)) Q E w"
  by (simp add: wp_def update_execution_hit)

lemma wp_update_step:
  "get_step (w_repo w) (st_id s) \<noteq> None \<Longrightarrow> Q () (w\<lparr>w_repo := save_step s (w_repo w)\<rparr>) \<Longrightarrow>
   wp (in_repo (update_step s)) Q E w"
  by (simp add: wp_def update_step_hit)

end
