(* ===== verification/State_Machine.thy ===== *)
theory State_Machine
  imports Schemas
begin

text \<open>
  The lifecycle of executions and steps (\<open>app/runtime/state_machine.py\<close>): the two transition
  tables, the terminal statuses, and the checks that raise.  \<open>status_step\<close> is the step relation of
  the execution table; paths in it are what a trace may record.
\<close>

definition execution_allowed :: "(execution_status \<times> execution_status) list" where
  "execution_allowed = [
     (ES_CREATED, ES_PLANNING),
     (ES_CREATED, ES_FAILED),
     (ES_CREATED, ES_CANCELLED),
     (ES_PLANNING, ES_EXECUTING),
     (ES_PLANNING, ES_FAILED),
     (ES_PLANNING, ES_CANCELLED),
     (ES_EXECUTING, ES_VALIDATING),
     (ES_EXECUTING, ES_FAILED),
     (ES_EXECUTING, ES_CANCELLED),
     (ES_VALIDATING, ES_COMPLETED),
     (ES_VALIDATING, ES_EXECUTING),
     (ES_VALIDATING, ES_FAILED),
     (ES_VALIDATING, ES_AWAITING_APPROVAL),
     (ES_VALIDATING, ES_CANCELLED),
     (ES_AWAITING_APPROVAL, ES_COMPLETED),
     (ES_AWAITING_APPROVAL, ES_FAILED),
     (ES_AWAITING_APPROVAL, ES_CANCELLED)]"

definition step_allowed :: "(step_status \<times> step_status) list" where
  "step_allowed = [
     (SS_PENDING, SS_RUNNING),
     (SS_PENDING, SS_SKIPPED),
     (SS_PENDING, SS_CANCELLED),
     (SS_RUNNING, SS_SUCCEEDED),
     (SS_RUNNING, SS_FAILED),
     (SS_RUNNING, SS_CANCELLED)]"

definition execution_terminal :: "execution_status list" where
  "execution_terminal = [ES_COMPLETED, ES_FAILED, ES_CANCELLED]"

definition step_terminal :: "step_status list" where
  "step_terminal = [SS_SUCCEEDED, SS_FAILED, SS_SKIPPED, SS_CANCELLED]"

definition is_execution_terminal :: "execution_status \<Rightarrow> bool" where
  "is_execution_terminal s \<longleftrightarrow> s \<in> set execution_terminal"

definition is_step_terminal :: "step_status \<Rightarrow> bool" where
  "is_step_terminal s \<longleftrightarrow> s \<in> set step_terminal"

text \<open>The checks, as programs on any state: they read nothing and either return or raise.\<close>

definition validate_execution_transition ::
  "execution_status \<Rightarrow> execution_status \<Rightarrow> ('s, unit) prog" where
  "validate_execution_transition a b =
     (if a \<in> set execution_terminal \<and> a \<noteq> b then
        throw InvalidStatusTransitionError
          (''execution is terminal ('' @ execution_status_value a @ ''); cannot transition to ''
           @ execution_status_value b)
      else if (a, b) \<notin> set execution_allowed then
        throw InvalidStatusTransitionError
          (''invalid execution transition: '' @ execution_status_value a @ '' -> ''
           @ execution_status_value b)
      else ret ())"

definition validate_step_transition :: "step_status \<Rightarrow> step_status \<Rightarrow> ('s, unit) prog" where
  "validate_step_transition a b =
     (if a \<in> set step_terminal \<and> a \<noteq> b then
        throw InvalidStatusTransitionError
          (''step is terminal ('' @ step_status_value a @ ''); cannot transition to ''
           @ step_status_value b)
      else if (a, b) \<notin> set step_allowed then
        throw InvalidStatusTransitionError
          (''invalid step transition: '' @ step_status_value a @ '' -> '' @ step_status_value b)
      else ret ())"

section \<open>The step relation\<close>

inductive status_step :: "execution_status \<Rightarrow> execution_status \<Rightarrow> bool" where
  allowed: "(a, b) \<in> set execution_allowed \<Longrightarrow> status_step a b"

inductive_simps status_step_from_CREATED: "status_step ES_CREATED b"
inductive_simps status_step_to_COMPLETED: "status_step a ES_COMPLETED"

text \<open>A list of statuses each of which the table allows after the one before it.\<close>

fun status_path :: "execution_status \<Rightarrow> execution_status list \<Rightarrow> bool" where
  "status_path a [] \<longleftrightarrow> True"
| "status_path a (b # bs) \<longleftrightarrow> (a, b) \<in> set execution_allowed \<and> status_path b bs"

lemmas lifecycle_tables = execution_allowed_def step_allowed_def execution_terminal_def
  step_terminal_def is_execution_terminal_def is_step_terminal_def

lemma validate_execution_cases:
  "validate_execution_transition a b s =
     (if (a, b) \<in> set execution_allowed then (Inr (), s)
      else (Inl (Exn InvalidStatusTransitionError
         (if is_execution_terminal a \<and> a \<noteq> b
          then ''execution is terminal ('' @ execution_status_value a @ ''); cannot transition to ''
            @ execution_status_value b
          else ''invalid execution transition: '' @ execution_status_value a @ '' -> ''
            @ execution_status_value b)), s))"
  by (cases a; cases b)
    (simp_all add: validate_execution_transition_def lifecycle_tables ret_def throw_def)

lemma validate_step_cases:
  "validate_step_transition a b s =
     (if (a, b) \<in> set step_allowed then (Inr (), s)
      else (Inl (Exn InvalidStatusTransitionError
         (if is_step_terminal a \<and> a \<noteq> b
          then ''step is terminal ('' @ step_status_value a @ ''); cannot transition to ''
            @ step_status_value b
          else ''invalid step transition: '' @ step_status_value a @ '' -> ''
            @ step_status_value b)), s))"
  by (cases a; cases b)
    (simp_all add: validate_step_transition_def lifecycle_tables ret_def throw_def)

lemma validate_execution_ok:
  "(a, b) \<in> set execution_allowed \<Longrightarrow> validate_execution_transition a b = ret ()"
  by (rule ext) (simp add: validate_execution_cases ret_def)

lemma validate_step_ok: "(a, b) \<in> set step_allowed \<Longrightarrow> validate_step_transition a b = ret ()"
  by (rule ext) (simp add: validate_step_cases ret_def)

lemma allowed_not_terminal: "(a, b) \<in> set execution_allowed \<Longrightarrow> \<not> is_execution_terminal a"
  by (cases a; cases b) (simp_all add: lifecycle_tables)

lemma terminal_iff_stuck: "is_execution_terminal a \<longleftrightarrow> (\<nexists>b. status_step a b)"
  by (cases a) (auto simp: status_step.simps lifecycle_tables)

lemma status_path_append:
  "status_path a (bs @ cs) \<longleftrightarrow> status_path a bs \<and> status_path (last (a # bs)) cs"
  by (induction bs arbitrary: a) auto

lemma status_path_snoc:
  "status_path a (bs @ [c]) \<longleftrightarrow> status_path a bs \<and> (last (a # bs), c) \<in> set execution_allowed"
  by (simp add: status_path_append)

lemma status_path_rtranclp: "status_path a bs \<Longrightarrow> status_step\<^sup>*\<^sup>* a (last (a # bs))"
proof (induction bs arbitrary: a)
  case (Cons b bs)
  then have "status_step a b" and "status_step\<^sup>*\<^sup>* b (last (b # bs))"
    by (auto intro: status_step.allowed)
  then show ?case by (simp add: converse_rtranclp_into_rtranclp)
qed simp

text \<open>A path that ends in COMPLETED has gone through VALIDATING.\<close>

lemma only_validated_completes:
  "(a, b) \<in> set execution_allowed \<Longrightarrow> b \<in> {ES_COMPLETED, ES_AWAITING_APPROVAL} \<Longrightarrow>
   a \<in> {ES_VALIDATING, ES_AWAITING_APPROVAL}"
  by (auto simp: execution_allowed_def)

lemma status_path_completed:
  assumes "status_path a bs" "last (a # bs) = ES_COMPLETED"
    "a \<notin> {ES_VALIDATING, ES_AWAITING_APPROVAL, ES_COMPLETED}"
  shows "ES_VALIDATING \<in> set bs"
  using assms
proof (induction bs arbitrary: a)
  case (Cons b bs)
  have ab: "(a, b) \<in> set execution_allowed" and p: "status_path b bs"
    and l: "last (b # bs) = ES_COMPLETED" using Cons.prems by simp_all
  show ?case
  proof (cases "b = ES_VALIDATING")
    case False
    have "b \<notin> {ES_VALIDATING, ES_AWAITING_APPROVAL, ES_COMPLETED}"
      using False only_validated_completes[OF ab] Cons.prems(3) by blast
    then show ?thesis using Cons.IH[OF p l] by simp
  qed simp
qed simp

text \<open>A terminal status is the last of its path.\<close>

lemma status_path_terminal_last: "status_path a bs \<Longrightarrow> is_execution_terminal a \<Longrightarrow> bs = []"
  by (cases bs) (auto dest: allowed_not_terminal)

end
