(* ===== verification/Runtime_Meta.thy ===== *)
theory Runtime_Meta
  imports Schemas
begin

text \<open>
  The runtime metadata kept inside \<open>execution.input\<close> (\<open>app/runtime/runtime_meta.py\<close>): queueing,
  worker and cancellation marks under one reserved key.  Every writer copies the input; a patch
  value \<open>None\<close> removes its key, and an empty block removes the reserved key itself.
\<close>

definition ORCH_RUNTIME_META_KEY :: string where
  "ORCH_RUNTIME_META_KEY = ''__orch_runtime_meta__''"

definition read_runtime_meta :: "execution \<Rightarrow> pydict" where
  "read_runtime_meta ex =
     (case as_dict (dget (ex_input ex) ORCH_RUNTIME_META_KEY) of Some d \<Rightarrow> d | None \<Rightarrow> [])"

definition patch_key :: "string \<times> pyval \<Rightarrow> pydict \<Rightarrow> pydict" where
  "patch_key = (\<lambda>(key, value) meta. if value = PNone then dpop key meta else dset key value meta)"

definition apply_runtime_meta :: "pydict \<Rightarrow> execution \<Rightarrow> execution" where
  "apply_runtime_meta patch ex =
     (let meta = fold patch_key patch (read_runtime_meta ex);
          new_input = (if meta \<noteq> [] then dset ORCH_RUNTIME_META_KEY (PDict meta) (ex_input ex)
                       else dpop ORCH_RUNTIME_META_KEY (ex_input ex))
      in ex\<lparr>ex_input := new_input\<rparr>)"

definition is_cancellation_requested :: "execution \<Rightarrow> bool" where
  "is_cancellation_requested ex \<longleftrightarrow> truthy (dget (read_runtime_meta ex) ''cancellation_requested'')"

definition queued_at :: "execution \<Rightarrow> string option" where
  "queued_at ex =
     (let val = dget (read_runtime_meta ex) ''queued_at''
      in if val = PNone then None else Some (py_str val))"

definition mark_queued :: "datetime \<Rightarrow> execution \<Rightarrow> execution" where
  "mark_queued t ex =
     apply_runtime_meta
       [(''queued_at'', PStr (isoformat t)), (''cancellation_requested'', PBool False)] ex"

definition mark_worker_started :: "string \<Rightarrow> datetime \<Rightarrow> execution \<Rightarrow> execution" where
  "mark_worker_started worker_id t ex =
     apply_runtime_meta
       [(''worker_id'', PStr worker_id), (''worker_started_at'', PStr (isoformat t))] ex"

definition request_cancellation_meta :: "datetime \<Rightarrow> string \<Rightarrow> execution \<Rightarrow> execution" where
  "request_cancellation_meta t reason ex =
     apply_runtime_meta
       [(''cancellation_requested'', PBool True),
        (''cancellation_requested_at'', PStr (isoformat t)),
        (''cancellation_reason'', PStr reason)] ex"

section \<open>What the block holds after a patch\<close>

text \<open>The abstract effect of a patch on the keys of the block: last write wins, \<open>None\<close> removes.\<close>

definition patched :: "pydict \<Rightarrow> (string \<Rightarrow> pyval) \<Rightarrow> string \<Rightarrow> pyval" where
  "patched patch m = fold (\<lambda>(k, v) m. m(k := v)) patch m"

lemma dget_patch_key: "dget (patch_key (k, v) m) = (dget m)(k := v)"
  by (auto simp: patch_key_def fun_eq_iff)

lemma dget_fold_patch: "dget (fold patch_key patch m) = patched patch (dget m)"
proof (induction patch arbitrary: m)
  case (Cons p patch)
  then show ?case by (cases p) (simp add: patched_def dget_patch_key)
qed (simp add: patched_def)

lemma read_apply_runtime_meta:
  "read_runtime_meta (apply_runtime_meta patch ex) = fold patch_key patch (read_runtime_meta ex)"
  by (auto simp: read_runtime_meta_def apply_runtime_meta_def Let_def)

lemma dget_read_apply:
  "dget (read_runtime_meta (apply_runtime_meta patch ex)) =
     patched patch (dget (read_runtime_meta ex))"
  by (simp add: read_apply_runtime_meta dget_fold_patch)

lemma input_apply_other:
  "k \<noteq> ORCH_RUNTIME_META_KEY \<Longrightarrow> map_of (ex_input (apply_runtime_meta patch ex)) k = map_of (ex_input ex) k"
  by (simp add: apply_runtime_meta_def Let_def)

text \<open>A patch changes nothing of the execution but its input.\<close>

lemma apply_runtime_meta_frame:
  "\<exists>inp. apply_runtime_meta patch ex = ex\<lparr>ex_input := inp\<rparr>"
  by (auto simp: apply_runtime_meta_def Let_def)

lemma apply_runtime_meta_fields [simp]:
  "ex_id (apply_runtime_meta patch ex) = ex_id ex"
  "ex_status (apply_runtime_meta patch ex) = ex_status ex"
  "ex_timeline (apply_runtime_meta patch ex) = ex_timeline ex"
  "ex_workflow_type (apply_runtime_meta patch ex) = ex_workflow_type ex"
  "ex_plan_id (apply_runtime_meta patch ex) = ex_plan_id ex"
  "ex_context_id (apply_runtime_meta patch ex) = ex_context_id ex"
  "ex_result (apply_runtime_meta patch ex) = ex_result ex"
  by (simp_all add: apply_runtime_meta_def Let_def)

lemmas meta_marks = mark_queued_def mark_worker_started_def request_cancellation_meta_def

lemma mark_fields [simp]:
  "ex_id (mark_queued t ex) = ex_id ex" "ex_id (mark_worker_started w t ex) = ex_id ex"
  "ex_id (request_cancellation_meta t r ex) = ex_id ex"
  "ex_status (mark_queued t ex) = ex_status ex" "ex_status (mark_worker_started w t ex) = ex_status ex"
  "ex_status (request_cancellation_meta t r ex) = ex_status ex"
  "ex_timeline (mark_queued t ex) = ex_timeline ex"
  "ex_timeline (mark_worker_started w t ex) = ex_timeline ex"
  "ex_timeline (request_cancellation_meta t r ex) = ex_timeline ex"
  "ex_workflow_type (mark_queued t ex) = ex_workflow_type ex"
  "ex_workflow_type (mark_worker_started w t ex) = ex_workflow_type ex"
  "ex_workflow_type (request_cancellation_meta t r ex) = ex_workflow_type ex"
  by (simp_all add: meta_marks)

lemma cancellation_marks [simp]:
  "\<not> is_cancellation_requested (mark_queued t ex)"
  "is_cancellation_requested (request_cancellation_meta t r ex)"
  "is_cancellation_requested (mark_worker_started w t ex) = is_cancellation_requested ex"
  by (simp_all add: meta_marks is_cancellation_requested_def dget_read_apply patched_def)

lemma wf_read_runtime_meta: "wf_dict (ex_input ex) \<Longrightarrow> wf_dict (read_runtime_meta ex)"
  using wf_dget[of "ex_input ex" ORCH_RUNTIME_META_KEY]
  by (cases "dget (ex_input ex) ORCH_RUNTIME_META_KEY") (auto simp: read_runtime_meta_def)

lemma wf_patch_key: "wf_dict m \<Longrightarrow> wf_val (snd p) \<Longrightarrow> wf_dict (patch_key p m)"
  by (cases p) (auto simp: patch_key_def simp del: wf_val.simps intro: wf_dset wf_dpop)

lemma wf_fold_patch: "wf_dict m \<Longrightarrow> \<forall>p \<in> set patch. wf_val (snd p) \<Longrightarrow> wf_dict (fold patch_key patch m)"
  by (induction patch arbitrary: m) (auto simp del: wf_val.simps intro: wf_patch_key)

lemma wf_apply_runtime_meta:
  "wf_dict (ex_input ex) \<Longrightarrow> \<forall>p \<in> set patch. wf_val (snd p) \<Longrightarrow>
   wf_dict (ex_input (apply_runtime_meta patch ex))"
  using wf_fold_patch[OF wf_read_runtime_meta, of ex patch]
  by (auto simp: apply_runtime_meta_def Let_def simp del: wf_val.simps intro: wf_dset wf_dpop)

end
