(* ===== verification/Policy_Engine.thy ===== *)
theory Policy_Engine
  imports Environment
begin

text \<open>
  The deterministic policy pack (\<open>services/policy-engine/policy_engine\<close>): the evaluator, the rule
  catalog, the counters, and the service the orchestrator and the gateway call.
  \<open>decision_spec\<close> is the abstract contract of the pack.
\<close>

definition RULE_PACK_ID :: string where
  "RULE_PACK_ID = ''phase3_deterministic_v1''"

record policy_draft =
  pd_decision :: policy_decision
  pd_reason :: string
  pd_rules :: "pydict list"

text \<open>The nested function \<open>hit\<close>: one auditable rule reference.\<close>

definition rule_hit :: "string \<Rightarrow> string \<Rightarrow> pydict" where
  "rule_hit rule_id detail =
     [(''rule_id'', PStr rule_id), (''pack'', PStr RULE_PACK_ID), (''detail'', PStr detail)]"

definition evaluate :: "exec_context \<Rightarrow> action_proposal \<Rightarrow> policy_draft" where
  "evaluate context proposal =
     (if ap_action_type proposal \<noteq> ''escalate_incident'' then
        \<lparr>pd_decision = PD_DENY,
         pd_reason = ''action_type not permitted by phase3_deterministic_v1'',
         pd_rules = [rule_hit ''R_UNKNOWN_ACTION'' ''unsupported action type for Phase 3 pack'']\<rparr>
      else
        (let scope = ctx_policy_scope context in
         if scope = ''phase3_deny'' then
           \<lparr>pd_decision = PD_DENY,
            pd_reason = ''policy_scope explicitly denies escalation (phase3_deny)'',
            pd_rules = [rule_hit ''R_SCOPE_DENY'' ''policy_scope phase3_deny blocks escalation'']\<rparr>
         else if ctx_environment context = ''prod'' \<or> scope = ''phase3_conditional'' then
           \<lparr>pd_decision = PD_CONDITIONAL,
            pd_reason = ''escalation requires human approval for this environment or policy_scope'',
            pd_rules = [rule_hit ''R_CONDITIONAL_APPROVAL''
                                ''prod or phase3_conditional requires approval'']\<rparr>
         else
           \<lparr>pd_decision = PD_ALLOW,
            pd_reason =
              ''escalation allowed without additional approval for this environment and policy_scope'',
            pd_rules = [rule_hit ''R_DEFAULT_ALLOW'' ''non-prod default allow for escalate_incident'']\<rparr>))"

section \<open>The catalog\<close>

definition POLICY_RULE_DESCRIPTORS :: "rule_descriptor list" where
  "POLICY_RULE_DESCRIPTORS = [
     \<lparr>rd_rule_id = ''R_UNKNOWN_ACTION'',
      rd_description = ''Reject action types not registered in the phase3 deterministic pack.'',
      rd_applies_to = [''*''],
      rd_decision = ''deny'',
      rd_reason = ''action_type not permitted by phase3_deterministic_v1''\<rparr>,
     \<lparr>rd_rule_id = ''R_SCOPE_DENY'',
      rd_description = ''Explicit policy_scope blocks escalation.'',
      rd_applies_to = [''escalate_incident''],
      rd_decision = ''deny'',
      rd_reason = ''policy_scope explicitly denies escalation''\<rparr>,
     \<lparr>rd_rule_id = ''R_CONDITIONAL_APPROVAL'',
      rd_description = ''Production environment or conditional scope requires human approval.'',
      rd_applies_to = [''escalate_incident''],
      rd_decision = ''conditional'',
      rd_reason = ''escalation requires human approval for this environment or policy_scope''\<rparr>,
     \<lparr>rd_rule_id = ''R_DEFAULT_ALLOW'',
      rd_description = ''Non-production default allow for escalate_incident.'',
      rd_applies_to = [''escalate_incident''],
      rd_decision = ''allow'',
      rd_reason = ''escalation allowed without additional approval''\<rparr>]"

definition list_rule_descriptors :: "rule_descriptor list" where
  "list_rule_descriptors = POLICY_RULE_DESCRIPTORS"

definition rule_pack_id :: string where
  "rule_pack_id = RULE_PACK_ID"

section \<open>Counters and service\<close>

definition record_policy_evaluation :: "policy_decision \<Rightarrow> (env, unit) prog" where
  "record_policy_evaluation d =
     andthen (inc_metric ''policy_evaluations_total'' [])
       (case d of
          PD_ALLOW \<Rightarrow> inc_metric ''policy_decision_allow_total'' []
        | PD_DENY \<Rightarrow> inc_metric ''policy_decision_deny_total'' []
        | PD_CONDITIONAL \<Rightarrow> inc_metric ''policy_decision_conditional_total'' [])"

definition record_policy_simulation :: "(env, unit) prog" where
  "record_policy_simulation = inc_metric ''policy_simulations_total'' []"

type_synonym evaluator = "exec_context \<Rightarrow> action_proposal \<Rightarrow> policy_draft"

definition evaluate_proposal ::
  "evaluator \<Rightarrow> exec_context \<Rightarrow> action_proposal \<Rightarrow> (env, policy_draft) prog" where
  "evaluate_proposal ev context proposal =
     (let draft = ev context proposal in andthen (record_policy_evaluation (pd_decision draft)) (ret draft))"

text \<open>The tail of \<open>simulate_policy\<close>: counters and the result record built from the draft.\<close>

definition simulate_outcome :: "policy_draft \<Rightarrow> simulate_result" where
  "simulate_outcome draft =
     \<lparr>sm_decision = pd_decision draft, sm_reason = pd_reason draft,
      sm_matched_rules = pd_rules draft,
      sm_rule_references = map (\<lambda>r. py_str (dget r ''rule_id''))
                             (filter (\<lambda>r. truthy (dget r ''rule_id'')) (pd_rules draft)),
      sm_rule_pack_id = rule_pack_id\<rparr>"

definition simulate_record :: "policy_draft \<Rightarrow> (env, simulate_result) prog" where
  "simulate_record draft =
     andthen record_policy_simulation
       (andthen (record_policy_evaluation (pd_decision draft))
         (if simulate_result_valid (simulate_outcome draft) then ret (simulate_outcome draft)
          else throw PydanticValidationError ''PolicySimulateResult''))"

definition simulate_policy ::
  "evaluator \<Rightarrow> simulate_request \<Rightarrow> string \<Rightarrow> string option \<Rightarrow> string \<Rightarrow> (env, simulate_result) prog" where
  "simulate_policy ev request tenant_id principal_id request_id =
     (let ctx_fields = sq_context request;
          environment = py_str (py_or (dget ctx_fields ''environment'') (PStr ''dev''));
          policy_scope = py_str (py_or (dget ctx_fields ''policy_scope'') (PStr ''default''))
      in bnd utc_now (\<lambda>now. bnd uuid4 (\<lambda>cid. bnd uuid4 (\<lambda>eid. bnd uuid4 (\<lambda>pid.
         let context = \<lparr>ctx_id = cid, ctx_tenant_id = tenant_id, ctx_principal_id = principal_id,
               ctx_actor = None, ctx_request_id = request_id, ctx_environment = environment,
               ctx_permissions_scope = [], ctx_policy_scope = policy_scope,
               ctx_feature_flags = sq_feature_flags request, ctx_created_at = now,
               ctx_updated_at = now\<rparr>;
             proposal = \<lparr>ap_id = pid, ap_execution_id = eid, ap_step_id = None,
               ap_action_type = sq_action_type request,
               ap_payload = [(''simulated'', PBool True),
                             (''risk_level'', PStr (risk_level_value (sq_risk_level request)))],
               ap_risk_level = sq_risk_level request, ap_requires_approval = False,
               ap_status = AP_PROPOSED, ap_created_at = now, ap_updated_at = now\<rparr>
         in simulate_record (ev context proposal))))))"

section \<open>The contract of the pack\<close>

definition decision_spec :: "string \<Rightarrow> string \<Rightarrow> string \<Rightarrow> policy_decision" where
  "decision_spec action environment scope =
     (if action \<noteq> ''escalate_incident'' \<or> scope = ''phase3_deny'' then PD_DENY
      else if environment = ''prod'' \<or> scope = ''phase3_conditional'' then PD_CONDITIONAL
      else PD_ALLOW)"

lemma evaluate_decision:
  "pd_decision (evaluate c p) =
     decision_spec (ap_action_type p) (ctx_environment c) (ctx_policy_scope c)"
  by (simp add: evaluate_def decision_spec_def Let_def)

lemma evaluate_one_rule: "\<exists>rid detail. pd_rules (evaluate c p) = [rule_hit rid detail]"
  by (simp add: evaluate_def Let_def) metis

lemma evaluate_rule_in_catalog:
  "\<exists>d \<in> set list_rule_descriptors. \<exists>detail.
     pd_rules (evaluate c p) = [rule_hit (rd_rule_id d) detail]
     \<and> rd_decision d = policy_decision_value (pd_decision (evaluate c p))"
  by (auto simp: evaluate_def Let_def list_rule_descriptors_def POLICY_RULE_DESCRIPTORS_def)

lemma evaluate_reason_length: "length (pd_reason (evaluate c p)) \<le> 2000"
  by (simp add: evaluate_def Let_def)

lemma evaluate_rule_refs: "length (filter P (pd_rules (evaluate c p))) \<le> 64"
  using evaluate_one_rule[of c p] by auto

lemma simulate_record_ok:
  "\<exists>e'. simulate_record (evaluate c p) e = (Inr (simulate_outcome (evaluate c p)), e')"
proof -
  have "simulate_result_valid (simulate_outcome (evaluate c p))"
    by (simp add: simulate_result_valid_def simulate_outcome_def evaluate_reason_length
        evaluate_rule_refs rule_pack_id_def RULE_PACK_ID_def)
  then show ?thesis
    by (simp add: simulate_record_def prog_defs record_policy_simulation_def
        record_policy_evaluation_def inc_metric_def split: policy_decision.split)
qed

text \<open>
  The default evaluator never raises in a simulation, and the simulation judges exactly the
  environment and scope of the request, with \<open>dev\<close> and \<open>default\<close> where they are missing or empty.
\<close>

lemma simulate_policy_evaluates:
  "\<exists>c p e'. simulate_policy evaluate rq tid prin rid e = (Inr (simulate_outcome (evaluate c p)), e')
     \<and> ctx_environment c = py_str (py_or (dget (sq_context rq) ''environment'') (PStr ''dev''))
     \<and> ctx_policy_scope c = py_str (py_or (dget (sq_context rq) ''policy_scope'') (PStr ''default''))
     \<and> ap_action_type p = sq_action_type rq"
proof -
  let ?e = "e\<lparr>env_clock_ix := Suc (env_clock_ix e), env_uuid_ix := Suc (Suc (Suc (env_uuid_ix e)))\<rparr>"
  let ?env = "py_str (py_or (dget (sq_context rq) ''environment'') (PStr ''dev''))"
  let ?scope = "py_str (py_or (dget (sq_context rq) ''policy_scope'') (PStr ''default''))"
  have "\<exists>c p. simulate_policy evaluate rq tid prin rid e = simulate_record (evaluate c p) ?e
      \<and> ctx_environment c = ?env \<and> ctx_policy_scope c = ?scope \<and> ap_action_type p = sq_action_type rq"
    by (intro exI conjI, simp add: simulate_policy_def bnd_def Let_def utc_now_def uuid4_def, simp_all)
  then show ?thesis
    using simulate_record_ok by metis
qed

text \<open>The totals of the registry agree: every evaluation counts once and under its decision.\<close>

definition policy_totals_agree :: "metrics \<Rightarrow> bool" where
  "policy_totals_agree m \<longleftrightarrow>
     (let n = (\<lambda>name. ddict_get (mx_counters m) (name, []))
      in n ''policy_evaluations_total'' =
           n ''policy_decision_allow_total'' + n ''policy_decision_deny_total''
           + n ''policy_decision_conditional_total'')"

lemma record_policy_evaluation_totals:
  "policy_totals_agree (env_metrics (final (record_policy_evaluation d) e))
   \<longleftrightarrow> policy_totals_agree (env_metrics e)"
  by (cases d)
    (auto simp: record_policy_evaluation_def prog_defs inc_metric_def metrics_inc_def
      policy_totals_agree_def Let_def label_key_def ddict_get_add)

end
