(* ===== verification/Rounding.thy ===== *)
theory Rounding
  imports PyValues
begin

text \<open>
  \<open>round(x, d)\<close> and the format specifications \<open>.0%\<close>, \<open>.2f\<close>: to the nearest multiple, ties to even.
\<close>

definition round_half_even :: "rat \<Rightarrow> int" where
  "round_half_even y =
     (let f = \<lfloor>y\<rfloor>; d = y - of_int f in if d < 1 / 2 \<or> (d = 1 / 2 \<and> even f) then f else f + 1)"

definition round_to :: "nat \<Rightarrow> rat \<Rightarrow> rat" where
  "round_to d x = of_int (round_half_even (x * 10 ^ d)) / 10 ^ d"

text \<open>\<open>{x:.0%}\<close> and \<open>{x:.2f}\<close> of a number that is not negative.\<close>

definition percent_str :: "rat \<Rightarrow> string" where
  "percent_str x = nat_digits (nat (round_half_even (x * 100))) @ ''%''"

definition fixed2_str :: "rat \<Rightarrow> string" where
  "fixed2_str x =
     (let n = nat (round_half_even (x * 100)) in nat_digits (n div 100) @ ''.'' @ pad_digits 2 (n mod 100))"

text \<open>
  The nearest double to a number that is not negative: the significand is rounded to 53 bits.  It
  holds for the normal range; the code's numbers are ratios of small counts.
\<close>

fun bit_count :: "nat \<Rightarrow> nat" where
  "bit_count n = (if n = 0 then 0 else Suc (bit_count (n div 2)))"

declare bit_count.simps [simp del]

definition to_float :: "rat \<Rightarrow> rat" where
  "to_float x =
     (if x = 0 then 0
      else let (p, q) = quotient_of x;
               k = 53 - (int (bit_count (nat p)) - int (bit_count (nat q)));
               k = (if 2 ^ 53 \<le> x * 2 powi k then k - 1 else k)
           in of_int (round_half_even (x * 2 powi k)) * 2 powi (- k))"

text \<open>The nearest double to any number.\<close>

definition float_of :: "rat \<Rightarrow> rat" where
  "float_of x = (if x < 0 then - to_float (- x) else to_float x)"

text \<open>\<open>int(x)\<close> of a float: towards zero.\<close>

definition int_trunc :: "rat \<Rightarrow> int" where
  "int_trunc x = (if 0 \<le> x then \<lfloor>x\<rfloor> else \<lceil>x\<rceil>)"

text \<open>\<open>{x:.0%}\<close> of the float.\<close>

definition float_percent_str :: "rat \<Rightarrow> string" where
  "float_percent_str x = nat_digits (nat (round_half_even (to_float (x * 100)))) @ ''%''"

lemma round_half_even_range: "\<lfloor>y\<rfloor> \<le> round_half_even y" "round_half_even y \<le> \<lfloor>y\<rfloor> + 1"
  by (simp_all add: round_half_even_def Let_def)

lemma round_half_even_mono:
  assumes "x \<le> y" shows "round_half_even x \<le> round_half_even y"
proof (cases "\<lfloor>x\<rfloor> = \<lfloor>y\<rfloor>")
  case True
  then show ?thesis using assms by (auto simp: round_half_even_def Let_def)
next
  case False
  with floor_mono[OF assms] have "\<lfloor>x\<rfloor> + 1 \<le> \<lfloor>y\<rfloor>" by simp
  with round_half_even_range(2)[of x] round_half_even_range(1)[of y] show ?thesis by linarith
qed

lemma round_half_even_of_int [simp]: "round_half_even (of_int i) = i"
  by (simp add: round_half_even_def)

lemma round_to_mono: "x \<le> y \<Longrightarrow> round_to d x \<le> round_to d y"
  by (simp add: round_to_def round_half_even_mono divide_right_mono)

lemma round_to_of_int: "round_to d (of_int i) = of_int i"
  using round_half_even_of_int[of "i * 10 ^ d"] by (simp add: round_to_def)

lemma round_to_unit: "0 \<le> x \<Longrightarrow> x \<le> 1 \<Longrightarrow> 0 \<le> round_to d x \<and> round_to d x \<le> 1"
  using round_to_mono[of 0 x d] round_to_mono[of x 1 d] round_to_of_int[of d 0] round_to_of_int[of d 1] by simp

lemma to_float_nonneg: "0 \<le> x \<Longrightarrow> 0 \<le> to_float x"
  using round_half_even_mono[of 0] round_half_even_of_int[of 0]
  by (auto simp: to_float_def Let_def split: prod.split intro!: mult_nonneg_nonneg)

lemma bit_count_mono: "m \<le> n \<Longrightarrow> bit_count m \<le> bit_count n"
proof (induction n arbitrary: m rule: less_induct)
  case (less n)
  show ?case
  proof (cases "m = 0")
    case False
    with less have "bit_count (m div 2) \<le> bit_count (n div 2)" by (intro less.IH) auto
    with False less.prems show ?thesis by (subst (1 2) bit_count.simps) simp
  qed (simp add: bit_count.simps[of 0])
qed

lemma round_below_power:
  assumes "x \<le> 1" "0 \<le> k" shows "of_int (round_half_even (x * 2 powi k)) * 2 powi (- k) \<le> (1 :: rat)"
proof -
  obtain n where k: "k = int n" using assms by (metis zero_le_imp_eq_int)
  have "x * 2 powi k \<le> of_int (2 ^ n)" using assms mult_right_mono[of x 1 "2 ^ n"] by (simp add: k)
  from round_half_even_mono[OF this] have "round_half_even (x * 2 powi k) \<le> 2 ^ n"
    by (simp only: round_half_even_of_int)
  then have "of_int (round_half_even (x * 2 powi k)) \<le> (2 ^ n :: rat)"
    by (metis of_int_le_iff of_int_numeral of_int_power)
  then show ?thesis by (simp add: k power_int_minus field_simps)
qed

lemma to_float_unit:
  assumes "0 \<le> x" "x \<le> 1" shows "0 \<le> to_float x \<and> to_float x \<le> 1"
proof (cases "x = 0")
  case False
  obtain p q where pq: "quotient_of x = (p, q)" by fastforce
  have q: "0 < q" and x: "x = of_int p / of_int q"
    using quotient_of_denom_pos[OF pq] quotient_of_div[OF pq] by auto
  with assms have "p \<le> q" by simp
  then have "bit_count (nat p) \<le> bit_count (nat q)" by (simp add: bit_count_mono)
  then have "to_float x \<le> 1"
    unfolding to_float_def pq Let_def prod.case if_not_P[OF False] by (intro round_below_power assms) auto
  with to_float_nonneg[OF assms(1)] show ?thesis by simp
qed (simp add: to_float_def)

text \<open>The significand has 53 bits, so the relative error is below \<open>2 ^ - 52\<close>.\<close>

lemma bit_count_lower: "0 < n \<Longrightarrow> 2 ^ (bit_count n - 1) \<le> n" and bit_count_upper: "n < 2 ^ bit_count n"
proof -
  have "(0 < n \<longrightarrow> 2 ^ (bit_count n - 1) \<le> n) \<and> n < 2 ^ bit_count n" for n
  proof (induction n rule: less_induct)
    case (less n)
    show ?case
    proof (cases "n = 0")
      case False
      then have step: "bit_count n = Suc (bit_count (n div 2))" by (simp add: bit_count.simps[of n])
      have IH: "0 < n div 2 \<longrightarrow> 2 ^ (bit_count (n div 2) - 1) \<le> n div 2" "n div 2 < 2 ^ bit_count (n div 2)"
        using less[of "n div 2"] False by auto
      have "2 ^ bit_count (n div 2) \<le> n"
      proof (cases "n div 2 = 0")
        case True
        with False show ?thesis by (simp add: bit_count.simps[of 0])
      next
        case nz: False
        then have "bit_count (n div 2) = Suc (bit_count (n div 2) - 1)" by (simp add: bit_count.simps[of "n div 2"])
        then have "(2 :: nat) ^ bit_count (n div 2) = 2 * 2 ^ (bit_count (n div 2) - 1)" by (metis power_Suc)
        with IH(1) nz show ?thesis by simp
      qed
      with IH(2) show ?thesis by (simp add: step)
    qed (simp add: bit_count.simps[of 0])
  qed
  then show "0 < n \<Longrightarrow> 2 ^ (bit_count n - 1) \<le> n" "n < 2 ^ bit_count n" by auto
qed

lemma round_half_even_error: "of_int (round_half_even y) \<le> y + 1 / 2"
  using of_int_floor_le[of y] by (simp add: round_half_even_def Let_def) linarith

lemma quotient_scale:
  assumes "0 < p" "0 < q" "x = of_nat p / (of_nat q :: rat)"
  shows "2 ^ 52 \<le> x * 2 powi (53 - (int (bit_count p) - int (bit_count q)))"
proof -
  let ?k = "53 - (int (bit_count p) - int (bit_count q))"
  have bp: "2 powi (int (bit_count p) - 1) \<le> (of_nat p :: rat)"
  proof -
    have "bit_count p \<noteq> 0" using assms(1) by (simp add: bit_count.simps[of p])
    then have "int (bit_count p) - 1 = int (bit_count p - 1)" by simp
    then have "2 powi (int (bit_count p) - 1) = (of_nat (2 ^ (bit_count p - 1)) :: rat)"
      by (simp only: power_int_of_nat of_nat_power of_nat_numeral)
    also have "\<dots> \<le> of_nat p" using bit_count_lower[OF assms(1)] by (simp only: of_nat_le_iff)
    finally show ?thesis .
  qed
  have bq: "(of_nat q :: rat) \<le> 2 powi (int (bit_count q))"
  proof -
    have "(of_nat q :: rat) \<le> of_nat (2 ^ bit_count q)"
      using bit_count_upper[of q] by (simp only: of_nat_le_iff less_imp_le)
    then show ?thesis by simp
  qed
  have "of_nat q * 2 powi (int (bit_count p) - 1) \<le> (2 :: rat) powi (int (bit_count q)) * of_nat p"
    using bp bq by (intro mult_mono) auto
  moreover have "A * inverse B \<le> P / Q" if "0 < Q" "0 < B" "Q * A \<le> B * P" for A B P Q :: rat
    using that by (simp add: field_simps)
  ultimately have "2 powi (int (bit_count p) - 1) * 2 powi (- int (bit_count q)) \<le> x"
    unfolding power_int_minus assms(3) using assms(2) by simp
  then have "2 powi (int (bit_count p) - 1 + - int (bit_count q)) \<le> x"
    by (subst power_int_add) auto
  from mult_right_mono[OF this, of "2 powi ?k"]
  have "2 powi (int (bit_count p) - 1 + - int (bit_count q) + ?k) \<le> x * 2 powi ?k"
    by (subst power_int_add) auto
  moreover have "int (bit_count p) - 1 + - int (bit_count q) + ?k = 52" by simp
  ultimately show ?thesis by (simp only: power_int_numeral)
qed

lemma to_float_scaled:
  assumes "0 < x"
  obtains k where "2 ^ 52 \<le> x * 2 powi k" "to_float x = of_int (round_half_even (x * 2 powi k)) * 2 powi (- k)"
    "x \<le> 2 ^ 52 \<Longrightarrow> 0 \<le> k"
proof -
  obtain p q where pq: "quotient_of x = (p, q)" by fastforce
  have q: "0 < q" and x: "x = of_int p / of_int q"
    using quotient_of_denom_pos[OF pq] quotient_of_div[OF pq] by auto
  with assms have p: "0 < p" by (simp add: zero_less_divide_iff)
  let ?k = "53 - (int (bit_count (nat p)) - int (bit_count (nat q)))"
  define j where "j = ?k"
  have low: "2 ^ 52 \<le> x * 2 powi j"
    using quotient_scale[of "nat p" "nat q" x] p q x by (simp add: j_def)
  define k where "k = (if 2 ^ 53 \<le> x * 2 powi j then j - 1 else j)"
  have half: "x * 2 powi (j - 1) = x * 2 powi j / 2" by (simp add: power_int_diff)
  have "2 ^ 52 \<le> x * 2 powi k" using low by (auto simp: k_def half)
  moreover have "to_float x = of_int (round_half_even (x * 2 powi k)) * 2 powi (- k)"
    using assms by (simp add: to_float_def pq Let_def k_def flip: j_def)
  moreover have "0 \<le> k" if "x \<le> 2 ^ 52"
  proof (rule ccontr)
    assume "\<not> 0 \<le> k"
    then have "(2 :: rat) powi k \<le> 2 powi (- 1)" by (intro power_int_increasing) auto
    then have "x * 2 powi k \<le> 2 ^ 52 * (1 / 2)" using that assms by (intro mult_mono) auto
    with \<open>2 ^ 52 \<le> x * 2 powi k\<close> show False by simp
  qed
  ultimately show ?thesis using that by blast
qed

lemma to_float_error: assumes "0 \<le> x" shows "to_float x \<le> x * (1 + 1 / 2 ^ 52)"
proof (cases "x = 0")
  case False
  with assms obtain k where k: "2 ^ 52 \<le> x * 2 powi k" "to_float x = of_int (round_half_even (x * 2 powi k)) * 2 powi (- k)"
    using to_float_scaled[of x] by (metis order_le_less)
  have "of_int (round_half_even (x * 2 powi k)) \<le> x * 2 powi k + x * 2 powi k / 2 ^ 52"
    using round_half_even_error[of "x * 2 powi k"] k(1) by simp
  then have "to_float x \<le> (x * 2 powi k + x * 2 powi k / 2 ^ 52) * 2 powi (- k)"
    unfolding k(2) by (intro mult_right_mono) auto
  also have "\<dots> = x * (1 + 1 / 2 ^ 52)" by (simp add: power_int_minus field_simps)
  finally show ?thesis .
qed (simp add: to_float_def)

lemma to_float_below_nat:
  assumes "0 \<le> x" "x \<le> of_nat n" "n \<le> 2 ^ 52"
  shows "to_float x \<le> of_nat n"
proof (cases "x = 0")
  case False
  have "x \<le> 2 ^ 52"
  proof -
    have "(of_nat n :: rat) \<le> of_nat (2 ^ 52)" using assms(3) by (simp only: of_nat_le_iff)
    with assms(2) show ?thesis by simp
  qed
  with assms False obtain k where k: "to_float x = of_int (round_half_even (x * 2 powi k)) * 2 powi (- k)" "0 \<le> k"
    using to_float_scaled[of x] by (metis order_le_less)
  then obtain m where m: "k = int m" by (metis zero_le_imp_eq_int)
  have "x * 2 powi k \<le> of_int (int n * 2 ^ m)" using assms(2) by (simp add: m mult_right_mono)
  from round_half_even_mono[OF this] have "round_half_even (x * 2 powi k) \<le> int n * 2 ^ m"
    by (simp only: round_half_even_of_int)
  then have "of_int (round_half_even (x * 2 powi k)) \<le> (of_int (int n * 2 ^ m) :: rat)"
    by (simp only: of_int_le_iff)
  then show ?thesis unfolding k(1) by (simp add: m power_int_minus field_simps)
qed (simp add: to_float_def)

end
