(* ===== verification/Tool_Runtime.thy ===== *)
theory Tool_Runtime
  imports Environment Rounding
begin

text \<open>
  The tool runtime (\<open>services/tool-runtime/tool_runtime\<close>): the registry, the executor with its
  retries, timeout and cancellation, the service facade, and the fixture tools it registers.

  A handler is a program on the incident status store and the sleeps it performs.  It runs in a
  one-thread pool whose context manager waits for it, so a timeout replaces its result and keeps
  its effects; its duration is the time it slept plus an arbitrary overhead read from the
  environment, and the overhead index counts the handler runs.
\<close>

record handler_state =
  hs_incidents :: "(string \<times> string) list"
  hs_sleeps :: "nat list"

type_synonym tool_handler = "pydict \<Rightarrow> (handler_state, pyval) prog"
type_synonym registry = "(string \<times> (registered_tool \<times> tool_handler)) list"

section \<open>Registry\<close>

definition register :: "registered_tool \<Rightarrow> tool_handler \<Rightarrow> registry \<Rightarrow> registry" where
  "register m h reg = AList.update (tl_name m) (m, h) reg"

definition registry_get :: "registry \<Rightarrow> string \<Rightarrow> (registered_tool \<times> tool_handler) option" where
  "registry_get reg nm = map_of reg nm"

definition list_registered :: "registry \<Rightarrow> registered_tool list" where
  "list_registered reg = map (fst \<circ> snd) reg"

section \<open>Executor\<close>

definition is_transient :: "exn \<Rightarrow> bool" where
  "is_transient exc =
     (case exn_class exc of
        TransientToolError \<Rightarrow> True
      | TimeoutError \<Rightarrow> True
      | ConnectionError \<Rightarrow> True
      | URLError \<Rightarrow> True
      | HTTPError \<Rightarrow> True
      | OSErrorNo n \<Rightarrow> n \<in> {110, 111}
      | _ \<Rightarrow> False)"

definition is_timeout :: "exn \<Rightarrow> bool" where
  "is_timeout exc \<longleftrightarrow> exn_class exc = TimeoutError"

type_synonym cancel_check = "(env, bool) prog option"

definition is_cancelled :: "cancel_check \<Rightarrow> (env, bool) prog" where
  "is_cancelled check = (case check of None \<Rightarrow> ret False | Some c \<Rightarrow> c)"

definition validate_input :: "tool_request \<Rightarrow> exn option" where
  "validate_input request =
     (if \<not> has_key (tq_input request) ''incident_id'' \<and> \<not> has_key (tq_input request) ''id''
      then Some (Exn ToolValidationError ''incident_id or id is required in tool input'')
      else None)"

definition elapsed_ms :: "int \<Rightarrow> (env, int) prog" where
  "elapsed_ms started = bnd perf_counter_ns (\<lambda>t. ret (max 0 ((t - started) div 1000000)))"

definition run_handler :: "tool_handler \<Rightarrow> pydict \<Rightarrow> (env, (exn + pyval) \<times> nat) prog" where
  "run_handler handler payload =
     bnd handler_overhead (\<lambda>extra. (\<lambda>e.
       let (out, hs) = handler payload \<lparr>hs_incidents = env_incidents e, hs_sleeps = []\<rparr>
       in (Inr (out, sum_list (hs_sleeps hs) + extra),
           e\<lparr>env_incidents := hs_incidents hs, env_sleeps := env_sleeps e @ hs_sleeps hs\<rparr>)))"

text \<open>
  \<open>_run_with_timeout\<close>.  From Python 3.11 on \<open>concurrent.futures.TimeoutError\<close> is \<open>TimeoutError\<close>, so a
  timeout the handler raises itself is caught by the same clause and gets the same message.
\<close>

definition run_with_timeout :: "tool_handler \<Rightarrow> pydict \<Rightarrow> nat \<Rightarrow> (env, pyval) prog" where
  "run_with_timeout handler payload timeout_ms =
     (let exceeded = Exn TimeoutError
            (''tool exceeded timeout_bounds_ms='' @ nat_digits timeout_ms)
      in bnd (run_handler handler payload) (\<lambda>(out, duration).
           if duration > max 1 timeout_ms then rethrow exceeded
           else (case out of
               Inr v \<Rightarrow> ret v
             | Inl exc \<Rightarrow> if is_timeout exc then rethrow exceeded else rethrow exc)))"

definition build_call ::
  "uuid \<Rightarrow> tool_request \<Rightarrow> datetime \<Rightarrow> side_effect_class \<Rightarrow> tool_idempotency \<Rightarrow> tool_call_status \<Rightarrow>
   pydict option \<Rightarrow> int \<Rightarrow> pydict option \<Rightarrow> tool_call" where
  "build_call tcid request now sec idem status output latency_ms error =
     \<lparr>tc_id = tcid, tc_execution_id = tq_execution_id request, tc_step_id = tq_step_id request,
      tc_context_id = tq_context_id request, tc_proposal_id = tq_proposal_id request,
      tc_tool_name = tq_tool_name request, tc_side_effect = sec, tc_idempotency = idem,
      tc_input = tq_input request, tc_output = output, tc_status = status,
      tc_latency_ms = Some latency_ms, tc_error = error, tc_created_at = now,
      tc_updated_at = now\<rparr>"

text \<open>A call recorded under the class and idempotency of the registered tool.\<close>

definition meta_call ::
  "uuid \<Rightarrow> tool_request \<Rightarrow> datetime \<Rightarrow> registered_tool \<Rightarrow> tool_call_status \<Rightarrow> pydict option \<Rightarrow>
   int \<Rightarrow> pydict option \<Rightarrow> tool_call" where
  "meta_call tcid request now m status output latency_ms error =
     build_call tcid request now (tl_side_effect m) (tl_idempotency m) status output latency_ms error"

definition cancelled_error :: pydict where
  "cancelled_error =
     [(''code'', PStr ''cancelled''), (''message'', PStr ''execution cancellation requested'')]"

definition max_attempts :: "registered_tool \<Rightarrow> nat" where
  "max_attempts m = rt_max_retries (tl_retry_policy m) + 1"

text \<open>The code after the loop: the attempts are exhausted or the error is not retried.\<close>

definition exhausted_call ::
  "uuid \<Rightarrow> tool_request \<Rightarrow> datetime \<Rightarrow> registered_tool \<Rightarrow> int \<Rightarrow> exn option \<Rightarrow> (env, tool_call) prog" where
  "exhausted_call tcid request now m started last_exc =
     bnd (elapsed_ms started) (\<lambda>latency.
       let timed_out = (case last_exc of None \<Rightarrow> False | Some exc \<Rightarrow> is_timeout exc)
       in ret (meta_call tcid request now m (if timed_out then TC_TIMEOUT else TC_FAILURE) None latency
            (Some [(''code'', PStr (if timed_out then ''timeout'' else ''tool_execution_error'')),
                   (''message'', PStr (case last_exc of None \<Rightarrow> ''unknown'' | Some exc \<Rightarrow> exn_message exc)),
                   (''retry_count'', PInt (int (max_attempts m) - 1)),
                   (''provider_id'', PStr (tl_provider_id m))])))"

text \<open>One pass of the \<open>try\<close> block: the handler's dictionary, or the exception to classify.\<close>

definition attempt_once :: "tool_handler \<Rightarrow> registered_tool \<Rightarrow> tool_request \<Rightarrow> (env, pydict) prog" where
  "attempt_once handler m request =
     bnd (run_with_timeout handler (tq_input request) (tl_timeout_ms m)) (\<lambda>out.
       case as_dict out of
         None \<Rightarrow> throw ToolValidationError ''tool handler must return dict''
       | Some d \<Rightarrow> ret d)"

text \<open>\<open>for attempt in range(max_attempts)\<close>: the first argument counts the attempts left.\<close>

fun attempt_loop ::
  "nat \<Rightarrow> nat \<Rightarrow> cancel_check \<Rightarrow> tool_handler \<Rightarrow> registered_tool \<Rightarrow> tool_request \<Rightarrow> uuid \<Rightarrow>
   datetime \<Rightarrow> int \<Rightarrow> exn option \<Rightarrow> (env, tool_call) prog" where
  "attempt_loop 0 attempt check handler m request tcid now started last_exc =
     exhausted_call tcid request now m started last_exc"
| "attempt_loop (Suc left) attempt check handler m request tcid now started last_exc =
     bnd (is_cancelled check) (\<lambda>stop.
       if stop then
         bnd (elapsed_ms started) (\<lambda>latency.
           ret (meta_call tcid request now m TC_FAILURE None latency (Some cancelled_error)))
       else (\<lambda>e. case attempt_once handler m request e of
           (Inr out, e') \<Rightarrow>
             bnd (elapsed_ms started) (\<lambda>latency.
               ret (meta_call tcid request now m TC_SUCCESS
                 (Some (dmerge out
                    [(''_tool_runtime'', PDict
                       [(''provider_id'', PStr (tl_provider_id m)),
                        (''retry_count'', PInt (int attempt)),
                        (''timed_out'', PBool False)])]))
                 latency None)) e'
         | (Inl exc, e') \<Rightarrow>
             if exn_class exc = ToolValidationError then
               bnd (elapsed_ms started) (\<lambda>latency.
                 ret (meta_call tcid request now m TC_FAILURE None latency
                   (Some [(''code'', PStr ''validation_error''),
                          (''message'', PStr (exn_message exc)),
                          (''retry_count'', PInt (int attempt))]))) e'
             else if \<not> is_transient exc \<or> attempt + 1 \<ge> max_attempts m then
               exhausted_call tcid request now m started (Some exc) e'
             else
               andthen (sleep_ms (rt_backoff_ms (tl_retry_policy m) * (attempt + 1)))
                 (attempt_loop left (attempt + 1) check handler m request tcid now started (Some exc))
                 e'))"

definition tool_execute :: "registry \<Rightarrow> cancel_check \<Rightarrow> tool_request \<Rightarrow> datetime \<Rightarrow> (env, tool_call) prog" where
  "tool_execute reg check request now =
     bnd uuid4 (\<lambda>tcid.
       if tq_policy_denied request then
         ret (build_call tcid request now SE_STATE_CHANGING TI_NON_IDEMPOTENT TC_REJECTED_BY_POLICY
           None 0 (Some [(''code'', PStr ''rejected_by_policy''),
                         (''message'', PStr ''policy denied before tool invoke'')]))
       else (case registry_get reg (tq_tool_name request) of
         None \<Rightarrow>
           ret (build_call tcid request now SE_READ_ONLY TI_IDEMPOTENT TC_FAILURE None 0
             (Some [(''code'', PStr ''unknown_tool''),
                    (''message'', PStr (''tool not registered: '' @ tq_tool_name request))]))
       | Some (m, handler) \<Rightarrow>
           bnd (is_cancelled check) (\<lambda>stop.
             if stop then ret (meta_call tcid request now m TC_FAILURE None 0 (Some cancelled_error))
             else (case validate_input request of
               Some exc \<Rightarrow>
                 ret (meta_call tcid request now m TC_FAILURE None 0
                   (Some [(''code'', PStr ''validation_error''), (''message'', PStr (exn_message exc))]))
             | None \<Rightarrow>
                 bnd perf_counter_ns (\<lambda>started.
                   attempt_loop (max_attempts m) 0 check handler m request tcid now started None)))))"

section \<open>Service\<close>

definition opt_int :: "int option \<Rightarrow> int" where
  "opt_int x = (case x of None \<Rightarrow> 0 | Some i \<Rightarrow> i)"

definition tool_invoke ::
  "registry \<Rightarrow> cancel_check \<Rightarrow> tool_request \<Rightarrow> datetime option \<Rightarrow> (env, tool_call) prog" where
  "tool_invoke reg check request now =
     bnd (now_or_clock now) (\<lambda>ts.
     andthen (emit_event ''tool_invoke''
       [(''execution_id'', PStr (uuid_str (tq_execution_id request))),
        (''step_id'', PStr (uuid_str (tq_step_id request))),
        (''tool_name'', PStr (tq_tool_name request))])
     (bnd perf_counter_ns (\<lambda>started.
      bnd (tool_execute reg check request ts) (\<lambda>tc.
      bnd (if opt_int (tc_latency_ms tc) \<noteq> 0 then ret (opt_int (tc_latency_ms tc))
           else bnd perf_counter_ns (\<lambda>t. ret (int_trunc (of_int (t - started) / 1000000))))
       (\<lambda>latency.
        let tool_label = (''tool'', tq_tool_name request);
            status_label = tool_call_status_value (tc_status tc)
        in andthen (observe_latency_ms ''tool_invoke'' (of_int latency) [tool_label])
          (andthen (inc_metric ''tool_invocations_total'' [tool_label, (''status'', status_label)])
          (andthen (only_if (status_label = ''timeout'') (inc_metric ''tool_timeouts_total'' [tool_label]))
          (andthen (only_if (case tc_error tc of
                        None \<Rightarrow> False
                      | Some err \<Rightarrow> (case as_int (dget err ''retry_count'') of
                            None \<Rightarrow> False | Some retries \<Rightarrow> retries > 0))
              (inc_metric ''tool_retries_total'' [tool_label]))
          (andthen (emit_event ''tool_completed''
              [(''execution_id'', PStr (uuid_str (tq_execution_id request))),
               (''step_id'', PStr (uuid_str (tq_step_id request))),
               (''tool_name'', PStr (tq_tool_name request)),
               (''status'', PStr status_label),
               (''latency_ms'', PInt latency)])
            (ret tc))))))))))"

section \<open>Laws of the executor\<close>

text \<open>The cancellation callback of the orchestrator reads the repository and changes nothing.\<close>

definition pure_check :: "cancel_check \<Rightarrow> bool" where
  "pure_check check \<longleftrightarrow> (case check of None \<Rightarrow> True | Some c \<Rightarrow> \<exists>f. c = reads f)"

lemma is_cancelled_pure: "pure_check check \<Longrightarrow> \<exists>b. is_cancelled check e = (Inr b, e)"
  by (auto simp: pure_check_def is_cancelled_def ret_def reads_def split: option.splits)

lemma elapsed_ms_eq:
  "elapsed_ms st e = (Inr (max 0 ((env_perf e (env_perf_ix e) - st) div 1000000)),
                      e\<lparr>env_perf_ix := Suc (env_perf_ix e)\<rparr>)"
  by (simp add: elapsed_ms_def perf_counter_ns_def prog_defs)

text \<open>What a run of the executor may do to the environment; the last argument bounds the runs.\<close>

definition tool_frame :: "nat \<Rightarrow> env \<Rightarrow> env \<Rightarrow> bool" where
  "tool_frame k e e' \<longleftrightarrow>
     env_uuids e' = env_uuids e \<and> env_uuid_ix e' = env_uuid_ix e \<and>
     env_overhead_ix e \<le> env_overhead_ix e' \<and> env_overhead_ix e' \<le> env_overhead_ix e + k"

lemma tool_frame_trans: "tool_frame j e e1 \<Longrightarrow> tool_frame k e1 e2 \<Longrightarrow> tool_frame (j + k) e e2"
  by (auto simp: tool_frame_def)

lemma tool_frame_perf: "tool_frame k e (e\<lparr>env_perf_ix := n\<rparr>)"
  by (simp add: tool_frame_def)

lemma attempt_once_frame:
  assumes "attempt_once h m rq e = (r, e')"
  shows "tool_frame 1 e e'"
    and "env_incidents e' = hs_incidents (snd (h (tq_input rq) \<lparr>hs_incidents = env_incidents e, hs_sleeps = []\<rparr>))"
  using assms
  by (auto simp: attempt_once_def run_with_timeout_def run_handler_def handler_overhead_def bnd_def
      ret_def throw_def rethrow_def tool_frame_def Let_def
      split: prod.splits if_splits option.splits sum.splits)

text \<open>
  A call record is consistent: it has an output exactly when it succeeded, an error exactly when
  it did not, and a latency that is not negative.
\<close>

definition call_consistent :: "tool_call \<Rightarrow> bool" where
  "call_consistent tc \<longleftrightarrow>
     (tc_output tc \<noteq> None \<longleftrightarrow> tc_status tc = TC_SUCCESS) \<and>
     (tc_error tc = None \<longleftrightarrow> tc_status tc = TC_SUCCESS) \<and> nonneg_opt (tc_latency_ms tc)"

definition call_of :: "tool_request \<Rightarrow> uuid \<Rightarrow> datetime \<Rightarrow> tool_call \<Rightarrow> bool" where
  "call_of rq tcid now tc \<longleftrightarrow>
     tc_id tc = tcid \<and> tc_execution_id tc = tq_execution_id rq \<and> tc_step_id tc = tq_step_id rq \<and>
     tc_context_id tc = tq_context_id rq \<and> tc_tool_name tc = tq_tool_name rq \<and>
     tc_input tc = tq_input rq \<and> tc_created_at tc = now"

lemmas call_defs = call_consistent_def call_of_def meta_call_def build_call_def nonneg_opt_def

lemma exhausted_call_ok:
  "\<exists>tc. exhausted_call tcid rq now m st exc e = (Inr tc, e\<lparr>env_perf_ix := Suc (env_perf_ix e)\<rparr>)
     \<and> call_consistent tc \<and> call_of rq tcid now tc \<and> tc_status tc \<noteq> TC_SUCCESS
     \<and> tc_status tc \<noteq> TC_REJECTED_BY_POLICY"
  by (simp add: exhausted_call_def bnd_def elapsed_ms_eq Let_def ret_def call_defs)

lemma attempt_loop_ok:
  "pure_check check \<Longrightarrow>
   \<exists>tc e'. attempt_loop left att check h m rq tcid now st exc e = (Inr tc, e')
     \<and> call_consistent tc \<and> call_of rq tcid now tc \<and> tc_status tc \<noteq> TC_REJECTED_BY_POLICY
     \<and> tool_frame left e e'"
proof (induction left arbitrary: att exc e)
  case 0
  obtain tc where "exhausted_call tcid rq now m st exc e = (Inr tc, e\<lparr>env_perf_ix := Suc (env_perf_ix e)\<rparr>)"
    "call_consistent tc" "call_of rq tcid now tc" "tc_status tc \<noteq> TC_REJECTED_BY_POLICY"
    using exhausted_call_ok[of tcid rq now m st exc e] by auto
  then show ?case by (simp add: tool_frame_perf)
next
  case (Suc left)
  obtain b where b: "is_cancelled check e = (Inr b, e)"
    using is_cancelled_pure[OF Suc.prems] by auto
  obtain r e1 where once: "attempt_once h m rq e = (r, e1)" by (cases "attempt_once h m rq e")
  note frame = attempt_once_frame(1)[OF once]
  have fin: "tool_frame (Suc left) e (e1\<lparr>env_perf_ix := n\<rparr>)" for n
    using frame by (simp add: tool_frame_def)
  show ?case
  proof (cases b)
    case True
    then show ?thesis
      by (simp add: bnd_def b elapsed_ms_eq ret_def call_defs cancelled_error_def tool_frame_perf)
  next
    case False
    show ?thesis
    proof (cases r)
      case (Inr out)
      then show ?thesis
        using False fin by (simp add: bnd_def b once elapsed_ms_eq ret_def call_defs)
    next
      case (Inl x)
      obtain tx where tx: "exhausted_call tcid rq now m st (Some x) e1
          = (Inr tx, e1\<lparr>env_perf_ix := Suc (env_perf_ix e1)\<rparr>)" "call_consistent tx"
        "call_of rq tcid now tx" "tc_status tx \<noteq> TC_REJECTED_BY_POLICY"
        using exhausted_call_ok[of tcid rq now m st "Some x" e1] by auto
      define e2 where "e2 = (\<lambda>ms. e1\<lparr>env_sleeps := env_sleeps e1 @ [ms]\<rparr>)"
      have e2: "tool_frame 1 e (e2 ms)" for ms using frame by (simp add: e2_def tool_frame_def)
      have retry: "andthen (sleep_ms ms) k e1 = k (e2 ms)" for k :: "(env, tool_call) prog" and ms
        by (simp add: andthen_def sleep_ms_def modifies_def bnd_def e2_def)
      have again: "\<exists>tc e'. attempt_loop left (att + 1) check h m rq tcid now st (Some x) (e2 ms) = (Inr tc, e')
          \<and> call_consistent tc \<and> call_of rq tcid now tc \<and> tc_status tc \<noteq> TC_REJECTED_BY_POLICY
          \<and> tool_frame (Suc left) e e'" for ms
        using Suc.IH[OF Suc.prems, of "att + 1" "Some x" "e2 ms"] tool_frame_trans[OF e2] by fastforce
      consider (invalid) "exn_class x = ToolValidationError"
        | (stop) "exn_class x \<noteq> ToolValidationError" "\<not> is_transient x \<or> att + 1 \<ge> max_attempts m"
        | (retry) "exn_class x \<noteq> ToolValidationError" "\<not> (\<not> is_transient x \<or> att + 1 \<ge> max_attempts m)"
        by blast
      then show ?thesis
      proof cases
        case invalid
        then show ?thesis
          using False Inl fin by (simp add: bnd_def b once elapsed_ms_eq ret_def call_defs)
      next
        case stop
        then have "attempt_loop (Suc left) att check h m rq tcid now st exc e
            = exhausted_call tcid rq now m st (Some x) e1"
          using False Inl by (simp add: bnd_def b once)
        then show ?thesis using tx fin by simp
      next
        case retry': retry
        then have "attempt_loop (Suc left) att check h m rq tcid now st exc e
            = attempt_loop left (att + 1) check h m rq tcid now st (Some x)
                (e2 (rt_backoff_ms (tl_retry_policy m) * (att + 1)))"
          using False Inl by (simp add: bnd_def b once retry)
        then show ?thesis using again by simp
      qed
    qed
  qed
qed

lemma attempt_loop_incidents:
  assumes keeps: "\<And>hs. hs_incidents (snd (h (tq_input rq) hs)) = hs_incidents hs"
    and check: "pure_check check"
    and run: "attempt_loop left att check h m rq tcid now st exc e = (r, e')"
  shows "env_incidents e' = env_incidents e"
  using run
proof (induction left arbitrary: att exc e)
  case 0
  then show ?case
    using exhausted_call_ok[of tcid rq now m st exc e] by auto
next
  case (Suc left)
  obtain b where b: "is_cancelled check e = (Inr b, e)"
    using is_cancelled_pure[OF check] by auto
  obtain q e1 where once: "attempt_once h m rq e = (q, e1)" by (cases "attempt_once h m rq e")
  have same: "env_incidents e1 = env_incidents e"
    using attempt_once_frame(2)[OF once] keeps by simp
  show ?case
  proof (cases q)
    case (Inr out)
    then show ?thesis
      using Suc.prems same by (auto simp: bnd_def b once elapsed_ms_eq ret_def split: if_splits)
  next
    case (Inl x)
    then show ?thesis
      using Suc.prems same exhausted_call_ok[of tcid rq now m st "Some x" e1]
      by (auto simp: bnd_def b once elapsed_ms_eq ret_def andthen_def sleep_ms_def modifies_def
          split: if_splits dest: Suc.IH)
  qed
qed

text \<open>The most handler runs one request can cause.\<close>

definition run_bound :: "registry \<Rightarrow> tool_request \<Rightarrow> nat" where
  "run_bound reg rq =
     (if tq_policy_denied rq then 0
      else case registry_get reg (tq_tool_name rq) of
        None \<Rightarrow> 0
      | Some (m, h) \<Rightarrow> if validate_input rq = None then max_attempts m else 0)"

lemma tool_execute_ok:
  assumes check: "pure_check check"
  shows "\<exists>tc e'. tool_execute reg check rq now e = (Inr tc, e')
    \<and> call_consistent tc \<and> call_of rq (env_uuids e (env_uuid_ix e)) now tc
    \<and> (tc_status tc = TC_REJECTED_BY_POLICY \<longleftrightarrow> tq_policy_denied rq)
    \<and> tool_frame (run_bound reg rq) (e\<lparr>env_uuid_ix := Suc (env_uuid_ix e)\<rparr>) e'"
proof -
  define e1 where "e1 = e\<lparr>env_uuid_ix := Suc (env_uuid_ix e)\<rparr>"
  obtain b where b: "is_cancelled check e1 = (Inr b, e1)"
    using is_cancelled_pure[OF check] by auto
  have id: "uuid4 e = (Inr (env_uuids e (env_uuid_ix e)), e1)"
    by (simp add: uuid4_def e1_def)
  have refl: "tool_frame k e1 e1" for k by (simp add: tool_frame_def)
  show ?thesis
  proof (cases "tq_policy_denied rq")
    case True
    then show ?thesis
      by (simp add: tool_execute_def bnd_def id ret_def call_defs refl e1_def[symmetric])
  next
    case ok: False
    show ?thesis
    proof (cases "registry_get reg (tq_tool_name rq)")
      case None
      then show ?thesis
        using ok by (simp add: tool_execute_def bnd_def id ret_def call_defs refl e1_def[symmetric])
    next
      case (Some mh)
      obtain m h where mh: "mh = (m, h)" by (cases mh)
      show ?thesis
      proof (cases "b \<or> validate_input rq \<noteq> None")
        case True
        then show ?thesis
          using ok Some mh
          by (auto simp: tool_execute_def bnd_def id b ret_def call_defs refl e1_def[symmetric]
              cancelled_error_def)
      next
        case False
        define e2 where "e2 = e1\<lparr>env_perf_ix := Suc (env_perf_ix e1)\<rparr>"
        define st where "st = env_perf e1 (env_perf_ix e1)"
        have perf: "perf_counter_ns e1 = (Inr st, e2)"
          by (simp add: perf_counter_ns_def e2_def st_def)
        have bound: "run_bound reg rq = max_attempts m"
          using ok Some mh False by (simp add: run_bound_def)
        have "tool_execute reg check rq now e =
            attempt_loop (max_attempts m) 0 check h m rq (env_uuids e (env_uuid_ix e)) now st None e2"
          using ok Some mh False
          by (simp add: tool_execute_def bnd_def id b perf)
        then show ?thesis
          using attempt_loop_ok[OF check, of "max_attempts m" 0 h m rq "env_uuids e (env_uuid_ix e)" now st None e2]
            ok unfolding bound e1_def[symmetric] by (auto simp: tool_frame_def e2_def)
      qed
    qed
  qed
qed

lemma tool_execute_incidents:
  assumes check: "pure_check check"
    and keeps: "\<And>m h hs. \<not> tq_policy_denied rq \<Longrightarrow> registry_get reg (tq_tool_name rq) = Some (m, h) \<Longrightarrow>
      hs_incidents (snd (h (tq_input rq) hs)) = hs_incidents hs"
    and run: "tool_execute reg check rq now e = (r, e')"
  shows "env_incidents e' = env_incidents e"
proof (cases "tq_policy_denied rq")
  case True
  then show ?thesis using run by (auto simp: tool_execute_def bnd_def uuid4_def ret_def)
next
  case ok: False
  define e1 where "e1 = e\<lparr>env_uuid_ix := Suc (env_uuid_ix e)\<rparr>"
  obtain b where b: "is_cancelled check e1 = (Inr b, e1)"
    using is_cancelled_pure[OF check] by auto
  show ?thesis
  proof (cases "registry_get reg (tq_tool_name rq)")
    case None
    then show ?thesis using run ok by (auto simp: tool_execute_def bnd_def uuid4_def ret_def)
  next
    case (Some mh)
    obtain m h where mh: "mh = (m, h)" by (cases mh)
    have keep: "hs_incidents (snd (h (tq_input rq) hs)) = hs_incidents hs" for hs
      using keeps[OF ok] Some mh by auto
    show ?thesis
      using run ok Some mh b attempt_loop_incidents[where h = h and rq = rq, OF keep check]
      by (fastforce simp: tool_execute_def bnd_def uuid4_def ret_def e1_def perf_counter_ns_def
          split: if_splits option.splits)
  qed
qed

text \<open>The facade adds observability: it returns the executor's record.\<close>

lemma int_lift_no_raise: "no_raise (if c then ret x else bnd perf_counter_ns f)" if "\<And>t. no_raise (f t)"
  using that by (intro no_raise_rules)

lemma bnd_frame:
  "m e = (Inr x, e1) \<Longrightarrow> steps env_le (f x) \<Longrightarrow> bnd m f e = (r, e2) \<Longrightarrow> env_le e1 e2"
  by (auto simp: bnd_def dest: stepsD)

lemma tool_invoke_ok:
  assumes check: "pure_check check"
  shows "\<exists>tc e'. tool_invoke reg check rq (Some now) e = (Inr tc, e')
    \<and> call_consistent tc \<and> (\<exists>tcid. call_of rq tcid now tc \<and> tcid = env_uuids e (env_uuid_ix e))
    \<and> (tc_status tc = TC_REJECTED_BY_POLICY \<longleftrightarrow> tq_policy_denied rq)
    \<and> env_uuids e' = env_uuids e \<and> env_uuid_ix e < env_uuid_ix e'"
proof -
  let ?ev = "emit_event ''tool_invoke''
       [(''execution_id'', PStr (uuid_str (tq_execution_id rq))),
        (''step_id'', PStr (uuid_str (tq_step_id rq))), (''tool_name'', PStr (tq_tool_name rq))]"
  obtain e1 where e1: "?ev e = (Inr (), e1)" "env_uuids e1 = env_uuids e" "env_uuid_ix e1 = env_uuid_ix e"
    by (simp add: emit_event_row)
  obtain st e2 where e2: "perf_counter_ns e1 = (Inr st, e2)" "env_uuids e2 = env_uuids e"
    "env_uuid_ix e2 = env_uuid_ix e"
    using e1 by (simp add: perf_counter_ns_def)
  obtain tc e3 where tc: "tool_execute reg check rq now e2 = (Inr tc, e3)" "call_consistent tc"
    "call_of rq (env_uuids e (env_uuid_ix e)) now tc"
    "tc_status tc = TC_REJECTED_BY_POLICY \<longleftrightarrow> tq_policy_denied rq"
    "env_uuids e3 = env_uuids e" "env_uuid_ix e3 = Suc (env_uuid_ix e)"
    using tool_execute_ok[OF check, of reg rq now e2] e2 by (auto simp: tool_frame_def)
  define tail where "tail = (\<lambda>latency.
        let tool_label = (''tool'', tq_tool_name rq);
            status_label = tool_call_status_value (tc_status tc)
        in andthen (observe_latency_ms ''tool_invoke'' (of_int latency) [tool_label])
          (andthen (inc_metric ''tool_invocations_total'' [tool_label, (''status'', status_label)])
          (andthen (only_if (status_label = ''timeout'') (inc_metric ''tool_timeouts_total'' [tool_label]))
          (andthen (only_if (case tc_error tc of
                        None \<Rightarrow> False
                      | Some err \<Rightarrow> (case as_int (dget err ''retry_count'') of
                            None \<Rightarrow> False | Some retries \<Rightarrow> retries > 0))
              (inc_metric ''tool_retries_total'' [tool_label]))
          (andthen (emit_event ''tool_completed''
              [(''execution_id'', PStr (uuid_str (tq_execution_id rq))),
               (''step_id'', PStr (uuid_str (tq_step_id rq))),
               (''tool_name'', PStr (tq_tool_name rq)),
               (''status'', PStr status_label),
               (''latency_ms'', PInt latency)])
            (ret tc))))))"
  define lat where "lat = (if opt_int (tc_latency_ms tc) \<noteq> 0 then ret (opt_int (tc_latency_ms tc))
           else bnd perf_counter_ns (\<lambda>t. ret (int_trunc (of_int (t - st) / 1000000))))"
  have run: "tool_invoke reg check rq (Some now) e = bnd lat tail e3"
    by (simp add: tool_invoke_def now_or_clock_def andthen_def bnd_def ret_def e1 e2 tc lat_def tail_def)
  have nr: "no_raise (bnd lat tail)"
    unfolding lat_def tail_def by (intro no_raise_rules)
  have le: "steps env_le (bnd lat tail)"
    unfolding lat_def tail_def by (intro env_le_rules)
  have only_tc: "bnd lat tail e3 = (Inr tc', e') \<Longrightarrow> tc' = tc" for tc' e'
    unfolding tail_def Let_def andthen_def bnd_def ret_def
    by (auto split: prod.splits sum.splits)
  obtain tc' e' where fin: "bnd lat tail e3 = (Inr tc', e')"
    using nr by (rule no_raiseE)
  have "env_le e3 e'" using le fin by (rule stepsD)
  then show ?thesis
    using run fin only_tc[OF fin] tc by (auto simp: env_le_def)
qed

end
