(* ===== verification/Tools.thy ===== *)
theory Tools
  imports Tool_Runtime
begin

text \<open>
  The fixture tools and the default registry (\<open>tool_runtime/tools/*.py\<close>,
  \<open>registry.py::build_default_registry\<close>), and the laws of the executor on them.
\<close>

section \<open>Fixture tools\<close>

definition tool_scope_key :: "pydict \<Rightarrow> string" where
  "tool_scope_key inp =
     py_str (py_or (dget inp ''scope_id'')
       (py_or (dget inp ''incident_id'') (py_or (dget inp ''id'') (PStr ''unknown''))))"

definition incident_key :: "pydict \<Rightarrow> string" where
  "incident_key inp = tool_scope_key inp"

definition simulate_latency :: "pydict \<Rightarrow> nat \<Rightarrow> nat \<Rightarrow> (handler_state, unit) prog" where
  "simulate_latency inp base_ms cap_ms =
     (let digest = int_of_hex (take 4 (sha256_hex (utf8 (tool_scope_key inp))));
          ms = base_ms + digest mod (max 1 (cap_ms - base_ms))
      in modifies (\<lambda>hs. hs\<lparr>hs_sleeps := hs_sleeps hs @ [ms]\<rparr>))"

definition fetch_cost_snapshot :: tool_handler where
  "fetch_cost_snapshot inp =
     andthen (simulate_latency inp 18 95)
       (let iid = incident_key inp
        in if startswith iid ''fail-cost'' then
             throw ConnectionError ''cost API unavailable (simulated transient)''
           else
             (let service = py_str (py_or (dget inp ''service'') (PStr (''svc-'' @ last_chars 4 iid)));
                  daily_usd = 85 / 2 + of_nat (length iid mod 20)
              in ret (PDict
                [(''incident_id'', PStr iid),
                 (''service'', PStr service),
                 (''daily_cost_usd'', PFloat daily_usd),
                 (''anomaly'', PBool (daily_usd > 55)),
                 (''attribution_window_hours'', PInt 24),
                 (''provider_id'', PStr ''cloud_cost_v1''),
                 (''source'', PStr ''cloud_cost_tool'')])))"

definition fetch_incident_metadata :: tool_handler where
  "fetch_incident_metadata inp =
     andthen (simulate_latency inp 20 90)
       (let iid = incident_key inp
        in if startswith iid ''fail-read'' then
             throw ConnectionError ''incident system read unavailable (simulated transient)''
           else if startswith iid ''bad-read'' then
             throw ValueError ''malformed incident id for read''
           else
             bnd (reads (\<lambda>hs. case map_of (hs_incidents hs) iid of Some s \<Rightarrow> s | None \<Rightarrow> ''open''))
               (\<lambda>status. ret (PDict
                [(''incident_id'', PStr iid),
                 (''severity_inferred'',
                    PStr (if contains ''crit'' (lower iid) \<or> contains ''sev1'' (lower iid)
                          then ''high'' else ''medium'')),
                 (''service'', PStr (''svc-'' @ (if length iid \<ge> 4 then last_chars 4 iid else iid))),
                 (''status'', PStr status),
                 (''provider_id'', PStr ''incident_system_v1''),
                 (''source'', PStr ''incident_system_tool'')])))"

definition update_incident_status :: tool_handler where
  "update_incident_status inp =
     andthen (simulate_latency inp 30 150)
       (let iid = incident_key inp;
            new_status = py_str (py_or (dget inp ''status'') (PStr ''acknowledged''))
        in if startswith iid ''deny-mutate'' then
             throw PermissionError ''mutating action denied by policy gate (simulated)''
           else if \<not> truthy (dget_default inp ''approved'' (PBool False)) then
             throw PermissionError ''state-changing tool requires approved=true in input''
           else
             andthen (modifies (\<lambda>hs. hs\<lparr>hs_incidents := AList.update iid new_status (hs_incidents hs)\<rparr>))
               (ret (PDict
                [(''incident_id'', PStr iid),
                 (''status'', PStr new_status),
                 (''updated'', PBool True),
                 (''provider_id'', PStr ''incident_system_v1''),
                 (''source'', PStr ''incident_system_tool'')])))"

text \<open>The loop over \<open>enumerate(kinds)\<close>: non-strings are skipped and keep their index.\<close>

fun metric_signals :: "string \<Rightarrow> nat \<Rightarrow> pyval list \<Rightarrow> pyval list" where
  "metric_signals iid i [] = []"
| "metric_signals iid i (k # ks) =
     (case as_str k of
        None \<Rightarrow> metric_signals iid (Suc i) ks
      | Some s \<Rightarrow> PDict
          [(''source'', PStr s),
           (''name'', PStr (s @ ''_anomaly_'' @ take 6 iid)),
           (''detail'', PStr (''synthetic '' @ s @ '' window for '' @ iid)),
           (''p95_ms'', PInt (120 + int i * 17))]
          # metric_signals iid (Suc i) ks)"

definition lookup_metrics_snapshot :: tool_handler where
  "lookup_metrics_snapshot inp =
     andthen (simulate_latency inp 25 110)
       (let iid = incident_key inp
        in if startswith iid ''timeout-metrics'' then
             throw TimeoutError ''metrics backend timed out''
           else
             (let kinds = (case as_list (dget inp ''signal_types'') of
                      Some (k # ks) \<Rightarrow> k # ks
                    | _ \<Rightarrow> [PStr ''metrics'', PStr ''logs'', PStr ''deploy''])
              in ret (PDict
                [(''incident_id'', PStr iid),
                 (''signals'', PList (metric_signals iid 0 kinds)),
                 (''provider_id'', PStr ''metrics_lookup_v1''),
                 (''source'', PStr ''metrics_lookup_tool'')])))"

section \<open>The default registry\<close>

definition read_policy :: tool_retry_policy where
  "read_policy = \<lparr>rt_max_retries = 2, rt_backoff_ms = 100\<rparr>"

definition mutate_policy :: tool_retry_policy where
  "mutate_policy = \<lparr>rt_max_retries = 0, rt_backoff_ms = 0\<rparr>"

definition read_tool :: "string \<Rightarrow> nat \<Rightarrow> string \<Rightarrow> string \<Rightarrow> registered_tool" where
  "read_tool nm timeout provider descr =
     \<lparr>tl_name = nm, tl_side_effect = SE_READ_ONLY, tl_idempotency = TI_IDEMPOTENT,
      tl_timeout_ms = timeout, tl_description = descr, tl_provider_id = provider,
      tl_retry_policy = read_policy\<rparr>"

definition update_tool :: registered_tool where
  "update_tool =
     \<lparr>tl_name = ''incident_system_update_tool'', tl_side_effect = SE_STATE_CHANGING,
      tl_idempotency = TI_NON_IDEMPOTENT, tl_timeout_ms = 5000,
      tl_description = ''Update incident status (requires approved=true; governed mutating example).'',
      tl_provider_id = ''incident_system_v1'', tl_retry_policy = mutate_policy\<rparr>"

definition build_default_registry :: registry where
  "build_default_registry =
     fold (\<lambda>(m, h). register m h)
       [(read_tool ''incident_system_tool'' 3000 ''incident_system_v1''
           ''Fetch incident metadata from incident system (local fixture).'',
         fetch_incident_metadata),
        (update_tool, update_incident_status),
        (read_tool ''metrics_lookup_tool'' 4000 ''metrics_lookup_v1''
           ''Synthetic metrics/log snapshot for an incident.'',
         lookup_metrics_snapshot),
        (read_tool ''cloud_cost_tool'' 4000 ''cloud_cost_v1''
           ''Cloud cost attribution snapshot with anomaly flag.'',
         fetch_cost_snapshot),
        (read_tool ''incident_metadata_tool'' 3000 ''incident_system_v1''
           ''Alias for incident_system_tool (Phase 4 compatibility).'',
         fetch_incident_metadata),
        (read_tool ''signal_lookup_tool'' 4000 ''metrics_lookup_v1''
           ''Alias for metrics_lookup_tool (Phase 4 compatibility).'',
         lookup_metrics_snapshot)] []"

section \<open>What the default tools may do\<close>

lemma default_registry_get:
  "registry_get build_default_registry nm =
     (if nm = ''incident_system_tool'' then Some (read_tool ''incident_system_tool'' 3000
          ''incident_system_v1'' ''Fetch incident metadata from incident system (local fixture).'',
          fetch_incident_metadata)
      else if nm = ''incident_system_update_tool'' then Some (update_tool, update_incident_status)
      else if nm = ''metrics_lookup_tool'' then Some (read_tool ''metrics_lookup_tool'' 4000
          ''metrics_lookup_v1'' ''Synthetic metrics/log snapshot for an incident.'',
          lookup_metrics_snapshot)
      else if nm = ''cloud_cost_tool'' then Some (read_tool ''cloud_cost_tool'' 4000
          ''cloud_cost_v1'' ''Cloud cost attribution snapshot with anomaly flag.'',
          fetch_cost_snapshot)
      else if nm = ''incident_metadata_tool'' then Some (read_tool ''incident_metadata_tool'' 3000
          ''incident_system_v1'' ''Alias for incident_system_tool (Phase 4 compatibility).'',
          fetch_incident_metadata)
      else if nm = ''signal_lookup_tool'' then Some (read_tool ''signal_lookup_tool'' 4000
          ''metrics_lookup_v1'' ''Alias for metrics_lookup_tool (Phase 4 compatibility).'',
          lookup_metrics_snapshot)
      else None)"
  by (simp add: build_default_registry_def registry_get_def register_def read_tool_def update_tool_def)

lemma read_tools_keep_incidents:
  "hs_incidents (snd (fetch_cost_snapshot inp hs)) = hs_incidents hs"
  "hs_incidents (snd (fetch_incident_metadata inp hs)) = hs_incidents hs"
  "hs_incidents (snd (lookup_metrics_snapshot inp hs)) = hs_incidents hs"
  by (simp_all add: fetch_cost_snapshot_def fetch_incident_metadata_def lookup_metrics_snapshot_def
      simulate_latency_def prog_defs Let_def)

lemma update_tool_incidents:
  "hs_incidents (snd (update_incident_status inp hs)) =
     (if truthy (dget inp ''approved'') \<and> \<not> startswith (incident_key inp) ''deny-mutate''
      then AList.update (incident_key inp)
             (py_str (py_or (dget inp ''status'') (PStr ''acknowledged''))) (hs_incidents hs)
      else hs_incidents hs)"
  by (auto simp: update_incident_status_def simulate_latency_def prog_defs Let_def
      dget_default_def dget_def split: option.splits)

text \<open>A request on which the default registry can change the incident store.\<close>

definition may_mutate :: "tool_request \<Rightarrow> bool" where
  "may_mutate rq \<longleftrightarrow>
     \<not> tq_policy_denied rq \<and> tq_tool_name rq = ''incident_system_update_tool'' \<and>
     truthy (dget (tq_input rq) ''approved'')"

lemma default_registry_keeps:
  "\<not> may_mutate rq \<Longrightarrow> \<not> tq_policy_denied rq \<Longrightarrow>
   registry_get build_default_registry (tq_tool_name rq) = Some (m, h) \<Longrightarrow>
   hs_incidents (snd (h (tq_input rq) hs)) = hs_incidents hs"
  by (auto simp: default_registry_get may_mutate_def read_tools_keep_incidents update_tool_incidents
      split: if_splits)

end
