(* ===== verification/Planner.thy ===== *)
theory Planner
  imports Environment
begin

text \<open>
  The deterministic planner (\<open>app/runtime/planner.py\<close>): one plan shape per workflow type, with
  fresh step keys.  \<open>plan_ok\<close> is what the orchestrator relies on: distinct keys, a chain of
  dependencies along the list, and exactly one validation step, the last.
\<close>

definition spec_row :: "string \<Rightarrow> string \<Rightarrow> string \<Rightarrow> string \<Rightarrow> pydict" where
  "spec_row key name kind agent =
     [(''step_key'', PStr key), (''step_name'', PStr name), (''kind'', PStr kind),
      (''agent'', PStr agent), (''degraded_allowed'', PBool False)]"

definition edge_row :: "string \<Rightarrow> string \<Rightarrow> pydict" where
  "edge_row from_step to_step = [(''from_step'', PStr from_step), (''to_step'', PStr to_step)]"

definition ordering_row :: "string list \<Rightarrow> pydict" where
  "ordering_row ks = [(''sequential_groups'', PList [PList (map PStr ks)])]"

text \<open>The \<open>ExecutionPlan(...)\<close> call the three methods share.\<close>

definition plan_record ::
  "execution \<Rightarrow> uuid \<Rightarrow> datetime \<Rightarrow> pydict list \<Rightarrow> pydict list \<Rightarrow> pydict \<Rightarrow> pydict \<Rightarrow> execution_plan" where
  "plan_record ex plan_id ts specs edges order meta =
     \<lparr>pl_id = plan_id, pl_execution_id = ex_id ex, pl_parent_id = None, pl_version = 1,
      pl_revision_reason = Some ''initial_plan'',
      pl_goal = [(''workflow_type'', PStr (ex_workflow_type ex)),
                 (''from_input_keys'', PList (map (PStr \<circ> fst) (ex_input ex)))],
      pl_steps = specs, pl_dependencies = edges, pl_ordering = order, pl_metadata = meta,
      pl_created_at = ts\<rparr>"

definition uuid4_str :: "(env, string) prog" where
  "uuid4_str = bnd uuid4 (\<lambda>u. ret (uuid_str u))"

definition plan_incident_triage ::
  "pydict \<Rightarrow> execution \<Rightarrow> uuid \<Rightarrow> datetime \<Rightarrow> (env, execution_plan) prog" where
  "plan_incident_triage meta ex plan_id ts =
     bnd uuid4_str (\<lambda>analyze_k. bnd uuid4_str (\<lambda>gather_k. bnd uuid4_str (\<lambda>validate_k.
       ret (plan_record ex plan_id ts
         [spec_row analyze_k ''analyze_incident'' ''reasoning'' ''incident_analysis_agent_v1'',
          spec_row gather_k ''gather_evidence'' ''retrieval'' ''incident_retrieval_agent_v1'',
          spec_row validate_k ''validate_incident'' ''validation'' ''incident_validation_agent_v1'']
         [edge_row analyze_k gather_k, edge_row gather_k validate_k]
         (ordering_row [analyze_k, gather_k, validate_k])
         (dset ''planner'' (PStr ''deterministic_incident_triage_v1'') meta)))))"

definition plan_cost_attribution ::
  "pydict \<Rightarrow> execution \<Rightarrow> uuid \<Rightarrow> datetime \<Rightarrow> (env, execution_plan) prog" where
  "plan_cost_attribution meta ex plan_id ts =
     bnd uuid4_str (\<lambda>analyze_k. bnd uuid4_str (\<lambda>retrieve_k. bnd uuid4_str (\<lambda>correlate_k.
     bnd uuid4_str (\<lambda>validate_k.
       ret (plan_record ex plan_id ts
         [spec_row analyze_k ''analyze_cost_anomaly'' ''reasoning'' ''cost_analysis_agent_v1'',
          spec_row retrieve_k ''retrieve_cost_evidence'' ''retrieval'' ''cost_retrieval_agent_v1'',
          spec_row correlate_k ''correlate_usage_patterns'' ''tool'' ''cost_correlation_agent_v1'',
          spec_row validate_k ''validate_cost_attribution'' ''validation'' ''cost_validation_agent_v1'']
         [edge_row analyze_k retrieve_k, edge_row retrieve_k correlate_k,
          edge_row correlate_k validate_k]
         (ordering_row [analyze_k, retrieve_k, correlate_k, validate_k])
         (dset ''planner'' (PStr ''deterministic_cost_attribution_v1'') meta))))))"

definition plan_default ::
  "pydict \<Rightarrow> execution \<Rightarrow> uuid \<Rightarrow> datetime \<Rightarrow> (env, execution_plan) prog" where
  "plan_default meta ex plan_id ts =
     bnd uuid4_str (\<lambda>reasoning_id. bnd uuid4_str (\<lambda>validation_id.
       ret (plan_record ex plan_id ts
         [spec_row reasoning_id ''reasoning'' ''reasoning'' ''reasoning_agent_v1'',
          spec_row validation_id ''validation'' ''validation'' ''validation_agent_v1'']
         [edge_row reasoning_id validation_id]
         (ordering_row [reasoning_id, validation_id]) meta)))"

text \<open>\<open>Planner(default_plan_metadata=...)\<close>: an empty or missing dictionary selects the default.\<close>

definition planner_meta :: "pydict option \<Rightarrow> pydict" where
  "planner_meta m =
     (case m of Some (p # ps) \<Rightarrow> p # ps | _ \<Rightarrow> [(''planner'', PStr ''deterministic_v1'')])"

definition create_plan :: "pydict \<Rightarrow> execution \<Rightarrow> datetime option \<Rightarrow> (env, execution_plan) prog" where
  "create_plan meta ex now =
     bnd (now_or_clock now) (\<lambda>ts. bnd uuid4 (\<lambda>plan_id.
       if ex_workflow_type ex = ''incident_triage'' then plan_incident_triage meta ex plan_id ts
       else if ex_workflow_type ex = ''cost_attribution'' then plan_cost_attribution meta ex plan_id ts
       else plan_default meta ex plan_id ts))"

section \<open>What a plan is\<close>

text \<open>The workflow's step names, kinds and agents in order: the shape a plan must have.\<close>

definition workflow_shape :: "string \<Rightarrow> (string \<times> string \<times> string) list" where
  "workflow_shape wt =
     (if wt = ''incident_triage'' then
        [(''analyze_incident'', ''reasoning'', ''incident_analysis_agent_v1''),
         (''gather_evidence'', ''retrieval'', ''incident_retrieval_agent_v1''),
         (''validate_incident'', ''validation'', ''incident_validation_agent_v1'')]
      else if wt = ''cost_attribution'' then
        [(''analyze_cost_anomaly'', ''reasoning'', ''cost_analysis_agent_v1''),
         (''retrieve_cost_evidence'', ''retrieval'', ''cost_retrieval_agent_v1''),
         (''correlate_usage_patterns'', ''tool'', ''cost_correlation_agent_v1''),
         (''validate_cost_attribution'', ''validation'', ''cost_validation_agent_v1'')]
      else
        [(''reasoning'', ''reasoning'', ''reasoning_agent_v1''),
         (''validation'', ''validation'', ''validation_agent_v1'')])"

fun chain_edges :: "string list \<Rightarrow> pydict list" where
  "chain_edges (a # b # ks) = edge_row a b # chain_edges (b # ks)"
| "chain_edges _ = []"

definition plan_of :: "string \<Rightarrow> string list \<Rightarrow> execution_plan \<Rightarrow> bool" where
  "plan_of wt ks p \<longleftrightarrow>
     length ks = length (workflow_shape wt) \<and>
     pl_steps p = map2 (\<lambda>k (nm, kind, ag). spec_row k nm kind ag) ks (workflow_shape wt) \<and>
     pl_dependencies p = chain_edges ks \<and> pl_ordering p = ordering_row ks"

text \<open>The identifiers the environment hands out from index \<open>i\<close> on.\<close>

definition next_ids :: "env \<Rightarrow> nat \<Rightarrow> nat \<Rightarrow> uuid list" where
  "next_ids e i n = map (\<lambda>j. env_uuids e (i + j)) [0..<n]"

definition plan_count :: "string \<Rightarrow> nat" where
  "plan_count wt = length (workflow_shape wt)"

text \<open>
  \<open>create_plan\<close> never raises: it takes one identifier for the plan and one per step, and its plan
  is the workflow's shape over the step keys.
\<close>

lemma create_plan_eq:
  assumes "now = Some ts"
  shows "\<exists>p. create_plan meta ex now e =
      (Inr p, e\<lparr>env_uuid_ix := env_uuid_ix e + 1 + plan_count (ex_workflow_type ex)\<rparr>)
    \<and> plan_of (ex_workflow_type ex)
        (map uuid_str (next_ids e (env_uuid_ix e + 1) (plan_count (ex_workflow_type ex)))) p
    \<and> pl_id p = env_uuids e (env_uuid_ix e) \<and> pl_execution_id p = ex_id ex \<and> pl_version p = 1
    \<and> pl_created_at p = ts"
  using assms
  by (simp add: create_plan_def now_or_clock_def prog_defs uuid4_def uuid4_str_def plan_incident_triage_def
      plan_cost_attribution_def plan_default_def plan_record_def plan_of_def workflow_shape_def
      plan_count_def next_ids_def upt_rec numeral_eq_Suc)

text \<open>The edges of a plan go forward in its step list, so that its graph has no cycle.\<close>

fun key_index :: "string \<Rightarrow> string list \<Rightarrow> nat" where
  "key_index k [] = 0"
| "key_index k (x # xs) = (if k = x then 0 else Suc (key_index k xs))"

definition edge_keys :: "pydict \<Rightarrow> (string \<times> string) option" where
  "edge_keys d =
     (case (as_str (dget d ''from_step''), as_str (dget d ''to_step'')) of
        (Some a, Some b) \<Rightarrow> Some (a, b) | _ \<Rightarrow> None)"

definition plan_graph :: "execution_plan \<Rightarrow> (string \<times> string) set" where
  "plan_graph p = {(a, b). Some (a, b) \<in> edge_keys ` set (pl_dependencies p)}"

lemma edge_keys_row: "edge_keys (edge_row a b) = Some (a, b)"
  by (simp add: edge_keys_def edge_row_def dget_def)

lemma key_index_nth: "distinct ks \<Longrightarrow> i < length ks \<Longrightarrow> key_index (ks ! i) ks = i"
  by (induction ks arbitrary: i) (auto simp: nth_Cons split: nat.splits)

lemma chain_edges_zip: "chain_edges ks = map (\<lambda>(a, b). edge_row a b) (zip ks (tl ks))"
  by (induction ks rule: chain_edges.induct) auto

lemma set_chain_edgesD:
  "d \<in> set (chain_edges ks) \<Longrightarrow> \<exists>i. Suc i < length ks \<and> d = edge_row (ks ! i) (ks ! Suc i)"
  by (cases ks) (auto simp: chain_edges_zip set_zip)

lemma plan_graph_forward:
  assumes p: "plan_of wt ks p" and d: "distinct ks" and e: "(a, b) \<in> plan_graph p"
  shows "a \<in> set ks \<and> b \<in> set ks \<and> key_index b ks = Suc (key_index a ks)"
proof -
  from e p obtain i where i: "Suc i < length ks" "a = ks ! i" "b = ks ! Suc i"
    by (auto simp: plan_graph_def plan_of_def edge_keys_row dest!: set_chain_edgesD)
  then show ?thesis using d by (simp add: key_index_nth)
qed

lemma plan_acyclic: "plan_of wt ks p \<Longrightarrow> distinct ks \<Longrightarrow> acyclic (plan_graph p)"
  by (rule acyclicI_order[where f = "\<lambda>k. - int (key_index k ks)"])
    (auto dest: plan_graph_forward)

text \<open>Exactly the last step of a shape is a validation step.\<close>

lemma shape_validation:
  "map (\<lambda>(nm, kind, ag). kind = ''validation'') (workflow_shape wt) =
     replicate (plan_count wt - 1) False @ [True]"
  by (simp add: workflow_shape_def plan_count_def)

lemma plan_count_cases: "plan_count wt \<in> {2, 3, 4}"
  by (simp add: plan_count_def workflow_shape_def)

end
