(* ===== verification/Step_Executor.thy ===== *)
theory Step_Executor
  imports Environment
begin

text \<open>
  The deterministic step simulation (\<open>app/runtime/step_executor.py\<close>).  It reads the step, draws a
  result identifier (and the clock when no time is given) and returns a \<open>StepResult\<close>; it has no
  access to executions.  The digests are prefixes of SHA-256 over the UTF-8 of the rendered text.
\<close>

definition step_execution_input :: "step \<Rightarrow> pydict" where
  "step_execution_input s =
     (case as_dict (dget (st_input s) ''execution_input'') of Some d \<Rightarrow> d | None \<Rightarrow> [])"

definition incident_id_of :: "pydict \<Rightarrow> string" where
  "incident_id_of ex_in =
     py_str (dget_default ex_in ''incident_id'' (dget_default ex_in ''id'' (PStr ''unknown'')))"

definition scope_id_of :: "pydict \<Rightarrow> string" where
  "scope_id_of ex_in =
     py_str (py_or (dget ex_in ''scope_id'') (py_or (dget ex_in ''billing_scope_id'')
       (dget_default ex_in ''id'' (PStr ''unknown''))))"

definition sha_text :: "string \<Rightarrow> string" where
  "sha_text s = sha256_hex (utf8 s)"

definition sim_seed :: "string \<Rightarrow> string" where
  "sim_seed key = take 8 (sha_text key)"

definition sim_digest :: "pydict \<Rightarrow> string" where
  "sim_digest payload = take 16 (sha_text (json_dumps (PDict payload)))"

text \<open>\<open>int(seed[i:j], 16)\<close>.\<close>

definition seed_int :: "nat \<Rightarrow> nat \<Rightarrow> string \<Rightarrow> nat" where
  "seed_int i j seed = int_of_hex (drop i (take j seed))"

text \<open>The \<open>StepResult(...)\<close> call the three methods share.\<close>

definition sim_result ::
  "uuid \<Rightarrow> step \<Rightarrow> datetime \<Rightarrow> pydict \<Rightarrow> pydict list \<Rightarrow> rat \<Rightarrow> pydict \<Rightarrow> validation_outcome option \<Rightarrow>
   step_result" where
  "sim_result rid s ts output evidence confidence detail vo =
     \<lparr>sr_id = rid, sr_step_id = st_id s, sr_output = Some output, sr_evidence = evidence,
      sr_errors = [], sr_latency_ms = Some 1, sr_latency_started_at = Some ts,
      sr_latency_ended_at = Some ts, sr_confidence = Some confidence,
      sr_confidence_detail = Some detail, sr_completeness = Some SC_FULL, sr_validation = vo,
      sr_created_at = ts, sr_updated_at = ts\<rparr>"

definition unknown_step_body :: "string \<Rightarrow> pydict \<times> rat \<times> validation_outcome option" where
  "unknown_step_body step_name =
     ([(''error'', PStr ''unknown_planner_step_name''), (''step_name'', PStr step_name)], 0,
      Some \<lparr>vo_status = ''failed'', vo_details = [(''reason'', PStr ''unknown_step_name'')]\<rparr>)"

section \<open>Incident triage\<close>

definition causes_pool :: "string list" where
  "causes_pool = [''config_drift'', ''dependency_failure'', ''capacity_saturation'']"

definition signal_row :: "string \<Rightarrow> string \<Rightarrow> string \<Rightarrow> pyval" where
  "signal_row source nm detail =
     PDict [(''source'', PStr source), (''name'', PStr nm), (''detail'', PStr detail)]"

text \<open>Output, confidence and validation outcome by step name.\<close>

definition incident_body ::
  "string \<Rightarrow> string \<Rightarrow> string \<Rightarrow> string \<Rightarrow> pydict \<times> rat \<times> validation_outcome option" where
  "incident_body step_name key seed digest =
     (let likely = causes_pool ! (seed_int 0 2 seed mod length causes_pool) in
      if step_name = ''analyze_incident'' then
        ([(''incident_summary'', PStr (''Incident '' @ key
             @ '': elevated error rate and latency correlated in window (deterministic triage digest ''
             @ digest @ '')'')),
          (''possible_causes'', PList (map PStr causes_pool))], 84 / 100, None)
      else if step_name = ''gather_evidence'' then
        ([(''evidence_summary'', PStr
             (''Simulated correlation across metrics, logs, and deploy events for '' @ key
              @ '' (seed '' @ seed @ '')'')),
          (''signals'', PList
             [signal_row ''metrics'' ''error_rate'' ''spike vs baseline'',
              signal_row ''logs'' ''timeout_pattern'' (''ref:'' @ digest),
              signal_row ''deploy'' ''recent_change'' ''within lookback window''])], 81 / 100, None)
      else if step_name = ''validate_incident'' then
        ([(''likely_cause'', PStr likely),
          (''validation_status'', PStr ''passed''),
          (''confidence_score'', PFloat (92 / 100)),
          (''digest'', PStr digest)], 92 / 100,
         Some \<lparr>vo_status = ''passed'',
               vo_details = [(''likely_cause'', PStr likely), (''incident_key'', PStr key),
                             (''simulated'', PBool True)]\<rparr>)
      else unknown_step_body step_name)"

definition execute_incident_triage_step :: "step \<Rightarrow> string \<Rightarrow> datetime \<Rightarrow> (env, step_result) prog" where
  "execute_incident_triage_step s step_name ts =
     (let key = incident_id_of (step_execution_input s);
          seed = sim_seed key;
          digest = sim_digest [(''step_name'', PStr step_name), (''incident_key'', PStr key),
                               (''simulated'', PBool True)];
          (output, confidence, vo) = incident_body step_name key seed digest
      in bnd uuid4 (\<lambda>rid. ret (sim_result rid s ts output
           [[(''type'', PStr ''simulated_incident_triage''), (''step_name'', PStr step_name),
             (''ref'', PStr (''incident_triage:'' @ digest))]]
           confidence
           [(''source'', PStr ''step_executor_incident_triage''), (''step_name'', PStr step_name)]
           vo)))"

section \<open>Cost attribution\<close>

definition services_pool :: "string list" where
  "services_pool = [''payments-api'', ''data-pipeline'', ''search-index'']"

definition teams_pool :: "string list" where
  "teams_pool = [''platform'', ''finops'', ''data'']"

definition cost_body ::
  "string \<Rightarrow> string \<Rightarrow> string \<Rightarrow> string \<Rightarrow> pydict \<times> rat \<times> validation_outcome option" where
  "cost_body step_name key seed digest =
     (let idx = seed_int 0 2 seed mod length services_pool;
          service = PStr (services_pool ! idx);
          team = PStr (teams_pool ! (idx mod length teams_pool)) in
      if step_name = ''analyze_cost_anomaly'' then
        ([(''suspected_service'', service), (''suspected_team'', team),
          (''anomaly_type'', PStr ''spend_spike''),
          (''estimated_cost_impact_usd'', PFloat (50 + of_nat (seed_int 2 4 seed))),
          (''attribution_summary'', PStr (''Scope '' @ key
             @ '': spend anomaly vs trailing baseline (digest '' @ digest @ '')'')),
          (''optimization_candidates'', PList [PStr ''rightsizing'', PStr ''reserved_capacity_review'']),
          (''evidence_references'', PList [PStr (''sim-cost:'' @ digest)])], 83 / 100, None)
      else if step_name = ''retrieve_cost_evidence'' then
        ([(''scope_id'', PStr key),
          (''evidence_summary'', PStr (''Simulated billing and cost playbook retrieval for '' @ key
             @ '' (seed '' @ seed @ '')'')),
          (''chunk_ids'', PList [PStr (''cost-sim-'' @ seed)]),
          (''corpus_version'', PStr ''phase5_local_v1'')], 80 / 100, None)
      else if step_name = ''correlate_usage_patterns'' then
        ([(''scope_id'', PStr key),
          (''correlation_summary'', PStr (''Simulated cloud_cost and metrics correlation for '' @ key)),
          (''cost_snapshot'', PDict [(''daily_cost_usd'', PFloat (40 + of_nat (seed_int 4 6 seed)))]),
          (''usage_signals'', PList [signal_row ''metrics'' ''cpu_utilization'' (''ref:'' @ digest)])],
         82 / 100, None)
      else if step_name = ''validate_cost_attribution'' then
        ([(''validation_status'', PStr ''passed''), (''confidence'', PFloat (9 / 10)),
          (''likely_service'', service), (''likely_team'', team),
          (''recommended_actions'', PList [PStr ''enable_budget_alerts'']),
          (''digest'', PStr digest)], 9 / 10,
         Some \<lparr>vo_status = ''passed'',
               vo_details = [(''likely_service'', service), (''scope_key'', PStr key),
                             (''simulated'', PBool True)]\<rparr>)
      else unknown_step_body step_name)"

definition execute_cost_attribution_step :: "step \<Rightarrow> string \<Rightarrow> datetime \<Rightarrow> (env, step_result) prog" where
  "execute_cost_attribution_step s step_name ts =
     (let key = scope_id_of (step_execution_input s);
          seed = sim_seed key;
          digest = sim_digest [(''step_name'', PStr step_name), (''scope_key'', PStr key),
                               (''simulated'', PBool True)];
          (output, confidence, vo) = cost_body step_name key seed digest
      in bnd uuid4 (\<lambda>rid. ret (sim_result rid s ts output
           [[(''type'', PStr ''simulated_cost_attribution''), (''step_name'', PStr step_name),
             (''ref'', PStr (''cost_attribution:'' @ digest))]]
           confidence
           [(''source'', PStr ''step_executor_cost_attribution''), (''step_name'', PStr step_name)]
           vo)))"

section \<open>Generic steps and the entry point\<close>

definition execute_generic_step :: "step \<Rightarrow> datetime \<Rightarrow> (env, step_result) prog" where
  "execute_generic_step s ts =
     (let kind = step_type_value (st_type s);
          digest = sim_digest [(''step_id'', PStr (uuid_str (st_id s))), (''kind'', PStr kind),
                               (''simulated'', PBool True)];
          (output, confidence, vo) =
            (if kind = ''validation'' then
               ([(''validated'', PBool True), (''digest'', PStr digest),
                 (''summary'', PStr ''validation passed (simulated)'')], 95 / 100,
                Some \<lparr>vo_status = ''passed'',
                      vo_details = [(''simulated'', PBool True), (''digest'', PStr digest)]\<rparr>)
             else
               ([(''reasoning_digest'', PStr digest),
                 (''summary'', PStr ''reasoning completed (simulated)'')], 82 / 100, None))
      in bnd uuid4 (\<lambda>rid. ret (sim_result rid s ts output
           [[(''type'', PStr ''simulated''), (''ref'', PStr (''sim:'' @ digest))]]
           confidence
           [(''source'', PStr ''step_executor_simulator''), (''kind'', PStr kind)]
           vo)))"

definition execute_step :: "step \<Rightarrow> datetime option \<Rightarrow> (env, step_result) prog" where
  "execute_step s now =
     (if st_status s \<noteq> SS_RUNNING then
        throw ValueError (''step '' @ uuid_str (st_id s) @ '' must be RUNNING before execute_step(); got ''
          @ step_status_value (st_status s))
      else bnd (now_or_clock now) (\<lambda>ts.
        let workflow_type = dget (st_input s) ''workflow_type'';
            step_name = dget (st_input s) ''planner_step_name''
        in (case as_str step_name of
              Some nm \<Rightarrow>
                if workflow_type = PStr ''incident_triage'' then execute_incident_triage_step s nm ts
                else if workflow_type = PStr ''cost_attribution'' then execute_cost_attribution_step s nm ts
                else execute_generic_step s ts
            | None \<Rightarrow> execute_generic_step s ts)))"

section \<open>Laws\<close>

lemma incident_body_confidence:
  "fst (snd (incident_body nm key seed digest)) \<in> {84 / 100, 81 / 100, 92 / 100, 0}"
  by (simp add: incident_body_def Let_def unknown_step_body_def)

lemma cost_body_confidence:
  "fst (snd (cost_body nm key seed digest)) \<in> {83 / 100, 80 / 100, 82 / 100, 9 / 10, 0}"
  by (simp add: cost_body_def Let_def unknown_step_body_def)

lemma bodies_in_unit:
  "0 \<le> fst (snd (incident_body nm key seed digest))" "fst (snd (incident_body nm key seed digest)) \<le> 1"
  "0 \<le> fst (snd (cost_body nm key seed digest))" "fst (snd (cost_body nm key seed digest)) \<le> 1"
  using incident_body_confidence[of nm key seed digest] cost_body_confidence[of nm key seed digest]
  by auto

text \<open>A running step always gets a valid result for itself; one identifier is drawn.\<close>

lemma execute_step_ok:
  assumes "st_status s = SS_RUNNING"
  shows "\<exists>r e'. execute_step s now e = (Inr r, e') \<and> sr_step_id r = st_id s \<and> step_result_valid r
    \<and> sr_output r \<noteq> None \<and> env_uuids e' = env_uuids e \<and> env_uuid_ix e' = Suc (env_uuid_ix e)"
proof -
  obtain ts e1 where ts: "now_or_clock now e = (Inr ts, e1)" "env_uuids e1 = env_uuids e"
    "env_uuid_ix e1 = env_uuid_ix e"
    by (cases now) (auto simp: now_or_clock_def ret_def utc_now_def)
  have valid: "step_result_valid (sim_result rid s ts out ev c d vo)" if "0 \<le> c" "c \<le> 1" for rid out ev c d vo
    using that by (simp add: step_result_valid_def sim_result_def unit_interval_def nonneg_opt_def)
  show ?thesis
    using assms ts bodies_in_unit
    by (auto simp: execute_step_def bnd_def ret_def uuid4_def Let_def execute_incident_triage_step_def
        execute_cost_attribution_step_def execute_generic_step_def valid case_prod_unfold
        split: option.split) (simp_all add: sim_result_def)
qed

lemma execute_step_not_running:
  "st_status s \<noteq> SS_RUNNING \<Longrightarrow>
   execute_step s now e =
     (Inl (Exn ValueError (''step '' @ uuid_str (st_id s)
        @ '' must be RUNNING before execute_step(); got '' @ step_status_value (st_status s))), e)"
  by (simp add: execute_step_def throw_def)

end
