(* ===== verification/Engine_Base.thy ===== *)
theory Engine_Base
  imports World State_Machine Runtime_Meta Policy_Engine Tools Planner Step_Executor
begin

text \<open>
  The execution engine, part one (\<open>app/runtime/orchestrator.py\<close>): the engine's configuration, trace
  rows, plan order and readiness of steps, instantiation of a plan, and what the engine reads from
  earlier results.
\<close>

section \<open>Configuration\<close>

record settings =
  cfg_agent_reasoning :: string
  cfg_agent_validation :: string
  cfg_agent_retrieval :: string

definition default_settings :: settings where
  "default_settings =
     \<lparr>cfg_agent_reasoning = ''reasoning_agent_v1'', cfg_agent_validation = ''validation_agent_v1'',
      cfg_agent_retrieval = ''retrieval_agent_v1''\<rparr>"

text \<open>The model runtime as the engine uses it: four calls that return a structured output or raise.\<close>

record model_runtime =
  mr_analyze_incident :: "incident_analysis_request \<Rightarrow> (env, incident_analysis_output) prog"
  mr_validate_incident :: "incident_validation_request \<Rightarrow> (env, incident_validation_output) prog"
  mr_analyze_cost :: "cost_analysis_request \<Rightarrow> (env, cost_analysis_output) prog"
  mr_validate_cost :: "cost_validation_request \<Rightarrow> (env, cost_validation_output) prog"

text \<open>
  The constructor's arguments: an injected capability that is \<open>None\<close> turns its path off, and the
  step is then simulated.
\<close>

record engine =
  eng_planner_meta :: pydict
  eng_settings :: settings
  eng_policy :: evaluator
  eng_tools :: "registry option"
  eng_knowledge :: "(retrieval_request \<Rightarrow> (env, retrieval_response) prog) option"
  eng_model :: "model_runtime option"

definition orchestration_error :: "string \<Rightarrow> (world, 'a) prog" where
  "orchestration_error msg = throw OrchestrationError msg"

section \<open>Trace rows\<close>

definition timeline_row :: "string \<Rightarrow> pydict \<Rightarrow> datetime \<Rightarrow> pydict" where
  "timeline_row event_type detail now =
     dmerge [(''event_type'', PStr event_type), (''at'', PStr (isoformat now))] detail"

definition append_timeline :: "execution \<Rightarrow> string \<Rightarrow> pydict \<Rightarrow> datetime \<Rightarrow> execution" where
  "append_timeline ex event_type detail now =
     ex\<lparr>ex_timeline := ex_timeline ex @ [timeline_row event_type detail now], ex_updated_at := now\<rparr>"

text \<open>The row that records a status change.\<close>

definition status_row :: "execution \<Rightarrow> execution_status \<Rightarrow> pydict \<Rightarrow> datetime \<Rightarrow> execution" where
  "status_row ex status extra now =
     append_timeline ex ''execution_status'' ((''status'', PStr (execution_status_value status)) # extra) now"

text \<open>Re-read the execution, append a row, and store it; nothing when it is missing.\<close>

definition trace_event :: "uuid \<Rightarrow> string \<Rightarrow> pydict \<Rightarrow> datetime \<Rightarrow> (world, unit) prog" where
  "trace_event eid event_type detail now =
     bnd (ask (\<lambda>r. get_execution r eid)) (\<lambda>found. case found of
         None \<Rightarrow> ret ()
       | Some ex \<Rightarrow> in_repo (update_execution (append_timeline ex event_type detail now)))"

section \<open>Steps of a plan\<close>

definition planner_step_name :: "step \<Rightarrow> pyval" where
  "planner_step_name s = dget (st_input s) ''planner_step_name''"

definition step_workflow :: "step \<Rightarrow> pyval" where
  "step_workflow s = dget (st_input s) ''workflow_type''"

definition planner_step_key :: "step \<Rightarrow> string option" where
  "planner_step_key s = as_str (dget (st_input s) ''planner_step_key'')"

fun steps_by_key :: "step list \<Rightarrow> (string \<times> step) list \<Rightarrow> (string \<times> step) list" where
  "steps_by_key [] d = d"
| "steps_by_key (s # ss) d =
     steps_by_key ss (case planner_step_key s of None \<Rightarrow> d | Some k \<Rightarrow> AList.update k s d)"

definition steps_in_plan_order :: "step list \<Rightarrow> execution_plan \<Rightarrow> step list" where
  "steps_in_plan_order ss plan =
     (let by_key = steps_by_key ss []
      in List.map_filter (\<lambda>spec. case as_str (dget spec ''step_key'') of
             None \<Rightarrow> None | Some key \<Rightarrow> map_of by_key key) (pl_steps plan))"

definition steps_by_id :: "step list \<Rightarrow> (uuid \<times> step) list" where
  "steps_by_id ss = fold (\<lambda>s d. AList.update (st_id s) s d) ss []"

definition is_ready :: "step \<Rightarrow> step list \<Rightarrow> bool" where
  "is_ready s all_steps =
     (let by_id = steps_by_id all_steps
      in list_all (\<lambda>dep. case map_of by_id dep of
             None \<Rightarrow> False | Some parent \<Rightarrow> st_status parent = SS_SUCCEEDED) (st_dependencies s))"

fun next_pending_ready :: "step list \<Rightarrow> step list \<Rightarrow> step option" where
  "next_pending_ready [] all_steps = None"
| "next_pending_ready (s # ss) all_steps =
     (if st_status s = SS_PENDING \<and> is_ready s all_steps then Some s
      else next_pending_ready ss all_steps)"

definition is_validation_step :: "step \<Rightarrow> bool" where
  "is_validation_step s =
     (case st_type s of
        ST_Plain k \<Rightarrow> lower k = ''validation''
      | k \<Rightarrow> k = ST_VALIDATION)"

section \<open>Instantiating a plan\<close>

text \<open>\<open>d[k]\<close> where the plan's values are text.\<close>

definition req_str :: "pydict \<Rightarrow> string \<Rightarrow> (env, string) prog" where
  "req_str d k =
     (case map_of d k of
        None \<Rightarrow> throw KeyError (repr_str k)
      | Some v \<Rightarrow> (case as_str v of
            None \<Rightarrow> throw TypeError k
          | Some s \<Rightarrow> ret s))"

definition step_type_of_kind :: "string \<Rightarrow> step_type" where
  "step_type_of_kind kind =
     (if kind = ''validation'' then ST_VALIDATION
      else if kind = ''reasoning'' then ST_REASONING
      else if kind = ''retrieval'' then ST_RETRIEVAL
      else if kind = ''tool'' then ST_TOOL
      else ST_Plain kind)"

definition step_agent :: "settings \<Rightarrow> pydict \<Rightarrow> string \<Rightarrow> pyval" where
  "step_agent cfg spec kind =
     py_or (dget spec ''agent'') (PStr
       (if kind = ''validation'' then cfg_agent_validation cfg
        else if kind = ''retrieval'' then cfg_agent_retrieval cfg
        else cfg_agent_reasoning cfg))"

fun step_key_ids :: "pydict list \<Rightarrow> (string \<times> uuid) list \<Rightarrow> (env, (string \<times> uuid) list) prog" where
  "step_key_ids [] d = ret d"
| "step_key_ids (spec # specs) d =
     bnd (req_str spec ''step_key'') (\<lambda>key. bnd uuid4 (\<lambda>u.
       step_key_ids specs (AList.update key u d)))"

text \<open>The inner loop over the edges that end in this step.\<close>

fun step_deps :: "pydict list \<Rightarrow> string \<Rightarrow> (string \<times> uuid) list \<Rightarrow> (env, uuid list) prog" where
  "step_deps [] key ids = ret []"
| "step_deps (edge # edges) key ids =
     bnd (req_str edge ''to_step'') (\<lambda>to_step.
       if to_step = key then
         bnd (req_str edge ''from_step'') (\<lambda>from_step.
           case map_of ids from_step of
             None \<Rightarrow> throw KeyError (repr_str from_step)
           | Some u \<Rightarrow> bnd (step_deps edges key ids) (\<lambda>us. ret (u # us)))
       else step_deps edges key ids)"

definition build_step ::
  "settings \<Rightarrow> execution_plan \<Rightarrow> execution \<Rightarrow> datetime \<Rightarrow> (string \<times> uuid) list \<Rightarrow> pydict \<Rightarrow>
   (env, step) prog" where
  "build_step cfg plan ex now ids spec =
     bnd (req_str spec ''step_key'') (\<lambda>key.
       case map_of ids key of
         None \<Rightarrow> throw KeyError (repr_str key)
       | Some sid \<Rightarrow>
           bnd (step_deps (pl_dependencies plan) key ids) (\<lambda>deps.
           bnd (req_str spec ''kind'') (\<lambda>kind.
             case as_str (step_agent cfg spec kind) of
               None \<Rightarrow> throw PydanticValidationError ''Step.agent''
             | Some agent \<Rightarrow>
                 ret \<lparr>st_id = sid, st_execution_id = ex_id ex, st_plan_id = pl_id plan,
                   st_type = step_type_of_kind kind, st_agent = agent,
                   st_input = [(''planner_step_key'', PStr key),
                               (''planner_step_name'', dget spec ''step_name''),
                               (''workflow_type'', PStr (ex_workflow_type ex)),
                               (''execution_input'', PDict (ex_input ex))],
                   st_status = SS_PENDING, st_dependencies = deps, st_retry_count = 0,
                   st_degraded_allowed = truthy (dget spec ''degraded_allowed''),
                   st_created_at = now, st_updated_at = now\<rparr>)))"

definition instantiate_steps ::
  "settings \<Rightarrow> execution_plan \<Rightarrow> execution \<Rightarrow> datetime \<Rightarrow> (env, step list) prog" where
  "instantiate_steps cfg plan ex now =
     bnd (step_key_ids (pl_steps plan) []) (\<lambda>ids.
       map_prog (build_step cfg plan ex now ids) (pl_steps plan))"

section \<open>Entering the validation phase\<close>

definition maybe_enter_validating :: "execution \<Rightarrow> step list \<Rightarrow> datetime \<Rightarrow> (world, execution) prog" where
  "maybe_enter_validating ex ss now =
     (let non_val = filter (\<lambda>s. \<not> is_validation_step s) ss;
          val_steps = filter is_validation_step ss
      in if ex_status ex \<noteq> ES_EXECUTING then ret ex
         else if val_steps = [] \<or> non_val = [] then ret ex
         else if list_all (\<lambda>s. st_status s = SS_SUCCEEDED) non_val
                 \<and> list_ex (\<lambda>s. st_status s = SS_PENDING) val_steps then
           andthen (validate_execution_transition ES_EXECUTING ES_VALIDATING)
             (ret (status_row (ex\<lparr>ex_status := ES_VALIDATING, ex_updated_at := now\<rparr>) ES_VALIDATING [] now))
         else ret ex)"

section \<open>Earlier results\<close>

text \<open>\<open>res.output\<close> when there is a result with a dictionary, else an empty dictionary.\<close>

definition result_output :: "repo \<Rightarrow> uuid \<Rightarrow> pydict" where
  "result_output r sid =
     (case get_step_result r sid of
        None \<Rightarrow> []
      | Some res \<Rightarrow> (case sr_output res of None \<Rightarrow> [] | Some out \<Rightarrow> out))"

text \<open>The output of the last step of the execution with this planner name.\<close>

definition prior_output :: "repo \<Rightarrow> uuid \<Rightarrow> string \<Rightarrow> pydict" where
  "prior_output r eid nm =
     fold (\<lambda>s out. if planner_step_name s = PStr nm then result_output r (st_id s) else out)
       (list_steps_for_execution r eid) []"

definition prior_analyze_and_gather_outputs :: "repo \<Rightarrow> uuid \<Rightarrow> pydict \<times> pydict" where
  "prior_analyze_and_gather_outputs r eid =
     (prior_output r eid ''analyze_incident'', prior_output r eid ''gather_evidence'')"

definition prior_cost_step_outputs :: "repo \<Rightarrow> uuid \<Rightarrow> pydict \<times> pydict \<times> pydict" where
  "prior_cost_step_outputs r eid =
     (prior_output r eid ''analyze_cost_anomaly'', prior_output r eid ''retrieve_cost_evidence'',
      prior_output r eid ''correlate_usage_patterns'')"

definition cancellation_check :: "repo \<Rightarrow> uuid \<Rightarrow> bool" where
  "cancellation_check r eid =
     (case get_execution r eid of None \<Rightarrow> False | Some ex \<Rightarrow> is_cancellation_requested ex)"

end
