(* ===== verification/Engine_Reasoning.thy ===== *)
theory Engine_Reasoning
  imports Engine_Base
begin

text \<open>
  The execution engine, part two: steps that call the model runtime.  The request is built from
  the step, the call is traced, and every exception on the way, also a rejected request or a
  rejected result, is counted, traced and answered by the deterministic executor.
\<close>

definition opt_field :: "string \<Rightarrow> string option \<Rightarrow> pydict" where
  "opt_field k v = (case v of None \<Rightarrow> [] | Some s \<Rightarrow> if s = [] then [] else [(k, PStr s)])"

definition reasoning_detail ::
  "step \<Rightarrow> string \<Rightarrow> string \<Rightarrow> string option \<Rightarrow> string option \<Rightarrow> string option \<Rightarrow> pydict option \<Rightarrow> pydict" where
  "reasoning_detail s path task provider error_class error_message invocation =
     [(''step_id'', PStr (uuid_str (st_id s))),
      (''planner_step_name'', planner_step_name s),
      (''path'', PStr path), (''task'', PStr task)]
     @ opt_field ''provider'' provider @ opt_field ''error_class'' error_class
     @ opt_field ''error_message'' (map_option (take 500) error_message)
     @ (case invocation of None \<Rightarrow> [] | Some tel \<Rightarrow> if tel = [] then [] else [(''invocation'', PDict tel)])"

definition trace_model_reasoning ::
  "step \<Rightarrow> string \<Rightarrow> string \<Rightarrow> string option \<Rightarrow> string option \<Rightarrow> string option \<Rightarrow> pydict option \<Rightarrow>
   datetime \<Rightarrow> (world, unit) prog" where
  "trace_model_reasoning s path task provider error_class error_message invocation now =
     trace_event (st_execution_id s) ''model_reasoning''
       (reasoning_detail s path task provider error_class error_message invocation) now"

text \<open>\<open>StepResult(...)\<close> from a model output: the bounds are checked by the constructor.\<close>

definition mk_step_result :: "step_result \<Rightarrow> (world, step_result) prog" where
  "mk_step_result r =
     (if step_result_valid r then ret r else throw PydanticValidationError ''StepResult'')"

definition model_result ::
  "uuid \<Rightarrow> step \<Rightarrow> datetime \<Rightarrow> string \<Rightarrow> string \<Rightarrow> string \<Rightarrow> pydict \<Rightarrow> rat \<Rightarrow> validation_outcome option \<Rightarrow>
   step_result" where
  "model_result rid s now task provider invocation_id output confidence vo =
     \<lparr>sr_id = rid, sr_step_id = st_id s, sr_output = Some output,
      sr_evidence = [[(''type'', PStr ''model_reasoning''), (''provider'', PStr provider),
                      (''invocation_id'', PStr invocation_id), (''task'', PStr task)]],
      sr_errors = [], sr_latency_ms = Some 1, sr_latency_started_at = Some now,
      sr_latency_ended_at = Some now, sr_confidence = Some confidence,
      sr_confidence_detail = Some [(''source'', PStr ''model_runtime''), (''provider'', PStr provider),
                                   (''task'', PStr task)],
      sr_completeness = Some SC_FULL, sr_validation = vo, sr_created_at = now, sr_updated_at = now\<rparr>"

definition step_result_from_analyze_model ::
  "step \<Rightarrow> datetime \<Rightarrow> incident_analysis_output \<Rightarrow> (world, step_result) prog" where
  "step_result_from_analyze_model s now out =
     bnd (in_env uuid4) (\<lambda>rid. mk_step_result
       (model_result rid s now ''analyze_incident'' (io_provider_label out) (io_invocation_id out)
         [(''incident_summary'', PStr (io_incident_summary out)),
          (''possible_causes'', PList (map PStr (io_possible_causes out)))] (86 / 100) None))"

definition step_result_from_validate_model ::
  "step \<Rightarrow> datetime \<Rightarrow> incident_validation_output \<Rightarrow> (world, step_result) prog" where
  "step_result_from_validate_model s now out =
     bnd (in_env uuid4) (\<lambda>rid. mk_step_result
       (model_result rid s now ''validate_incident'' (jo_provider_label out) (jo_invocation_id out)
         [(''likely_cause'', PStr (jo_likely_cause out)),
          (''validation_status'', PStr (jo_validation_status out)),
          (''confidence_score'', PFloat (jo_confidence out)),
          (''digest'', PStr (jo_digest out))] (jo_confidence out)
         (Some \<lparr>vo_status = jo_validation_status out,
                vo_details = [(''likely_cause'', PStr (jo_likely_cause out)),
                              (''model_invocation_id'', PStr (jo_invocation_id out)),
                              (''provider'', PStr (jo_provider_label out)),
                              (''rationale_short'', PStr (jo_rationale out))]\<rparr>)))"

definition step_result_from_cost_analyze_model ::
  "step \<Rightarrow> datetime \<Rightarrow> cost_analysis_output \<Rightarrow> (world, step_result) prog" where
  "step_result_from_cost_analyze_model s now out =
     bnd (in_env uuid4) (\<lambda>rid. mk_step_result
       (model_result rid s now ''analyze_cost_anomaly'' (co_provider_label out) (co_invocation_id out)
         [(''suspected_service'', PStr (co_service out)),
          (''suspected_team'', PStr (co_team out)),
          (''anomaly_type'', PStr (co_anomaly_type out)),
          (''estimated_cost_impact_usd'', PFloat (co_impact_usd out)),
          (''attribution_summary'', PStr (co_summary out)),
          (''optimization_candidates'', PList (map PStr (co_candidates out))),
          (''evidence_references'', PList (map PStr (co_references out)))] (85 / 100) None))"

definition step_result_from_cost_validate_model ::
  "step \<Rightarrow> datetime \<Rightarrow> cost_validation_output \<Rightarrow> (world, step_result) prog" where
  "step_result_from_cost_validate_model s now out =
     bnd (in_env uuid4) (\<lambda>rid. mk_step_result
       (model_result rid s now ''validate_cost_attribution'' (wo_provider_label out) (wo_invocation_id out)
         [(''validation_status'', PStr (wo_validation_status out)),
          (''confidence'', PFloat (wo_confidence out)),
          (''likely_service'', PStr (wo_service out)),
          (''likely_team'', PStr (wo_team out)),
          (''recommended_actions'', PList (map PStr (wo_actions out))),
          (''digest'', PStr (wo_digest out))] (wo_confidence out)
         (Some \<lparr>vo_status = wo_validation_status out,
                vo_details = [(''likely_service'', PStr (wo_service out)),
                              (''likely_team'', PStr (wo_team out)),
                              (''confidence'', PFloat (wo_confidence out)),
                              (''model_invocation_id'', PStr (wo_invocation_id out)),
                              (''provider'', PStr (wo_provider_label out))]\<rparr>)))"

text \<open>The first twelve keys of the execution input in order.\<close>

definition input_excerpt :: "pydict \<Rightarrow> pydict" where
  "input_excerpt ex_in = map (\<lambda>k. (k, dget ex_in k)) (take 12 (sort (map fst ex_in)))"

text \<open>\<open>[str(x) for x in v] if isinstance(v, list) else []\<close>, and \<open>str(d.get(k, ""))[:2000]\<close>.\<close>

definition str_items :: "pyval \<Rightarrow> string list" where
  "str_items v = (case as_list v of None \<Rightarrow> [] | Some vs \<Rightarrow> map py_str vs)"

definition excerpt_text :: "pydict \<Rightarrow> string \<Rightarrow> string" where
  "excerpt_text d k = take 2000 (py_str (dget_default d k (PStr [])))"

definition require :: "bool \<Rightarrow> string \<Rightarrow> (world, unit) prog" where
  "require ok what = (if ok then ret () else throw PydanticValidationError what)"

text \<open>The \<open>except Exception\<close> clause.\<close>

definition model_fallback :: "step \<Rightarrow> string \<Rightarrow> string list \<Rightarrow> datetime \<Rightarrow> exn \<Rightarrow> (world, step_result) prog" where
  "model_fallback s nm tasks now exc =
     (let task = (if nm \<in> set tasks then nm else ''unknown'')
      in andthen (in_env (inc_metric ''model_fallback_total'' [(''task'', task)]))
        (andthen (in_env (emit_event ''model_fallback''
            [(''execution_id'', PStr (uuid_str (st_execution_id s))),
             (''step_id'', PStr (uuid_str (st_id s))),
             (''task'', PStr nm), (''error_class'', PStr (exn_name exc))]))
        (andthen (trace_model_reasoning s ''deterministic_fallback'' task None
            (Some (exn_name exc)) (Some (exn_message exc)) None now)
          (in_env (execute_step s None)))))"

section \<open>Incident triage\<close>

definition analyze_incident_call ::
  "model_runtime \<Rightarrow> step \<Rightarrow> pydict \<Rightarrow> datetime \<Rightarrow> (world, step_result) prog" where
  "analyze_incident_call mr s ex_in now =
     (let rq = \<lparr>iq_execution_id = st_execution_id s, iq_step_id = st_id s,
                iq_incident_id = incident_id_of ex_in, iq_workflow_type = ''incident_triage'',
                iq_excerpt = input_excerpt ex_in\<rparr>
      in andthen (require (incident_analysis_request_valid rq) ''IncidentAnalysisModelRequest'')
        (bnd (in_env (mr_analyze_incident mr rq)) (\<lambda>out.
          andthen (trace_model_reasoning s ''model_runtime'' ''analyze_incident''
              (Some (io_provider_label out)) None None (map_option telemetry_dump (io_invocation out)) now)
            (step_result_from_analyze_model s now out))))"

definition validate_incident_call ::
  "model_runtime \<Rightarrow> step \<Rightarrow> pydict \<Rightarrow> datetime \<Rightarrow> (world, step_result) prog" where
  "validate_incident_call mr s ex_in now =
     bnd (ask (\<lambda>r. prior_analyze_and_gather_outputs r (st_execution_id s))) (\<lambda>(analyze_out, gather_out).
       let rq = \<lparr>jq_execution_id = st_execution_id s, jq_step_id = st_id s,
                 jq_incident_id = incident_id_of ex_in,
                 jq_prior_causes = take 16 (str_items (dget analyze_out ''possible_causes'')),
                 jq_prior_summary = excerpt_text analyze_out ''incident_summary'',
                 jq_evidence_summary = excerpt_text gather_out ''evidence_summary''\<rparr>
       in andthen (require (incident_validation_request_valid rq) ''IncidentValidationModelRequest'')
        (bnd (in_env (mr_validate_incident mr rq)) (\<lambda>out.
          andthen (trace_model_reasoning s ''model_runtime'' ''validate_incident''
              (Some (jo_provider_label out)) None None (map_option telemetry_dump (jo_invocation out)) now)
            (step_result_from_validate_model s now out))))"

definition incident_model_reasoning_step ::
  "model_runtime \<Rightarrow> step \<Rightarrow> datetime \<Rightarrow> (world, step_result) prog" where
  "incident_model_reasoning_step mr s now =
     (case as_str (planner_step_name s) of
        None \<Rightarrow> in_env (execute_step s None)
      | Some nm \<Rightarrow>
          (let ex_in = step_execution_input s;
               tasks = [''analyze_incident'', ''validate_incident'']
           in if nm = ''analyze_incident'' then
                try_except (analyze_incident_call mr s ex_in now) (model_fallback s nm tasks now)
              else if nm = ''validate_incident'' then
                try_except (validate_incident_call mr s ex_in now) (model_fallback s nm tasks now)
              else in_env (execute_step s None)))"

section \<open>Cost attribution\<close>

definition analyze_cost_call ::
  "model_runtime \<Rightarrow> step \<Rightarrow> pydict \<Rightarrow> datetime \<Rightarrow> (world, step_result) prog" where
  "analyze_cost_call mr s ex_in now =
     (let rq = \<lparr>cq_execution_id = st_execution_id s, cq_step_id = st_id s,
                cq_scope_id = scope_id_of ex_in, cq_workflow_type = ''cost_attribution'',
                cq_excerpt = input_excerpt ex_in\<rparr>
      in andthen (require (cost_analysis_request_valid rq) ''CostAttributionAnalysisModelRequest'')
        (bnd (in_env (mr_analyze_cost mr rq)) (\<lambda>out.
          andthen (trace_model_reasoning s ''model_runtime'' ''analyze_cost_anomaly''
              (Some (co_provider_label out)) None None (map_option telemetry_dump (co_invocation out)) now)
            (step_result_from_cost_analyze_model s now out))))"

definition validate_cost_call ::
  "model_runtime \<Rightarrow> step \<Rightarrow> pydict \<Rightarrow> datetime \<Rightarrow> (world, step_result) prog" where
  "validate_cost_call mr s ex_in now =
     bnd (ask (\<lambda>r. prior_cost_step_outputs r (st_execution_id s))) (\<lambda>(analyze_out, retrieve_out, correlate_out).
       let rq = \<lparr>vq_execution_id = st_execution_id s, vq_step_id = st_id s,
                 vq_scope_id = scope_id_of ex_in,
                 vq_prior_summary = excerpt_text analyze_out ''attribution_summary'',
                 vq_prior_evidence = excerpt_text retrieve_out ''evidence_summary'',
                 vq_prior_candidates = take 16 (str_items (dget analyze_out ''optimization_candidates''))\<rparr>
       in andthen (require (cost_validation_request_valid rq) ''CostAttributionValidationModelRequest'')
        (bnd (in_env (mr_validate_cost mr rq)) (\<lambda>out.
          andthen (trace_model_reasoning s ''model_runtime'' ''validate_cost_attribution''
              (Some (wo_provider_label out)) None None (map_option telemetry_dump (wo_invocation out)) now)
            (step_result_from_cost_validate_model s now out))))"

definition cost_model_reasoning_step ::
  "model_runtime \<Rightarrow> step \<Rightarrow> datetime \<Rightarrow> (world, step_result) prog" where
  "cost_model_reasoning_step mr s now =
     (case as_str (planner_step_name s) of
        None \<Rightarrow> in_env (execute_step s None)
      | Some nm \<Rightarrow>
          (let ex_in = step_execution_input s;
               tasks = [''analyze_cost_anomaly'', ''validate_cost_attribution'']
           in if nm = ''analyze_cost_anomaly'' then
                try_except (analyze_cost_call mr s ex_in now) (model_fallback s nm tasks now)
              else if nm = ''validate_cost_attribution'' then
                try_except (validate_cost_call mr s ex_in now) (model_fallback s nm tasks now)
              else in_env (execute_step s None)))"

end
