(* ===== verification/Engine_Services.thy ===== *)
theory Engine_Services
  imports Engine_Reasoning
begin

text \<open>
  The execution engine, part three: steps that call the knowledge service and the tool runtime, and
  the choice between services, model and simulation.  Each tool call is persisted and traced before
  the next one.
\<close>

text \<open>The execution and its context, or the orchestration error the three steps raise.\<close>

definition load_context :: "step \<Rightarrow> (world, exec_context) prog" where
  "load_context s =
     bnd (ask (\<lambda>r. get_execution r (st_execution_id s))) (\<lambda>found. case found of
         None \<Rightarrow> orchestration_error (''missing execution '' @ uuid_str (st_execution_id s))
       | Some ex \<Rightarrow> bnd (ask (\<lambda>r. get_context r (ex_context_id ex))) (\<lambda>c. case c of
             None \<Rightarrow> orchestration_error (''missing context '' @ uuid_str (ex_context_id ex))
           | Some ctx \<Rightarrow> ret ctx))"

definition retrieval_detail :: "step \<Rightarrow> retrieval_response \<Rightarrow> pydict" where
  "retrieval_detail s rv =
     [(''step_id'', PStr (uuid_str (st_id s))),
      (''retrieval_id'', PStr (uuid_str (rv_retrieval_id rv))),
      (''chunk_count'', PInt (int (length (rv_chunks rv)))),
      (''corpus_version'', PStr (rv_corpus_version rv))]"

definition tool_detail :: "step \<Rightarrow> tool_call \<Rightarrow> pydict" where
  "tool_detail s tc =
     [(''step_id'', PStr (uuid_str (st_id s))),
      (''tool_call_id'', PStr (uuid_str (tc_id tc))),
      (''tool_name'', PStr (tc_tool_name tc)),
      (''status'', PStr (tool_call_status_value (tc_status tc))),
      (''latency_ms'', (case tc_latency_ms tc of None \<Rightarrow> PNone | Some i \<Rightarrow> PInt i))]"

text \<open>One turn of the loop over the tool names: invoke, persist, trace.\<close>

definition call_tool ::
  "registry \<Rightarrow> step \<Rightarrow> exec_context \<Rightarrow> pydict \<Rightarrow> pydict \<Rightarrow> datetime \<Rightarrow> string \<Rightarrow> (world, tool_call) prog" where
  "call_tool reg s ctx payload extra now nm =
     (let rq = \<lparr>tq_execution_id = st_execution_id s, tq_step_id = st_id s, tq_context_id = ctx_id ctx,
                tq_tool_name = nm, tq_input = payload, tq_proposal_id = None,
                tq_policy_denied = False\<rparr>
      in bnd (ask (\<lambda>r. cancellation_check r (st_execution_id s))) (\<lambda>stop.
         bnd (in_env (tool_invoke reg (Some (reads (\<lambda>_. stop))) rq (Some now))) (\<lambda>tc.
           andthen (on_repo (save_tool_call tc))
             (andthen (trace_event (st_execution_id s) ''tool_call_completed'' (tool_detail s tc @ extra) now)
               (ret tc)))))"

definition calls_by_name :: "tool_call list \<Rightarrow> string \<Rightarrow> pydict" where
  "calls_by_name tcs nm =
     (case map_of (fold (\<lambda>tc d. AList.update (tc_tool_name tc) tc d) tcs []) nm of
        None \<Rightarrow> []
      | Some tc \<Rightarrow> (case tc_output tc of None \<Rightarrow> [] | Some out \<Rightarrow> out))"

text \<open>\<open>[dict(x) for x in v if isinstance(x, dict)]\<close> when \<open>v\<close> is a list.\<close>

definition dict_items :: "pyval \<Rightarrow> pyval list" where
  "dict_items v = (case as_list v of None \<Rightarrow> [] | Some vs \<Rightarrow> filter (\<lambda>x. as_dict x \<noteq> None) vs)"

definition tool_evidence :: "tool_call \<Rightarrow> pydict" where
  "tool_evidence tc =
     [(''type'', PStr ''tool_invocation''), (''tool_call_id'', PStr (uuid_str (tc_id tc))),
      (''tool_name'', PStr (tc_tool_name tc)),
      (''status'', PStr (tool_call_status_value (tc_status tc)))]"

definition retrieval_evidence :: "retrieval_response \<Rightarrow> pydict" where
  "retrieval_evidence rv =
     [(''type'', PStr ''knowledge_retrieval''), (''retrieval_id'', PStr (uuid_str (rv_retrieval_id rv))),
      (''corpus_version'', PStr (rv_corpus_version rv)),
      (''chunk_ids'', PList (map (PStr \<circ> ch_chunk_id) (rv_chunks rv)))]"

definition opt_float :: "rat option \<Rightarrow> pyval" where
  "opt_float x = (case x of None \<Rightarrow> PNone | Some r \<Rightarrow> PFloat r)"

definition service_result ::
  "uuid \<Rightarrow> step \<Rightarrow> datetime \<Rightarrow> pydict \<Rightarrow> pydict list \<Rightarrow> rat \<Rightarrow> pydict \<Rightarrow> step_result" where
  "service_result rid s now output evidence confidence detail =
     \<lparr>sr_id = rid, sr_step_id = st_id s, sr_output = Some output, sr_evidence = evidence,
      sr_errors = [], sr_latency_ms = Some 1, sr_latency_started_at = Some now,
      sr_latency_ended_at = Some now, sr_confidence = Some confidence,
      sr_confidence_detail = Some detail, sr_completeness = Some SC_FULL, sr_validation = None,
      sr_created_at = now, sr_updated_at = now\<rparr>"

definition tool_ids :: "tool_call list \<Rightarrow> pyval" where
  "tool_ids tcs = PList (map (\<lambda>tc. PStr (uuid_str (tc_id tc))) tcs)"

definition tool_names :: "tool_call list \<Rightarrow> pyval" where
  "tool_names tcs = PList (map (\<lambda>tc. PStr (tc_tool_name tc)) tcs)"

section \<open>Incident evidence\<close>

definition triage_chunk :: "evidence_chunk \<Rightarrow> pydict" where
  "triage_chunk ch =
     [(''type'', PStr ''knowledge_chunk''), (''chunk_id'', PStr (ch_chunk_id ch)),
      (''source_uri'', PStr (ch_source_uri ch)), (''title'', opt_str (ch_title ch)),
      (''excerpt'', PStr (take 280 (ch_text_excerpt ch))), (''score'', opt_float (ch_score ch))]"

definition gather_result ::
  "uuid \<Rightarrow> step \<Rightarrow> datetime \<Rightarrow> string \<Rightarrow> retrieval_response \<Rightarrow> tool_call list \<Rightarrow> step_result" where
  "gather_result rid s now incident_id rv tcs =
     (let meta_out = calls_by_name tcs ''incident_metadata_tool'';
          sig_out = calls_by_name tcs ''signal_lookup_tool'';
          signals = dict_items (dget sig_out ''signals'');
          bits = [''Retrieved '' @ nat_digits (length (rv_chunks rv)) @ '' knowledge chunk(s) for '' @ incident_id]
            @ (if truthy (dget meta_out ''service'')
               then [''metadata service='' @ py_str (dget meta_out ''service'')] else [])
            @ (if signals \<noteq> [] then [nat_digits (length signals) @ '' signal(s) from signal_lookup_tool''] else [])
      in service_result rid s now
           [(''evidence_summary'', PStr (join ''; '' bits)), (''signals'', PList signals),
            (''retrieval_id'', PStr (uuid_str (rv_retrieval_id rv))),
            (''tool_call_ids'', tool_ids tcs), (''incident_id'', PStr incident_id),
            (''metadata_snapshot'', PDict meta_out)]
           (retrieval_evidence rv # map triage_chunk (rv_chunks rv) @ map tool_evidence tcs)
           (88 / 100)
           [(''source'', PStr ''gather_evidence_phase4''), (''tools'', tool_names tcs),
            (''retrieval_id'', PStr (uuid_str (rv_retrieval_id rv)))])"

definition gather_evidence_via_services ::
  "registry \<Rightarrow> (retrieval_request \<Rightarrow> (env, retrieval_response) prog) \<Rightarrow> step \<Rightarrow> datetime \<Rightarrow>
   (world, step_result) prog" where
  "gather_evidence_via_services reg retrieve s now =
     bnd (load_context s) (\<lambda>ctx.
       let incident_id = incident_id_of (step_execution_input s);
           rq = \<lparr>rq_tenant_id = ctx_tenant_id ctx, rq_workflow_type = ''incident_triage'',
                 rq_query = ''incident triage evidence correlation latency error deploy for incident ''
                   @ incident_id,
                 rq_max_results = 5, rq_filters = [(''incident_id'', PStr incident_id)],
                 rq_corpus_version = None, rq_correlation_id = Some (ctx_request_id ctx)\<rparr>
       in bnd (in_env (retrieve rq)) (\<lambda>rv.
          andthen (trace_event (st_execution_id s) ''knowledge_retrieved'' (retrieval_detail s rv) now)
            (bnd (map_prog (call_tool reg s ctx [(''incident_id'', PStr incident_id)] [] now)
                    [''incident_metadata_tool'', ''signal_lookup_tool'']) (\<lambda>tcs.
              bnd (in_env uuid4) (\<lambda>rid. ret (gather_result rid s now incident_id rv tcs))))))"

section \<open>Cost evidence\<close>

definition cost_service :: "pydict \<Rightarrow> string" where
  "cost_service ex_in =
     py_str (py_or (dget ex_in ''service_id'') (py_or (dget ex_in ''service'') (PStr [])))"

definition cost_chunk :: "evidence_chunk \<Rightarrow> pydict" where
  "cost_chunk ch =
     [(''type'', PStr ''knowledge_chunk''), (''chunk_id'', PStr (ch_chunk_id ch)),
      (''document_id'', opt_str (ch_document_id ch)),
      (''source_uri'', PStr (ch_source_uri ch)), (''title'', opt_str (ch_title ch)),
      (''excerpt'', PStr (take 280 (ch_text_excerpt ch))), (''score'', opt_float (ch_score ch)),
      (''metadata'', PDict (ch_metadata ch))]"

definition retrieve_cost_result ::
  "uuid \<Rightarrow> step \<Rightarrow> datetime \<Rightarrow> string \<Rightarrow> retrieval_response \<Rightarrow> step_result" where
  "retrieve_cost_result rid s now scope_id rv =
     service_result rid s now
       [(''scope_id'', PStr scope_id),
        (''evidence_summary'', PStr (''Retrieved '' @ nat_digits (length (rv_chunks rv))
           @ '' cost/billing knowledge chunk(s) for '' @ scope_id)),
        (''chunk_ids'', PList (map (PStr \<circ> ch_chunk_id) (rv_chunks rv))),
        (''retrieval_id'', PStr (uuid_str (rv_retrieval_id rv))),
        (''corpus_version'', PStr (rv_corpus_version rv))]
       (retrieval_evidence rv # map cost_chunk (rv_chunks rv)) (87 / 100)
       [(''source'', PStr ''retrieve_cost_evidence''),
        (''retrieval_id'', PStr (uuid_str (rv_retrieval_id rv)))]"

definition retrieve_cost_evidence_via_services ::
  "(retrieval_request \<Rightarrow> (env, retrieval_response) prog) \<Rightarrow> step \<Rightarrow> datetime \<Rightarrow>
   (world, step_result) prog" where
  "retrieve_cost_evidence_via_services retrieve s now =
     bnd (load_context s) (\<lambda>ctx.
       let ex_in = step_execution_input s;
           scope_id = scope_id_of ex_in;
           service = cost_service ex_in;
           rq = \<lparr>rq_tenant_id = ctx_tenant_id ctx, rq_workflow_type = ''cost_attribution'',
                 rq_query = ''cost billing spend anomaly attribution usage metrics for scope '' @ scope_id,
                 rq_max_results = 5,
                 rq_filters = (''workflow'', PStr ''cost_attribution'')
                   # (if service \<noteq> [] then [(''service'', PStr service)] else []),
                 rq_corpus_version = None, rq_correlation_id = Some (ctx_request_id ctx)\<rparr>
       in bnd (in_env (retrieve rq)) (\<lambda>rv.
          andthen (trace_event (st_execution_id s) ''knowledge_retrieved''
              (retrieval_detail s rv @ [(''workflow_type'', PStr ''cost_attribution'')]) now)
            (bnd (in_env uuid4) (\<lambda>rid. ret (retrieve_cost_result rid s now scope_id rv)))))"

definition correlate_result ::
  "uuid \<Rightarrow> step \<Rightarrow> datetime \<Rightarrow> string \<Rightarrow> tool_call list \<Rightarrow> step_result" where
  "correlate_result rid s now scope_id tcs =
     (let cost_out = calls_by_name tcs ''cloud_cost_tool'';
          metrics_out = calls_by_name tcs ''metrics_lookup_tool'';
          signals = dict_items (dget metrics_out ''signals'');
          bits = [''Correlated cost and usage for scope '' @ scope_id]
            @ (if dget cost_out ''daily_cost_usd'' \<noteq> PNone
               then [''daily_cost_usd='' @ py_str (dget cost_out ''daily_cost_usd'')] else [])
            @ (if signals \<noteq> [] then [nat_digits (length signals) @ '' usage signal(s)''] else [])
      in service_result rid s now
           [(''scope_id'', PStr scope_id), (''correlation_summary'', PStr (join ''; '' bits)),
            (''tool_call_ids'', tool_ids tcs), (''cost_snapshot'', PDict cost_out),
            (''usage_signals'', PList signals)]
           (map tool_evidence tcs) (86 / 100)
           [(''source'', PStr ''correlate_usage_patterns''), (''tools'', tool_names tcs)])"

definition correlate_payload :: "pydict \<Rightarrow> pydict" where
  "correlate_payload ex_in =
     (''scope_id'', PStr (scope_id_of ex_in))
       # (if cost_service ex_in \<noteq> [] then [(''service'', PStr (cost_service ex_in))] else [])"

definition correlate_usage_via_tools :: "registry \<Rightarrow> step \<Rightarrow> datetime \<Rightarrow> (world, step_result) prog" where
  "correlate_usage_via_tools reg s now =
     bnd (load_context s) (\<lambda>ctx.
       let ex_in = step_execution_input s
       in bnd (map_prog (call_tool reg s ctx (correlate_payload ex_in)
                 [(''workflow_type'', PStr ''cost_attribution'')] now)
               [''cloud_cost_tool'', ''metrics_lookup_tool'']) (\<lambda>tcs.
          bnd (in_env uuid4) (\<lambda>rid. ret (correlate_result rid s now (scope_id_of ex_in) tcs))))"

section \<open>Which path a step takes\<close>

definition should_use_tooling :: "engine \<Rightarrow> step \<Rightarrow> bool" where
  "should_use_tooling eng s \<longleftrightarrow>
     eng_tools eng \<noteq> None \<and> eng_knowledge eng \<noteq> None \<and>
     ((step_workflow s = PStr ''incident_triage'' \<and> planner_step_name s = PStr ''gather_evidence'') \<or>
      (step_workflow s = PStr ''cost_attribution'' \<and>
       planner_step_name s \<in> {PStr ''retrieve_cost_evidence'', PStr ''correlate_usage_patterns''}))"

definition should_use_model :: "engine \<Rightarrow> step \<Rightarrow> bool" where
  "should_use_model eng s \<longleftrightarrow>
     eng_model eng \<noteq> None \<and>
     ((step_workflow s = PStr ''incident_triage'' \<and>
       planner_step_name s \<in> {PStr ''analyze_incident'', PStr ''validate_incident''}) \<or>
      (step_workflow s = PStr ''cost_attribution'' \<and>
       planner_step_name s \<in> {PStr ''analyze_cost_anomaly'', PStr ''validate_cost_attribution''}))"

definition step_work :: "engine \<Rightarrow> step \<Rightarrow> datetime \<Rightarrow> (world, step_result) prog" where
  "step_work eng s now =
     (if should_use_tooling eng s then
        (case (eng_tools eng, eng_knowledge eng) of
           (Some reg, Some retrieve) \<Rightarrow>
             if step_workflow s = PStr ''cost_attribution'' then
               if planner_step_name s = PStr ''retrieve_cost_evidence''
               then retrieve_cost_evidence_via_services retrieve s now
               else correlate_usage_via_tools reg s now
             else gather_evidence_via_services reg retrieve s now
         | _ \<Rightarrow> throw AssertionError [])
      else if should_use_model eng s then
        (case eng_model eng of
           Some mr \<Rightarrow>
             if step_workflow s = PStr ''cost_attribution'' then cost_model_reasoning_step mr s now
             else incident_model_reasoning_step mr s now
         | None \<Rightarrow> throw AssertionError [])
      else in_env (execute_step s None))"

end
