(* ===== verification/Engine_Governance.thy ===== *)
theory Engine_Governance
  imports Engine_Services
begin

text \<open>
  The execution engine, part four: the completion result, the governance of an incident triage
  (propose, evaluate, branch), the human approval, and the two ways an execution is stopped.
\<close>

section \<open>Summaries\<close>

text \<open>\<open>by_name\<close>: the output of each step that has a name and a result with a dictionary.\<close>

fun outputs_by_name :: "repo \<Rightarrow> step list \<Rightarrow> (string \<times> pydict) list \<Rightarrow> (string \<times> pydict) list" where
  "outputs_by_name r [] d = d"
| "outputs_by_name r (s # ss) d =
     outputs_by_name r ss
       (case as_str (planner_step_name s) of
          None \<Rightarrow> d
        | Some nm \<Rightarrow> (case get_step_result r (st_id s) of
              None \<Rightarrow> d
            | Some res \<Rightarrow> (case sr_output res of None \<Rightarrow> d | Some out \<Rightarrow> AList.update nm out d)))"

definition named_output :: "(string \<times> pydict) list \<Rightarrow> string \<Rightarrow> pydict" where
  "named_output d nm = (case map_of d nm of None \<Rightarrow> [] | Some out \<Rightarrow> out)"

text \<open>\<open>float(v)\<close> when the value is a number, else \<open>None\<close>.\<close>

definition float_or_none :: "pyval \<Rightarrow> pyval" where
  "float_or_none v = (case as_number v of None \<Rightarrow> PNone | Some x \<Rightarrow> PFloat x)"

definition build_completion_result :: "repo \<Rightarrow> execution \<Rightarrow> step list \<Rightarrow> pydict" where
  "build_completion_result r ex ss =
     (let d = outputs_by_name r ss []; n = PInt (int (length ss)) in
      if ex_workflow_type ex \<noteq> ''incident_triage'' \<and> ex_workflow_type ex \<noteq> ''cost_attribution'' then
        [(''outcome'', PStr ''success''), (''steps'', n)]
      else if ex_workflow_type ex = ''cost_attribution'' then
        (let analyze = named_output d ''analyze_cost_anomaly'';
             retrieve = named_output d ''retrieve_cost_evidence'';
             correlate = named_output d ''correlate_usage_patterns'';
             validate = named_output d ''validate_cost_attribution''
         in [(''outcome'', PStr ''success''),
             (''workflow_type'', PStr ''cost_attribution''),
             (''suspected_service'', dget analyze ''suspected_service''),
             (''suspected_team'', dget analyze ''suspected_team''),
             (''anomaly_type'', dget analyze ''anomaly_type''),
             (''estimated_cost_impact_usd'', dget analyze ''estimated_cost_impact_usd''),
             (''attribution_summary'', dget analyze ''attribution_summary''),
             (''evidence_summary'', dget retrieve ''evidence_summary''),
             (''correlation_summary'', dget correlate ''correlation_summary''),
             (''validation_status'', dget validate ''validation_status''),
             (''confidence'', float_or_none (dget validate ''confidence'')),
             (''likely_service'', dget validate ''likely_service''),
             (''recommended_actions'', dget validate ''recommended_actions''),
             (''optimization_candidates'', dget analyze ''optimization_candidates''),
             (''steps'', n)])
      else
        (let analyze = named_output d ''analyze_incident'';
             gather = named_output d ''gather_evidence'';
             validate = named_output d ''validate_incident''
         in [(''outcome'', PStr ''success''),
             (''workflow_type'', PStr ''incident_triage''),
             (''incident_summary'', dget analyze ''incident_summary''),
             (''likely_cause'', dget validate ''likely_cause''),
             (''evidence_summary'', dget gather ''evidence_summary''),
             (''validation_status'', dget validate ''validation_status''),
             (''confidence_score'', float_or_none (dget validate ''confidence_score'')),
             (''steps'', n)]))"

definition step_by_planner_name :: "step list \<Rightarrow> string \<Rightarrow> step option" where
  "step_by_planner_name ss nm = find (\<lambda>s. planner_step_name s = PStr nm) ss"

definition step_output_by_name :: "repo \<Rightarrow> step list \<Rightarrow> string \<Rightarrow> pydict" where
  "step_output_by_name r ss nm =
     (case step_by_planner_name ss nm of None \<Rightarrow> [] | Some s \<Rightarrow> result_output r (st_id s))"

definition validation_summary_from_steps :: "repo \<Rightarrow> step list \<Rightarrow> pydict" where
  "validation_summary_from_steps r ss =
     (case find is_validation_step ss of
        None \<Rightarrow> [(''recorded'', PBool False), (''reason'', PStr ''no_validation_step'')]
      | Some s \<Rightarrow> (case get_step_result r (st_id s) of
            None \<Rightarrow> [(''recorded'', PBool False), (''reason'', PStr ''missing_step_result'')]
          | Some res \<Rightarrow> (case sr_validation res of
                None \<Rightarrow> [(''recorded'', PBool True), (''validation_outcome'', PNone)]
              | Some vo \<Rightarrow> [(''recorded'', PBool True),
                   (''validation_outcome'', PDict [(''status'', PStr (vo_status vo)),
                                                   (''details'', PDict (vo_details vo))])])))"

section \<open>Governance of an incident triage\<close>

definition proposed_action :: "string \<Rightarrow> uuid \<Rightarrow> pyval" where
  "proposed_action action_type pid =
     PDict [(''type'', PStr action_type), (''proposal_id'', PStr (uuid_str pid))]"

text \<open>The \<open>ActionProposal(...)\<close> of the escalation.\<close>

definition escalation_proposal ::
  "uuid \<Rightarrow> execution \<Rightarrow> step option \<Rightarrow> pydict \<Rightarrow> datetime \<Rightarrow> action_proposal" where
  "escalation_proposal pid ex validate_step validate_out now =
     \<lparr>ap_id = pid, ap_execution_id = ex_id ex, ap_step_id = map_option st_id validate_step,
      ap_action_type = ''escalate_incident'',
      ap_payload = [(''incident_id'', dget_default (ex_input ex) ''incident_id'' (dget (ex_input ex) ''id'')),
                    (''likely_cause'', dget validate_out ''likely_cause''),
                    (''severity'', dget (ex_input ex) ''severity'')],
      ap_risk_level = RL_HIGH, ap_requires_approval = False, ap_status = AP_PROPOSED,
      ap_created_at = now, ap_updated_at = now\<rparr>"

definition governed_row :: "execution \<Rightarrow> string \<Rightarrow> uuid \<Rightarrow> datetime \<Rightarrow> execution" where
  "governed_row ex path pid now =
     append_timeline ex ''governed_outcome''
       [(''path'', PStr path), (''proposal_id'', PStr (uuid_str pid))] now"

definition finish_denied ::
  "execution \<Rightarrow> action_proposal \<Rightarrow> pydict \<Rightarrow> pydict \<Rightarrow> datetime \<Rightarrow> (world, execution) prog" where
  "finish_denied ex p base_result summary now =
     andthen (on_repo (save_action_proposal (p\<lparr>ap_status := AP_POLICY_DENIED, ap_updated_at := now\<rparr>)))
       (andthen (validate_execution_transition ES_VALIDATING ES_FAILED)
         (let result = dmerge base_result
                [(''outcome'', PStr ''failed''), (''workflow_type'', PStr ''incident_triage''),
                 (''proposed_action'', proposed_action (ap_action_type p) (ap_id p)),
                 (''policy_decision'', PStr (policy_decision_value PD_DENY)),
                 (''approval_status'', PStr ''not_applicable'')];
              ex1 = ex\<lparr>ex_status := ES_FAILED, ex_updated_at := now,
                       ex_validation_summary := Some summary, ex_result := Some result\<rparr>
          in ret (status_row (governed_row ex1 ''policy_denied'' (ap_id p) now) ES_FAILED [] now)))"

definition finish_allowed ::
  "execution \<Rightarrow> action_proposal \<Rightarrow> pydict \<Rightarrow> pydict \<Rightarrow> datetime \<Rightarrow> (world, execution) prog" where
  "finish_allowed ex p base_result summary now =
     andthen (on_repo (save_action_proposal (p\<lparr>ap_status := AP_APPROVED, ap_updated_at := now\<rparr>)))
       (andthen (validate_execution_transition ES_VALIDATING ES_COMPLETED)
         (let result = dmerge base_result
                [(''proposed_action'', proposed_action (ap_action_type p) (ap_id p)),
                 (''policy_decision'', PStr (policy_decision_value PD_ALLOW)),
                 (''approval_status'', PStr ''not_required'')];
              ex1 = ex\<lparr>ex_status := ES_COMPLETED, ex_updated_at := now, ex_completed_at := Some now,
                       ex_validation_summary := Some summary, ex_result := Some result\<rparr>
          in ret (status_row (governed_row ex1 ''policy_allow'' (ap_id p) now) ES_COMPLETED [] now)))"

definition finish_conditional ::
  "execution \<Rightarrow> action_proposal \<Rightarrow> uuid \<Rightarrow> pydict \<Rightarrow> pydict \<Rightarrow> datetime \<Rightarrow> (world, execution) prog" where
  "finish_conditional ex p eval_id base_result summary now =
     andthen (on_repo (save_action_proposal
         (p\<lparr>ap_status := AP_AWAITING_APPROVAL, ap_requires_approval := True, ap_updated_at := now\<rparr>)))
       (andthen (validate_execution_transition ES_VALIDATING ES_AWAITING_APPROVAL)
         (let result = dmerge base_result
                [(''outcome'', PStr ''awaiting_approval''),
                 (''workflow_type'', PStr ''incident_triage''),
                 (''governance'', PDict
                    [(''phase'', PStr ''awaiting_approval''),
                     (''proposal_id'', PStr (uuid_str (ap_id p))),
                     (''evaluation_id'', PStr (uuid_str eval_id)),
                     (''policy_decision'', PStr (policy_decision_value PD_CONDITIONAL))]),
                 (''proposed_action'', proposed_action (ap_action_type p) (ap_id p)),
                 (''policy_decision'', PStr (policy_decision_value PD_CONDITIONAL)),
                 (''approval_status'', PStr ''pending'')];
              ex1 = ex\<lparr>ex_status := ES_AWAITING_APPROVAL, ex_updated_at := now,
                       ex_validation_summary := Some summary, ex_result := Some result\<rparr>;
              ex2 = append_timeline ex1 ''approval_required''
                [(''proposal_id'', PStr (uuid_str (ap_id p))),
                 (''evaluation_id'', PStr (uuid_str eval_id))] now
          in ret (status_row ex2 ES_AWAITING_APPROVAL [] now)))"

text \<open>The \<open>PolicyEvaluation(...)\<close> the orchestrator fills from the draft.\<close>

definition stored_evaluation ::
  "uuid \<Rightarrow> execution \<Rightarrow> exec_context \<Rightarrow> action_proposal \<Rightarrow> policy_draft \<Rightarrow> datetime \<Rightarrow> policy_evaluation" where
  "stored_evaluation eval_id ex ctx p draft now =
     \<lparr>pe_id = eval_id, pe_execution_id = ex_id ex, pe_context_id = ctx_id ctx,
      pe_decision = pd_decision draft, pe_reason = pd_reason draft, pe_rules = pd_rules draft,
      pe_subject_ref = [(''proposal_id'', PStr (uuid_str (ap_id p))),
                        (''action_type'', PStr (ap_action_type p))],
      pe_created_at = now, pe_updated_at = now\<rparr>"

text \<open>Persist the evaluation, trace it and branch on the decision.\<close>

definition finish_evaluated ::
  "exec_context \<Rightarrow> execution \<Rightarrow> action_proposal \<Rightarrow> policy_draft \<Rightarrow> uuid \<Rightarrow> pydict \<Rightarrow> pydict \<Rightarrow> datetime \<Rightarrow>
   (world, execution) prog" where
  "finish_evaluated ctx ex p draft eval_id base_result summary now =
     andthen (on_repo (save_policy_evaluation (stored_evaluation eval_id ex ctx p draft now)))
       (let ex2 = append_timeline ex ''policy_evaluated''
              [(''evaluation_id'', PStr (uuid_str eval_id)),
               (''decision'', PStr (policy_decision_value (pd_decision draft))),
               (''reason'', PStr (pd_reason draft))] now
        in (case pd_decision draft of
              PD_DENY \<Rightarrow> finish_denied ex2 p base_result summary now
            | PD_ALLOW \<Rightarrow> finish_allowed ex2 p base_result summary now
            | PD_CONDITIONAL \<Rightarrow> finish_conditional ex2 p eval_id base_result summary now))"

definition evaluate_and_finish ::
  "engine \<Rightarrow> exec_context \<Rightarrow> execution \<Rightarrow> action_proposal \<Rightarrow> pydict \<Rightarrow> pydict \<Rightarrow> datetime \<Rightarrow>
   (world, execution) prog" where
  "evaluate_and_finish eng ctx ex p base_result summary now =
     bnd (in_env (evaluate_proposal (eng_policy eng) ctx p)) (\<lambda>draft.
     bnd (in_env uuid4) (\<lambda>eval_id.
       finish_evaluated ctx ex p draft eval_id base_result summary now))"

definition finalize_incident_triage_governance ::
  "engine \<Rightarrow> execution \<Rightarrow> step list \<Rightarrow> datetime \<Rightarrow> (world, execution) prog" where
  "finalize_incident_triage_governance eng ex ss now =
     bnd (ask (\<lambda>r. get_context r (ex_context_id ex))) (\<lambda>found. case found of
         None \<Rightarrow> orchestration_error ''missing execution context for governance''
       | Some ctx \<Rightarrow>
         bnd (ask (\<lambda>r. validation_summary_from_steps r ss)) (\<lambda>summary.
         bnd (ask (\<lambda>r. build_completion_result r ex ss)) (\<lambda>base_result.
         bnd (ask (\<lambda>r. step_output_by_name r ss ''validate_incident'')) (\<lambda>validate_out.
         bnd (in_env uuid4) (\<lambda>proposal_id.
           let p = escalation_proposal proposal_id ex (step_by_planner_name ss ''validate_incident'')
                     validate_out now
           in andthen (on_repo (save_action_proposal p))
             (evaluate_and_finish eng ctx
                (append_timeline ex ''action_proposed''
                    [(''proposal_id'', PStr (uuid_str proposal_id)),
                     (''action_type'', PStr (ap_action_type p)),
                     (''risk_level'', PStr (risk_level_value (ap_risk_level p)))] now)
                p base_result summary now))))))"

section \<open>Approval\<close>

definition parse_uuid :: "string \<Rightarrow> (world, uuid) prog" where
  "parse_uuid s =
     (case uuid_parse s of
        None \<Rightarrow> throw ValueError ''badly formed hexadecimal UUID string''
      | Some u \<Rightarrow> ret u)"

text \<open>The guards before anything is stored: the proposal and evaluation named by the result.\<close>

definition approval_subject :: "execution \<Rightarrow> (world, uuid \<times> uuid) prog" where
  "approval_subject ex =
     (let result = (case ex_result ex of None \<Rightarrow> [] | Some d \<Rightarrow> d) in
      case as_dict (dget result ''governance'') of
        None \<Rightarrow> orchestration_error ''missing governance block on execution result''
      | Some gov \<Rightarrow> (case (as_str (dget gov ''proposal_id''), as_str (dget gov ''evaluation_id'')) of
            (Some pid_raw, Some eid_raw) \<Rightarrow>
              bnd (parse_uuid pid_raw) (\<lambda>pid. bnd (parse_uuid eid_raw) (\<lambda>evid. ret (pid, evid)))
          | _ \<Rightarrow> orchestration_error ''governance missing proposal_id or evaluation_id''))"

definition approve_execution ::
  "execution \<Rightarrow> action_proposal \<Rightarrow> uuid \<Rightarrow> pydict \<Rightarrow> pydict \<Rightarrow> datetime \<Rightarrow> (world, execution) prog" where
  "approve_execution ex p pid base_result summary ts =
     andthen (on_repo (save_action_proposal (p\<lparr>ap_status := AP_APPROVED, ap_updated_at := ts\<rparr>)))
       (andthen (validate_execution_transition ES_AWAITING_APPROVAL ES_COMPLETED)
         (let result = dmerge base_result
                [(''proposed_action'', proposed_action (ap_action_type p) pid),
                 (''policy_decision'', PStr (policy_decision_value PD_CONDITIONAL)),
                 (''approval_status'', PStr ''approved'')];
              ex1 = ex\<lparr>ex_status := ES_COMPLETED, ex_updated_at := ts, ex_completed_at := Some ts,
                       ex_validation_summary := Some summary, ex_result := Some result\<rparr>;
              ex2 = status_row (governed_row ex1 ''approval_granted'' pid ts) ES_COMPLETED [] ts
          in andthen (in_repo (update_execution ex2)) (ret ex2)))"

definition reject_execution ::
  "execution \<Rightarrow> action_proposal \<Rightarrow> uuid \<Rightarrow> pydict \<Rightarrow> pydict \<Rightarrow> datetime \<Rightarrow> (world, execution) prog" where
  "reject_execution ex p pid base_result summary ts =
     andthen (on_repo (save_action_proposal (p\<lparr>ap_status := AP_REJECTED, ap_updated_at := ts\<rparr>)))
       (andthen (validate_execution_transition ES_AWAITING_APPROVAL ES_FAILED)
         (let result = dmerge base_result
                [(''outcome'', PStr ''failed''), (''workflow_type'', PStr ''incident_triage''),
                 (''proposed_action'', proposed_action (ap_action_type p) pid),
                 (''policy_decision'', PStr (policy_decision_value PD_CONDITIONAL)),
                 (''approval_status'', PStr ''rejected'')];
              ex1 = ex\<lparr>ex_status := ES_FAILED, ex_updated_at := ts,
                       ex_validation_summary := Some summary, ex_result := Some result\<rparr>;
              ex2 = status_row (governed_row ex1 ''approval_rejected'' pid ts) ES_FAILED [] ts
          in andthen (in_repo (update_execution ex2)) (ret ex2)))"

definition engine_submit_approval ::
  "uuid \<Rightarrow> string \<Rightarrow> approval_decision \<Rightarrow> string option \<Rightarrow> datetime option \<Rightarrow> (world, execution) prog" where
  "engine_submit_approval eid approver decision notes now =
     bnd (in_env (now_or_clock now)) (\<lambda>ts.
     bnd (ask (\<lambda>r. get_execution r eid)) (\<lambda>found. case found of
         None \<Rightarrow> throw KeyError (uuid_repr eid)
       | Some ex \<Rightarrow>
           if ex_status ex \<noteq> ES_AWAITING_APPROVAL then
             orchestration_error (''execution '' @ uuid_str eid @ '' not awaiting approval (status=''
               @ execution_status_value (ex_status ex) @ '')'')
           else bnd (approval_subject ex) (\<lambda>(pid, evid).
             if decision = AD_DEFER then orchestration_error ''approval defer is not supported in Phase 3''
             else bnd (in_env uuid4) (\<lambda>aid.
               let a = \<lparr>apr_id = aid, apr_execution_id = ex_id ex, apr_evaluation_id = Some evid,
                        apr_proposal_id = Some pid, apr_approver = approver, apr_decision = decision,
                        apr_notes = notes, apr_decided_at = ts, apr_created_at = ts, apr_updated_at = ts\<rparr>
               in andthen (on_repo (save_approval a))
                 (let ex1 = append_timeline ex ''approval_received''
                        [(''approval_id'', PStr (uuid_str aid)),
                         (''decision'', PStr (approval_decision_value decision)),
                         (''approver'', PStr approver)] ts
                  in bnd (ask (\<lambda>r. get_action_proposal r pid)) (\<lambda>prop. case prop of
                       None \<Rightarrow> orchestration_error ''action proposal not found''
                     | Some p \<Rightarrow>
                       bnd (ask (\<lambda>r. list_steps_for_execution r eid)) (\<lambda>ss.
                       bnd (ask (\<lambda>r. validation_summary_from_steps r ss)) (\<lambda>summary.
                       bnd (ask (\<lambda>r. build_completion_result r ex1 ss)) (\<lambda>base_result.
                         if decision = AD_REJECT then reject_execution ex1 p pid base_result summary ts
                         else approve_execution ex1 p pid base_result summary ts)))))))))"

section \<open>Cancelling and failing\<close>

text \<open>\<open>try: validate(...) except InvalidStatusTransitionError\<close>: whether the transition is allowed.\<close>

definition transition_allowed :: "execution_status \<Rightarrow> execution_status \<Rightarrow> (world, bool) prog" where
  "transition_allowed a b =
     try_except (andthen (validate_execution_transition a b) (ret True))
       (\<lambda>exc. if exn_class exc = InvalidStatusTransitionError then ret False else rethrow exc)"

definition cancel_execution :: "uuid \<Rightarrow> string \<Rightarrow> datetime option \<Rightarrow> (world, execution) prog" where
  "cancel_execution eid reason now =
     bnd (in_env (now_or_clock now)) (\<lambda>ts.
     bnd (ask (\<lambda>r. get_execution r eid)) (\<lambda>found. case found of
         None \<Rightarrow> throw KeyError (uuid_repr eid)
       | Some ex0 \<Rightarrow>
           (let ex = request_cancellation_meta ts reason ex0 in
            if is_execution_terminal (ex_status ex) then
              andthen (in_repo (update_execution ex)) (ret ex)
            else bnd (transition_allowed (ex_status ex) ES_CANCELLED) (\<lambda>ok.
              if \<not> ok then andthen (in_repo (update_execution ex)) (ret ex)
              else
                (let updated = status_row
                       (ex\<lparr>ex_status := ES_CANCELLED, ex_updated_at := ts, ex_cancelled_at := Some ts,
                          ex_result := Some [(''outcome'', PStr ''cancelled''), (''reason'', PStr reason)]\<rparr>)
                       ES_CANCELLED [(''reason'', PStr reason)] ts
                 in andthen (in_repo (update_execution updated))
                   (andthen (in_env (inc_metric ''execution_cancellations_total'' []))
                   (andthen (in_env (emit_event ''execution_cancelled''
                       [(''execution_id'', PStr (uuid_str eid)), (''reason'', PStr reason)]))
                     (ret updated))))))))"

definition fail_execution :: "uuid \<Rightarrow> string \<Rightarrow> datetime option \<Rightarrow> (world, execution) prog" where
  "fail_execution eid reason now =
     bnd (in_env (now_or_clock now)) (\<lambda>ts.
     bnd (ask (\<lambda>r. get_execution r eid)) (\<lambda>found. case found of
         None \<Rightarrow> throw KeyError (uuid_repr eid)
       | Some ex \<Rightarrow>
           if is_execution_terminal (ex_status ex) then ret ex
           else bnd (transition_allowed (ex_status ex) ES_FAILED) (\<lambda>ok.
             if \<not> ok then ret ex
             else
               (let updated = status_row
                      (ex\<lparr>ex_status := ES_FAILED, ex_updated_at := ts,
                         ex_result := Some [(''outcome'', PStr ''failed''), (''reason'', PStr reason)]\<rparr>)
                      ES_FAILED [(''reason'', PStr reason)] ts
                in andthen (in_repo (update_execution updated)) (ret updated)))))"

end
