(* ===== verification/Execution_Service.thy ===== *)
theory Execution_Service
  imports Engine
begin

text \<open>
  The execution service and the background worker
  (\<open>app/services/execution_service.py\<close>, \<open>app/runtime/worker.py\<close>): create, enqueue, start, cancel
  and approve executions; dequeue work and run it.
\<close>

section \<open>Service\<close>

record create_args =
  ca_workflow_type :: string
  ca_input :: pydict
  ca_tenant_id :: string
  ca_request_id :: string
  ca_environment :: string
  ca_policy_scope :: string
  ca_principal_id :: "string option"
  ca_mode :: execution_mode
  ca_permissions_scope :: "pydict option"
  ca_parent_id :: "uuid option"
  ca_feature_flags :: "pydict option"
  ca_now :: "datetime option"

definition new_context :: "create_args \<Rightarrow> uuid \<Rightarrow> datetime \<Rightarrow> exec_context" where
  "new_context a cid ts =
     \<lparr>ctx_id = cid, ctx_tenant_id = ca_tenant_id a, ctx_principal_id = ca_principal_id a,
      ctx_actor = None, ctx_request_id = ca_request_id a, ctx_environment = ca_environment a,
      ctx_permissions_scope = (case ca_permissions_scope a of None \<Rightarrow> [] | Some d \<Rightarrow> d),
      ctx_policy_scope = ca_policy_scope a, ctx_feature_flags = ca_feature_flags a,
      ctx_created_at = ts, ctx_updated_at = ts\<rparr>"

definition new_execution :: "create_args \<Rightarrow> uuid \<Rightarrow> uuid \<Rightarrow> datetime \<Rightarrow> execution" where
  "new_execution a eid cid ts =
     \<lparr>ex_id = eid, ex_workflow_type = ca_workflow_type a, ex_status = ES_CREATED, ex_mode = ca_mode a,
      ex_context_id = cid, ex_parent_id = ca_parent_id a, ex_plan_id = None, ex_input = ca_input a,
      ex_result = None, ex_timeline = [], ex_validation_summary = None, ex_created_at = ts,
      ex_updated_at = ts, ex_completed_at = None, ex_cancelled_at = None\<rparr>"

definition create_execution :: "create_args \<Rightarrow> (world, execution) prog" where
  "create_execution a =
     bnd (in_env (now_or_clock (ca_now a))) (\<lambda>ts.
     bnd (in_env uuid4) (\<lambda>context_id. bnd (in_env uuid4) (\<lambda>execution_id.
       andthen (on_repo (save_context (new_context a context_id ts)))
         (let ex = new_execution a execution_id context_id ts
          in andthen (on_repo (save_execution ex)) (ret ex)))))"

definition service_get_execution :: "uuid \<Rightarrow> (world, execution option) prog" where
  "service_get_execution eid = ask (\<lambda>r. get_execution r eid)"

definition service_list_executions ::
  "string option \<Rightarrow> string option \<Rightarrow> string option \<Rightarrow> int \<Rightarrow> (world, execution list) prog" where
  "service_list_executions tenant workflow status limit =
     ask (\<lambda>r. list_executions r tenant workflow status limit)"

text \<open>\<open>get_execution\<close> followed by \<open>raise KeyError(execution_id)\<close> when it is missing.\<close>

definition require_execution :: "uuid \<Rightarrow> (world, execution) prog" where
  "require_execution eid =
     bnd (ask (\<lambda>r. get_execution r eid)) (\<lambda>found. case found of
         None \<Rightarrow> throw KeyError (uuid_repr eid)
       | Some ex \<Rightarrow> ret ex)"

definition put_work :: "uuid \<Rightarrow> datetime \<Rightarrow> (world, nat) prog" where
  "put_work eid ts =
     (\<lambda>w. case queue_enqueue eid ts (w_queue w) of (depth, q) \<Rightarrow> (Inr depth, w\<lparr>w_queue := q\<rparr>))"

definition take_work :: "(world, work_item option) prog" where
  "take_work = (\<lambda>w. case queue_dequeue (w_queue w) of (item, q) \<Rightarrow> (Inr item, w\<lparr>w_queue := q\<rparr>))"

definition enqueue_execution :: "uuid \<Rightarrow> datetime option \<Rightarrow> (world, execution) prog" where
  "enqueue_execution eid now =
     bnd (in_env (now_or_clock now)) (\<lambda>ts.
     bnd (require_execution eid) (\<lambda>ex0.
       let ex = mark_queued ts ex0
       in andthen (in_repo (update_execution ex))
         (bnd (put_work eid ts) (\<lambda>depth.
           andthen (in_env (inc_metric ''execution_enqueued_total'' []))
           (andthen (in_env (observe_metric ''execution_queue_depth'' (of_nat depth) []))
           (andthen (in_env (emit_event ''execution_enqueued''
               [(''execution_id'', PStr (uuid_str eid)), (''queue_depth'', PInt (int depth))]))
             (ret ex)))))))"

definition start_execution :: "engine \<Rightarrow> uuid \<Rightarrow> (world, execution) prog" where
  "start_execution eng eid =
     try_except (run_execution eng eid)
       (\<lambda>exc. if is_orchestration_error exc then fail_execution eid (exn_message exc) None
              else rethrow exc)"

definition record_worker_started :: "uuid \<Rightarrow> string \<Rightarrow> datetime option \<Rightarrow> (world, execution) prog" where
  "record_worker_started eid worker_id now =
     bnd (in_env (now_or_clock now)) (\<lambda>ts.
     bnd (require_execution eid) (\<lambda>ex0.
       let ex = mark_worker_started worker_id ts ex0
       in andthen (in_repo (update_execution ex)) (ret ex)))"

definition request_cancellation :: "uuid \<Rightarrow> string \<Rightarrow> (world, execution) prog" where
  "request_cancellation eid reason =
     bnd (in_env utc_now) (\<lambda>ts.
     bnd (require_execution eid) (\<lambda>ex0.
       let ex = request_cancellation_meta ts reason ex0
       in andthen (in_repo (update_execution ex))
         (if ex_status ex \<in> {ES_CREATED, ES_PLANNING, ES_EXECUTING, ES_VALIDATING, ES_AWAITING_APPROVAL}
          then cancel_execution eid reason (Some ts)
          else ret ex)))"

definition submit_approval ::
  "uuid \<Rightarrow> string \<Rightarrow> approval_decision \<Rightarrow> string option \<Rightarrow> (world, execution) prog" where
  "submit_approval eid approver decision notes = engine_submit_approval eid approver decision notes None"

section \<open>Worker\<close>

text \<open>\<open>(b - a).total_seconds() * 1000\<close> of two timestamps in microseconds.\<close>

definition diff_ms :: "datetime \<Rightarrow> datetime \<Rightarrow> rat" where
  "diff_ms a b = float_of (float_of (of_int (b - a) / 1000000) * 1000)"

definition process_item :: "engine \<Rightarrow> string \<Rightarrow> work_item \<Rightarrow> (world, unit) prog" where
  "process_item eng worker item =
     (let eid = wi_execution_id item; label = (''worker'', worker) in
      bnd (in_env utc_now) (\<lambda>now.
      andthen (in_env (inc_metric ''worker_jobs_total'' [label]))
      (bnd (reads (\<lambda>w. queue_depth (w_queue w))) (\<lambda>depth.
       andthen (in_env (emit_event ''worker_job_started''
           [(''execution_id'', PStr (uuid_str eid)), (''worker_id'', PStr worker),
            (''queue_depth'', PInt (int depth))]))
       (bnd (service_get_execution eid) (\<lambda>found. case found of
           None \<Rightarrow> ret ()
         | Some ex \<Rightarrow>
           andthen (record_worker_started eid worker (Some now))
           (bnd (in_env utc_now) (\<lambda>started.
            andthen (start_execution eng eid)
            (bnd (in_env utc_now) (\<lambda>ended.
              let elapsed_ms = int_trunc (diff_ms started ended)
              in andthen (in_env (observe_latency_ms ''async_execution'' (of_int elapsed_ms) [label]))
                (andthen (in_env (observe_metric ''execution_queue_wait_ms''
                    (max 0 (diff_ms (wi_enqueued_at item) started)) [label]))
                (bnd (service_get_execution eid) (\<lambda>again.
                  let meta = read_runtime_meta (case again of Some ex' \<Rightarrow> ex' | None \<Rightarrow> ex)
                  in in_env (emit_event ''worker_job_completed''
                      [(''execution_id'', PStr (uuid_str eid)), (''worker_id'', PStr worker),
                       (''latency_ms'', PInt elapsed_ms),
                       (''cancellation_requested'',
                          PBool (truthy (dget meta ''cancellation_requested'')))]))))))))))))))"

definition worker_run_once :: "engine \<Rightarrow> string \<Rightarrow> (world, bool) prog" where
  "worker_run_once eng worker =
     bnd take_work (\<lambda>item. case item of
         None \<Rightarrow> ret False
       | Some it \<Rightarrow> andthen (process_item eng worker it) (ret True))"

text \<open>The loop of \<open>run_until_idle\<close>; the first argument is fuel, see \<open>worker_loop_enough\<close>.\<close>

fun worker_loop :: "nat \<Rightarrow> engine \<Rightarrow> string \<Rightarrow> nat option \<Rightarrow> nat \<Rightarrow> (world, nat) prog" where
  "worker_loop 0 eng worker max_items count = throw (OtherException ''out of fuel'') []"
| "worker_loop (Suc n) eng worker max_items count =
     (if (case max_items of None \<Rightarrow> True | Some m \<Rightarrow> count < m) then
        bnd (worker_run_once eng worker) (\<lambda>ran.
          if \<not> ran then ret count else worker_loop n eng worker max_items (Suc count))
      else ret count)"

definition run_until_idle :: "engine \<Rightarrow> string \<Rightarrow> nat option \<Rightarrow> (world, nat) prog" where
  "run_until_idle eng worker max_items =
     bnd (reads (\<lambda>w. queue_depth (w_queue w))) (\<lambda>n. worker_loop (Suc n) eng worker max_items 0)"

end
