(* ===== verification/Replay.thy ===== *)
theory Replay
  imports Execution_Service
begin

text \<open>
  Replays (\<open>app/services/replay_service.py\<close>): a child execution with auditable provenance, created
  from the input of a source execution that must not change.
\<close>

section \<open>JSON dumps\<close>

text \<open>\<open>model_dump(mode="json")\<close> of the two records the service dumps.\<close>

definition opt_uuid :: "uuid option \<Rightarrow> pyval" where
  "opt_uuid u = (case u of None \<Rightarrow> PNone | Some x \<Rightarrow> PStr (uuid_str x))"

definition opt_dict :: "pydict option \<Rightarrow> pyval" where
  "opt_dict d = (case d of None \<Rightarrow> PNone | Some x \<Rightarrow> PDict x)"

definition opt_datetime :: "datetime option \<Rightarrow> pyval" where
  "opt_datetime t = (case t of None \<Rightarrow> PNone | Some x \<Rightarrow> PStr (json_datetime x))"

definition execution_json :: "execution \<Rightarrow> pydict" where
  "execution_json ex =
     [(''execution_id'', PStr (uuid_str (ex_id ex))),
      (''workflow_type'', PStr (ex_workflow_type ex)),
      (''status'', PStr (execution_status_value (ex_status ex))),
      (''execution_mode'', PStr (execution_mode_value (ex_mode ex))),
      (''execution_context_id'', PStr (uuid_str (ex_context_id ex))),
      (''parent_execution_id'', opt_uuid (ex_parent_id ex)),
      (''current_plan_id'', opt_uuid (ex_plan_id ex)),
      (''input'', PDict (ex_input ex)),
      (''result'', opt_dict (ex_result ex)),
      (''trace_timeline'', PList (map PDict (ex_timeline ex))),
      (''validation_summary'', opt_dict (ex_validation_summary ex)),
      (''created_at'', PStr (json_datetime (ex_created_at ex))),
      (''updated_at'', PStr (json_datetime (ex_updated_at ex))),
      (''completed_at'', opt_datetime (ex_completed_at ex)),
      (''cancelled_at'', opt_datetime (ex_cancelled_at ex))]"

definition provenance_json :: "replay_provenance \<Rightarrow> pydict" where
  "provenance_json p =
     [(''source_execution_id'', PStr (uuid_str (rp_source p))),
      (''replay_mode'', PStr (replay_mode_value (rp_mode p))),
      (''requested_by'', opt_str (rp_requested_by p)),
      (''reason'', opt_str (rp_reason p)),
      (''label'', opt_str (rp_label p)),
      (''input_overrides'', PDict (rp_input_overrides p)),
      (''anchor_plan_id'', opt_uuid (rp_anchor_plan p)),
      (''environment_target'', PStr (rp_environment_target p)),
      (''created_execution_id'', PStr (uuid_str (rp_created_execution p))),
      (''created_at'', PStr (json_datetime (rp_created_at p)))]"

section \<open>Building the child\<close>

definition strip_replay_metadata :: "pydict \<Rightarrow> pydict" where
  "strip_replay_metadata input_payload = dpop REPLAY_PROVENANCE_INPUT_KEY input_payload"

definition append_replay_created_event ::
  "execution \<Rightarrow> replay_provenance \<Rightarrow> datetime \<Rightarrow> execution" where
  "append_replay_created_event ex p now =
     (let overrides = rp_input_overrides p;
          summary = (if overrides = [] then []
            else [(''keys'', PList (map PStr (sort (map fst overrides)))),
                  (''count'', PInt (int (length overrides)))]);
          row = [(''event_type'', PStr ''replay_created''), (''at'', PStr (isoformat now)),
                 (''source_execution_id'', PStr (uuid_str (rp_source p))),
                 (''replay_mode'', PStr (replay_mode_value (rp_mode p))),
                 (''requested_by'', opt_str (rp_requested_by p)),
                 (''reason'', opt_str (rp_reason p)),
                 (''label'', opt_str (rp_label p)),
                 (''environment_target'', PStr (rp_environment_target p)),
                 (''input_overrides_summary'', PDict summary)]
            @ (case rp_anchor_plan p of None \<Rightarrow> []
               | Some a \<Rightarrow> [(''anchor_plan_id'', PStr (uuid_str a))])
      in ex\<lparr>ex_timeline := ex_timeline ex @ [row], ex_updated_at := now\<rparr>)"

text \<open>\<open>s and s.strip()\<close> as a truth value.\<close>

definition has_text :: "string option \<Rightarrow> bool" where
  "has_text s = (case s of None \<Rightarrow> False | Some t \<Rightarrow> strip t \<noteq> [])"

definition given :: "pydict option \<Rightarrow> pydict" where
  "given d = (case d of None \<Rightarrow> [] | Some x \<Rightarrow> x)"

definition validate_request :: "replay_request \<Rightarrow> (world, unit) prog" where
  "validate_request rq =
     (if rr_mode rq = RM_EXACT \<and> given (rr_input_overrides rq) \<noteq> [] then
        throw ReplayValidationError ''input_overrides are not allowed for exact replay''
      else if rr_mode rq = RM_EXACT \<and> rr_override_plan rq \<noteq> None then
        throw ReplayValidationError ''override_plan is not allowed for exact replay''
      else if rr_mode rq = RM_INVESTIGATIVE \<and> \<not> has_text (rr_reason rq) \<and> \<not> has_text (rr_label rq) then
        throw ReplayValidationError ''investigative replay requires a non-empty reason or label''
      else if strip (rr_environment_target rq) = [] then
        throw ReplayValidationError ''environment_target is required''
      else ret ())"

text \<open>The input of the child and the overrides applied to it.\<close>

definition replay_inputs :: "replay_request \<Rightarrow> pydict \<Rightarrow> (world, pydict \<times> pydict) prog" where
  "replay_inputs rq base_input =
     (case rr_mode rq of
        RM_EXACT \<Rightarrow> ret (base_input, [])
      | RM_INVESTIGATIVE \<Rightarrow>
          (let overrides = given (rr_input_overrides rq) in
           if has_key overrides REPLAY_PROVENANCE_INPUT_KEY then
             throw ReplayValidationError (''input_overrides must not include reserved key ''
               @ repr_str REPLAY_PROVENANCE_INPUT_KEY)
           else ret (dmerge base_input overrides, overrides)))"

text \<open>\<open>a or b\<close> on optional text.\<close>

definition str_or :: "string option \<Rightarrow> string option \<Rightarrow> string option" where
  "str_or a b = (case a of Some (c # cs) \<Rightarrow> Some (c # cs) | _ \<Rightarrow> b)"

definition child_args :: "replay_request \<Rightarrow> execution \<Rightarrow> exec_context \<Rightarrow> datetime \<Rightarrow> create_args" where
  "child_args rq src ctx ts =
     \<lparr>ca_workflow_type = ex_workflow_type src, ca_input = [], ca_tenant_id = ctx_tenant_id ctx,
      ca_request_id = ''replay-'' @ uuid_str (rr_source rq), ca_environment = rr_environment_target rq,
      ca_policy_scope = ctx_policy_scope ctx,
      ca_principal_id = str_or (rr_requested_by rq) (ctx_principal_id ctx),
      ca_mode = (case rr_execution_mode rq of Some m \<Rightarrow> m | None \<Rightarrow> ex_mode src),
      ca_permissions_scope = Some (ctx_permissions_scope ctx),
      ca_parent_id = Some (rr_source rq),
      ca_feature_flags = (case ctx_feature_flags ctx of None \<Rightarrow> None
                          | Some d \<Rightarrow> if d = [] then None else Some d),
      ca_now = Some ts\<rparr>"

definition replay_provenance_of ::
  "replay_request \<Rightarrow> execution \<Rightarrow> pydict \<Rightarrow> uuid \<Rightarrow> datetime \<Rightarrow> replay_provenance" where
  "replay_provenance_of rq src overrides child_id ts =
     \<lparr>rp_source = rr_source rq, rp_mode = rr_mode rq, rp_requested_by = rr_requested_by rq,
      rp_reason = rr_reason rq, rp_label = rr_label rq, rp_input_overrides = overrides,
      rp_anchor_plan = (case rr_anchor_plan rq of Some a \<Rightarrow> Some a | None \<Rightarrow> ex_plan_id src),
      rp_environment_target = rr_environment_target rq, rp_created_execution = child_id,
      rp_created_at = ts\<rparr>"

definition create_replay ::
  "engine \<Rightarrow> replay_request \<Rightarrow> datetime option \<Rightarrow> (world, replay_response) prog" where
  "create_replay eng rq now =
     bnd (in_env (now_or_clock now)) (\<lambda>ts.
     (let source_id = rr_source rq in
      bnd (ask (\<lambda>r. get_execution r source_id)) (\<lambda>found. case found of
        None \<Rightarrow> throw ReplayNotFoundError (''source execution '' @ uuid_str source_id @ '' not found'')
      | Some src \<Rightarrow>
      bnd (ask (\<lambda>r. get_context r (ex_context_id src))) (\<lambda>fctx. case fctx of
        None \<Rightarrow> throw ReplayNotFoundError (''execution context for '' @ uuid_str source_id @ '' not found'')
      | Some ctx \<Rightarrow>
      (let source_before = PDict (execution_json src) in
       andthen (validate_request rq)
       (bnd (replay_inputs rq (strip_replay_metadata (ex_input src))) (\<lambda>(replay_input, overrides).
        bnd (create_execution (child_args rq src ctx ts)) (\<lambda>child0.
        (let prov = replay_provenance_of rq src overrides (ex_id child0) ts;
             child1 = child0\<lparr>ex_input :=
                 dset REPLAY_PROVENANCE_INPUT_KEY (PDict (provenance_json prov)) replay_input\<rparr>;
             child2 = append_replay_created_event child1 prov ts
         in andthen (in_repo (update_execution child2))
           (andthen (in_env (inc_metric ''replay_created_total'' [(''mode'', replay_mode_value (rr_mode rq))]))
           (andthen (in_env (emit_event ''replay_created''
               [(''source_execution_id'', PStr (uuid_str source_id)),
                (''replay_execution_id'', PStr (uuid_str (ex_id child2))),
                (''replay_mode'', PStr (replay_mode_value (rr_mode rq)))]))
           (bnd (if rr_start rq then start_execution eng (ex_id child2) else ret child2) (\<lambda>child.
            bnd (ask (\<lambda>r. get_execution r source_id)) (\<lambda>after.
              if (case after of None \<Rightarrow> True
                  | Some src_after \<Rightarrow> \<not> py_eq (PDict (execution_json src_after)) source_before) then
                throw ReplayError ''source execution was mutated during replay creation''
              else ret \<lparr>rs_replay_execution = ex_id child, rs_source = source_id,
                rs_status = execution_status_value (ex_status child), rs_mode = rr_mode rq,
                rs_provenance = prov\<rparr>))))))))))))))"

definition list_replays_for_source :: "uuid \<Rightarrow> int \<Rightarrow> (world, execution list) prog" where
  "list_replays_for_source source limit = ask (\<lambda>r. list_executions_by_parent r source limit)"

end
