(* ===== verification/Replay_Diff.thy ===== *)
theory Replay_Diff
  imports Replay
begin

text \<open>
  The read-only comparison of a replay with its source
  (\<open>app/services/replay_diff_service.py\<close>): eleven comparers, each a list of items in the order the
  code appends them.  An item is checked by its constructor (\<open>ReplayDiffItem\<close>), so a comparer is a
  list of items or errors, and the first error is the one the comparison raises.  Reading the
  provenance out of an arbitrary input is pydantic's \<open>model_validate\<close>: a parameter.
\<close>

section \<open>Items\<close>

datatype diff_severity = DS_INFO | DS_WARNING | DS_SIGNIFICANT

datatype diff_category =
    DC_LINEAGE | DC_EXECUTION_STATUS | DC_INPUT | DC_PLAN | DC_STEP | DC_MODEL_REASONING | DC_TOOL_CALL
  | DC_POLICY | DC_VALIDATION | DC_RESULT

record diff_item =
  di_category :: diff_category
  di_severity :: diff_severity
  di_title :: string
  di_description :: string
  di_source_value :: "string option"
  di_replay_value :: "string option"
  di_path :: string
  di_step_id :: "uuid option"
  di_tool_call_id :: "uuid option"

record diff_summary =
  dy_source :: uuid
  dy_replay :: uuid
  dy_mode :: "replay_mode option"
  dy_linked :: bool
  dy_total :: nat
  dy_significant :: nat
  dy_items :: "diff_item list"

definition diff_item_valid :: "diff_item \<Rightarrow> bool" where
  "diff_item_valid i \<longleftrightarrow>
     length (di_title i) \<le> 256 \<and> length (di_description i) \<le> 2048 \<and> length (di_path i) \<le> 256 \<and>
     (case di_source_value i of None \<Rightarrow> True | Some v \<Rightarrow> length v \<le> 512) \<and>
     (case di_replay_value i of None \<Rightarrow> True | Some v \<Rightarrow> length v \<le> 512)"

definition diff_summary_valid :: "diff_summary \<Rightarrow> bool" where
  "diff_summary_valid s \<longleftrightarrow> length (dy_items s) \<le> 500"

type_synonym diff_row = "exn + diff_item"

definition checked_item :: "diff_item \<Rightarrow> diff_row" where
  "checked_item i = (if diff_item_valid i then Inr i else Inl (Exn PydanticValidationError ''ReplayDiffItem''))"

text \<open>\<open>ReplayDiffItem(...)\<close> with the fields that every comparer gives, and with its optional ids.\<close>

definition item ::
  "diff_category \<Rightarrow> diff_severity \<Rightarrow> string \<Rightarrow> string \<Rightarrow> string option \<Rightarrow> string option \<Rightarrow> string \<Rightarrow>
   uuid option \<Rightarrow> uuid option \<Rightarrow> diff_row" where
  "item cat sev title descr sv rv path sid tid =
     checked_item \<lparr>di_category = cat, di_severity = sev, di_title = title, di_description = descr,
       di_source_value = sv, di_replay_value = rv, di_path = path, di_step_id = sid, di_tool_call_id = tid\<rparr>"

text \<open>One appended item under a condition.\<close>

definition row_if :: "bool \<Rightarrow> 'a \<Rightarrow> 'a list" where
  "row_if c x = (if c then [x] else [])"

fun collect_rows :: "diff_row list \<Rightarrow> exn + diff_item list" where
  "collect_rows [] = Inr []"
| "collect_rows (Inl e # rows) = Inl e"
| "collect_rows (Inr i # rows) = (case collect_rows rows of Inl e \<Rightarrow> Inl e | Inr is \<Rightarrow> Inr (i # is))"

section \<open>Values\<close>

definition cut :: "nat \<Rightarrow> string \<Rightarrow> string" where
  "cut n s = (if length s > n then take (n - 3) s @ ''...'' else s)"

definition brief :: "pyval \<Rightarrow> nat \<Rightarrow> string option" where
  "brief v max_len = (if v = PNone then None else Some (cut max_len (json_dumps v)))"

definition business_input :: "execution \<Rightarrow> pydict" where
  "business_input ex = dpop REPLAY_PROVENANCE_INPUT_KEY (ex_input ex)"

text \<open>\<open>ReplayProvenance.model_validate\<close>, \<open>None\<close> when it raises.\<close>

type_synonym provenance_reader = "pydict \<Rightarrow> replay_provenance option"

definition provenance_in :: "provenance_reader \<Rightarrow> execution \<Rightarrow> replay_provenance option" where
  "provenance_in read ex =
     (case as_dict (dget (ex_input ex) REPLAY_PROVENANCE_INPUT_KEY) of None \<Rightarrow> None | Some raw \<Rightarrow> read raw)"

definition is_linked :: "provenance_reader \<Rightarrow> execution \<Rightarrow> execution \<Rightarrow> bool" where
  "is_linked read source replay \<longleftrightarrow>
     ex_parent_id replay = Some (ex_id source) \<or>
     (case provenance_in read replay of None \<Rightarrow> False | Some p \<Rightarrow> rp_source p = ex_id source)"

text \<open>\<open>str\<close> of an optional identifier or number, and \<open>str(n)\<close>.\<close>

definition str_opt_uuid :: "uuid option \<Rightarrow> string" where
  "str_opt_uuid u = (case u of None \<Rightarrow> ''None'' | Some x \<Rightarrow> uuid_str x)"

definition str_opt_float :: "rat option \<Rightarrow> string" where
  "str_opt_float x = (case x of None \<Rightarrow> ''None'' | Some r \<Rightarrow> float_str r)"

definition indexed :: "string \<Rightarrow> nat \<Rightarrow> string" where
  "indexed s i = s @ ''['' @ nat_digits i @ '']''"

fun completeness_value :: "completeness \<Rightarrow> string" where
  "completeness_value SC_FULL = ''full''"
| "completeness_value SC_PARTIAL = ''partial''"
| "completeness_value SC_DEGRADED = ''degraded''"

fun side_effect_value :: "side_effect_class \<Rightarrow> string" where
  "side_effect_value SE_READ_ONLY = ''read_only''"
| "side_effect_value SE_STATE_CHANGING = ''state_changing''"

fun idempotency_value :: "tool_idempotency \<Rightarrow> string" where
  "idempotency_value TI_IDEMPOTENT = ''idempotent''"
| "idempotency_value TI_NON_IDEMPOTENT = ''non_idempotent''"

definition step_label :: "step \<Rightarrow> pydict" where
  "step_label s =
     [(''step_id'', PStr (uuid_str (st_id s))), (''type'', PStr (step_type_value (st_type s))),
      (''status'', PStr (step_status_value (st_status s))), (''agent'', PStr (st_agent s))]"

section \<open>Executions\<close>

definition compare_lineage :: "execution \<Rightarrow> execution \<Rightarrow> bool \<Rightarrow> replay_provenance option \<Rightarrow> diff_row list" where
  "compare_lineage source replay linked prov =
     (if linked then
        item DC_LINEAGE DS_INFO ''linked_to_source''
          ''Replay is linked to source via parent_execution_id and/or replay provenance.''
          (Some (uuid_str (ex_id source))) (Some (str_opt_uuid (ex_parent_id replay)))
          ''lineage.parent_execution_id'' None None
      else
        item DC_LINEAGE DS_SIGNIFICANT ''not_linked_to_source''
          ''Replay parent_execution_id and provenance do not reference the given source execution.''
          (Some (uuid_str (ex_id source))) (Some (str_opt_uuid (ex_parent_id replay))) ''lineage'' None None)
     # (case prov of
          None \<Rightarrow> []
        | Some p \<Rightarrow> row_if (rp_input_overrides p \<noteq> [])
            (item DC_INPUT DS_INFO ''investigative_input_overrides''
              ''Replay provenance records investigative input overrides applied at creation.''
              None (brief (PDict (rp_input_overrides p)) 400) ''provenance.input_overrides'' None None))"

definition compare_execution_header :: "execution \<Rightarrow> execution \<Rightarrow> diff_row list" where
  "compare_execution_header source replay =
     row_if (ex_status source \<noteq> ex_status replay)
       (item DC_EXECUTION_STATUS DS_SIGNIFICANT ''execution_status''
         ''Terminal or lifecycle status differs between source and replay.''
         (Some (execution_status_value (ex_status source))) (Some (execution_status_value (ex_status replay)))
         ''execution.status'' None None)
     @ row_if (ex_workflow_type source \<noteq> ex_workflow_type replay)
       (item DC_EXECUTION_STATUS DS_SIGNIFICANT ''workflow_type''
         ''Workflow type differs (unexpected for replay derived from source).''
         (Some (ex_workflow_type source)) (Some (ex_workflow_type replay)) ''execution.workflow_type'' None None)"

text \<open>\<open>sorted(set(a) | set(b))\<close>.\<close>

definition all_keys :: "pydict \<Rightarrow> pydict \<Rightarrow> string list" where
  "all_keys a b = sort (remdups (map fst a @ map fst b))"

definition input_row :: "replay_provenance option \<Rightarrow> pydict \<Rightarrow> pydict \<Rightarrow> string \<Rightarrow> diff_row list" where
  "input_row prov src_in rep_in key =
     row_if (\<not> py_eq (dget src_in key) (dget rep_in key))
       (item DC_INPUT
         (case prov of
            Some p \<Rightarrow> if has_key (rp_input_overrides p) key then DS_INFO else DS_WARNING
          | None \<Rightarrow> DS_WARNING)
         (''input.'' @ key) (''Business input field '' @ single_quote # key @ single_quote # '' differs.'')
         (brief (dget src_in key) 400) (brief (dget rep_in key) 400) (''input.'' @ key) None None)"

definition compare_input :: "execution \<Rightarrow> execution \<Rightarrow> replay_provenance option \<Rightarrow> diff_row list" where
  "compare_input source replay prov =
     (let src_in = business_input source; rep_in = business_input replay
      in concat (map (input_row prov src_in rep_in) (all_keys src_in rep_in)))"

definition compare_plan :: "repo \<Rightarrow> execution \<Rightarrow> execution \<Rightarrow> diff_row list" where
  "compare_plan r source replay =
     row_if (ex_plan_id source \<noteq> ex_plan_id replay)
       (item DC_PLAN DS_WARNING ''current_plan_id''
         ''Current plan revision id differs (expected when replay re-plans).''
         (map_option uuid_str (ex_plan_id source)) (map_option uuid_str (ex_plan_id replay))
         ''execution.current_plan_id'' None None)
     @ (let n = length (list_steps_for_execution r (ex_id source));
            m = length (list_steps_for_execution r (ex_id replay))
        in row_if (n \<noteq> m)
          (item DC_PLAN DS_SIGNIFICANT ''step_count''
            ''Number of persisted steps differs between source and replay.''
            (Some (nat_digits n)) (Some (nat_digits m)) ''steps.count'' None None))"

section \<open>Steps\<close>

text \<open>\<open>_compare_dict_fields\<close>: the given keys of two dictionaries that are both there.\<close>

definition field_row ::
  "diff_category \<Rightarrow> string \<Rightarrow> uuid option \<Rightarrow> diff_severity \<Rightarrow> pydict \<Rightarrow> pydict \<Rightarrow> string \<Rightarrow> diff_row list" where
  "field_row cat prefix sid sev source replay key =
     row_if ((has_key source key \<or> has_key replay key) \<and> \<not> py_eq (dget source key) (dget replay key))
       (item cat sev key
         (''Field '' @ single_quote # key @ single_quote # '' differs under '' @ prefix @ ''.'')
         (brief (dget source key) 400) (brief (dget replay key) 400) (prefix @ ''.'' @ key) sid None)"

definition compare_dict_fields ::
  "pydict option \<Rightarrow> pydict option \<Rightarrow> diff_category \<Rightarrow> string \<Rightarrow> string list \<Rightarrow> uuid option \<Rightarrow> diff_severity \<Rightarrow>
   diff_row list" where
  "compare_dict_fields source replay cat prefix keys sid sev =
     (case (source, replay) of
        (Some a, Some b) \<Rightarrow> concat (map (field_row cat prefix sid sev a b) keys)
      | _ \<Rightarrow> [])"

definition RESULT_KEYS_OF_INTEREST :: "string list" where
  "RESULT_KEYS_OF_INTEREST =
     [''status'', ''outcome'', ''summary'', ''validation'', ''governance'', ''error'', ''message'']"

definition STEP_OUTPUT_KEYS_OF_INTEREST :: "string list" where
  "STEP_OUTPUT_KEYS_OF_INTEREST =
     [''status'', ''outcome'', ''summary'', ''severity'', ''root_cause'', ''recommendation'']"

definition present :: "bool \<Rightarrow> string option" where
  "present b = Some (if b then ''present'' else ''absent'')"

definition compare_step_results :: "repo \<Rightarrow> step \<Rightarrow> step \<Rightarrow> string \<Rightarrow> diff_row list" where
  "compare_step_results r s t prefix =
     (let sid = Some (st_id t) in
      case (get_step_result r (st_id s), get_step_result r (st_id t)) of
        (None, None) \<Rightarrow> []
      | (Some a, Some b) \<Rightarrow>
          row_if (sr_completeness a \<noteq> sr_completeness b)
            (item DC_STEP DS_WARNING ''completeness'' ''Step result completeness differs.''
              (map_option completeness_value (sr_completeness a)) (map_option completeness_value (sr_completeness b))
              (prefix @ ''.result.completeness'') sid None)
          @ row_if (sr_confidence a \<noteq> sr_confidence b)
            (item DC_STEP DS_INFO ''confidence_score'' ''Advisory confidence score differs.''
              (Some (str_opt_float (sr_confidence a))) (Some (str_opt_float (sr_confidence b)))
              (prefix @ ''.result.confidence_score'') sid None)
          @ (let vs = map_option vo_status (sr_validation a); vr = map_option vo_status (sr_validation b)
             in row_if (vs \<noteq> vr)
               (item DC_VALIDATION DS_WARNING ''step_validation_outcome''
                 ''Step-level validation outcome status differs.'' vs vr
                 (prefix @ ''.result.validation_outcome.status'') sid None))
          @ compare_dict_fields (sr_output a) (sr_output b) DC_STEP (prefix @ ''.result.output'')
              STEP_OUTPUT_KEYS_OF_INTEREST sid DS_INFO
      | (a, b) \<Rightarrow>
          [item DC_STEP DS_WARNING ''step_result_presence'' ''Step result exists on one side only.''
             (present (a \<noteq> None)) (present (b \<noteq> None)) (prefix @ ''.result'') sid None])"

definition step_pair :: "repo \<Rightarrow> nat \<Rightarrow> step \<Rightarrow> step \<Rightarrow> diff_row list" where
  "step_pair r i s t =
     (let prefix = indexed ''steps'' i; sid = Some (st_id t);
          a = step_type_value (st_type s); b = step_type_value (st_type t)
      in row_if (a \<noteq> b)
           (item DC_STEP DS_WARNING ''step_type''
             (''Step type differs at index '' @ nat_digits i @ '' (ordered by created_at).'')
             (Some a) (Some b) (prefix @ ''.type'') sid None)
         @ row_if (st_status s \<noteq> st_status t)
           (item DC_STEP DS_WARNING ''step_status'' (''Step status differs at index '' @ nat_digits i @ ''.'')
             (Some (step_status_value (st_status s))) (Some (step_status_value (st_status t)))
             (prefix @ ''.status'') sid None)
         @ row_if (st_agent s \<noteq> st_agent t)
           (item DC_STEP DS_INFO ''step_agent''
             (''Step agent binding differs at index '' @ nat_digits i @ ''.'')
             (Some (st_agent s)) (Some (st_agent t)) (prefix @ ''.agent'') sid None)
         @ compare_step_results r s t prefix)"

text \<open>The loop over the longer list; index \<open>i\<close> is the position of the first elements.\<close>

fun step_rows :: "repo \<Rightarrow> nat \<Rightarrow> step list \<Rightarrow> step list \<Rightarrow> diff_row list" where
  "step_rows r i [] [] = []"
| "step_rows r i [] (t # ts) =
     item DC_STEP DS_SIGNIFICANT ''extra_replay_step''
       ''Replay has a step with no positional match in source ordering.''
       None (brief (PDict (step_label t)) 400) (indexed ''steps'' i) (Some (st_id t)) None
     # step_rows r (Suc i) [] ts"
| "step_rows r i (s # ss) [] =
     item DC_STEP DS_SIGNIFICANT ''missing_replay_step''
       ''Source has a step with no positional match in replay ordering.''
       (brief (PDict (step_label s)) 400) None (indexed ''steps'' i) (Some (st_id s)) None
     # step_rows r (Suc i) ss []"
| "step_rows r i (s # ss) (t # ts) = step_pair r i s t @ step_rows r (Suc i) ss ts"

definition steps_by_creation :: "repo \<Rightarrow> uuid \<Rightarrow> step list" where
  "steps_by_creation r eid = sort_key st_created_at (list_steps_for_execution r eid)"

definition compare_steps :: "repo \<Rightarrow> execution \<Rightarrow> execution \<Rightarrow> diff_row list" where
  "compare_steps r source replay =
     step_rows r 0 (steps_by_creation r (ex_id source)) (steps_by_creation r (ex_id replay))"

section \<open>Model reasoning, tools, policy, approvals\<close>

text \<open>\<open>for idx, (a, b) in enumerate(zip(xs, ys, strict=False))\<close>.\<close>

fun rows_of_pairs :: "(nat \<Rightarrow> 'a \<Rightarrow> 'a \<Rightarrow> diff_row list) \<Rightarrow> nat \<Rightarrow> 'a list \<Rightarrow> 'a list \<Rightarrow> diff_row list" where
  "rows_of_pairs f i (x # xs) (y # ys) = f i x y @ rows_of_pairs f (Suc i) xs ys"
| "rows_of_pairs f i _ _ = []"

definition count_row :: "diff_category \<Rightarrow> diff_severity \<Rightarrow> string \<Rightarrow> string \<Rightarrow> string \<Rightarrow> 'a list \<Rightarrow> 'a list \<Rightarrow> diff_row list" where
  "count_row cat sev title descr path xs ys =
     row_if (length xs \<noteq> length ys)
       (item cat sev title descr (Some (nat_digits (length xs))) (Some (nat_digits (length ys))) path None None)"

definition reasoning_events :: "execution \<Rightarrow> pydict list" where
  "reasoning_events ex = filter (\<lambda>e. dget e ''event_type'' = PStr ''model_reasoning'') (ex_timeline ex)"

text \<open>A list or a dictionary is no member of a set: \<open>{sp, rp}\<close> raises.\<close>

definition hashable :: "pyval \<Rightarrow> bool" where
  "hashable v \<longleftrightarrow> as_list v = None \<and> as_dict v = None"

definition reasoning_row :: "nat \<Rightarrow> pydict \<Rightarrow> pydict \<Rightarrow> diff_row list" where
  "reasoning_row i a b =
     (let sp = dget a ''path''; rp = dget b ''path''; st = dget a ''task''; rt = dget b ''task'';
          known = {PStr ''model_runtime'', PStr ''deterministic_fallback''}
      in row_if (\<not> py_eq sp rp)
           (if \<not> (hashable sp \<and> hashable rp) then Inl (Exn TypeError ''unhashable type'')
            else item DC_MODEL_REASONING (if sp \<in> known \<and> rp \<in> known then DS_WARNING else DS_SIGNIFICANT)
              ''model_path'' (''model_reasoning path differs at event index '' @ nat_digits i @ ''.'')
              (Some (py_str sp)) (Some (py_str rp))
              (indexed ''trace_timeline.model_reasoning'' i @ ''.path'') None None)
         @ row_if (\<not> py_eq st rt)
           (item DC_MODEL_REASONING DS_INFO
              ''model_task'' (''model_reasoning task differs at event index '' @ nat_digits i @ ''.'')
              (Some (py_str st)) (Some (py_str rt))
              (indexed ''trace_timeline.model_reasoning'' i @ ''.task'') None None))"

definition compare_model_reasoning :: "execution \<Rightarrow> execution \<Rightarrow> diff_row list" where
  "compare_model_reasoning source replay =
     (let xs = reasoning_events source; ys = reasoning_events replay
      in count_row DC_MODEL_REASONING DS_WARNING ''model_reasoning_event_count''
           ''Count of model_reasoning trace events differs.'' ''trace_timeline.model_reasoning.count'' xs ys
         @ rows_of_pairs reasoning_row 0 xs ys)"

definition all_tool_calls :: "repo \<Rightarrow> uuid \<Rightarrow> tool_call list" where
  "all_tool_calls r eid =
     sort_key tc_created_at (concat (map (\<lambda>s. list_tool_calls_for_step r (st_id s)) (steps_by_creation r eid)))"

definition tool_call_row :: "nat \<Rightarrow> tool_call \<Rightarrow> tool_call \<Rightarrow> diff_row list" where
  "tool_call_row i a b =
     (let prefix = indexed ''tool_calls'' i; tid = Some (tc_id b)
      in row_if (tc_tool_name a \<noteq> tc_tool_name b)
           (item DC_TOOL_CALL DS_WARNING ''tool_name'' (''Tool name differs at index '' @ nat_digits i @ ''.'')
             (Some (tc_tool_name a)) (Some (tc_tool_name b)) (prefix @ ''.tool_name'') None tid)
         @ row_if (tc_status a \<noteq> tc_status b)
           (item DC_TOOL_CALL DS_WARNING ''tool_call_status''
             (''Tool call status differs at index '' @ nat_digits i @ ''.'')
             (Some (tool_call_status_value (tc_status a))) (Some (tool_call_status_value (tc_status b)))
             (prefix @ ''.status'') None tid)
         @ row_if (tc_side_effect a \<noteq> tc_side_effect b)
           (item DC_TOOL_CALL DS_INFO ''side_effect_class'' ''Tool side-effect class differs.''
             (Some (side_effect_value (tc_side_effect a))) (Some (side_effect_value (tc_side_effect b)))
             (prefix @ ''.side_effect_class'') None tid)
         @ row_if (tc_idempotency a \<noteq> tc_idempotency b)
           (item DC_TOOL_CALL DS_INFO ''idempotency'' ''Tool idempotency declaration differs.''
             (Some (idempotency_value (tc_idempotency a))) (Some (idempotency_value (tc_idempotency b)))
             (prefix @ ''.idempotency'') None tid))"

definition compare_tool_calls :: "repo \<Rightarrow> execution \<Rightarrow> execution \<Rightarrow> diff_row list" where
  "compare_tool_calls r source replay =
     (let xs = all_tool_calls r (ex_id source); ys = all_tool_calls r (ex_id replay)
      in count_row DC_TOOL_CALL DS_WARNING ''tool_call_count''
           ''Total tool call count differs (flattened across steps by created_at).'' ''tool_calls.count'' xs ys
         @ rows_of_pairs tool_call_row 0 xs ys)"

definition policy_row :: "nat \<Rightarrow> policy_evaluation \<Rightarrow> policy_evaluation \<Rightarrow> diff_row list" where
  "policy_row i a b =
     (if pe_decision a \<noteq> pe_decision b then
        [item DC_POLICY DS_SIGNIFICANT ''policy_decision''
           (''Policy decision differs at evaluation index '' @ nat_digits i @ ''.'')
           (Some (policy_decision_value (pe_decision a))) (Some (policy_decision_value (pe_decision b)))
           (indexed ''policy_evaluations'' i @ ''.decision'') None None]
      else row_if (pe_reason a \<noteq> pe_reason b)
        (item DC_POLICY DS_INFO ''policy_reason''
           (''Policy reason text differs at evaluation index '' @ nat_digits i @ ''.'')
           (brief (PStr (pe_reason a)) 200) (brief (PStr (pe_reason b)) 200)
           (indexed ''policy_evaluations'' i @ ''.reason'') None None))"

definition compare_policy :: "repo \<Rightarrow> execution \<Rightarrow> execution \<Rightarrow> diff_row list" where
  "compare_policy r source replay =
     (let xs = list_policy_evaluations_for_execution r (ex_id source);
          ys = list_policy_evaluations_for_execution r (ex_id replay)
      in if xs = [] \<and> ys = [] then []
         else count_row DC_POLICY DS_WARNING ''policy_evaluation_count''
             ''Number of policy evaluations differs.'' ''policy_evaluations.count'' xs ys
           @ rows_of_pairs policy_row 0 xs ys
           @ count_row DC_POLICY DS_INFO ''action_proposal_count'' ''Action proposal count differs.''
               ''action_proposals.count'' (list_action_proposals_for_execution r (ex_id source))
               (list_action_proposals_for_execution r (ex_id replay)))"

definition approval_row :: "nat \<Rightarrow> approval \<Rightarrow> approval \<Rightarrow> diff_row list" where
  "approval_row i a b =
     row_if (apr_decision a \<noteq> apr_decision b)
       (item DC_POLICY DS_SIGNIFICANT ''approval_decision''
         (''Approval decision differs at index '' @ nat_digits i @ ''.'')
         (Some (approval_decision_value (apr_decision a))) (Some (approval_decision_value (apr_decision b)))
         (indexed ''approvals'' i @ ''.decision'') None None)"

definition compare_approvals :: "repo \<Rightarrow> execution \<Rightarrow> execution \<Rightarrow> diff_row list" where
  "compare_approvals r source replay =
     (let xs = list_approvals_for_execution r (ex_id source); ys = list_approvals_for_execution r (ex_id replay)
      in count_row DC_POLICY DS_WARNING ''approval_count'' ''Number of approval records differs.''
           ''approvals.count'' xs ys
         @ rows_of_pairs approval_row 0 xs ys)"

section \<open>Validation and result\<close>

definition compare_validation :: "execution \<Rightarrow> execution \<Rightarrow> diff_row list" where
  "compare_validation source replay =
     row_if (\<not> py_eq (opt_dict (ex_validation_summary source)) (opt_dict (ex_validation_summary replay)))
       (item DC_VALIDATION DS_WARNING ''validation_summary'' ''Execution-level validation_summary differs.''
         (brief (opt_dict (ex_validation_summary source)) 400)
         (brief (opt_dict (ex_validation_summary replay)) 400) ''execution.validation_summary'' None None)"

definition compare_result :: "execution \<Rightarrow> execution \<Rightarrow> diff_row list" where
  "compare_result source replay =
     (case (ex_result source, ex_result replay) of
        (None, None) \<Rightarrow> []
      | (Some a, Some b) \<Rightarrow>
          compare_dict_fields (Some a) (Some b) DC_RESULT ''execution.result'' RESULT_KEYS_OF_INTEREST None DS_WARNING
      | (a, b) \<Rightarrow>
          [item DC_RESULT DS_WARNING ''result_presence''
             ''Top-level execution result present on one side only.''
             (present (given a \<noteq> [])) (present (given b \<noteq> [])) ''execution.result'' None None])"

section \<open>The comparison\<close>

definition diff_rows :: "provenance_reader \<Rightarrow> repo \<Rightarrow> execution \<Rightarrow> execution \<Rightarrow> diff_row list" where
  "diff_rows read r source replay =
     (let prov = provenance_in read replay
      in compare_lineage source replay (is_linked read source replay) prov
         @ compare_execution_header source replay
         @ compare_input source replay prov
         @ compare_plan r source replay
         @ compare_steps r source replay
         @ compare_model_reasoning source replay
         @ compare_tool_calls r source replay
         @ compare_policy r source replay
         @ compare_approvals r source replay
         @ compare_validation source replay
         @ compare_result source replay)"

definition summarize :: "provenance_reader \<Rightarrow> execution \<Rightarrow> execution \<Rightarrow> diff_item list \<Rightarrow> diff_summary" where
  "summarize read source replay items =
     \<lparr>dy_source = ex_id source, dy_replay = ex_id replay,
      dy_mode = map_option rp_mode (provenance_in read replay),
      dy_linked = is_linked read source replay, dy_total = length items,
      dy_significant = length (filter (\<lambda>i. di_severity i = DS_SIGNIFICANT) items), dy_items = items\<rparr>"

definition not_found :: "string \<Rightarrow> uuid \<Rightarrow> (repo, 'a) prog" where
  "not_found side eid =
     throw (OtherException ''ReplayDiffNotFoundError'') (side @ '' execution '' @ uuid_str eid @ '' not found'')"

definition diff_error :: "string \<Rightarrow> (repo, 'a) prog" where
  "diff_error msg = throw (OtherException ''ReplayDiffError'') msg"

text \<open>The checks after the summary is built: both executions read again and dumped.\<close>

definition unchanged_after :: "uuid \<Rightarrow> uuid \<Rightarrow> execution \<Rightarrow> execution \<Rightarrow> (repo, unit) prog" where
  "unchanged_after sid rid source replay =
     bnd (reads (\<lambda>r. get_execution r sid)) (\<lambda>a. bnd (reads (\<lambda>r. get_execution r rid)) (\<lambda>b.
       case (a, b) of
         (Some src, Some rep) \<Rightarrow>
           if \<not> py_eq (PDict (execution_json src)) (PDict (execution_json source)) then
             diff_error ''source execution mutated during diff''
           else if \<not> py_eq (PDict (execution_json rep)) (PDict (execution_json replay)) then
             diff_error ''replay execution mutated during diff''
           else ret ()
       | _ \<Rightarrow> diff_error ''execution disappeared during read-only diff''))"

definition compare :: "provenance_reader \<Rightarrow> uuid \<Rightarrow> uuid \<Rightarrow> (repo, diff_summary) prog" where
  "compare read sid rid =
     bnd (reads (\<lambda>r. get_execution r sid)) (\<lambda>fs. bnd (reads (\<lambda>r. get_execution r rid)) (\<lambda>fr.
       case fs of
         None \<Rightarrow> not_found ''source'' sid
       | Some source \<Rightarrow> (case fr of
           None \<Rightarrow> not_found ''replay'' rid
         | Some replay \<Rightarrow>
             bnd (reads (\<lambda>r. collect_rows (diff_rows read r source replay))) (\<lambda>rows. case rows of
                 Inl e \<Rightarrow> rethrow e
               | Inr items \<Rightarrow>
                   (let summary = summarize read source replay items
                    in if \<not> diff_summary_valid summary then throw PydanticValidationError ''ReplayDiffSummary''
                       else andthen (unchanged_after sid rid source replay) (ret summary))))))"

end
