(* ===== verification/Engine_Frame.thy ===== *)
theory Engine_Frame
  imports Engine
begin

text \<open>
  What the work of a step may change.  \<open>work_frame eid\<close> relates the worlds before and after: plans,
  steps, contexts, results and governance records are the same, no other execution changes, and the
  execution \<open>eid\<close> only gets trace rows that are not status changes.
\<close>

section \<open>Trace rows\<close>

definition is_status_row :: "pydict \<Rightarrow> bool" where
  "is_status_row row \<longleftrightarrow> dget row ''event_type'' = PStr ''execution_status''"

definition status_rows :: "execution \<Rightarrow> pyval list" where
  "status_rows ex = map (\<lambda>row. dget row ''status'') (filter is_status_row (ex_timeline ex))"

text \<open>Details that do not set the row's own keys.\<close>

definition plain_detail :: "pydict \<Rightarrow> bool" where
  "plain_detail d \<longleftrightarrow> ''event_type'' \<notin> fst ` set d"

lemma dget_dmerge_absent: "k \<notin> fst ` set d \<Longrightarrow> dget (dmerge base d) k = dget base k"
proof (induction d arbitrary: base)
  case (Cons p d)
  have "dget (dmerge (AList.update (fst p) (snd p) base) d) k
      = dget (AList.update (fst p) (snd p) base) k"
    using Cons by simp
  then show ?case
    using Cons.prems by (cases p) (auto simp: dmerge_def dget_def)
qed (simp add: dmerge_def)

lemma timeline_row_event: "plain_detail d \<Longrightarrow> dget (timeline_row ty d now) ''event_type'' = PStr ty"
  unfolding timeline_row_def plain_detail_def by (subst dget_dmerge_absent) (simp_all add: dget_def)

lemma is_status_row_timeline:
  "plain_detail d \<Longrightarrow> is_status_row (timeline_row ty d now) \<longleftrightarrow> ty = ''execution_status''"
  by (simp add: is_status_row_def timeline_row_event)

lemma status_rows_append:
  "plain_detail d \<Longrightarrow> ty \<noteq> ''execution_status'' \<Longrightarrow>
   status_rows (append_timeline ex ty d now) = status_rows ex"
  by (simp add: status_rows_def append_timeline_def is_status_row_timeline)

lemma status_rows_status_row:
  assumes "''event_type'' \<notin> fst ` set extra" "''status'' \<notin> fst ` set extra"
  shows "status_rows (status_row ex st extra now)
    = status_rows ex @ [PStr (execution_status_value st)]"
proof -
  have "plain_detail ((''status'', PStr (execution_status_value st)) # extra)"
    using assms by (simp add: plain_detail_def)
  moreover have "dget (timeline_row ty ((''status'', v) # extra) now) ''status'' = v" for ty v
    using assms(2) dget_dmerge_absent[of "''status''" extra]
    by (simp add: timeline_row_def dmerge_def dget_def)
  ultimately show ?thesis
    by (simp add: status_rows_def status_row_def append_timeline_def is_status_row_timeline)
qed

lemma append_timeline_fields [simp]:
  "ex_id (append_timeline ex ty d t) = ex_id ex"
  "ex_status (append_timeline ex ty d t) = ex_status ex"
  "ex_workflow_type (append_timeline ex ty d t) = ex_workflow_type ex"
  "ex_plan_id (append_timeline ex ty d t) = ex_plan_id ex"
  "ex_context_id (append_timeline ex ty d t) = ex_context_id ex"
  "ex_input (append_timeline ex ty d t) = ex_input ex"
  "ex_result (append_timeline ex ty d t) = ex_result ex"
  by (simp_all add: append_timeline_def)

lemma status_row_fields [simp]:
  "ex_id (status_row ex st d t) = ex_id ex"
  "ex_status (status_row ex st d t) = ex_status ex"
  "ex_workflow_type (status_row ex st d t) = ex_workflow_type ex"
  "ex_plan_id (status_row ex st d t) = ex_plan_id ex"
  "ex_context_id (status_row ex st d t) = ex_context_id ex"
  "ex_input (status_row ex st d t) = ex_input ex"
  "ex_result (status_row ex st d t) = ex_result ex"
  by (simp_all add: status_row_def)

lemma governed_row_fields [simp]:
  "ex_id (governed_row ex p u t) = ex_id ex"
  "ex_status (governed_row ex p u t) = ex_status ex"
  "ex_workflow_type (governed_row ex p u t) = ex_workflow_type ex"
  "ex_result (governed_row ex p u t) = ex_result ex"
  by (simp_all add: governed_row_def)

lemma plain_details [simp]:
  "plain_detail (completed_detail s)" "plain_detail (validation_detail s res)"
  "plain_detail (retrieval_detail s rv)" "plain_detail (tool_detail s tc)"
  "plain_detail (reasoning_detail s path task pr ec em tel)"
  by (auto simp: plain_detail_def completed_detail_def validation_detail_def retrieval_detail_def
      tool_detail_def reasoning_detail_def opt_field_def split: option.split)

lemma plain_detail_append [simp]: "plain_detail (a @ b) \<longleftrightarrow> plain_detail a \<and> plain_detail b"
  and plain_detail_Nil [simp]: "plain_detail []"
  and plain_detail_Cons [simp]: "plain_detail ((k, v) # d) \<longleftrightarrow> k \<noteq> ''event_type'' \<and> plain_detail d"
  by (auto simp: plain_detail_def)

section \<open>The frame of a step's work\<close>

text \<open>An execution that got trace rows and nothing else.\<close>

definition traced :: "execution \<Rightarrow> execution \<Rightarrow> bool" where
  "traced ex ex' \<longleftrightarrow>
     (\<exists>rows t. ex' = ex\<lparr>ex_timeline := ex_timeline ex @ rows, ex_updated_at := t\<rparr>
       \<and> filter is_status_row rows = [])"

lemma traced_refl: "traced ex ex"
proof -
  have "ex = ex\<lparr>ex_timeline := ex_timeline ex @ [], ex_updated_at := ex_updated_at ex\<rparr>" by simp
  then show ?thesis unfolding traced_def by (metis filter.simps(1))
qed

lemma traced_trans: "traced a b \<Longrightarrow> traced b c \<Longrightarrow> traced a c"
proof -
  assume "traced a b" "traced b c"
  then obtain r t r' t' where
    "b = a\<lparr>ex_timeline := ex_timeline a @ r, ex_updated_at := t\<rparr>" "filter is_status_row r = []"
    "c = b\<lparr>ex_timeline := ex_timeline b @ r', ex_updated_at := t'\<rparr>" "filter is_status_row r' = []"
    by (auto simp: traced_def)
  then have "c = a\<lparr>ex_timeline := ex_timeline a @ (r @ r'), ex_updated_at := t'\<rparr>"
    "filter is_status_row (r @ r') = []" by simp_all
  then show ?thesis unfolding traced_def by blast
qed

lemma traced_append:
  "plain_detail d \<Longrightarrow> ty \<noteq> ''execution_status'' \<Longrightarrow> traced ex (append_timeline ex ty d now)"
  unfolding traced_def append_timeline_def
  by (intro exI[of _ "[timeline_row ty d now]"] exI[of _ now]) (simp add: is_status_row_timeline)

lemma traced_status_rows: "traced ex ex' \<Longrightarrow> status_rows ex' = status_rows ex"
  by (auto simp: traced_def status_rows_def)

lemma traced_fields:
  assumes "traced ex ex'"
  shows "ex_id ex' = ex_id ex" "ex_status ex' = ex_status ex" "ex_workflow_type ex' = ex_workflow_type ex"
    "ex_input ex' = ex_input ex" "ex_result ex' = ex_result ex" "ex_plan_id ex' = ex_plan_id ex"
    "ex_context_id ex' = ex_context_id ex"
  using assms by (auto simp: traced_def)

definition work_frame :: "uuid \<Rightarrow> world \<Rightarrow> world \<Rightarrow> bool" where
  "work_frame eid w w' \<longleftrightarrow>
     (let r = w_repo w; r' = w_repo w' in
      env_le (w_env w) (w_env w') \<and> w_queue w' = w_queue w \<and>
      r_contexts r' = r_contexts r \<and> r_plans r' = r_plans r \<and> r_steps r' = r_steps r \<and>
      r_step_results r' = r_step_results r \<and> r_proposals r' = r_proposals r \<and>
      r_evaluations r' = r_evaluations r \<and> r_approvals r' = r_approvals r \<and>
      (repo_ok r \<longrightarrow> repo_ok r') \<and>
      (repo_ok r \<longrightarrow> (\<forall>k. k \<noteq> eid \<longrightarrow> get_execution r' k = get_execution r k)) \<and>
      (repo_ok r \<longrightarrow> (case get_execution r eid of
          None \<Rightarrow> get_execution r' eid = None
        | Some ex \<Rightarrow> \<exists>ex'. get_execution r' eid = Some ex' \<and> traced ex ex')))"

lemma work_frame_refl: "work_frame eid w w"
  by (auto simp: work_frame_def Let_def env_le.R_refl traced_refl split: option.split)

lemma work_frame_trans: "work_frame eid a b \<Longrightarrow> work_frame eid b c \<Longrightarrow> work_frame eid a c"
  unfolding work_frame_def Let_def
  by (auto intro: env_le.R_trans dest: traced_trans split: option.splits)

interpretation work: step_preorder "work_frame eid" for eid
  by unfold_locales (auto intro: work_frame_refl work_frame_trans)

lemma work_in_env: "steps env_le m \<Longrightarrow> steps (work_frame eid) (in_env m)"
proof (rule stepsI)
  fix w :: world assume m: "steps env_le m"
  obtain x e where "m (w_env w) = (x, e)" by (cases "m (w_env w)")
  with stepsD[OF m this] show "work_frame eid w (snd (in_env m w))"
    by (auto simp: in_env_def work_frame_def Let_def traced_refl split: option.split)
qed

lemma work_ask: "steps (work_frame eid) (ask f)"
  unfolding ask_def by (rule work.st_reads)

lemma work_orchestration_error: "steps (work_frame eid) (orchestration_error msg)"
  unfolding orchestration_error_def by (rule work.st_throw)

lemma work_save_tool_call: "steps (work_frame eid) (on_repo (save_tool_call tc))"
  by (auto simp: steps_def on_repo_def modifies_def work_frame_def Let_def env_le.R_refl repo_ok_saves
      traced_refl save_tool_call_def[of tc] get_execution_def split: option.split
      dest: repo_ok_saves(9)[of _ tc, unfolded save_tool_call_def])

lemma work_trace_event:
  assumes "plain_detail d" "ty \<noteq> ''execution_status''"
  shows "steps (work_frame eid) (trace_event eid ty d now)"
proof (rule stepsI)
  fix w
  show "work_frame eid w (snd (trace_event eid ty d now w))"
  proof (cases "get_execution (w_repo w) eid")
    case None
    then show ?thesis by (simp add: trace_event_def bnd_ask ret_def work_frame_refl)
  next
    case (Some ex)
    let ?ex = "append_timeline ex ty d now"
    have tr: "traced ex ?ex" using assms by (rule traced_append)
    have id: "ex_id ex = eid" if "repo_ok (w_repo w)" using that Some by (rule get_execution_id)
    show ?thesis
    proof (cases "get_execution (w_repo w) (ex_id ?ex)")
      case None
      then have "snd (trace_event eid ty d now w) = w"
        using Some executions.update_miss[of "w_repo w" ?ex]
        by (auto simp: trace_event_def bnd_ask in_repo_def)
      then show ?thesis by (simp add: work_frame_refl)
    next
      case hit: (Some y)
      have "snd (trace_event eid ty d now w) = w\<lparr>w_repo := save_execution ?ex (w_repo w)\<rparr>"
        using Some hit update_execution_hit[of w ?ex] by (simp add: trace_event_def bnd_ask)
      then show ?thesis
        using tr id Some
        by (auto simp: work_frame_def Let_def env_le.R_refl executions.get_save repo_ok_saves)
    qed
  qed
qed

section \<open>The work of every step keeps the frame\<close>

text \<open>
  What the engine relies on of the injected services: they draw identifiers from the supply and
  never hand one out twice.  The in-repository defaults do; a client's own must.
\<close>

definition services_ok :: "engine \<Rightarrow> bool" where
  "services_ok eng \<longleftrightarrow>
     (\<forall>k \<in> set_option (eng_knowledge eng). \<forall>rq. steps env_le (k rq)) \<and>
     (\<forall>mr \<in> set_option (eng_model eng).
        (\<forall>rq. steps env_le (mr_analyze_incident mr rq)) \<and>
        (\<forall>rq. steps env_le (mr_validate_incident mr rq)) \<and>
        (\<forall>rq. steps env_le (mr_analyze_cost mr rq)) \<and>
        (\<forall>rq. steps env_le (mr_validate_cost mr rq)))"

lemma env_le_execute_step: "steps env_le (execute_step s now)"
  unfolding execute_step_def execute_incident_triage_step_def execute_cost_attribution_step_def
    execute_generic_step_def
  by (intro env_le_rules)

lemma env_le_tool_invoke: "pure_check check \<Longrightarrow> steps env_le (tool_invoke reg check rq (Some now))"
  using tool_invoke_ok[of check reg rq now]
  by (auto simp: steps_def env_le_def) (metis less_imp_le snd_conv)+

lemma work_execute_step: "steps (work_frame eid) (in_env (execute_step s now))"
  by (intro work_in_env env_le_execute_step)

lemma work_uuid4: "steps (work_frame eid) (in_env uuid4)"
  by (intro work_in_env env_le_uuid4)

lemma work_mk_step_result: "steps (work_frame eid) (mk_step_result r)"
  unfolding mk_step_result_def by (intro work.st_rules)

lemma work_require: "steps (work_frame eid) (require c m)"
  unfolding require_def by (intro work.st_rules)

lemma work_trace_model:
  "st_execution_id s = eid \<Longrightarrow>
   steps (work_frame eid) (trace_model_reasoning s path task pr ec em tel now)"
  unfolding trace_model_reasoning_def by (auto intro: work_trace_event)

lemma work_load_context: "steps (work_frame eid) (load_context s)"
  unfolding load_context_def by (intro work.st_rules work_ask work_orchestration_error)

lemmas work_rules = work.st_rules work_ask work_uuid4 work_mk_step_result work_require
  work_execute_step work_load_context work_orchestration_error work_save_tool_call

lemma work_model_fallback:
  "st_execution_id s = eid \<Longrightarrow> steps (work_frame eid) (model_fallback s nm tasks now exc)"
  unfolding model_fallback_def
  by (intro work_rules work_in_env env_le_inc env_le_emit work_trace_model)

lemma work_model_results:
  "steps (work_frame eid) (step_result_from_analyze_model s now o1)"
  "steps (work_frame eid) (step_result_from_validate_model s now o2)"
  "steps (work_frame eid) (step_result_from_cost_analyze_model s now o3)"
  "steps (work_frame eid) (step_result_from_cost_validate_model s now o4)"
  unfolding step_result_from_analyze_model_def step_result_from_validate_model_def
    step_result_from_cost_analyze_model_def step_result_from_cost_validate_model_def
  by (intro work_rules)+

lemma work_model_steps:
  assumes "services_ok eng" "eng_model eng = Some mr" "st_execution_id s = eid"
  shows "steps (work_frame eid) (incident_model_reasoning_step mr s now)"
    and "steps (work_frame eid) (cost_model_reasoning_step mr s now)"
proof -
  have calls: "steps env_le (mr_analyze_incident mr a)" "steps env_le (mr_validate_incident mr b)"
    "steps env_le (mr_analyze_cost mr c)" "steps env_le (mr_validate_cost mr d)" for a b c d
    using assms by (auto simp: services_ok_def)
  show "steps (work_frame eid) (incident_model_reasoning_step mr s now)"
    unfolding incident_model_reasoning_step_def analyze_incident_call_def validate_incident_call_def
    by (intro work_rules work_in_env calls work_trace_model work_model_results work_model_fallback assms(3))
  show "steps (work_frame eid) (cost_model_reasoning_step mr s now)"
    unfolding cost_model_reasoning_step_def analyze_cost_call_def validate_cost_call_def
    by (intro work_rules work_in_env calls work_trace_model work_model_results work_model_fallback assms(3))
qed

lemma work_call_tool:
  assumes "st_execution_id s = eid" "plain_detail extra"
  shows "steps (work_frame eid) (call_tool reg s ctx payload extra now nm)"
  unfolding call_tool_def assms(1)
  by (intro work_rules work_in_env env_le_tool_invoke work_trace_event)
    (auto simp: pure_check_def assms)

lemma work_service_steps:
  assumes retrieve: "\<And>rq. steps env_le (retrieve rq)" and s: "st_execution_id s = eid"
  shows "steps (work_frame eid) (gather_evidence_via_services reg retrieve s now)"
    and "steps (work_frame eid) (retrieve_cost_evidence_via_services retrieve s now)"
    and "steps (work_frame eid) (correlate_usage_via_tools reg s now)"
  unfolding gather_evidence_via_services_def retrieve_cost_evidence_via_services_def
    correlate_usage_via_tools_def s
  by (intro work_rules work_in_env retrieve work_trace_event work_call_tool s; simp)+

lemma work_step_work:
  assumes "services_ok eng" "st_execution_id s = eid"
  shows "steps (work_frame eid) (step_work eng s now)"
  unfolding step_work_def
  using assms
  by (auto intro!: work_rules work_service_steps work_model_steps[OF assms(1)]
      simp: services_ok_def split: option.split)

end
