(* ===== verification/Engine_Invariant.thy ===== *)
theory Engine_Invariant
  imports Engine_Frame
begin

text \<open>
  The invariant of the running orchestrator.  For every stored execution, the status rows of its
  trace are a path of allowed transitions from CREATED to its status (\<open>trace_ok\<close>), and its outcome
  is backed by stored governance records (\<open>governed\<close>).  Identifiers the supply will still hand out
  are not in use (\<open>fresh\<close>).
\<close>

section \<open>Definitions\<close>

definition parse_status :: "pyval \<Rightarrow> execution_status option" where
  "parse_status v = find (\<lambda>s. v = PStr (execution_status_value s)) all_execution_statuses"

definition trace_statuses :: "execution \<Rightarrow> execution_status option list" where
  "trace_statuses ex = map parse_status (status_rows ex)"

definition trace_ok :: "execution \<Rightarrow> bool" where
  "trace_ok ex \<longleftrightarrow>
     (let path = map the (trace_statuses ex)
      in None \<notin> set (trace_statuses ex) \<and> status_path ES_CREATED path
         \<and> last (ES_CREATED # path) = ex_status ex)"

text \<open>A stored ALLOW, or a stored CONDITIONAL with a stored approval of that evaluation.\<close>

definition allow_evidence :: "repo \<Rightarrow> uuid \<Rightarrow> bool" where
  "allow_evidence r eid \<longleftrightarrow>
     (\<exists>pe \<in> set (map snd (r_evaluations r)). pe_execution_id pe = eid \<and>
        (pe_decision pe = PD_ALLOW \<or>
         (pe_decision pe = PD_CONDITIONAL \<and>
          (\<exists>a \<in> set (map snd (r_approvals r)). apr_execution_id a = eid \<and>
             map_option uuid_str (apr_evaluation_id a) = Some (uuid_str (pe_id pe)) \<and> apr_decision a = AD_APPROVE))))"

text \<open>The governance block of a waiting execution names a stored proposal and a CONDITIONAL.\<close>

definition awaiting_evidence :: "repo \<Rightarrow> execution \<Rightarrow> bool" where
  "awaiting_evidence r ex \<longleftrightarrow>
     (let result = (case ex_result ex of None \<Rightarrow> [] | Some d \<Rightarrow> d) in
      \<exists>gov pid. dget result ''governance'' = PDict gov \<and>
        dget gov ''proposal_id'' = PStr (uuid_str pid) \<and>
        get_action_proposal r pid \<noteq> None \<and>
        (\<exists>pe \<in> set (map snd (r_evaluations r)).
           dget gov ''evaluation_id'' = PStr (uuid_str (pe_id pe)) \<and>
           pe_execution_id pe = ex_id ex \<and> pe_decision pe = PD_CONDITIONAL))"

definition governed :: "repo \<Rightarrow> execution \<Rightarrow> bool" where
  "governed r ex \<longleftrightarrow>
     (ex_status ex = ES_COMPLETED \<and> ex_workflow_type ex = ''incident_triage'' \<longrightarrow>
        allow_evidence r (ex_id ex)) \<and>
     (ex_status ex = ES_AWAITING_APPROVAL \<longrightarrow> awaiting_evidence r ex)"

definition known_ids :: "repo \<Rightarrow> uuid set" where
  "known_ids r =
     fst ` set (r_executions r) \<union> fst ` set (r_plans r) \<union> fst ` set (r_steps r) \<union>
     st_execution_id ` snd ` set (r_steps r) \<union> fst ` set (r_evaluations r) \<union> fst ` set (r_approvals r)"

definition fresh :: "world \<Rightarrow> bool" where
  "fresh w \<longleftrightarrow>
     inj (env_uuids (w_env w)) \<and>
     (\<forall>i \<ge> env_uuid_ix (w_env w). env_uuids (w_env w) i \<notin> known_ids (w_repo w))"

text \<open>
  What an operation must leave alone: executions that stay as they were in an earlier repository,
  with their steps, and a condition on the work queue.
\<close>

record ghost =
  gh_frozen :: "uuid set"
  gh_repo :: repo
  gh_queue :: "work_item list \<Rightarrow> bool"

definition steps_of :: "repo \<Rightarrow> uuid \<Rightarrow> step list" where
  "steps_of r k = filter (\<lambda>s. st_execution_id s = k) (map snd (r_steps r))"

definition untouched :: "repo \<Rightarrow> repo \<Rightarrow> uuid \<Rightarrow> bool" where
  "untouched r0 r k \<longleftrightarrow>
     get_execution r0 k \<noteq> None \<and> get_execution r k = get_execution r0 k \<and> steps_of r k = steps_of r0 k"

definition winv :: "ghost \<Rightarrow> world \<Rightarrow> bool" where
  "winv fz w \<longleftrightarrow>
     repo_ok (w_repo w) \<and> fresh w \<and>
     (\<forall>ex \<in> set (map snd (r_executions (w_repo w))). trace_ok ex \<and> governed (w_repo w) ex) \<and>
     (\<forall>k \<in> gh_frozen fz. untouched (gh_repo fz) (w_repo w) k) \<and> gh_queue fz (w_queue w)"

text \<open>A local copy of an execution that may be stored, and an identifier the supply handed out.\<close>

definition good :: "ghost \<Rightarrow> repo \<Rightarrow> execution \<Rightarrow> bool" where
  "good fz r ex \<longleftrightarrow>
     ex_id ex \<notin> gh_frozen fz \<and> get_execution r (ex_id ex) \<noteq> None \<and> trace_ok ex \<and> governed r ex"

definition drawn :: "world \<Rightarrow> uuid \<Rightarrow> bool" where
  "drawn w u \<longleftrightarrow> (\<exists>i < env_uuid_ix (w_env w). env_uuids (w_env w) i = u)"

section \<open>Trace path\<close>

lemma parse_status_value [simp]: "parse_status (PStr (execution_status_value s)) = Some s"
  by (cases s) (simp_all add: parse_status_def all_execution_statuses_def)

lemma trace_ok_cong:
  "status_rows ex' = status_rows ex \<Longrightarrow> ex_status ex' = ex_status ex \<Longrightarrow> trace_ok ex' = trace_ok ex"
  by (simp add: trace_ok_def trace_statuses_def)

lemma trace_ok_step:
  assumes "status_rows ex' = status_rows ex @ [PStr (execution_status_value st)]" "ex_status ex' = st"
    "trace_ok ex" "(ex_status ex, st) \<in> set execution_allowed"
  shows "trace_ok ex'"
  using assms by (simp add: trace_ok_def trace_statuses_def Let_def status_path_snoc)

lemma trace_ok_new: "ex_timeline ex = [] \<Longrightarrow> ex_status ex = ES_CREATED \<Longrightarrow> trace_ok ex"
  by (simp add: trace_ok_def trace_statuses_def status_rows_def)

lemma trace_ok_append [simp]:
  "plain_detail d \<Longrightarrow> ty \<noteq> ''execution_status'' \<Longrightarrow> trace_ok (append_timeline ex ty d t) = trace_ok ex"
  by (rule trace_ok_cong) (simp_all add: status_rows_append)

lemma trace_ok_meta [simp]: "trace_ok (apply_runtime_meta patch ex) = trace_ok ex"
  by (rule trace_ok_cong) (simp_all add: status_rows_def)

text \<open>A status change with its row: what the engine does at every transition.\<close>

lemma trace_ok_transition:
  assumes "trace_ok ex" "(ex_status ex, st) \<in> set execution_allowed"
    "status_rows ex' = status_rows ex" "ex_status ex' = st"
    "''event_type'' \<notin> fst ` set d" "''status'' \<notin> fst ` set d"
  shows "trace_ok (status_row ex' st d t)"
  using assms by (intro trace_ok_step[OF _ _ assms(1,2)]) (simp_all add: status_rows_status_row)

lemma status_rows_cong: "ex_timeline ex' = ex_timeline ex \<Longrightarrow> status_rows ex' = status_rows ex"
  by (simp add: status_rows_def)

section \<open>Evidence only grows\<close>

definition evidence_le :: "repo \<Rightarrow> repo \<Rightarrow> bool" where
  "evidence_le r r' \<longleftrightarrow>
     set (map snd (r_evaluations r)) \<subseteq> set (map snd (r_evaluations r')) \<and>
     set (map snd (r_approvals r)) \<subseteq> set (map snd (r_approvals r')) \<and>
     (\<forall>k. get_action_proposal r k \<noteq> None \<longrightarrow> get_action_proposal r' k \<noteq> None) \<and>
     (\<forall>k. get_execution r k \<noteq> None \<longrightarrow> get_execution r' k \<noteq> None)"

lemma evidence_le_refl [simp]: "evidence_le r r"
  by (simp add: evidence_le_def)

lemma allow_evidence_mono: "evidence_le r r' \<Longrightarrow> allow_evidence r eid \<Longrightarrow> allow_evidence r' eid"
  unfolding allow_evidence_def evidence_le_def by (meson subsetD)

lemma awaiting_evidence_mono:
  "evidence_le r r' \<Longrightarrow> awaiting_evidence r ex \<Longrightarrow> awaiting_evidence r' ex"
  unfolding awaiting_evidence_def evidence_le_def Let_def by (meson subsetD)

lemma governed_mono: "evidence_le r r' \<Longrightarrow> governed r ex \<Longrightarrow> governed r' ex"
  unfolding governed_def using allow_evidence_mono awaiting_evidence_mono by blast

lemma good_mono: "evidence_le r r' \<Longrightarrow> good fz r ex \<Longrightarrow> good fz r' ex"
  unfolding good_def using governed_mono by (auto simp: evidence_le_def)

lemma governed_cong:
  "ex_status ex' = ex_status ex \<Longrightarrow> ex_workflow_type ex' = ex_workflow_type ex \<Longrightarrow>
   ex_result ex' = ex_result ex \<Longrightarrow> ex_id ex' = ex_id ex \<Longrightarrow> governed r ex' = governed r ex"
  by (simp add: governed_def awaiting_evidence_def)

lemma governed_append [simp]: "governed r (append_timeline ex ty d t) = governed r ex"
  by (rule governed_cong) simp_all

lemma governed_meta [simp]: "governed r (apply_runtime_meta patch ex) = governed r ex"
  by (rule governed_cong) simp_all

lemma governed_plain:
  "ex_status ex \<notin> {ES_COMPLETED, ES_AWAITING_APPROVAL} \<Longrightarrow> governed r ex"
  by (simp add: governed_def)

lemma good_append [simp]:
  "plain_detail d \<Longrightarrow> ty \<noteq> ''execution_status'' \<Longrightarrow> good fz r (append_timeline ex ty d t) = good fz r ex"
  by (simp add: good_def)

lemma good_meta [simp]: "good fz r (apply_runtime_meta patch ex) = good fz r ex"
  by (simp add: good_def)

lemma traced_trace_ok: "traced ex ex' \<Longrightarrow> trace_ok ex' = trace_ok ex"
  by (rule trace_ok_cong) (simp_all add: traced_status_rows traced_fields)

lemma traced_governed: "traced ex ex' \<Longrightarrow> governed r ex' = governed r ex"
  by (rule governed_cong) (simp_all add: traced_fields)

section \<open>Stores\<close>

lemma winv_repo_ok: "winv fz w \<Longrightarrow> repo_ok (w_repo w)"
  by (simp add: winv_def)

lemma winv_executionD:
  assumes "winv fz w" "get_execution (w_repo w) eid = Some ex" "eid \<notin> gh_frozen fz"
  shows "ex_id ex = eid" "good fz (w_repo w) ex" "trace_ok ex"
proof -
  show id: "ex_id ex = eid" using assms by (auto simp: winv_def dest: get_execution_id)
  have "ex \<in> set (map snd (r_executions (w_repo w)))"
    using assms(2) by (auto simp: get_execution_def dest!: map_of_SomeD intro: rev_image_eqI)
  then show "good fz (w_repo w) ex" "trace_ok ex"
    using assms id by (auto simp: winv_def good_def)
qed

lemma known_ids_saves [simp]:
  "known_ids (save_context c r) = known_ids r"
  "known_ids (save_step_result q r) = known_ids r"
  "known_ids (save_action_proposal a r) = known_ids r"
  "known_ids (save_tool_call t r) = known_ids r"
  by (simp_all add: known_ids_def repo_saves)

lemma fst_set_update: "fst ` set (AList.update k v d) = insert k (fst ` set d)"
  using arg_cong[OF keys_update[of k v d], of set] by (auto split: if_splits)

lemma known_ids_save_execution: "known_ids (save_execution e r) = insert (ex_id e) (known_ids r)"
  and known_ids_save_plan: "known_ids (save_plan p r) = insert (pl_id p) (known_ids r)"
  and known_ids_save_evaluation: "known_ids (save_policy_evaluation v r) = insert (pe_id v) (known_ids r)"
  and known_ids_save_approval: "known_ids (save_approval b r) = insert (apr_id b) (known_ids r)"
  by (auto simp: known_ids_def repo_saves fst_set_update)

lemma known_ids_save_step:
  "known_ids (save_step s r) \<subseteq> insert (st_id s) (insert (st_execution_id s) (known_ids r))"
proof -
  have "snd ` set (AList.update (st_id s) s (r_steps r)) \<subseteq> insert s (snd ` set (r_steps r))"
    using set_values_update[of _ "st_id s" s "r_steps r"] by blast
  then have "st_execution_id ` snd ` set (AList.update (st_id s) s (r_steps r))
      \<subseteq> insert (st_execution_id s) (st_execution_id ` snd ` set (r_steps r))"
    by blast
  then show ?thesis by (simp add: known_ids_def save_step_def fst_set_update) blast
qed

text \<open>Identifiers that are known or drawn keep the supply fresh.\<close>

lemma fresh_subset:
  assumes "fresh w" "known_ids r' \<subseteq> known_ids (w_repo w) \<union> {u. drawn w u}"
  shows "fresh (w\<lparr>w_repo := r'\<rparr>)"
proof -
  have "env_uuids (w_env w) i \<notin> known_ids r'" if i: "i \<ge> env_uuid_ix (w_env w)" for i
  proof
    assume "env_uuids (w_env w) i \<in> known_ids r'"
    moreover have "env_uuids (w_env w) i \<notin> known_ids (w_repo w)" using assms(1) i by (simp add: fresh_def)
    ultimately have "drawn w (env_uuids (w_env w) i)" using assms(2) by auto
    then show False using assms(1) i by (auto simp: fresh_def drawn_def dest!: injD)
  qed
  then show ?thesis using assms(1) by (simp add: fresh_def)
qed

lemma untouched_repo:
  "r_executions r' = r_executions r \<Longrightarrow> r_steps r' = r_steps r \<Longrightarrow> untouched r0 r' k = untouched r0 r k"
  by (simp add: untouched_def steps_of_def get_execution_def)

lemma winv_repo_change:
  assumes w: "winv fz w" and ok: "repo_ok r'"
    and ids: "known_ids r' \<subseteq> known_ids (w_repo w) \<union> {u. drawn w u}"
    and ev: "evidence_le (w_repo w) r'" and ex: "r_executions r' = r_executions (w_repo w)"
    and st: "\<And>k. k \<in> gh_frozen fz \<Longrightarrow> steps_of r' k = steps_of (w_repo w) k"
  shows "winv fz (w\<lparr>w_repo := r'\<rparr>)"
  using w ok fresh_subset[OF _ ids] ex governed_mono[OF ev] st
  by (auto simp: winv_def untouched_def get_execution_def)

lemma winv_save_plain:
  assumes "winv fz w"
  shows "winv fz (w\<lparr>w_repo := save_context c (w_repo w)\<rparr>)"
    and "winv fz (w\<lparr>w_repo := save_step_result q (w_repo w)\<rparr>)"
    and "winv fz (w\<lparr>w_repo := save_action_proposal a (w_repo w)\<rparr>)"
    and "winv fz (w\<lparr>w_repo := save_tool_call t (w_repo w)\<rparr>)"
  by (rule winv_repo_change[OF assms];
      use winv_repo_ok[OF assms] in \<open>auto simp: repo_ok_saves evidence_le_def repo_saves
        get_execution_def get_action_proposal_def steps_of_def\<close>;
      use repo_ok_saves[OF winv_repo_ok[OF assms]] in \<open>simp add: repo_saves known_ids_def\<close>)+

lemma filter_update:
  "(\<forall>x. map_of d key = Some x \<longrightarrow> \<not> P x) \<Longrightarrow> \<not> P v \<Longrightarrow>
   filter P (map snd (AList.update key v d)) = filter P (map snd d)"
  by (induction d) auto

text \<open>A step that is new or replaces a step of the same execution.\<close>

definition step_slot :: "repo \<Rightarrow> step \<Rightarrow> bool" where
  "step_slot r s \<longleftrightarrow> (\<forall>x. get_step r (st_id s) = Some x \<longrightarrow> st_execution_id x = st_execution_id s)"

lemma winv_save_step:
  assumes "winv fz w" "drawn w (st_id s) \<or> st_id s \<in> known_ids (w_repo w)"
    "st_execution_id s \<in> known_ids (w_repo w)" "st_execution_id s \<notin> gh_frozen fz" "step_slot (w_repo w) s"
  shows "winv fz (w\<lparr>w_repo := save_step s (w_repo w)\<rparr>)"
proof (rule winv_repo_change[OF assms(1)])
  show "steps_of (save_step s (w_repo w)) k = steps_of (w_repo w) k" if "k \<in> gh_frozen fz" for k
    using assms(4,5) that
    by (auto simp: steps_of_def save_step_def step_slot_def get_step_def intro!: filter_update)
qed (use assms known_ids_save_step[of s "w_repo w"] repo_ok_saves(4)[OF winv_repo_ok[OF assms(1)]] in
    \<open>auto simp: evidence_le_def save_step_def get_execution_def get_action_proposal_def\<close>)

lemma winv_save_plan:
  assumes "winv fz w" "drawn w (pl_id p)"
  shows "winv fz (w\<lparr>w_repo := save_plan p (w_repo w)\<rparr>)"
  using assms repo_ok_saves(3)[OF winv_repo_ok[OF assms(1)]]
  by (intro winv_repo_change)
    (auto simp: evidence_le_def save_plan_def get_execution_def get_action_proposal_def steps_of_def
      known_ids_save_plan[unfolded save_plan_def])

lemma update_new: "k \<notin> fst ` set d \<Longrightarrow> AList.update k v d = d @ [(k, v)]"
  by (induction d) auto

lemma winv_save_execution:
  assumes w: "winv fz w" and id: "ex_id ex \<in> known_ids (w_repo w) \<or> drawn w (ex_id ex)"
    and fz: "ex_id ex \<notin> gh_frozen fz" and t: "trace_ok ex" and g: "governed (w_repo w) ex"
  shows "winv fz (w\<lparr>w_repo := save_execution ex (w_repo w)\<rparr>)"
proof -
  let ?r = "save_execution ex (w_repo w)"
  have ev: "evidence_le (w_repo w) ?r"
    by (auto simp: evidence_le_def executions.get_save get_action_proposal_def)
  have vals: "x \<in> set (map snd (r_executions ?r)) \<Longrightarrow> x = ex \<or> x \<in> set (map snd (r_executions (w_repo w)))" for x
    using set_values_update[of x "ex_id ex" ex "r_executions (w_repo w)"] by (auto simp: save_execution_def)
  have "fresh (w\<lparr>w_repo := ?r\<rparr>)"
    using w id by (intro fresh_subset) (auto simp: winv_def known_ids_save_execution)
  moreover have "trace_ok x \<and> governed ?r x" if "x \<in> set (map snd (r_executions ?r))" for x
    using vals[OF that] t governed_mono[OF ev g] w governed_mono[OF ev] by (auto simp: winv_def)
  moreover have "untouched (gh_repo fz) ?r k" if "k \<in> gh_frozen fz" for k
    using w that fz by (auto simp: winv_def untouched_def executions.get_save steps_of_def)
  ultimately show ?thesis
    using w by (simp add: winv_def repo_ok_saves)
qed

lemma winv_save_good:
  assumes "winv fz w" "good fz (w_repo w) ex"
  shows "winv fz (w\<lparr>w_repo := save_execution ex (w_repo w)\<rparr>)"
proof (rule winv_save_execution[OF assms(1)])
  have "ex_id ex \<in> fst ` set (r_executions (w_repo w))"
    using assms(2) by (auto simp: good_def get_execution_def dest!: map_of_SomeD intro: rev_image_eqI)
  then show "ex_id ex \<in> known_ids (w_repo w) \<or> drawn w (ex_id ex)"
    by (simp add: known_ids_def)
qed (use assms(2) in \<open>simp_all add: good_def\<close>)

lemma winv_save_evaluation:
  assumes "winv fz w" "drawn w (pe_id pe)" "pe_id pe \<notin> known_ids (w_repo w)"
  shows "winv fz (w\<lparr>w_repo := save_policy_evaluation pe (w_repo w)\<rparr>)"
    and "evidence_le (w_repo w) (save_policy_evaluation pe (w_repo w))"
proof -
  have new: "pe_id pe \<notin> fst ` set (r_evaluations (w_repo w))"
    using assms(3) by (auto simp: known_ids_def)
  show ev: "evidence_le (w_repo w) (save_policy_evaluation pe (w_repo w))"
    by (auto simp: evidence_le_def save_policy_evaluation_def update_new[OF new] get_action_proposal_def get_execution_def)
  have same: "r_executions (save_policy_evaluation pe (w_repo w)) = r_executions (w_repo w)"
    "steps_of (save_policy_evaluation pe (w_repo w)) = steps_of (w_repo w)"
    by (simp_all add: save_policy_evaluation_def steps_of_def fun_eq_iff)
  show "winv fz (w\<lparr>w_repo := save_policy_evaluation pe (w_repo w)\<rparr>)"
    using assms(1,2) repo_ok_saves(7)[OF winv_repo_ok[OF assms(1)]] ev
      same by (intro winv_repo_change) (auto simp: known_ids_save_evaluation)
qed

lemma winv_save_approval:
  assumes "winv fz w" "drawn w (apr_id a)" "apr_id a \<notin> known_ids (w_repo w)"
  shows "winv fz (w\<lparr>w_repo := save_approval a (w_repo w)\<rparr>)"
    and "evidence_le (w_repo w) (save_approval a (w_repo w))"
proof -
  have new: "apr_id a \<notin> fst ` set (r_approvals (w_repo w))"
    using assms(3) by (auto simp: known_ids_def)
  show ev: "evidence_le (w_repo w) (save_approval a (w_repo w))"
    by (auto simp: evidence_le_def save_approval_def update_new[OF new] get_action_proposal_def get_execution_def)
  have same: "r_executions (save_approval a (w_repo w)) = r_executions (w_repo w)"
    "steps_of (save_approval a (w_repo w)) = steps_of (w_repo w)"
    by (simp_all add: save_approval_def steps_of_def fun_eq_iff)
  show "winv fz (w\<lparr>w_repo := save_approval a (w_repo w)\<rparr>)"
    using assms(1,2) repo_ok_saves(8)[OF winv_repo_ok[OF assms(1)]] ev
      same by (intro winv_repo_change) (auto simp: known_ids_save_approval)
qed

section \<open>Environment and work\<close>

lemma winv_env: "winv fz w \<Longrightarrow> env_le (w_env w) e \<Longrightarrow> winv fz (w\<lparr>w_env := e\<rparr>)"
  by (auto simp: winv_def fresh_def env_le_def)

lemma winv_env_ix: "winv fz w \<Longrightarrow> env_uuid_ix (w_env w) \<le> n \<Longrightarrow> winv fz (w\<lparr>w_env := (w_env w)\<lparr>env_uuid_ix := n\<rparr>\<rparr>)"
  by (rule winv_env) (simp_all add: env_le_def)

lemma winv_queue: "winv fz w \<Longrightarrow> gh_queue fz q \<Longrightarrow> winv fz (w\<lparr>w_queue := q\<rparr>)"
  by (simp add: winv_def fresh_def)

lemma drawn_env: "drawn w u \<Longrightarrow> env_le (w_env w) e \<Longrightarrow> drawn (w\<lparr>w_env := e\<rparr>) u"
  by (auto simp: drawn_def env_le_def intro: less_le_trans)

lemma drawn_repo [simp]: "drawn (w\<lparr>w_repo := r\<rparr>) u = drawn w u"
  by (simp add: drawn_def)

text \<open>The identifier the next \<open>uuid4\<close> returns is not in use, and is drawn afterwards.\<close>

lemma next_uuid:
  assumes "winv fz w" "u = env_uuids (w_env w) (env_uuid_ix (w_env w))"
  shows "u \<notin> known_ids (w_repo w)"
    "drawn (w\<lparr>w_env := (w_env w)\<lparr>env_uuid_ix := Suc (env_uuid_ix (w_env w))\<rparr>\<rparr>) u"
  using assms by (auto simp: winv_def fresh_def drawn_def)

lemma work_frame_winv:
  assumes w: "winv fz w" and f: "work_frame eid w w'" and eid: "eid \<notin> gh_frozen fz"
  shows "winv fz w'" "evidence_le (w_repo w) (w_repo w')"
proof -
  let ?r = "w_repo w" and ?r' = "w_repo w'"
  have ok: "repo_ok ?r" "repo_ok ?r'" using w f by (auto simp: winv_def work_frame_def Let_def)
  have same: "r_plans ?r' = r_plans ?r" "r_steps ?r' = r_steps ?r" "r_evaluations ?r' = r_evaluations ?r"
    "r_approvals ?r' = r_approvals ?r" "r_proposals ?r' = r_proposals ?r" "env_le (w_env w) (w_env w')"
    using f by (auto simp: work_frame_def Let_def)
  have dom: "get_execution ?r' k = None \<longleftrightarrow> get_execution ?r k = None" for k
    using f ok by (cases "k = eid") (auto simp: work_frame_def Let_def split: option.splits)
  then have keys: "fst ` set (r_executions ?r') = fst ` set (r_executions ?r)"
    by (force simp: get_execution_def map_of_eq_None_iff)
  show ev: "evidence_le ?r ?r'"
    using dom same by (auto simp: evidence_le_def get_action_proposal_def)
  have ids: "known_ids ?r' = known_ids ?r" using keys same by (simp add: known_ids_def)
  have vals: "trace_ok x \<and> governed ?r' x" if "x \<in> set (map snd (r_executions ?r'))" for x
  proof -
    have get': "get_execution ?r' (ex_id x) = Some x"
      using that ok(2) store_ok_values[of ex_id "r_executions ?r'" x] by (simp add: repo_ok_def get_execution_def)
    obtain y where y: "get_execution ?r (ex_id x) = Some y" "traced y x"
      using f ok get' dom[of "ex_id x"] traced_refl[of x]
      by (cases "ex_id x = eid") (auto simp: work_frame_def Let_def split: option.splits)
    have "y \<in> set (map snd (r_executions ?r))"
      using y(1) by (auto simp: get_execution_def dest!: map_of_SomeD intro: rev_image_eqI)
    then have "trace_ok y" "governed ?r y" using w by (auto simp: winv_def)
    then show ?thesis
      using y(2) governed_mono[OF ev] by (simp add: traced_trace_ok traced_governed)
  qed
  have frozen: "untouched (gh_repo fz) ?r' k" if "k \<in> gh_frozen fz" for k
  proof -
    have "get_execution ?r' k = get_execution ?r k" using f ok that eid by (auto simp: work_frame_def Let_def)
    then show ?thesis using w that same(2) by (auto simp: winv_def untouched_def steps_of_def)
  qed
  show "winv fz w'"
    using w ok vals ids same(6) frozen f by (auto simp: winv_def fresh_def env_le_def work_frame_def Let_def)
qed

end
