(* ===== verification/Engine_Safety.thy ===== *)
theory Engine_Safety
  imports Engine_Invariant
begin

text \<open>
  Every operation of the engine keeps the invariant \<open>winv\<close>, also when it raises, since nothing is
  rolled back: \<open>safe m R w\<close> says that from \<open>w\<close> the invariant holds after \<open>m\<close>, and \<open>R\<close> of the result.
\<close>

abbreviation safe :: "ghost \<Rightarrow> (world, 'a) prog \<Rightarrow> ('a \<Rightarrow> world \<Rightarrow> bool) \<Rightarrow> world \<Rightarrow> bool" where
  "safe fz m R w \<equiv> wp m (\<lambda>x w'. winv fz w' \<and> R x w') (\<lambda>_. winv fz) w"

abbreviation returns_good :: "ghost \<Rightarrow> execution \<Rightarrow> world \<Rightarrow> bool" where
  "returns_good fz ex w \<equiv> good fz (w_repo w) ex"

lemma safe_mono: "safe fz m R w \<Longrightarrow> (\<And>x t. winv fz t \<Longrightarrow> R x t \<Longrightarrow> R' x t) \<Longrightarrow> safe fz m R' w"
  by (erule wp_mono) auto

text \<open>Sequencing with what is known of the first result.\<close>

lemma wp_seq: "safe fz m R w \<Longrightarrow> (\<And>x t. winv fz t \<Longrightarrow> R x t \<Longrightarrow> wp (f x) Q (\<lambda>_. winv fz) t) \<Longrightarrow>
    wp (bnd m f) Q (\<lambda>_. winv fz) w"
  unfolding wp_bnd by (erule wp_mono) auto

lemma wp_then: "safe fz m R w \<Longrightarrow> (\<And>x t. winv fz t \<Longrightarrow> R x t \<Longrightarrow> wp n Q (\<lambda>_. winv fz) t) \<Longrightarrow>
    wp (andthen m n) Q (\<lambda>_. winv fz) w"
  unfolding andthen_def by (rule wp_seq)

section \<open>Primitive operations\<close>

lemma good_save: "good fz r ex \<Longrightarrow> good fz (save_execution ex r) ex"
  by (rule good_mono) (auto simp: evidence_le_def executions.get_save get_action_proposal_def)

lemma safe_update:
  "winv fz w \<Longrightarrow> good fz (w_repo w) ex \<Longrightarrow>
   safe fz (in_repo (update_execution ex)) (\<lambda>_ w'. good fz (w_repo w') ex) w"
  by (rule wp_update_execution) (auto simp: good_def[of _ "w_repo w"] intro: winv_save_good good_save)

lemma safe_update_return:
  "winv fz w \<Longrightarrow> good fz (w_repo w) ex \<Longrightarrow>
   safe fz (andthen (in_repo (update_execution ex)) (ret ex)) (returns_good fz) w"
  by (rule wp_then[OF safe_update]) (auto simp: wp_simps)

lemma safe_work: "winv fz w \<Longrightarrow> eid \<notin> gh_frozen fz \<Longrightarrow> steps (work_frame eid) m \<Longrightarrow> safe fz m (\<lambda>_ w'. evidence_le (w_repo w) (w_repo w')) w"
  by (auto simp: wp_def split: prod.split sum.split dest: work_frame_winv stepsD)

lemma safe_clock: "winv fz w \<Longrightarrow> safe fz (in_env (now_or_clock n)) (\<lambda>_ w'. w_repo w' = w_repo w) w"
  and safe_now: "winv fz w \<Longrightarrow> safe fz (in_env utc_now) (\<lambda>_ w'. w_repo w' = w_repo w) w"
  by (rule wp_env_clock; simp add: winv_env)+

lemma safe_env: "winv fz w \<Longrightarrow> steps env_le m \<Longrightarrow> safe fz (in_env m) (\<lambda>_ w'. w_repo w' = w_repo w) w"
  by (rule wp_in_env) (simp_all add: winv_env)

lemma good_transition:
  assumes "good fz r ex" "(ex_status ex, st) \<in> set execution_allowed" "ex_id ex' = ex_id ex"
    "status_rows ex' = status_rows ex" "ex_status ex' = st" "governed r ex'"
    "''event_type'' \<notin> fst ` set d" "''status'' \<notin> fst ` set d"
  shows "good fz r (status_row ex' st d t)"
proof -
  have "trace_ok (status_row ex' st d t)"
    using assms by (intro trace_ok_transition[of ex]) (auto simp: good_def)
  moreover have "governed r (status_row ex' st d t)"
    using assms(6) by (simp add: governed_cong[of "status_row ex' st d t" ex'])
  ultimately show ?thesis using assms(1,3) by (simp add: good_def)
qed

section \<open>Cancelling and failing\<close>

lemma transition_allowed_eq: "transition_allowed a b = ret ((a, b) \<in> set execution_allowed)"
  by (rule ext) (simp add: transition_allowed_def try_except_def andthen_def bnd_def ret_def
      validate_execution_cases)

lemma safe_cancel_execution:
  assumes w: "winv fz w" and eid: "eid \<notin> gh_frozen fz"
  shows "safe fz (cancel_execution eid reason now) (returns_good fz) w"
  unfolding cancel_execution_def
proof (rule wp_seq[OF safe_clock[OF w]])
  fix ts v assume v: "winv fz v"
  show "wp (bnd (ask (\<lambda>r. get_execution r eid)) (\<lambda>found. case found of
         None \<Rightarrow> throw KeyError (uuid_repr eid)
       | Some ex0 \<Rightarrow>
           (let ex = request_cancellation_meta ts reason ex0 in
            if is_execution_terminal (ex_status ex) then
              andthen (in_repo (update_execution ex)) (ret ex)
            else bnd (transition_allowed (ex_status ex) ES_CANCELLED) (\<lambda>ok.
              if \<not> ok then andthen (in_repo (update_execution ex)) (ret ex)
              else
                (let updated = status_row
                       (ex\<lparr>ex_status := ES_CANCELLED, ex_updated_at := ts, ex_cancelled_at := Some ts,
                          ex_result := Some [(''outcome'', PStr ''cancelled''), (''reason'', PStr reason)]\<rparr>)
                       ES_CANCELLED [(''reason'', PStr reason)] ts
                 in andthen (in_repo (update_execution updated))
                   (andthen (in_env (inc_metric ''execution_cancellations_total'' []))
                   (andthen (in_env (emit_event ''execution_cancelled''
                       [(''execution_id'', PStr (uuid_str eid)), (''reason'', PStr reason)]))
                     (ret updated))))))))
      (\<lambda>x w'. winv fz w' \<and> (returns_good fz) x w') (\<lambda>_. winv fz) v"
  proof (cases "get_execution (w_repo v) eid")
    case None
    then show ?thesis using v by (simp add: wp_simps)
  next
    case (Some ex0)
    define ex where "ex = request_cancellation_meta ts reason ex0"
    have good: "good fz (w_repo v) ex"
      using winv_executionD[OF v Some eid] by (simp add: ex_def request_cancellation_meta_def)
    define up where "up = status_row
                       (ex\<lparr>ex_status := ES_CANCELLED, ex_updated_at := ts, ex_cancelled_at := Some ts,
                          ex_result := Some [(''outcome'', PStr ''cancelled''), (''reason'', PStr reason)]\<rparr>)
                       ES_CANCELLED [(''reason'', PStr reason)] ts"
    have up: "good fz (w_repo v) up" if "(ex_status ex, ES_CANCELLED) \<in> set execution_allowed"
      unfolding up_def by (rule good_transition[OF good that]) (simp_all add: governed_plain status_rows_def)
    have tail: "safe fz (andthen (in_repo (update_execution up))
                   (andthen (in_env (inc_metric ''execution_cancellations_total'' []))
                   (andthen (in_env (emit_event ''execution_cancelled''
                       [(''execution_id'', PStr (uuid_str eid)), (''reason'', PStr reason)]))
                     (ret up)))) (returns_good fz) v" if "(ex_status ex, ES_CANCELLED) \<in> set execution_allowed"
      by (rule wp_then[OF safe_update[OF v up[OF that]]], rule wp_then[OF safe_env], assumption, rule env_le_inc,
          rule wp_then[OF safe_env], assumption, rule env_le_emit) (simp add: wp_simps)
    show ?thesis
      unfolding wp_bnd wp_ask Some option.case ex_def[symmetric] Let_def up_def[symmetric]
        transition_allowed_eq bnd_ret
      using safe_update_return[OF v good] tail by simp
  qed
qed

lemma safe_fail_execution:
  assumes w: "winv fz w" and eid: "eid \<notin> gh_frozen fz"
  shows "safe fz (fail_execution eid reason now) (returns_good fz) w"
  unfolding fail_execution_def
  apply (rule wp_seq[OF safe_clock[OF w]])
  subgoal premises prems for ts v
  proof (cases "get_execution (w_repo v) eid")
    case None
    then show ?thesis using prems(1) by (simp add: wp_simps)
  next
    case (Some ex)
    note ex = winv_executionD[OF prems(1) Some eid]
    have "good fz (w_repo v) (status_row (ex\<lparr>ex_status := ES_FAILED, ex_updated_at := ts,
            ex_result := Some [(''outcome'', PStr ''failed''), (''reason'', PStr reason)]\<rparr>)
            ES_FAILED [(''reason'', PStr reason)] ts)"
      if "(ex_status ex, ES_FAILED) \<in> set execution_allowed"
      by (rule good_transition[OF ex(2) that]) (simp_all add: governed_plain status_rows_def)
    note tail = safe_update_return[OF prems(1) this]
    show ?thesis
      unfolding wp_bnd wp_ask Some option.case transition_allowed_eq bnd_ret Let_def
      using tail prems(1) ex(2) by (simp add: wp_ret)
  qed
  done

section \<open>Governance\<close>

lemma evidence_le_save_proposal: "evidence_le r (save_action_proposal p r)"
  by (auto simp: evidence_le_def save_action_proposal_def get_action_proposal_def get_execution_def)

lemma status_rows_governed_row [simp]: "status_rows (governed_row ex path pid now) = status_rows ex"
  by (simp add: governed_row_def status_rows_append)

lemma status_rows_update [simp]:
  "status_rows (ex\<lparr>ex_status := a, ex_updated_at := b, ex_validation_summary := c, ex_result := d\<rparr>) = status_rows ex"
  "status_rows (ex\<lparr>ex_status := a, ex_updated_at := b, ex_completed_at := e, ex_validation_summary := c,
     ex_result := d\<rparr>) = status_rows ex"
  "status_rows (ex\<lparr>ex_status := a, ex_updated_at := b\<rparr>) = status_rows ex"
  "status_rows (ex\<lparr>ex_plan_id := f\<rparr>) = status_rows ex"
  by (simp_all add: status_rows_def)

lemma status_rows_append' [simp]:
  "plain_detail d \<Longrightarrow> ty \<noteq> ''execution_status'' \<Longrightarrow> status_rows (append_timeline ex ty d t) = status_rows ex"
  by (rule status_rows_append)

lemma validating_exits:
  "(ES_VALIDATING, ES_FAILED) \<in> set execution_allowed" "(ES_VALIDATING, ES_COMPLETED) \<in> set execution_allowed"
  "(ES_VALIDATING, ES_AWAITING_APPROVAL) \<in> set execution_allowed"
  "(ES_AWAITING_APPROVAL, ES_COMPLETED) \<in> set execution_allowed"
  "(ES_AWAITING_APPROVAL, ES_FAILED) \<in> set execution_allowed"
  by (simp_all add: execution_allowed_def)

lemma safe_finish_denied:
  assumes w: "winv fz w" and ex: "good fz (w_repo w) ex" "ex_status ex = ES_VALIDATING"
  shows "safe fz (finish_denied ex p base summary now) (returns_good fz) w"
proof -
  let ?r = "save_action_proposal (p\<lparr>ap_status := AP_POLICY_DENIED, ap_updated_at := now\<rparr>) (w_repo w)"
  have g: "good fz ?r ex" by (rule good_mono[OF evidence_le_save_proposal ex(1)])
  show ?thesis
    unfolding finish_denied_def validate_execution_ok[OF validating_exits(1)]
    by (simp add: wp_simps winv_save_plain[OF w])
      (rule good_transition[OF g], simp_all add: ex(2) validating_exits governed_plain)
qed

lemma safe_finish_allowed:
  assumes w: "winv fz w" and ex: "good fz (w_repo w) ex" "ex_status ex = ES_VALIDATING"
    and ev: "allow_evidence (w_repo w) (ex_id ex)"
  shows "safe fz (finish_allowed ex p base summary now) (returns_good fz) w"
proof -
  let ?r = "save_action_proposal (p\<lparr>ap_status := AP_APPROVED, ap_updated_at := now\<rparr>) (w_repo w)"
  have g: "good fz ?r ex" by (rule good_mono[OF evidence_le_save_proposal ex(1)])
  have ev': "allow_evidence ?r (ex_id ex)"
    by (rule allow_evidence_mono[OF evidence_le_save_proposal ev])
  show ?thesis
    unfolding finish_allowed_def validate_execution_ok[OF validating_exits(2)]
    by (simp add: wp_simps winv_save_plain[OF w])
      (rule good_transition[OF g], simp_all add: ex(2) validating_exits governed_def ev')
qed

text \<open>The governance block of a waiting execution.\<close>

lemma awaiting_evidenceI:
  assumes "ex_result ex = Some result" "dget result ''governance'' = PDict gov"
    "dget gov ''proposal_id'' = PStr (uuid_str pid)" "get_action_proposal r pid \<noteq> None"
    "pe \<in> set (map snd (r_evaluations r))" "dget gov ''evaluation_id'' = PStr (uuid_str (pe_id pe))"
    "pe_execution_id pe = ex_id ex" "pe_decision pe = PD_CONDITIONAL"
  shows "awaiting_evidence r ex"
  unfolding awaiting_evidence_def Let_def assms(1) option.case using assms by blast

lemma safe_finish_conditional:
  assumes w: "winv fz w" and ex: "good fz (w_repo w) ex" "ex_status ex = ES_VALIDATING"
    and pe: "pe \<in> set (map snd (r_evaluations (w_repo w)))" "pe_id pe = eval_id"
      "pe_execution_id pe = ex_id ex" "pe_decision pe = PD_CONDITIONAL"
  shows "safe fz (finish_conditional ex p eval_id base summary now) (returns_good fz) w"
proof -
  let ?p = "p\<lparr>ap_status := AP_AWAITING_APPROVAL, ap_requires_approval := True, ap_updated_at := now\<rparr>"
  let ?r = "save_action_proposal ?p (w_repo w)"
  have g: "good fz ?r ex" by (rule good_mono[OF evidence_le_save_proposal ex(1)])
  have stored: "get_action_proposal ?r (ap_id p) \<noteq> None"
    by (simp add: proposals.get_save)
  have pe': "pe \<in> set (map snd (r_evaluations ?r))"
    using pe(1) by (simp add: save_action_proposal_def)
  show ?thesis
    unfolding finish_conditional_def validate_execution_ok[OF validating_exits(3)]
    apply (simp add: wp_simps winv_save_plain[OF w])
    apply (rule good_transition[OF g], simp_all add: ex(2) validating_exits governed_def)
    apply (rule awaiting_evidenceI[OF _ _ _ stored pe'])
         apply simp
        apply (simp add: dget_dmerge)
    using pe by (simp_all add: dget_def)
qed

lemma env_le_evaluate_proposal: "steps env_le (evaluate_proposal ev ctx p)"
  unfolding evaluate_proposal_def record_policy_evaluation_def
  by (cases "pd_decision (ev ctx p)") (simp_all only: policy_decision.case Let_def, (intro env_le_rules)+)

lemma no_raise_evaluate_proposal: "no_raise (evaluate_proposal ev ctx p)"
  unfolding evaluate_proposal_def record_policy_evaluation_def
  by (cases "pd_decision (ev ctx p)") (simp_all only: policy_decision.case Let_def, (intro no_raise_rules)+)

lemma evaluate_proposal_result: "evaluate_proposal ev ctx p e = (r, e') \<Longrightarrow> r = Inr (ev ctx p)"
  using no_raise_evaluate_proposal[of ev ctx p]
  by (cases r; cases "pd_decision (ev ctx p)")
    (auto simp: evaluate_proposal_def record_policy_evaluation_def Let_def andthen_def bnd_def ret_def
      inc_metric_def modifies_def split: prod.splits sum.splits)

lemma safe_finish:
  assumes w: "winv fz w" and ex: "good fz (w_repo w) ex" "ex_status ex = ES_VALIDATING"
    and pe: "pe \<in> set (map snd (r_evaluations (w_repo w)))" "pe_id pe = eval_id"
      "pe_execution_id pe = ex_id ex" "pe_decision pe = d"
  shows "safe fz (case d of
                          PD_DENY \<Rightarrow> finish_denied ex p base summary now
                        | PD_ALLOW \<Rightarrow> finish_allowed ex p base summary now
                        | PD_CONDITIONAL \<Rightarrow> finish_conditional ex p eval_id base summary now) (returns_good fz) w"
proof (cases d)
  case PD_ALLOW
  have "allow_evidence (w_repo w) (ex_id ex)"
    unfolding allow_evidence_def using pe PD_ALLOW by blast
  then show ?thesis using safe_finish_allowed[OF w ex] PD_ALLOW by simp
next
  case PD_DENY
  then show ?thesis using safe_finish_denied[OF w ex] by simp
next
  case PD_CONDITIONAL
  then show ?thesis using safe_finish_conditional[OF w ex pe(1-3)] pe(4) by simp
qed

lemma safe_finish_evaluated:
  assumes w: "winv fz w" and ex: "good fz (w_repo w) ex" "ex_status ex = ES_VALIDATING"
    and id: "drawn w eval_id" "eval_id \<notin> known_ids (w_repo w)"
  shows "safe fz (finish_evaluated ctx ex p draft eval_id base summary now) (returns_good fz) w"
proof -
  define pe where "pe = stored_evaluation eval_id ex ctx p draft now"
  have pe: "pe_id pe = eval_id" "pe_execution_id pe = ex_id ex" "pe_decision pe = pd_decision draft"
    by (simp_all add: pe_def stored_evaluation_def)
  define v where "v = w\<lparr>w_repo := save_policy_evaluation pe (w_repo w)\<rparr>"
  have v: "winv fz v" "evidence_le (w_repo w) (w_repo v)"
    using winv_save_evaluation[OF w, of pe] id pe by (simp_all add: v_def)
  have mem: "pe \<in> set (map snd (r_evaluations (w_repo v)))"
    using evaluations.get_save_same[of pe "w_repo w"]
    by (auto simp: v_def get_policy_evaluation_def dest!: map_of_SomeD intro: rev_image_eqI)
  define ex2 where "ex2 = append_timeline ex ''policy_evaluated''
              [(''evaluation_id'', PStr (uuid_str eval_id)),
               (''decision'', PStr (policy_decision_value (pd_decision draft))),
               (''reason'', PStr (pd_reason draft))] now"
  have ex2: "good fz (w_repo v) ex2" "ex_status ex2 = ES_VALIDATING" "ex_id ex2 = ex_id ex"
    using good_mono[OF v(2) ex(1)] ex(2) by (simp_all add: ex2_def)
  show ?thesis
    using safe_finish[OF v(1) ex2(1,2) mem pe(1) _ pe(3)] pe(2) ex2(3)
    unfolding finish_evaluated_def wp_andthen wp_on_repo pe_def[symmetric] v_def[symmetric]
      ex2_def[symmetric] Let_def by simp
qed

lemma safe_evaluate_and_finish:
  assumes w: "winv fz w" and ex: "good fz (w_repo w) ex" "ex_status ex = ES_VALIDATING"
  shows "safe fz (evaluate_and_finish eng ctx ex p base summary now) (returns_good fz) w"
  unfolding evaluate_and_finish_def
proof (rule wp_seq[OF safe_env[OF w env_le_evaluate_proposal]])
  fix draft v assume v: "winv fz v" "w_repo v = w_repo w"
  define u where "u = v\<lparr>w_env := (w_env v)\<lparr>env_uuid_ix := Suc (env_uuid_ix (w_env v))\<rparr>\<rparr>"
  have u: "winv fz u" "w_repo u = w_repo w"
    using winv_env_ix[OF v(1), of "Suc (env_uuid_ix (w_env v))"] v(2) by (simp_all add: u_def)
  show "safe fz (bnd (in_env uuid4) (\<lambda>eval_id. finish_evaluated ctx ex p draft eval_id base summary now))
      (returns_good fz) v"
    unfolding wp_bnd wp_uuid4 u_def[symmetric]
    by (rule safe_finish_evaluated[OF u(1) _ ex(2)])
      (use ex(1) u(2) v(2) next_uuid[OF v(1)] in \<open>auto simp: u_def[symmetric]\<close>)
qed

lemma safe_finalize:
  assumes w: "winv fz w" and ex: "good fz (w_repo w) ex" "ex_status ex = ES_VALIDATING"
  shows "safe fz (finalize_incident_triage_governance eng ex ss now) (returns_good fz) w"
proof (cases "get_context (w_repo w) (ex_context_id ex)")
  case None
  then show ?thesis
    using w by (simp add: finalize_incident_triage_governance_def wp_simps orchestration_error_def)
next
  case (Some ctx)
  let ?e = "w_env w"
  define pid where "pid = env_uuids ?e (env_uuid_ix ?e)"
  define p where "p = escalation_proposal pid ex (step_by_planner_name ss ''validate_incident'')
      (step_output_by_name (w_repo w) ss ''validate_incident'') now"
  define u where "u = w\<lparr>w_env := ?e\<lparr>env_uuid_ix := Suc (env_uuid_ix ?e)\<rparr>\<rparr>"
  have u: "winv fz u" "w_repo u = w_repo w"
    using winv_env_ix[OF w, of "Suc (env_uuid_ix ?e)"] by (simp_all add: u_def)
  note v = winv_save_plain(3)[OF u(1), of p]
  have good: "good fz (w_repo (u\<lparr>w_repo := save_action_proposal p (w_repo u)\<rparr>))
      (append_timeline ex ''action_proposed'' [(''proposal_id'', a), (''action_type'', b), (''risk_level'', c)] now)"
    for a b c
    using good_mono[OF evidence_le_save_proposal ex(1)] u(2) by simp
  show ?thesis
    unfolding finalize_incident_triage_governance_def wp_bnd wp_ask Some option.case wp_uuid4 Let_def
      pid_def[symmetric] p_def[symmetric] u_def[symmetric] wp_andthen wp_on_repo
    by (rule safe_evaluate_and_finish[OF v good]) (simp add: ex(2))
qed

section \<open>Approval\<close>

lemma safe_reject:
  assumes w: "winv fz w" and ex: "good fz (w_repo w) ex" "ex_status ex = ES_AWAITING_APPROVAL"
  shows "safe fz (reject_execution ex p pid base summary now) (returns_good fz) w"
proof -
  let ?r = "save_action_proposal (p\<lparr>ap_status := AP_REJECTED, ap_updated_at := now\<rparr>) (w_repo w)"
  have g: "good fz ?r ex" by (rule good_mono[OF evidence_le_save_proposal ex(1)])
  show ?thesis
    unfolding reject_execution_def validate_execution_ok[OF validating_exits(5)] wp_andthen wp_on_repo
      wp_ret Let_def
    by (rule safe_update, rule winv_save_plain[OF w], rule good_transition[of _ _ ex])
      (use g in \<open>simp_all add: ex(2) validating_exits governed_plain\<close>)
qed

lemma safe_approve:
  assumes w: "winv fz w" and ex: "good fz (w_repo w) ex" "ex_status ex = ES_AWAITING_APPROVAL"
    and ev: "allow_evidence (w_repo w) (ex_id ex)"
  shows "safe fz (approve_execution ex p pid base summary now) (returns_good fz) w"
proof -
  let ?r = "save_action_proposal (p\<lparr>ap_status := AP_APPROVED, ap_updated_at := now\<rparr>) (w_repo w)"
  have g: "good fz ?r ex" by (rule good_mono[OF evidence_le_save_proposal ex(1)])
  have ev': "allow_evidence ?r (ex_id ex)"
    by (rule allow_evidence_mono[OF evidence_le_save_proposal ev])
  show ?thesis
    unfolding approve_execution_def validate_execution_ok[OF validating_exits(4)] wp_andthen wp_on_repo
      wp_ret Let_def
    by (rule safe_update, rule winv_save_plain[OF w], rule good_transition[of _ _ ex])
      (use g ev' in \<open>simp_all add: ex(2) validating_exits governed_def\<close>)
qed

text \<open>In a state that satisfies the invariant the guards of an approval find their subject.\<close>

lemma approval_subject_awaiting:
  assumes "awaiting_evidence r ex"
  obtains pid pe where "approval_subject ex = ret (pid mod uuid_bound, pe_id pe mod uuid_bound)"
    "get_action_proposal r pid \<noteq> None"
    "pe \<in> set (map snd (r_evaluations r))" "pe_execution_id pe = ex_id ex" "pe_decision pe = PD_CONDITIONAL"
proof -
  define res where "res = (case ex_result ex of None \<Rightarrow> [] | Some d \<Rightarrow> d)"
  obtain gov pid pe where g: "dget res ''governance'' = PDict gov"
    "dget gov ''proposal_id'' = PStr (uuid_str pid)" "get_action_proposal r pid \<noteq> None"
    "pe \<in> set (map snd (r_evaluations r))" "dget gov ''evaluation_id'' = PStr (uuid_str (pe_id pe))"
    "pe_execution_id pe = ex_id ex" "pe_decision pe = PD_CONDITIONAL"
    using assms unfolding awaiting_evidence_def res_def Let_def by blast
  have "approval_subject ex = ret (pid mod uuid_bound, pe_id pe mod uuid_bound)"
    unfolding approval_subject_def res_def[symmetric] Let_def
    by (simp add: g uuid_parse_mod parse_uuid_def)
  then show ?thesis using that g by blast
qed

lemma safe_submit_approval:
  assumes w: "winv fz w" and eid: "eid \<notin> gh_frozen fz"
  shows "safe fz (engine_submit_approval eid approver decision notes now) (returns_good fz) w"
  unfolding engine_submit_approval_def
  apply (rule wp_seq[OF safe_clock[OF w]])
  subgoal premises prems for ts v
  proof (cases "get_execution (w_repo v) eid")
    case None
    then show ?thesis using prems(1) by (simp add: wp_simps)
  next
    case (Some ex)
    note v = prems(1)
    note ex = winv_executionD[OF v Some eid]
    show ?thesis
    proof (cases "ex_status ex = ES_AWAITING_APPROVAL")
      case False
      then show ?thesis using v Some by (simp add: wp_simps orchestration_error_def)
    next
      case True
      have "awaiting_evidence (w_repo v) ex" using ex(2) True by (simp add: good_def governed_def)
      then obtain pid0 pe where sub0: "approval_subject ex = ret (pid0 mod uuid_bound, pe_id pe mod uuid_bound)"
        and sub: "get_action_proposal (w_repo v) pid0 \<noteq> None" "pe \<in> set (map snd (r_evaluations (w_repo v)))"
        "pe_execution_id pe = ex_id ex" "pe_decision pe = PD_CONDITIONAL"
        by (rule approval_subject_awaiting)
      define pid where "pid = pid0 mod uuid_bound"
      define evid where "evid = pe_id pe mod uuid_bound"
      have evid: "uuid_str evid = uuid_str (pe_id pe)" unfolding evid_def by (rule uuid_str_mod)
      define aid where "aid = env_uuids (w_env v) (env_uuid_ix (w_env v))"
      define u where "u = v\<lparr>w_env := (w_env v)\<lparr>env_uuid_ix := Suc (env_uuid_ix (w_env v))\<rparr>\<rparr>"
      define a where "a = \<lparr>apr_id = aid, apr_execution_id = ex_id ex, apr_evaluation_id = Some evid,
                        apr_proposal_id = Some pid, apr_approver = approver, apr_decision = decision,
                        apr_notes = notes, apr_decided_at = ts, apr_created_at = ts, apr_updated_at = ts\<rparr>"
      have a_fields: "apr_execution_id a = ex_id ex" "map_option uuid_str (apr_evaluation_id a) = Some (uuid_str (pe_id pe))"
        "apr_decision a = decision" by (simp_all add: a_def evid)
      have u: "winv fz u" "w_repo u = w_repo v"
        using winv_env_ix[OF v, of "Suc (env_uuid_ix (w_env v))"] by (simp_all add: u_def)
      define x where "x = u\<lparr>w_repo := save_approval a (w_repo u)\<rparr>"
      have x: "winv fz x" "evidence_le (w_repo v) (w_repo x)"
        using winv_save_approval[OF u(1), of a] next_uuid[OF v aid_def] u(2)
        by (simp_all add: x_def a_def u_def[symmetric])
      define ex1 where "ex1 = append_timeline ex ''approval_received''
                        [(''approval_id'', PStr (uuid_str aid)),
                         (''decision'', PStr (approval_decision_value decision)),
                         (''approver'', PStr approver)] ts"
      have ex1: "good fz (w_repo x) ex1" "ex_status ex1 = ES_AWAITING_APPROVAL"
        using good_mono[OF x(2) ex(2)] True by (simp_all add: ex1_def)
      have ev: "allow_evidence (w_repo x) (ex_id ex1)" if "decision = AD_APPROVE"
      proof -
        have "a \<in> set (map snd (r_approvals (w_repo x)))"
          using approvals.get_save_same[of a "w_repo u"]
          by (auto simp: x_def get_approval_def dest!: map_of_SomeD intro: rev_image_eqI)
        moreover have "pe \<in> set (map snd (r_evaluations (w_repo x)))"
          using sub(2) x(2) by (auto simp: evidence_le_def)
        ultimately show ?thesis
          unfolding allow_evidence_def append_timeline_fields ex1_def
          using that sub(3,4) a_fields by blast
      qed
      have app: "decision = AD_APPROVE" if "decision \<noteq> AD_DEFER" "decision \<noteq> AD_REJECT"
        using that by (cases decision) auto
      show ?thesis
        unfolding wp_bnd wp_ask Some option.case
        using True v x(1) safe_reject[OF x(1) ex1] safe_approve[OF x(1) ex1 ev] app
        by (cases "get_action_proposal (w_repo x) pid")
          (simp_all only: sub0 pid_def[symmetric] evid_def[symmetric], simp_all add: wp_simps orchestration_error_def aid_def[symmetric] u_def[symmetric]
            a_def[symmetric] x_def[symmetric] ex1_def[symmetric])
    qed
  qed
  done

section \<open>Planning\<close>

text \<open>An identifier drawn since the supply stood at \<open>n\<close>.\<close>

definition env_drawn :: "nat \<Rightarrow> env \<Rightarrow> uuid \<Rightarrow> bool" where
  "env_drawn n e u \<longleftrightarrow> (\<exists>i < env_uuid_ix e. n \<le> i \<and> env_uuids e i = u)"

lemma env_drawn_drawn: "env_drawn n (w_env w) u \<Longrightarrow> drawn w u"
  by (auto simp: drawn_def env_drawn_def)

lemma env_drawn_new:
  assumes "winv fz w" "env_le (w_env w) e" "env_drawn (env_uuid_ix (w_env w)) e u"
  shows "u \<notin> known_ids (w_repo w)"
  using assms by (auto simp: winv_def fresh_def env_drawn_def env_le_def)

lemma env_drawn_mono: "env_drawn n e u \<Longrightarrow> env_le e e' \<Longrightarrow> env_drawn n e' u"
  by (auto simp: env_drawn_def env_le_def intro: less_le_trans)

lemma req_str_pure: "req_str d k e = (r, e') \<Longrightarrow> e' = e"
  by (auto simp: req_str_def throw_def ret_def split: option.splits)

lemma step_deps_pure: "step_deps es key ids e = (r, e') \<Longrightarrow> e' = e"
  by (induction es arbitrary: e r e')
    (auto simp: ret_def throw_def bnd_def split: prod.splits sum.splits if_splits option.splits
      dest!: req_str_pure)

lemma step_key_ids_drawn:
  "step_key_ids specs d e = (r, e') \<Longrightarrow> n \<le> env_uuid_ix e \<Longrightarrow> \<forall>u \<in> snd ` set d. env_drawn n e u \<Longrightarrow>
   env_le e e' \<and> (\<forall>ids. r = Inr ids \<longrightarrow> (\<forall>u \<in> snd ` set ids. env_drawn n e' u))"
proof (induction specs arbitrary: d e)
  case (Cons spec specs)
  obtain q e1 where q: "req_str spec ''step_key'' e = (q, e1)" by (cases "req_str spec ''step_key'' e")
  note e1 = req_str_pure[OF q]
  show ?case
  proof (cases q)
    case (Inl x)
    then show ?thesis using Cons.prems(1) q e1 by (auto simp: bnd_def env_le.R_refl)
  next
    case (Inr key)
    define u where "u = env_uuids e (env_uuid_ix e)"
    define e2 where "e2 = e\<lparr>env_uuid_ix := Suc (env_uuid_ix e)\<rparr>"
    have le: "env_le e e2" and u: "env_drawn n e2 u" and n: "n \<le> env_uuid_ix e2"
      using Cons.prems(2) by (auto simp: e2_def u_def env_le_def env_drawn_def)
    have run: "step_key_ids specs (AList.update key u d) e2 = (r, e')"
      using Cons.prems(1) q e1 Inr by (simp add: bnd_def uuid4_def u_def e2_def)
    have "\<forall>v \<in> snd ` set (AList.update key u d). env_drawn n e2 v"
      using Cons.prems(3) u env_drawn_mono[OF _ le] set_values_update[of _ key u d] by blast
    from Cons.IH[OF run n this] show ?thesis using env_le.R_trans[OF le] by blast
  qed
qed (auto simp: ret_def env_le.R_refl)

lemma build_step_pure:
  "build_step cfg plan ex now ids spec e = (r, e') \<Longrightarrow>
   e' = e \<and> (\<forall>s. r = Inr s \<longrightarrow> st_id s \<in> snd ` set ids \<and> st_execution_id s = ex_id ex)"
  by (force simp: build_step_def bnd_def ret_def throw_def split: prod.splits sum.splits option.splits
      dest!: req_str_pure step_deps_pure map_of_SomeD)

lemma map_build_pure:
  "map_prog (build_step cfg plan ex now ids) specs e = (r, e') \<Longrightarrow>
   e' = e \<and> (\<forall>ss. r = Inr ss \<longrightarrow> (\<forall>s \<in> set ss. st_id s \<in> snd ` set ids \<and> st_execution_id s = ex_id ex))"
proof (induction specs arbitrary: r e')
  case (Cons spec specs)
  obtain q e1 where q: "build_step cfg plan ex now ids spec e = (q, e1)"
    by (cases "build_step cfg plan ex now ids spec e")
  obtain q2 e2 where q2: "map_prog (build_step cfg plan ex now ids) specs e = (q2, e2)"
    by (cases "map_prog (build_step cfg plan ex now ids) specs e")
  show ?case
    using Cons.prems q q2 build_step_pure[OF q] Cons.IH[OF q2]
    by (force simp: bnd_def ret_def split: sum.splits)
qed (auto simp: ret_def)

lemma instantiate_steps_drawn:
  assumes "instantiate_steps cfg plan ex now e = (r, e')"
  shows "env_le e e'"
    and "r = Inr ss \<Longrightarrow> s \<in> set ss \<Longrightarrow> env_drawn (env_uuid_ix e) e' (st_id s) \<and> st_execution_id s = ex_id ex"
proof -
  obtain q e1 where q: "step_key_ids (pl_steps plan) [] e = (q, e1)"
    by (cases "step_key_ids (pl_steps plan) [] e")
  note ids = step_key_ids_drawn[OF q order_refl]
  have "env_le e e' \<and> (r = Inr ss \<longrightarrow> (\<forall>s \<in> set ss. env_drawn (env_uuid_ix e) e' (st_id s) \<and> st_execution_id s = ex_id ex))" for ss
    using assms q ids by (cases q) (fastforce simp: instantiate_steps_def bnd_def dest!: map_build_pure)+
  then show "env_le e e'"
    and "r = Inr ss \<Longrightarrow> s \<in> set ss \<Longrightarrow> env_drawn (env_uuid_ix e) e' (st_id s) \<and> st_execution_id s = ex_id ex" by blast+
qed

lemma env_le_create_plan: "steps env_le (create_plan meta ex now)"
  unfolding create_plan_def plan_incident_triage_def plan_cost_attribution_def plan_default_def uuid4_str_def
  by (intro env_le_rules)

lemma safe_enter_planning:
  assumes "winv fz w" "good fz (w_repo w) ex" "ex_status ex = ES_CREATED"
  shows "safe fz (enter_planning ex now) (\<lambda>ex1 w'. good fz (w_repo w') ex1 \<and> ex_status ex1 = ES_PLANNING) w"
proof -
  have ok: "(ES_CREATED, ES_PLANNING) \<in> set execution_allowed" by (simp add: execution_allowed_def)
  show ?thesis
    unfolding enter_planning_def validate_execution_ok[OF ok] wp_andthen wp_ret Let_def
    by (rule wp_mono[OF safe_update[OF assms(1)]], rule good_transition[OF assms(2)])
      (auto simp: assms(3) ok governed_plain)
qed

lemma good_known: "good fz r ex \<Longrightarrow> ex_id ex \<in> known_ids r"
  by (auto simp: good_def known_ids_def get_execution_def dest!: map_of_SomeD intro: rev_image_eqI)

lemma safe_save_steps:
  assumes "winv fz w" "good fz (w_repo w) ex" "\<forall>s \<in> set ss. drawn w (st_id s) \<and> st_execution_id s = ex_id ex"
    "\<forall>s \<in> set ss. get_step (w_repo w) (st_id s) = None"
  shows "safe fz (for_each ss (\<lambda>s. on_repo (save_step s))) (\<lambda>_ w'. good fz (w_repo w') ex) w"
proof (rule wp_for_each[where I = "\<lambda>v. winv fz v \<and> good fz (w_repo v) ex \<and> w_env v = w_env w \<and>
    (\<forall>s \<in> set ss. step_slot (w_repo v) s)"])
  show "winv fz w \<and> good fz (w_repo w) ex \<and> w_env w = w_env w \<and> (\<forall>s \<in> set ss. step_slot (w_repo w) s)"
    using assms by (simp add: step_slot_def)
next
  fix s v assume s: "s \<in> set ss" and v: "winv fz v \<and> good fz (w_repo v) ex \<and> w_env v = w_env w \<and>
    (\<forall>s \<in> set ss. step_slot (w_repo v) s)"
  have "winv fz (v\<lparr>w_repo := save_step s (w_repo v)\<rparr>)"
    using s v assms(3) good_known[of fz "w_repo v" ex] by (intro winv_save_step) (auto simp: drawn_def good_def)
  moreover have "evidence_le (w_repo v) (save_step s (w_repo v))"
    by (simp add: evidence_le_def save_step_def get_execution_def get_action_proposal_def)
  moreover have "step_slot (save_step s (w_repo v)) x" if "x \<in> set ss" for x
    using v s assms(3) that by (auto simp: step_slot_def steps.get_save)
  ultimately show "wp (on_repo (save_step s)) (\<lambda>_ v. winv fz v \<and> good fz (w_repo v) ex \<and> w_env v = w_env w \<and>
      (\<forall>s \<in> set ss. step_slot (w_repo v) s)) (\<lambda>_. winv fz) v"
    using v good_mono by (auto simp: wp_on_repo)
qed auto

lemma safe_make_plan:
  assumes w: "winv fz w" and ex: "good fz (w_repo w) ex" "ex_status ex = ES_PLANNING"
  shows "safe fz (make_plan eng ex now) (\<lambda>_ _. True) w"
proof -
  have ok: "(ES_PLANNING, ES_EXECUTING) \<in> set execution_allowed" by (simp add: execution_allowed_def)
  obtain plan where cp: "create_plan (eng_planner_meta eng) ex (Some now) (w_env w) =
      (Inr plan, (w_env w)\<lparr>env_uuid_ix := env_uuid_ix (w_env w) + 1 + plan_count (ex_workflow_type ex)\<rparr>)"
    and pid: "pl_id plan = env_uuids (w_env w) (env_uuid_ix (w_env w))"
    using create_plan_eq[OF refl, of "eng_planner_meta eng" ex now "w_env w"] by auto
  define v where "v = w\<lparr>w_env := (w_env w)\<lparr>env_uuid_ix := env_uuid_ix (w_env w) + 1 + plan_count (ex_workflow_type ex)\<rparr>\<rparr>"
  have v: "winv fz v" "w_repo v = w_repo w" "drawn v (pl_id plan)"
    using winv_env_ix[OF w, of "env_uuid_ix (w_env w) + 1 + plan_count (ex_workflow_type ex)"] pid
    by (auto simp: v_def drawn_def intro: exI[of _ "env_uuid_ix (w_env w)"])
  define x where "x = v\<lparr>w_repo := save_plan plan (w_repo v)\<rparr>"
  have x: "winv fz x" using winv_save_plan[OF v(1,3)] by (simp add: x_def)
  have "evidence_le (w_repo v) (w_repo x)"
    by (simp add: x_def evidence_le_def save_plan_def get_execution_def get_action_proposal_def)
  then have gx: "good fz (w_repo x) ex" using good_mono ex(1) v(2) by simp
  have plan: "safe fz (in_env (create_plan (eng_planner_meta eng) ex (Some now))) (\<lambda>p t. p = plan \<and> t = v) w"
    using cp v(1) by (simp add: wp_def in_env_def v_def)
  show ?thesis
    unfolding make_plan_def validate_execution_ok[OF ok]
  proof (rule wp_seq[OF plan], elim conjE, hypsubst, unfold wp_andthen wp_on_repo x_def[symmetric] wp_bnd, rule wp_in_env)
    fix ss e assume run: "instantiate_steps (eng_settings eng) plan ex now (w_env x) = (Inr ss, e)"
      and le: "env_le (w_env x) e"
    let ?y = "x\<lparr>w_env := e\<rparr>"
    have "safe fz (for_each ss (\<lambda>s. on_repo (save_step s))) (\<lambda>_ w'. good fz (w_repo w') ex) ?y"
    proof (rule safe_save_steps)
      show "winv fz ?y" by (rule winv_env[OF x le])
      show "good fz (w_repo ?y) ex" using gx by simp
      note new = instantiate_steps_drawn(2)[OF run refl]
      show "\<forall>s \<in> set ss. drawn ?y (st_id s) \<and> st_execution_id s = ex_id ex"
        using new env_drawn_drawn[of _ ?y] by auto
      show "\<forall>s \<in> set ss. get_step (w_repo ?y) (st_id s) = None"
      proof
        fix s assume "s \<in> set ss"
        then have "st_id s \<notin> known_ids (w_repo x)" using new env_drawn_new[OF x le] by blast
        then show "get_step (w_repo ?y) (st_id s) = None"
          by (auto simp: known_ids_def get_step_def map_of_eq_None_iff)
      qed
    qed
    then show "wp (for_each ss (\<lambda>s. on_repo (save_step s)))
       (\<lambda>_. wp (ret ()) (\<lambda>_. wp (let ex1 = status_row (ex\<lparr>ex_plan_id := Some (pl_id plan),
            ex_status := ES_EXECUTING, ex_updated_at := now\<rparr>) ES_EXECUTING
            [(''plan_id'', PStr (uuid_str (pl_id plan)))] now in in_repo (update_execution ex1))
          (\<lambda>_ w'. winv fz w' \<and> True) (\<lambda>_. winv fz)) (\<lambda>_. winv fz)) (\<lambda>_. winv fz) ?y"
      unfolding wp_ret Let_def
      by (rule wp_mono, elim conjE)
        (rule wp_mono[OF safe_update], assumption, erule good_transition, auto simp: ex(2) ok governed_plain)
  next
    fix q e assume "instantiate_steps (eng_settings eng) plan ex now (w_env x) = (Inl q, e)" "env_le (w_env x) e"
    then show "winv fz (x\<lparr>w_env := e\<rparr>)" using winv_env[OF x] by simp
  next
    show "steps env_le (instantiate_steps (eng_settings eng) plan ex now)"
      by (rule stepsI, rule instantiate_steps_drawn(1), rule surjective_pairing)
  qed
qed

end
