(* ===== verification/Engine_Run.thy ===== *)
theory Engine_Run
  imports Engine_Safety
begin

text \<open>
  Running steps and the loop keep the invariant, and the loop ends: each turn that continues has
  moved one step of the execution out of PENDING, so that \<open>pending_count\<close> turns and one more are
  enough.
\<close>

section \<open>Steps\<close>

definition pending_count :: "repo \<Rightarrow> uuid \<Rightarrow> nat" where
  "pending_count r eid =
     length (filter (\<lambda>s. st_execution_id s = eid \<and> st_status s = SS_PENDING) (map snd (r_steps r)))"

lemma wp_validate_step:
  "wp (validate_step_transition a b) Q E w =
     (if (a, b) \<in> set step_allowed then Q () w
      else E (Exn InvalidStatusTransitionError
         (if is_step_terminal a \<and> a \<noteq> b
          then ''step is terminal ('' @ step_status_value a @ ''); cannot transition to ''
            @ step_status_value b
          else ''invalid step transition: '' @ step_status_value a @ '' -> ''
            @ step_status_value b)) w)"
  unfolding wp_def validate_step_cases 
  by (cases "(a, b) \<in> set step_allowed") (simp_all only: if_True if_False simp_thms split_conv sum.case)

lemma known_step:
  assumes "repo_ok r" "get_step r k = Some s"
  shows "st_id s = k" "st_id s \<in> known_ids r" "st_execution_id s \<in> known_ids r"
proof -
  show id: "st_id s = k" using assms by (rule get_step_id)
  have mem: "(k, s) \<in> set (r_steps r)" using assms(2) by (simp add: get_step_def map_of_SomeD)
  then show "st_id s \<in> known_ids r" "st_execution_id s \<in> known_ids r"
    using imageI[OF mem, of fst] imageI[OF imageI[OF mem, of snd], of st_execution_id] id
    by (simp_all add: known_ids_def)
qed

text \<open>Replacing a stored step by one with the same identifiers.\<close>

lemma safe_update_step:
  assumes w: "winv fz w" and s: "get_step (w_repo w) (st_id s') = Some s" "st_execution_id s' = st_execution_id s"
    "st_execution_id s \<notin> gh_frozen fz"
  shows "safe fz (in_repo (update_step s'))
    (\<lambda>_ w'. w' = w\<lparr>w_repo := save_step s' (w_repo w)\<rparr>) w"
proof (rule wp_update_step)
  show "get_step (w_repo w) (st_id s') \<noteq> None" using s by simp
  show "winv fz (w\<lparr>w_repo := save_step s' (w_repo w)\<rparr>) \<and>
      w\<lparr>w_repo := save_step s' (w_repo w)\<rparr> = w\<lparr>w_repo := save_step s' (w_repo w)\<rparr>"
    using winv_save_step[OF w] known_step[OF winv_repo_ok[OF w] s(1)] s by (simp add: step_slot_def)
qed

lemma safe_frame: "winv fz w \<Longrightarrow> eid \<notin> gh_frozen fz \<Longrightarrow> steps (work_frame eid) m \<Longrightarrow> safe fz m (\<lambda>_ w'. work_frame eid w w') w"
  by (auto simp: wp_def split: prod.split sum.split dest: work_frame_winv stepsD)

lemma work_frame_steps: "work_frame eid w w' \<Longrightarrow> r_steps (w_repo w') = r_steps (w_repo w)"
  by (simp add: work_frame_def Let_def)

text \<open>The steps a run of a step leaves behind.\<close>

definition step_done :: "step \<Rightarrow> datetime \<Rightarrow> step" where
  "step_done s now = s\<lparr>st_status := SS_SUCCEEDED, st_updated_at := now\<rparr>"

lemma update_update: "AList.update k v (AList.update k u d) = AList.update k v d"
  by (induction d) auto

lemma safe_record_completion:
  assumes v: "winv fz v" and eid: "st_execution_id s \<notin> gh_frozen fz"
  shows "safe fz (record_completion s result now) (\<lambda>_ v'. r_steps (w_repo v') = r_steps (w_repo v)) v"
proof (cases "get_execution (w_repo v) (st_execution_id s)")
  case (Some ex)
  then show ?thesis
    using winv_executionD[OF v Some eid]
    by (auto simp: record_completion_def Let_def wp_bnd wp_ask v intro!: wp_update_execution winv_save_good)
qed (simp add: record_completion_def wp_simps v)

lemma safe_finish_step:
  assumes v: "winv fz v" and running: "get_step (w_repo v) (st_id running) = Some running"
    and eid: "st_execution_id running \<notin> gh_frozen fz"
  shows "safe fz (finish_step running result now)
    (\<lambda>_ v'. r_steps (w_repo v') = AList.update (st_id running) (step_done running now) (r_steps (w_repo v))) v"
proof -
  let ?x = "v\<lparr>w_repo := save_step_result result (w_repo v)\<rparr>"
  have ok: "(SS_RUNNING, SS_SUCCEEDED) \<in> set step_allowed" by (simp add: step_allowed_def)
  have x: "winv fz ?x" "r_steps (w_repo ?x) = r_steps (w_repo v)"
    using winv_save_plain(2)[OF v] by (simp_all add: save_step_result_def)
  have "get_step (w_repo ?x) (st_id (step_done running now)) = Some running"
    using x(2) running by (simp add: get_step_def step_done_def)
  note upd = safe_update_step[OF x(1) this, unfolded step_done_def, simplified, OF eid]
  have "safe fz (andthen (in_repo (update_step (step_done running now)))
      (record_completion (step_done running now) result now))
    (\<lambda>_ v'. r_steps (w_repo v') = AList.update (st_id running) (step_done running now) (r_steps (w_repo v))) ?x"
    unfolding step_done_def
    apply (rule wp_then[OF upd])
    apply (rule safe_mono, rule safe_record_completion, assumption)
    using x(2) eid by (simp_all add: save_step_def step_done_def)
  then show ?thesis
    unfolding finish_step_def Let_def step_done_def[symmetric] wp_andthen wp_on_repo wp_validate_step if_P[OF ok] .
qed

lemma safe_run_step:
  assumes w: "winv fz w" and eng: "services_ok eng"
    and eid: "\<And>s. get_step (w_repo w) (st_id s0) = Some s \<Longrightarrow> st_execution_id s \<notin> gh_frozen fz"
  shows "safe fz (run_step eng s0 now)
    (\<lambda>_ w'. \<exists>s. get_step (w_repo w) (st_id s0) = Some s \<and> st_status s = SS_PENDING \<and>
       r_steps (w_repo w') = AList.update (st_id s) (step_done s now) (r_steps (w_repo w))) w"
proof (cases "get_step (w_repo w) (st_id s0)")
  case None
  then show ?thesis using w by (simp add: run_step_def wp_simps orchestration_error_def)
next
  case (Some s)
  define running where "running = s\<lparr>st_status := SS_RUNNING, st_updated_at := now\<rparr>"
  let ?st = "AList.update (st_id s) running (r_steps (w_repo w))"
  let ?R = "\<lambda>v. r_steps (w_repo v) = AList.update (st_id s) (step_done s now) (r_steps (w_repo w))"
  have ids: "st_id running = st_id s" "st_execution_id running = st_execution_id s" "st_id s = st_id s0"
    and fin: "step_done running now = step_done s now"
    using get_step_id[OF winv_repo_ok[OF w] Some] by (simp_all add: running_def step_done_def)
  have pend: "(st_status s, SS_RUNNING) \<in> set step_allowed \<longleftrightarrow> st_status s = SS_PENDING"
    by (cases "st_status s") (simp_all add: step_allowed_def)
  have first: "safe fz (in_repo (update_step running)) (\<lambda>_ v. r_steps (w_repo v) = ?st) w"
    by (rule safe_mono[OF safe_update_step[OF w, of running s]]) (use Some ids eid[OF Some] in \<open>simp_all add: save_step_def\<close>)
  note out = eid[OF Some]
  have work: "safe fz (bnd (step_work eng running now) (\<lambda>result. finish_step running result now)) (\<lambda>_. ?R) v"
    if v: "winv fz v" "r_steps (w_repo v) = ?st" for v
    apply (rule wp_seq[OF safe_frame[OF v(1) out work_step_work[OF eng ids(2)]]])
    apply (rule safe_mono[OF safe_finish_step], assumption)
     apply (simp_all add: work_frame_steps v(2) get_step_def ids fin update_update out)
    done
  have all: "safe fz (andthen (in_repo (update_step running))
      (andthen (trace_event (st_execution_id s) ''step_started'' (completed_detail s) now)
      (bnd (step_work eng running now) (\<lambda>result. finish_step running result now)))) (\<lambda>_. ?R) w"
    apply (rule wp_then[OF first])
    apply (rule wp_then[OF safe_frame[where eid = "st_execution_id s"]], assumption, rule out)
     apply (rule work_trace_event; simp)
    apply (rule work, assumption)
    apply (simp add: work_frame_steps)
    done
  show ?thesis
    unfolding run_step_def Let_def running_def[symmetric] wp_bnd wp_ask Some option.case
    unfolding wp_andthen[of "validate_step_transition _ _"] wp_validate_step pend
    using w safe_mono[OF all] by auto
qed

section \<open>Picking a step\<close>

lemma next_pending_ready_Some:
  "next_pending_ready xs all_steps = Some s \<Longrightarrow>
   s \<in> set xs \<and> st_status s = SS_PENDING \<and> is_ready s all_steps"
  by (induction xs) (auto split: if_splits)

lemma snd_set_update: "snd ` set (AList.update k x d) \<subseteq> insert x (snd ` set d)"
  by (induction d) auto

lemma steps_by_key_values: "snd ` set (steps_by_key ss d) \<subseteq> set ss \<union> snd ` set d"
proof (induction ss arbitrary: d)
  case (Cons x ss)
  show ?case
  proof (cases "planner_step_key x")
    case None
    then show ?thesis using Cons[of d] by auto
  next
    case (Some k)
    then show ?thesis using Cons[of "AList.update k x d"] snd_set_update[of k x d] by auto
  qed
qed simp

lemma steps_in_plan_order_subset: "set (steps_in_plan_order ss plan) \<subseteq> set ss"
proof
  fix s assume "s \<in> set (steps_in_plan_order ss plan)"
  then obtain key where "map_of (steps_by_key ss []) key = Some s"
    by (auto simp: steps_in_plan_order_def Let_def List.map_filter_def split: option.splits)
  then have "s \<in> snd ` set (steps_by_key ss [])" by (auto dest!: map_of_SomeD intro: rev_image_eqI)
  then show "s \<in> set ss" using steps_by_key_values[of ss "[]"] by auto
qed

lemma count_update:
  "map_of d k = Some x \<Longrightarrow> P x \<Longrightarrow> \<not> P y \<Longrightarrow>
   length (filter P (map snd (AList.update k y d))) < length (filter P (map snd d))"
  by (induction d) (auto split: if_splits)

lemma pending_count_done:
  assumes "get_step r k = Some s" "st_status s = SS_PENDING" "st_execution_id s = eid"
    "r_steps r' = AList.update k (step_done s now) (r_steps r)"
  shows "pending_count r' eid < pending_count r eid"
  unfolding pending_count_def assms(4)
  by (rule count_update) (use assms in \<open>simp_all add: get_step_def step_done_def\<close>)

lemma length_filter_conj: "length (filter (\<lambda>s. P s \<and> Q s) xs) \<le> length (filter P xs)"
  by (induction xs) auto

lemma pending_count_le: "pending_count r eid \<le> length (list_steps_for_execution r eid)"
  unfolding pending_count_def list_steps_for_execution_def length_sort by (rule length_filter_conj)

section \<open>A turn of the loop\<close>

lemma good_out: "good fz r ex \<Longrightarrow> ex_id ex \<notin> gh_frozen fz"
  by (simp add: good_def)

lemma safe_load_execution:
  "winv fz w \<Longrightarrow> eid \<notin> gh_frozen fz \<Longrightarrow> safe fz (load_execution eid)
     (\<lambda>ex w'. w' = w \<and> get_execution (w_repo w) eid = Some ex \<and> ex_id ex = eid \<and> good fz (w_repo w) ex) w"
  by (cases "get_execution (w_repo w) eid")
    (auto simp: load_execution_def wp_simps winv_executionD dest: winv_executionD)

lemma safe_maybe_enter_validating:
  assumes "winv fz w" "good fz (w_repo w) ex"
  shows "safe fz (maybe_enter_validating ex ss now)
    (\<lambda>ex1 w'. w' = w \<and> good fz (w_repo w) ex1 \<and> ex_id ex1 = ex_id ex) w"
proof -
  have ok: "(ES_EXECUTING, ES_VALIDATING) \<in> set execution_allowed" by (simp add: execution_allowed_def)
  have "good fz (w_repo w) (status_row (ex\<lparr>ex_status := ES_VALIDATING, ex_updated_at := now\<rparr>) ES_VALIDATING [] now)"
    if "ex_status ex = ES_EXECUTING"
    by (rule good_transition[OF assms(2)]) (simp_all add: that ok governed_plain)
  then show ?thesis
    using assms unfolding maybe_enter_validating_def validate_execution_ok[OF ok]
    by (simp add: Let_def wp_simps status_row_def)
qed

lemma safe_complete_execution:
  assumes w: "winv fz w" and ex: "good fz (w_repo w) ex" "ex_status ex = ES_VALIDATING"
  shows "safe fz (complete_execution eng ex ss now) (returns_good fz) w"
proof (cases "ex_workflow_type ex = ''incident_triage''")
  case True
  then show ?thesis
    unfolding complete_execution_def if_P[OF True]
    by (intro wp_seq[OF safe_finalize[OF w ex]] safe_update_return)
next
  case False
  have "good fz (w_repo w) (status_row
           (ex\<lparr>ex_status := ES_COMPLETED, ex_updated_at := now, ex_completed_at := Some now,
               ex_validation_summary := s, ex_result := r\<rparr>) ES_COMPLETED [] now)" for s r
    by (rule good_transition[OF ex(1)]) (simp_all add: ex(2) validating_exits governed_def False)
  note tail = safe_update_return[OF w this]
  show ?thesis
    unfolding complete_execution_def if_not_P[OF False] validate_execution_ok[OF validating_exits(2)]
      wp_bnd wp_ask wp_andthen[of "ret ()"] wp_ret Let_def by (rule tail)
qed

lemma safe_no_ready_step:
  assumes w: "winv fz w" and ex: "good fz (w_repo w) ex"
  shows "safe fz (no_ready_step eng ex ss) (returns_good fz) w"
proof -
  have err: "safe fz (orchestration_error m) (returns_good fz) v" if "winv fz v" for m v
    using that by (simp add: orchestration_error_def wp_simps)
  define stuck :: "(world, execution) prog" where "stuck =
            (if list_ex (\<lambda>s. st_status s = SS_PENDING) ss
             then orchestration_error ''deadlock: pending steps but none are ready''
             else orchestration_error ''unexpected step set state'')"
  have stuck: "safe fz stuck (returns_good fz) v" if "winv fz v" for v
    unfolding stuck_def using err[OF that] by simp
  show ?thesis
    unfolding no_ready_step_def stuck_def[symmetric] Let_def
  proof (split if_split, intro conjI impI)
    show "safe fz (bnd (in_env utc_now) (\<lambda>now.
             if ex_status ex = ES_VALIDATING then complete_execution eng ex ss now
             else if ex_status ex = ES_EXECUTING then orchestration_error
               (''invariant violated: all steps succeeded but execution not in VALIDATING ''
                @ ''(validation phase required before completion per constitution '' @ [char_of (167 :: nat)]
                @ ''6.1)'')
             else stuck)) (returns_good fz) w"
      apply (rule wp_seq[OF safe_now[OF w]])
      subgoal premises prems for now v
        using safe_complete_execution[OF prems(1)] err[OF prems(1)] stuck[OF prems(1)] prems(2) ex
        by (simp split del: if_split) (auto simp only: split: if_split)
      done
  qed (rule stuck[OF w])
qed

text \<open>What a turn returns: an execution that may be stored, or one PENDING step fewer.\<close>

definition turn_result :: "ghost \<Rightarrow> uuid \<Rightarrow> repo \<Rightarrow> execution option \<Rightarrow> world \<Rightarrow> bool" where
  "turn_result fz eid r res w' \<longleftrightarrow>
     (case res of Some ex \<Rightarrow> good fz (w_repo w') ex
      | None \<Rightarrow> pending_count (w_repo w') eid < pending_count r eid)"

lemma safe_run_ready_step:
  assumes w: "winv fz w" and eng: "services_ok eng"
    and s: "next_pending_ready (steps_in_plan_order ss plan) ss = Some s"
      "ss = list_steps_for_execution (w_repo w) eid"
    and eid: "eid \<notin> gh_frozen fz"
  shows "safe fz (run_step eng s now) (\<lambda>_ w'. pending_count (w_repo w') eid < pending_count (w_repo w) eid) w"
proof -
  have "s \<in> set ss"
    using next_pending_ready_Some[OF s(1)] steps_in_plan_order_subset by blast
  then have "get_step (w_repo w) (st_id s) = Some s" "st_execution_id s = eid"
    using list_steps_iff[OF winv_repo_ok[OF w]] s(2) by auto
  then show ?thesis
    using eid by (intro safe_mono[OF safe_run_step[OF w eng]]) (auto intro: pending_count_done)
qed

lemma safe_dispatch_step:
  assumes v: "winv fz v" and eng: "services_ok eng" and eid: "eid \<notin> gh_frozen fz"
  shows "safe fz (dispatch_step eng eid plan now) (turn_result fz eid (w_repo v)) v"
  unfolding dispatch_step_def
proof (rule wp_seq[OF safe_load_execution[OF v eid]])
  fix ex x
  assume "x = v \<and> get_execution (w_repo v) eid = Some ex \<and> ex_id ex = eid \<and> good fz (w_repo v) ex"
  then have x: "x = v" and ex: "good fz (w_repo v) ex" by simp_all
  define ss where "ss = list_steps_for_execution (w_repo v) eid"
  have "safe fz (case next_pending_ready (steps_in_plan_order ss plan) ss of
                 Some s \<Rightarrow> andthen (run_step eng s now) (ret None)
               | None \<Rightarrow> bnd (no_ready_step eng ex ss) (\<lambda>done. ret (Some done)))
      (turn_result fz eid (w_repo v)) v"
  proof (cases "next_pending_ready (steps_in_plan_order ss plan) ss")
    case None
    show ?thesis
      unfolding None option.case
      by (rule wp_seq[OF safe_no_ready_step[OF v ex]]) (simp add: wp_simps turn_result_def)
  next
    case (Some s)
    show ?thesis
      unfolding Some option.case
      by (rule wp_then[OF safe_run_ready_step[OF v eng Some ss_def eid]]) (simp add: wp_simps turn_result_def)
  qed
  then show "safe fz (if is_execution_terminal (ex_status ex) then ret (Some ex)
       else bnd (ask (\<lambda>r. list_steps_for_execution r eid)) (\<lambda>ss.
           case next_pending_ready (steps_in_plan_order ss plan) ss of
             Some s \<Rightarrow> andthen (run_step eng s now) (ret None)
           | None \<Rightarrow> bnd (no_ready_step eng ex ss) (\<lambda>done. ret (Some done))))
      (turn_result fz eid (w_repo v)) x"
    unfolding x using v ex by (cases "is_execution_terminal (ex_status ex)")
      (simp_all only: if_True if_False wp_ret wp_bnd wp_ask ss_def, simp add: turn_result_def)
qed

lemma safe_active_turn:
  assumes w: "winv fz w" and eng: "services_ok eng" and ex0: "good fz (w_repo w) ex0"
    and eid: "eid \<notin> gh_frozen fz"
  shows "safe fz (active_turn eng eid ex0) (turn_result fz eid (w_repo w)) w"
proof -
  have plan: "safe fz (resolve_plan ex0) (\<lambda>_ v. v = w) w"
    using w by (auto simp: resolve_plan_def wp_simps orchestration_error_def split: option.split)
  have upd: "safe fz (andthen (in_repo (update_execution ex1)) (dispatch_step eng eid plan now))
      (turn_result fz eid (w_repo w)) v"
    if v: "winv fz v" "w_repo v = w_repo w" and ex1: "good fz (w_repo v) ex1" for ex1 plan now v
  proof -
    let ?x = "v\<lparr>w_repo := save_execution ex1 (w_repo v)\<rparr>"
    have "turn_result fz eid (w_repo ?x) = turn_result fz eid (w_repo w)"
      using v(2) by (intro ext) (simp add: turn_result_def pending_count_def save_execution_def
        cong: option.case_cong)
    then show ?thesis
      using safe_dispatch_step[OF winv_save_good[OF v(1) ex1] eng eid, of plan now] ex1
      unfolding wp_andthen by (intro wp_update_execution) (simp_all add: good_def)
  qed
  show ?thesis
    unfolding active_turn_def wp_bnd[of "ask _"] wp_ask
    apply (rule wp_seq[OF plan], hypsubst)
    apply (rule wp_seq[OF safe_now[OF w]])
    apply (rule wp_seq[OF safe_maybe_enter_validating], assumption)
    using ex0 apply simp
    apply (rule upd) by simp_all
qed

lemma safe_loop_turn:
  assumes w: "winv fz w" and eng: "services_ok eng" and eid: "eid \<notin> gh_frozen fz"
  shows "safe fz (loop_turn eng eid) (turn_result fz eid (w_repo w)) w"
  unfolding loop_turn_def
proof (rule wp_seq[OF safe_load_execution[OF w eid]], elim conjE, hypsubst)
  fix ex assume ex: "good fz (w_repo w) ex"
  have cancel: "safe fz (bnd (in_env utc_now) (\<lambda>t.
           bnd (cancel_execution e m (Some t)) (\<lambda>ex. ret (Some ex)))) (turn_result fz e (w_repo w)) w" if "e \<notin> gh_frozen fz" for e m
    apply (rule wp_seq[OF safe_now[OF w]])
    apply (rule wp_seq[OF safe_cancel_execution], assumption, rule that)
    by (simp add: wp_simps turn_result_def)
  show "safe fz (if is_cancellation_requested ex then
         bnd (in_env utc_now) (\<lambda>t.
           bnd (cancel_execution (ex_id ex) ''cancellation_requested'' (Some t)) (\<lambda>ex. ret (Some ex)))
       else if ex_status ex = ES_AWAITING_APPROVAL then ret (Some ex)
       else if is_execution_terminal (ex_status ex) then ret (Some ex)
       else active_turn eng (ex_id ex) ex) (turn_result fz (ex_id ex) (w_repo w)) w"
    using cancel safe_active_turn[OF w eng ex, of "ex_id ex"] w ex good_out[OF ex]
    by (auto simp only: wp_ret if_True if_False turn_result_def option.case split: if_split)
qed

section \<open>The loop\<close>

text \<open>The loop \<open>while True\<close> as the code has it: a big-step relation without fuel.\<close>

inductive loop_runs :: "engine \<Rightarrow> uuid \<Rightarrow> world \<Rightarrow> exn + execution \<Rightarrow> world \<Rightarrow> bool" for eng eid where
  raises: "loop_turn eng eid w = (Inl e, w') \<Longrightarrow> loop_runs eng eid w (Inl e) w'"
| returns: "loop_turn eng eid w = (Inr (Some ex), w') \<Longrightarrow> loop_runs eng eid w (Inr ex) w'"
| continues: "loop_turn eng eid w = (Inr None, u) \<Longrightarrow> loop_runs eng eid u r w' \<Longrightarrow> loop_runs eng eid w r w'"

inductive_cases loop_runsE: "loop_runs eng eid w r w'"

lemma loop_runs_deterministic:
  "loop_runs eng eid w r w' \<Longrightarrow> loop_runs eng eid w q v \<Longrightarrow> r = q \<and> w' = v"
proof (induction arbitrary: q v rule: loop_runs.induct)
  case (continues w u r w')
  from continues.prems have "loop_runs eng eid u q v"
    by (rule loop_runsE) (use continues.hyps in simp_all)
  then show ?case by (rule continues.IH)
qed (erule loop_runsE; simp)+

lemma wp_run: "wp m Q E w \<Longrightarrow> m w = (r, w') \<Longrightarrow> (case r of Inl e \<Rightarrow> E e w' | Inr x \<Rightarrow> Q x w')"
  by (simp add: wp_def)

lemma run_loop_enough:
  assumes "winv fz w" "services_ok eng" "eid \<notin> gh_frozen fz" "pending_count (w_repo w) eid < n"
    "run_loop n eng eid w = (r, w')"
  shows "loop_runs eng eid w r w' \<and> winv fz w' \<and> (\<forall>ex. r = Inr ex \<longrightarrow> good fz (w_repo w') ex)"
  using assms
proof (induction n arbitrary: w)
  case (Suc n)
  obtain q u where q: "loop_turn eng eid w = (q, u)" by (cases "loop_turn eng eid w")
  note turn = wp_run[OF safe_loop_turn[OF Suc.prems(1-3)] q]
  show ?case
  proof (cases q)
    case (Inl e)
    then show ?thesis
      using Suc.prems(5) q turn by (auto simp: bnd_def intro: loop_runs.raises)
  next
    case (Inr res)
    show ?thesis
    proof (cases res)
      case None
      have u: "winv fz u" "pending_count (w_repo u) eid < n"
        using turn Inr None Suc.prems(4) by (auto simp: turn_result_def)
      have "run_loop n eng eid u = (r, w')"
        using Suc.prems(5) q Inr None by (simp add: bnd_def)
      from Suc.IH[OF u(1) Suc.prems(2,3) u(2) this] show ?thesis
        using loop_runs.continues q Inr None by blast
    next
      case (Some ex)
      then show ?thesis
        using Suc.prems(5) q turn Inr by (auto simp: bnd_def ret_def turn_result_def intro: loop_runs.returns)
    qed
  qed
qed simp

lemma safe_run_loop:
  assumes "winv fz w" "services_ok eng" "eid \<notin> gh_frozen fz" "n = Suc (length (list_steps_for_execution (w_repo w) eid))"
  shows "safe fz (run_loop n eng eid) (returns_good fz) w"
  using run_loop_enough[OF assms(1-3), of n] pending_count_le[of "w_repo w" eid] assms(4)
  by (auto simp: wp_def split: prod.split sum.split)

lemma safe_run_execution:
  assumes w: "winv fz w" and eng: "services_ok eng" and eid: "eid \<notin> gh_frozen fz"
  shows "safe fz (run_execution eng eid) (returns_good fz) w"
proof (cases "get_execution (w_repo w) eid")
  case None
  then show ?thesis using w by (simp add: run_execution_def wp_simps)
next
  case (Some ex)
  note ex = winv_executionD[OF w Some eid]
  have loop: "safe fz (bnd (ask (\<lambda>r. length (list_steps_for_execution r eid))) (\<lambda>n.
               run_loop (Suc n) eng eid)) (returns_good fz) v" if "winv fz v" for v
    unfolding wp_bnd wp_ask by (rule safe_run_loop[OF that eng eid refl])
  have plan: "safe fz (only_if (ex_status ex1 = ES_PLANNING) (make_plan eng ex1 now)) (\<lambda>_ _. True) v"
    if "winv fz v" "good fz (w_repo v) ex1" for ex1 now v
    using that safe_make_plan[OF that] by (simp add: only_if_def wp_ret)
  have enter: "safe fz (if ex_status ex = ES_CREATED then enter_planning ex now else ret ex)
      (\<lambda>ex1 v. good fz (w_repo v) ex1) v" if "winv fz v" "good fz (w_repo v) ex" for now v
    using that safe_mono[OF safe_enter_planning[OF that]] by (simp add: wp_ret)
  show ?thesis
    unfolding run_execution_def wp_bnd[of "ask (\<lambda>r. get_execution r eid)"] wp_ask Some option.case
    apply (rule wp_seq[OF safe_now[OF w]])
    subgoal premises prems for now v
    proof (cases "is_execution_terminal (ex_status ex)")
      case True
      then show ?thesis using prems ex by (simp add: wp_ret)
    next
      case False
      have g: "good fz (w_repo v) ex" using prems(2) ex(2) by simp
      show ?thesis
        unfolding if_not_P[OF False]
        apply (rule wp_seq[OF enter[OF prems(1) g]])
        apply (rule wp_then[OF plan], assumption, assumption)
        by (rule loop)
    qed
    done
qed

end
