(* ===== verification/Service_Safety.thy ===== *)
theory Service_Safety
  imports Engine_Run Execution_Service Replay
begin

text \<open>
  Every operation of the execution service, of the replay service and of the worker keeps the
  invariant, so that it holds in every state the services can reach (\<open>reachable\<close>).
\<close>

section \<open>Execution service\<close>

lemma safe_require_execution:
  "winv fz w \<Longrightarrow> eid \<notin> gh_frozen fz \<Longrightarrow> safe fz (require_execution eid)
     (\<lambda>ex w'. w' = w \<and> get_execution (w_repo w) eid = Some ex \<and> ex_id ex = eid \<and> good fz (w_repo w) ex) w"
  by (cases "get_execution (w_repo w) eid")
    (auto simp: require_execution_def wp_simps winv_executionD dest: winv_executionD)

text \<open>A new execution has an identifier no stored entity uses.\<close>

definition is_new :: "world \<Rightarrow> create_args \<Rightarrow> execution \<Rightarrow> bool" where
  "is_new w a ex \<longleftrightarrow> (\<exists>cid ts. ex = new_execution a (ex_id ex) cid ts) \<and> ex_id ex \<notin> known_ids (w_repo w)"

lemma frozen_known:
  assumes "winv fz w" "k \<in> gh_frozen fz"
  shows "k \<in> known_ids (w_repo w)"
proof -
  obtain e where "get_execution (w_repo w) k = Some e"
    using assms by (auto simp: winv_def untouched_def)
  then have "(k, e) \<in> set (r_executions (w_repo w))" by (simp add: get_execution_def map_of_SomeD)
  then show ?thesis using imageI[of "(k, e)" _ fst] by (simp add: known_ids_def)
qed

lemma good_new_execution:
  "eid \<notin> gh_frozen fz \<Longrightarrow> good fz (save_execution (new_execution a eid cid ts) r) (new_execution a eid cid ts)"
  by (simp add: good_def executions.get_save trace_ok_new governed_plain new_execution_def)

lemma safe_create_execution:
  assumes w: "winv fz w"
  shows "safe fz (create_execution a) (\<lambda>ex w'. good fz (w_repo w') ex \<and> is_new w a ex \<and>
    (\<forall>k. k \<noteq> ex_id ex \<longrightarrow> get_execution (w_repo w') k = get_execution (w_repo w) k)) w"
  unfolding create_execution_def
  apply (rule wp_seq[OF safe_clock[OF w]])
  subgoal premises prems for ts v
  proof -
    let ?e = "w_env v"
    define cid where "cid = env_uuids ?e (env_uuid_ix ?e)"
    define eid where "eid = env_uuids ?e (Suc (env_uuid_ix ?e))"
    define u where "u = v\<lparr>w_env := ?e\<lparr>env_uuid_ix := Suc (Suc (env_uuid_ix ?e))\<rparr>\<rparr>"
    have u: "winv fz u" "w_repo u = w_repo v" "drawn u eid" "eid \<notin> known_ids (w_repo v)"
      using winv_env_ix[OF prems(1), of "Suc (Suc (env_uuid_ix ?e))"] prems(1)
      by (auto simp: u_def drawn_def eid_def winv_def fresh_def)
    let ?c = "new_context a cid ts" and ?ex = "new_execution a eid cid ts"
    have out: "eid \<notin> gh_frozen fz" using frozen_known[OF prems(1)] u(4) by blast
    have x: "winv fz (u\<lparr>w_repo := save_context ?c (w_repo u)\<rparr>)" by (rule winv_save_plain[OF u(1)])
    have g: "trace_ok ?ex" "governed r ?ex" "ex_id ?ex = eid" for r
      by (simp_all add: trace_ok_new governed_plain new_execution_def)
    have "winv fz (u\<lparr>w_repo := save_execution ?ex (save_context ?c (w_repo u))\<rparr>)"
      using winv_save_execution[OF x, of ?ex] g u(3) out by simp
    moreover have "get_execution (save_execution ?ex (save_context ?c (w_repo u))) k = get_execution (w_repo w) k"
      if "k \<noteq> eid" for k
      using that u(2) prems(2) g(3) by (simp add: executions.get_save)
    moreover have "is_new w a ?ex"
      using u(4) prems(2) g(3) by (auto simp: is_new_def)
    ultimately show ?thesis
      using good_new_execution[OF out, of a cid ts "save_context ?c (w_repo u)"] g(3)
      by (simp add: Let_def wp_bnd wp_uuid4 wp_andthen wp_on_repo wp_ret cid_def[symmetric] eid_def[symmetric]
          u_def[symmetric])
  qed
  done

lemma safe_put_work:
  "winv fz w \<Longrightarrow> (\<And>q. gh_queue fz q \<Longrightarrow> gh_queue fz (snd (queue_enqueue eid ts q))) \<Longrightarrow>
   safe fz (put_work eid ts) (\<lambda>_ w'. w_repo w' = w_repo w) w"
  by (simp add: put_work_def wp_def winv_def fresh_def split: prod.split) (metis snd_conv)

lemma safe_calls:
  assumes "winv fz w"
  shows "safe fz (in_env (inc_metric nm ls)) (\<lambda>_ w'. w_repo w' = w_repo w) w"
    "safe fz (in_env (observe_metric nm v ls)) (\<lambda>_ w'. w_repo w' = w_repo w) w"
    "safe fz (in_env (observe_latency_ms nm v ls)) (\<lambda>_ w'. w_repo w' = w_repo w) w"
    "safe fz (in_env (emit_event nm d)) (\<lambda>_ w'. w_repo w' = w_repo w) w"
  by (rule wp_env_calls; simp add: winv_env assms)+

lemma safe_enqueue_execution:
  assumes w: "winv fz w" and eid: "eid \<notin> gh_frozen fz"
    and q: "\<And>q ts. gh_queue fz q \<Longrightarrow> gh_queue fz (snd (queue_enqueue eid ts q))"
  shows "safe fz (enqueue_execution eid now) (returns_good fz) w"
  unfolding enqueue_execution_def
  apply (rule wp_seq[OF safe_clock[OF w]])
  apply (rule wp_seq[OF safe_require_execution[OF _ eid]], assumption)
  unfolding Let_def
  apply (rule wp_then[OF safe_update], simp, simp add: mark_queued_def)
  apply (rule wp_seq[OF safe_put_work], assumption, erule q)
  apply (rule wp_then[OF safe_calls(1)], assumption)
  apply (rule wp_then[OF safe_calls(2)], assumption)
  apply (rule wp_then[OF safe_calls(4)], assumption)
  apply (simp add: wp_ret)
  done

lemma safe_start_execution:
  assumes "winv fz w" "services_ok eng" "eid \<notin> gh_frozen fz"
  shows "safe fz (start_execution eng eid) (returns_good fz) w"
  unfolding start_execution_def wp_try
  by (rule wp_mono[OF safe_run_execution[OF assms]])
    (use assms(3) in \<open>auto simp: wp_rethrow intro: safe_fail_execution\<close>)

lemma safe_record_worker_started:
  assumes w: "winv fz w" and eid: "eid \<notin> gh_frozen fz"
  shows "safe fz (record_worker_started eid wid now) (returns_good fz) w"
  unfolding record_worker_started_def
  apply (rule wp_seq[OF safe_clock[OF w]])
  apply (rule wp_seq[OF safe_require_execution[OF _ eid]], assumption)
  unfolding Let_def
  apply (rule safe_update_return, simp)
  apply (simp add: mark_worker_started_def)
  done

lemma safe_request_cancellation:
  assumes w: "winv fz w" and eid: "eid \<notin> gh_frozen fz"
  shows "safe fz (request_cancellation eid reason) (returns_good fz) w"
  unfolding request_cancellation_def
  apply (rule wp_seq[OF safe_now[OF w]])
  apply (rule wp_seq[OF safe_require_execution[OF _ eid]], assumption)
  unfolding Let_def
  apply (rule wp_then[OF safe_update], simp, simp add: request_cancellation_meta_def)
  using eid apply (auto simp: wp_ret intro: safe_cancel_execution)
  done

section \<open>Worker\<close>

lemma safe_process_item:
  assumes w: "winv fz w" and eng: "services_ok eng" and eid: "wi_execution_id item \<notin> gh_frozen fz"
  shows "safe fz (process_item eng worker item) (\<lambda>_ _. True) w"
  unfolding process_item_def Let_def
  apply (rule wp_seq[OF safe_now[OF w]])
  apply (rule wp_then[OF safe_calls(1)], assumption)
  unfolding wp_bnd[of "reads _"] wp_reads
  apply (rule wp_then[OF safe_calls(4)], assumption)
  unfolding service_get_execution_def wp_bnd[of "ask _"] wp_ask wp_option wp_ret
  apply (simp only: simp_thms split: option.split)
  apply (intro conjI impI allI)
  apply (rule wp_then[OF safe_record_worker_started], assumption, rule eid)
  apply (rule wp_seq[OF safe_now], assumption)
  apply (rule wp_then[OF safe_start_execution[OF _ eng eid]], assumption)
  apply (rule wp_seq[OF safe_now], assumption)
  apply (rule wp_then[OF safe_calls(3)], assumption)
  apply (rule wp_then[OF safe_calls(2)], assumption)
  unfolding wp_bnd wp_ask
  apply (rule wp_mono[OF safe_calls(4)], assumption, simp_all)
  done

text \<open>Processing an item leaves the queue alone: a ghost that names the rest of the queue.\<close>

definition at_queue :: "uuid set \<Rightarrow> repo \<Rightarrow> work_queue \<Rightarrow> ghost" where
  "at_queue F r0 q = \<lparr>gh_frozen = F, gh_repo = r0, gh_queue = (\<lambda>x. x = q)\<rparr>"

lemma at_queue_fields [simp]:
  "gh_frozen (at_queue F r0 q) = F" "gh_repo (at_queue F r0 q) = r0" "gh_queue (at_queue F r0 q) x \<longleftrightarrow> x = q"
  by (simp_all add: at_queue_def)

lemma wp_take_work:
  "winv (at_queue F r0 q) w \<Longrightarrow> wp take_work (\<lambda>item w'. winv (at_queue F r0 (tl q)) w' \<and>
     item = (case q of [] \<Rightarrow> None | it # _ \<Rightarrow> Some it)) E w"
  by (auto simp: take_work_def wp_def queue_dequeue_def winv_def fresh_def split: list.split)

lemma worker_turn:
  assumes w: "winv (at_queue F r0 q) w" and eng: "services_ok eng"
    and out: "\<forall>it \<in> set q. wi_execution_id it \<notin> F"
  shows "wp (worker_run_once eng worker)
    (\<lambda>ran w'. winv (at_queue F r0 (tl q)) w' \<and> (ran \<longleftrightarrow> q \<noteq> []))
    (\<lambda>_. winv (at_queue F r0 (tl q))) w"
proof (cases q)
  case Nil
  then show ?thesis
    unfolding worker_run_once_def wp_bnd by (intro wp_mono[OF wp_take_work[OF w]]) (auto simp: wp_ret)
next
  case (Cons it rest)
  have item: "wp (process_item eng worker it) (\<lambda>_. winv (at_queue F r0 rest)) (\<lambda>_. winv (at_queue F r0 rest)) t"
    if "winv (at_queue F r0 rest) t" for t
    using safe_process_item[OF that eng, of it] out Cons by simp
  show ?thesis
    unfolding worker_run_once_def wp_bnd
    by (intro wp_mono[OF wp_take_work[OF w]])
      (use Cons in \<open>auto simp: wp_ret wp_andthen intro: wp_mono[OF item]\<close>)
qed

text \<open>The loop of \<open>run_until_idle\<close> as the code has it.\<close>

definition may_take :: "nat option \<Rightarrow> nat \<Rightarrow> bool" where
  "may_take m count \<longleftrightarrow> (case m of None \<Rightarrow> True | Some k \<Rightarrow> count < k)"

inductive worker_runs :: "engine \<Rightarrow> string \<Rightarrow> nat option \<Rightarrow> nat \<Rightarrow> world \<Rightarrow> exn + nat \<Rightarrow> world \<Rightarrow> bool"
  for eng worker m where
  enough: "\<not> may_take m c \<Longrightarrow> worker_runs eng worker m c w (Inr c) w"
| failed: "may_take m c \<Longrightarrow> worker_run_once eng worker w = (Inl e, w') \<Longrightarrow> worker_runs eng worker m c w (Inl e) w'"
| idle: "may_take m c \<Longrightarrow> worker_run_once eng worker w = (Inr False, w') \<Longrightarrow> worker_runs eng worker m c w (Inr c) w'"
| worked: "may_take m c \<Longrightarrow> worker_run_once eng worker w = (Inr True, u) \<Longrightarrow>
    worker_runs eng worker m (Suc c) u r w' \<Longrightarrow> worker_runs eng worker m c w r w'"

lemma worker_loop_enough:
  assumes "winv (at_queue F r0 q) w" "services_ok eng" "\<forall>it \<in> set q. wi_execution_id it \<notin> F" "length q < n"
    "worker_loop n eng worker m c w = (r, w')"
  shows "worker_runs eng worker m c w r w' \<and> (\<exists>q'. winv (at_queue F r0 q') w')"
  using assms
proof (induction n arbitrary: w q c)
  case (Suc n)
  show ?case
  proof (cases "may_take m c")
    case False
    then show ?thesis
      using Suc.prems by (auto simp: ret_def may_take_def intro: worker_runs.enough)
  next
    case True
    obtain x u where x: "worker_run_once eng worker w = (x, u)" by (cases "worker_run_once eng worker w")
    note turn = wp_run[OF worker_turn[OF Suc.prems(1-3)] x]
    have run: "bnd (worker_run_once eng worker) (\<lambda>ran.
          if \<not> ran then ret c else worker_loop n eng worker m (Suc c)) w = (r, w')"
      using Suc.prems(5) True by (simp add: may_take_def)
    show ?thesis
    proof (cases x)
      case (Inl e)
      then show ?thesis using run x turn True by (auto simp: bnd_def intro: worker_runs.failed)
    next
      case (Inr ran)
      show ?thesis
      proof (cases ran)
        case False
        then show ?thesis using run x turn Inr True by (auto simp: bnd_def ret_def intro: worker_runs.idle)
      next
        case ran: True
        have u: "winv (at_queue F r0 (tl q)) u" "q \<noteq> []" using turn Inr ran by simp_all
        have rest: "\<forall>it \<in> set (tl q). wi_execution_id it \<notin> F" "length (tl q) < n"
          using Suc.prems(3,4) u(2) by (cases q; simp)+
        have "worker_loop n eng worker m (Suc c) u = (r, w')" using run x Inr ran by (simp add: bnd_def)
        note ih = Suc.IH[OF u(1) Suc.prems(2) rest this]
        have "worker_run_once eng worker w = (Inr True, u)" using x Inr ran by simp
        from worker_runs.worked[OF True this] ih show ?thesis by blast
      qed
    qed
  qed
qed simp

lemma winv_at_queue:
  "winv fz w \<Longrightarrow> winv (at_queue (gh_frozen fz) (gh_repo fz) (w_queue w)) w"
  by (simp add: winv_def)

lemma safe_run_until_idle:
  assumes w: "winv fz w" and eng: "services_ok eng"
    and out: "\<forall>it \<in> set (w_queue w). wi_execution_id it \<notin> gh_frozen fz" and q: "\<And>q. gh_queue fz q"
  shows "safe fz (run_until_idle eng worker m) (\<lambda>_ _. True) w"
proof -
  have "winv fz w'" if "winv (at_queue (gh_frozen fz) (gh_repo fz) q') w'" for q' w'
    using that q by (simp add: winv_def)
  moreover have "run_until_idle eng worker m w = worker_loop (Suc (length (w_queue w))) eng worker m 0 w"
    by (simp only: run_until_idle_def bnd_def reads_def queue_depth_def split_conv sum.case)
  ultimately show ?thesis
    using worker_loop_enough[OF winv_at_queue[OF w] eng out lessI, of worker m 0]
    unfolding wp_def by (cases "worker_loop (Suc (length (w_queue w))) eng worker m 0 w")
      (auto simp del: worker_loop.simps split: sum.split)
qed

section \<open>Replay\<close>

lemma replay_event_fields:
  "ex_id (append_replay_created_event ex p now) = ex_id ex"
  "ex_status (append_replay_created_event ex p now) = ex_status ex"
  "ex_workflow_type (append_replay_created_event ex p now) = ex_workflow_type ex"
  "ex_result (append_replay_created_event ex p now) = ex_result ex"
  "ex_input (append_replay_created_event ex p now) = ex_input ex"
  by (simp_all add: append_replay_created_event_def Let_def)

lemma replay_event_rows: "status_rows (append_replay_created_event ex p now) = status_rows ex"
  unfolding append_replay_created_event_def Let_def status_rows_def
  by (simp add: is_status_row_def dget_def)

lemma good_replay_event: "good fz r (append_replay_created_event (ex\<lparr>ex_input := d\<rparr>) p now) = good fz r ex"
proof -
  let ?e = "append_replay_created_event (ex\<lparr>ex_input := d\<rparr>) p now"
  have "trace_ok ?e = trace_ok ex"
    by (rule trace_ok_cong)
      (simp_all only: replay_event_rows replay_event_fields, simp_all add: status_rows_def)
  moreover have "governed r ?e = governed r ex"
    by (rule governed_cong) (simp_all add: replay_event_fields)
  ultimately show ?thesis by (simp add: good_def replay_event_fields)
qed

lemma safe_checks:
  assumes "winv fz w"
  shows "safe fz (validate_request rq) (\<lambda>_ w'. w' = w) w"
    and "safe fz (replay_inputs rq d) (\<lambda>_ w'. w' = w) w"
  using assms by (auto simp: validate_request_def replay_inputs_def wp_simps Let_def split: replay_mode.split)

lemma safe_create_replay:
  assumes w: "winv fz w" and eng: "services_ok eng"
  shows "safe fz (create_replay eng rq now) (\<lambda>_ _. True) w"
proof -
  have start: "safe fz (if c then start_execution eng eid else ret ex) (\<lambda>_ _. True) v"
    if "winv fz v" "eid \<notin> gh_frozen fz" for v c eid ex
    using wp_mono[OF safe_start_execution[OF that(1) eng that(2)], of "\<lambda>_. winv fz" "\<lambda>_. winv fz"] that
    by (simp add: wp_ret)
  show ?thesis
    unfolding create_replay_def
    apply (rule wp_seq[OF safe_clock[OF w]])
    unfolding Let_def wp_bnd[of "ask _"] wp_ask wp_option wp_throw
    apply (simp only: simp_thms split: option.split)
    apply (intro conjI impI allI)
    apply (rule wp_then[OF safe_checks(1)], assumption)
    apply (rule wp_seq[OF safe_checks(2)], simp)
    unfolding wp_prod
    apply (simp only: split: prod.split, intro allI impI)
    apply (rule wp_seq[OF safe_create_execution], simp)
    apply (rule wp_then[OF safe_update], assumption, simp only: good_replay_event)
    apply (rule wp_then[OF safe_calls(1)], assumption)
    apply (rule wp_then[OF safe_calls(4)], assumption)
    apply (rule wp_seq[OF start], assumption, simp add: replay_event_fields good_def)
    unfolding wp_bnd wp_ask wp_if wp_throw wp_ret
    by (simp only: if_cancel simp_thms)
qed

end
