(* ===== verification/Reachability.thy ===== *)
theory Reachability
  imports Service_Safety
begin

text \<open>
  The running process: a world that starts empty and is changed by calls of the services, in any
  order.  A call is one atomic step, whether it returns or raises.
\<close>

datatype service_call =
    Create create_args
  | Enqueue uuid "datetime option"
  | Start uuid
  | Worker_Started uuid string "datetime option"
  | Cancel uuid string
  | Approve uuid string approval_decision "string option"
  | Work string "nat option"
  | Replay_Of replay_request "datetime option"

fun perform :: "engine \<Rightarrow> service_call \<Rightarrow> world \<Rightarrow> world" where
  "perform eng (Create a) w = final (create_execution a) w"
| "perform eng (Enqueue eid now) w = final (enqueue_execution eid now) w"
| "perform eng (Start eid) w = final (start_execution eng eid) w"
| "perform eng (Worker_Started eid wid now) w = final (record_worker_started eid wid now) w"
| "perform eng (Cancel eid reason) w = final (request_cancellation eid reason) w"
| "perform eng (Approve eid approver d notes) w = final (submit_approval eid approver d notes) w"
| "perform eng (Work worker m) w = final (run_until_idle eng worker m) w"
| "perform eng (Replay_Of rq now) w = final (create_replay eng rq now) w"

definition start_world :: "env \<Rightarrow> world" where
  "start_world e = \<lparr>w_env = e, w_repo = empty_repo, w_queue = []\<rparr>"

text \<open>The identifiers \<open>uuid4\<close> hands out are pairwise distinct.\<close>

definition supply_ok :: "env \<Rightarrow> bool" where
  "supply_ok e \<longleftrightarrow> inj (env_uuids e)"

inductive reachable :: "engine \<Rightarrow> world \<Rightarrow> bool" for eng where
  start: "supply_ok e \<Longrightarrow> reachable eng (start_world e)"
| call: "reachable eng w \<Longrightarrow> reachable eng (perform eng c w)"

inductive_cases reachableE: "reachable eng w"

text \<open>The ghost that asks for nothing.\<close>

definition no_ghost :: ghost where
  "no_ghost = \<lparr>gh_frozen = {}, gh_repo = empty_repo, gh_queue = (\<lambda>_. True)\<rparr>"

lemma no_ghost_fields [simp]: "gh_frozen no_ghost = {}" "gh_queue no_ghost q"
  by (simp_all add: no_ghost_def)

lemma winv_start: "supply_ok e \<Longrightarrow> winv no_ghost (start_world e)"
  by (simp add: winv_def start_world_def fresh_def supply_ok_def known_ids_def empty_repo_def repo_ok_def
      store_ok_def)

text \<open>The executions a call is about.\<close>

fun concerns :: "service_call \<Rightarrow> world \<Rightarrow> uuid set" where
  "concerns (Create a) w = {}"
| "concerns (Enqueue eid now) w = {eid}"
| "concerns (Start eid) w = {eid}"
| "concerns (Worker_Started eid wid now) w = {eid}"
| "concerns (Cancel eid reason) w = {eid}"
| "concerns (Approve eid approver d notes) w = {eid}"
| "concerns (Work worker m) w = wi_execution_id ` set (w_queue w)"
| "concerns (Replay_Of rq now) w = {}"

lemma safe_final: "safe fz m R w \<Longrightarrow> winv fz (final m w)"
  by (auto simp: wp_def final_def split: prod.splits sum.splits)

lemma winv_perform:
  assumes "winv fz w" "services_ok eng" "gh_frozen fz \<inter> concerns c w = {}" "\<And>q. gh_queue fz q"
  shows "winv fz (perform eng c w)"
proof (cases c)
  case (Work worker m)
  then have "\<forall>it \<in> set (w_queue w). wi_execution_id it \<notin> gh_frozen fz" using assms(3) by auto
  then show ?thesis using Work safe_final[OF safe_run_until_idle[OF assms(1,2) _ assms(4)]] by simp
qed (use assms in \<open>simp_all add: submit_approval_def safe_final[OF safe_create_execution]
      safe_final[OF safe_enqueue_execution] safe_final[OF safe_start_execution]
      safe_final[OF safe_record_worker_started] safe_final[OF safe_request_cancellation]
      safe_final[OF safe_submit_approval] safe_final[OF safe_create_replay]\<close>)

lemma reachable_winv: "reachable eng w \<Longrightarrow> services_ok eng \<Longrightarrow> winv no_ghost w"
  by (induction rule: reachable.induct) (auto intro: winv_start winv_perform)

text \<open>A call leaves the stored executions it is not about as they were, with their steps.\<close>

lemma perform_isolated:
  assumes w: "winv no_ghost w" and eng: "services_ok eng"
    and k: "k \<notin> concerns c w" "get_execution (w_repo w) k = Some ex"
  shows "get_execution (w_repo (perform eng c w)) k = Some ex \<and>
    steps_of (w_repo (perform eng c w)) k = steps_of (w_repo w) k"
proof -
  let ?fz = "\<lparr>gh_frozen = {k}, gh_repo = w_repo w, gh_queue = (\<lambda>_. True)\<rparr>"
  have "winv ?fz w" using w k(2) by (simp add: winv_def untouched_def)
  then have "winv ?fz (perform eng c w)"
    using k(1) eng by (intro winv_perform) simp_all
  then show ?thesis using k(2) by (simp add: winv_def untouched_def)
qed

text \<open>What the invariant says of one stored execution.\<close>

lemma winv_stored:
  assumes "winv no_ghost w" "get_execution (w_repo w) eid = Some ex"
  shows "trace_ok ex" "governed (w_repo w) ex" "ex_id ex = eid"
  using winv_executionD[OF assms] by (auto simp: good_def)

lemma trace_ok_rtranclp: "trace_ok ex \<Longrightarrow> status_step\<^sup>*\<^sup>* ES_CREATED (ex_status ex)"
  unfolding trace_ok_def Let_def by (metis status_path_rtranclp)

lemma trace_ok_validated:
  assumes "trace_ok ex" "ex_status ex = ES_COMPLETED"
  shows "Some ES_VALIDATING \<in> set (trace_statuses ex)"
proof -
  let ?path = "map the (trace_statuses ex)"
  have p: "None \<notin> set (trace_statuses ex)" "status_path ES_CREATED ?path"
    "last (ES_CREATED # ?path) = ES_COMPLETED"
    using assms by (simp_all add: trace_ok_def Let_def)
  have "ES_CREATED \<notin> {ES_VALIDATING, ES_AWAITING_APPROVAL, ES_COMPLETED}" by simp
  with p have "ES_VALIDATING \<in> set ?path" by (intro status_path_completed)
  then obtain s where s: "s \<in> set (trace_statuses ex)" "ES_VALIDATING = the s"
    unfolding set_map by (rule imageE)
  with p(1) have "s = Some ES_VALIDATING" by (cases s) simp_all
  with s(1) show ?thesis by simp
qed

end
