(* ===== verification/Service_Outcomes.thy ===== *)
theory Service_Outcomes
  imports Reachability
begin

text \<open>
  What single calls return: cancellation, restart of finished executions, approval decisions and
  their errors.  Each lemma gives the result of one call in every case.
\<close>

abbreviation no_error :: "exn \<Rightarrow> world \<Rightarrow> bool" where
  "no_error e w \<equiv> False"

lemma wp_total: "wp m Q no_error w \<Longrightarrow> \<exists>x w'. m w = (Inr x, w') \<and> Q x w'"
  by (cases "m w") (auto simp: wp_def split: sum.splits)

section \<open>Cancellation\<close>

lemma cancel_allowed: "\<not> is_execution_terminal st \<Longrightarrow> (st, ES_CANCELLED) \<in> set execution_allowed"
  by (cases st) (simp_all add: lifecycle_tables)

lemma wp_clock: "(\<And>x e. Q x (w\<lparr>w_env := e\<rparr>)) \<Longrightarrow> wp (in_env (now_or_clock n)) Q E w"
  "(\<And>x e. Q x (w\<lparr>w_env := e\<rparr>)) \<Longrightarrow> wp (in_env utc_now) Q E w"
  by (rule wp_env_clock; simp)+

lemma wp_calls: "(\<And>e. Q () (w\<lparr>w_env := e\<rparr>)) \<Longrightarrow> wp (in_env (inc_metric nm ls)) Q E w"
  "(\<And>e. Q () (w\<lparr>w_env := e\<rparr>)) \<Longrightarrow> wp (in_env (emit_event ty kvs)) Q E w"
  by (rule wp_env_calls; simp)+

text \<open>The outcome of a cancellation: a finished execution keeps its status, any other is CANCELLED.\<close>

definition cancelled_as :: "execution \<Rightarrow> execution \<Rightarrow> bool" where
  "cancelled_as ex ex' \<longleftrightarrow>
     is_cancellation_requested ex' \<and> ex_id ex' = ex_id ex \<and>
     ex_status ex' = (if is_execution_terminal (ex_status ex) then ex_status ex else ES_CANCELLED)"

lemma cancellation_requested_cong:
  "ex_input ex' = ex_input ex \<Longrightarrow> is_cancellation_requested ex' = is_cancellation_requested ex"
  by (simp add: is_cancellation_requested_def read_runtime_meta_def)

lemma wp_cancel_execution:
  assumes "get_execution (w_repo w) eid = Some ex" "ex_id ex = eid"
  shows "wp (cancel_execution eid reason now)
    (\<lambda>ex' w'. cancelled_as ex ex' \<and> get_execution (w_repo w') eid = Some ex') no_error w"
proof -
  have upd: "wp (in_repo (update_execution x)) Q E v"
    if "w_repo v = w_repo w" "ex_id x = eid" "Q () (v\<lparr>w_repo := save_execution x (w_repo v)\<rparr>)" for x Q E v
    using that assms by (intro wp_update_execution) simp_all
  have sub: "is_cancellation_requested (status_row (request_cancellation_meta t reason ex
      \<lparr>ex_status := a, ex_updated_at := b, ex_cancelled_at := c, ex_result := d\<rparr>) s e f)" for t a b c d s e f
    using cancellation_requested_cong[of "status_row (request_cancellation_meta t reason ex
      \<lparr>ex_status := a, ex_updated_at := b, ex_cancelled_at := c, ex_result := d\<rparr>) s e f"
      "request_cancellation_meta t reason ex"] by (simp add: status_row_def append_timeline_def)
  show ?thesis
    unfolding cancel_execution_def wp_bnd
    apply (rule wp_clock)
    using assms cancel_allowed[of "ex_status ex"]
    by (auto simp: wp_simps Let_def transition_allowed_eq cancelled_as_def sub executions.get_save
        intro!: upd wp_calls)
qed

lemma w_repo_env: "w_repo (w\<lparr>w_env := e\<rparr>) = w_repo w"
  by simp

lemma request_cancellation_outcome:
  assumes "repo_ok (w_repo w)" "get_execution (w_repo w) eid = Some ex"
  shows "\<exists>ex' w'. request_cancellation eid reason w = (Inr ex', w') \<and> cancelled_as ex ex' \<and>
    get_execution (w_repo w') eid = Some ex'"
proof (rule wp_total)
  note id = get_execution_id[OF assms]
  have open_statuses: "ex_status ex \<in> {ES_CREATED, ES_PLANNING, ES_EXECUTING, ES_VALIDATING, ES_AWAITING_APPROVAL}
      \<longleftrightarrow> \<not> is_execution_terminal (ex_status ex)"
    by (cases "ex_status ex") (simp_all add: lifecycle_tables)
  show "wp (request_cancellation eid reason) (\<lambda>ex' w'. cancelled_as ex ex' \<and>
      get_execution (w_repo w') eid = Some ex') no_error w"
    unfolding request_cancellation_def require_execution_def wp_bnd
    apply (rule wp_clock)
    unfolding wp_ask w_repo_env assms(2) option.case wp_ret Let_def wp_andthen mark_fields open_statuses
    apply (rule wp_update_execution)
     apply (simp add: id assms(2))
    subgoal for ts e
    proof -
      let ?x = "request_cancellation_meta ts reason ex"
      let ?v = "w\<lparr>w_env := e, w_repo := save_execution ?x (w_repo w)\<rparr>"
      have "get_execution (w_repo ?v) eid = Some ?x" by (simp add: executions.get_save id)
      from wp_cancel_execution[OF this, of reason "Some ts"] id
      have open_case: "wp (cancel_execution eid reason (Some ts)) (\<lambda>ex' w'. cancelled_as ex ex' \<and>
          get_execution (w_repo w') eid = Some ex') no_error ?v"
        by (simp only: cancelled_as_def mark_fields)
      show ?thesis
      proof (cases "is_execution_terminal (ex_status ex)")
        case True
        then show ?thesis
          using id by (simp add: wp_ret cancelled_as_def executions.get_save)
      next
        case False
        then show ?thesis using open_case by simp
      qed
    qed
    done
qed

section \<open>Finished executions\<close>

text \<open>Starting a finished execution returns it and changes nothing but the clock.\<close>

lemma start_finished:
  assumes "get_execution (w_repo w) eid = Some ex" "is_execution_terminal (ex_status ex)"
  shows "start_execution eng eid w =
    (Inr ex, w\<lparr>w_env := (w_env w)\<lparr>env_clock_ix := Suc (env_clock_ix (w_env w))\<rparr>\<rparr>)"
  using assms by (simp add: start_execution_def try_except_def run_execution_def bnd_ask bnd_utc_now ret_def)

section \<open>Approval\<close>

text \<open>A deferral, or an execution that does not wait, is an error and stores nothing.\<close>

lemma approval_refused:
  assumes "d = AD_DEFER \<or> (\<forall>ex. get_execution (w_repo w) eid = Some ex \<longrightarrow> ex_status ex \<noteq> ES_AWAITING_APPROVAL)"
  shows "(\<exists>e. fst (submit_approval eid approver d notes w) = Inl e) \<and>
    w_repo (snd (submit_approval eid approver d notes w)) = w_repo w"
proof -
  have "wp (submit_approval eid approver d notes) (\<lambda>_ _. False) (\<lambda>_ w'. w_repo w' = w_repo w) w"
    unfolding submit_approval_def engine_submit_approval_def wp_bnd
    apply (rule wp_clock)
    using assms
    by (auto simp: wp_simps orchestration_error_def approval_subject_def parse_uuid_def Let_def
        split: option.split prod.split)
  then show ?thesis
    by (auto simp: wp_def split: prod.splits sum.splits)
qed

definition holds_approval :: "repo \<Rightarrow> uuid \<Rightarrow> string \<Rightarrow> approval_decision \<Rightarrow> uuid \<Rightarrow> uuid \<Rightarrow> bool" where
  "holds_approval r eid approver d evid pid \<longleftrightarrow> (\<exists>k a. get_approval r k = Some a \<and>
     apr_execution_id a = eid \<and> apr_approver a = approver \<and> apr_decision a = d \<and>
     apr_evaluation_id a = Some evid \<and> apr_proposal_id a = Some pid)"

text \<open>
  An approval of a waiting execution whose proposal is stored decides it: approved, it completes;
  rejected, it fails; the approval itself is stored.
\<close>

lemma approval_decides:
  assumes ex: "get_execution (w_repo w) eid = Some ex" "ex_id ex = eid" "ex_status ex = ES_AWAITING_APPROVAL"
    and subject: "approval_subject ex = ret (pid, evid)" "get_action_proposal (w_repo w) pid = Some p" "ap_id p = pid"
    and d: "d \<noteq> AD_DEFER"
  shows "\<exists>ex' w'. submit_approval eid approver d notes w = (Inr ex', w') \<and>
    get_execution (w_repo w') eid = Some ex' \<and>
    ex_status ex' = (if d = AD_APPROVE then ES_COMPLETED else ES_FAILED) \<and>
    map_option ap_status (get_action_proposal (w_repo w') pid)
      = Some (if d = AD_APPROVE then AP_APPROVED else AP_REJECTED) \<and>
    holds_approval (w_repo w') eid approver d evid pid"
proof (rule wp_total)
  define Q where "Q = (\<lambda>ex' (w' :: world). get_execution (w_repo w') eid = Some ex' \<and>
    ex_status ex' = (if d = AD_APPROVE then ES_COMPLETED else ES_FAILED) \<and>
    map_option ap_status (get_action_proposal (w_repo w') pid)
      = Some (if d = AD_APPROVE then AP_APPROVED else AP_REJECTED) \<and>
    holds_approval (w_repo w') eid approver d evid pid)"
  have dd: "d = AD_APPROVE \<or> d = AD_REJECT" using d by (cases d) simp_all
  have id: "ex_id (append_timeline ex ty det t) = eid" for ty det t using ex(2) by simp
  have gets: "get_execution (save_approval a r) = get_execution r"
    "get_action_proposal (save_approval a r) = get_action_proposal r"
    "get_action_proposal (save_execution e r) = get_action_proposal r" for a r e
    by (simp_all add: fun_eq_iff save_approval_def save_execution_def get_execution_def get_action_proposal_def)
  have tail: "wp (if d = AD_REJECT then reject_execution e1 p pid base summary t
      else approve_execution e1 p pid base summary t) Q no_error v"
    if "w_repo v = save_approval a (w_repo w)" "ex_id e1 = eid"
      "apr_execution_id a = eid \<and> apr_approver a = approver \<and>
       apr_decision a = d \<and> apr_evaluation_id a = Some evid \<and> apr_proposal_id a = Some pid"
    for e1 base summary t v a
  proof -
    have mem: "holds_approval (save_execution y (save_action_proposal x (save_approval a (w_repo w)))) eid
        approver d evid pid" for x y
      unfolding holds_approval_def using that(3)
      by (intro exI[of _ "apr_id a"] exI[of _ a])
        (simp add: save_approval_def save_execution_def save_action_proposal_def get_approval_def)
    show ?thesis
      using dd
      unfolding reject_execution_def approve_execution_def validate_execution_ok[OF validating_exits(4)]
        validate_execution_ok[OF validating_exits(5)] Q_def
      using mem that subject(3) ex(1)
      by (auto simp: wp_simps gets executions.get_save proposals.get_save intro!: wp_update_execution)
  qed
  show "wp (submit_approval eid approver d notes) Q no_error w"
    unfolding submit_approval_def engine_submit_approval_def wp_bnd
    apply (rule wp_clock)
    apply (simp add: wp_simps ex subject(1,2) d gets Let_def del: wp_if split del: if_split)
    apply (rule tail)
      apply (simp_all add: ex(2))
    apply (intro conjI approval.simps)
    done
qed

end
