(* ===== verification/Engine_Progress.thy ===== *)
theory Engine_Progress
  imports Reachability Service_Outcomes
begin

text \<open>
  Liveness of a run: when the work of every step returns and the evaluator answers, a started
  execution runs its steps in plan order, one per turn, passes the validation phase and ends with
  the status that its workflow and the policy decision call for.
\<close>

section \<open>Plan order and readiness along a chain\<close>

lemma map_of_steps_by_key:
  "map planner_step_key ss = map Some ks \<Longrightarrow> distinct ks \<Longrightarrow>
   map_of (steps_by_key ss d) = map_of d ++ map_of (zip ks ss)"
proof (induction ss arbitrary: ks d)
  case (Cons s ss)
  then obtain k ks' where ks: "ks = k # ks'" "planner_step_key s = Some k" "map planner_step_key ss = map Some ks'"
    by (cases ks) auto
  have len: "length ks' = length ss" using ks(3) by (metis length_map)
  have "map_of (zip ks' ss) k = None" using Cons.prems(2) ks(1) len by (simp add: map_of_zip_is_None)
  then show ?case
    using Cons.IH[OF ks(3)] Cons.prems(2) ks
    by (simp add: update_conv' fun_eq_iff map_add_def split: option.split)
qed simp

lemma map_filter_through:
  "map g xs = map Some ks \<Longrightarrow>
   List.map_filter (\<lambda>x. case g x of None \<Rightarrow> None | Some k \<Rightarrow> h k) xs = List.map_filter h ks"
proof (induction xs arbitrary: ks)
  case Nil
  then show ?case by (simp add: map_filter_simps)
next
  case (Cons x xs)
  then obtain k ks' where "ks = k # ks'" "g x = Some k" "map g xs = map Some ks'" by (cases ks) auto
  then show ?case using Cons.IH by (simp add: map_filter_simps split: option.split)
qed

lemma map_filter_zip:
  "length ks = length ss \<Longrightarrow> distinct ks \<Longrightarrow> List.map_filter (map_of (zip ks ss)) ks = ss"
proof (induction ks ss rule: list_induct2)
  case (Cons k ks s ss)
  have "List.map_filter (\<lambda>a. if a = k then Some s else map_of (zip ks ss) a) ks = List.map_filter (map_of (zip ks ss)) ks"
    using Cons.prems unfolding List.map_filter_def
    by (intro arg_cong2[where f = map] filter_cong map_cong ext) (auto intro!: map_cong filter_cong)
  then show ?case using Cons by (simp add: map_filter_simps)
qed (simp add: map_filter_simps)

text \<open>
  The steps of a run as its plan lays them out: a chain of \<open>n\<close> steps, the last one the validation,
  of which the first \<open>k\<close> have succeeded and the others wait.
\<close>

definition chain_steps :: "uuid \<Rightarrow> execution_plan \<Rightarrow> nat \<Rightarrow> step list \<Rightarrow> bool" where
  "chain_steps eid plan k ss \<longleftrightarrow>
     (\<exists>ks. distinct ks \<and> map (\<lambda>d. as_str (dget d ''step_key'')) (pl_steps plan) = map Some ks \<and>
        map planner_step_key ss = map Some ks) \<and>
     distinct (map st_id ss) \<and> 2 \<le> length ss \<and> k \<le> length ss \<and>
     (\<exists>t. \<forall>s \<in> set ss. st_created_at s = t) \<and>
     (\<forall>i < length ss. st_execution_id (ss ! i) = eid \<and>
        st_dependencies (ss ! i) = (if i = 0 then [] else [st_id (ss ! (i - 1))]) \<and>
        (is_validation_step (ss ! i) \<longleftrightarrow> Suc i = length ss) \<and>
        st_status (ss ! i) = (if i < k then SS_SUCCEEDED else SS_PENDING))"

lemma chain_plan_order:
  assumes "chain_steps eid plan k ss"
  shows "steps_in_plan_order ss plan = ss"
proof -
  obtain ks where ks: "distinct ks" "map (\<lambda>d. as_str (dget d ''step_key'')) (pl_steps plan) = map Some ks"
    "map planner_step_key ss = map Some ks"
    using assms by (auto simp: chain_steps_def)
  then have "length ks = length ss" by (metis length_map)
  then show ?thesis
    unfolding steps_in_plan_order_def Let_def map_filter_through[OF ks(2)] map_of_steps_by_key[OF ks(3,1)]
    using ks(1) by (simp add: map_filter_zip)
qed

lemma steps_by_id_find:
  assumes "distinct (map st_id ss)"
  shows "map_of (steps_by_id ss) k = find (\<lambda>s. st_id s = k) ss"
proof -
  have "map_of (fold (\<lambda>s d. AList.update (st_id s) s d) ss d) k
      = (case find (\<lambda>s. st_id s = k) ss of Some s \<Rightarrow> Some s | None \<Rightarrow> map_of d k)" for d
    using assms
  proof (induction ss arbitrary: d)
    case (Cons s ss)
    have "find (\<lambda>s. st_id s = k) ss = None" if "st_id s = k"
      using Cons.prems that by (auto simp: find_None_iff image_iff)
    then show ?case using Cons by (auto simp: update_conv' split: option.split)
  qed simp
  then show ?thesis by (simp add: steps_by_id_def split: option.split)
qed

lemma map_of_steps_by_id:
  assumes "distinct (map st_id ss)" "s \<in> set ss"
  shows "map_of (steps_by_id ss) (st_id s) = Some s"
proof -
  have "find (\<lambda>t. st_id t = st_id s) ss = Some s" using assms by (induction ss) auto
  then show ?thesis by (simp add: steps_by_id_find[OF assms(1)])
qed

lemma next_pending_ready_find:
  "next_pending_ready xs ss = find (\<lambda>s. st_status s = SS_PENDING \<and> is_ready s ss) xs"
  by (induction xs) auto

lemma chain_next_ready:
  assumes c: "chain_steps eid plan k ss"
  shows "next_pending_ready ss ss = (if k < length ss then Some (ss ! k) else None)"
proof -
  have st: "st_status (ss ! i) = (if i < k then SS_SUCCEEDED else SS_PENDING)"
    "st_dependencies (ss ! i) = (if i = 0 then [] else [st_id (ss ! (i - 1))])" if "i < length ss" for i
    using c that by (simp_all add: chain_steps_def)
  have ready: "is_ready (ss ! k) ss" if "k < length ss"
  proof (cases k)
    case 0
    then show ?thesis using st(2)[of k] that by (simp add: is_ready_def)
  next
    case (Suc j)
    then have "map_of (steps_by_id ss) (st_id (ss ! j)) = Some (ss ! j)"
      using c that by (intro map_of_steps_by_id) (simp_all add: chain_steps_def)
    then show ?thesis using st[of k] st(1)[of j] that Suc by (simp add: is_ready_def)
  qed
  show ?thesis
  proof (cases "k < length ss")
    case True
    then show ?thesis
      using ready st(1) by (auto simp: next_pending_ready_find find_Some_iff intro!: exI[of _ k])
  next
    case False
    then have "\<forall>s \<in> set ss. st_status s = SS_SUCCEEDED"
      using st(1) by (auto simp: in_set_conv_nth)
    then show ?thesis using False by (auto simp: next_pending_ready_find find_None_iff)
  qed
qed

section \<open>What a step leaves behind\<close>

text \<open>
  The part of the repository that a step's work keeps: steps, plans and contexts; the execution's
  trace only grows.
\<close>

definition run_frame :: "uuid \<Rightarrow> world \<Rightarrow> world \<Rightarrow> bool" where
  "run_frame eid w w' \<longleftrightarrow>
     repo_ok (w_repo w') \<and> r_steps (w_repo w') = r_steps (w_repo w) \<and>
     r_plans (w_repo w') = r_plans (w_repo w) \<and> r_contexts (w_repo w') = r_contexts (w_repo w) \<and>
     (\<forall>ex. get_execution (w_repo w) eid = Some ex \<longrightarrow>
        (\<exists>ex'. get_execution (w_repo w') eid = Some ex' \<and> traced ex ex'))"

lemma run_frame_refl: "repo_ok (w_repo w) \<Longrightarrow> run_frame eid w w"
  by (auto simp: run_frame_def traced_refl)

lemma run_frame_trans: "run_frame eid a b \<Longrightarrow> run_frame eid b c \<Longrightarrow> run_frame eid a c"
  unfolding run_frame_def by (metis traced_trans)

lemma work_run_frame: "work_frame eid w w' \<Longrightarrow> repo_ok (w_repo w) \<Longrightarrow> run_frame eid w w'"
  by (auto simp: run_frame_def work_frame_def Let_def split: option.splits)

lemma run_frame_env: "repo_ok (w_repo w) \<Longrightarrow> run_frame eid w (w\<lparr>w_env := e\<rparr>)"
  by (simp add: run_frame_def traced_refl)

lemma run_frame_result:
  "repo_ok (w_repo w) \<Longrightarrow> run_frame eid w (w\<lparr>w_repo := save_step_result q (w_repo w)\<rparr>)"
  by (auto simp: run_frame_def repo_ok_saves traced_refl) (simp_all add: save_step_result_def)

lemma run_frame_trace:
  assumes "repo_ok (w_repo w)" "get_execution (w_repo w) eid = Some ex" "traced ex ex'"
  shows "run_frame eid w (w\<lparr>w_repo := save_execution ex' (w_repo w)\<rparr>)"
  using assms get_execution_id[OF assms(1,2)] traced_fields[OF assms(3)]
  by (auto simp: run_frame_def repo_ok_saves executions.get_save traced_refl)

text \<open>\<open>m\<close> returns and keeps the run's frame.\<close>

abbreviation runs :: "uuid \<Rightarrow> (world, 'a) prog \<Rightarrow> world \<Rightarrow> bool" where
  "runs eid m w \<equiv> wp m (\<lambda>_ w'. run_frame eid w w') no_error w"

lemma runs_after: "run_frame eid w u \<Longrightarrow> runs eid m u \<Longrightarrow> wp m (\<lambda>_ w'. run_frame eid w w') no_error u"
  by (erule wp_mono) (auto intro: run_frame_trans)

lemma runs_seq: "runs eid m w \<Longrightarrow> (\<And>x w'. run_frame eid w w' \<Longrightarrow> runs eid (f x) w') \<Longrightarrow> runs eid (bnd m f) w"
  unfolding wp_bnd by (erule wp_mono) (auto intro: runs_after)

lemma runs_then: "runs eid m w \<Longrightarrow> (\<And>w'. run_frame eid w w' \<Longrightarrow> runs eid n w') \<Longrightarrow> runs eid (andthen m n) w"
  unfolding andthen_def by (rule runs_seq)

lemma runs_repo_ok: "run_frame eid w w' \<Longrightarrow> repo_ok (w_repo w')"
  by (simp add: run_frame_def)

lemma runs_env: "repo_ok (w_repo w) \<Longrightarrow> no_raise m \<Longrightarrow> runs eid (in_env m) w"
  by (auto simp: wp_def in_env_def run_frame_env split: prod.split sum.split dest: no_raise_Inl)

lemma runs_trace_event:
  assumes "repo_ok (w_repo w)" "plain_detail d" "ty \<noteq> ''execution_status''"
  shows "runs eid (trace_event eid ty d now) w"
proof (cases "get_execution (w_repo w) eid")
  case (Some ex)
  then show ?thesis
    using run_frame_trace[OF assms(1) Some traced_append[OF assms(2,3)]] get_execution_id[OF assms(1) Some]
    by (simp add: trace_event_def wp_simps) (auto intro!: wp_update_execution)
qed (simp add: trace_event_def wp_simps run_frame_refl assms)

lemma runs_record_completion:
  assumes "repo_ok (w_repo w)" "st_execution_id s = eid"
  shows "runs eid (record_completion s res now) w"
proof (cases "get_execution (w_repo w) eid")
  case (Some ex)
  let ?e1 = "append_timeline ex ''step_completed'' (completed_detail s) now"
  have t1: "traced ex ?e1" by (rule traced_append) simp_all
  have t2: "traced ex (append_timeline ?e1 ''validation_performed'' (validation_detail s res) now)"
    by (rule traced_trans[OF t1 traced_append]) simp_all
  show ?thesis
    unfolding record_completion_def
    using run_frame_trace[OF assms(1) Some t1] run_frame_trace[OF assms(1) Some t2]
      get_execution_id[OF assms(1) Some] Some assms(2)
    by (auto simp: wp_simps Let_def intro!: wp_update_execution)
qed (use assms in \<open>simp add: record_completion_def wp_simps run_frame_refl\<close>)

section \<open>The work of a step\<close>

lemma runs_execute_step:
  "repo_ok (w_repo w) \<Longrightarrow> st_status s = SS_RUNNING \<Longrightarrow> runs eid (in_env (execute_step s t)) w"
  using execute_step_ok[of s t "w_env w"] by (auto simp: wp_def in_env_def run_frame_env)

lemma runs_model_fallback:
  assumes w: "repo_ok (w_repo w)" and s: "st_status s = SS_RUNNING" "st_execution_id s = eid"
  shows "runs eid (model_fallback s nm tasks now exc) w"
  unfolding model_fallback_def Let_def trace_model_reasoning_def s(2)
  by (intro runs_then runs_env no_raise_env runs_trace_event runs_execute_step)
    (use w s in \<open>auto dest: runs_repo_ok\<close>)

text \<open>Whatever the model runtime does, the exception clause returns the simulated result.\<close>

lemma runs_with_fallback:
  assumes w: "repo_ok (w_repo w)" and s: "st_status s = SS_RUNNING" "st_execution_id s = eid"
    and m: "steps (work_frame eid) m"
  shows "runs eid (try_except m (model_fallback s nm tasks now)) w"
proof -
  obtain r w' where r: "m w = (r, w')" by (cases "m w")
  have f: "run_frame eid w w'" using work_run_frame[OF stepsD[OF m r] w] .
  show ?thesis
  proof (cases r)
    case (Inl e)
    have "runs eid (model_fallback s nm tasks now e) w'"
      by (rule runs_model_fallback[OF runs_repo_ok[OF f] s])
    then have "wp (model_fallback s nm tasks now e) (\<lambda>_ u. run_frame eid w u) no_error w'"
      by (rule wp_mono) (auto intro: run_frame_trans[OF f])
    then show ?thesis using r Inl by (simp add: wp_try wp_raise)
  next
    case (Inr x)
    then show ?thesis using r f by (simp add: wp_try wp_result)
  qed
qed

text \<open>An engine without the evidence services: its steps never call tools or retrieval.\<close>

definition self_contained :: "engine \<Rightarrow> bool" where
  "self_contained eng \<longleftrightarrow> eng_tools eng = None \<or> eng_knowledge eng = None"

lemma runs_step_work:
  assumes "services_ok eng" "self_contained eng" "repo_ok (w_repo w)" "st_status s = SS_RUNNING"
    "st_execution_id s = eid"
  shows "runs eid (step_work eng s now) w"
proof -
  have "\<not> should_use_tooling eng s" using assms(2) by (auto simp: self_contained_def should_use_tooling_def)
  moreover have "runs eid (incident_model_reasoning_step mr s now) w" "runs eid (cost_model_reasoning_step mr s now) w"
    if "eng_model eng = Some mr" for mr
  proof -
    have m: "steps env_le (mr_analyze_incident mr q1)" "steps env_le (mr_validate_incident mr q2)"
      "steps env_le (mr_analyze_cost mr q3)" "steps env_le (mr_validate_cost mr q4)" for q1 q2 q3 q4
      using assms(1) that by (auto simp: services_ok_def)
    have calls: "steps (work_frame eid) (analyze_incident_call mr s d now)"
      "steps (work_frame eid) (validate_incident_call mr s d now)"
      "steps (work_frame eid) (analyze_cost_call mr s d now)"
      "steps (work_frame eid) (validate_cost_call mr s d now)" for d
      unfolding analyze_incident_call_def validate_incident_call_def analyze_cost_call_def validate_cost_call_def
      by (intro work_rules work_model_results work_in_env m work_trace_model assms(5))+
    note caught = runs_with_fallback[OF assms(3,4,5)]
    show "runs eid (incident_model_reasoning_step mr s now) w" "runs eid (cost_model_reasoning_step mr s now) w"
      unfolding incident_model_reasoning_step_def cost_model_reasoning_step_def Let_def
      using caught[OF calls(1)] caught[OF calls(2)] caught[OF calls(3)] caught[OF calls(4)] runs_execute_step[OF assms(3,4)]
      by (auto split: option.split)
  qed
  ultimately show ?thesis
    unfolding step_work_def using runs_execute_step[OF assms(3,4)]
    by (auto simp: should_use_model_def split: option.split)
qed

section \<open>Running a step of the chain\<close>

lemma steps_of_save_step:
  assumes ok: "repo_ok r" and s: "get_step r (st_id s') = Some s" "st_execution_id s' = st_execution_id s"
  shows "steps_of (save_step s' r) eid = map (\<lambda>x. if st_id x = st_id s' then s' else x) (steps_of r eid)"
proof -
  let ?f = "\<lambda>x. if st_id x = st_id s' then s' else x"
  have upd: "map snd (AList.update (st_id s') s' d) = map ?f (map snd d)"
    if "store_ok st_id d" "map_of d (st_id s') \<noteq> None" for d
    using that
  proof (induction d)
    case (Cons p d)
    have ok': "store_ok st_id d" "st_id (snd p) = fst p" "fst p \<notin> fst ` set d"
      using Cons.prems(1) by (auto simp: store_ok_def)
    have "\<forall>(k, x) \<in> set d. st_id x \<noteq> st_id s'" if "st_id s' = fst p"
      using ok' that by (force simp: store_ok_def image_iff)
    then show ?case
      using Cons.IH[OF ok'(1)] ok'(2) Cons.prems(2) by (cases p) (auto simp: fun_upd_def)
  qed simp
  have st: "store_ok st_id (r_steps r)" using ok by (simp add: repo_ok_def)
  have same: "st_execution_id (?f x) = st_execution_id x" if "x \<in> set (map snd (r_steps r))" for x
    using store_ok_values[OF st, of x] that s by (auto simp: get_step_def)
  have "filter (\<lambda>x. st_execution_id x = eid) (map ?f xs) = map ?f (filter (\<lambda>x. st_execution_id x = eid) xs)"
    if "\<And>x. x \<in> set xs \<Longrightarrow> st_execution_id (?f x) = st_execution_id x" for xs
    using that by (induction xs) simp_all
  from this[of "map snd (r_steps r)"] same upd[OF st] s(1) show ?thesis
    by (simp add: steps_of_def save_step_def get_step_def del: map_map)
qed

lemma map_replace_nth:
  assumes "distinct (map g xs)" "k < length xs" "g y = g (xs ! k)"
  shows "map (\<lambda>x. if g x = g y then y else x) xs = xs[k := y]"
proof (rule nth_equalityI)
  fix i assume i: "i < length (map (\<lambda>x. if g x = g y then y else x) xs)"
  have "g (xs ! i) = g (xs ! k) \<longleftrightarrow> i = k"
    using nth_eq_iff_index_eq[OF assms(1), of i k] i assms(2) by simp
  then show "map (\<lambda>x. if g x = g y then y else x) xs ! i = xs[k := y] ! i"
    using i assms by (simp add: nth_list_update)
qed simp

lemma map_nth_same: "k < length xs \<Longrightarrow> g y = g (xs ! k) \<Longrightarrow> map g (xs[k := y]) = map g xs"
  by (rule nth_equalityI) (auto simp: nth_list_update)

lemma steps_of_member:
  assumes "repo_ok r" "s \<in> set (steps_of r eid)"
  shows "get_step r (st_id s) = Some s" "st_execution_id s = eid"
  using assms store_ok_values[of st_id "r_steps r" s] by (auto simp: steps_of_def repo_ok_def get_step_def)

lemma steps_of_frame: "r_steps r' = r_steps r \<Longrightarrow> steps_of r' eid = steps_of r eid"
  by (simp add: steps_of_def)

lemma sort_key_constant:
  "(\<And>x. x \<in> set xs \<Longrightarrow> f x = c) \<Longrightarrow> sort_key f xs = (xs :: 'a list)"
  by (rule sort_key_id_if_sorted) (simp add: sorted_iff_nth_mono)

lemma list_steps_chain:
  assumes "chain_steps eid plan k (steps_of r eid)"
  shows "list_steps_for_execution r eid = steps_of r eid"
proof -
  obtain t where "\<And>s. s \<in> set (steps_of r eid) \<Longrightarrow> st_created_at s = t"
    using assms unfolding chain_steps_def by blast
  then have "sort_key st_created_at (steps_of r eid) = steps_of r eid" by (rule sort_key_constant)
  then show ?thesis by (simp add: list_steps_for_execution_def steps_of_def)
qed

lemma planner_step_key_done [simp]: "planner_step_key (step_done s now) = planner_step_key s"
  by (simp add: planner_step_key_def step_done_def)

lemma step_done_fields [simp]:
  "st_id (step_done s now) = st_id s" "st_execution_id (step_done s now) = st_execution_id s"
  "st_created_at (step_done s now) = st_created_at s" "st_dependencies (step_done s now) = st_dependencies s"
  "is_validation_step (step_done s now) = is_validation_step s" "st_status (step_done s now) = SS_SUCCEEDED"
  by (simp_all add: step_done_def is_validation_step_def)

lemma chain_advance:
  assumes c: "chain_steps eid plan k ss" and k: "k < length ss"
  shows "chain_steps eid plan (Suc k) (ss[k := step_done (ss ! k) now])"
proof -
  let ?ss = "ss[k := step_done (ss ! k) now]"
  have at: "?ss ! i = (if i = k then step_done (ss ! k) now else ss ! i)" if "i < length ss" for i
    using that by (simp add: nth_list_update)
  have main: "st_execution_id (?ss ! i) = eid \<and>
      st_dependencies (?ss ! i) = (if i = 0 then [] else [st_id (?ss ! (i - 1))]) \<and>
      (is_validation_step (?ss ! i) \<longleftrightarrow> Suc i = length ss) \<and>
      st_status (?ss ! i) = (if i < Suc k then SS_SUCCEEDED else SS_PENDING)" if i: "i < length ss" for i
  proof -
    have "st_execution_id (ss ! i) = eid"
      "st_dependencies (ss ! i) = (if i = 0 then [] else [st_id (ss ! (i - 1))])"
      "is_validation_step (ss ! i) \<longleftrightarrow> Suc i = length ss"
      "st_status (ss ! i) = (if i < k then SS_SUCCEEDED else SS_PENDING)"
      using c i by (simp_all add: chain_steps_def)
    moreover have "st_id (?ss ! (i - 1)) = st_id (ss ! (i - 1))"
      using i at[of "i - 1"] by (cases "i - 1 = k") simp_all
    ultimately show ?thesis unfolding at[OF i] by (cases "i = k") simp_all
  qed
  have keep: "map planner_step_key ?ss = map planner_step_key ss" "map st_id ?ss = map st_id ss"
    using k by (simp_all add: map_nth_same)
  have created: "map st_created_at ?ss = map st_created_at ss" using k by (simp add: map_nth_same)
  obtain t where "\<forall>s \<in> set ss. st_created_at s = t" using c unfolding chain_steps_def by blast
  then have "set (map st_created_at ss) \<subseteq> {t}" by auto
  then have "\<forall>s \<in> set ?ss. st_created_at s = t" unfolding created[symmetric] by auto
  then show ?thesis
    using c k main unfolding chain_steps_def keep length_list_update Suc_le_eq by blast
qed

text \<open>Running the next step of the chain: it returns, and the chain has advanced.\<close>

definition ran_step :: "uuid \<Rightarrow> nat \<Rightarrow> datetime \<Rightarrow> world \<Rightarrow> world \<Rightarrow> bool" where
  "ran_step eid k now w w' \<longleftrightarrow>
     repo_ok (w_repo w') \<and>
     steps_of (w_repo w') eid = (steps_of (w_repo w) eid)[k := step_done (steps_of (w_repo w) eid ! k) now] \<and>
     r_plans (w_repo w') = r_plans (w_repo w) \<and> r_contexts (w_repo w') = r_contexts (w_repo w) \<and>
     (\<forall>ex. get_execution (w_repo w) eid = Some ex \<longrightarrow>
        (\<exists>ex'. get_execution (w_repo w') eid = Some ex' \<and> traced ex ex'))"

lemma runs_run_step:
  assumes eng: "services_ok eng" "self_contained eng" and ok: "repo_ok (w_repo w)"
    and ss: "steps_of (w_repo w) eid = ss" "chain_steps eid plan k ss" "k < length ss"
  shows "wp (run_step eng (ss ! k) now) (\<lambda>_. ran_step eid k now w) no_error w"
proof -
  let ?s = "ss ! k"
  let ?run = "?s\<lparr>st_status := SS_RUNNING, st_updated_at := now\<rparr>"
  let ?fin = "step_done ?s now"
  let ?w1 = "w\<lparr>w_repo := save_step ?run (w_repo w)\<rparr>"
  have mem: "?s \<in> set (steps_of (w_repo w) eid)" using ss(1,3) by simp
  note s = steps_of_member[OF ok mem]
  have st: "st_status ?s = SS_PENDING" "distinct (map st_id ss)" using ss(2,3) by (simp_all add: chain_steps_def)
  have fin: "?run\<lparr>st_status := SS_SUCCEEDED, st_updated_at := now\<rparr> = ?fin" by (simp add: step_done_def)
  have ok1: "repo_ok (w_repo ?w1)" using ok by (simp add: repo_ok_saves)
  have steps1: "steps_of (w_repo ?w1) eid = ss[k := ?run]"
    using steps_of_save_step[OF ok, of ?run ?s eid] s ss map_replace_nth[OF st(2) ss(3), of ?run] by simp
  have finish: "wp (finish_step ?run res now) (\<lambda>_. ran_step eid k now w) no_error v"
    if v: "run_frame eid ?w1 v" for res v
  proof -
    let ?v1 = "v\<lparr>w_repo := save_step_result res (w_repo v)\<rparr>"
    let ?v2 = "?v1\<lparr>w_repo := save_step ?fin (w_repo ?v1)\<rparr>"
    have okv: "repo_ok (w_repo v)" "repo_ok (w_repo ?v1)" "repo_ok (w_repo ?v2)"
      using v by (simp_all add: run_frame_def repo_ok_saves)
    have stepsv: "r_steps (w_repo ?v1) = r_steps (w_repo ?w1)"
      using v by (simp add: run_frame_def save_step_result_def)
    have got: "get_step (w_repo ?v1) (st_id ?s) = Some ?run"
      using steps.get_save[of ?run "w_repo w" "st_id ?s"] unfolding get_step_def stepsv by simp
    have at: "(ss[k := ?run]) ! k = ?run" "distinct (map st_id (ss[k := ?run]))"
      using ss(3) st(2) by (simp_all add: map_nth_same)
    have new: "steps_of (w_repo ?v2) eid = ss[k := ?fin]"
      using steps_of_save_step[OF okv(2), of ?fin ?run eid] got steps_of_frame[OF stepsv, of eid] steps1
        map_replace_nth[OF at(2), of k ?fin] ss(3) by simp
    have "ran_step eid k now w u" if u: "run_frame eid ?v2 u" for u
    proof -
      have "r_plans (w_repo ?v2) = r_plans (w_repo w)" "r_contexts (w_repo ?v2) = r_contexts (w_repo w)"
        using v by (simp_all add: run_frame_def save_step_def save_step_result_def)
      moreover have "\<exists>ex'. get_execution (w_repo ?v2) eid = Some ex' \<and> traced ex ex'"
        if "get_execution (w_repo w) eid = Some ex" for ex
        using v that by (simp add: run_frame_def)
      moreover have "steps_of (w_repo u) eid = ss[k := ?fin]"
        using u new by (simp add: run_frame_def steps_of_frame[of "w_repo u" "w_repo ?v2"])
      moreover have "\<exists>ex2. get_execution (w_repo u) eid = Some ex2 \<and> traced ex1 ex2"
        if "get_execution (w_repo ?v2) eid = Some ex1" for ex1
        using u that unfolding run_frame_def by blast
      ultimately show ?thesis
        using u ss(1) traced_trans unfolding run_frame_def ran_step_def by simp blast
    qed
    moreover have "runs eid (record_completion ?fin res now) ?v2"
      by (rule runs_record_completion[OF okv(3)]) (simp add: s)
    ultimately have "wp (record_completion ?fin res now) (\<lambda>_. ran_step eid k now w) no_error ?v2"
      by (auto elim: wp_mono)
    then show ?thesis
      unfolding finish_step_def fin Let_def wp_andthen wp_on_repo wp_validate_step
      using got by (auto simp: step_allowed_def intro!: wp_update_step)
  qed
  show ?thesis
    unfolding run_step_def wp_bnd wp_ask s(1) option.case wp_andthen wp_validate_step st Let_def
    apply (simp add: step_allowed_def)
    apply (rule wp_update_step)
     apply (simp add: s(1))
    subgoal
    proof -
      have trace: "runs eid (trace_event (st_execution_id ?s) ''step_started'' (completed_detail ?s) now) ?w1"
        unfolding s(2) by (rule runs_trace_event[OF ok1]) simp_all
      have work: "runs eid (step_work eng ?run now) u" if "run_frame eid ?w1 u" for u
        by (rule runs_step_work[OF eng runs_repo_ok[OF that]]) (simp_all add: s(2))
      show ?thesis
        by (rule wp_mono[OF trace]; simp?; rule wp_mono[OF work]; simp?)
          (auto intro: finish run_frame_trans)
    qed
    done
qed

section \<open>Turns of the loop\<close>

lemma chain_phases:
  assumes c: "chain_steps eid plan k ss"
  shows "filter is_validation_step ss \<noteq> []" "filter (\<lambda>s. \<not> is_validation_step s) ss \<noteq> []"
    "list_all (\<lambda>s. st_status s = SS_SUCCEEDED) (filter (\<lambda>s. \<not> is_validation_step s) ss) \<longleftrightarrow> length ss \<le> Suc k"
    "list_ex (\<lambda>s. st_status s = SS_PENDING) (filter is_validation_step ss) \<longleftrightarrow> k < length ss"
    "list_all (\<lambda>s. st_status s = SS_SUCCEEDED) ss \<longleftrightarrow> k = length ss"
proof -
  let ?n = "length ss"
  have n: "2 \<le> ?n" "k \<le> ?n" using c by (simp_all add: chain_steps_def)
  then have ne: "ss \<noteq> []" by auto
  have v: "is_validation_step (ss ! i) \<longleftrightarrow> Suc i = ?n"
    and st: "st_status (ss ! i) = (if i < k then SS_SUCCEEDED else SS_PENDING)" if "i < ?n" for i
    using c that by (simp_all add: chain_steps_def)
  have filtered: "list_all P (filter R ss) \<longleftrightarrow> (\<forall>i < ?n. R (ss ! i) \<longrightarrow> P (ss ! i))"
    "list_ex P (filter R ss) \<longleftrightarrow> (\<exists>i < ?n. R (ss ! i) \<and> P (ss ! i))" for P R
    by (auto simp: list_all_iff list_ex_iff in_set_conv_nth)
  have "ss ! (?n - 1) \<in> set (filter is_validation_step ss)" "ss ! 0 \<in> set (filter (\<lambda>s. \<not> is_validation_step s) ss)"
    using n(1) ne v[of 0] v[of "?n - 1"] by (auto intro!: nth_mem)
  then show "filter is_validation_step ss \<noteq> []" "filter (\<lambda>s. \<not> is_validation_step s) ss \<noteq> []"
    by (metis empty_iff empty_set)+
  have "list_all (\<lambda>s. st_status s = SS_SUCCEEDED) (filter (\<lambda>s. \<not> is_validation_step s) ss)
      \<longleftrightarrow> (\<forall>i < ?n. Suc i \<noteq> ?n \<longrightarrow> i < k)"
    unfolding filtered(1) using v st by auto
  also have "\<dots> \<longleftrightarrow> ?n \<le> Suc k"
  proof
    assume "\<forall>i < ?n. Suc i \<noteq> ?n \<longrightarrow> i < k"
    then have "?n - 2 < k" using n(1) by auto
    then show "?n \<le> Suc k" using n(1) by arith
  qed auto
  finally show "list_all (\<lambda>s. st_status s = SS_SUCCEEDED) (filter (\<lambda>s. \<not> is_validation_step s) ss) \<longleftrightarrow> ?n \<le> Suc k" .
  have "list_ex (\<lambda>s. st_status s = SS_PENDING) (filter is_validation_step ss)
      \<longleftrightarrow> (\<exists>i < ?n. Suc i = ?n \<and> \<not> i < k)"
    unfolding filtered(2) using v st by auto
  also have "\<dots> \<longleftrightarrow> k < ?n" using n by (auto intro!: exI[of _ "?n - 1"])
  finally show "list_ex (\<lambda>s. st_status s = SS_PENDING) (filter is_validation_step ss) \<longleftrightarrow> k < ?n" .
  have "list_all (\<lambda>s. st_status s = SS_SUCCEEDED) ss \<longleftrightarrow> (\<forall>i < ?n. i < k)"
    unfolding list_all_iff all_set_conv_all_nth using st by auto
  also have "\<dots> \<longleftrightarrow> k = ?n" using n by (metis le_antisym less_irrefl not_less)
  finally show "list_all (\<lambda>s. st_status s = SS_SUCCEEDED) ss \<longleftrightarrow> k = ?n" .
qed

text \<open>What does not change of the execution during the run.\<close>

definition run_facts :: "string \<Rightarrow> exec_context \<Rightarrow> execution_plan \<Rightarrow> execution \<Rightarrow> bool" where
  "run_facts wt ctx plan ex \<longleftrightarrow>
     ex_workflow_type ex = wt \<and> ex_context_id ex = ctx_id ctx \<and> ex_plan_id ex = Some (pl_id plan) \<and>
     \<not> is_cancellation_requested ex"

lemma traced_run_facts: "traced ex ex' \<Longrightarrow> run_facts wt ctx plan ex' = run_facts wt ctx plan ex"
  by (auto simp: run_facts_def traced_def is_cancellation_requested_def read_runtime_meta_def)

text \<open>The state of a run before the turn that takes step \<open>k\<close> of \<open>n\<close>.\<close>

definition at_step :: "uuid \<Rightarrow> string \<Rightarrow> exec_context \<Rightarrow> execution_plan \<Rightarrow> nat \<Rightarrow> nat \<Rightarrow> world \<Rightarrow> bool" where
  "at_step eid wt ctx plan n k w \<longleftrightarrow>
     repo_ok (w_repo w) \<and> get_plan (w_repo w) (pl_id plan) = Some plan \<and>
     get_context (w_repo w) (ctx_id ctx) = Some ctx \<and>
     length (steps_of (w_repo w) eid) = n \<and> chain_steps eid plan k (steps_of (w_repo w) eid) \<and>
     (\<exists>ex. get_execution (w_repo w) eid = Some ex \<and> run_facts wt ctx plan ex \<and>
        ex_status ex = (if k < n then ES_EXECUTING else ES_VALIDATING))"

definition phase :: "nat \<Rightarrow> nat \<Rightarrow> execution_status" where
  "phase n k = (if Suc k < n then ES_EXECUTING else ES_VALIDATING)"

lemma phase_open [simp]: "\<not> is_execution_terminal (phase n k)" "phase n k \<noteq> ES_AWAITING_APPROVAL"
  by (simp_all add: phase_def lifecycle_tables)

text \<open>The first half of a turn brings the execution into the phase of the step to come.\<close>

lemma wp_enter_phase:
  assumes c: "chain_steps eid plan k ss" and ex: "run_facts wt ctx plan ex"
    "ex_status ex = (if k < length ss then ES_EXECUTING else ES_VALIDATING)"
    and Q: "\<And>ex'. ex_id ex' = ex_id ex \<Longrightarrow> run_facts wt ctx plan ex' \<Longrightarrow> ex_status ex' = phase (length ss) k \<Longrightarrow>
      Q ex' w"
  shows "wp (maybe_enter_validating ex ss now) Q no_error w"
proof -
  let ?ex = "status_row (ex\<lparr>ex_status := ES_VALIDATING, ex_updated_at := now\<rparr>) ES_VALIDATING [] now"
  have "run_facts wt ctx plan ?ex"
    using ex(1) by (simp add: run_facts_def is_cancellation_requested_def read_runtime_meta_def status_row_def
        append_timeline_def)
  moreover have "(ES_EXECUTING, ES_VALIDATING) \<in> set execution_allowed" by (simp add: execution_allowed_def)
  moreover have "k \<le> length ss" using c by (simp add: chain_steps_def)
  ultimately show ?thesis
    unfolding maybe_enter_validating_def Let_def
    using ex chain_phases[OF c] Q[of ?ex] Q[of ex]
    by (auto simp: wp_simps validate_execution_ok phase_def)
qed

lemma at_step_execution:
  assumes "at_step eid wt ctx plan n k w"
  obtains ex where "get_execution (w_repo w) eid = Some ex" "ex_id ex = eid" "run_facts wt ctx plan ex"
    "ex_status ex = (if k < n then ES_EXECUTING else ES_VALIDATING)"
  using assms get_execution_id unfolding at_step_def by blast

text \<open>A turn that has a step to run continues, with the step done.\<close>

lemma wp_turn_step:
  assumes eng: "services_ok eng" "self_contained eng" and at: "at_step eid wt ctx plan n k w" and k: "k < n"
  shows "wp (loop_turn eng eid) (\<lambda>r w'. r = None \<and> at_step eid wt ctx plan n (Suc k) w') no_error w"
proof -
  obtain ex where ex: "get_execution (w_repo w) eid = Some ex" "ex_id ex = eid" "run_facts wt ctx plan ex"
    "ex_status ex = (if k < n then ES_EXECUTING else ES_VALIDATING)"
    using at_step_execution[OF at] .
  have r: "repo_ok (w_repo w)" "get_plan (w_repo w) (pl_id plan) = Some plan"
    "get_context (w_repo w) (ctx_id ctx) = Some ctx"
    and c: "length (steps_of (w_repo w) eid) = n" "chain_steps eid plan k (steps_of (w_repo w) eid)"
    using at by (simp_all add: at_step_def)
  let ?ss = "steps_of (w_repo w) eid"
  have dispatch: "wp (dispatch_step eng eid plan now) (\<lambda>r w'. r = None \<and> at_step eid wt ctx plan n (Suc k) w') no_error v"
    if v: "w_repo v = save_execution ex1 (w_repo w)" and e: "ex_id ex1 = eid" "run_facts wt ctx plan ex1"
      "ex_status ex1 = phase n k" for v ex1 now
  proof -
    have same: "steps_of (w_repo v) eid = ?ss" using v by (simp add: steps_of_def)
    have cv: "chain_steps eid plan k (steps_of (w_repo v) eid)" using c(2) same by simp
    have okv: "repo_ok (w_repo v)" using v r(1) by (simp add: repo_ok_saves)
    have get: "get_execution (w_repo v) eid = Some ex1" using v e(1) by (simp add: executions.get_save)
    have after: "at_step eid wt ctx plan n (Suc k) u" if u: "ran_step eid k now v u" for u
    proof -
      have "chain_steps eid plan (Suc k) (steps_of (w_repo u) eid)" "length (steps_of (w_repo u) eid) = n"
        using u same chain_advance[OF c(2)] c(1) k by (simp_all add: ran_step_def)
      moreover obtain ex2 where "get_execution (w_repo u) eid = Some ex2" "traced ex1 ex2"
        using u get unfolding ran_step_def by blast
      moreover have "get_plan (w_repo u) (pl_id plan) = Some plan" "get_context (w_repo u) (ctx_id ctx) = Some ctx"
        using u v r by (simp_all add: ran_step_def get_plan_def get_context_def)
      ultimately show ?thesis
        using u e traced_run_facts[of ex1 ex2] traced_fields[of ex1 ex2]
        by (auto simp: at_step_def ran_step_def phase_def)
    qed
    have run: "wp (run_step eng (?ss ! k) now) (\<lambda>_. at_step eid wt ctx plan n (Suc k)) no_error v"
      by (rule wp_mono[OF runs_run_step[OF eng okv same c(2)]]) (rule after | use k c(1) in simp)+
    show ?thesis
      unfolding dispatch_step_def load_execution_def wp_bnd wp_ask get option.case wp_ret e(3)
      using k c(1)
      by (simp add: list_steps_chain[OF cv] chain_plan_order[OF c(2)] chain_next_ready[OF c(2)] same wp_simps)
        (rule wp_mono[OF run]; simp add: wp_ret)
  qed
  show ?thesis
    unfolding loop_turn_def load_execution_def active_turn_def resolve_plan_def wp_bnd wp_ask ex(1) option.case wp_ret
    using ex(3,4) k r(2)
    apply (simp add: run_facts_def wp_simps lifecycle_tables list_steps_chain[OF c(2)])
    apply (rule wp_clock)
    apply (unfold wp_bnd)
    apply (rule wp_enter_phase[OF c(2) ex(3)])
     apply (simp add: ex(4) c(1))
    apply (unfold wp_andthen)
    apply (rule wp_update_execution)
     apply (simp add: ex(1,2))
    subgoal for x e ex' by (rule dispatch[of _ ex']) (simp_all add: ex(2) c(1))
    done
qed

section \<open>The last turn\<close>

text \<open>The status that ends a run: by the decision of the evaluator for an incident triage.\<close>

definition decided :: "string \<Rightarrow> policy_decision \<Rightarrow> execution_status" where
  "decided wt d =
     (if wt \<noteq> ''incident_triage'' then ES_COMPLETED
      else case d of PD_ALLOW \<Rightarrow> ES_COMPLETED | PD_DENY \<Rightarrow> ES_FAILED | PD_CONDITIONAL \<Rightarrow> ES_AWAITING_APPROVAL)"

definition ends_decided :: "uuid \<Rightarrow> execution_status \<Rightarrow> execution \<Rightarrow> world \<Rightarrow> bool" where
  "ends_decided eid st ex w \<longleftrightarrow>
     ex_status ex = st \<and> get_execution (w_repo w) eid = Some ex \<and>
     (\<forall>s \<in> set (list_steps_for_execution (w_repo w) eid). st_status s = SS_SUCCEEDED)"

lemma ends_decidedE:
  assumes "ends_decided eid st ex w"
  obtains "get_execution (w_repo w) eid = Some ex" "ex_status ex = st"
    "\<forall>s \<in> set (list_steps_for_execution (w_repo w) eid). st_status s = SS_SUCCEEDED"
  using assms by (auto simp: ends_decided_def)

lemma update_ends:
  assumes "get_execution (w_repo v) (ex_id ex) \<noteq> None" "ex_status ex = st"
    "\<forall>s \<in> set (list_steps_for_execution (w_repo v) (ex_id ex)). st_status s = SS_SUCCEEDED"
  shows "wp (andthen (in_repo (update_execution ex)) (ret ex)) (ends_decided (ex_id ex) st) no_error v"
  using assms unfolding wp_andthen wp_ret
  by (intro wp_update_execution) (auto simp: ends_decided_def executions.get_save list_steps_for_execution_def)

lemma policy_never_raises: "no_raise (record_policy_evaluation d)"
  unfolding record_policy_evaluation_def by (cases d; simp; intro no_raise_rules no_raise_env)

lemma wp_evaluate_proposal:
  assumes "\<And>e. Q (ev ctx p) (v\<lparr>w_env := e\<rparr>)"
  shows "wp (in_env (evaluate_proposal ev ctx p)) Q no_error v"
  using assms policy_never_raises[of "pd_decision (ev ctx p)"]
  by (auto simp: wp_def in_env_def evaluate_proposal_def Let_def andthen_def bnd_def ret_def
      split: prod.split sum.split dest: no_raise_Inl)

lemma saves_keep_steps [simp]:
  "r_steps (save_action_proposal p r) = r_steps r" "r_steps (save_policy_evaluation e r) = r_steps r"
  by (simp_all add: save_action_proposal_def save_policy_evaluation_def)

lemma wp_finalize:
  assumes ex: "ex_status ex = ES_VALIDATING" "get_context (w_repo w) (ex_context_id ex) = Some ctx"
    and d: "\<And>p. ap_action_type p = ''escalate_incident'' \<Longrightarrow> pd_decision (eng_policy eng ctx p) = d"
  shows "wp (finalize_incident_triage_governance eng ex ss now)
    (\<lambda>ex' v. ex_id ex' = ex_id ex \<and> ex_status ex' = decided ''incident_triage'' d \<and>
       get_execution (w_repo v) = get_execution (w_repo w) \<and> r_steps (w_repo v) = r_steps (w_repo w)) no_error w"
proof -
  have finish: "wp (finish_evaluated ctx ex1 p (eng_policy eng ctx p) evid base summary now)
      (\<lambda>ex' v. ex_id ex' = ex_id ex \<and> ex_status ex' = decided ''incident_triage'' d \<and>
         get_execution (w_repo v) = get_execution (w_repo w) \<and> r_steps (w_repo v) = r_steps (w_repo w)) no_error v"
    if "ap_action_type p = ''escalate_incident''" "ex_id ex1 = ex_id ex"
      "get_execution (w_repo v) = get_execution (w_repo w)" "r_steps (w_repo v) = r_steps (w_repo w)"
    for p ex1 evid base summary v
    unfolding finish_evaluated_def d[OF that(1)] finish_denied_def finish_allowed_def finish_conditional_def
      validate_execution_ok[OF validating_exits(1)] validate_execution_ok[OF validating_exits(2)]
      validate_execution_ok[OF validating_exits(3)]
    using that by (cases d) (simp_all add: wp_simps Let_def decided_def)
  show ?thesis
    unfolding finalize_incident_triage_governance_def evaluate_and_finish_def wp_bnd wp_ask ex(2) option.case
      Let_def wp_uuid4 wp_andthen wp_on_repo
    by (rule wp_evaluate_proposal) (simp add: wp_uuid4 finish escalation_proposal_def)
qed

lemma wp_complete:
  assumes ex: "ex_status ex = ES_VALIDATING" "get_context (w_repo w) (ex_context_id ex) = Some ctx"
    "get_execution (w_repo w) (ex_id ex) \<noteq> None"
    and ss: "\<forall>s \<in> set (list_steps_for_execution (w_repo w) (ex_id ex)). st_status s = SS_SUCCEEDED"
    and d: "\<And>p. ap_action_type p = ''escalate_incident'' \<Longrightarrow> pd_decision (eng_policy eng ctx p) = d"
  shows "wp (complete_execution eng ex ss' now) (ends_decided (ex_id ex) (decided (ex_workflow_type ex) d)) no_error w"
proof (cases "ex_workflow_type ex = ''incident_triage''")
  case False
  then show ?thesis
    unfolding complete_execution_def if_not_P[OF False] validate_execution_ok[OF validating_exits(2)]
    using update_ends[of w "status_row (ex\<lparr>ex_status := ES_COMPLETED, ex_updated_at := now, ex_completed_at := Some now,
          ex_validation_summary := Some (validation_summary_from_steps (w_repo w) ss'),
          ex_result := Some (build_completion_result (w_repo w) ex ss')\<rparr>) ES_COMPLETED [] now" ES_COMPLETED]
      ex ss by (simp add: wp_bnd wp_ask wp_andthen[of "ret ()"] wp_ret Let_def decided_def)
next
  case True
  have keep: "list_steps_for_execution (w_repo v) k = list_steps_for_execution (w_repo w) k"
    if "r_steps (w_repo v) = r_steps (w_repo w)" for v k
    using that by (simp add: list_steps_for_execution_def)
  show ?thesis
    unfolding complete_execution_def if_P[OF True] wp_bnd
    apply (rule wp_mono[OF wp_finalize[OF ex(1,2) d]], assumption)
    subgoal for ex' v
      using update_ends[of v ex' "decided ''incident_triage'' d"] ex(3) ss True keep[of v "ex_id ex"] by simp
    subgoal by simp
    done
qed

text \<open>A turn with no step left ends the run.\<close>

lemma wp_turn_last:
  assumes at: "at_step eid wt ctx plan n n w"
    and d: "\<And>p. ap_action_type p = ''escalate_incident'' \<Longrightarrow> pd_decision (eng_policy eng ctx p) = d"
  shows "wp (loop_turn eng eid) (\<lambda>r w'. \<exists>ex. r = Some ex \<and> ends_decided eid (decided wt d) ex w') no_error w"
proof -
  obtain ex where ex: "get_execution (w_repo w) eid = Some ex" "ex_id ex = eid" "run_facts wt ctx plan ex"
    "ex_status ex = ES_VALIDATING"
    using at_step_execution[OF at] by auto
  have r: "repo_ok (w_repo w)" "get_plan (w_repo w) (pl_id plan) = Some plan"
    "get_context (w_repo w) (ctx_id ctx) = Some ctx"
    and c: "length (steps_of (w_repo w) eid) = n" "chain_steps eid plan n (steps_of (w_repo w) eid)"
    using at by (simp_all add: at_step_def)
  let ?ss = "steps_of (w_repo w) eid"
  have all_done: "list_all (\<lambda>s. st_status s = SS_SUCCEEDED) ?ss" using chain_phases(5)[OF c(2)] c(1) by simp
  have dispatch: "wp (dispatch_step eng eid plan now)
      (\<lambda>r w'. \<exists>ex. r = Some ex \<and> ends_decided eid (decided wt d) ex w') no_error v"
    if v: "w_repo v = save_execution ex1 (w_repo w)" and e: "ex_id ex1 = eid" "run_facts wt ctx plan ex1"
      "ex_status ex1 = ES_VALIDATING" for v ex1 now
  proof -
    have get: "get_execution (w_repo v) eid = Some ex1" using v e(1) by (simp add: executions.get_save)
    have ss: "list_steps_for_execution (w_repo v) eid = ?ss"
      using list_steps_chain[OF c(2)] v by (simp add: list_steps_for_execution_def)
    have "wp (complete_execution eng ex1 ?ss t) (ends_decided eid (decided wt d)) no_error u" if "w_repo u = w_repo v" for u t
    proof -
      have "wp (complete_execution eng ex1 ?ss t) (ends_decided (ex_id ex1) (decided (ex_workflow_type ex1) d)) no_error u"
        using that get r(3) v all_done e ss
        by (intro wp_complete[OF e(3) _ _ _ d]) (simp_all add: run_facts_def get_context_def list_all_iff)
      then show ?thesis using e(1,2) by (simp add: run_facts_def)
    qed
    note finish = wp_mono[OF this]
    show ?thesis
      unfolding dispatch_step_def load_execution_def wp_bnd wp_ask get option.case wp_ret
      using c(1) all_done e(3)
      apply (simp add: ss chain_plan_order[OF c(2)] chain_next_ready[OF c(2)] no_ready_step_def wp_bnd wp_ask lifecycle_tables)
      apply (rule wp_clock)
      apply (rule finish)
      apply (simp_all add: wp_ret)
      done
  qed
  show ?thesis
    unfolding loop_turn_def load_execution_def active_turn_def resolve_plan_def wp_bnd wp_ask ex(1) option.case wp_ret
    using ex(3,4) r(2)
    apply (simp add: run_facts_def wp_simps lifecycle_tables list_steps_chain[OF c(2)])
    apply (rule wp_clock)
    apply (unfold wp_bnd)
    apply (rule wp_enter_phase[OF c(2) ex(3)])
     apply (simp add: ex(4) c(1))
    apply (unfold wp_andthen)
    apply (rule wp_update_execution)
     apply (simp add: ex(1,2))
    subgoal for x e ex' by (rule dispatch[of _ ex']) (simp_all add: ex(2) c(1) phase_def)
    done
qed

end
