(* ===== verification/Run_Outcome.thy ===== *)
theory Run_Outcome
  imports Engine_Progress
begin

text \<open>
  The outcome of a whole run: planning lays out the chain of steps, each turn of the loop does the
  next one, and the last turn decides.  \<open>wp_create_start\<close> composes the service calls: an execution
  that is created and started ends as its policy decision says, whatever the model runtime does.
\<close>

section \<open>Planning\<close>

lemmas instantiate_defs = plan_of_def workflow_shape_def plan_count_def next_ids_def upt_rec numeral_eq_Suc
  instantiate_steps_def req_str_def bnd_def ret_def uuid4_def spec_row_def edge_row_def build_step_def
  step_agent_def dget_def py_or_def chain_steps_def planner_step_key_def is_validation_step_def
  step_type_of_kind_def

lemma all_less_Suc: "(\<forall>i < Suc n. P i) \<longleftrightarrow> P n \<and> (\<forall>i < n. P i)"
  by (auto simp: less_Suc_eq)

lemma instantiate_chain:
  assumes p: "plan_of (ex_workflow_type ex) ks p" and ks: "distinct ks"
    and ids: "distinct (next_ids e (env_uuid_ix e) (plan_count (ex_workflow_type ex)))"
  shows "\<exists>ss. instantiate_steps cfg p ex now e
      = (Inr ss, e\<lparr>env_uuid_ix := env_uuid_ix e + plan_count (ex_workflow_type ex)\<rparr>) \<and>
    map st_id ss = next_ids e (env_uuid_ix e) (plan_count (ex_workflow_type ex)) \<and>
    chain_steps (ex_id ex) p 0 ss"
proof -
  have chars: "\<exists>us. distinct us \<and> map Some ks = map Some us" by (rule exI[of _ ks]) (simp add: ks)
  have mirror: "distinct (rev ks)" using ks by simp
  consider "ex_workflow_type ex = ''incident_triage''" | "ex_workflow_type ex = ''cost_attribution''"
    | "ex_workflow_type ex \<noteq> ''incident_triage''" "ex_workflow_type ex \<noteq> ''cost_attribution''" by blast
  then show ?thesis
  proof cases
    case 1
    then obtain a b c where "ks = [a, b, c]"
      using p by (auto simp: plan_of_def workflow_shape_def length_Suc_conv numeral_eq_Suc)
    then show ?thesis using 1 p ks ids chars mirror by (simp add: instantiate_defs all_less_Suc)
  next
    case 2
    then obtain a b c d where "ks = [a, b, c, d]"
      using p by (auto simp: plan_of_def workflow_shape_def length_Suc_conv numeral_eq_Suc)
    then show ?thesis using 2 p ks ids chars mirror by (simp add: instantiate_defs all_less_Suc)
  next
    case 3
    then obtain a b where "ks = [a, b]"
      using p by (auto simp: plan_of_def workflow_shape_def length_Suc_conv numeral_eq_Suc)
    then show ?thesis using 3 p ks ids chars mirror by (simp add: instantiate_defs all_less_Suc)
  qed
qed

section \<open>The run\<close>

lemma wp_run_loop:
  assumes eng: "services_ok eng" "self_contained eng"
    and d: "\<And>p. ap_action_type p = ''escalate_incident'' \<Longrightarrow> pd_decision (eng_policy eng ctx p) = d"
    and at: "at_step eid wt ctx plan n k w" and fuel: "n < fuel + k"
  shows "wp (run_loop fuel eng eid) (ends_decided eid (decided wt d)) no_error w"
  using at fuel
proof (induction fuel arbitrary: k w)
  case 0
  then show ?case by (simp add: at_step_def chain_steps_def)
next
  case (Suc fuel)
  have "k \<le> n" using Suc.prems(1) by (auto simp: at_step_def chain_steps_def)
  then consider "k < n" | "k = n" by linarith
  then show ?case
  proof cases
    case 1
    have "wp (run_loop fuel eng eid) (ends_decided eid (decided wt d)) no_error v"
      if "at_step eid wt ctx plan n (Suc k) v" for v
      using Suc.IH[OF that] Suc.prems(2) by simp
    then show ?thesis
      unfolding run_loop.simps wp_bnd
      by (intro wp_mono[OF wp_turn_step[OF eng Suc.prems(1) 1]]) auto
  next
    case 2
    then show ?thesis
      unfolding run_loop.simps wp_bnd
      using Suc.prems(1) by (intro wp_mono[OF wp_turn_last[OF _ d]]) (auto simp: wp_ret)
  qed
qed

lemma wp_save_steps:
  "Q () (w\<lparr>w_repo := fold save_step ss (w_repo w)\<rparr>) \<Longrightarrow> wp (for_each ss (\<lambda>s. on_repo (save_step s))) Q E w"
  by (induction ss arbitrary: w) (simp_all add: wp_simps)

lemma fold_save_steps:
  assumes "repo_ok r" "distinct (map st_id ss)" "\<forall>s \<in> set ss. st_execution_id s = eid \<and> get_step r (st_id s) = None"
  shows "repo_ok (fold save_step ss r) \<and> steps_of (fold save_step ss r) eid = steps_of r eid @ ss \<and>
    get_execution (fold save_step ss r) = get_execution r \<and> r_plans (fold save_step ss r) = r_plans r \<and>
    r_contexts (fold save_step ss r) = r_contexts r"
  using assms
proof (induction ss arbitrary: r)
  case (Cons s ss)
  have new: "st_id s \<notin> fst ` set (r_steps r)"
    using Cons.prems(3) by (simp add: get_step_def map_of_eq_None_iff)
  have "\<forall>t \<in> set ss. st_execution_id t = eid \<and> get_step (save_step s r) (st_id t) = None"
    using Cons.prems by (auto simp: steps.get_save) (metis imageI)
  with Cons.IH[of "save_step s r"] Cons.prems show ?case
    by (auto simp: repo_ok_saves) (simp_all add: steps_of_def save_step_def update_new[OF new] get_execution_def)
qed simp

lemma wp_clock_exact:
  assumes "\<And>x e. env_uuids e = env_uuids (w_env w) \<Longrightarrow> env_uuid_ix e = env_uuid_ix (w_env w) \<Longrightarrow> Q x (w\<lparr>w_env := e\<rparr>)"
  shows "wp (in_env utc_now) Q E w" "wp (in_env (now_or_clock t)) Q E w"
  using assms assms[of "w_env w"] by (auto simp: wp_def in_env_def utc_now_def now_or_clock_def ret_def split: option.split)

lemma wp_in_env_result: "m (w_env w) = (Inr x, e) \<Longrightarrow> wp (in_env m) Q E w = Q x (w\<lparr>w_env := e\<rparr>)"
  by (simp add: wp_def in_env_def)

lemma wp_make_plan:
  fixes w :: world
  defines "e \<equiv> w_env w" and "ix \<equiv> env_uuid_ix (w_env w)"
  assumes ok: "repo_ok (w_repo w)" and none: "steps_of (w_repo w) eid = []"
    and ex: "ex_id ex = eid" "get_execution (w_repo w) eid \<noteq> None" "ex_status ex = ES_PLANNING"
      "ex_workflow_type ex = wt" "\<not> is_cancellation_requested ex"
    and ctx: "get_context (w_repo w) (ex_context_id ex) = Some ctx"
    and keys: "distinct (map uuid_str (next_ids e (Suc ix) (plan_count wt)))"
    and ids: "distinct (next_ids e (Suc ix + plan_count wt) (plan_count wt))"
      "\<forall>u \<in> set (next_ids e (Suc ix + plan_count wt) (plan_count wt)). get_step (w_repo w) u = None"
  shows "wp (make_plan eng ex now) (\<lambda>_ v. \<exists>plan. at_step eid wt ctx plan (plan_count wt) 0 v) no_error w"
proof -
  let ?n = "plan_count wt"
  let ?e1 = "e\<lparr>env_uuid_ix := Suc ix + ?n\<rparr>" 
  obtain p where p: "create_plan (eng_planner_meta eng) ex (Some now) e = (Inr p, ?e1)"
    "plan_of wt (map uuid_str (next_ids e (Suc ix) ?n)) p"
    using create_plan_eq[of "Some now" now "eng_planner_meta eng" ex e] ex(4) by (auto simp: ix_def e_def)
  have next1: "next_ids (e\<lparr>env_uuid_ix := j\<rparr>) i m = next_ids e i m" for i m j by (simp add: next_ids_def)
  obtain ss where ss: "instantiate_steps (eng_settings eng) p ex now ?e1
      = (Inr ss, ?e1\<lparr>env_uuid_ix := Suc ix + ?n + ?n\<rparr>)"
    "map st_id ss = next_ids e (Suc ix + ?n) ?n" "chain_steps eid p 0 ss"
    using instantiate_chain[of ex _ p ?e1 "eng_settings eng" now, OF _ keys] p(2) ids(1) ex(1,4)
    by (auto simp: next1)
  let ?ex = "status_row (ex\<lparr>ex_plan_id := Some (pl_id p), ex_status := ES_EXECUTING, ex_updated_at := now\<rparr>)
     ES_EXECUTING [(''plan_id'', PStr (uuid_str (pl_id p)))] now"
  let ?r1 = "save_plan p (w_repo w)"
  let ?r2 = "fold save_step ss ?r1"
  have "\<forall>s \<in> set ss. st_execution_id s = eid"
    using ss(3) by (auto simp: chain_steps_def in_set_conv_nth)
  moreover have "\<forall>s \<in> set ss. get_step ?r1 (st_id s) = None"
    using ids(2) unfolding ss(2)[symmetric] by simp
  moreover have "distinct (map st_id ss)" using ids(1) ss(2) by simp
  moreover have r1: "repo_ok ?r1" "steps_of ?r1 eid = []" "r_contexts ?r1 = r_contexts (w_repo w)"
    using ok none by (simp_all add: repo_ok_saves) (simp_all add: steps_of_def save_plan_def)
  ultimately have "repo_ok ?r2 \<and> steps_of ?r2 eid = [] @ ss \<and> get_execution ?r2 = get_execution ?r1 \<and>
      r_plans ?r2 = r_plans ?r1 \<and> r_contexts ?r2 = r_contexts ?r1"
    using fold_save_steps[OF r1(1), of ss eid] by auto
  then have r2: "repo_ok ?r2" "steps_of ?r2 eid = ss" "get_execution ?r2 = get_execution (w_repo w)"
    "r_plans ?r2 = r_plans ?r1" "r_contexts ?r2 = r_contexts (w_repo w)"
    using r1(3) by simp_all
  have len: "length ss = ?n" using arg_cong[OF ss(2), of length] by (simp add: next_ids_def)
  have facts: "run_facts wt ctx p ?ex"
    using ex(4,5) ok ctx by (auto simp: run_facts_def is_cancellation_requested_def read_runtime_meta_def
        status_row_def append_timeline_def dest: get_context_id)
  have "at_step eid wt ctx p ?n 0 (v\<lparr>w_repo := save_execution ?ex ?r2\<rparr>)" for v :: world
    using r2 facts ss(3) len ex(1) ok ctx plan_count_cases[of wt]
    by (auto simp: at_step_def repo_ok_saves steps_of_def executions.get_save get_context_def get_plan_def
        save_plan_def dest: get_context_id)
  note final = this
  have plan: "wp (in_env (create_plan (eng_planner_meta eng) ex (Some now))) Q E w = Q p (w\<lparr>w_env := ?e1\<rparr>)" for Q E
    by (rule wp_in_env_result) (use p(1) in \<open>simp add: e_def\<close>)
  have inst: "wp (in_env (instantiate_steps (eng_settings eng) p ex now)) Q E v
      = Q ss (v\<lparr>w_env := ?e1\<lparr>env_uuid_ix := Suc ix + ?n + ?n\<rparr>\<rparr>)" if "w_env v = ?e1" for Q E v
    by (rule wp_in_env_result) (simp only: that ss(1))
  have ok_exit: "(ES_PLANNING, ES_EXECUTING) \<in> set execution_allowed" by (simp add: execution_allowed_def)
  show ?thesis
    unfolding make_plan_def wp_bnd plan wp_andthen wp_on_repo validate_execution_ok[OF ok_exit] wp_ret Let_def
    apply (subst inst)
     apply simp
    apply (rule wp_save_steps, rule wp_update_execution)
    using r2(3) ex(1,2) apply simp
    using final by auto
qed

section \<open>From creation to the end\<close>

lemma wp_start_created:
  fixes w :: world
  defines "e \<equiv> w_env w" and "ix \<equiv> env_uuid_ix (w_env w)"
  assumes eng: "services_ok eng" "self_contained eng"
    and d: "\<And>p. ap_action_type p = ''escalate_incident'' \<Longrightarrow> pd_decision (eng_policy eng ctx p) = d"
    and ok: "repo_ok (w_repo w)" and none: "steps_of (w_repo w) eid = []"
    and ex: "get_execution (w_repo w) eid = Some ex" "ex_status ex = ES_CREATED"
      "ex_workflow_type ex = wt" "\<not> is_cancellation_requested ex"
    and ctx: "get_context (w_repo w) (ex_context_id ex) = Some ctx"
    and keys: "distinct (map uuid_str (next_ids e (Suc ix) (plan_count wt)))"
    and ids: "distinct (next_ids e (Suc ix + plan_count wt) (plan_count wt))"
      "\<forall>u \<in> set (next_ids e (Suc ix + plan_count wt) (plan_count wt)). get_step (w_repo w) u = None"
  shows "wp (start_execution eng eid) (ends_decided eid (decided wt d)) no_error w"
proof -
  note id = get_execution_id[OF ok ex(1)]
  have loop: "wp (run_loop (Suc (length (list_steps_for_execution (w_repo v) eid))) eng eid)
      (ends_decided eid (decided wt d)) no_error v"
    if "at_step eid wt ctx plan (plan_count wt) 0 v" for v plan
  proof -
    have "length (list_steps_for_execution (w_repo v) eid) = plan_count wt"
      using that list_steps_chain[of eid plan 0 "w_repo v"] by (simp add: at_step_def)
    then show ?thesis by (intro wp_run_loop[OF eng d that]) simp_all
  qed
  have plan: "wp (make_plan eng x now) (\<lambda>_ v. \<exists>plan. at_step eid wt ctx plan (plan_count wt) 0 v) no_error v"
    if "w_repo v = save_execution x (w_repo w)" "env_uuids (w_env v) = env_uuids e" "env_uuid_ix (w_env v) = ix"
      "ex_id x = eid" "ex_status x = ES_PLANNING" "ex_workflow_type x = wt" "\<not> is_cancellation_requested x"
      "ex_context_id x = ex_context_id ex" for x now v
  proof -
    have same: "next_ids (w_env v) i m = next_ids e i m" for i m using that(2) by (simp add: next_ids_def)
    show ?thesis
      by (rule wp_make_plan)
        (use that ok none ctx keys ids in \<open>simp_all add: same repo_ok_saves steps_of_def executions.get_save
          get_context_def\<close>)
  qed
  have enter: "(ES_CREATED, ES_PLANNING) \<in> set execution_allowed" by (simp add: execution_allowed_def)
  let ?x = "\<lambda>t. status_row (ex\<lparr>ex_status := ES_PLANNING, ex_updated_at := t\<rparr>) ES_PLANNING [] t"
  have x: "\<not> is_cancellation_requested (?x t)" for t
    using ex(4) by (simp add: is_cancellation_requested_def read_runtime_meta_def status_row_def append_timeline_def)
  show ?thesis
    unfolding start_execution_def wp_try run_execution_def wp_bnd wp_ask ex(1) option.case
    apply (rule wp_clock_exact)
    using ex(2)
    apply (simp add: lifecycle_tables enter_planning_def validate_execution_ok[OF enter] wp_bnd wp_andthen wp_only_if wp_ret Let_def
        del: run_loop.simps)
    apply (rule wp_update_execution)
     apply (simp add: ex(1) id)
    apply (simp add: wp_ret wp_andthen wp_only_if del: run_loop.simps)
    apply (rule wp_mono[OF plan])
              apply (simp_all add: id ex(3) x wp_bnd wp_ask e_def ix_def del: run_loop.simps)
    apply (erule exE)
    subgoal by (rule wp_mono[OF loop]) simp_all
    done
qed

lemma distinct_next_ids: "inj (env_uuids e) \<Longrightarrow> distinct (next_ids e i n)"
  unfolding next_ids_def distinct_map by (intro conjI inj_onI distinct_upt) (drule (1) injD, simp)

text \<open>An execution that was just created and is then started runs to the status its policy decision calls for.\<close>

lemma wp_create_start:
  assumes w: "winv no_ghost w" and eng: "services_ok eng" "self_contained eng" "eng_policy eng = evaluate"
    and keys: "distinct (map uuid_str (next_ids (w_env w) (env_uuid_ix (w_env w) + 3) (plan_count (ca_workflow_type a))))"
    and flag: "\<not> is_cancellation_requested (new_execution a 0 0 0)"
  shows "wp (create_execution a) (\<lambda>ex. wp (start_execution eng (ex_id ex))
      (ends_decided (ex_id ex) (decided (ca_workflow_type a)
         (decision_spec ''escalate_incident'' (ca_environment a) (ca_policy_scope a)))) no_error) no_error w"
proof -
  let ?u = "env_uuids (w_env w)" and ?ix = "env_uuid_ix (w_env w)" and ?n = "plan_count (ca_workflow_type a)"
  let ?eid = "?u (Suc ?ix)"
  have ok: "repo_ok (w_repo w)" and inj: "inj ?u"
    and fresh: "\<And>i. ?ix \<le> i \<Longrightarrow> ?u i \<notin> known_ids (w_repo w)"
    using w by (simp_all add: winv_def fresh_def)
  have unused: "get_step (w_repo w) (?u i) = None" if "?ix \<le> i" for i
    using fresh[OF that] by (force simp: known_ids_def get_step_def map_of_eq_None_iff)
  have none: "steps_of (w_repo w) ?eid = []"
  proof -
    have "?eid \<notin> st_execution_id ` snd ` set (r_steps (w_repo w))" using fresh[of "Suc ?ix"] by (simp add: known_ids_def)
    then show ?thesis by (force simp: steps_of_def filter_empty_conv)
  qed
  have start: "wp (start_execution eng ?eid) (ends_decided ?eid (decided (ca_workflow_type a)
         (decision_spec ''escalate_incident'' (ca_environment a) (ca_policy_scope a)))) no_error v"
    if v: "w_repo v = save_execution (new_execution a ?eid (?u ?ix) ts)
        (save_context (new_context a (?u ?ix) ts) (w_repo w))"
      "env_uuids (w_env v) = ?u" "env_uuid_ix (w_env v) = Suc (Suc ?ix)" for v ts
  proof (rule wp_start_created[OF eng(1,2)])
    have same: "next_ids (w_env v) i m = next_ids (w_env w) i m" for i m using v(2) by (simp add: next_ids_def)
    show "get_execution (w_repo v) ?eid = Some (new_execution a ?eid (?u ?ix) ts)"
      by (simp add: v(1) executions.get_save new_execution_def)
    show "get_context (w_repo v) (ex_context_id (new_execution a ?eid (?u ?ix) ts)) = Some (new_context a (?u ?ix) ts)"
      using contexts.get_save_same[of "new_context a (?u ?ix) ts" "w_repo w"]
      by (simp add: v(1) new_execution_def get_context_def new_context_def)
    show "pd_decision (eng_policy eng (new_context a (?u ?ix) ts) p)
        = decision_spec ''escalate_incident'' (ca_environment a) (ca_policy_scope a)"
      if "ap_action_type p = ''escalate_incident''" for p
      using that by (simp add: eng(3) evaluate_decision new_context_def)
    show "repo_ok (w_repo v)" using ok by (simp add: v(1) repo_ok_saves)
    show "steps_of (w_repo v) ?eid = []" using none by (simp add: v(1) steps_of_def save_context_def)
    show "\<not> is_cancellation_requested (new_execution a ?eid (?u ?ix) ts)"
      using flag by (simp add: is_cancellation_requested_def read_runtime_meta_def new_execution_def)
    show "distinct (map uuid_str (next_ids (w_env v) (Suc (env_uuid_ix (w_env v))) ?n))"
      using keys by (simp add: same v(3) numeral_3_eq_3)
    show "distinct (next_ids (w_env v) (Suc (env_uuid_ix (w_env v)) + ?n) ?n)"
      unfolding same by (rule distinct_next_ids[OF inj])
    show "\<forall>u \<in> set (next_ids (w_env v) (Suc (env_uuid_ix (w_env v)) + ?n) ?n). get_step (w_repo v) u = None"
      using v unused by (auto simp: next_ids_def)
  qed (simp_all add: new_execution_def)
  show ?thesis
    unfolding create_execution_def wp_bnd
    apply (rule wp_clock_exact)
    apply (simp add: wp_uuid4 wp_andthen wp_on_repo wp_ret Let_def)
    subgoal for t e
    proof -
      have "ex_id (new_execution a ?eid (?u ?ix) t) = ?eid" by (simp add: new_execution_def)
      then show ?thesis if "env_uuids e = ?u" "env_uuid_ix e = ?ix" 
        using that start[of "w\<lparr>w_env := e\<lparr>env_uuid_ix := Suc (Suc ?ix)\<rparr>,
          w_repo := save_execution (new_execution a ?eid (?u ?ix) t)
            (save_context (new_context a (?u ?ix) t) (w_repo w))\<rparr>" t] by simp
    qed
    done
qed

end
