(* ===== verification/Sample_World.thy ===== *)
theory Sample_World
  imports Run_Outcome
begin

text \<open>Concrete values the witnesses of the properties are stated on.\<close>

definition sample_env :: env where
  "sample_env =
     \<lparr>env_uuids = (\<lambda>i. i), env_uuid_ix = 0, env_clock = (\<lambda>i. int i), env_clock_ix = 0,
      env_perf = (\<lambda>i. int i), env_perf_ix = 0, env_overheads = (\<lambda>_. 0), env_overhead_ix = 0,
      env_sleeps = [], env_incidents = [], env_metrics = empty_metrics, env_log = []\<rparr>"

text \<open>An engine with the real policy and the default tools, without knowledge and model services.\<close>

definition sample_engine :: engine where
  "sample_engine =
     \<lparr>eng_planner_meta = [], eng_settings = default_settings, eng_policy = evaluate,
      eng_tools = Some build_default_registry, eng_knowledge = None, eng_model = None\<rparr>"

definition sample_args :: create_args where
  "sample_args =
     \<lparr>ca_workflow_type = ''incident_triage'', ca_input = [(''incident_id'', PStr ''INC-1'')],
      ca_tenant_id = ''acme'', ca_request_id = ''req-1'', ca_environment = ''prod'',
      ca_policy_scope = ''default'', ca_principal_id = None, ca_mode = EM_INTERACTIVE,
      ca_permissions_scope = None, ca_parent_id = None, ca_feature_flags = None, ca_now = None\<rparr>"

definition sample_execution :: execution where
  "sample_execution = new_execution sample_args 1 0 0"

definition sample_step :: step where
  "sample_step =
     \<lparr>st_id = 5, st_execution_id = 1, st_plan_id = 4, st_type = ST_REASONING, st_agent = ''a'',
      st_input = [], st_status = SS_RUNNING, st_dependencies = [], st_retry_count = 0,
      st_degraded_allowed = False, st_created_at = 0, st_updated_at = 0\<rparr>"

definition sample_request :: tool_request where
  "sample_request =
     \<lparr>tq_execution_id = 1, tq_step_id = 5, tq_context_id = 0, tq_tool_name = ''metrics_lookup_tool'',
      tq_input = [(''incident_id'', PStr ''INC-1'')], tq_proposal_id = None, tq_policy_denied = False\<rparr>"

definition failing_handler :: tool_handler where
  "failing_handler _ hs = (Inl (Exn ValueError ''bad input''), hs)"

definition sample_world :: world where
  "sample_world = perform sample_engine (Create sample_args) (start_world sample_env)"

lemma supply_sample: "supply_ok sample_env"
  by (simp add: supply_ok_def sample_env_def)

lemma services_sample: "services_ok sample_engine"
  by (simp add: services_ok_def sample_engine_def)

lemma reachable_sample: "reachable sample_engine sample_world"
  unfolding sample_world_def by (intro reachable.intros supply_sample)

lemma sample_world_eq:
  "sample_world =
     \<lparr>w_env = sample_env\<lparr>env_uuid_ix := 2, env_clock_ix := 1\<rparr>,
      w_repo = save_execution sample_execution (save_context (new_context sample_args 0 0) empty_repo),
      w_queue = []\<rparr>"
  by (simp add: sample_world_def start_world_def create_execution_def final_def bnd_def in_env_def
      now_or_clock_def utc_now_def uuid4_def andthen_def on_repo_eq ret_def Let_def sample_env_def
      sample_args_def sample_execution_def)

lemma get_sample: "get_execution (w_repo sample_world) 1 = Some sample_execution"
  by (simp add: sample_world_eq get_execution_def save_execution_def sample_execution_def new_execution_def)


text \<open>A whole run in the kernel: create an execution in the empty world and start it.\<close>

definition sample_run :: "create_args \<Rightarrow> world" where
  "sample_run a = perform sample_engine (Start 1) (perform sample_engine (Create a) (start_world sample_env))"

definition dev_args :: create_args where
  "dev_args = sample_args\<lparr>ca_environment := ''dev''\<rparr>"

lemma reachable_run: "reachable sample_engine (sample_run a)"
  unfolding sample_run_def by (intro reachable.intros supply_sample)

lemma self_contained_sample: "self_contained sample_engine"
  by (simp add: self_contained_def sample_engine_def)

lemma sample_keys: "distinct (map uuid_str (next_ids sample_env 3 (plan_count wt)))"
proof -
  have "inj_on uuid_str {..< uuid_bound}" by (auto simp: inj_on_def uuid_str_inj)
  moreover have "set (next_ids sample_env 3 (plan_count wt)) \<subseteq> {..< uuid_bound}"
    using plan_count_cases[of wt] by (auto simp: next_ids_def sample_env_def)
  moreover have "distinct (next_ids sample_env 3 (plan_count wt))"
    by (rule distinct_next_ids) (simp add: sample_env_def)
  ultimately show ?thesis by (simp add: distinct_map inj_on_subset)
qed

lemma create_sample:
  "create_execution a (start_world sample_env) = (Inr ex, v) \<Longrightarrow> ex_id ex = 1"
  by (auto simp: create_execution_def start_world_def sample_env_def now_or_clock_def bnd_def in_env_def
      ret_def utc_now_def uuid4_def andthen_def on_repo_def modifies_def Let_def new_execution_def
      split: option.splits)

lemma sample_run_ends:
  assumes "\<not> is_cancellation_requested (new_execution a 0 0 0)"
  shows "\<exists>ex. ends_decided 1 (decided (ca_workflow_type a)
    (decision_spec ''escalate_incident'' (ca_environment a) (ca_policy_scope a))) ex (sample_run a)"
proof -
  let ?w = "start_world sample_env"
  have at: "env_uuid_ix (w_env ?w) + 3 = 3" "w_env ?w = sample_env" "eng_policy sample_engine = evaluate"
    by (simp_all add: start_world_def sample_env_def sample_engine_def)
  have keys: "distinct (map uuid_str (next_ids (w_env ?w) (env_uuid_ix (w_env ?w) + 3)
      (plan_count (ca_workflow_type a))))"
    unfolding at(1) unfolding at(2) by (rule sample_keys)
  note run = wp_create_start[OF winv_start[OF supply_sample] services_sample self_contained_sample at(3) keys assms]
  obtain ex v where v: "create_execution a ?w = (Inr ex, v)"
    "wp (start_execution sample_engine (ex_id ex)) (ends_decided (ex_id ex) (decided (ca_workflow_type a)
       (decision_spec ''escalate_incident'' (ca_environment a) (ca_policy_scope a)))) no_error v"
    using wp_total[OF run] by auto
  note id = create_sample[OF v(1)]
  obtain ex' u where "start_execution sample_engine 1 v = (Inr ex', u)"
    "ends_decided 1 (decided (ca_workflow_type a)
       (decision_spec ''escalate_incident'' (ca_environment a) (ca_policy_scope a))) ex' u"
    using wp_total[OF v(2)] id by auto
  then show ?thesis using v(1) by (auto simp: sample_run_def final_def)
qed

text \<open>A triage in the development environment completes, one in production waits for an approval.\<close>

lemma dev_run_completes:
  "\<exists>ex. get_execution (w_repo (sample_run dev_args)) 1 = Some ex \<and> ex_status ex = ES_COMPLETED"
  and prod_run_waits:
  "\<exists>ex. get_execution (w_repo (sample_run sample_args)) 1 = Some ex \<and> ex_status ex = ES_AWAITING_APPROVAL"
  using sample_run_ends[of dev_args] sample_run_ends[of sample_args]
  by (auto simp: ends_decided_def dev_args_def sample_args_def new_execution_def is_cancellation_requested_def
      read_runtime_meta_def dget_def decided_def decision_spec_def ORCH_RUNTIME_META_KEY_def)

lemma start_keys:
  "distinct (map uuid_str (next_ids (w_env (start_world sample_env)) (env_uuid_ix (w_env (start_world sample_env)) + 3)
     (plan_count wt)))"
proof -
  have at: "env_uuid_ix (w_env (start_world sample_env)) + 3 = 3" "w_env (start_world sample_env) = sample_env"
    by (simp_all add: start_world_def sample_env_def)
  show ?thesis unfolding at(1) unfolding at(2) by (rule sample_keys)
qed

lemma sample_uncancelled: "\<not> is_cancellation_requested (new_execution dev_args 0 0 0)"
  by (simp add: dev_args_def sample_args_def new_execution_def is_cancellation_requested_def
      read_runtime_meta_def dget_def ORCH_RUNTIME_META_KEY_def)

text \<open>A triage that waits for the approval of a stored proposal.\<close>

definition waiting_execution :: execution where
  "waiting_execution =
     (new_execution sample_args 1 0 0)\<lparr>ex_status := ES_AWAITING_APPROVAL,
       ex_result := Some [(''governance'', PDict [(''proposal_id'', PStr (uuid_str 7)),
         (''evaluation_id'', PStr (uuid_str 8))])]\<rparr>"

definition waiting_proposal :: action_proposal where
  "waiting_proposal = escalation_proposal 7 waiting_execution None [] 0"

definition waiting_world :: world where
  "waiting_world = (start_world sample_env)\<lparr>w_repo :=
     save_execution waiting_execution (save_action_proposal waiting_proposal empty_repo)\<rparr>"

lemma waiting_subject: "approval_subject waiting_execution = ret (7, 8)"
  by (simp add: approval_subject_def waiting_execution_def dget_def parse_uuid_def uuid_parse_str bnd_ret)

lemma waiting_stored:
  "get_execution (w_repo waiting_world) 1 = Some waiting_execution" "ex_id waiting_execution = 1"
  "ex_status waiting_execution = ES_AWAITING_APPROVAL"
  "get_action_proposal (w_repo waiting_world) 7 = Some waiting_proposal" "ap_id waiting_proposal = 7"
proof -
  show id: "ex_id waiting_execution = 1" "ap_id waiting_proposal = 7"
    by (simp_all add: waiting_execution_def new_execution_def waiting_proposal_def escalation_proposal_def)
  show "get_execution (w_repo waiting_world) 1 = Some waiting_execution"
    "get_action_proposal (w_repo waiting_world) 7 = Some waiting_proposal"
    using id by (simp_all add: waiting_world_def executions.get_save get_action_proposal_def save_action_proposal_def
        empty_repo_def)
qed (simp add: waiting_execution_def)

text \<open>A plan of the incident triage.\<close>

definition sample_plan :: execution_plan where
  "sample_plan =
     plan_record sample_execution 4 0
       [spec_row ''a'' ''analyze_incident'' ''reasoning'' ''incident_analysis_agent_v1'',
        spec_row ''b'' ''gather_evidence'' ''retrieval'' ''incident_retrieval_agent_v1'',
        spec_row ''c'' ''validate_incident'' ''validation'' ''incident_validation_agent_v1'']
       [edge_row ''a'' ''b'', edge_row ''b'' ''c''] (ordering_row [''a'', ''b'', ''c'']) []"

lemma sample_plan_of: "plan_of (ex_workflow_type sample_execution) [''a'', ''b'', ''c''] sample_plan"
  by (simp add: plan_of_def sample_plan_def plan_record_def workflow_shape_def sample_execution_def
      new_execution_def sample_args_def)

end
