(* ===== verification/Core_Properties.thy ===== *)
theory Core_Properties
  imports Sample_World "HOL-Library.Multiset"
begin

text \<open>
  Properties of single components the orchestrator is built from: repository, queue, runtime
  metadata, planner, plan order, step executor, metrics and events.
\<close>

section \<open>Repository and queue\<close>

text \<open>What the three optional filters of a listing ask for.\<close>

definition listed :: "repo \<Rightarrow> string option \<Rightarrow> string option \<Rightarrow> string option \<Rightarrow> execution \<Rightarrow> bool" where
  "listed r tenant workflow status e \<longleftrightarrow>
     (case tenant of None \<Rightarrow> True
      | Some t \<Rightarrow> map_option ctx_tenant_id (get_context r (ex_context_id e)) = Some t) \<and>
     (case workflow of None \<Rightarrow> True | Some w \<Rightarrow> ex_workflow_type e = w) \<and>
     (case status of None \<Rightarrow> True | Some s \<Rightarrow> execution_status_value (ex_status e) = s)"

lemma list_executions_eq:
  "list_executions r tenant workflow status limit =
     limit_rows limit (newest_first (filter (listed r tenant workflow status) (map snd (r_executions r))))"
  unfolding list_executions_def Let_def
  by (cases tenant; cases workflow; cases status)
    (auto simp: listed_def filter_filter conj_commute simp del: map_map intro!: arg_cong[where f = newest_first] arg_cong[where f = "limit_rows limit"] filter_cong split: option.splits)

text \<open>A listing holds only stored executions that pass every given filter, the tenant's first of
  all, newest first, and as many of them as the limit, clamped to 1..500, admits.\<close>

theorem listing_filters_and_limits:
  "set (list_executions r tenant workflow status limit)
     \<subseteq> {e \<in> snd ` set (r_executions r). listed r tenant workflow status e} \<and>
   sorted_wrt (\<lambda>a b. ex_created_at b \<le> ex_created_at a) (list_executions r tenant workflow status limit) \<and>
   length (list_executions r tenant workflow status limit)
     = min (length (filter (listed r tenant workflow status) (map snd (r_executions r))))
         (nat (max 1 (min limit 500)))"
proof -
  have "sorted_wrt (\<lambda>a b. ex_created_at b \<le> ex_created_at a) (newest_first xs)" for xs
    using sorted_sort_key[of "\<lambda>e. - ex_created_at e" xs] by (simp add: newest_first_def sorted_wrt_map)
  then show ?thesis
    unfolding list_executions_eq limit_rows_def
    by (auto simp: newest_first_def sorted_wrt_take min.commute dest!: in_set_takeD)
qed

text \<open>An update replaces exactly the stored execution with that identifier; when there is none
  it raises and changes nothing.\<close>

theorem update_replaces_stored:
  "get_execution (snd (update_execution x r)) k
     = (if k = ex_id x \<and> get_execution r k \<noteq> None then Some x else get_execution r k) \<and>
   ((\<exists>msg. fst (update_execution x r) = Inl (Exn KeyError msg)) \<longleftrightarrow> get_execution r (ex_id x) = None)"
  using executions.update_hit[of r x] executions.update_miss[of r x]
  by (cases "get_execution r (ex_id x)") (auto simp: executions.get_save)

fun enqueue_each :: "(uuid \<times> datetime) list \<Rightarrow> work_queue \<Rightarrow> work_queue" where
  "enqueue_each [] q = q"
| "enqueue_each ((eid, ts) # items) q = enqueue_each items (snd (queue_enqueue eid ts q))"

fun dequeue_each :: "nat \<Rightarrow> work_queue \<Rightarrow> work_item option list" where
  "dequeue_each 0 q = []"
| "dequeue_each (Suc n) q = (let (item, q') = queue_dequeue q in item # dequeue_each n q')"

lemma enqueue_each_eq:
  "enqueue_each items q = q @ map (\<lambda>(eid, ts). \<lparr>wi_execution_id = eid, wi_enqueued_at = ts\<rparr>) items"
  by (induction items q rule: enqueue_each.induct) (simp_all add: queue_enqueue_def Let_def)

lemma dequeue_each_eq: "dequeue_each n q = map Some (take n q) @ replicate (n - length q) None"
proof (induction n arbitrary: q)
  case (Suc n)
  then show ?case by (cases q) (simp_all add: queue_dequeue_def)
qed simp

text \<open>The queue is first in, first out: what was put in comes out in that order, then nothing.\<close>

theorem queue_keeps_order:
  "dequeue_each (length items + n) (enqueue_each items [])
     = map (\<lambda>(eid, ts). Some \<lparr>wi_execution_id = eid, wi_enqueued_at = ts\<rparr>) items @ replicate n None"
  by (simp add: enqueue_each_eq dequeue_each_eq case_prod_beta comp_def)

section \<open>Runtime metadata\<close>

text \<open>Patches of the runtime metadata are read back, last write first, with \<open>None\<close> removing a key,
  and the rest of the execution input stays as it was.\<close>

theorem metadata_read_back:
  "dget (read_runtime_meta (apply_runtime_meta patch ex)) = patched patch (dget (read_runtime_meta ex)) \<and>
   (map_of (ex_input (apply_runtime_meta patch ex)))(ORCH_RUNTIME_META_KEY := None)
     = (map_of (ex_input ex))(ORCH_RUNTIME_META_KEY := None)"
  by (auto simp: dget_read_apply fun_eq_iff input_apply_other)

section \<open>Plans and their order\<close>



text \<open>A step that may run: it waits and every step it depends on is there and has succeeded.\<close>

definition runnable :: "step list \<Rightarrow> step \<Rightarrow> bool" where
  "runnable ss s \<longleftrightarrow> st_status s = SS_PENDING \<and>
     (\<forall>d \<in> set (st_dependencies s). \<exists>p \<in> set ss. st_id p = d \<and> st_status p = SS_SUCCEEDED)"

lemma is_ready_iff:
  assumes "distinct (map st_id ss)"
  shows "is_ready s ss \<longleftrightarrow>
    (\<forall>d \<in> set (st_dependencies s). \<exists>p \<in> set ss. st_id p = d \<and> st_status p = SS_SUCCEEDED)"
proof -
  have "(case map_of (steps_by_id ss) d of None \<Rightarrow> False | Some p \<Rightarrow> st_status p = SS_SUCCEEDED) \<longleftrightarrow>
      (\<exists>p \<in> set ss. st_id p = d \<and> st_status p = SS_SUCCEEDED)" for d
  proof (cases "find (\<lambda>p. st_id p = d) ss")
    case None
    then have "\<forall>p \<in> set ss. st_id p \<noteq> d" by (simp add: find_None_iff)
    with None show ?thesis by (simp add: steps_by_id_find[OF assms])
  next
    case (Some p)
    have p: "p \<in> set ss" "st_id p = d" using Some by (auto simp: find_Some_iff)
    have "q = p" if "q \<in> set ss" "st_id q = d" for q
      using assms that p by (metis distinct_map inj_onD)
    then have "(\<exists>q \<in> set ss. st_id q = d \<and> st_status q = SS_SUCCEEDED) \<longleftrightarrow> st_status p = SS_SUCCEEDED"
      using p by blast
    then show ?thesis by (simp only: steps_by_id_find[OF assms] Some option.case)
  qed
  then show ?thesis by (simp add: is_ready_def list_all_iff)
qed



text \<open>Instantiating a plan with distinct keys gives its steps in order: each depends on exactly its
  predecessor, only the last is a validation, and all wait.\<close>

theorem instantiated_steps_form_chain:
  assumes "plan_of (ex_workflow_type ex) ks p" "distinct ks"
    and "distinct (next_ids e (env_uuid_ix e) (plan_count (ex_workflow_type ex)))"
  shows "\<exists>ss e'. instantiate_steps cfg p ex now e = (Inr ss, e') \<and> chain_steps (ex_id ex) p 0 ss \<and>
    map st_id ss = next_ids e (env_uuid_ix e) (plan_count (ex_workflow_type ex)) \<and>
    steps_in_plan_order ss p = ss"
  using instantiate_chain[OF assms, of cfg now] chain_plan_order by blast

theorem instantiated_steps_form_chain_witness:
  "\<exists>ss e'. instantiate_steps default_settings sample_plan sample_execution 0 sample_env = (Inr ss, e') \<and>
    chain_steps 1 sample_plan 0 ss \<and> map st_id ss = [0, 1, 2]"
proof -
  have ids: "next_ids sample_env (env_uuid_ix sample_env) (plan_count (ex_workflow_type sample_execution)) = [0, 1, 2]"
    "ex_id sample_execution = 1"
    by (simp_all add: next_ids_def sample_env_def plan_count_def workflow_shape_def sample_execution_def
        new_execution_def sample_args_def upt_rec)
  then show ?thesis
    using instantiated_steps_form_chain[OF sample_plan_of, of sample_env default_settings 0] by auto
qed

section \<open>Simulated steps\<close>

text \<open>What a simulated result is made of, apart from its identifier and time, depends on the step alone.\<close>

lemma execute_step_shape:
  assumes "st_status s = SS_RUNNING"
  shows "\<exists>out ev c d vo. \<forall>now e. \<exists>rid ts e'. execute_step s now e = (Inr (sim_result rid s ts out ev c d vo), e')"
proof -
  have clock: "\<exists>ts e1. now_or_clock now e = (Inr ts, e1)" for now e
    by (cases now) (auto simp: now_or_clock_def ret_def utc_now_def)
  have lift: "\<exists>out ev c d vo. \<forall>now e. \<exists>rid ts e'. bnd (now_or_clock now) f e = (Inr (sim_result rid s ts out ev c d vo), e')"
    if shape: "\<exists>out ev c d vo. \<forall>ts e. \<exists>rid e'. f ts e = (Inr (sim_result rid s ts out ev c d vo), e')" for f
  proof -
    obtain out ev c d vo where f: "\<And>ts e. \<exists>rid e'. f ts e = (Inr (sim_result rid s ts out ev c d vo), e')"
      using shape by blast
    have "\<exists>rid ts e'. bnd (now_or_clock now) f e = (Inr (sim_result rid s ts out ev c d vo), e')" for now e
    proof -
      obtain ts e1 where t: "now_or_clock now e = (Inr ts, e1)" using clock by blast
      obtain rid e' where "f ts e1 = (Inr (sim_result rid s ts out ev c d vo), e')" using f by blast
      with t have "bnd (now_or_clock now) f e = (Inr (sim_result rid s ts out ev c d vo), e')" by (simp add: bnd_def)
      then show ?thesis by blast
    qed
    then show ?thesis by blast
  qed
  have incident: "\<exists>out ev c d vo. \<forall>ts e. \<exists>rid e'.
      execute_incident_triage_step s nm ts e = (Inr (sim_result rid s ts out ev c d vo), e')" for nm
    unfolding execute_incident_triage_step_def Let_def case_prod_unfold by (simp add: bnd_def uuid4_def ret_def) blast
  have cost: "\<exists>out ev c d vo. \<forall>ts e. \<exists>rid e'.
      execute_cost_attribution_step s nm ts e = (Inr (sim_result rid s ts out ev c d vo), e')" for nm
    unfolding execute_cost_attribution_step_def Let_def case_prod_unfold by (simp add: bnd_def uuid4_def ret_def) blast
  have generic: "\<exists>out ev c d vo. \<forall>ts e. \<exists>rid e'.
      execute_generic_step s ts e = (Inr (sim_result rid s ts out ev c d vo), e')"
    unfolding execute_generic_step_def Let_def case_prod_unfold by (simp add: bnd_def uuid4_def ret_def) blast
  show ?thesis
    unfolding execute_step_def Let_def using assms incident cost generic
    by (cases "as_str (dget (st_input s) ''planner_step_name'')";
        cases "dget (st_input s) ''workflow_type'' = PStr ''incident_triage''";
        cases "dget (st_input s) ''workflow_type'' = PStr ''cost_attribution''") (simp_all add: lift)
qed

text \<open>The step executor is deterministic: for a running step it always returns a valid result of
  that step, and output, evidence, confidence and validation depend on the step alone.\<close>

theorem simulation_is_deterministic:
  assumes "st_status s = SS_RUNNING"
  shows "\<exists>r e1 r' e1'. execute_step s now e = (Inr r, e1) \<and> execute_step s now' e' = (Inr r', e1') \<and>
    sr_step_id r = st_id s \<and> step_result_valid r \<and> sr_output r = sr_output r' \<and> sr_evidence r = sr_evidence r' \<and>
    sr_confidence r = sr_confidence r' \<and> sr_validation r = sr_validation r'"
proof -
  obtain out ev c d vo where shape:
    "\<And>now e. \<exists>rid ts e'. execute_step s now e = (Inr (sim_result rid s ts out ev c d vo), e')"
    using execute_step_shape[OF assms] by blast
  obtain rid ts e1 rid' ts' e1' where r: "execute_step s now e = (Inr (sim_result rid s ts out ev c d vo), e1)"
    "execute_step s now' e' = (Inr (sim_result rid' s ts' out ev c d vo), e1')"
    using shape[of now e] shape[of now' e'] by blast
  then have "sr_step_id (sim_result rid s ts out ev c d vo) = st_id s"
    "step_result_valid (sim_result rid s ts out ev c d vo)"
    using execute_step_ok[OF assms, of now e] by auto
  with r show ?thesis by (auto simp: sim_result_def)
qed

theorem simulation_is_deterministic_witness:
  "\<exists>r e1 r' e1'. execute_step sample_step None sample_env = (Inr r, e1) \<and>
    execute_step sample_step (Some 5) e1 = (Inr r', e1') \<and> sr_output r = sr_output r'"
proof -
  obtain r e1 where "execute_step sample_step None sample_env = (Inr r, e1)"
    using simulation_is_deterministic[of sample_step None sample_env None sample_env]
    by (auto simp: sample_step_def)
  then show ?thesis
    using simulation_is_deterministic[of sample_step None sample_env "Some 5" e1] by (auto simp: sample_step_def)
qed

section \<open>Observability\<close>

text \<open>An event never logs a field whose name is forbidden, in any case of letters.\<close>

theorem events_hide_forbidden_fields:
  "\<exists>row e'. emit_event ty kvs e = (Inr (), e') \<and> env_log e' = env_log e @ [row] \<and>
     lower ` fst ` set row \<inter> set forbidden_keys = {}"
proof -
  have "lower ` fst ` set (safe_fields kvs) \<inter> set forbidden_keys = {}" by (auto simp: safe_fields_def)
  then show ?thesis
    using lower_event_keys by (auto simp: emit_event_row keys_dmerge)
qed

text \<open>Counting adds to exactly the counter of that name and those labels, and two lists of labels
  name the same counter exactly when one is a permutation of the other.\<close>

theorem counting_is_exact:
  "ddict_get (mx_counters (metrics_inc nm v ls m)) (nm', label_key ls')
     = ddict_get (mx_counters m) (nm', label_key ls') + (if nm = nm' \<and> mset ls = mset ls' then v else 0)"
proof -
  have "label_key ls = label_key ls' \<longleftrightarrow> mset ls = mset ls'"
    unfolding label_key_def by (metis mset_sort properties_for_sort sorted_sort)
  then show ?thesis by (simp add: metrics_inc_def ddict_get_add)
qed

end
