(* ===== verification/Replay_Outcome.thy ===== *)
theory Replay_Outcome
  imports Core_Properties
begin

text \<open>
  What creating an execution and replaying one return, and how a request for cancellation that the
  copied input carries stops the replay.
\<close>

section \<open>Creation\<close>

lemma wp_create_execution:
  assumes "\<And>ts e. Q (new_execution a (env_uuids (w_env w) (Suc (env_uuid_ix (w_env w))))
        (env_uuids (w_env w) (env_uuid_ix (w_env w))) ts)
      (w\<lparr>w_env := e, w_repo := save_execution
        (new_execution a (env_uuids (w_env w) (Suc (env_uuid_ix (w_env w)))) (env_uuids (w_env w) (env_uuid_ix (w_env w))) ts)
        (save_context (new_context a (env_uuids (w_env w) (env_uuid_ix (w_env w))) ts) (w_repo w))\<rparr>)"
  shows "wp (create_execution a) Q E w"
  unfolding create_execution_def wp_bnd
  by (rule wp_clock_exact) (simp add: wp_uuid4 wp_andthen wp_on_repo wp_ret Let_def assms)

lemma get_context_saves:
  "get_context (save_execution e r) k = get_context r k"
  "get_context (save_context (new_context a cid ts) r) cid = Some (new_context a cid ts)"
  by (simp_all add: get_context_def save_context_def new_context_def)

lemma known_execution: "get_execution r k = Some ex \<Longrightarrow> k \<in> known_ids r"
  by (auto simp: known_ids_def get_execution_def dest!: map_of_SomeD intro: rev_image_eqI)

lemma new_fields [simp]:
  "ex_id (new_execution a eid cid ts) = eid" "ex_status (new_execution a eid cid ts) = ES_CREATED"
  "ex_input (new_execution a eid cid ts) = ca_input a" "ex_context_id (new_execution a eid cid ts) = cid"
  "ex_workflow_type (new_execution a eid cid ts) = ca_workflow_type a"
  "ex_parent_id (new_execution a eid cid ts) = ca_parent_id a"
  "ctx_id (new_context a cid ts) = cid" "ctx_tenant_id (new_context a cid ts) = ca_tenant_id a"
  by (simp_all add: new_execution_def new_context_def)

lemma child_fields:
  "ca_workflow_type (child_args rq src ctx ts) = ex_workflow_type src"
  "ca_parent_id (child_args rq src ctx ts) = Some (rr_source rq)"
  by (simp_all add: child_args_def)

text \<open>Creating an execution never fails: it gets an identifier that was not in use, starts CREATED
  with the given input in a context of the given tenant, and every other execution stays as it was.\<close>

theorem creation_is_fresh:
  assumes "reachable eng w" "services_ok eng"
  shows "\<exists>ex w'. create_execution a w = (Inr ex, w') \<and> get_execution (w_repo w) (ex_id ex) = None \<and>
    ex_status ex = ES_CREATED \<and> ex_input ex = ca_input a \<and>
    map_option ctx_tenant_id (get_context (w_repo w') (ex_context_id ex)) = Some (ca_tenant_id a) \<and>
    get_execution (w_repo w') = (get_execution (w_repo w))(ex_id ex \<mapsto> ex)"
proof -
  let ?u = "env_uuids (w_env w)" and ?ix = "env_uuid_ix (w_env w)"
  have "?u (Suc ?ix) \<notin> known_ids (w_repo w)"
    using reachable_winv[OF assms] by (simp add: winv_def fresh_def)
  then have new: "get_execution (w_repo w) (?u (Suc ?ix)) = None"
    using known_execution by (metis not_None_eq)
  have "wp (create_execution a) (\<lambda>ex w'. get_execution (w_repo w) (ex_id ex) = None \<and>
    ex_status ex = ES_CREATED \<and> ex_input ex = ca_input a \<and>
    map_option ctx_tenant_id (get_context (w_repo w') (ex_context_id ex)) = Some (ca_tenant_id a) \<and>
    get_execution (w_repo w') = (get_execution (w_repo w))(ex_id ex \<mapsto> ex)) no_error w"
    by (rule wp_create_execution)
      (simp add: new executions.get_save fun_eq_iff get_context_saves)
  from wp_total[OF this] show ?thesis by blast
qed

theorem creation_is_fresh_witness:
  "\<exists>ex w'. create_execution sample_args sample_world = (Inr ex, w') \<and> ex_status ex = ES_CREATED \<and>
    get_execution (w_repo w') = (get_execution (w_repo sample_world))(ex_id ex \<mapsto> ex)"
  using creation_is_fresh[OF reachable_sample services_sample, of sample_args] by blast

section \<open>Exact replay\<close>

lemma event_parent: "ex_parent_id (append_replay_created_event ex p now) = ex_parent_id ex"
  "ex_input (append_replay_created_event ex p now) = ex_input ex"
  by (simp_all add: append_replay_created_event_def Let_def)

lemma exact_replay_child:
  assumes "reachable eng w" "services_ok eng"
    and "get_execution (w_repo w) (rr_source rq) = Some src" "get_context (w_repo w) (ex_context_id src) = Some ctx"
    and "rr_mode rq = RM_EXACT" "given (rr_input_overrides rq) = []" "rr_override_plan rq = None"
      "strip (rr_environment_target rq) \<noteq> []" "\<not> rr_start rq" "wf_dict (execution_json src)"
  shows "\<exists>rs w' child. create_replay eng rq now w = (Inr rs, w') \<and>
    get_execution (w_repo w') (rs_replay_execution rs) = Some child \<and>
    get_execution (w_repo w') (rr_source rq) = Some src \<and>
    ex_status child = ES_CREATED \<and> ex_workflow_type child = ex_workflow_type src \<and>
    ex_parent_id child = Some (rr_source rq) \<and>
    ex_input child = dset REPLAY_PROVENANCE_INPUT_KEY (PDict (provenance_json (rs_provenance rs)))
      (strip_replay_metadata (ex_input src))"
proof -
  let ?Q = "\<lambda>rs w'. \<exists>child. get_execution (w_repo w') (rs_replay_execution rs) = Some child \<and>
    get_execution (w_repo w') (rr_source rq) = Some src \<and>
    ex_status child = ES_CREATED \<and> ex_workflow_type child = ex_workflow_type src \<and>
    ex_parent_id child = Some (rr_source rq) \<and>
    ex_input child = dset REPLAY_PROVENANCE_INPUT_KEY (PDict (provenance_json (rs_provenance rs)))
      (strip_replay_metadata (ex_input src))"
  let ?u = "env_uuids (w_env w)" and ?ix = "env_uuid_ix (w_env w)"
  have "?u (Suc ?ix) \<notin> known_ids (w_repo w)"
    using reachable_winv[OF assms(1,2)] by (simp add: winv_def fresh_def)
  then have new: "?u (Suc ?ix) \<noteq> rr_source rq"
    using known_execution[OF assms(3)] by auto
  have checked: "validate_request rq = ret ()" "replay_inputs rq d = ret (d, [])" for d
    using assms(5-8) by (simp_all add: validate_request_def replay_inputs_def)
  have same: "py_eq (PDict (execution_json src)) (PDict (execution_json src))"
    by (rule py_eq_refl[OF assms(10)])
  have "wp (create_replay eng rq now) ?Q no_error w"
    unfolding create_replay_def wp_bnd Let_def
    apply (rule wp_clock_exact)
    apply (simp only: wp_ask wp_bnd w_repo_env assms(3,4) option.case checked wp_andthen wp_ret split_conv)
    apply (rule wp_create_execution)
    apply (unfold wp_andthen)
    apply (rule wp_update_execution)
     apply (simp add: replay_event_fields executions.get_save)
    apply (rule wp_calls)
    apply (rule wp_calls)
    apply (simp add: assms(3,9) same[simplified] executions.get_save replay_event_fields event_parent
        new new[symmetric] child_fields wp_simps)
    done
  from wp_total[OF this] show ?thesis by blast
qed

text \<open>Two stored sources: one plain, one whose cancellation was requested.\<close>

definition sample_replay :: replay_request where
  "sample_replay =
     \<lparr>rr_source = 1, rr_mode = RM_EXACT, rr_environment_target = ''dev'', rr_anchor_plan = None,
      rr_override_plan = None, rr_input_overrides = None, rr_reason = None, rr_requested_by = None,
      rr_execution_mode = None, rr_label = None, rr_start = False\<rparr>"

definition flagged_args :: create_args where
  "flagged_args = sample_args\<lparr>ca_input := [(ORCH_RUNTIME_META_KEY, PDict [(''cancellation_requested'', PBool True)])]\<rparr>"

definition created_world :: "create_args \<Rightarrow> world" where
  "created_world a = perform sample_engine (Create a) (start_world sample_env)"

lemma created_world:
  assumes "ca_now a = None"
  shows "get_execution (w_repo (created_world a)) 1 = Some (new_execution a 1 0 0)"
    and "get_context (w_repo (created_world a)) 0 = Some (new_context a 0 0)"
    and "reachable sample_engine (created_world a)"
proof -
  have "w_repo (created_world a)
      = save_execution (new_execution a 1 0 0) (save_context (new_context a 0 0) empty_repo)"
    using assms
    by (simp add: created_world_def final_def create_execution_def start_world_def sample_env_def now_or_clock_def
        bnd_def in_env_def utc_now_def uuid4_def andthen_def on_repo_def modifies_def ret_def Let_def)
  then show "get_execution (w_repo (created_world a)) 1 = Some (new_execution a 1 0 0)"
    "get_context (w_repo (created_world a)) 0 = Some (new_context a 0 0)"
    by (simp_all add: executions.get_save get_context_saves)
  show "reachable sample_engine (created_world a)"
    unfolding created_world_def by (intro reachable.intros supply_sample)
qed

lemma sample_replay_checks:
  "rr_source sample_replay = 1" "rr_mode sample_replay = RM_EXACT" "given (rr_input_overrides sample_replay) = []"
  "rr_override_plan sample_replay = None" "strip (rr_environment_target sample_replay) \<noteq> []" "\<not> rr_start sample_replay"
  by (simp_all add: sample_replay_def given_def, code_simp)

lemma created_json:
  "wf_dict (ca_input a) \<Longrightarrow> wf_dict (execution_json (new_execution a 1 0 0))"
  by (auto simp: execution_json_def new_execution_def opt_uuid_def opt_dict_def opt_datetime_def split: option.split)

text \<open>An exact replay that is not started returns a new CREATED child of the source: same workflow,
  the source as parent, and as input the source's input with the replay's provenance; the source
  stays as it was.\<close>

theorem exact_replay_copies_input:
  assumes "reachable eng w" "services_ok eng"
    and "get_execution (w_repo w) (rr_source rq) = Some src" "get_context (w_repo w) (ex_context_id src) = Some ctx"
    and "rr_mode rq = RM_EXACT" "given (rr_input_overrides rq) = []" "rr_override_plan rq = None"
      "strip (rr_environment_target rq) \<noteq> []" "\<not> rr_start rq" "wf_dict (execution_json src)"
  shows "\<exists>rs w' child. create_replay eng rq now w = (Inr rs, w') \<and>
    get_execution (w_repo w') (rs_replay_execution rs) = Some child \<and>
    get_execution (w_repo w') (rr_source rq) = Some src \<and>
    ex_status child = ES_CREATED \<and> ex_workflow_type child = ex_workflow_type src \<and>
    ex_parent_id child = Some (rr_source rq) \<and>
    ex_input child = dset REPLAY_PROVENANCE_INPUT_KEY (PDict (provenance_json (rs_provenance rs)))
      (strip_replay_metadata (ex_input src))"
  using exact_replay_child[OF assms] .

theorem exact_replay_copies_input_witness:
  "\<exists>rs w' child. create_replay sample_engine sample_replay None (created_world sample_args) = (Inr rs, w') \<and>
    get_execution (w_repo w') (rs_replay_execution rs) = Some child \<and> ex_parent_id child = Some 1 \<and>
    get_execution (w_repo w') 1 = Some (new_execution sample_args 1 0 0)"
proof -
  have a: "ca_now sample_args = None" "wf_dict (ca_input sample_args)" by (simp_all add: sample_args_def)
  show ?thesis
    using exact_replay_copies_input[OF created_world(3)[OF a(1)] services_sample, of sample_replay
        "new_execution sample_args 1 0 0" "new_context sample_args 0 0" None]
      created_world(1,2)[OF a(1)] sample_replay_checks created_json[OF a(2)] by auto
qed

text \<open>An exact replay of an execution whose cancellation was requested carries that request to its
  child, although the child was not asked to stop.\<close>

theorem exact_replay_copies_cancellation:
  assumes "reachable eng w" "services_ok eng"
    and "get_execution (w_repo w) (rr_source rq) = Some src" "get_context (w_repo w) (ex_context_id src) = Some ctx"
    and "rr_mode rq = RM_EXACT" "given (rr_input_overrides rq) = []" "rr_override_plan rq = None"
      "strip (rr_environment_target rq) \<noteq> []" "\<not> rr_start rq" "wf_dict (execution_json src)"
    and "is_cancellation_requested src"
  shows "\<exists>rs w' child. create_replay eng rq now w = (Inr rs, w') \<and>
    get_execution (w_repo w') (rs_replay_execution rs) = Some child \<and> is_cancellation_requested child"
proof -
  have "dget (dset REPLAY_PROVENANCE_INPUT_KEY v (strip_replay_metadata d)) ORCH_RUNTIME_META_KEY
      = dget d ORCH_RUNTIME_META_KEY" for v d
    by (simp add: strip_replay_metadata_def dget_def REPLAY_PROVENANCE_INPUT_KEY_def ORCH_RUNTIME_META_KEY_def)
  then show ?thesis
    using exact_replay_child[OF assms(1-10), of now] assms(11)
    unfolding is_cancellation_requested_def read_runtime_meta_def by metis
qed

theorem exact_replay_copies_cancellation_witness:
  "\<exists>rs w' child. create_replay sample_engine sample_replay None (created_world flagged_args) = (Inr rs, w') \<and>
    get_execution (w_repo w') (rs_replay_execution rs) = Some child \<and> is_cancellation_requested child"
proof -
  have a: "ca_now flagged_args = None" "wf_dict (ca_input flagged_args)"
    "is_cancellation_requested (new_execution flagged_args 1 0 0)"
    by (simp_all add: flagged_args_def sample_args_def is_cancellation_requested_def read_runtime_meta_def dget_def)
  show ?thesis
    using exact_replay_copies_cancellation[OF created_world(3)[OF a(1)] services_sample, of sample_replay
        "new_execution flagged_args 1 0 0" "new_context flagged_args 0 0" None]
      created_world(1,2)[OF a(1)] sample_replay_checks created_json[OF a(2)] a(3) by auto
qed

section \<open>Cancelled at the next turn\<close>

text \<open>C13. The loop heeds a request for cancellation at its next turn: the run ends there, with the
  execution CANCELLED when it was open.\<close>

theorem cancellation_stops_run:
  assumes "repo_ok (w_repo w)" "get_execution (w_repo w) eid = Some ex" "is_cancellation_requested ex"
  shows "\<exists>ex' w'. run_loop (Suc n) eng eid w = (Inr ex', w') \<and> cancelled_as ex ex' \<and>
    get_execution (w_repo w') eid = Some ex'"
proof (rule wp_total)
  note id = get_execution_id[OF assms(1,2)]
  have "wp (cancel_execution eid r t) (\<lambda>ex' w'. cancelled_as ex ex' \<and> get_execution (w_repo w') eid = Some ex')
      no_error v" if "w_repo v = w_repo w" for r t v
    using that assms(2) id by (intro wp_cancel_execution) simp_all
  note stop = wp_mono[OF this]
  show "wp (run_loop (Suc n) eng eid) (\<lambda>ex' w'. cancelled_as ex ex' \<and> get_execution (w_repo w') eid = Some ex')
      no_error w"
    unfolding run_loop.simps loop_turn_def load_execution_def wp_bnd wp_ask assms(2) option.case wp_ret if_P[OF assms(3)]
    by (rule wp_clock) (rule stop; simp add: wp_ret)
qed

theorem cancellation_stops_run_witness:
  "\<exists>ex' w'. run_loop 1 sample_engine 1 (created_world flagged_args) = (Inr ex', w') \<and> ex_status ex' = ES_CANCELLED"
proof -
  have a: "ca_now flagged_args = None" "is_cancellation_requested (new_execution flagged_args 1 0 0)"
    by (simp_all add: flagged_args_def sample_args_def is_cancellation_requested_def read_runtime_meta_def dget_def)
  show ?thesis
    using cancellation_stops_run[OF winv_repo_ok[OF reachable_winv[OF created_world(3)[OF a(1)] services_sample]]
        created_world(1)[OF a(1)] a(2), of 0 sample_engine]
    by (auto simp: cancelled_as_def lifecycle_tables simp del: run_loop.simps)
qed

end
