(* ===== verification/Replay_Diff_Properties.thy ===== *)
theory Replay_Diff_Properties
  imports Replay_Diff Replay_Outcome
begin

text \<open>
  The replay comparison: it reads only and counts right, finds nothing between equal artifacts,
  lists exactly the input fields that differ, links a fresh exact replay to its source, and raises
  on a field name that does not fit its items.
\<close>

section \<open>Rows\<close>

lemma collect_rows_map: "collect_rows (map Inr is) = Inr is"
  by (induction "is") simp_all

lemma collect_rows_Inr: "collect_rows rows = Inr is \<longleftrightarrow> rows = map Inr is"
proof
  show "collect_rows rows = Inr is \<Longrightarrow> rows = map Inr is"
    by (induction rows arbitrary: "is" rule: collect_rows.induct) (auto split: sum.splits)
qed (simp add: collect_rows_map)

lemma collect_rows_Inl:
  "collect_rows (xs @ Inl e # ys) = (case collect_rows xs of Inl e' \<Rightarrow> Inl e' | Inr is \<Rightarrow> Inl e)"
  by (induction xs rule: collect_rows.induct) (simp_all split: sum.split)

lemma collect_rows_error: "collect_rows rows = Inl e \<Longrightarrow> Inl e \<in> set rows"
  by (induction rows rule: collect_rows.induct) (auto split: sum.splits)

lemma rows_of_pairs_same: "(\<And>i x. f i x x = []) \<Longrightarrow> rows_of_pairs f i xs xs = []"
  by (induction xs arbitrary: i) simp_all

lemma row_if_simps [simp]: "row_if False x = []" "row_if True x = [x]"
  by (simp_all add: row_if_def)

text \<open>A row that is an item of one of the given categories, within its bounds, or the error of its
  constructor; and such a row, or any error.\<close>

definition item_row :: "diff_category set \<Rightarrow> diff_row \<Rightarrow> bool" where
  "item_row C row \<longleftrightarrow> (case row of
       Inl e \<Rightarrow> e = Exn PydanticValidationError ''ReplayDiffItem''
     | Inr i \<Rightarrow> diff_item_valid i \<and> di_category i \<in> C)"

definition good_row :: "diff_category set \<Rightarrow> diff_row \<Rightarrow> bool" where
  "good_row C row \<longleftrightarrow> (case row of Inl e \<Rightarrow> True | Inr i \<Rightarrow> diff_item_valid i \<and> di_category i \<in> C)"

lemma item_row_good: "item_row C row \<Longrightarrow> good_row C row"
  by (simp add: item_row_def good_row_def split: sum.splits)

lemma item_row_item [simp]: "cat \<in> C \<Longrightarrow> item_row C (item cat sev title descr sv rv path sid tid)"
  by (simp add: item_row_def item_def checked_item_def)

lemma good_row_item [simp]: "cat \<in> C \<Longrightarrow> good_row C (item cat sev title descr sv rv path sid tid)"
  by (simp add: item_row_good)

lemma good_row_error [simp]: "good_row C (Inl e)"
  by (simp add: good_row_def)

lemma list_all_row_if: "P x \<Longrightarrow> list_all P (row_if c x)"
  by (simp add: row_if_def)

lemma list_all_count: "cat \<in> C \<Longrightarrow> list_all (good_row C) (count_row cat sev title descr path xs ys)"
  by (simp add: count_row_def list_all_row_if)

lemma list_all_pairs: "(\<And>i x y. list_all P (f i x y)) \<Longrightarrow> list_all P (rows_of_pairs f i xs ys)"
  by (induction f i xs ys rule: rows_of_pairs.induct) simp_all

lemma list_all_concat: "(\<And>k. list_all P (f k)) \<Longrightarrow> list_all P (concat (map f ks))"
  by (induction ks) simp_all

lemma rows_of_fields: "cat \<in> C \<Longrightarrow> list_all (good_row C) (compare_dict_fields a b cat prefix keys sid sev)"
  by (auto simp: compare_dict_fields_def field_row_def intro!: list_all_concat list_all_row_if split: option.split)

lemmas rows_of_parts = list_all_row_if list_all_count list_all_pairs list_all_concat rows_of_fields

lemma rows_of_steps:
  "DC_STEP \<in> C \<Longrightarrow> DC_VALIDATION \<in> C \<Longrightarrow> list_all (good_row C) (step_rows r i ss ts)"
  by (induction r i ss ts rule: step_rows.induct)
    (simp_all add: step_pair_def compare_step_results_def Let_def rows_of_parts split: option.split)

text \<open>The rows before the plan, and the rows from the plan on.\<close>

abbreviation early_rows :: "provenance_reader \<Rightarrow> execution \<Rightarrow> execution \<Rightarrow> diff_row list" where
  "early_rows read source replay \<equiv>
     compare_lineage source replay (is_linked read source replay) (provenance_in read replay)
     @ compare_execution_header source replay"

abbreviation late_rows :: "repo \<Rightarrow> execution \<Rightarrow> execution \<Rightarrow> diff_row list" where
  "late_rows r source replay \<equiv>
     compare_plan r source replay @ compare_steps r source replay
     @ compare_model_reasoning source replay @ compare_tool_calls r source replay
     @ compare_policy r source replay @ compare_approvals r source replay
     @ compare_validation source replay @ compare_result source replay"

lemma diff_rows_split:
  "diff_rows read r source replay =
     early_rows read source replay @ compare_input source replay (provenance_in read replay) @ late_rows r source replay"
  by (simp add: diff_rows_def Let_def)

lemma early_rows_items:
  "list_all (item_row {DC_LINEAGE, DC_INPUT, DC_EXECUTION_STATUS}) (early_rows read source replay)"
  by (simp add: compare_lineage_def compare_execution_header_def list_all_row_if split: option.split)

lemma input_rows_items: "list_all (item_row {DC_INPUT}) (compare_input source replay prov)"
  by (simp add: compare_input_def Let_def input_row_def list_all_concat list_all_row_if)

lemma late_rows_good: "list_all (good_row (- {DC_INPUT, DC_LINEAGE})) (late_rows r source replay)"
  by (auto simp: Let_def compare_plan_def compare_steps_def compare_model_reasoning_def compare_tool_calls_def
      compare_policy_def compare_approvals_def compare_validation_def compare_result_def rows_of_parts rows_of_steps
      reasoning_row_def tool_call_row_def policy_row_def approval_row_def
      intro!: rows_of_parts split: option.split)

lemma good_row_mono: "list_all (good_row C) rows \<Longrightarrow> C \<subseteq> D \<Longrightarrow> list_all (good_row D) rows"
  by (auto simp: list_all_iff good_row_def split: sum.splits)

lemma item_rows_good: "list_all (item_row C) rows \<Longrightarrow> list_all (good_row UNIV) rows"
  by (auto simp: list_all_iff item_row_def good_row_def split: sum.splits)

lemma diff_rows_good: "list_all (good_row UNIV) (diff_rows read r source replay)"
  unfolding diff_rows_split
  using item_rows_good[OF early_rows_items[where read = read and source = source and replay = replay]]
    item_rows_good[OF input_rows_items]
    good_row_mono[OF late_rows_good subset_UNIV]
  by simp

section \<open>Reading only\<close>

text \<open>What \<open>compare\<close> returns when both executions are stored and their dumps are well formed.\<close>

lemma compare_found:
  assumes "get_execution r sid = Some source" "get_execution r rid = Some replay"
    "wf_dict (execution_json source)" "wf_dict (execution_json replay)"
  shows "compare read sid rid r =
    (case collect_rows (diff_rows read r source replay) of
       Inl e \<Rightarrow> Inl e
     | Inr items \<Rightarrow> if length items \<le> 500 then Inr (summarize read source replay items)
         else Inl (Exn PydanticValidationError ''ReplayDiffSummary''), r)"
  using py_eq_refl[OF assms(3)] py_eq_refl[OF assms(4)]
  by (auto simp: compare_def unchanged_after_def assms(1,2) prog_defs diff_summary_valid_def summarize_def Let_def
      simp del: py_eq.simps split: sum.split)

text \<open>A comparison never changes the repository; the summary it returns counts its items, and every
  item is within the bounds of its schema.\<close>

theorem diff_reads_only:
  "snd (compare read sid rid r) = r \<and>
   (case fst (compare read sid rid r) of
      Inl e \<Rightarrow> True
    | Inr s \<Rightarrow> dy_total s = length (dy_items s) \<and> list_all diff_item_valid (dy_items s) \<and>
        dy_significant s = length (filter (\<lambda>i. di_severity i = DS_SIGNIFICANT) (dy_items s)))"
proof -
  have valid: "list_all diff_item_valid is" if "collect_rows (diff_rows read r a b) = Inr is" for a b "is"
    using that diff_rows_good[of read r a b] by (simp add: collect_rows_Inr list_all_iff good_row_def)
  show ?thesis
    by (auto simp: compare_def not_found_def diff_error_def unchanged_after_def prog_defs summarize_def Let_def valid
        simp del: py_eq.simps split: option.split sum.split)
qed

section \<open>Equal artifacts\<close>

lemma length_str_opt_uuid: "length (str_opt_uuid u) \<le> 36"
  by (simp add: str_opt_uuid_def split: option.split)

lemma length_cut: "3 \<le> n \<Longrightarrow> length (cut n s) \<le> n"
  by (auto simp: cut_def)

lemma json_parts:
  assumes "wf_dict (execution_json ex)"
  shows "wf_dict (ex_input ex)" "\<And>d. ex_result ex = Some d \<Longrightarrow> wf_dict d"
    "\<And>d. ex_validation_summary ex = Some d \<Longrightarrow> wf_dict d" "\<And>e. e \<in> set (ex_timeline ex) \<Longrightarrow> wf_dict e"
  using assms by (auto simp: execution_json_def opt_dict_def)

lemma compare_dict_fields_same:
  "(\<And>d. a = Some d \<Longrightarrow> wf_dict d) \<Longrightarrow> compare_dict_fields a a cat prefix keys sid sev = []"
  using wf_dget py_eq_refl
  by (auto simp: compare_dict_fields_def field_row_def concat_eq_Nil_conv split: option.split)

lemma step_rows_same:
  assumes "\<And>s res d. get_step_result r s = Some res \<Longrightarrow> sr_output res = Some d \<Longrightarrow> wf_dict d"
  shows "step_rows r i ss ss = []"
proof (induction ss arbitrary: i)
  case (Cons s ss)
  have "compare_dict_fields (sr_output a) (sr_output a) cat p ks sid sev = []"
    if "get_step_result r (st_id s) = Some a" for a cat p ks sid sev
    by (rule compare_dict_fields_same) (rule assms[OF that])
  then show ?case
    using Cons by (simp add: step_pair_def compare_step_results_def Let_def split: option.split)
qed simp

lemma reasoning_rows_same:
  "(\<And>e. e \<in> set xs \<Longrightarrow> wf_dict e) \<Longrightarrow> rows_of_pairs reasoning_row i xs xs = []"
proof (induction xs arbitrary: i)
  case (Cons e xs)
  then have "py_eq (dget e k) (dget e k)" for k
    by (intro py_eq_refl wf_dget) (rule Cons.prems, simp)
  then have "reasoning_row i e e = []" by (simp add: reasoning_row_def Let_def)
  moreover have "rows_of_pairs reasoning_row (Suc i) xs xs = []"
    by (rule Cons.IH, rule Cons.prems) simp
  ultimately show ?case by simp
qed simp

lemma late_rows_same:
  assumes "wf_dict (execution_json ex)"
    and "\<And>s res d. get_step_result r s = Some res \<Longrightarrow> sr_output res = Some d \<Longrightarrow> wf_dict d"
  shows "late_rows r ex ex = []"
proof -
  note parts = json_parts[OF assms(1)]
  have events: "rows_of_pairs reasoning_row 0 (reasoning_events ex) (reasoning_events ex) = []"
    by (rule reasoning_rows_same, rule parts(4)) (simp add: reasoning_events_def)
  have result: "compare_result ex ex = []"
    using parts(2) by (simp add: compare_result_def compare_dict_fields_same split: option.split)
  have validation: "py_eq (opt_dict (ex_validation_summary ex)) (opt_dict (ex_validation_summary ex))"
    using parts(3) by (intro py_eq_refl) (simp add: opt_dict_def split: option.split)
  show ?thesis
    using result validation events step_rows_same[OF assms(2)]
    by (simp add: compare_plan_def compare_steps_def compare_model_reasoning_def compare_tool_calls_def
        compare_policy_def compare_approvals_def compare_validation_def count_row_def rows_of_pairs_same
        tool_call_row_def policy_row_def approval_row_def Let_def)
qed

lemma compare_input_same:
  assumes "business_input b = business_input a" "wf_dict (ex_input a)"
  shows "compare_input a b prov = []"
proof -
  have "py_eq (dget (business_input a) k) (dget (business_input a) k)" for k
    unfolding business_input_def by (intro py_eq_refl wf_dget wf_dpop assms(2))
  then show ?thesis
    by (simp add: compare_input_def Let_def assms(1) input_row_def)
qed

text \<open>An execution compared with itself differs in nothing: the only item says whether it is its own
  parent, and it is significant exactly when it is not.\<close>

theorem diff_with_itself:
  assumes "get_execution r eid = Some ex" "wf_dict (execution_json ex)"
    and "\<And>s res d. get_step_result r s = Some res \<Longrightarrow> sr_output res = Some d \<Longrightarrow> wf_dict d"
    and "provenance_in read ex = None"
  shows "\<exists>s i. compare read eid eid r = (Inr s, r) \<and> dy_items s = [i] \<and> di_category i = DC_LINEAGE \<and>
    dy_linked s = (ex_parent_id ex = Some (ex_id ex)) \<and>
    dy_significant s = (if dy_linked s then 0 else 1)"
proof -
  have "compare_lineage ex ex (is_linked read ex ex) None = [row] \<Longrightarrow>
      diff_rows read r ex ex = [row]" for row
    by (simp add: diff_rows_split assms(4) compare_execution_header_def late_rows_same[OF assms(2,3)]
        compare_input_same[OF refl json_parts(1)[OF assms(2)]])
  moreover have "is_linked read ex ex = (ex_parent_id ex = Some (ex_id ex))"
    by (simp add: is_linked_def assms(4))
  ultimately show ?thesis
    using length_str_opt_uuid[of "ex_parent_id ex"] length_str_opt_uuid[of "Some (ex_id ex)"]
    by (simp add: compare_found[OF assms(1,1,2,2)] compare_lineage_def item_def checked_item_def diff_item_valid_def
        summarize_def)
qed

text \<open>No input to read a provenance from: \<open>model_validate\<close> refuses everything.\<close>

definition no_provenance :: provenance_reader where
  "no_provenance d = None"

lemma no_provenance [simp]: "provenance_in no_provenance ex = None"
  by (simp add: provenance_in_def no_provenance_def split: option.split)

lemma created_repo:
  assumes "ca_now a = None"
  shows "w_repo (created_world a)
      = save_execution (new_execution a 1 0 0) (save_context (new_context a 0 0) empty_repo)"
  using assms
  by (simp add: created_world_def final_def create_execution_def start_world_def sample_env_def now_or_clock_def
      bnd_def in_env_def utc_now_def uuid4_def andthen_def on_repo_def modifies_def ret_def Let_def)

theorem diff_with_itself_witness:
  "\<exists>s i. compare no_provenance 1 1 (w_repo (created_world sample_args)) = (Inr s, w_repo (created_world sample_args)) \<and>
    dy_items s = [i] \<and> di_category i = DC_LINEAGE \<and> dy_significant s = 1"
proof -
  let ?r = "w_repo (created_world sample_args)"
  have a: "ca_now sample_args = None" "wf_dict (ca_input sample_args)" by (simp_all add: sample_args_def)
  have none: "get_step_result ?r s = None" for s
    by (simp add: created_repo[OF a(1)] get_step_result_def save_execution_def save_context_def empty_repo_def)
  have "ex_parent_id (new_execution sample_args 1 0 0) = None" by (simp add: sample_args_def)
  then show ?thesis
    using diff_with_itself[OF created_world(1)[OF a(1)] created_json[OF a(2)] _ no_provenance] none by auto
qed

section \<open>Differing input fields\<close>

lemma collect_rows_set:
  assumes "collect_rows (xs @ ys @ zs) = Inr is"
  shows "i \<in> set is \<longleftrightarrow> Inr i \<in> set xs \<or> Inr i \<in> set ys \<or> Inr i \<in> set zs"
    and "row \<in> set ys \<Longrightarrow> \<exists>i. row = Inr i"
proof -
  have "set (map Inr is) = set (xs @ ys @ zs)"
    using assms by (simp only: collect_rows_Inr)
  then have rows: "row \<in> Inr ` set is \<longleftrightarrow> row \<in> set xs \<or> row \<in> set ys \<or> row \<in> set zs" for row
    by auto
  show "i \<in> set is \<longleftrightarrow> Inr i \<in> set xs \<or> Inr i \<in> set ys \<or> Inr i \<in> set zs"
    unfolding rows[symmetric] by auto
  show "row \<in> set ys \<Longrightarrow> \<exists>i. row = Inr i"
    using rows[of row] by auto
qed

lemma items_of_rows:
  assumes "collect_rows (xs @ ys @ zs) = Inr is"
    and "list_all (item_row {DC_LINEAGE, DC_INPUT, DC_EXECUTION_STATUS}) xs" "list_all (good_row (- {DC_INPUT, DC_LINEAGE})) zs"
    and "\<And>i. Inr i \<in> set xs \<Longrightarrow> di_category i = DC_INPUT \<Longrightarrow> di_path i \<noteq> p"
  shows "(\<exists>i \<in> set is. di_category i = DC_INPUT \<and> di_path i = p) \<longleftrightarrow>
    (\<exists>i. Inr i \<in> set ys \<and> di_category i = DC_INPUT \<and> di_path i = p)"
proof -
  have "Inr i \<notin> set zs" if "di_category i = DC_INPUT" for i
    using assms(3) that by (auto simp: list_all_iff good_row_def dest: bspec[of _ _ "Inr i"])
  then show ?thesis
    using assms(4) unfolding Bex_def collect_rows_set(1)[OF assms(1)] by blast
qed

lemma early_input_path:
  "Inr i \<in> set (early_rows read source replay) \<Longrightarrow> di_category i = DC_INPUT \<Longrightarrow> di_path i \<noteq> ''input.'' @ k"
  by (auto simp: compare_lineage_def compare_execution_header_def row_if_def item_def checked_item_def
      split: if_splits option.splits)

lemma input_row_fields:
  "Inr i \<in> set (input_row prov src rep k) \<Longrightarrow> di_path i = ''input.'' @ k \<and> \<not> py_eq (dget src k) (dget rep k)"
  "row \<in> set (input_row prov src rep k) \<Longrightarrow> item_row {DC_INPUT} row"
  by (auto simp: input_row_def row_if_def item_def checked_item_def item_row_def split: if_splits)

lemma differing_key_listed:
  "\<not> py_eq (dget a k) (dget b k) \<Longrightarrow> k \<in> set (all_keys a b)"
  by (force simp: all_keys_def dget_def dest!: map_of_SomeD split: option.splits)

lemma input_rows_paths:
  assumes "\<forall>row \<in> set (compare_input source replay prov). \<exists>i. row = Inr i"
  shows "(\<exists>i. Inr i \<in> set (compare_input source replay prov) \<and> di_category i = DC_INPUT \<and> di_path i = ''input.'' @ k) \<longleftrightarrow>
    \<not> py_eq (dget (business_input source) k) (dget (business_input replay) k)"
proof
  assume diff: "\<not> py_eq (dget (business_input source) k) (dget (business_input replay) k)"
  then obtain row where row: "row \<in> set (input_row prov (business_input source) (business_input replay) k)"
    by (auto simp: input_row_def)
  with differing_key_listed[OF diff] have "row \<in> set (compare_input source replay prov)"
    by (auto simp: compare_input_def Let_def)
  with assms row input_row_fields show "\<exists>i. Inr i \<in> set (compare_input source replay prov) \<and>
      di_category i = DC_INPUT \<and> di_path i = ''input.'' @ k"
    by (fastforce simp: item_row_def)
qed (auto simp: compare_input_def Let_def dest: input_row_fields(1))

lemma compare_Inr:
  assumes "compare read sid rid r = (Inr s, r')" "get_execution r sid = Some source" "get_execution r rid = Some replay"
  shows "collect_rows (diff_rows read r source replay) = Inr (dy_items s)"
  using assms
  by (auto simp: compare_def not_found_def diff_error_def unchanged_after_def prog_defs summarize_def Let_def
      simp del: py_eq.simps split: option.splits sum.splits if_splits)

lemma reported_fields:
  assumes "compare read sid rid r = (Inr s, r')"
    and "get_execution r sid = Some source" "get_execution r rid = Some replay"
  shows "(\<exists>i \<in> set (dy_items s). di_category i = DC_INPUT \<and> di_path i = ''input.'' @ k) \<longleftrightarrow>
    \<not> py_eq (dget (business_input source) k) (dget (business_input replay) k)"
proof -
  note rows = compare_Inr[OF assms, unfolded diff_rows_split]
  have ok: "\<forall>row \<in> set (compare_input source replay (provenance_in read replay)). \<exists>i. row = Inr i"
    using collect_rows_set(2)[OF rows] by blast
  show ?thesis
    unfolding input_rows_paths[OF ok, symmetric]
    by (rule items_of_rows[OF rows early_rows_items late_rows_good], rule early_input_path)
qed

text \<open>Two executions with the given inputs and nothing else.\<close>

definition diff_repo :: "pydict \<Rightarrow> pydict \<Rightarrow> repo" where
  "diff_repo a b =
     save_execution (new_execution (sample_args\<lparr>ca_input := a\<rparr>) 1 0 0)
       (save_execution (new_execution (sample_args\<lparr>ca_input := b\<rparr>) 2 0 0) empty_repo)"

lemma diff_repo:
  "get_execution (diff_repo a b) 1 = Some (new_execution (sample_args\<lparr>ca_input := a\<rparr>) 1 0 0)"
  "get_execution (diff_repo a b) 2 = Some (new_execution (sample_args\<lparr>ca_input := b\<rparr>) 2 0 0)"
  by (simp_all add: diff_repo_def executions.get_save)

lemma late_rows_diff_repo:
  "late_rows (diff_repo a b) (new_execution (sample_args\<lparr>ca_input := a\<rparr>) 1 0 0)
     (new_execution (sample_args\<lparr>ca_input := b\<rparr>) 2 0 0) = []"
  by (simp add: diff_repo_def new_execution_def sample_args_def compare_plan_def compare_steps_def
      steps_by_creation_def compare_model_reasoning_def reasoning_events_def compare_tool_calls_def all_tool_calls_def
      compare_policy_def compare_approvals_def compare_validation_def compare_result_def opt_dict_def count_row_def
      list_steps_for_execution_def save_execution_def empty_repo_def list_approvals_for_execution_def
      list_policy_evaluations_for_execution_def list_action_proposals_for_execution_def Let_def)

lemma early_rows_diff_repo:
  "list_all (\<lambda>x. \<not> isl x) (early_rows no_provenance (new_execution (sample_args\<lparr>ca_input := a\<rparr>) 1 0 0)
     (new_execution (sample_args\<lparr>ca_input := b\<rparr>) 2 0 0))"
  by (simp add: compare_lineage_def compare_execution_header_def new_execution_def is_linked_def sample_args_def
      item_def checked_item_def diff_item_valid_def str_opt_uuid_def)

lemma collect_rows_ok: "list_all (\<lambda>x. \<not> isl x) rows \<Longrightarrow> \<exists>is. collect_rows rows = Inr is"
  using collect_rows_error by (cases "collect_rows rows") (fastforce simp: list_all_iff)+

lemma diff_sample_succeeds:
  "\<exists>s. compare no_provenance 1 2 (diff_repo [(''a'', PInt 1), (''b'', PNone)] [(''a'', PInt 2)]) =
    (Inr s, diff_repo [(''a'', PInt 1), (''b'', PNone)] [(''a'', PInt 2)])"
proof -
  let ?a = "[(''a'', PInt 1), (''b'', PNone)]" and ?b = "[(''a'', PInt 2)]"
  let ?A = "new_execution (sample_args\<lparr>ca_input := ?a\<rparr>) 1 0 0"
    and ?B = "new_execution (sample_args\<lparr>ca_input := ?b\<rparr>) 2 0 0"
  have keys: "all_keys ?a ?b = [''a'', ''b'']" by code_simp
  have "list_all (\<lambda>x. \<not> isl x) (compare_input ?A ?B None)"
    by (simp add: compare_input_def business_input_def dpop_def REPLAY_PROVENANCE_INPUT_KEY_def keys input_row_def
        dget_def item_def checked_item_def diff_item_valid_def brief_def cut_def Let_def)
  with early_rows_diff_repo[of ?a ?b]
  have rows: "list_all (\<lambda>x. \<not> isl x) (diff_rows no_provenance (diff_repo ?a ?b) ?A ?B)"
    by (simp only: diff_rows_split late_rows_diff_repo list_all_append no_provenance append_Nil2 simp_thms)
  have small: "length is \<le> 500" if "collect_rows (diff_rows no_provenance (diff_repo ?a ?b) ?A ?B) = Inr is" for "is"
  proof -
    have "length is = length (diff_rows no_provenance (diff_repo ?a ?b) ?A ?B)"
      using that by (simp add: collect_rows_Inr)
    then show ?thesis
      unfolding diff_rows_split late_rows_diff_repo
      by (simp add: compare_lineage_def compare_execution_header_def row_if_def compare_input_def
          business_input_def dpop_def REPLAY_PROVENANCE_INPUT_KEY_def keys input_row_def Let_def)
  qed
  have wf: "wf_dict (execution_json ?A)" "wf_dict (execution_json ?B)"
    by (simp_all add: execution_json_def new_execution_def sample_args_def opt_uuid_def opt_dict_def opt_datetime_def)
  obtain "is" where "is": "collect_rows (diff_rows no_provenance (diff_repo ?a ?b) ?A ?B) = Inr is"
    using collect_rows_ok[OF rows] by blast
  show ?thesis
    unfolding compare_found[OF diff_repo wf] "is" using small[OF "is"] by simp
qed

text \<open>C19. A comparison that succeeds reports exactly the fields of the business input whose values differ,
  a missing field being \<open>None\<close>.\<close>

theorem diff_reports_input_fields:
  assumes "compare read sid rid r = (Inr s, r')"
    and "get_execution r sid = Some source" "get_execution r rid = Some replay"
  shows "{k. \<exists>i \<in> set (dy_items s). di_category i = DC_INPUT \<and> di_path i = ''input.'' @ k} =
    {k. \<not> py_eq (dget (business_input source) k) (dget (business_input replay) k)}"
  using reported_fields[OF assms] by blast

theorem diff_reports_input_fields_witness:
  "\<exists>s r. compare no_provenance 1 2 (diff_repo [(''a'', PInt 1), (''b'', PNone)] [(''a'', PInt 2)]) = (Inr s, r) \<and>
    {k. \<exists>i \<in> set (dy_items s). di_category i = DC_INPUT \<and> di_path i = ''input.'' @ k} = {''a''}"
proof -
  let ?r = "diff_repo [(''a'', PInt 1), (''b'', PNone)] [(''a'', PInt 2)]"
  obtain s where s: "compare no_provenance 1 2 ?r = (Inr s, ?r)"
    using diff_sample_succeeds by blast
  show ?thesis
    using s diff_reports_input_fields[OF s diff_repo]
    by (auto simp: business_input_def dget_def dpop_def REPLAY_PROVENANCE_INPUT_KEY_def split: if_splits)
qed

text \<open>Comparing a fresh exact replay with its source: when it succeeds, it links the two and reports no
  field of the input.\<close>

theorem exact_replay_compares_equal:
  assumes "reachable eng w" "services_ok eng"
    and "get_execution (w_repo w) (rr_source rq) = Some src" "get_context (w_repo w) (ex_context_id src) = Some ctx"
    and "rr_mode rq = RM_EXACT" "given (rr_input_overrides rq) = []" "rr_override_plan rq = None"
      "strip (rr_environment_target rq) \<noteq> []" "\<not> rr_start rq" "wf_dict (execution_json src)"
  shows "\<exists>rs w'. create_replay eng rq now w = (Inr rs, w') \<and>
    (\<forall>read s r. compare read (rr_source rq) (rs_replay_execution rs) (w_repo w') = (Inr s, r) \<longrightarrow>
       dy_linked s \<and> (\<forall>i \<in> set (dy_items s). di_category i = DC_INPUT \<longrightarrow> (\<nexists>k. di_path i = ''input.'' @ k)))"
proof -
  obtain rs w' child where made: "create_replay eng rq now w = (Inr rs, w')"
    "get_execution (w_repo w') (rs_replay_execution rs) = Some child" "get_execution (w_repo w') (rr_source rq) = Some src"
    "ex_parent_id child = Some (rr_source rq)"
    "ex_input child = dset REPLAY_PROVENANCE_INPUT_KEY (PDict (provenance_json (rs_provenance rs)))
      (strip_replay_metadata (ex_input src))"
    using exact_replay_child[OF assms, of now] by blast
  have id: "ex_id src = rr_source rq"
    using get_execution_id[OF winv_repo_ok[OF reachable_winv[OF assms(1,2)]] assms(3)] .
  have input: "dget (business_input child) k = dget (business_input src) k" for k
    by (simp add: business_input_def made(5) dget_def dpop_def dset_def strip_replay_metadata_def
        delete_conv update_conv' map_add_def restrict_map_def fun_eq_iff split: option.split)
  have same: "py_eq (dget (business_input src) k) (dget (business_input child) k)" for k
    unfolding input unfolding business_input_def
    by (intro py_eq_refl wf_dget wf_dpop json_parts(1)[OF assms(10)])
  have "dy_linked s" if "compare read (rr_source rq) (rs_replay_execution rs) (w_repo w') = (Inr s, r)" for read s r
    using that made(2-4) id
    by (auto simp: compare_def is_linked_def unchanged_after_def prog_defs summarize_def Let_def diff_error_def
        simp del: py_eq.simps split: sum.splits if_splits)
  with made(1) reported_fields[OF _ made(3,2)] same show ?thesis by blast
qed

theorem exact_replay_compares_equal_witness:
  "\<exists>rs w'. create_replay sample_engine sample_replay None (created_world sample_args) = (Inr rs, w') \<and>
    (\<forall>s r. compare no_provenance 1 (rs_replay_execution rs) (w_repo w') = (Inr s, r) \<longrightarrow> dy_linked s)"
proof -
  have a: "ca_now sample_args = None" "wf_dict (ca_input sample_args)" by (simp_all add: sample_args_def)
  show ?thesis
    using exact_replay_compares_equal[OF created_world(3)[OF a(1)] services_sample, of sample_replay
        "new_execution sample_args 1 0 0" "new_context sample_args 0 0" None]
      created_world(1,2)[OF a(1)] sample_replay_checks created_json[OF a(2)] by auto
qed

text \<open>A differing field whose name has more than 250 characters makes the comparison raise instead of
  reporting it: its item does not fit its own schema.\<close>

theorem long_field_stops_diff:
  assumes "get_execution r sid = Some source" "get_execution r rid = Some replay"
    and "wf_dict (execution_json source)" "wf_dict (execution_json replay)"
    and "\<not> py_eq (dget (business_input source) k) (dget (business_input replay) k)" "length k > 250"
  shows "compare read sid rid r = (Inl (Exn PydanticValidationError ''ReplayDiffItem''), r)"
proof -
  let ?prov = "provenance_in read replay"
  let ?e = "Exn PydanticValidationError ''ReplayDiffItem''"
  let ?front = "early_rows read source replay @ compare_input source replay ?prov"
  have "input_row ?prov (business_input source) (business_input replay) k = [Inl ?e]"
    using assms(5,6) by (simp add: input_row_def item_def checked_item_def diff_item_valid_def)
  then have "Inl ?e \<in> set ?front"
    using differing_key_listed[OF assms(5)] by (force simp: compare_input_def Let_def)
  then obtain xs ys where front: "?front = xs @ Inl ?e # ys" by (meson split_list)
  have errors: "e = ?e" if "Inl e \<in> set xs" for e
  proof -
    have "Inl e \<in> set ?front" using that front by simp
    then show ?thesis
      using early_rows_items[of source replay read] input_rows_items[of source replay ?prov]
      by (auto simp: list_all_iff item_row_def dest!: bspec[of _ _ "Inl e"])
  qed
  have "collect_rows (xs @ Inl ?e # ys @ late_rows r source replay) = Inl ?e"
    using collect_rows_error[of xs] errors by (auto simp: collect_rows_Inl split: sum.split)
  moreover have "diff_rows read r source replay = xs @ Inl ?e # ys @ late_rows r source replay"
    unfolding diff_rows_split append_assoc[symmetric] front by simp
  ultimately show ?thesis
    by (simp add: compare_found[OF assms(1-4)])
qed


theorem long_field_stops_diff_witness:
  "compare no_provenance 1 2 (diff_repo [(replicate 251 CHR ''x'', PInt 1)] []) =
     (Inl (Exn PydanticValidationError ''ReplayDiffItem''), diff_repo [(replicate 251 CHR ''x'', PInt 1)] [])"
proof (rule long_field_stops_diff[OF diff_repo])
  let ?d = "[(replicate 251 CHR ''x'', PInt 1)]"
  have "length (replicate 251 CHR ''x'') \<noteq> length REPLAY_PROVENANCE_INPUT_KEY"
    by (simp only: length_replicate) (simp add: REPLAY_PROVENANCE_INPUT_KEY_def)
  then have "replicate 251 CHR ''x'' \<noteq> REPLAY_PROVENANCE_INPUT_KEY" by metis
  then show "\<not> py_eq
      (dget (business_input (new_execution (sample_args\<lparr>ca_input := ?d\<rparr>) 1 0 0)) (replicate 251 CHR ''x''))
      (dget (business_input (new_execution (sample_args\<lparr>ca_input := []\<rparr>) 2 0 0)) (replicate 251 CHR ''x''))"
    by (simp add: business_input_def dget_def dpop_def)
qed (simp_all add: execution_json_def new_execution_def sample_args_def opt_uuid_def opt_dict_def opt_datetime_def)

end
