(* ===== verification/Results.thy ===== *)
theory Results
  imports Program
begin

text \<open>
  Building a list whose elements may raise: \<open>[f(x) for x in xs]\<close> and the loops that append one
  checked value per element.  The first error is the one that is raised.
\<close>

fun all_ok :: "('e + 'a) list \<Rightarrow> 'e + 'a list" where
  "all_ok [] = Inr []"
| "all_ok (Inl e # rest) = Inl e"
| "all_ok (Inr x # rest) = (case all_ok rest of Inl e \<Rightarrow> Inl e | Inr xs \<Rightarrow> Inr (x # xs))"

text \<open>\<open>x = m; ... f(x)\<close> for a pure computation that may raise.\<close>

definition and_then :: "'e + 'a \<Rightarrow> ('a \<Rightarrow> 'e + 'b) \<Rightarrow> 'e + 'b" where
  "and_then m f = (case m of Inl e \<Rightarrow> Inl e | Inr x \<Rightarrow> f x)"

lemma and_then_simps [simp]: "and_then (Inl e) f = Inl e" "and_then (Inr x) f = f x"
  by (simp_all add: and_then_def)

lemma and_then_Inr: "and_then m f = Inr y \<longleftrightarrow> (\<exists>x. m = Inr x \<and> f x = Inr y)"
  by (cases m) auto

lemma and_then_Inl: "and_then m f = Inl e \<longleftrightarrow> m = Inl e \<or> (\<exists>x. m = Inr x \<and> f x = Inl e)"
  by (cases m) auto

text \<open>A checked constructor of a data model.\<close>

definition checked :: "string \<Rightarrow> ('a \<Rightarrow> bool) \<Rightarrow> 'a \<Rightarrow> exn + 'a" where
  "checked model ok x = (if ok x then Inr x else Inl (Exn PydanticValidationError model))"

lemma checked_Inr: "checked model ok x = Inr y \<longleftrightarrow> ok x \<and> y = x"
  by (auto simp: checked_def)

lemma all_ok_map: "all_ok (map Inr xs) = Inr xs"
  by (induction xs) simp_all

lemma all_ok_Inr: "all_ok rows = Inr xs \<longleftrightarrow> rows = map Inr xs"
proof
  show "all_ok rows = Inr xs \<Longrightarrow> rows = map Inr xs"
    by (induction rows arbitrary: xs rule: all_ok.induct) (auto split: sum.splits)
qed (simp add: all_ok_map)

lemma all_ok_Inl: "all_ok rows = Inl e \<Longrightarrow> Inl e \<in> set rows"
  by (induction rows rule: all_ok.induct) (auto split: sum.splits)

lemma all_ok_total: "(\<And>x. x \<in> set rows \<Longrightarrow> \<not> isl x) \<Longrightarrow> \<exists>xs. all_ok rows = Inr xs"
  using all_ok_Inl by (cases "all_ok rows") fastforce+

lemma all_ok_mapD:
  "all_ok (map f xs) = Inr ys \<Longrightarrow> length ys = length xs \<and> (\<forall>i < length xs. f (xs ! i) = Inr (ys ! i))"
  unfolding all_ok_Inr by (metis length_map nth_map)

lemma all_ok_map_member:
  "all_ok (map f xs) = Inr ys \<Longrightarrow> y \<in> set ys \<Longrightarrow> \<exists>x \<in> set xs. f x = Inr y"
  unfolding all_ok_Inr by (metis (mono_tags, lifting) image_eqI image_iff list.set_map)

end
