(* ===== verification/Knowledge.thy ===== *)
theory Knowledge
  imports Environment Results Rounding
begin

text \<open>
  The knowledge service (\<open>services/knowledge-service/knowledge_service\<close>): chunking and ingestion of
  documents (\<open>ingestion.py\<close>), ranked keyword and similarity search (\<open>retrieval.py\<close>) and the service
  that owns the corpus (\<open>service.py\<close>).  A stored row is a dictionary; the search works on a
  normalized copy of each.  Scores are rationals, with \<open>math.sqrt\<close> rounded to a double's 53 bits.
\<close>

section \<open>Words of a text\<close>

text \<open>\<open>[a-zA-Z0-9_]\<close>, and \<open>re.findall\<close> of at least \<open>n\<close> of them: the maximal runs that are long enough.\<close>

definition is_word_char :: "char \<Rightarrow> bool" where
  "is_word_char c \<longleftrightarrow>
     (let n = of_char c :: nat in (48 \<le> n \<and> n \<le> 57) \<or> (65 \<le> n \<and> n \<le> 90) \<or> (97 \<le> n \<and> n \<le> 122) \<or> n = 95)"

fun word_runs :: "string \<Rightarrow> string \<Rightarrow> string list" where
  "word_runs w [] = [rev w]"
| "word_runs w (c # cs) = (if is_word_char c then word_runs (c # w) cs else rev w # word_runs [] cs)"

definition find_words :: "nat \<Rightarrow> string \<Rightarrow> string list" where
  "find_words n s = filter (\<lambda>w. n \<le> length w) (word_runs [] s)"

section \<open>Ingestion\<close>

text \<open>\<open>re.sub(r"\s+", " ", s)\<close>.\<close>

fun squeeze :: "string \<Rightarrow> string" where
  "squeeze [] = []"
| "squeeze [c] = (if is_space c then '' '' else [c])"
| "squeeze (c # d # s) =
     (if is_space c then (if is_space d then squeeze (d # s) else CHR '' '' # squeeze (d # s))
      else c # squeeze (d # s))"

text \<open>
  The loop of \<open>chunk_text\<close> from position \<open>start\<close>.  It advances by \<open>chunk_size - overlap\<close>, so it may not
  end: \<open>None\<close>.
\<close>

partial_function (option) chunks_from :: "nat \<Rightarrow> nat \<Rightarrow> string \<Rightarrow> nat \<Rightarrow> string list option" where
  "chunks_from window overlap text start =
     (if length text \<le> start then Some []
      else let stop = min (length text) (start + window); piece = take (stop - start) (drop start text)
           in if length text \<le> stop then Some [piece]
              else Option.bind (chunks_from window overlap text (stop - overlap)) (\<lambda>rest. Some (piece # rest)))"

definition chunk_text :: "nat \<Rightarrow> nat \<Rightarrow> string \<Rightarrow> string list option" where
  "chunk_text window overlap text =
     (let normalized = squeeze (strip text)
      in if normalized = [] then Some []
         else if length normalized \<le> window then Some [normalized]
         else chunks_from window overlap normalized 0)"

definition tokenize_keywords :: "string \<Rightarrow> string list" where
  "tokenize_keywords text = take 24 (sort (remdups (map lower (find_words 3 (lower text)))))"

definition corpus_row :: "string \<Rightarrow> string \<Rightarrow> string \<Rightarrow> pydict \<Rightarrow> string \<Rightarrow> nat \<Rightarrow> string \<Rightarrow> pydict" where
  "corpus_row doc uri title meta version ix excerpt =
     (let digest = take 12 (sha256_hex (utf8 (doc @ '':'' @ nat_digits ix @ '':'' @ excerpt)))
      in [(''chunk_id'', PStr (doc @ ''-c'' @ nat_digits ix @ ''-'' @ digest)),
          (''document_id'', PStr doc), (''source_uri'', PStr uri), (''title'', PStr title),
          (''text_excerpt'', PStr excerpt),
          (''keywords'', PList (map PStr (tokenize_keywords (title @ '' '' @ excerpt)))),
          (''metadata'', PDict meta), (''corpus_version'', PStr version)])"

definition ingest_rows ::
  "nat \<Rightarrow> nat \<Rightarrow> string \<Rightarrow> string \<Rightarrow> string \<Rightarrow> string \<Rightarrow> pydict option \<Rightarrow> string \<Rightarrow> pydict list option" where
  "ingest_rows window overlap doc uri title text meta version =
     map_option (\<lambda>parts.
         let parts = (if parts = [] then [''''] else parts)
         in map (\<lambda>(ix, excerpt). corpus_row doc uri title (case meta of None \<Rightarrow> [] | Some m \<Rightarrow> m) version ix excerpt)
              (enumerate 0 parts))
       (chunk_text window overlap text)"

section \<open>The normalized corpus\<close>

record corpus_doc =
  cd_chunk_id :: string
  cd_document_id :: string
  cd_source_uri :: string
  cd_title :: string
  cd_text_excerpt :: string
  cd_keywords :: "string list"
  cd_metadata :: pydict
  cd_corpus_version :: string

text \<open>\<open>raw[k]\<close>.\<close>

definition item_at :: "pydict \<Rightarrow> string \<Rightarrow> exn + pyval" where
  "item_at d k = (case map_of d k of None \<Rightarrow> Inl (Exn KeyError (repr_str k)) | Some v \<Rightarrow> Inr v)"

text \<open>\<open>[str(k) for k in v]\<close> and \<open>dict(v or {})\<close>; a metadata that is neither falsy nor a dictionary is an
  error.\<close>

fun str_each :: "pyval \<Rightarrow> exn + string list" where
  "str_each (PList vs) = Inr (map py_str vs)"
| "str_each (PDict d) = Inr (map fst d)"
| "str_each (PStr s) = Inr (map (\<lambda>c. [c]) s)"
| "str_each _ = Inl (Exn TypeError ''object is not iterable'')"

definition dict_or_empty :: "pyval \<Rightarrow> exn + pydict" where
  "dict_or_empty v =
     (if \<not> truthy v then Inr []
      else case as_dict v of None \<Rightarrow> Inl (Exn TypeError ''object is not iterable'') | Some d \<Rightarrow> Inr d)"

definition normalize_row :: "pydict \<Rightarrow> exn + corpus_doc" where
  "normalize_row raw =
     and_then (item_at raw ''chunk_id'') (\<lambda>cid.
     and_then (item_at raw ''source_uri'') (\<lambda>uri.
     and_then (item_at raw ''text_excerpt'') (\<lambda>excerpt.
     and_then (str_each (dget_default raw ''keywords'' (PList []))) (\<lambda>kws.
     and_then (dict_or_empty (dget raw ''metadata'')) (\<lambda>meta.
       Inr \<lparr>cd_chunk_id = py_str cid, cd_document_id = py_str (py_or (dget raw ''document_id'') cid),
         cd_source_uri = py_str uri, cd_title = py_str (py_or (dget raw ''title'') (PStr '''')),
         cd_text_excerpt = py_str excerpt, cd_keywords = kws, cd_metadata = meta,
         cd_corpus_version = py_str (py_or (dget raw ''corpus_version'') (PStr ''phase5_local_v1''))\<rparr>)))))"

section \<open>Scope\<close>

definition metadata_matches :: "pydict \<Rightarrow> pydict \<Rightarrow> bool" where
  "metadata_matches meta filters \<longleftrightarrow>
     list_all (\<lambda>(key, expected). key = ''corpus_version'' \<or> expected = PNone \<or>
       (dget meta key \<noteq> PNone \<and> py_str (dget meta key) = py_str expected)) filters"

definition in_scope :: "pydict \<Rightarrow> string option \<Rightarrow> corpus_doc \<Rightarrow> bool" where
  "in_scope filters version d \<longleftrightarrow>
     (case version of
        None \<Rightarrow> True
      | Some v \<Rightarrow> v = [] \<or> cd_corpus_version d = [] \<or> cd_corpus_version d = v) \<and>
     (filters = [] \<or> metadata_matches (cd_metadata d) filters)"

definition filter_corpus :: "pydict \<Rightarrow> string option \<Rightarrow> corpus_doc list \<Rightarrow> corpus_doc list" where
  "filter_corpus filters version corpus =
     (let out = filter (in_scope filters version) corpus in if out = [] then corpus else out)"

section \<open>Scores\<close>

text \<open>A counter: the first occurrences in order, each with its count.\<close>

definition term_freq :: "string \<Rightarrow> (string \<times> nat) list" where
  "term_freq text = (let ws = find_words 3 (lower text) in map (\<lambda>w. (w, count_list ws w)) (remdups ws))"

definition freq :: "(string \<times> nat) list \<Rightarrow> string \<Rightarrow> nat" where
  "freq c w = (case map_of c w of None \<Rightarrow> 0 | Some n \<Rightarrow> n)"

text \<open>\<open>math.sqrt\<close> of a natural number: the integer square root of \<open>n * 4 ^ k\<close>, rounded to nearest, over
  \<open>2 ^ k\<close>, with \<open>k\<close> such that 53 bits are left (for \<open>n < 2 ^ 106\<close>).\<close>

fun isqrt :: "nat \<Rightarrow> nat" where
  "isqrt n = (if n = 0 then 0
              else let r = 2 * isqrt (n div 4) in if (r + 1) * (r + 1) \<le> n then r + 1 else r)"

declare isqrt.simps [simp del]

definition float_sqrt :: "nat \<Rightarrow> rat" where
  "float_sqrt n =
     (let k = 52 - (bit_count n - 1) div 2; s = isqrt (n * 4 ^ k);
          m = (if s * s + s < n * 4 ^ k then s + 1 else s)
      in of_nat m / 2 ^ k)"

definition cosine_similarity :: "(string \<times> nat) list \<Rightarrow> (string \<times> nat) list \<Rightarrow> rat" where
  "cosine_similarity a b =
     (if a = [] \<or> b = [] then 0
      else let dot = sum_list (map (\<lambda>(w, n). n * freq b w) a);
               na = float_sqrt (sum_list (map (\<lambda>(w, n). n * n) a));
               nb = float_sqrt (sum_list (map (\<lambda>(w, n). n * n) b))
           in if na = 0 \<or> nb = 0 then 0 else of_nat dot / (na * nb))"

definition query_tokens :: "string \<Rightarrow> string list" where
  "query_tokens query = remdups (find_words 2 (lower query))"

definition doc_score :: "string \<Rightarrow> corpus_doc \<Rightarrow> rat" where
  "doc_score query d =
     (let tokens = query_tokens query;
          overlap = length (filter (\<lambda>t. t \<in> set (map lower (cd_keywords d))) tokens);
          title = lower (cd_title d);
          title_hit = contains title (lower query) \<or> list_ex (\<lambda>t. contains t title) tokens;
          semantic = cosine_similarity (term_freq query) (term_freq (cd_title d @ '' '' @ cd_text_excerpt d))
      in of_nat overlap + (if title_hit then 1 / 2 else 0) + semantic * 2)"

section \<open>Search\<close>

text \<open>The bounds of \<open>EvidenceChunk\<close>.\<close>

definition evidence_chunk_valid :: "evidence_chunk \<Rightarrow> bool" where
  "evidence_chunk_valid c \<longleftrightarrow>
     (case ch_document_id c of None \<Rightarrow> True | Some d \<Rightarrow> length d \<le> 128) \<and>
     (case ch_score c of None \<Rightarrow> True | Some s \<Rightarrow> 0 \<le> s \<and> s \<le> 1) \<and>
     (case ch_corpus_version c of None \<Rightarrow> True | Some v \<Rightarrow> length v \<le> 64)"

definition text_or_none :: "string \<Rightarrow> string option" where
  "text_or_none s = (if s = [] then None else Some s)"

text \<open>One chunk of the answer.  The title is the local variable \<open>title\<close>, not the document's.\<close>

definition evidence_of :: "string \<Rightarrow> rat \<Rightarrow> corpus_doc \<Rightarrow> exn + evidence_chunk" where
  "evidence_of title score d =
     checked ''EvidenceChunk'' evidence_chunk_valid
       \<lparr>ch_chunk_id = cd_chunk_id d, ch_document_id = Some (cd_document_id d),
        ch_source_uri = cd_source_uri d, ch_title = text_or_none title,
        ch_text_excerpt = cd_text_excerpt d, ch_score = Some score,
        ch_corpus_version = Some (cd_corpus_version d), ch_metadata = cd_metadata d\<rparr>"

definition scored_docs :: "string \<Rightarrow> corpus_doc list \<Rightarrow> (rat \<times> corpus_doc) list" where
  "scored_docs query corpus =
     sort_key (\<lambda>(s, d). (- s, cd_chunk_id d))
       (filter (\<lambda>(s, d). s > 0) (map (\<lambda>d. (doc_score query d, d)) corpus))"

text \<open>What \<open>title\<close> holds after the loop over the corpus.\<close>

definition loop_title :: "corpus_doc list \<Rightarrow> string" where
  "loop_title corpus = (if corpus = [] then [] else cd_title (last corpus))"

definition score_and_rank :: "string \<Rightarrow> corpus_doc list \<Rightarrow> nat \<Rightarrow> exn + evidence_chunk list" where
  "score_and_rank query corpus max_results =
     and_then (all_ok (map (\<lambda>(s, d). evidence_of (loop_title corpus) (round_to 3 (min 1 (s / 5))) d)
         (take max_results (scored_docs query corpus))))
       (\<lambda>out. case corpus of
          d # _ \<Rightarrow> if out \<noteq> [] then Inr (take max_results out)
            else and_then (evidence_of (cd_title d) (1 / 10) d) (\<lambda>c. Inr (take max_results [c]))
        | [] \<Rightarrow> Inr (take max_results out))"

definition retrieve_from_corpus :: "retrieval_request \<Rightarrow> pydict list \<Rightarrow> exn + (evidence_chunk list \<times> string)" where
  "retrieve_from_corpus rq corpus =
     and_then (all_ok (map normalize_row corpus)) (\<lambda>docs.
       let version = (case rq_corpus_version rq of
             Some (c # v) \<Rightarrow> c # v
           | _ \<Rightarrow> (case docs of d # _ \<Rightarrow> cd_corpus_version d | [] \<Rightarrow> ''phase5_local_v1''))
       in and_then (score_and_rank (rq_query rq) (filter_corpus (rq_filters rq) (rq_corpus_version rq) docs)
            (nat (rq_max_results rq))) (\<lambda>chunks. Inr (chunks, version)))"

section \<open>The service\<close>

record knowledge =
  kn_version :: string
  kn_corpus :: "pydict list"

text \<open>The corpus the service starts with.\<close>

definition corpus_entry ::
  "string \<Rightarrow> string \<Rightarrow> string \<Rightarrow> string \<Rightarrow> string \<Rightarrow> string list \<Rightarrow> pydict \<Rightarrow> pydict" where
  "corpus_entry cid doc uri title excerpt kws meta =
     [(''chunk_id'', PStr cid), (''document_id'', PStr doc), (''source_uri'', PStr uri), (''title'', PStr title),
      (''text_excerpt'', PStr excerpt), (''keywords'', PList (map PStr kws)), (''metadata'', PDict meta),
      (''corpus_version'', PStr ''phase5_local_v1'')]"

definition DEFAULT_CORPUS :: "pydict list" where
  "DEFAULT_CORPUS =
     [corpus_entry ''rb-slo-001'' ''doc-slo-regression'' ''kb://runbooks/slo-regression'' ''SLO regression triage''
        (''When error rate and latency spike together, check recent deploys and dependency health. '' @
         ''Correlate metrics window with change events.'')
        [''latency'', ''error'', ''slo'', ''spike'', ''deploy'', ''incident'']
        [(''document_type'', PStr ''runbook''), (''team'', PStr ''platform'')],
      corpus_entry ''rb-cap-002'' ''doc-capacity'' ''kb://runbooks/capacity'' ''Capacity saturation''
        (''Saturation patterns include queue depth growth and timeout cascades. '' @
         ''Validate autoscaling limits and downstream quotas.'')
        [''capacity'', ''saturation'', ''queue'', ''timeout'', ''quota'']
        [(''document_type'', PStr ''runbook''), (''team'', PStr ''platform'')],
      corpus_entry ''rb-config-003'' ''doc-config-drift'' ''kb://runbooks/config-drift'' ''Configuration drift''
        ''Config drift often follows partial rollouts. Compare effective config revision across instances.''
        [''config'', ''drift'', ''rollout'', ''incident'']
        [(''document_type'', PStr ''runbook''), (''team'', PStr ''platform'')],
      corpus_entry ''cost-bill-001'' ''doc-billing-anomaly'' ''kb://billing/anomaly-playbook''
        ''Spend anomaly investigation''
        (''Compare daily spend against trailing baseline. Attribute spikes to service, team, and region. '' @
         ''Cross-check usage metrics and reserved capacity changes.'')
        [''cost'', ''billing'', ''spend'', ''anomaly'', ''attribution'', ''usage'', ''metrics'']
        [(''document_type'', PStr ''playbook''), (''team'', PStr ''finops''), (''workflow'', PStr ''cost_attribution'')],
      corpus_entry ''cost-opt-002'' ''doc-optimization'' ''kb://billing/optimization'' ''Cost optimization candidates''
        (''Review idle resources, oversized instances, and egress-heavy services. '' @
         ''Prioritize rightsizing and autoscaling policy tuning.'')
        [''optimization'', ''rightsizing'', ''idle'', ''egress'', ''autoscaling'', ''cost'']
        [(''document_type'', PStr ''playbook''), (''team'', PStr ''finops''), (''workflow'', PStr ''cost_attribution'')]]"

definition new_knowledge :: "string \<Rightarrow> pydict list \<Rightarrow> knowledge" where
  "new_knowledge version corpus =
     \<lparr>kn_version = version, kn_corpus = (if corpus = [] then DEFAULT_CORPUS else corpus)\<rparr>"

text \<open>\<open>KnowledgeService.ingest_document\<close>: the rows it appends and returns.\<close>

definition ingest_document ::
  "string \<Rightarrow> string \<Rightarrow> string \<Rightarrow> string \<Rightarrow> pydict option \<Rightarrow> string option \<Rightarrow> knowledge \<Rightarrow> (pydict list \<times> knowledge) option" where
  "ingest_document doc uri title text meta version k =
     (let v = (case version of Some (c # s) \<Rightarrow> c # s | _ \<Rightarrow> kn_version k)
      in map_option (\<lambda>rows. (rows, k\<lparr>kn_corpus := kn_corpus k @ rows\<rparr>))
           (ingest_rows 400 50 doc uri title text meta v))"

definition seconds_to_ms :: "int \<Rightarrow> int" where
  "seconds_to_ms ns = (if ns < 0 then - ((- ns) div 1000000) else ns div 1000000)"

definition retrieve :: "knowledge \<Rightarrow> retrieval_request \<Rightarrow> (env, retrieval_response) prog" where
  "retrieve k rq =
     bnd perf_counter_ns (\<lambda>started.
       case retrieve_from_corpus rq (kn_corpus k) of
         Inl e \<Rightarrow> rethrow e
       | Inr (chunks, version) \<Rightarrow>
           bnd perf_counter_ns (\<lambda>now.
             let latency_ms = seconds_to_ms (now - started) in
             bnd uuid4 (\<lambda>rid.
               let corpus_label = (case rq_corpus_version rq of Some (c # v) \<Rightarrow> c # v | _ \<Rightarrow> version);
                   labels = [(''workflow_type'', rq_workflow_type rq)]
               in andthen (observe_latency_ms ''knowledge_retrieval'' (of_int latency_ms) labels)
                 (andthen (inc_metric ''knowledge_retrievals_total'' labels)
                 (andthen (emit_event ''knowledge_retrieval''
                    [(''retrieval_id'', PStr (uuid_str rid)), (''tenant_id'', PStr (rq_tenant_id rq)),
                     (''workflow_type'', PStr (rq_workflow_type rq)), (''chunk_count'', PInt (int (length chunks))),
                     (''corpus_version'', PStr corpus_label), (''latency_ms'', PInt latency_ms)])
                 (ret \<lparr>rv_retrieval_id = rid, rv_query = rq_query rq, rv_chunks = chunks,
                    rv_corpus_version = corpus_label,
                    rv_metadata =
                      [(''tenant_id'', PStr (rq_tenant_id rq)), (''workflow_type'', PStr (rq_workflow_type rq)),
                       (''filters'', PDict (rq_filters rq)), (''latency_ms'', PInt latency_ms),
                       (''corpus_version_requested'', opt_str (rq_corpus_version rq))]\<rparr>))))))"

end
