(* ===== verification/Knowledge_Properties.thy ===== *)
theory Knowledge_Properties
  imports Knowledge
begin

text \<open>
  Chunking ends exactly when its windows advance, and its pieces give the text back; a search is
  ranked and within its bounds; and every chunk it returns carries one and the same title.
\<close>

section \<open>Chunking\<close>

lemma chunks_from_advances:
  assumes "overlap < window" "start < length text"
  shows "\<exists>rest. chunks_from window overlap text start = Some (take window (drop start text) # rest) \<and>
    take window (drop start text) @ concat (map (drop overlap) rest) = drop start text \<and>
    list_all (\<lambda>c. c \<noteq> [] \<and> length c \<le> window) (take window (drop start text) # rest)"
  using assms(2)
proof (induction "length text - start" arbitrary: start rule: less_induct)
  case less
  let ?stop = "start + window" and ?next = "start + window - overlap"
  have piece: "take (?stop - start) (drop start text) = take window (drop start text)" by simp
  have first: "take window (drop start text) \<noteq> []" "length (take window (drop start text)) \<le> window"
    using less.prems assms(1) by simp_all
  show ?case
  proof (cases "length text \<le> ?stop")
    case True
    then have "min (length text) ?stop = length text" "length (drop start text) \<le> window" by simp_all
    with less.prems True first show ?thesis
      by (subst chunks_from.simps) (auto simp: Let_def)
  next
    case False
    then have stop: "min (length text) ?stop = ?stop" and "?next < length text" by simp_all
    moreover have "length text - ?next < length text - start" using False assms(1) by simp
    ultimately obtain rest where rest:
      "chunks_from window overlap text ?next = Some (take window (drop ?next text) # rest)"
      "take window (drop ?next text) @ concat (map (drop overlap) rest) = drop ?next text"
      "list_all (\<lambda>c. c \<noteq> [] \<and> length c \<le> window) (take window (drop ?next text) # rest)"
      using less.hyps by blast
    let ?c = "take window (drop ?next text)"
    have "overlap \<le> length ?c" using False assms(1) by simp
    then have "drop overlap ?c @ concat (map (drop overlap) rest) = drop overlap (drop ?next text)"
      by (metis rest(2) drop_append diff_is_0_eq drop0)
    also have "\<dots> = drop window (drop start text)" using assms(1) by (simp add: add.commute)
    finally have tail: "take window (drop start text) @ concat (map (drop overlap) (?c # rest)) = drop start text"
      by (simp only: list.map concat.simps append_take_drop_id)
    have "chunks_from window overlap text start = Some (take window (drop start text) # ?c # rest)"
      using less.prems False by (subst chunks_from.simps) (simp add: Let_def stop rest(1))
    with tail rest(3) first show ?thesis by auto
  qed
qed

lemma chunks_from_stuck:
  assumes "window \<le> overlap" "window < length text"
  shows "chunks_from window overlap text 0 = None"
proof (cases "chunks_from window overlap text 0")
  case (Some cs)
  moreover have "chunks_from window overlap text 0
      = Option.bind (chunks_from window overlap text 0) (\<lambda>rest. Some (take window text # rest))"
    using assms by (subst chunks_from.simps) (auto simp: Let_def)
  ultimately have "cs = take window text # cs" by simp
  then show ?thesis by (metis not_Cons_self2)
qed

text \<open>C20. Chunking returns exactly when its windows advance or the text fits in one.\<close>

theorem chunking_ends_iff:
  "chunk_text window overlap text = None \<longleftrightarrow>
     window \<le> overlap \<and> window < length (squeeze (strip text))"
proof (cases "overlap < window")
  case True
  then show ?thesis
    using chunks_from_advances[of overlap window 0 "squeeze (strip text)"] by (auto simp: chunk_text_def Let_def)
next
  case False
  then show ?thesis
    using chunks_from_stuck[of window overlap "squeeze (strip text)"] by (auto simp: chunk_text_def Let_def)
qed

text \<open>C21. The pieces of a text are not empty, fit in the window, and overlap by exactly the given number of
  characters: dropping the overlaps gives the normalized text back.\<close>

theorem chunks_reassemble:
  assumes "overlap < window"
  shows "\<exists>cs. chunk_text window overlap text = Some cs \<and> list_all (\<lambda>c. c \<noteq> [] \<and> length c \<le> window) cs \<and>
    (case cs of [] \<Rightarrow> [] | c # rest \<Rightarrow> c @ concat (map (drop overlap) rest)) = squeeze (strip text)"
proof -
  let ?t = "squeeze (strip text)"
  consider "?t = []" | "?t \<noteq> []" "length ?t \<le> window" | "window < length ?t" by fastforce
  then show ?thesis
  proof cases
    case 3
    then have nonempty: "0 < length ?t" "?t \<noteq> []" by auto
    from chunks_from_advances[OF assms nonempty(1)] show ?thesis
      using 3 nonempty(2) by (fastforce simp: chunk_text_def Let_def)
  qed (simp_all add: chunk_text_def Let_def)
qed

theorem chunks_reassemble_witness:
  "chunk_text 4 1 ''  ab  cdefg '' = Some [''ab c'', ''cdef'', ''fg''] \<and>
   (\<exists>cs. chunk_text 4 1 ''  ab  cdefg '' = Some cs \<and> list_all (\<lambda>c. c \<noteq> [] \<and> length c \<le> 4) cs \<and>
    (case cs of [] \<Rightarrow> [] | c # rest \<Rightarrow> c @ concat (map (drop 1) rest)) = squeeze (strip ''  ab  cdefg ''))"
proof
  have "squeeze (strip ''  ab  cdefg '') = ''ab cdefg''" by code_simp
  then show "chunk_text 4 1 ''  ab  cdefg '' = Some [''ab c'', ''cdef'', ''fg'']"
    by (simp add: chunk_text_def Let_def chunks_from.simps)
qed (rule chunks_reassemble, simp)

section \<open>Scores\<close>

lemma score_unit: "0 < s \<Longrightarrow> 0 \<le> round_to 3 (min 1 (s / 5)) \<and> round_to 3 (min 1 (s / 5)) \<le> 1"
  by (rule round_to_unit) simp_all

lemma float_sqrt_nonneg: "0 \<le> float_sqrt n"
  by (simp add: float_sqrt_def Let_def)

lemma doc_score_at_least_overlap:
  "of_nat (length (filter (\<lambda>t. t \<in> set (map lower (cd_keywords d))) (query_tokens query))) \<le> doc_score query d"
  by (simp add: doc_score_def cosine_similarity_def Let_def float_sqrt_nonneg)

section \<open>Search\<close>

lemma scored_docs_member: "(s, d) \<in> set (scored_docs query corpus) \<longleftrightarrow> d \<in> set corpus \<and> s = doc_score query d \<and> 0 < s"
  by (auto simp: scored_docs_def)

lemma scored_docs_Nil [simp]: "scored_docs query [] = []"
  by (simp add: scored_docs_def)

lemma scored_docs_sorted: "sorted_wrt (\<lambda>p q. fst q \<le> fst p) (scored_docs query corpus)"
proof -
  have "sorted (map (\<lambda>(s, d). (- s, cd_chunk_id d)) (scored_docs query corpus))"
    by (simp only: scored_docs_def sorted_sort_key)
  then show ?thesis
    unfolding sorted_map by (rule sorted_wrt_mono_rel[rotated]) (auto split: prod.splits)
qed

lemma evidence_of_Inr:
  "evidence_of title score d = Inr c \<Longrightarrow>
     evidence_chunk_valid c \<and> ch_score c = Some score \<and> ch_chunk_id c = cd_chunk_id d \<and> ch_title c = text_or_none title"
  by (auto simp: evidence_of_def checked_Inr)

text \<open>A successful search: the chunks of the best documents, or the first document with a fixed score.\<close>

lemma score_and_rank_cases:
  assumes "score_and_rank query corpus n = Inr cs"
  obtains (ranked) "n = 0 \<or> scored_docs query corpus \<noteq> [] \<or> corpus = []"
      "map (\<lambda>(s, d). evidence_of (loop_title corpus) (round_to 3 (min 1 (s / 5))) d) (take n (scored_docs query corpus))
        = map Inr cs"
  | (default) d ds c where "corpus = d # ds" "scored_docs query corpus = []" "evidence_of (cd_title d) (1 / 10) d = Inr c"
      "cs = take n [c]"
proof -
  obtain out where out: "map (\<lambda>(s, d). evidence_of (loop_title corpus) (round_to 3 (min 1 (s / 5))) d)
      (take n (scored_docs query corpus)) = map Inr out"
    "(case corpus of
        d # _ \<Rightarrow> if out \<noteq> [] then Inr (take n out)
          else and_then (evidence_of (cd_title d) (1 / 10) d) (\<lambda>c. Inr (take n [c]))
      | [] \<Rightarrow> Inr (take n out)) = Inr cs"
    using assms unfolding score_and_rank_def and_then_Inr all_ok_Inr by blast
  have len: "length out = min n (length (scored_docs query corpus))"
    using arg_cong[OF out(1), of length] by simp
  have none: "out = [] \<longleftrightarrow> n = 0 \<or> scored_docs query corpus = []"
    using len by (auto simp: min_def split: if_splits)
  show thesis
  proof (cases "n = 0 \<or> scored_docs query corpus \<noteq> [] \<or> corpus = []")
    case True
    have "cs = out"
      using out(2) none True len by (auto simp: and_then_Inr split: list.splits if_splits)
    with ranked True out(1) show thesis by blast
  next
    case False
    with out none default show thesis by (auto simp: and_then_Inr split: list.splits if_splits)
  qed
qed


text \<open>When a document scores, every chunk of the answer has the title of the corpus's last document, the
  chunks of other documents too.\<close>

theorem search_repeats_last_title:
  assumes "score_and_rank query corpus n = Inr cs" "d \<in> set corpus" "0 < doc_score query d" "c \<in> set cs"
  shows "ch_title c = text_or_none (cd_title (last corpus))"
  using assms(1)
proof (cases rule: score_and_rank_cases)
  case ranked
  from arg_cong[OF ranked(2), of set]
  have "(\<lambda>(s, d). evidence_of (loop_title corpus) (round_to 3 (min 1 (s / 5))) d) ` set (take n (scored_docs query corpus))
      = Inr ` set cs" by simp
  with assms(4) have "Inr c \<in> (\<lambda>(s, d). evidence_of (loop_title corpus) (round_to 3 (min 1 (s / 5))) d) `
      set (take n (scored_docs query corpus))" by simp
  then have "ch_title c = text_or_none (loop_title corpus)"
    using evidence_of_Inr by (auto split: prod.splits)
  with assms(2) show ?thesis by (auto simp: loop_title_def)
next
  case default
  with assms(2,3) scored_docs_member[of "doc_score query d" d query corpus] show ?thesis by simp
qed

text \<open>Two documents; the query meets a keyword of the first one.\<close>

definition sample_doc :: "string \<Rightarrow> string \<Rightarrow> string list \<Rightarrow> corpus_doc" where
  "sample_doc cid title kws =
     \<lparr>cd_chunk_id = cid, cd_document_id = cid, cd_source_uri = ''kb://'' @ cid, cd_title = title,
      cd_text_excerpt = ''text'', cd_keywords = kws, cd_metadata = [], cd_corpus_version = ''v1''\<rparr>"

definition sample_corpus :: "corpus_doc list" where
  "sample_corpus = [sample_doc ''a'' ''Latency'' [''latency''], sample_doc ''b'' ''Quota'' [''quota'']]"

lemma evidence_of_ok:
  assumes "length (cd_document_id d) \<le> 128" "length (cd_corpus_version d) \<le> 64" "0 \<le> score" "score \<le> 1"
  shows "\<exists>c. evidence_of title score d = Inr c"
  using assms by (simp add: evidence_of_def checked_def evidence_chunk_valid_def)

lemma search_succeeds:
  assumes "\<And>d. d \<in> set corpus \<Longrightarrow> length (cd_document_id d) \<le> 128 \<and> length (cd_corpus_version d) \<le> 64"
  shows "\<exists>cs. score_and_rank query corpus n = Inr cs"
proof -
  let ?f = "\<lambda>(s, d). evidence_of (loop_title corpus) (round_to 3 (min 1 (s / 5))) d"
  have "\<exists>c. ?f (s, d) = Inr c" if "(s, d) \<in> set (take n (scored_docs query corpus))" for s d
    using in_set_takeD[OF that] assms score_unit by (auto simp: scored_docs_member intro!: evidence_of_ok)
  then have "\<exists>out. all_ok (map ?f (take n (scored_docs query corpus))) = Inr out"
    by (intro all_ok_total) (auto, metis sum.disc(2))
  then obtain out where out: "all_ok (map ?f (take n (scored_docs query corpus))) = Inr out" ..
  have "\<exists>c. evidence_of (cd_title d) (1 / 10) d = Inr c" if "corpus = d # ds" for d ds
    using assms[of d] that by (intro evidence_of_ok) simp_all
  then show ?thesis
    unfolding score_and_rank_def out by (cases corpus) fastforce+
qed

lemma sample_search: "\<exists>cs. score_and_rank ''latency'' sample_corpus 5 = Inr cs"
  by (rule search_succeeds) (auto simp: sample_corpus_def sample_doc_def)


lemma sample_score: "0 < doc_score ''latency'' (sample_doc ''a'' ''Latency'' [''latency''])"
proof -
  have "length (filter (\<lambda>t. t \<in> set (map lower (cd_keywords (sample_doc ''a'' ''Latency'' [''latency'']))))
      (query_tokens ''latency'')) = 1" by code_simp
  then show ?thesis
    using doc_score_at_least_overlap[of "sample_doc ''a'' ''Latency'' [''latency'']" "''latency''"] by simp
qed

theorem search_repeats_last_title_witness:
  "\<exists>cs. score_and_rank ''latency'' sample_corpus 5 = Inr cs \<and> (\<forall>c \<in> set cs. ch_title c = Some ''Quota'')"
  using search_repeats_last_title[of "''latency''" sample_corpus 5 _ "sample_doc ''a'' ''Latency'' [''latency'']"]
    sample_search sample_score
  by (auto simp: sample_corpus_def text_or_none_def sample_doc_def)

end
