(* ===== verification/Model_Runtime.thy ===== *)
theory Model_Runtime
  imports Environment Results
begin

text \<open>
  The model runtime (\<open>services/model-runtime/model_runtime\<close>): the retrying wrapper around a provider
  (\<open>resilient.py\<close>), the deterministic provider (\<open>providers/fake.py\<close>) and the facade (\<open>service.py\<close>).
  A provider is a program of the environment that returns an output and the telemetry of its call,
  or raises.  \<open>perf_counter\<close> never runs backwards, so a latency is a natural number.
\<close>

section \<open>Configuration and errors\<close>

record model_config =
  mc_max_retries :: int
  mc_backoff_ms :: nat

definition default_model_config :: model_config where
  "default_model_config = \<lparr>mc_max_retries = 2, mc_backoff_ms = 500\<rparr>"

definition classify_http_status :: "int \<Rightarrow> exn_class" where
  "classify_http_status status =
     (if status \<in> {408, 429} \<or> 500 \<le> status then TransientModelError
      else if status \<in> {400, 401, 403, 404, 422} then NonRetryableModelError
      else TransientModelError)"

section \<open>The retrying wrapper\<close>

definition latency_since :: "int \<Rightarrow> (env, nat) prog" where
  "latency_since started = bnd perf_counter_ns (\<lambda>t. ret (nat ((t - started) div 1000000)))"

record call_site =
  cs_task :: string
  cs_execution_id :: uuid
  cs_step_id :: uuid
  cs_provider :: string

definition model_event :: "call_site \<Rightarrow> string \<Rightarrow> pydict \<Rightarrow> (env, unit) prog" where
  "model_event cs ty rest =
     emit_event ty ([(''task'', PStr (cs_task cs)), (''execution_id'', PStr (uuid_str (cs_execution_id cs))),
       (''step_id'', PStr (uuid_str (cs_step_id cs)))] @ rest)"

definition provider_label :: "model_telemetry \<Rightarrow> string" where
  "provider_label t = (if mt_provider_type t = [] then ''unknown'' else mt_provider_type t)"

text \<open>The body of the \<open>try\<close>; \<open>put\<close> is \<open>output.model_copy(update={"invocation": ...})\<close>.\<close>

definition model_attempt ::
  "call_site \<Rightarrow> (model_telemetry \<Rightarrow> 'o \<Rightarrow> 'o) \<Rightarrow> (env, 'o \<times> model_telemetry) prog \<Rightarrow> nat \<Rightarrow>
   (env, 'o \<times> model_telemetry) prog" where
  "model_attempt cs put fn attempt =
     andthen (model_event cs ''model_request''
       [(''attempt'', PInt (int attempt)), (''provider_type'', PStr (cs_provider cs))])
     (bnd perf_counter_ns (\<lambda>started. bnd fn (\<lambda>(output, telemetry). bnd (latency_since started) (\<lambda>latency_ms.
        let updated = telemetry\<lparr>mt_latency_ms := latency_ms, mt_retry_count := attempt\<rparr>;
            labels = [(''provider'', provider_label updated), (''task'', cs_task cs)]
        in andthen (observe_latency_ms ''model_request'' (of_nat latency_ms) labels)
          (andthen (inc_metric ''model_requests_total'' labels)
          (andthen (model_event cs ''model_success''
             [(''latency_ms'', PInt (int latency_ms)), (''retry_count'', PInt (int attempt)),
              (''total_tokens'', PInt (int (mt_total_tokens updated)))])
          (ret (put updated output, updated))))))))"

definition retries_exhausted :: "call_site \<Rightarrow> exn \<Rightarrow> (env, 'a) prog" where
  "retries_exhausted cs e =
     andthen (inc_metric ''model_failures_total'' [(''reason'', ''exhausted_retries''), (''task'', cs_task cs)])
     (andthen (only_if (contains ''timed out'' (lower (exn_message e)))
        (inc_metric ''model_timeouts_total'' [(''task'', cs_task cs)]))
     (andthen (model_event cs ''model_failure''
        [(''error_class'', PStr (exn_name e)), (''exhausted_retries'', PBool True)])
     (rethrow e)))"

text \<open>The handlers that record the failure and raise it again, and the record of a transient failure.\<close>

definition give_up :: "call_site \<Rightarrow> string \<Rightarrow> string \<Rightarrow> exn \<Rightarrow> (env, 'a) prog" where
  "give_up cs reason ty e =
     andthen (inc_metric ''model_failures_total'' [(''reason'', reason), (''task'', cs_task cs)])
     (andthen (model_event cs ty [(''error_class'', PStr (exn_name e))]) (rethrow e))"

definition record_retry :: "call_site \<Rightarrow> nat \<Rightarrow> exn \<Rightarrow> (env, unit) prog" where
  "record_retry cs attempt e =
     andthen (inc_metric ''model_retries_total'' [(''task'', cs_task cs)])
       (model_event cs ''model_retry'' [(''attempt'', PInt (int attempt)), (''error_class'', PStr (exn_name e))])"

text \<open>The loop, with \<open>left\<close> attempts left after this one.\<close>

fun call_attempts ::
  "nat \<Rightarrow> nat \<Rightarrow> model_config \<Rightarrow> call_site \<Rightarrow> (model_telemetry \<Rightarrow> 'o \<Rightarrow> 'o) \<Rightarrow> (env, 'o \<times> model_telemetry) prog \<Rightarrow>
   (env, 'o \<times> model_telemetry) prog" where
  "call_attempts left attempt cfg cs put fn =
     try_except (model_attempt cs put fn attempt) (\<lambda>e.
       if exn_class e = SchemaValidationModelError then give_up cs ''schema_validation'' ''model_schema_failure'' e
       else if exn_class e = TransientModelError then
         andthen (record_retry cs attempt e)
           (case left of
              0 \<Rightarrow> retries_exhausted cs e
            | Suc n \<Rightarrow> andthen (sleep_ms (mc_backoff_ms cfg * (attempt + 1)))
                (call_attempts n (Suc attempt) cfg cs put fn))
       else give_up cs (exn_name e) ''model_failure'' e)"

declare call_attempts.simps [simp del]

definition max_model_attempts :: "model_config \<Rightarrow> nat" where
  "max_model_attempts cfg = nat (max 1 (mc_max_retries cfg + 1))"

definition call_with_retries ::
  "model_config \<Rightarrow> call_site \<Rightarrow> (model_telemetry \<Rightarrow> 'o \<Rightarrow> 'o) \<Rightarrow> (env, 'o \<times> model_telemetry) prog \<Rightarrow>
   (env, 'o \<times> model_telemetry) prog" where
  "call_with_retries cfg cs put fn = call_attempts (max_model_attempts cfg - 1) 0 cfg cs put fn"

section \<open>The deterministic provider\<close>

record provider =
  pv_type :: string
  pv_analyze_incident :: "incident_analysis_request \<Rightarrow> (env, incident_analysis_output \<times> model_telemetry) prog"
  pv_validate_incident :: "incident_validation_request \<Rightarrow> (env, incident_validation_output \<times> model_telemetry) prog"
  pv_analyze_cost :: "cost_analysis_request \<Rightarrow> (env, cost_analysis_output \<times> model_telemetry) prog"
  pv_validate_cost :: "cost_validation_request \<Rightarrow> (env, cost_validation_output \<times> model_telemetry) prog"

definition FAKE_PROVIDER_LABEL :: string where
  "FAKE_PROVIDER_LABEL = ''fake_structured_v1''"

definition DEFAULT_CAUSES :: "string list" where
  "DEFAULT_CAUSES = [''config_drift'', ''dependency_failure'', ''capacity_saturation'']"

definition fake_digest :: "pydict \<Rightarrow> string" where
  "fake_digest payload = take 16 (sha256_hex (utf8 (json_dumps (PDict payload))))"

text \<open>What the four calls share: the clock is read around the draw of an invocation id.\<close>

definition fake_call :: "(string \<Rightarrow> model_telemetry \<Rightarrow> exn + 'o) \<Rightarrow> (env, 'o \<times> model_telemetry) prog" where
  "fake_call build =
     bnd perf_counter_ns (\<lambda>started. bnd uuid4 (\<lambda>inv. bnd (latency_since started) (\<lambda>latency_ms.
       let t = \<lparr>mt_latency_ms = latency_ms, mt_retry_count = 0, mt_provider_type = ''fake'', mt_model_name = ''fake'',
                mt_input_tokens = 0, mt_output_tokens = 0, mt_total_tokens = 0, mt_timed_out = False\<rparr>
       in case build (uuid_str inv) t of Inl e \<Rightarrow> rethrow e | Inr out \<Rightarrow> ret (out, t))))"

definition fake_analyze_incident ::
  "incident_analysis_request \<Rightarrow> (env, incident_analysis_output \<times> model_telemetry) prog" where
  "fake_analyze_incident rq =
     fake_call (\<lambda>inv t.
       let digest = fake_digest [(''incident_id'', PStr (iq_incident_id rq)), (''task'', PStr ''analyze'')];
           summary = ''[model:'' @ FAKE_PROVIDER_LABEL @ ''] Incident '' @ iq_incident_id rq
             @ '': elevated error rate and latency correlated (digest '' @ digest @ '')''
       in checked ''IncidentAnalysisReasoningOutput'' (\<lambda>x. length (io_incident_summary x) \<le> 4000)
         \<lparr>io_incident_summary = summary, io_possible_causes = DEFAULT_CAUSES, io_invocation_id = inv,
          io_provider_label = FAKE_PROVIDER_LABEL, io_invocation = Some t\<rparr>)"

definition fake_validate_incident ::
  "incident_validation_request \<Rightarrow> (env, incident_validation_output \<times> model_telemetry) prog" where
  "fake_validate_incident rq =
     fake_call (\<lambda>inv t.
       let causes = (if jq_prior_causes rq = [] then DEFAULT_CAUSES else jq_prior_causes rq);
           digest = fake_digest [(''incident_id'', PStr (jq_incident_id rq)), (''causes'', PList (map PStr causes))];
           likely = causes ! (int_of_hex (take 2 digest) mod length causes)
       in checked ''IncidentValidationReasoningOutput'' (\<lambda>x. length (jo_likely_cause x) \<le> 128)
         \<lparr>jo_likely_cause = likely, jo_validation_status = ''passed'', jo_confidence = 91 / 100,
          jo_rationale = ''Fake provider: bounded consistency with prior causes list.'', jo_digest = digest,
          jo_invocation_id = inv, jo_provider_label = FAKE_PROVIDER_LABEL, jo_invocation = Some t\<rparr>)"

definition fake_analyze_cost :: "cost_analysis_request \<Rightarrow> (env, cost_analysis_output \<times> model_telemetry) prog" where
  "fake_analyze_cost rq =
     fake_call (\<lambda>inv t.
       let digest = fake_digest [(''scope_id'', PStr (cq_scope_id rq)), (''task'', PStr ''analyze_cost'')];
           suffix = (if 4 \<le> length (cq_scope_id rq) then last_chars 4 (cq_scope_id rq) else ''svc'');
           summary = ''[model:'' @ FAKE_PROVIDER_LABEL @ ''] Scope '' @ cq_scope_id rq
             @ '': spend anomaly vs baseline (digest '' @ digest @ '')''
       in checked ''CostAttributionReasoningOutput'' (\<lambda>x. length (co_summary x) \<le> 4000)
         \<lparr>co_service = ''svc-'' @ suffix, co_team = ''finops'', co_anomaly_type = ''spend_spike'',
          co_impact_usd = 120 + of_nat (int_of_hex (take 4 digest) mod 80), co_summary = summary,
          co_candidates = [''rightsizing'', ''idle_resource_cleanup''], co_references = [''cost-model:'' @ digest],
          co_invocation_id = inv, co_provider_label = FAKE_PROVIDER_LABEL, co_invocation = Some t\<rparr>)"

definition fake_validate_cost :: "cost_validation_request \<Rightarrow> (env, cost_validation_output \<times> model_telemetry) prog" where
  "fake_validate_cost rq =
     fake_call (\<lambda>inv t.
       let digest = fake_digest [(''scope_id'', PStr (vq_scope_id rq)), (''prior'', PStr (vq_prior_summary rq))]
       in Inr
         \<lparr>wo_validation_status = ''passed'', wo_confidence = 88 / 100,
          wo_service = (if 4 \<le> length (vq_scope_id rq) then ''svc-'' @ last_chars 4 (vq_scope_id rq) else ''svc-unknown''),
          wo_team = ''finops'',
          wo_rationale = ''Fake provider: attribution consistent with billing and usage evidence.'',
          wo_actions = [''review_reserved_capacity'', ''enable_cost_anomaly_alerts''], wo_digest = digest,
          wo_invocation_id = inv, wo_provider_label = FAKE_PROVIDER_LABEL, wo_invocation = Some t\<rparr>)"

definition fake_provider :: provider where
  "fake_provider =
     \<lparr>pv_type = ''fake'', pv_analyze_incident = fake_analyze_incident, pv_validate_incident = fake_validate_incident,
      pv_analyze_cost = fake_analyze_cost, pv_validate_cost = fake_validate_cost\<rparr>"

section \<open>The facade\<close>

definition analyze_incident ::
  "model_config \<Rightarrow> provider \<Rightarrow> incident_analysis_request \<Rightarrow> (env, incident_analysis_output \<times> model_telemetry) prog" where
  "analyze_incident cfg pv rq =
     call_with_retries cfg
       \<lparr>cs_task = ''analyze_incident'', cs_execution_id = iq_execution_id rq, cs_step_id = iq_step_id rq,
        cs_provider = pv_type pv\<rparr>
       (\<lambda>t out. out\<lparr>io_invocation := Some t\<rparr>) (pv_analyze_incident pv rq)"

definition validate_incident ::
  "model_config \<Rightarrow> provider \<Rightarrow> incident_validation_request \<Rightarrow> (env, incident_validation_output \<times> model_telemetry) prog" where
  "validate_incident cfg pv rq =
     call_with_retries cfg
       \<lparr>cs_task = ''validate_incident'', cs_execution_id = jq_execution_id rq, cs_step_id = jq_step_id rq,
        cs_provider = pv_type pv\<rparr>
       (\<lambda>t out. out\<lparr>jo_invocation := Some t\<rparr>) (pv_validate_incident pv rq)"

definition analyze_cost_anomaly ::
  "model_config \<Rightarrow> provider \<Rightarrow> cost_analysis_request \<Rightarrow> (env, cost_analysis_output \<times> model_telemetry) prog" where
  "analyze_cost_anomaly cfg pv rq =
     call_with_retries cfg
       \<lparr>cs_task = ''analyze_cost_anomaly'', cs_execution_id = cq_execution_id rq, cs_step_id = cq_step_id rq,
        cs_provider = pv_type pv\<rparr>
       (\<lambda>t out. out\<lparr>co_invocation := Some t\<rparr>) (pv_analyze_cost pv rq)"

definition validate_cost_attribution ::
  "model_config \<Rightarrow> provider \<Rightarrow> cost_validation_request \<Rightarrow> (env, cost_validation_output \<times> model_telemetry) prog" where
  "validate_cost_attribution cfg pv rq =
     call_with_retries cfg
       \<lparr>cs_task = ''validate_cost_attribution'', cs_execution_id = vq_execution_id rq, cs_step_id = vq_step_id rq,
        cs_provider = pv_type pv\<rparr>
       (\<lambda>t out. out\<lparr>wo_invocation := Some t\<rparr>) (pv_validate_cost pv rq)"

end
