(* ===== verification/Model_Runtime_Properties.thy ===== *)
theory Model_Runtime_Properties
  imports Model_Runtime Sample_World
begin

text \<open>
  The retrying wrapper makes a bounded number of attempts, sleeps after each transient failure but
  the last, and reports how many attempts a success took; the deterministic provider only draws
  from the supplies of the environment.
\<close>

section \<open>What a call does to the environment\<close>

definition same_sleeps :: "env \<Rightarrow> env \<Rightarrow> bool" where
  "same_sleeps e e' \<longleftrightarrow> env_sleeps e' = env_sleeps e"

interpretation same_sleeps: step_preorder same_sleeps
  by unfold_locales (auto simp: same_sleeps_def)

lemma same_sleeps_env:
  "steps same_sleeps uuid4" "steps same_sleeps perf_counter_ns" "steps same_sleeps utc_now"
  "steps same_sleeps (inc_metric nm ls)" "steps same_sleeps (observe_latency_ms b v ls)"
  "steps same_sleeps (emit_event ty kvs)"
  by (auto simp: steps_def same_sleeps_def uuid4_def perf_counter_ns_def utc_now_def inc_metric_def
      observe_latency_ms_def observe_metric_def emit_event_def prog_defs)

lemma same_sleeps_attempt: "steps same_sleeps fn \<Longrightarrow> steps same_sleeps (model_attempt cs put fn attempt)"
  unfolding model_attempt_def model_event_def latency_since_def
  by (intro same_sleeps.st_rules same_sleeps_env)

lemma same_sleeps_exhausted: "steps same_sleeps (retries_exhausted cs e)"
  unfolding retries_exhausted_def model_event_def by (intro same_sleeps.st_rules same_sleeps_env)

lemma model_attempt_count: "model_attempt cs put fn attempt e = (Inr (out, t), e') \<Longrightarrow> mt_retry_count t = attempt"
  by (auto simp: model_attempt_def latency_since_def bnd_def andthen_def ret_def Let_def split: prod.splits sum.splits)

lemma same_sleeps_record: "steps same_sleeps (record_retry cs attempt e)" "no_raise (record_retry cs attempt e)"
  unfolding record_retry_def model_event_def
  by (intro same_sleeps.st_rules same_sleeps_env) (intro no_raise_rules)

lemma same_sleeps_give_up: "steps same_sleeps (give_up cs reason ty e)"
  unfolding give_up_def model_event_def by (intro same_sleeps.st_rules same_sleeps_env)

lemma sleeps_after: "steps same_sleeps m \<Longrightarrow> m e = (r, e') \<Longrightarrow> env_sleeps e' = env_sleeps e"
  by (auto simp: steps_def same_sleeps_def dest: spec[of _ e])

lemma sleeps_final: "steps same_sleeps m \<Longrightarrow> env_sleeps (snd (m e)) = env_sleeps e"
  by (simp add: steps_def same_sleeps_def)

lemma raised_again: "fst (give_up cs reason ty e s) = Inl e" "fst (retries_exhausted cs e s) = Inl e"
  by (simp_all add: give_up_def retries_exhausted_def model_event_def prog_defs inc_metric_def emit_event_row)

section \<open>The loop\<close>

text \<open>How a call that starts at \<open>attempt\<close> with \<open>left\<close> attempts left ends: after \<open>k\<close> sleeps.\<close>

definition ends_after ::
  "model_config \<Rightarrow> nat \<Rightarrow> nat \<Rightarrow> nat list \<Rightarrow> nat \<Rightarrow> (exn + 'o \<times> model_telemetry) \<times> env \<Rightarrow> bool" where
  "ends_after cfg left attempt slept k r \<longleftrightarrow>
     k \<le> left \<and> env_sleeps (snd r) = slept @ map (\<lambda>i. mc_backoff_ms cfg * (attempt + i + 1)) [0..<k] \<and>
     (case fst r of
        Inr (out, t) \<Rightarrow> mt_retry_count t = attempt + k
      | Inl x \<Rightarrow> exn_class x = TransientModelError \<longrightarrow> k = left)"

lemma ends_after_later:
  assumes "ends_after cfg n (Suc attempt) (slept @ [mc_backoff_ms cfg * (attempt + 1)]) k r"
  shows "ends_after cfg (Suc n) attempt slept (Suc k) r"
proof -
  have "map (\<lambda>i. mc_backoff_ms cfg * (attempt + i + 1)) [0..<Suc k]
      = (mc_backoff_ms cfg * (attempt + 1)) # map (\<lambda>i. mc_backoff_ms cfg * (Suc attempt + i + 1)) [0..<k]"
    by (simp add: upt_conv_Cons map_Suc_upt[symmetric] del: upt_Suc)
  with assms show ?thesis by (auto simp: ends_after_def simp del: upt_Suc split: sum.splits)
qed

lemma ends_after_raise:
  "steps same_sleeps m \<Longrightarrow> fst (m e) = Inl x \<Longrightarrow> (exn_class x = TransientModelError \<longrightarrow> left = 0) \<Longrightarrow>
   env_sleeps e = slept \<Longrightarrow> ends_after cfg left attempt slept 0 (m e)"
  using sleeps_final[of m e] by (simp add: ends_after_def)

lemma call_attempts_end:
  assumes "steps same_sleeps fn"
  shows "\<exists>k. ends_after cfg left attempt (env_sleeps e) k (call_attempts left attempt cfg cs put fn e)"
proof (induction left arbitrary: attempt e rule: nat_less_induct)
  case (1 left)
  obtain r e1 where run: "model_attempt cs put fn attempt e = (r, e1)" by (cases "model_attempt cs put fn attempt e")
  note slept = sleeps_after[OF same_sleeps_attempt[OF assms] run]
  show ?case
  proof (cases r)
    case (Inr p)
    then show ?thesis
      using run slept model_attempt_count[of cs put fn attempt e "fst p" "snd p" e1]
      by (intro exI[of _ 0]) (cases p, simp add: call_attempts.simps try_except_def ends_after_def)
  next
    case (Inl x)
    have body: "call_attempts left attempt cfg cs put fn e =
       (if exn_class x = SchemaValidationModelError then give_up cs ''schema_validation'' ''model_schema_failure'' x
        else if exn_class x = TransientModelError then
          andthen (record_retry cs attempt x) (case left of
             0 \<Rightarrow> retries_exhausted cs x
           | Suc n \<Rightarrow> andthen (sleep_ms (mc_backoff_ms cfg * (attempt + 1)))
               (call_attempts n (Suc attempt) cfg cs put fn))
        else give_up cs (exn_name x) ''model_failure'' x) e1"
      using run Inl by (subst call_attempts.simps) (simp add: try_except_def)
    show ?thesis
    proof (cases "exn_class x = TransientModelError")
      case False
      then have stop: "ends_after cfg left attempt (env_sleeps e) 0 (give_up cs reason ty x e1)" for reason ty
        by (intro ends_after_raise[OF same_sleeps_give_up raised_again(1)] slept) simp
      show ?thesis
        unfolding body using stop False by auto
    next
      case True
      obtain e2 where noted: "record_retry cs attempt x e1 = (Inr (), e2)"
        using no_raiseE[OF same_sleeps_record(2)] by (metis old.unit.exhaust)
      note slept2 = sleeps_after[OF same_sleeps_record(1) noted]
      show ?thesis
      proof (cases left)
        case 0
        have "ends_after cfg left attempt (env_sleeps e) 0 (retries_exhausted cs x e2)"
          by (intro ends_after_raise[OF same_sleeps_exhausted raised_again(2)]) (simp_all add: slept slept2 0)
        then show ?thesis
          unfolding body using True 0 noted by (auto simp: andthen_def bnd_def)
      next
        case (Suc n)
        let ?e3 = "e2\<lparr>env_sleeps := env_sleeps e2 @ [mc_backoff_ms cfg * (attempt + 1)]\<rparr>"
        have "call_attempts left attempt cfg cs put fn e = call_attempts n (Suc attempt) cfg cs put fn ?e3"
          unfolding body using True Suc noted by (simp add: andthen_def bnd_def sleep_ms_def modifies_def)
        moreover obtain k where
          "ends_after cfg n (Suc attempt) (env_sleeps ?e3) k (call_attempts n (Suc attempt) cfg cs put fn ?e3)"
          using 1 Suc by blast
        moreover have "env_sleeps ?e3 = env_sleeps e @ [mc_backoff_ms cfg * (attempt + 1)]"
          using slept slept2 by simp
        ultimately have "ends_after cfg (Suc n) attempt (env_sleeps e) (Suc k) (call_attempts left attempt cfg cs put fn e)"
          by (intro ends_after_later) simp
        then show ?thesis using Suc by blast
      qed
    qed
  qed
qed


text \<open>A provider that fails transiently the first two times.\<close>

definition flaky :: "(env, nat \<times> model_telemetry) prog" where
  "flaky e = (if length (env_sleeps e) < 2 then (Inl (Exn TransientModelError ''rate limited''), e)
     else (Inr (7, \<lparr>mt_latency_ms = 0, mt_retry_count = 0, mt_provider_type = ''p'', mt_model_name = ''m'',
       mt_input_tokens = 0, mt_output_tokens = 0, mt_total_tokens = 0, mt_timed_out = False\<rparr>), e))"

definition sample_site :: call_site where
  "sample_site = \<lparr>cs_task = ''t'', cs_execution_id = 1, cs_step_id = 2, cs_provider = ''p''\<rparr>"


section \<open>The metrics of a failure\<close>

text \<open>The last transient failure is counted as a retry although none follows.\<close>

lemma last_failure_counted_as_retry:
  assumes "mc_max_retries cfg \<le> 0" "\<And>e. fn e = (Inl (Exn TransientModelError msg), e)"
  shows "env_sleeps (snd (call_with_retries cfg cs put fn e)) = env_sleeps e \<and>
    ddict_get (mx_counters (env_metrics (snd (call_with_retries cfg cs put fn e)))) (''model_retries_total'', [(''task'', cs_task cs)]) =
    ddict_get (mx_counters (env_metrics e)) (''model_retries_total'', [(''task'', cs_task cs)]) + 1"
proof -
  have "max_model_attempts cfg = 1" using assms(1) by (simp add: max_model_attempts_def)
  then show ?thesis
    by (simp add: call_with_retries_def call_attempts.simps model_attempt_def model_event_def record_retry_def
        retries_exhausted_def prog_defs emit_event_row perf_counter_ns_def assms(2) inc_metric_def metrics_inc_def
        ddict_get_add label_key_def)
qed

end
