(* ===== verification/Default_Engine.thy ===== *)
theory Default_Engine
  imports Knowledge_Properties Model_Runtime_Properties Sample_World
begin

text \<open>
  The engine as \<open>ExecutionEngine\<close>'s constructor builds it when the client injects nothing: the fixture
  tools, the knowledge service on its default corpus and the model runtime on the deterministic
  provider.  These services meet the contract the engine's theorems assume.
\<close>

text \<open>What the engine takes of a call of the model runtime: its output.\<close>

definition output_of :: "(env, 'o \<times> model_telemetry) prog \<Rightarrow> (env, 'o) prog" where
  "output_of m = bnd m (\<lambda>(out, t). ret out)"

definition runtime_of :: "model_config \<Rightarrow> provider \<Rightarrow> model_runtime" where
  "runtime_of cfg pv =
     \<lparr>mr_analyze_incident = (\<lambda>rq. output_of (analyze_incident cfg pv rq)),
      mr_validate_incident = (\<lambda>rq. output_of (validate_incident cfg pv rq)),
      mr_analyze_cost = (\<lambda>rq. output_of (analyze_cost_anomaly cfg pv rq)),
      mr_validate_cost = (\<lambda>rq. output_of (validate_cost_attribution cfg pv rq))\<rparr>"

definition engine_of :: "knowledge \<Rightarrow> model_config \<Rightarrow> provider \<Rightarrow> engine" where
  "engine_of k cfg pv =
     \<lparr>eng_planner_meta = [], eng_settings = default_settings, eng_policy = evaluate,
      eng_tools = Some build_default_registry, eng_knowledge = Some (retrieve k), eng_model = Some (runtime_of cfg pv)\<rparr>"

definition default_engine :: engine where
  "default_engine = engine_of (new_knowledge ''phase5_local_v1'' []) default_model_config fake_provider"

section \<open>The contract of the services\<close>

lemma env_le_retrieve: "steps env_le (retrieve k rq)"
  unfolding retrieve_def by (intro env_le_rules)

lemma env_le_attempt: "steps env_le fn \<Longrightarrow> steps env_le (model_attempt cs put fn attempt)"
  unfolding model_attempt_def model_event_def latency_since_def by (intro env_le_rules)

lemma env_le_failures:
  "steps env_le (give_up cs reason ty e)" "steps env_le (record_retry cs attempt e)" "steps env_le (retries_exhausted cs e)"
  unfolding give_up_def record_retry_def retries_exhausted_def model_event_def by (intro env_le_rules)+

lemma env_le_call_attempts: "steps env_le fn \<Longrightarrow> steps env_le (call_attempts left attempt cfg cs put fn)"
proof (induction left arbitrary: attempt rule: nat_less_induct)
  case (1 left)
  have "steps env_le (case left of 0 \<Rightarrow> retries_exhausted cs e
      | Suc n \<Rightarrow> andthen (sleep_ms (mc_backoff_ms cfg * (attempt + 1))) (call_attempts n (Suc attempt) cfg cs put fn))" for e
    using 1 by (auto split: nat.split intro!: env_le_rules env_le_failures)
  then show ?case
    by (subst call_attempts.simps) (intro env_le_rules env_le_failures env_le_attempt 1(2))
qed

lemma env_le_call: "steps env_le fn \<Longrightarrow> steps env_le (output_of (call_with_retries cfg cs put fn))"
  unfolding output_of_def call_with_retries_def by (intro env_le_rules env_le_call_attempts)

lemma env_le_fake: "steps env_le (fake_call build)"
  unfolding fake_call_def latency_since_def by (intro env_le_rules)

text \<open>What the engine relies on of a provider: it never hands an identifier out twice.\<close>

definition provider_ok :: "provider \<Rightarrow> bool" where
  "provider_ok pv \<longleftrightarrow>
     (\<forall>rq. steps env_le (pv_analyze_incident pv rq)) \<and> (\<forall>rq. steps env_le (pv_validate_incident pv rq)) \<and>
     (\<forall>rq. steps env_le (pv_analyze_cost pv rq)) \<and> (\<forall>rq. steps env_le (pv_validate_cost pv rq))"

lemma fake_provider_ok: "provider_ok fake_provider"
  by (simp add: provider_ok_def fake_provider_def fake_analyze_incident_def fake_validate_incident_def
      fake_analyze_cost_def fake_validate_cost_def env_le_fake)

text \<open>The knowledge service, and the model runtime on any provider that meets its contract, are services the
  engine's theorems apply to.\<close>

lemma provider_services_ok:
  assumes "provider_ok pv"
  shows "services_ok (engine_of k cfg pv)"
  using assms
  by (simp add: services_ok_def engine_of_def runtime_of_def provider_ok_def env_le_retrieve analyze_incident_def
      validate_incident_def analyze_cost_anomaly_def validate_cost_attribution_def env_le_call)

lemma default_services_ok: "services_ok default_engine"
  unfolding default_engine_def by (rule provider_services_ok[OF fake_provider_ok])

end
