(* ===== verification/Feedback.thy ===== *)
theory Feedback
  imports Environment Repository Results
begin

text \<open>
  The feedback service (\<open>services/feedback-service/feedback_service\<close>): the records of operators and of
  the post-run analysis (\<open>common_schemas/feedback.py\<close>), the in-memory repository, the mapping between
  records and database rows (\<open>repository.py\<close>) and the service (\<open>service.py\<close>).  The sessions of the
  Postgres repository are SQLAlchemy and not modelled; the rows they store are.
\<close>

section \<open>Records\<close>

datatype feedback_source = FS_OPERATOR_CONSOLE | FS_INTEGRATION | FS_API

fun feedback_source_value :: "feedback_source \<Rightarrow> string" where
  "feedback_source_value FS_OPERATOR_CONSOLE = ''operator_console''"
| "feedback_source_value FS_INTEGRATION = ''integration''"
| "feedback_source_value FS_API = ''api''"

record operator_feedback =
  of_id :: uuid
  of_execution_id :: uuid
  of_source :: feedback_source
  of_labels :: "string list"
  of_detail :: pydict
  of_source_scope :: "pydict option"
  of_created_at :: datetime
  of_updated_at :: "datetime option"

record pattern_detection =
  pd_type :: string
  pd_description :: "string option"
  pd_evidence :: pydict

record improvement_suggestion =
  is_category :: string
  is_summary :: string
  is_detail :: pydict

record execution_feedback =
  ef_id :: uuid
  ef_execution_id :: uuid
  ef_source_scope :: "pydict option"
  ef_failure_types :: "string list"
  ef_patterns :: "pattern_detection list"
  ef_suggestions :: "improvement_suggestion list"
  ef_confidence :: "rat option"
  ef_created_at :: datetime
  ef_updated_at :: "datetime option"

definition execution_feedback_valid :: "execution_feedback \<Rightarrow> bool" where
  "execution_feedback_valid f \<longleftrightarrow> unit_interval (ef_confidence f)"

section \<open>The in-memory repository\<close>

record feedback_repo =
  fr_operator :: "(uuid \<times> operator_feedback) list"
  fr_mukti :: "(uuid \<times> execution_feedback) list"

definition empty_feedback :: feedback_repo where
  "empty_feedback = \<lparr>fr_operator = [], fr_mukti = []\<rparr>"

definition save_operator_feedback :: "operator_feedback \<Rightarrow> feedback_repo \<Rightarrow> feedback_repo" where
  "save_operator_feedback x r = r\<lparr>fr_operator := AList.update (of_id x) x (fr_operator r)\<rparr>"

definition get_operator_feedback :: "feedback_repo \<Rightarrow> uuid \<Rightarrow> operator_feedback option" where
  "get_operator_feedback r k = map_of (fr_operator r) k"

definition list_operator_feedback :: "feedback_repo \<Rightarrow> uuid \<Rightarrow> operator_feedback list" where
  "list_operator_feedback r eid =
     sort_key of_created_at (filter (\<lambda>x. of_execution_id x = eid) (map snd (fr_operator r)))"

definition save_execution_feedback :: "execution_feedback \<Rightarrow> feedback_repo \<Rightarrow> feedback_repo" where
  "save_execution_feedback x r = r\<lparr>fr_mukti := AList.update (ef_id x) x (fr_mukti r)\<rparr>"

definition get_execution_feedback :: "feedback_repo \<Rightarrow> uuid \<Rightarrow> execution_feedback option" where
  "get_execution_feedback r k = map_of (fr_mukti r) k"

definition list_execution_feedback_for_execution :: "feedback_repo \<Rightarrow> uuid \<Rightarrow> execution_feedback list" where
  "list_execution_feedback_for_execution r eid =
     sort_key ef_created_at (filter (\<lambda>x. ef_execution_id x = eid) (map snd (fr_mukti r)))"

definition list_execution_feedback :: "feedback_repo \<Rightarrow> int \<Rightarrow> uuid list option \<Rightarrow> execution_feedback list" where
  "list_execution_feedback r limit ids =
     (let rows = map snd (fr_mukti r);
          rows = (case ids of None \<Rightarrow> rows | Some allowed \<Rightarrow> filter (\<lambda>x. ef_execution_id x \<in> set allowed) rows)
      in take (nat (max 1 limit)) (sort_key (\<lambda>x. - ef_created_at x) rows))"

interpretation operator_records: keyed_store of_id get_operator_feedback save_operator_feedback
  by unfold_locales (simp add: get_operator_feedback_def save_operator_feedback_def)

interpretation mukti_records: keyed_store ef_id get_execution_feedback save_execution_feedback
  by unfold_locales (simp add: get_execution_feedback_def save_execution_feedback_def)

section \<open>Rows\<close>

record operator_row =
  or_id :: uuid
  or_execution_id :: uuid
  or_source :: string
  or_labels :: "string list"
  or_detail :: pydict
  or_source_scope :: "pydict option"
  or_created_at :: datetime
  or_updated_at :: "datetime option"

record feedback_row =
  fw_id :: uuid
  fw_execution_id :: uuid
  fw_source_scope :: "pydict option"
  fw_failure_types :: "string list"
  fw_patterns :: "pydict list"
  fw_suggestions :: "pydict list"
  fw_confidence :: "rat option"
  fw_created_at :: datetime

definition op_to_row :: "operator_feedback \<Rightarrow> operator_row" where
  "op_to_row r =
     \<lparr>or_id = of_id r, or_execution_id = of_execution_id r, or_source = feedback_source_value (of_source r),
      or_labels = of_labels r, or_detail = of_detail r, or_source_scope = of_source_scope r,
      or_created_at = of_created_at r, or_updated_at = of_updated_at r\<rparr>"

text \<open>\<open>FeedbackSource(s)\<close>.\<close>

definition parse_feedback_source :: "string \<Rightarrow> exn + feedback_source" where
  "parse_feedback_source s =
     (case find (\<lambda>x. feedback_source_value x = s) [FS_OPERATOR_CONSOLE, FS_INTEGRATION, FS_API] of
        Some x \<Rightarrow> Inr x
      | None \<Rightarrow> Inl (Exn ValueError (repr_str s @ '' is not a valid FeedbackSource'')))"

definition row_to_op :: "operator_row \<Rightarrow> exn + operator_feedback" where
  "row_to_op w =
     and_then (parse_feedback_source (or_source w)) (\<lambda>source.
       Inr \<lparr>of_id = or_id w, of_execution_id = or_execution_id w, of_source = source, of_labels = or_labels w,
         of_detail = or_detail w, of_source_scope = or_source_scope w, of_created_at = or_created_at w,
         of_updated_at = or_updated_at w\<rparr>)"

definition pattern_json :: "pattern_detection \<Rightarrow> pydict" where
  "pattern_json p =
     [(''pattern_type'', PStr (pd_type p)), (''description'', opt_str (pd_description p)),
      (''evidence'', PDict (pd_evidence p))]"

definition suggestion_json :: "improvement_suggestion \<Rightarrow> pydict" where
  "suggestion_json s =
     [(''category'', PStr (is_category s)), (''summary'', PStr (is_summary s)), (''detail'', PDict (is_detail s))]"

text \<open>\<open>model_validate\<close> of the two models: no field beside the model's, a required string, and the defaults.\<close>

definition only_keys :: "string list \<Rightarrow> pydict \<Rightarrow> bool" where
  "only_keys ks d \<longleftrightarrow> list_all (\<lambda>(k, v). k \<in> set ks) d"

definition str_or_none :: "pyval \<Rightarrow> string option option" where
  "str_or_none v = (if v = PNone then Some None else map_option Some (as_str v))"

definition pattern_of_json :: "pydict \<Rightarrow> exn + pattern_detection" where
  "pattern_of_json d =
     (case (as_str (dget d ''pattern_type''), str_or_none (dget d ''description''),
            as_dict (dget_default d ''evidence'' (PDict []))) of
        (Some ty, Some descr, Some evidence) \<Rightarrow>
          if only_keys [''pattern_type'', ''description'', ''evidence''] d
          then Inr \<lparr>pd_type = ty, pd_description = descr, pd_evidence = evidence\<rparr>
          else Inl (Exn PydanticValidationError ''PatternDetection'')
      | _ \<Rightarrow> Inl (Exn PydanticValidationError ''PatternDetection''))"

definition suggestion_of_json :: "pydict \<Rightarrow> exn + improvement_suggestion" where
  "suggestion_of_json d =
     (case (as_str (dget d ''category''), as_str (dget d ''summary''), as_dict (dget_default d ''detail'' (PDict []))) of
        (Some cat, Some summary, Some detail) \<Rightarrow>
          if only_keys [''category'', ''summary'', ''detail''] d
          then Inr \<lparr>is_category = cat, is_summary = summary, is_detail = detail\<rparr>
          else Inl (Exn PydanticValidationError ''ImprovementSuggestion'')
      | _ \<Rightarrow> Inl (Exn PydanticValidationError ''ImprovementSuggestion''))"

definition ef_to_row :: "execution_feedback \<Rightarrow> feedback_row" where
  "ef_to_row r =
     \<lparr>fw_id = ef_id r, fw_execution_id = ef_execution_id r, fw_source_scope = ef_source_scope r,
      fw_failure_types = ef_failure_types r, fw_patterns = map pattern_json (ef_patterns r),
      fw_suggestions = map suggestion_json (ef_suggestions r), fw_confidence = ef_confidence r,
      fw_created_at = ef_created_at r\<rparr>"

definition row_to_ef :: "feedback_row \<Rightarrow> exn + execution_feedback" where
  "row_to_ef w =
     and_then (all_ok (map pattern_of_json (fw_patterns w))) (\<lambda>pats.
     and_then (all_ok (map suggestion_of_json (fw_suggestions w))) (\<lambda>sugs.
       checked ''ExecutionFeedback'' execution_feedback_valid
         \<lparr>ef_id = fw_id w, ef_execution_id = fw_execution_id w, ef_source_scope = fw_source_scope w,
          ef_failure_types = fw_failure_types w, ef_patterns = pats, ef_suggestions = sugs,
          ef_confidence = fw_confidence w, ef_created_at = fw_created_at w, ef_updated_at = None\<rparr>))"

section \<open>The service\<close>

definition submit_operator_feedback ::
  "uuid \<Rightarrow> feedback_source \<Rightarrow> string list option \<Rightarrow> pydict option \<Rightarrow> pydict option \<Rightarrow> datetime option \<Rightarrow>
   feedback_repo \<Rightarrow> (env, operator_feedback \<times> feedback_repo) prog" where
  "submit_operator_feedback eid source labels detail scope now r =
     bnd (now_or_clock now) (\<lambda>ts. bnd uuid4 (\<lambda>rid.
       let x = \<lparr>of_id = rid, of_execution_id = eid, of_source = source,
                of_labels = (case labels of None \<Rightarrow> [] | Some l \<Rightarrow> l),
                of_detail = (case detail of None \<Rightarrow> [] | Some d \<Rightarrow> d),
                of_source_scope = scope, of_created_at = ts, of_updated_at = None\<rparr>
       in ret (x, save_operator_feedback x r)))"

text \<open>The facade of the gateway: the source as text.\<close>

definition submit_feedback ::
  "uuid \<Rightarrow> string \<Rightarrow> string list option \<Rightarrow> pydict option \<Rightarrow> pydict option \<Rightarrow> feedback_repo \<Rightarrow>
   (env, operator_feedback \<times> feedback_repo) prog" where
  "submit_feedback eid source labels detail scope r =
     (case parse_feedback_source source of
        Inl e \<Rightarrow> throw ValueError (''invalid feedback source: '' @ source)
      | Inr fs \<Rightarrow> submit_operator_feedback eid fs labels detail scope None r)"

section \<open>What is stored is read back\<close>

lemma parse_source_value: "parse_feedback_source (feedback_source_value s) = Inr s"
  by (cases s) (simp_all add: parse_feedback_source_def)

lemma pattern_read_back: "pattern_of_json (pattern_json p) = Inr p"
  by (cases "pd_description p")
    (simp_all add: pattern_of_json_def pattern_json_def dget_def dget_default_def str_or_none_def opt_str_def only_keys_def)

lemma suggestion_read_back: "suggestion_of_json (suggestion_json s) = Inr s"
  by (simp add: suggestion_of_json_def suggestion_json_def dget_def dget_default_def only_keys_def)

lemma patterns_read_back: "all_ok (map (\<lambda>p. pattern_of_json (pattern_json p)) ps) = Inr ps"
  by (simp add: pattern_read_back all_ok_map)

lemma suggestions_read_back: "all_ok (map (\<lambda>s. suggestion_of_json (suggestion_json s)) ss) = Inr ss"
  by (simp add: suggestion_read_back all_ok_map)

text \<open>A record written to its row and read again is the same record, except that an analysis loses the
  time of its update.\<close>

theorem feedback_rows_read_back:
  "row_to_op (op_to_row r) = Inr r \<and>
   (execution_feedback_valid f \<longrightarrow> row_to_ef (ef_to_row f) = Inr (f\<lparr>ef_updated_at := None\<rparr>))"
  by (simp add: row_to_op_def op_to_row_def parse_source_value row_to_ef_def ef_to_row_def checked_def
      o_def patterns_read_back suggestions_read_back execution_feedback_valid_def)

definition sample_feedback :: execution_feedback where
  "sample_feedback =
     \<lparr>ef_id = 1, ef_execution_id = 2, ef_source_scope = None, ef_failure_types = [''terminal_failed''],
      ef_patterns = [\<lparr>pd_type = ''p'', pd_description = None, pd_evidence = []\<rparr>],
      ef_suggestions = [], ef_confidence = Some (1 / 2), ef_created_at = 0, ef_updated_at = Some 5\<rparr>"

theorem feedback_rows_read_back_witness:
  "row_to_ef (ef_to_row sample_feedback) = Inr (sample_feedback\<lparr>ef_updated_at := None\<rparr>)"
  using feedback_rows_read_back[of undefined sample_feedback]
  by (simp add: execution_feedback_valid_def unit_interval_def sample_feedback_def)

end
