(* ===== verification/Sha1.thy ===== *)
theory Sha1
  imports Sha256 Schemas
begin

text \<open>
  SHA-1 (FIPS 180-4) on byte strings and \<open>uuid.uuid5\<close> of the standard library, which derives the
  identifiers of insights from their category and key.
\<close>

definition rotl :: "nat \<Rightarrow> w32 \<Rightarrow> w32" where
  "rotl n x = push_bit n x OR drop_bit (32 - n) x"

definition sha1_h0 :: "w32 list" where
  "sha1_h0 = [1732584193, 4023233417, 2562383102, 271733878, 3285377520]"

text \<open>The schedule, newest first: positions 2, 7, 13 and 15 counted from the newest.\<close>

fun sha1_schedule :: "nat \<Rightarrow> w32 list \<Rightarrow> w32 list" where
  "sha1_schedule 0 ws = ws"
| "sha1_schedule (Suc n) ws =
     sha1_schedule n (rotl 1 (ws ! 2 XOR ws ! 7 XOR ws ! 13 XOR ws ! 15) # ws)"

definition sha1_f :: "nat \<Rightarrow> w32 \<Rightarrow> w32 \<Rightarrow> w32 \<Rightarrow> w32" where
  "sha1_f t b c d = (if t < 20 then sha_ch b c d else if 40 \<le> t \<and> t < 60 then sha_maj b c d else b XOR c XOR d)"

definition sha1_k :: "nat \<Rightarrow> w32" where
  "sha1_k t = (if t < 20 then 1518500249 else if t < 40 then 1859775393
               else if t < 60 then 2400959708 else 3395469782)"

fun sha1_round :: "w32 list \<Rightarrow> nat \<times> w32 \<Rightarrow> w32 list" where
  "sha1_round [a, b, c, d, e] (t, w) = [rotl 5 a + sha1_f t b c d + e + sha1_k t + w, a, rotl 30 b, c, d]"
| "sha1_round st _ = st"

definition sha1_block :: "w32 list \<Rightarrow> w32 list \<Rightarrow> w32 list" where
  "sha1_block hs ws = map2 (+) hs (foldl sha1_round hs (enumerate 0 (rev (sha1_schedule 64 (rev ws)))))"

fun sha1_blocks :: "nat \<Rightarrow> w32 list \<Rightarrow> w32 list \<Rightarrow> w32 list" where
  "sha1_blocks 0 hs ws = hs"
| "sha1_blocks (Suc n) hs ws = sha1_blocks n (sha1_block hs (take 16 ws)) (drop 16 ws)"

definition sha1_hex :: "nat list \<Rightarrow> string" where
  "sha1_hex bs =
     (let ws = be_words (sha_pad bs)
      in concat (map (\<lambda>w. hex_fixed 8 (unat w)) (sha1_blocks (length ws div 16) sha1_h0 ws)))"

text \<open>\<open>UUID(bytes=sha1(namespace.bytes + name).digest()[:16], version=5)\<close>: the version in bits 76 to 79, the
  variant in bits 62 and 63.\<close>

definition stamp_uuid5 :: "nat \<Rightarrow> uuid" where
  "stamp_uuid5 n =
     n div 2 ^ 80 * 2 ^ 80 + 5 * 2 ^ 76 + n div 2 ^ 64 mod 2 ^ 12 * 2 ^ 64 + 2 ^ 63 + n mod 2 ^ 62"

definition NAMESPACE_URL :: uuid where
  "NAMESPACE_URL = 143098242483405524118141958906375844040"

definition uuid5 :: "uuid \<Rightarrow> string \<Rightarrow> uuid" where
  "uuid5 ns nm = stamp_uuid5 (int_of_hex (take 32 (sha1_hex (be_bytes 16 ns @ utf8 nm))))"

end
