(* ===== verification/Tallies.thy ===== *)
theory Tallies
  imports Main "HOL-Library.AList"
begin

text \<open>
  The dictionaries the analyses fill in one pass over their rows: \<open>Counter\<close>, \<open>defaultdict(list)\<close>,
  \<open>defaultdict(set)\<close> in insertion order, and the lists without repetitions they keep.
\<close>

section \<open>Operations\<close>

text \<open>First occurrences, in order.\<close>

definition dedup :: "'a list \<Rightarrow> 'a list" where
  "dedup xs = foldl (\<lambda>out x. if x \<in> set out then out else out @ [x]) [] xs"

text \<open>The dictionaries the methods fill: \<open>Counter\<close>, \<open>defaultdict(list)\<close> and \<open>defaultdict(set)\<close>.\<close>

definition found :: "('k \<times> 'v list) list \<Rightarrow> 'k \<Rightarrow> 'v list" where
  "found d k = (case map_of d k of None \<Rightarrow> [] | Some xs \<Rightarrow> xs)"

definition count_up :: "'k \<Rightarrow> ('k \<times> nat) list \<Rightarrow> ('k \<times> nat) list" where
  "count_up k c = AList.update k (Suc (case map_of c k of None \<Rightarrow> 0 | Some n \<Rightarrow> n)) c"

definition append_to :: "'k \<Rightarrow> 'v \<Rightarrow> ('k \<times> 'v list) list \<Rightarrow> ('k \<times> 'v list) list" where
  "append_to k x d = AList.update k (found d k @ [x]) d"

definition add_to :: "'k \<Rightarrow> 'v \<Rightarrow> ('k \<times> 'v list) list \<Rightarrow> ('k \<times> 'v list) list" where
  "add_to k x d = (if x \<in> set (found d k) then d else append_to k x d)"

definition most_common :: "nat \<Rightarrow> ('k \<times> nat) list \<Rightarrow> ('k \<times> nat) list" where
  "most_common n c = take n (sort_key (\<lambda>(k, m). - int m) c)"

section \<open>Laws\<close>

lemma found_update: "found (AList.update k xs d) k' = (if k = k' then xs else found d k')"
  by (simp add: found_def update_conv')

lemma found_append_to: "found (append_to k x d) k' = (if k = k' then found d k @ [x] else found d k')"
  by (simp add: append_to_def found_update)

lemma found_add_to:
  "found (add_to k x d) k' = (if k = k' \<and> x \<notin> set (found d k) then found d k @ [x] else found d k')"
  by (auto simp: add_to_def found_append_to)

lemma found_Nil [simp]: "found [] k = []"
  by (simp add: found_def)

lemma most_common_subset: "set (most_common n c) \<subseteq> set c"
  using set_take_subset by (fastforce simp: most_common_def)

lemma most_common_length: "length (most_common n c) \<le> n"
  by (simp add: most_common_def)

lemma most_common_sorted: "sorted_wrt (\<lambda>(k, m) (l, n). n \<le> m) (most_common n c)"
proof -
  have "sorted (map (\<lambda>(k, m). - int m) (sort_key (\<lambda>(k, m). - int m) c))" by simp
  then have "sorted_wrt (\<lambda>p q. (case p of (k, m) \<Rightarrow> - int m) \<le> (case q of (k, m) \<Rightarrow> - int m))
      (sort_key (\<lambda>(k, m). - int m) c)"
    by (simp only: sorted_map)
  then show ?thesis
    unfolding most_common_def by (intro sorted_wrt_take) (auto elim!: sorted_wrt_mono_rel[rotated])
qed

lemma most_common_all: "length c \<le> n \<Longrightarrow> set (most_common n c) = set c"
  by (simp add: most_common_def)

lemma most_common_best:
  assumes "(k, m) \<in> set c" "(k, m) \<notin> set (most_common n c)"
  shows "length (most_common n c) = n" "(l, p) \<in> set (most_common n c) \<Longrightarrow> m \<le> p"
proof -
  let ?s = "sort_key (\<lambda>(k, m). - int m) c"
  have split: "?s = most_common n c @ drop n ?s" by (simp add: most_common_def)
  have "(k, m) \<in> set ?s" using assms(1) by simp
  with assms(2) have later: "(k, m) \<in> set (drop n ?s)"
    by (subst (asm) split) auto
  then have "n < length ?s" by (metis drop_all empty_iff empty_set leI)
  then show "length (most_common n c) = n" by (simp add: most_common_def)
  have "sorted_wrt (\<lambda>p q. (case p of (k, m) \<Rightarrow> - int m) \<le> (case q of (k, m) \<Rightarrow> - int m)) ?s"
    using sorted_sort_key[of "\<lambda>(k, m). - int m" c] by (simp only: sorted_map)
  then show "m \<le> p" if "(l, p) \<in> set (most_common n c)"
    using later that by (subst (asm) split) (fastforce simp: sorted_wrt_append)
qed

lemma most_common_distinct: "distinct (map fst c) \<Longrightarrow> distinct (map fst (most_common n c))"
proof -
  assume "distinct (map fst c)"
  then have "distinct (map fst (sort_key (\<lambda>(k, m). - int m) c))"
    by (simp add: distinct_map inj_on_def)
  then show ?thesis by (simp add: most_common_def distinct_take flip: take_map)
qed

lemma dedup_set: "set (dedup xs) = set xs" and dedup_distinct: "distinct (dedup xs)"
proof -
  have "set (foldl (\<lambda>out x. if x \<in> set out then out else out @ [x]) ys xs) = set ys \<union> set xs \<and>
      (distinct ys \<longrightarrow> distinct (foldl (\<lambda>out x. if x \<in> set out then out else out @ [x]) ys xs))" for ys :: "'a list"
    by (induction xs arbitrary: ys) auto
  from this[of "[]"] show "set (dedup xs) = set xs" "distinct (dedup xs)" by (simp_all add: dedup_def)
qed

text \<open>The elements a \<open>defaultdict\<close> holds.\<close>

definition values_in :: "'v set \<Rightarrow> ('k \<times> 'v list) list \<Rightarrow> bool" where
  "values_in A d \<longleftrightarrow> (\<forall>p \<in> set d. set (snd p) \<subseteq> A)"

lemma values_inD: "values_in A d \<Longrightarrow> (k, xs) \<in> set d \<Longrightarrow> set xs \<subseteq> A"
  by (force simp: values_in_def)

lemma values_in_found: "values_in A d \<Longrightarrow> set (found d k) \<subseteq> A"
  by (cases "map_of d k") (simp_all add: found_def values_inD[OF _ map_of_SomeD])

lemma values_in_update: "values_in A d \<Longrightarrow> set xs \<subseteq> A \<Longrightarrow> values_in A (AList.update k xs d)"
  by (induction d) (auto simp: values_in_def)

lemma values_in_append_to: "values_in A d \<Longrightarrow> x \<in> A \<Longrightarrow> values_in A (append_to k x d)"
  by (simp add: append_to_def values_in_update values_in_found)

lemma values_in_add_to: "values_in A d \<Longrightarrow> x \<in> A \<Longrightarrow> values_in A (add_to k x d)"
  by (simp add: add_to_def values_in_append_to)

lemma foldl_keeps: "P s \<Longrightarrow> (\<And>s x. P s \<Longrightarrow> x \<in> set xs \<Longrightarrow> P (f s x)) \<Longrightarrow> P (foldl f s xs)"
  by (induction xs arbitrary: s) auto

lemma values_in_Nil [simp]: "values_in A []"
  by (simp add: values_in_def)

end
