(* ===== verification/Mukti.thy ===== *)
theory Mukti
  imports Feedback Sha1 Rounding Tallies Execution_Service "HOL-Library.Product_Lexorder"
begin

text \<open>
  The post-run analysis (\<open>services/mukti-agent/mukti_agent\<close>): the rules over one terminated execution
  (\<open>analyzer.py\<close>), their input read from the repository (\<open>support/mukti_input.py\<close>), the roll-up over
  many executions (\<open>cross_execution.py\<close>) and its records (\<open>common_schemas/mukti_insights.py\<close>).
\<close>

section \<open>One execution\<close>

record analysis_input =
  mi_execution :: execution
  mi_steps :: "(step \<times> step_result option) list"
  mi_feedback :: "operator_feedback list"
  mi_evaluations :: "policy_evaluation list"
  mi_proposals :: "action_proposal list"

definition build_mukti_analysis_input :: "repo \<Rightarrow> uuid \<Rightarrow> operator_feedback list option \<Rightarrow> exn + analysis_input" where
  "build_mukti_analysis_input r eid fb =
     (case get_execution r eid of
        None \<Rightarrow> Inl (Exn KeyError (repr_str (''execution not found: '' @ uuid_str eid)))
      | Some ex \<Rightarrow> Inr
          \<lparr>mi_execution = ex,
           mi_steps = map (\<lambda>s. (s, get_step_result r (st_id s))) (list_steps_for_execution r eid),
           mi_feedback = (case fb of None \<Rightarrow> [] | Some l \<Rightarrow> l),
           mi_evaluations = list_policy_evaluations_for_execution r eid,
           mi_proposals = list_action_proposals_for_execution r eid\<rparr>)"

definition denied_evaluation_suggestion :: "policy_evaluation \<Rightarrow> improvement_suggestion" where
  "denied_evaluation_suggestion ev =
     \<lparr>is_category = ''policy_rule'', is_summary = ''Review policy rules that denied this execution path.'',
      is_detail = [(''evaluation_id'', PStr (uuid_str (pe_id ev)))]\<rparr>"

definition denied_proposal_suggestion :: "action_proposal \<Rightarrow> improvement_suggestion" where
  "denied_proposal_suggestion p =
     \<lparr>is_category = ''policy_rule'',
      is_summary = ''Action proposal reached policy_denied; align workflow intent with policy pack.'',
      is_detail = [(''proposal_id'', PStr (uuid_str (ap_id p))), (''action_type'', PStr (ap_action_type p))]\<rparr>"

definition fallback_pattern :: "pydict \<Rightarrow> pattern_detection" where
  "fallback_pattern row =
     \<lparr>pd_type = ''model_deterministic_fallback'',
      pd_description = Some ''Structured model path fell back to deterministic StepExecutor.'',
      pd_evidence = [(''step_id'', dget row ''step_id''), (''task'', dget row ''task''),
        (''error_class'', dget row ''error_class'')]\<rparr>"

definition disputed_pattern :: "operator_feedback \<Rightarrow> pattern_detection" where
  "disputed_pattern fb =
     \<lparr>pd_type = ''operator_disputed_outcome'', pd_description = Some ''Operator flagged possible false positive.'',
      pd_evidence = [(''feedback_record_id'', PStr (uuid_str (of_id fb)))]\<rparr>"

definition clean_pattern :: "execution \<Rightarrow> pattern_detection" where
  "clean_pattern ex =
     \<lparr>pd_type = ''clean_success_path'',
      pd_description = Some ''Execution completed with no classified failure signals in this analyzer pass.'',
      pd_evidence = [(''workflow_type'', PStr (ex_workflow_type ex))]\<rparr>"

definition policy_denied_row :: "pydict \<Rightarrow> bool" where
  "policy_denied_row row \<longleftrightarrow> dget row ''event_type'' = PStr ''governed_outcome'' \<and> dget row ''path'' = PStr ''policy_denied''"

definition fallback_row :: "pydict \<Rightarrow> bool" where
  "fallback_row row \<longleftrightarrow>
     dget row ''event_type'' = PStr ''model_reasoning'' \<and> dget row ''path'' = PStr ''deterministic_fallback''"

definition keep_if :: "bool \<Rightarrow> 'a \<Rightarrow> 'a list" where
  "keep_if b x = (if b then [x] else [])"

text \<open>The failure types in the order the rules append them.\<close>

definition raw_failure_types :: "analysis_input \<Rightarrow> string list" where
  "raw_failure_types i =
     (let ex = mi_execution i in
       keep_if (ex_status ex = ES_FAILED) ''terminal_failed''
     @ keep_if (ex_status ex = ES_CANCELLED) ''terminal_cancelled''
     @ keep_if (list_ex (\<lambda>(s, r). st_status s = SS_FAILED) (mi_steps i)) ''step_failure''
     @ concat (map (\<lambda>ev. keep_if (pe_decision ev = PD_DENY) ''policy_evaluation_deny'') (mi_evaluations i))
     @ concat (map (\<lambda>row. keep_if (policy_denied_row row) ''trace_policy_denied'') (ex_timeline ex))
     @ concat (map (\<lambda>p. keep_if (ap_status p = AP_POLICY_DENIED) ''action_proposal_policy_denied'') (mi_proposals i)))"

definition analyzer_analyze :: "analysis_input \<Rightarrow> datetime \<Rightarrow> (env, execution_feedback) prog" where
  "analyzer_analyze i now =
     (let ex = mi_execution i;
          failures = raw_failure_types i;
          patterns = map fallback_pattern (filter fallback_row (ex_timeline ex))
            @ map disputed_pattern
                (filter (\<lambda>fb. list_ex (\<lambda>x. lower x = ''false_positive'') (of_labels fb)) (mi_feedback i))
            @ keep_if (ex_status ex = ES_COMPLETED \<and> failures = []) (clean_pattern ex);
          suggestions = map denied_evaluation_suggestion (filter (\<lambda>ev. pe_decision ev = PD_DENY) (mi_evaluations i))
            @ map denied_proposal_suggestion (filter (\<lambda>p. ap_status p = AP_POLICY_DENIED) (mi_proposals i))
      in bnd uuid4 (\<lambda>fid.
        ret \<lparr>ef_id = fid, ef_execution_id = ex_id ex,
          ef_source_scope = Some [(''analyzer'', PStr ''deterministic_rule_pack_v1'')],
          ef_failure_types = dedup failures, ef_patterns = patterns, ef_suggestions = suggestions,
          ef_confidence = Some (84 / 100), ef_created_at = now, ef_updated_at = None\<rparr>))"

definition mukti_analyze :: "analysis_input \<Rightarrow> datetime option \<Rightarrow> (env, execution_feedback) prog" where
  "mukti_analyze i now = bnd (now_or_clock now) (\<lambda>ts. analyzer_analyze i ts)"

section \<open>Many executions: records\<close>

datatype insight_severity = IS_INFO | IS_WARNING | IS_ELEVATED

datatype insight_category =
    IC_TOP_FAILURE_TYPE | IC_RECURRING_PATTERN | IC_POLICY_FRICTION | IC_MODEL_FALLBACK
  | IC_UNSTABLE_WORKFLOW | IC_UNSTABLE_STEP | IC_IMPROVEMENT_SUGGESTION

fun insight_category_value :: "insight_category \<Rightarrow> string" where
  "insight_category_value IC_TOP_FAILURE_TYPE = ''top_failure_type''"
| "insight_category_value IC_RECURRING_PATTERN = ''recurring_pattern''"
| "insight_category_value IC_POLICY_FRICTION = ''policy_friction''"
| "insight_category_value IC_MODEL_FALLBACK = ''model_fallback''"
| "insight_category_value IC_UNSTABLE_WORKFLOW = ''unstable_workflow''"
| "insight_category_value IC_UNSTABLE_STEP = ''unstable_step''"
| "insight_category_value IC_IMPROVEMENT_SUGGESTION = ''improvement_suggestion''"

record insight =
  in_id :: uuid
  in_category :: insight_category
  in_severity :: insight_severity
  in_title :: string
  in_description :: string
  in_evidence_count :: nat
  in_workflows :: "string list"
  in_steps :: "string list"
  in_action :: "string option"
  in_execution_ids :: "uuid list"
  in_rank_score :: int
  in_evidence :: pydict

definition insight_valid :: "insight \<Rightarrow> bool" where
  "insight_valid i \<longleftrightarrow>
     length (in_title i) \<le> 256 \<and> length (in_description i) \<le> 2048 \<and> length (in_workflows i) \<le> 32 \<and>
     length (in_steps i) \<le> 64 \<and> (case in_action i of None \<Rightarrow> True | Some a \<Rightarrow> length a \<le> 1024) \<and>
     length (in_execution_ids i) \<le> 200 \<and> 0 \<le> in_rank_score i"

record ranked_suggestion =
  rk_rank :: nat
  rk_category :: string
  rk_summary :: string
  rk_evidence_count :: nat
  rk_workflows :: "string list"
  rk_execution_ids :: "uuid list"
  rk_action :: "string option"
  rk_detail :: pydict

definition suggestion_valid :: "ranked_suggestion \<Rightarrow> bool" where
  "suggestion_valid s \<longleftrightarrow>
     1 \<le> rk_rank s \<and> length (rk_category s) \<le> 128 \<and> length (rk_summary s) \<le> 512 \<and> 1 \<le> rk_evidence_count s \<and>
     length (rk_workflows s) \<le> 32 \<and> length (rk_execution_ids s) \<le> 200 \<and>
     (case rk_action s of None \<Rightarrow> True | Some a \<Rightarrow> length a \<le> 1024)"

record insights_summary =
  ms_scope :: string
  ms_sample_size :: nat
  ms_top_failures :: "insight list"
  ms_recurring :: "insight list"
  ms_policy :: "insight list"
  ms_fallback :: "insight list"
  ms_unstable :: "insight list"
  ms_ranked :: "ranked_suggestion list"
  ms_insights :: "insight list"

record execution_summary =
  es_id :: uuid
  es_workflow_type :: string
  es_status :: execution_status
  es_mode :: "execution_mode option"
  es_created_at :: datetime
  es_updated_at :: datetime

definition severity_for_count :: "nat \<Rightarrow> insight_severity" where
  "severity_for_count n = (if 5 \<le> n then IS_ELEVATED else if 2 \<le> n then IS_WARNING else IS_INFO)"

definition insight_uuid :: "insight_category \<Rightarrow> string \<Rightarrow> uuid" where
  "insight_uuid cat key = uuid5 NAMESPACE_URL (''mukti-v2:'' @ insight_category_value cat @ '':'' @ key)"

section \<open>Tallies\<close>

record hits =
  ht_counts :: "(string \<times> nat) list"
  ht_executions :: "(string \<times> uuid list) list"
  ht_workflows :: "(string \<times> string list) list"

text \<open>\<open>wf = wf_by_exec.get(id)\<close> and \<open>if wf:\<close>.\<close>

definition workflow_named :: "(uuid \<times> string) list \<Rightarrow> uuid \<Rightarrow> string option" where
  "workflow_named wfs eid = (case map_of wfs eid of None \<Rightarrow> None | Some w \<Rightarrow> if w = [] then None else Some w)"

definition add_hit :: "(uuid \<times> string) list \<Rightarrow> uuid \<Rightarrow> string \<Rightarrow> hits \<Rightarrow> hits" where
  "add_hit wfs eid key h =
     \<lparr>ht_counts = count_up key (ht_counts h),
      ht_executions = add_to key eid (ht_executions h),
      ht_workflows = (case workflow_named wfs eid of None \<Rightarrow> ht_workflows h | Some w \<Rightarrow> add_to key w (ht_workflows h))\<rparr>"

definition tally :: "(uuid \<times> string) list \<Rightarrow> (execution_feedback \<Rightarrow> string list) \<Rightarrow> execution_feedback list \<Rightarrow> hits" where
  "tally wfs keys feedback =
     foldl (\<lambda>h fb. foldl (\<lambda>h key. add_hit wfs (ef_execution_id fb) key h) h (keys fb))
       \<lparr>ht_counts = [], ht_executions = [], ht_workflows = []\<rparr> feedback"

section \<open>Insights\<close>

definition top_failure_insight :: "hits \<Rightarrow> string \<times> nat \<Rightarrow> exn + insight" where
  "top_failure_insight h = (\<lambda>(ft, count). checked ''CrossExecutionInsight'' insight_valid
     \<lparr>in_id = insight_uuid IC_TOP_FAILURE_TYPE ft, in_category = IC_TOP_FAILURE_TYPE,
      in_severity = severity_for_count count, in_title = ft,
      in_description = ''Failure type '' @ single_quote # ft @ single_quote # '' appears in '' @ nat_digits count
        @ '' execution_feedback row(s) across '' @ nat_digits (length (found (ht_workflows h) ft)) @ '' workflow type(s).'',
      in_evidence_count = count, in_workflows = take 32 (sort (found (ht_workflows h) ft)), in_steps = [],
      in_action = Some (''Investigate root cause for failure type '' @ single_quote # ft @ single_quote #
        '' in affected workflows.''),
      in_execution_ids = take 200 (found (ht_executions h) ft), in_rank_score = int count * 10,
      in_evidence = [(''failure_type'', PStr ft), (''feedback_row_hits'', PInt (int count))]\<rparr>)"

definition top_failure_types :: "execution_feedback list \<Rightarrow> (uuid \<times> string) list \<Rightarrow> exn + insight list" where
  "top_failure_types feedback wfs =
     (let h = tally wfs ef_failure_types feedback in all_ok (map (top_failure_insight h) (most_common 10 (ht_counts h))))"

definition recurring_insight :: "hits \<Rightarrow> string \<times> nat \<Rightarrow> exn + insight" where
  "recurring_insight h = (\<lambda>(pt, count). checked ''CrossExecutionInsight'' insight_valid
     \<lparr>in_id = insight_uuid IC_RECURRING_PATTERN pt, in_category = IC_RECURRING_PATTERN,
      in_severity = severity_for_count count, in_title = pt,
      in_description = ''Pattern '' @ single_quote # pt @ single_quote # '' recurs in '' @ nat_digits count
        @ '' execution_feedback row(s) (minimum 2 required for cross-execution flag).'',
      in_evidence_count = count, in_workflows = take 32 (sort (found (ht_workflows h) pt)), in_steps = [],
      in_action = Some (''Review trace evidence for recurring pattern '' @ single_quote # pt @ single_quote # ''.''),
      in_execution_ids = take 200 (found (ht_executions h) pt), in_rank_score = int count * 8,
      in_evidence = [(''pattern_type'', PStr pt), (''feedback_row_hits'', PInt (int count))]\<rparr>)"

definition recurring_patterns :: "execution_feedback list \<Rightarrow> (uuid \<times> string) list \<Rightarrow> exn + insight list" where
  "recurring_patterns feedback wfs =
     (let h = tally wfs (\<lambda>fb. map pd_type (ef_patterns fb)) feedback
      in all_ok (map (recurring_insight h) (filter (\<lambda>(pt, count). 2 \<le> count) (most_common 10 (ht_counts h)))))"

definition policy_markers :: "string list" where
  "policy_markers = [''policy_evaluation_deny'', ''trace_policy_denied'', ''action_proposal_policy_denied'']"

definition policy_keys :: "execution_feedback \<Rightarrow> string list" where
  "policy_keys fb =
     filter (\<lambda>ft. list_ex (\<lambda>m. contains m ft) policy_markers \<or> contains ''policy'' (lower ft)) (ef_failure_types fb)
     @ map (\<lambda>s. ''suggestion:'' @ take 80 (is_summary s)) (filter (\<lambda>s. is_category s = ''policy_rule'') (ef_suggestions fb))"

definition policy_insight :: "hits \<Rightarrow> string \<times> nat \<Rightarrow> exn + insight" where
  "policy_insight h = (\<lambda>(key, count).
     let title = (if startswith key ''suggestion:'' then drop (length ''suggestion:'') key else key)
     in checked ''CrossExecutionInsight'' insight_valid
     \<lparr>in_id = insight_uuid IC_POLICY_FRICTION key, in_category = IC_POLICY_FRICTION,
      in_severity = severity_for_count count, in_title = take 256 title,
      in_description = ''Policy friction signal '' @ single_quote # title @ single_quote # '' observed in '' @ nat_digits count
        @ '' execution_feedback row(s).'',
      in_evidence_count = count, in_workflows = take 32 (sort (found (ht_workflows h) key)), in_steps = [],
      in_action = Some ''Align workflow intent with policy pack; review deny and conditional rules.'',
      in_execution_ids = take 200 (found (ht_executions h) key), in_rank_score = int count * 12,
      in_evidence = [(''signal_key'', PStr key), (''feedback_row_hits'', PInt (int count))]\<rparr>)"

definition policy_friction :: "execution_feedback list \<Rightarrow> (uuid \<times> string) list \<Rightarrow> exn + insight list" where
  "policy_friction feedback wfs =
     (let h = tally wfs policy_keys feedback in all_ok (map (policy_insight h) (most_common 8 (ht_counts h))))"

text \<open>\<open>sid = pat.evidence.get("step_id")\<close> when it is text.\<close>

definition pattern_step :: "pattern_detection \<Rightarrow> string list" where
  "pattern_step p = (case as_str (dget (pd_evidence p) ''step_id'') of None \<Rightarrow> [] | Some s \<Rightarrow> [s])"

definition is_fallback :: "pattern_detection \<Rightarrow> bool" where
  "is_fallback p \<longleftrightarrow> pd_type p = ''model_deterministic_fallback''"

definition workflow_fallback_insight ::
  "(uuid \<times> string) list \<Rightarrow> uuid list \<Rightarrow> string list \<Rightarrow> string \<times> nat \<Rightarrow> exn + insight" where
  "workflow_fallback_insight wfs execs step_ids = (\<lambda>(wf, count). checked ''CrossExecutionInsight'' insight_valid
     \<lparr>in_id = insight_uuid IC_MODEL_FALLBACK (''wf:'' @ wf), in_category = IC_MODEL_FALLBACK,
      in_severity = severity_for_count count, in_title = ''model_fallback_in_'' @ wf,
      in_description = ''Workflow '' @ single_quote # wf @ single_quote # '' has '' @ nat_digits count
        @ '' execution(s) with '' @ single_quote # ''model_deterministic_fallback'' @ single_quote # '' in Mukti feedback.'',
      in_evidence_count = count, in_workflows = [wf], in_steps = take 64 (sort step_ids),
      in_action = Some ''Review model-runtime availability and step tasks using deterministic fallback.'',
      in_execution_ids = take 200 (filter (\<lambda>e. map_of wfs e = Some wf) execs), in_rank_score = int count * 9,
      in_evidence = [(''pattern_type'', PStr ''model_deterministic_fallback''), (''workflow_type'', PStr wf),
        (''execution_hits'', PInt (int count))]\<rparr>)"

definition global_fallback_insight :: "uuid list \<Rightarrow> string list \<Rightarrow> exn + insight" where
  "global_fallback_insight execs step_ids = (let total = length execs in checked ''CrossExecutionInsight'' insight_valid
     \<lparr>in_id = insight_uuid IC_MODEL_FALLBACK ''global'', in_category = IC_MODEL_FALLBACK,
      in_severity = severity_for_count total, in_title = ''model_fallback_spread'',
      in_description = nat_digits total
        @ '' execution(s) recorded model deterministic fallback without workflow projections.'',
      in_evidence_count = total, in_workflows = [], in_steps = take 64 (sort step_ids),
      in_action = Some ''Inspect model-runtime errors in trace timeline events.'',
      in_execution_ids = take 200 execs, in_rank_score = int total * 9,
      in_evidence = [(''pattern_type'', PStr ''model_deterministic_fallback''), (''execution_hits'', PInt (int total))]\<rparr>)"

definition model_fallback_concentration :: "execution_feedback list \<Rightarrow> (uuid \<times> string) list \<Rightarrow> exn + insight list" where
  "model_fallback_concentration feedback wfs =
     (let rows = filter (\<lambda>fb. list_ex is_fallback (ef_patterns fb)) feedback;
          execs = dedup (map ef_execution_id rows);
          step_ids = dedup (concat (map (\<lambda>fb. concat (map pattern_step (filter is_fallback (ef_patterns fb)))) rows));
          wf_counts = foldl (\<lambda>c fb. case workflow_named wfs (ef_execution_id fb) of None \<Rightarrow> c | Some w \<Rightarrow> count_up w c) [] rows
      in if execs = [] then Inr []
         else all_ok (map (workflow_fallback_insight wfs execs step_ids) (most_common 8 wf_counts)
           @ (if 2 \<le> length execs \<and> wf_counts = [] then [global_fallback_insight execs step_ids] else [])))"

text \<open>The workflows' rows, then the steps named by the patterns of several executions.\<close>

definition failed_run :: "(uuid \<times> execution_summary) list \<Rightarrow> execution_feedback \<Rightarrow> bool" where
  "failed_run summaries fb \<longleftrightarrow>
     (case map_of summaries (ef_execution_id fb) of None \<Rightarrow> False
      | Some s \<Rightarrow> es_status s = ES_FAILED \<or> es_status s = ES_CANCELLED)"

definition unstable_workflow_insight ::
  "(uuid \<times> execution_summary) list \<Rightarrow> string \<times> execution_feedback list \<Rightarrow> (exn + insight) list" where
  "unstable_workflow_insight summaries = (\<lambda>(wf, rows).
     let n = length rows; failed = length (filter (failed_run summaries) rows);
         rate = to_float (of_nat failed / of_nat n)
     in if n < 2 then [] else if rate < 1 / 2 then []
        else [checked ''CrossExecutionInsight'' insight_valid
     \<lparr>in_id = insight_uuid IC_UNSTABLE_WORKFLOW wf, in_category = IC_UNSTABLE_WORKFLOW,
      in_severity = severity_for_count n, in_title = ''unstable_workflow:'' @ wf,
      in_description = ''Workflow '' @ single_quote # wf @ single_quote # '' shows '' @ nat_digits failed @ ''/'' @ nat_digits n
        @ '' failed/cancelled executions in feedback sample (rate '' @ float_percent_str rate
        @ '', threshold '' @ float_percent_str (1 / 2) @ '').'',
      in_evidence_count = n, in_workflows = [wf], in_steps = [],
      in_action = Some ''Stabilize workflow validation and policy paths for this workflow type.'',
      in_execution_ids = take 200 (map ef_execution_id rows), in_rank_score = \<lfloor>to_float (rate * 100)\<rfloor> + int n,
      in_evidence = [(''workflow_type'', PStr wf), (''failed_or_cancelled'', PInt (int failed)),
        (''sample_size'', PInt (int n)), (''failure_rate'', PFloat rate)]\<rparr>])"

text \<open>\<open>list(exec_set)\<close> has the order of a set: the parameter \<open>order\<close>.\<close>

definition unstable_step_insight ::
  "(uuid list \<Rightarrow> uuid list) \<Rightarrow> (uuid \<times> string) list \<Rightarrow> string \<times> uuid list \<Rightarrow> (exn + insight) list" where
  "unstable_step_insight order wfs = (\<lambda>(sid, execs).
     let n = length execs; names = dedup (concat (map (\<lambda>e. case map_of wfs e of None \<Rightarrow> [] | Some w \<Rightarrow> [w]) execs))
     in if n < 2 then [] else [checked ''CrossExecutionInsight'' insight_valid
     \<lparr>in_id = insight_uuid IC_UNSTABLE_STEP sid, in_category = IC_UNSTABLE_STEP,
      in_severity = severity_for_count n, in_title = ''unstable_step:'' @ take 48 sid,
      in_description = ''Step id '' @ single_quote # sid @ single_quote # '' appears in patterns across '' @ nat_digits n
        @ '' execution(s) (threshold 2).'',
      in_evidence_count = n, in_workflows = take 32 (sort names), in_steps = [sid],
      in_action = Some ''Inspect step executor, tools, and validation for this step id.'',
      in_execution_ids = take 200 (order execs), in_rank_score = int n * 7,
      in_evidence = [(''step_id'', PStr sid), (''distinct_executions'', PInt (int n))]\<rparr>])"

definition unstable_workflows_and_steps ::
  "(uuid list \<Rightarrow> uuid list) \<Rightarrow> execution_feedback list \<Rightarrow> (uuid \<times> string) list \<Rightarrow>
   (uuid \<times> execution_summary) list \<Rightarrow> exn + insight list" where
  "unstable_workflows_and_steps order feedback wfs summaries =
     (let by_workflow = foldl (\<lambda>g fb. case workflow_named wfs (ef_execution_id fb) of None \<Rightarrow> g
            | Some w \<Rightarrow> append_to w fb g) [] feedback;
          by_step = foldl (\<lambda>g (sid, eid). add_to sid eid g) []
            (concat (map (\<lambda>fb. map (\<lambda>sid. (sid, ef_execution_id fb)) (concat (map pattern_step (ef_patterns fb)))) feedback));
          steps = take 8 (sort_key (\<lambda>(sid, execs). - int (length execs)) by_step)
      in and_then (all_ok (concat (map (unstable_workflow_insight summaries) by_workflow)
           @ concat (map (unstable_step_insight order wfs) steps))) (\<lambda>out. Inr (take 8 out)))"

section \<open>Suggestions\<close>

definition suggestion_pairs :: "execution_feedback list \<Rightarrow> ((string \<times> string) \<times> uuid) list" where
  "suggestion_pairs feedback =
     concat (map (\<lambda>fb. map (\<lambda>s. ((is_category s, is_summary s), ef_execution_id fb)) (ef_suggestions fb)) feedback)"

definition ranked_suggestion_of ::
  "((string \<times> string) \<times> uuid list) list \<Rightarrow> ((string \<times> string) \<times> string list) list \<Rightarrow>
   nat \<times> string \<times> string \<Rightarrow> exn + ranked_suggestion" where
  "ranked_suggestion_of bucket names = (\<lambda>(rank, cat, summary).
     let execs = dedup (found bucket (cat, summary))
     in checked ''RankedImprovementSuggestion'' suggestion_valid
     \<lparr>rk_rank = rank, rk_category = cat, rk_summary = summary, rk_evidence_count = length execs,
      rk_workflows = take 32 (sort (found names (cat, summary))), rk_execution_ids = take 200 execs,
      rk_action = Some (if cat = ''policy_rule'' then ''Review policy pack and workflow alignment.''
        else ''Address advisory category '' @ single_quote # cat @ single_quote # '' via governed release.''),
      rk_detail = [(''aggregation'', PStr ''identical category+summary across execution_feedback rows'')]\<rparr>)"

definition rank_order :: "((string \<times> string) \<times> uuid list) list \<Rightarrow> (string \<times> string) list" where
  "rank_order bucket = take 15 (sort_key (\<lambda>(cat, summary). (- int (length (found bucket (cat, summary))), cat, summary)) (map fst bucket))"

definition ranked_suggestions :: "execution_feedback list \<Rightarrow> (uuid \<times> string) list \<Rightarrow> exn + ranked_suggestion list" where
  "ranked_suggestions feedback wfs =
     (let pairs = suggestion_pairs feedback;
          bucket = foldl (\<lambda>b (key, eid). append_to key eid b) [] pairs;
          names = foldl (\<lambda>b (key, eid). case workflow_named wfs eid of None \<Rightarrow> b | Some w \<Rightarrow> add_to key w b) [] pairs
      in all_ok (map (ranked_suggestion_of bucket names) (enumerate 1 (rank_order bucket))))"

section \<open>The roll-up\<close>

definition summaries_by_id :: "execution_summary list \<Rightarrow> (uuid \<times> execution_summary) list" where
  "summaries_by_id rows = foldl (\<lambda>d s. AList.update (es_id s) s d) [] rows"

definition workflows_by_execution ::
  "execution_feedback list \<Rightarrow> (uuid \<times> execution_summary) list \<Rightarrow> (uuid \<times> string) list" where
  "workflows_by_execution feedback summaries =
     foldl (\<lambda>d fb. case map_of summaries (ef_execution_id fb) of None \<Rightarrow> d
       | Some s \<Rightarrow> AList.update (ef_execution_id fb) (es_workflow_type s) d) [] feedback"

definition cross_analyze ::
  "(uuid list \<Rightarrow> uuid list) \<Rightarrow> execution_feedback list \<Rightarrow> execution_summary list \<Rightarrow> exn + insights_summary" where
  "cross_analyze order feedback rows =
     (let summaries = summaries_by_id rows; wfs = workflows_by_execution feedback summaries
      in if feedback = [] then
           Inr \<lparr>ms_scope = ''No execution_feedback rows in scope.'', ms_sample_size = 0, ms_top_failures = [],
             ms_recurring = [], ms_policy = [], ms_fallback = [], ms_unstable = [], ms_ranked = [], ms_insights = []\<rparr>
         else
           and_then (top_failure_types feedback wfs) (\<lambda>top.
           and_then (recurring_patterns feedback wfs) (\<lambda>recurring.
           and_then (policy_friction feedback wfs) (\<lambda>policy.
           and_then (model_fallback_concentration feedback wfs) (\<lambda>fallback.
           and_then (unstable_workflows_and_steps order feedback wfs summaries) (\<lambda>unstable.
           and_then (ranked_suggestions feedback wfs) (\<lambda>ranked.
             Inr \<lparr>ms_scope = ''Cross-execution analysis over '' @ nat_digits (length feedback)
                 @ '' execution_feedback row(s) with '' @ nat_digits (length summaries)
                 @ '' execution summary projection(s).'',
               ms_sample_size = length feedback, ms_top_failures = top, ms_recurring = recurring,
               ms_policy = policy, ms_fallback = fallback, ms_unstable = unstable, ms_ranked = ranked,
               ms_insights = top @ recurring @ policy @ fallback @ unstable\<rparr>)))))))"

section \<open>The facade of the gateway\<close>

text \<open>\<open>gateway/services/mukti_facade.py\<close>: the executions in scope, their stored analyses, the roll-up.\<close>

definition summary_of :: "execution \<Rightarrow> execution_summary" where
  "summary_of ex =
     \<lparr>es_id = ex_id ex, es_workflow_type = ex_workflow_type ex, es_status = ex_status ex, es_mode = Some (ex_mode ex),
      es_created_at = ex_created_at ex, es_updated_at = ex_updated_at ex\<rparr>"

definition get_mukti_insights ::
  "(uuid list \<Rightarrow> uuid list) \<Rightarrow> feedback_repo \<Rightarrow> string option \<Rightarrow> string option \<Rightarrow> string option \<Rightarrow> int \<Rightarrow>
   (world, insights_summary) prog" where
  "get_mukti_insights order fr tenant workflow status limit =
     bnd (service_list_executions tenant workflow status limit) (\<lambda>exs.
       let pool = list_execution_feedback fr (min 500 (max (limit * 5) limit)) None;
           feedback = filter (\<lambda>fb. ef_execution_id fb \<in> set (map ex_id exs)) pool
       in case cross_analyze order feedback (map summary_of exs) of
            Inl e \<Rightarrow> rethrow e
          | Inr s \<Rightarrow> ret s)"

definition get_mukti_insight_by_id ::
  "(uuid list \<Rightarrow> uuid list) \<Rightarrow> feedback_repo \<Rightarrow> uuid \<Rightarrow> string option \<Rightarrow> string option \<Rightarrow> string option \<Rightarrow> int \<Rightarrow>
   (world, insight option) prog" where
  "get_mukti_insight_by_id order fr insight_id tenant workflow status limit =
     bnd (get_mukti_insights order fr tenant workflow status limit)
       (\<lambda>s. ret (find (\<lambda>i. in_id i = insight_id) (ms_insights s)))"

end
