(* ===== verification/Mukti_Properties.thy ===== *)
theory Mukti_Properties
  imports Mukti Sample_World
begin

text \<open>
  What the roll-up promises: its counts are the occurrences in the rows, it names only executions of the
  rows it was given, and it fails on texts longer than its records allow.
\<close>

section \<open>Tallies\<close>

text \<open>The events of a tally: the key counted and the execution it is counted for.\<close>

definition tally_events :: "(execution_feedback \<Rightarrow> string list) \<Rightarrow> execution_feedback list \<Rightarrow> (string \<times> uuid) list" where
  "tally_events keys feedback = concat (map (\<lambda>fb. map (\<lambda>k. (k, ef_execution_id fb)) (keys fb)) feedback)"

lemma tally_flat:
  "tally wfs keys feedback = foldl (\<lambda>h (key, eid). add_hit wfs eid key h)
     \<lparr>ht_counts = [], ht_executions = [], ht_workflows = []\<rparr> (tally_events keys feedback)"
proof -
  have "foldl (\<lambda>h fb. foldl (\<lambda>h key. add_hit wfs (ef_execution_id fb) key h) h (keys fb)) h feedback
      = foldl (\<lambda>h (key, eid). add_hit wfs eid key h) h (tally_events keys feedback)" for h
    by (induction feedback arbitrary: h) (simp_all add: tally_events_def foldl_map)
  then show ?thesis by (simp add: tally_def)
qed

lemma tally_of_events:
  fixes ps :: "(string \<times> uuid) list" and wfs :: "(uuid \<times> string) list"
  defines "h \<equiv> foldl (\<lambda>h (key, eid). add_hit wfs eid key h)
     \<lparr>ht_counts = [], ht_executions = [], ht_workflows = []\<rparr> ps"
  shows "map_of (ht_counts h) k = (if k \<in> fst ` set ps then Some (count_list (map fst ps) k) else None)"
    and "distinct (map fst (ht_counts h))"
    and "set (found (ht_executions h) k) = {e. (k, e) \<in> set ps}"
    and "distinct (found (ht_executions h) k)"
  unfolding h_def
proof (induction ps rule: rev_induct)
  case (snoc p ps)
  { case 1 show ?case using snoc(1)
      by (cases p) (auto simp: add_hit_def count_up_def split: option.splits if_splits)
  next
    case 2 show ?case using snoc(2)
      by (cases p) (auto simp: add_hit_def count_up_def distinct_update)
  next
    case 3 show ?case using snoc(3)
      by (cases p) (auto simp: add_hit_def found_add_to split: if_splits)
  next
    case 4 show ?case using snoc(4)
      by (cases p) (auto simp: add_hit_def found_add_to) }
qed simp_all

lemma keys_of_events: "map fst (tally_events keys feedback) = concat (map keys feedback)"
  by (simp add: tally_events_def map_concat o_def)

lemma events_in_scope: "(k, e) \<in> set (tally_events keys feedback) \<Longrightarrow> e \<in> ef_execution_id ` set feedback"
  by (auto simp: tally_events_def)

lemma tally_counts:
  "(k, n) \<in> set (ht_counts (tally wfs keys feedback)) \<longleftrightarrow>
     k \<in> set (concat (map keys feedback)) \<and> n = count_list (concat (map keys feedback)) k"
proof -
  have "(k, n) \<in> set (ht_counts (tally wfs keys feedback)) \<longleftrightarrow> map_of (ht_counts (tally wfs keys feedback)) k = Some n"
    using tally_of_events(2)[of wfs "tally_events keys feedback"] by (simp add: tally_flat)
  also have "\<dots> \<longleftrightarrow> k \<in> fst ` set (tally_events keys feedback) \<and> n = count_list (map fst (tally_events keys feedback)) k"
    by (auto simp: tally_flat tally_of_events(1))
  finally show ?thesis by (metis keys_of_events list.set_map)
qed

lemma tally_keys: "fst ` set (ht_counts (tally wfs keys feedback)) = set (concat (map keys feedback))"
  using tally_counts[of _ _ wfs keys feedback] by (force simp del: set_concat)

lemma tally_distinct: "distinct (map fst (ht_counts (tally wfs keys feedback)))"
  by (simp add: tally_flat tally_of_events(2))

lemma tally_executions: "set (found (ht_executions (tally wfs keys feedback)) k) \<subseteq> ef_execution_id ` set feedback"
  using events_in_scope by (fastforce simp: tally_flat tally_of_events(3))

section \<open>The lists of a summary\<close>

lemma checked_fields: "checked m ok x = Inr y \<Longrightarrow> ok y \<and> y = x"
  by (simp add: checked_Inr)

lemma cross_analyze_parts:
  assumes "cross_analyze order feedback rows = Inr s" "feedback \<noteq> []"
  defines "summaries \<equiv> summaries_by_id rows" and "wfs \<equiv> workflows_by_execution feedback (summaries_by_id rows)"
  shows "top_failure_types feedback wfs = Inr (ms_top_failures s)"
    and "recurring_patterns feedback wfs = Inr (ms_recurring s)"
    and "policy_friction feedback wfs = Inr (ms_policy s)"
    and "model_fallback_concentration feedback wfs = Inr (ms_fallback s)"
    and "unstable_workflows_and_steps order feedback wfs summaries = Inr (ms_unstable s)"
    and "ranked_suggestions feedback wfs = Inr (ms_ranked s)"
    and "ms_insights s = ms_top_failures s @ ms_recurring s @ ms_policy s @ ms_fallback s @ ms_unstable s"
  using assms by (auto simp: cross_analyze_def Let_def and_then_Inr)

lemma cross_analyze_Nil:
  "cross_analyze order [] rows = Inr s \<Longrightarrow> ms_insights s = [] \<and> ms_ranked s = [] \<and> ms_top_failures s = []"
  by (auto simp: cross_analyze_def)

lemma top_failure_fields:
  assumes "top_failure_insight h p = Inr i"
  shows "in_title i = fst p" "in_evidence_count i = snd p" "in_execution_ids i = take 200 (found (ht_executions h) (fst p))"
    "insight_valid i" "in_severity i = severity_for_count (snd p)"
  using assms by (auto simp: top_failure_insight_def checked_Inr split: prod.splits)

text \<open>C24. The failure types a summary lists are the most frequent ones, most frequent first: each count is the
  number of occurrences in the rows, and a type that is left out occurs no more often than any of the ten listed.\<close>

theorem top_failures_are_the_most_frequent:
  assumes "cross_analyze order feedback rows = Inr s"
  defines "all_types \<equiv> concat (map ef_failure_types feedback)"
  shows "length (ms_top_failures s) \<le> 10 \<and> distinct (map in_title (ms_top_failures s)) \<and>
    sorted_wrt (\<lambda>i j. in_evidence_count j \<le> in_evidence_count i) (ms_top_failures s) \<and>
    (\<forall>i \<in> set (ms_top_failures s). in_title i \<in> set all_types \<and>
        in_evidence_count i = count_list all_types (in_title i) \<and>
        (in_severity i = IS_ELEVATED \<longleftrightarrow> 5 \<le> in_evidence_count i)) \<and>
    (\<forall>ft \<in> set all_types. ft \<notin> in_title ` set (ms_top_failures s) \<longrightarrow> length (ms_top_failures s) = 10 \<and>
        (\<forall>i \<in> set (ms_top_failures s). count_list all_types ft \<le> in_evidence_count i))"
proof (cases "feedback = []")
  case True
  with assms show ?thesis using cross_analyze_Nil by fastforce
next
  case False
  define h where "h = tally (workflows_by_execution feedback (summaries_by_id rows)) ef_failure_types feedback"
  define mc where "mc = most_common 10 (ht_counts h)"
  define ins where "ins = ms_top_failures s"
  have "all_ok (map (top_failure_insight h) mc) = Inr ins"
    using cross_analyze_parts(1)[OF assms(1) False] by (simp add: top_failure_types_def h_def mc_def ins_def Let_def)
  note pos = all_ok_mapD[OF this]
  have pairs: "map (\<lambda>i. (in_title i, in_evidence_count i)) ins = mc"
    using pos top_failure_fields(1,2)[of h] by (intro nth_equalityI) (simp_all add: prod_eq_iff)
  then have titles: "map in_title ins = map fst mc" and counts: "map in_evidence_count ins = map snd mc"
    by (auto simp: o_def)
  have in_mc: "(in_title i, in_evidence_count i) \<in> set mc" if "i \<in> set ins" for i
    using that by (auto simp flip: pairs)
  have d: "distinct (map in_title ins)"
    using tally_distinct[of "workflows_by_execution feedback (summaries_by_id rows)" ef_failure_types feedback]
    by (simp add: titles mc_def h_def most_common_distinct)
  have c: "(k, n) \<in> set (ht_counts h) \<longleftrightarrow> k \<in> set all_types \<and> n = count_list all_types k" for k n
    by (simp add: h_def tally_counts all_types_def)
  have sub: "set mc \<subseteq> set (ht_counts h)" by (simp add: mc_def most_common_subset)
  have srt: "sorted_wrt (\<lambda>i j. in_evidence_count j \<le> in_evidence_count i) ins"
    using most_common_sorted[of 10 "ht_counts h"] unfolding mc_def[symmetric] pairs[symmetric]
    by (simp add: sorted_wrt_map)
  have sev: "in_severity i = severity_for_count (in_evidence_count i)" if "i \<in> set ins" for i
    using that pos top_failure_fields by (metis in_set_conv_nth)
  have out: "length ins = 10 \<and> (\<forall>i \<in> set ins. count_list all_types ft \<le> in_evidence_count i)"
    if ft: "ft \<in> set all_types" "ft \<notin> in_title ` set ins" for ft
  proof -
    have "(ft, count_list all_types ft) \<in> set (ht_counts h)" using ft c by simp
    moreover have "(ft, count_list all_types ft) \<notin> set mc" using ft(2) pairs by force
    ultimately show ?thesis
      using most_common_best[of ft _ "ht_counts h" 10] in_mc pos by (fastforce simp: mc_def)
  qed
  have len: "length ins \<le> 10" using pos most_common_length[of 10 "ht_counts h"] by (simp add: mc_def)
  show ?thesis
    using len d srt in_mc sub c sev out unfolding ins_def[symmetric]
    by (auto simp: severity_for_count_def)
qed

section \<open>Scope\<close>

definition in_scope_ids :: "execution_feedback list \<Rightarrow> uuid list \<Rightarrow> bool" where
  "in_scope_ids feedback ids \<longleftrightarrow> set ids \<subseteq> ef_execution_id ` set feedback"

lemma in_scope_take [simp]: "in_scope_ids feedback ids \<Longrightarrow> in_scope_ids feedback (take n ids)"
  using set_take_subset by (fastforce simp: in_scope_ids_def)

lemma scope_tallied:
  "in_scope_ids feedback (found (ht_executions (tally wfs keys feedback)) k)"
  by (simp add: in_scope_ids_def tally_executions)

lemma scope_top: "top_failure_types feedback wfs = Inr ins \<Longrightarrow> i \<in> set ins \<Longrightarrow> in_scope_ids feedback (in_execution_ids i)"
  by (auto simp: top_failure_types_def Let_def top_failure_insight_def checked_Inr scope_tallied
      dest!: all_ok_map_member split: prod.splits)

lemma scope_recurring: "recurring_patterns feedback wfs = Inr ins \<Longrightarrow> i \<in> set ins \<Longrightarrow> in_scope_ids feedback (in_execution_ids i)"
  by (auto simp: recurring_patterns_def Let_def recurring_insight_def checked_Inr scope_tallied
      dest!: all_ok_map_member split: prod.splits)

lemma scope_policy: "policy_friction feedback wfs = Inr ins \<Longrightarrow> i \<in> set ins \<Longrightarrow> in_scope_ids feedback (in_execution_ids i)"
  by (auto simp: policy_friction_def Let_def policy_insight_def checked_Inr scope_tallied
      dest!: all_ok_map_member split: prod.splits)

lemma scope_fallback_rows: "set execs \<subseteq> ef_execution_id ` set feedback \<Longrightarrow>
   workflow_fallback_insight wfs execs sids p = Inr i \<Longrightarrow> in_scope_ids feedback (in_execution_ids i)"
  "set execs \<subseteq> ef_execution_id ` set feedback \<Longrightarrow>
   global_fallback_insight execs sids = Inr i \<Longrightarrow> in_scope_ids feedback (in_execution_ids i)"
  by (auto simp: workflow_fallback_insight_def global_fallback_insight_def Let_def checked_Inr in_scope_ids_def
      dest!: in_set_takeD split: prod.splits)

lemma all_ok_member: "all_ok rows = Inr ys \<Longrightarrow> y \<in> set ys \<Longrightarrow> Inr y \<in> set rows"
  by (auto simp: all_ok_Inr)

lemma scope_fallback:
  assumes "model_fallback_concentration feedback wfs = Inr ins" "i \<in> set ins"
  shows "in_scope_ids feedback (in_execution_ids i)"
proof -
  let ?execs = "dedup (map ef_execution_id (filter (\<lambda>fb. list_ex is_fallback (ef_patterns fb)) feedback))"
  have sub: "set ?execs \<subseteq> ef_execution_id ` set feedback" by (auto simp: dedup_set)
  from assms show ?thesis
    by (auto simp: model_fallback_concentration_def Let_def split: if_splits
        dest!: all_ok_member dest: scope_fallback_rows[OF sub, OF sym])
qed

lemma grouped_rows:
  "values_in (set rows) (foldl (\<lambda>g x. case f x of None \<Rightarrow> g | Some w \<Rightarrow> append_to w x g) [] rows)"
  by (rule foldl_keeps[of "values_in (set rows)"]) (auto intro: values_in_append_to split: option.split)

lemma grouped_ids: "values_in (snd ` set ps) (foldl (\<lambda>g (k, x). add_to k x g) [] ps)"
  by (rule foldl_keeps[of "values_in (snd ` set ps)"]) (force intro: values_in_add_to)+

lemma concat_pairs_cases:
  assumes "x \<in> set (concat (map f ps) @ concat (map g qs))"
  obtains k v where "(k, v) \<in> set ps" "x \<in> set (f (k, v))" | k v where "(k, v) \<in> set qs" "x \<in> set (g (k, v))"
  using assms by auto

lemma scope_unstable:
  assumes "unstable_workflows_and_steps order feedback wfs summaries = Inr ins" "i \<in> set ins"
    and order: "\<And>xs. set (order xs) = set xs"
  shows "in_scope_ids feedback (in_execution_ids i)"
proof -
  let ?byw = "foldl (\<lambda>g fb. case workflow_named wfs (ef_execution_id fb) of None \<Rightarrow> g
            | Some w \<Rightarrow> append_to w fb g) [] feedback"
  let ?ps = "concat (map (\<lambda>fb. map (\<lambda>sid. (sid, ef_execution_id fb)) (concat (map pattern_step (ef_patterns fb)))) feedback)"
  let ?steps = "take 8 (sort_key (\<lambda>(sid, execs). - int (length execs)) (foldl (\<lambda>g (sid, eid). add_to sid eid g) [] ?ps))"
  have byw: "(k, xs) \<in> set ?byw \<Longrightarrow> set xs \<subseteq> set feedback" for k xs
    by (rule values_inD[OF grouped_rows])
  have ps: "snd ` set ?ps \<subseteq> ef_execution_id ` set feedback" by auto
  have bys: "set xs \<subseteq> ef_execution_id ` set feedback" if "(k, xs) \<in> set ?steps" for k xs
  proof -
    from in_set_takeD[OF that] have "(k, xs) \<in> set (foldl (\<lambda>g (sid, eid). add_to sid eid g) [] ?ps)"
      by (simp only: set_sort)
    from subset_trans[OF values_inD[OF grouped_ids this] ps] show ?thesis .
  qed
  obtain out where "all_ok (concat (map (unstable_workflow_insight summaries) ?byw)
      @ concat (map (unstable_step_insight order wfs) ?steps)) = Inr out" "ins = take 8 out"
    using assms(1) by (auto simp: unstable_workflows_and_steps_def Let_def and_then_Inr)
  with assms(2) have "Inr i \<in> set (concat (map (unstable_workflow_insight summaries) ?byw)
      @ concat (map (unstable_step_insight order wfs) ?steps))"
    by (auto dest: in_set_takeD all_ok_member)
  then consider k xs where "(k, xs) \<in> set ?byw" "Inr i \<in> set (unstable_workflow_insight summaries (k, xs))"
    | k xs where "(k, xs) \<in> set ?steps" "Inr i \<in> set (unstable_step_insight order wfs (k, xs))"
    by (elim concat_pairs_cases)
  then show ?thesis
  proof cases
    case 1
    then have "in_execution_ids i = take 200 (map ef_execution_id xs)"
      by (auto simp: unstable_workflow_insight_def Let_def checked_def split: if_splits)
    moreover have "in_scope_ids feedback (map ef_execution_id xs)"
      using byw[OF 1(1)] by (auto simp: in_scope_ids_def)
    ultimately show ?thesis by simp
  next
    case 2
    then have "in_execution_ids i = take 200 (order xs)"
      by (auto simp: unstable_step_insight_def Let_def checked_def split: if_splits)
    with bys[OF 2(1)] show ?thesis by (auto simp: in_scope_ids_def order dest!: in_set_takeD)
  qed
qed

lemma scope_ranked:
  assumes "ranked_suggestions feedback wfs = Inr ins" "i \<in> set ins"
  shows "in_scope_ids feedback (rk_execution_ids i)"
proof -
  let ?bucket = "foldl (\<lambda>b (key, eid). append_to key eid b) [] (suggestion_pairs feedback)"
  have "values_in (ef_execution_id ` set feedback) ?bucket"
    by (rule foldl_keeps[of "values_in (ef_execution_id ` set feedback)"])
      (auto intro: values_in_append_to simp: suggestion_pairs_def)
  then have scope: "set (found ?bucket k) \<subseteq> ef_execution_id ` set feedback" for k
    by (rule values_in_found)
  obtain x names where "ranked_suggestion_of ?bucket names x = Inr i"
    using assms by (auto simp: ranked_suggestions_def Let_def dest!: all_ok_map_member)
  then have "\<exists>k. rk_execution_ids i = take 200 (dedup (found ?bucket k))"
    by (cases x) (auto simp: ranked_suggestion_of_def Let_def checked_Inr)
  with scope show ?thesis by (fastforce simp: in_scope_ids_def dedup_set dest: in_set_takeD)
qed

lemma scope_all:
  assumes run: "cross_analyze order feedback rows = Inr s" and order: "\<And>xs. set (order xs) = set xs"
  shows "i \<in> set (ms_insights s) \<Longrightarrow> in_scope_ids feedback (in_execution_ids i)"
    and "r \<in> set (ms_ranked s) \<Longrightarrow> in_scope_ids feedback (rk_execution_ids r)"
proof -
  have "(i \<in> set (ms_insights s) \<longrightarrow> in_scope_ids feedback (in_execution_ids i)) \<and>
      (r \<in> set (ms_ranked s) \<longrightarrow> in_scope_ids feedback (rk_execution_ids r))"
  proof (cases "feedback = []")
    case True
    with run cross_analyze_Nil show ?thesis by fastforce
  next
    case False
    note parts = cross_analyze_parts[OF run False]
    show ?thesis
      using scope_top[OF parts(1)] scope_recurring[OF parts(2)] scope_policy[OF parts(3)] scope_fallback[OF parts(4)]
        scope_unstable[OF parts(5) _ order] scope_ranked[OF parts(6)]
      by (auto simp: parts(7))
  qed
  then show "i \<in> set (ms_insights s) \<Longrightarrow> in_scope_ids feedback (in_execution_ids i)"
    and "r \<in> set (ms_ranked s) \<Longrightarrow> in_scope_ids feedback (rk_execution_ids r)" by auto
qed

lemma listed_tenant:
  "ex \<in> set (list_executions r (Some t) workflow status limit) \<Longrightarrow>
     \<exists>c. get_context r (ex_context_id ex) = Some c \<and> ctx_tenant_id c = t"
  by (auto simp: list_executions_def Let_def limit_rows_def newest_first_def
      dest!: in_set_takeD split: option.splits)

text \<open>C25. The insights a tenant asks for read the store only, and name only executions of that tenant.\<close>

theorem insights_stay_in_tenant:
  assumes run: "get_mukti_insights order fr (Some t) workflow status limit w = (Inr s, w')"
    and order: "\<And>xs. set (order xs) = set xs"
    and named: "eid \<in> \<Union> (set ` in_execution_ids ` set (ms_insights s)) \<union> \<Union> (set ` rk_execution_ids ` set (ms_ranked s))"
  shows "w' = w \<and> (\<exists>ex c. ex \<in> set (list_executions (w_repo w) (Some t) workflow status limit) \<and> ex_id ex = eid \<and>
      get_context (w_repo w) (ex_context_id ex) = Some c \<and> ctx_tenant_id c = t)"
proof -
  define exs where "exs = list_executions (w_repo w) (Some t) workflow status limit"
  define feedback where "feedback = filter (\<lambda>fb. ef_execution_id fb \<in> set (map ex_id exs))
      (list_execution_feedback fr (min 500 (max (limit * 5) limit)) None)"
  have "(case cross_analyze order feedback (map summary_of exs) of Inl e \<Rightarrow> rethrow e | Inr s \<Rightarrow> ret s) w = (Inr s, w')"
    using run by (simp only: get_mukti_insights_def service_list_executions_def bnd_ask exs_def[symmetric] Let_def
        feedback_def[symmetric])
  then have fb: "cross_analyze order feedback (map summary_of exs) = Inr s" "w' = w"
    by (cases "cross_analyze order feedback (map summary_of exs)"; simp add: ret_def rethrow_def)+
  have sub: "ef_execution_id ` set feedback \<subseteq> ex_id ` set exs"
    by (auto simp: feedback_def)
  have "eid \<in> ef_execution_id ` set feedback"
    using named scope_all[OF fb(1) order] unfolding in_scope_ids_def by blast
  with sub obtain ex where "ex \<in> set exs" "ex_id ex = eid" by auto
  with listed_tenant fb(2) show ?thesis unfolding exs_def by blast
qed

section \<open>Texts that are too long\<close>

lemma all_ok_uniform:
  assumes "\<And>e'. Inl e' \<in> set rows \<Longrightarrow> e' = e" "Inl e \<in> set rows"
  shows "all_ok rows = Inl e"
proof (cases "all_ok rows")
  case (Inl e')
  with assms(1)[OF all_ok_Inl[OF Inl]] show ?thesis by simp
next
  case (Inr xs)
  with assms(2) show ?thesis by (auto simp: all_ok_Inr)
qed

lemma top_failure_error:
  "top_failure_insight h p = Inl e \<Longrightarrow> e = Exn PydanticValidationError ''CrossExecutionInsight''"
  by (auto simp: top_failure_insight_def checked_def split: prod.splits if_splits)

lemma long_title_rejected:
  "256 < length ft \<Longrightarrow> top_failure_insight h (ft, n) = Inl (Exn PydanticValidationError ''CrossExecutionInsight'')"
  by (simp add: top_failure_insight_def checked_def insight_valid_def)

text \<open>One failure type longer than a title may be makes the whole roll-up raise, whatever the other rows say,
  when it is among the ten listed, for instance when there are no more than ten.\<close>

theorem long_failure_type_raises:
  assumes "ft \<in> set (concat (map ef_failure_types feedback))" "256 < length ft"
    and "card (set (concat (map ef_failure_types feedback))) \<le> 10"
  shows "cross_analyze order feedback rows = Inl (Exn PydanticValidationError ''CrossExecutionInsight'')"
proof -
  let ?types = "concat (map ef_failure_types feedback)"
  define wfs where "wfs = workflows_by_execution feedback (summaries_by_id rows)"
  define h where "h = tally wfs ef_failure_types feedback"
  have "set (map fst (ht_counts h)) = set ?types"
    by (simp add: h_def tally_keys del: set_concat)
  then have "length (ht_counts h) \<le> 10"
    using assms(3) distinct_card[OF tally_distinct[of wfs ef_failure_types feedback]] by (simp add: h_def)
  then have "(ft, count_list ?types ft) \<in> set (most_common 10 (ht_counts h))"
    using assms(1) by (simp add: most_common_all h_def tally_counts del: set_concat)
  then have "Inl (Exn PydanticValidationError ''CrossExecutionInsight'') \<in>
      set (map (top_failure_insight h) (most_common 10 (ht_counts h)))"
    using long_title_rejected[OF assms(2), of h "count_list ?types ft"] by (metis (no_types) image_eqI list.set_map)
  then have "top_failure_types feedback wfs = Inl (Exn PydanticValidationError ''CrossExecutionInsight'')"
    unfolding top_failure_types_def h_def[symmetric] Let_def
    by (intro all_ok_uniform) (auto intro: top_failure_error[OF sym])
  moreover have "feedback \<noteq> []" using assms(1) by auto
  ultimately show ?thesis by (simp add: cross_analyze_def Let_def wfs_def[symmetric])
qed

theorem long_failure_type_raises_witness:
  "cross_analyze (\<lambda>xs. xs) [sample_feedback\<lparr>ef_failure_types := [replicate 257 (CHR ''x'')]\<rparr>] []
     = Inl (Exn PydanticValidationError ''CrossExecutionInsight'')"
  by (rule long_failure_type_raises[where ft = "replicate 257 (CHR ''x'')"]) simp_all

section \<open>One execution\<close>

lemma in_keep_if: "x \<in> set (keep_if b y) \<longleftrightarrow> b \<and> x = y"
  by (auto simp: keep_if_def)

lemma in_keep_all: "x \<in> set (concat (map (\<lambda>y. keep_if (P y) z) ys)) \<longleftrightarrow> x = z \<and> (\<exists>y \<in> set ys. P y)"
  by (auto simp: in_keep_if)

lemma in_raw_failure_types:
  "x \<in> set (raw_failure_types i) \<longleftrightarrow>
      x = ''terminal_failed'' \<and> ex_status (mi_execution i) = ES_FAILED \<or>
      x = ''terminal_cancelled'' \<and> ex_status (mi_execution i) = ES_CANCELLED \<or>
      x = ''step_failure'' \<and> (\<exists>p \<in> set (mi_steps i). st_status (fst p) = SS_FAILED) \<or>
      x = ''policy_evaluation_deny'' \<and> (\<exists>ev \<in> set (mi_evaluations i). pe_decision ev = PD_DENY) \<or>
      x = ''trace_policy_denied'' \<and> (\<exists>row \<in> set (ex_timeline (mi_execution i)). policy_denied_row row) \<or>
      x = ''action_proposal_policy_denied'' \<and> (\<exists>p \<in> set (mi_proposals i). ap_status p = AP_POLICY_DENIED)"
  unfolding raw_failure_types_def Let_def set_append Un_iff in_keep_all in_keep_if list_ex_iff split_beta
  by (simp only: conj_commute eq_commute)

text \<open>C26. The analysis of a stored run names each failure signal once and exactly when the stored rows show it; it
  calls the run a clean success exactly when it completed and shows none, and makes one suggestion per denial.\<close>

theorem stored_run_is_classified:
  assumes "build_mukti_analysis_input r eid fb = Inr i" "get_execution r eid = Some ex"
  shows "\<exists>f e'. analyzer_analyze i now e = (Inr f, e') \<and>
     ef_execution_id f = ex_id ex \<and> distinct (ef_failure_types f) \<and>
     (''terminal_failed'' \<in> set (ef_failure_types f) \<longleftrightarrow> ex_status ex = ES_FAILED) \<and>
     (''terminal_cancelled'' \<in> set (ef_failure_types f) \<longleftrightarrow> ex_status ex = ES_CANCELLED) \<and>
     (''step_failure'' \<in> set (ef_failure_types f) \<longleftrightarrow>
        (\<exists>s \<in> set (list_steps_for_execution r eid). st_status s = SS_FAILED)) \<and>
     (''policy_evaluation_deny'' \<in> set (ef_failure_types f) \<longleftrightarrow>
        (\<exists>ev \<in> set (list_policy_evaluations_for_execution r eid). pe_decision ev = PD_DENY)) \<and>
     (''trace_policy_denied'' \<in> set (ef_failure_types f) \<longleftrightarrow> (\<exists>row \<in> set (ex_timeline ex). policy_denied_row row)) \<and>
     (''action_proposal_policy_denied'' \<in> set (ef_failure_types f) \<longleftrightarrow>
        (\<exists>p \<in> set (list_action_proposals_for_execution r eid). ap_status p = AP_POLICY_DENIED)) \<and>
     (clean_pattern ex \<in> set (ef_patterns f) \<longleftrightarrow> ex_status ex = ES_COMPLETED \<and> ef_failure_types f = []) \<and>
     length (ef_suggestions f) =
       length (filter (\<lambda>ev. pe_decision ev = PD_DENY) (list_policy_evaluations_for_execution r eid)) +
       length (filter (\<lambda>p. ap_status p = AP_POLICY_DENIED) (list_action_proposals_for_execution r eid))"
proof -
  have i: "i = \<lparr>mi_execution = ex, mi_steps = map (\<lambda>s. (s, get_step_result r (st_id s))) (list_steps_for_execution r eid),
           mi_feedback = (case fb of None \<Rightarrow> [] | Some l \<Rightarrow> l),
           mi_evaluations = list_policy_evaluations_for_execution r eid,
           mi_proposals = list_action_proposals_for_execution r eid\<rparr>"
    using assms by (simp add: build_mukti_analysis_input_def)
  have no_clean: "clean_pattern ex \<noteq> fallback_pattern row" "clean_pattern ex \<noteq> disputed_pattern g" for row g
    by (simp_all add: clean_pattern_def fallback_pattern_def disputed_pattern_def)
  have clean: "clean_pattern ex \<in> set (map fallback_pattern rows @ map disputed_pattern gs @ keep_if b (clean_pattern ex)) \<longleftrightarrow> b"
    for rows gs b
    using no_clean by (auto simp: in_keep_if)
  have over: "(\<exists>p \<in> set (map g xs). Q p) \<longleftrightarrow> (\<exists>x \<in> set xs. Q (g x))" for g :: "step \<Rightarrow> step \<times> step_result option" and xs Q
    by simp
  have ddup: "dedup xs = [] \<longleftrightarrow> xs = []" for xs :: "string list"
    using dedup_set[of xs] by (metis set_empty)
  define pats where "pats = map fallback_pattern (filter fallback_row (ex_timeline ex))
            @ map disputed_pattern
                (filter (\<lambda>fb. list_ex (\<lambda>x. lower x = ''false_positive'') (of_labels fb)) (mi_feedback i))
            @ keep_if (ex_status ex = ES_COMPLETED \<and> raw_failure_types i = []) (clean_pattern ex)"
  have "\<exists>fid e'. analyzer_analyze i now e = (Inr \<lparr>ef_id = fid, ef_execution_id = ex_id ex,
          ef_source_scope = Some [(''analyzer'', PStr ''deterministic_rule_pack_v1'')],
          ef_failure_types = dedup (raw_failure_types i), ef_patterns = pats,
          ef_suggestions = map denied_evaluation_suggestion
              (filter (\<lambda>ev. pe_decision ev = PD_DENY) (list_policy_evaluations_for_execution r eid))
            @ map denied_proposal_suggestion
              (filter (\<lambda>p. ap_status p = AP_POLICY_DENIED) (list_action_proposals_for_execution r eid)),
          ef_confidence = Some (84 / 100), ef_created_at = now, ef_updated_at = None\<rparr>, e')"
    by (simp add: analyzer_analyze_def Let_def bnd_def uuid4_def ret_def pats_def) (simp add: i)
  then obtain fid e' where run: "analyzer_analyze i now e = (Inr \<lparr>ef_id = fid, ef_execution_id = ex_id ex,
          ef_source_scope = Some [(''analyzer'', PStr ''deterministic_rule_pack_v1'')],
          ef_failure_types = dedup (raw_failure_types i), ef_patterns = pats,
          ef_suggestions = map denied_evaluation_suggestion
              (filter (\<lambda>ev. pe_decision ev = PD_DENY) (list_policy_evaluations_for_execution r eid))
            @ map denied_proposal_suggestion
              (filter (\<lambda>p. ap_status p = AP_POLICY_DENIED) (list_action_proposals_for_execution r eid)),
          ef_confidence = Some (84 / 100), ef_created_at = now, ef_updated_at = None\<rparr>, e')" by blast
  show ?thesis
    by (rule exI, rule exI, rule conjI, rule run) (simp add: in_raw_failure_types over i dedup_set dedup_distinct pats_def clean ddup
        del: set_append set_map)
qed

theorem stored_run_is_classified_witness:
  "\<exists>i f e'. build_mukti_analysis_input (w_repo sample_world) 1 None = Inr i \<and>
     analyzer_analyze i 7 sample_env = (Inr f, e') \<and> ef_execution_id f = 1 \<and> ''terminal_failed'' \<notin> set (ef_failure_types f)"
proof -
  have "\<exists>i. build_mukti_analysis_input (w_repo sample_world) 1 None = Inr i"
    unfolding build_mukti_analysis_input_def get_sample by simp
  then obtain i where i: "build_mukti_analysis_input (w_repo sample_world) 1 None = Inr i" ..
  have "ex_id sample_execution = 1" "ex_status sample_execution \<noteq> ES_FAILED"
    by (simp_all add: sample_execution_def new_execution_def)
  with stored_run_is_classified[OF i get_sample, of 7 sample_env] i show ?thesis by metis
qed

definition sample_feedback_repo :: feedback_repo where
  "sample_feedback_repo = save_execution_feedback (sample_feedback\<lparr>ef_execution_id := 1\<rparr>) empty_feedback"

lemma sample_policy_keys: "policy_keys (sample_feedback\<lparr>ef_execution_id := 1\<rparr>) = []"
  by (simp add: policy_keys_def sample_feedback_def policy_markers_def startswith_def lower_def lower_char_def Let_def)

lemma sample_roll_up:
  "\<exists>s. cross_analyze (\<lambda>xs. xs) [sample_feedback\<lparr>ef_execution_id := 1\<rparr>] (map summary_of [sample_execution]) = Inr s \<and>
     length (ms_top_failures s) = 1 \<and> (\<forall>i \<in> set (ms_insights s). in_execution_ids i = [1]) \<and> ms_insights s \<noteq> []"
  by (simp add: cross_analyze_def Let_def sample_feedback_def summaries_by_id_def workflows_by_execution_def
      summary_of_def sample_execution_def new_execution_def sample_args_def top_failure_types_def tally_def add_hit_def
      count_up_def add_to_def append_to_def found_def workflow_named_def most_common_def top_failure_insight_def
      checked_def insight_valid_def nat_digits.simps recurring_patterns_def policy_friction_def sample_policy_keys[unfolded sample_feedback_def, simplified] model_fallback_concentration_def is_fallback_def dedup_def
      unstable_workflows_and_steps_def pattern_step_def dget_def unstable_workflow_insight_def ranked_suggestions_def
      suggestion_pairs_def rank_order_def)

theorem top_failures_are_the_most_frequent_witness:
  "\<exists>s. cross_analyze (\<lambda>xs. xs) [sample_feedback\<lparr>ef_execution_id := 1\<rparr>] (map summary_of [sample_execution]) = Inr s \<and>
     length (ms_top_failures s) \<le> 10 \<and> distinct (map in_title (ms_top_failures s))"
proof -
  obtain s where s: "cross_analyze (\<lambda>xs. xs) [sample_feedback\<lparr>ef_execution_id := 1\<rparr>] (map summary_of [sample_execution]) = Inr s"
    using sample_roll_up by blast
  with top_failures_are_the_most_frequent[OF s] show ?thesis by blast
qed

lemma sample_insights:
  "\<exists>s. get_mukti_insights (\<lambda>xs. xs) sample_feedback_repo (Some (ca_tenant_id sample_args)) None None 10 sample_world
      = (Inr s, sample_world) \<and> 1 \<in> \<Union> (set ` in_execution_ids ` set (ms_insights s))"
proof -
  have "list_executions (w_repo sample_world) (Some (ca_tenant_id sample_args)) None None 10 = [sample_execution]"
    by (simp add: sample_world_eq list_executions_def Let_def limit_rows_def newest_first_def save_execution_def
        get_context_def save_context_def sample_execution_def new_execution_def new_context_def empty_repo_def)
  moreover have "list_execution_feedback sample_feedback_repo 50 None = [sample_feedback\<lparr>ef_execution_id := 1\<rparr>]"
    by (simp add: list_execution_feedback_def sample_feedback_repo_def save_execution_feedback_def empty_feedback_def)
  moreover have "ex_id sample_execution = 1" by (simp add: sample_execution_def new_execution_def)
  ultimately show ?thesis
    using sample_roll_up
    by (auto simp: get_mukti_insights_def service_list_executions_def bnd_ask Let_def ret_def neq_Nil_conv)
qed

theorem insights_stay_in_tenant_witness:
  "\<exists>ex c. ex \<in> set (list_executions (w_repo sample_world) (Some (ca_tenant_id sample_args)) None None 10) \<and> ex_id ex = 1 \<and>
     get_context (w_repo sample_world) (ex_context_id ex) = Some c \<and> ctx_tenant_id c = ca_tenant_id sample_args"
proof -
  obtain s where s: "get_mukti_insights (\<lambda>xs. xs) sample_feedback_repo (Some (ca_tenant_id sample_args)) None None 10
      sample_world = (Inr s, sample_world)" "1 \<in> \<Union> (set ` in_execution_ids ` set (ms_insights s))"
    using sample_insights by blast
  from insights_stay_in_tenant[OF s(1)] s(2) show ?thesis by blast
qed

end
