(* ===== verification/Evaluation.thy ===== *)
theory Evaluation
  imports Repository Rounding Tallies Results
begin

text \<open>
  The evaluation engine (\<open>services/evaluation-engine/evaluation_engine\<close>): the metrics of one execution
  (\<open>metrics.py\<close>), their roll-up (\<open>aggregate.py\<close>), the anomaly rules (\<open>anomalies.py\<close>), the score
  (\<open>scoring.py\<close>) and the service that reads the store (\<open>service.py\<close>).  A ratio of counts is the nearest
  double; a sum of rates is rounded once.
\<close>

section \<open>Records\<close>

record execution_metrics =
  em_execution_id :: string
  em_workflow_type :: string
  em_status :: string
  em_tenant_id :: "string option"
  em_reasoning :: nat
  em_fallbacks :: nat
  em_fallback_rate :: "rat option"
  em_validation :: "bool option"
  em_validation_detail :: "string option"
  em_decisions :: "string list"
  em_outcome :: "string option"
  em_tools_total :: nat
  em_tools_success :: nat
  em_tool_rate :: "rat option"
  em_step_latency_ms :: "int option"
  em_wall_clock_ms :: "int option"
  em_total_latency_ms :: "int option"
  em_notes :: "string list"

record workflow_rollup =
  wr_count :: nat
  wr_failed :: nat
  wr_mean_fallback :: "rat option"
  wr_mean_tool :: "rat option"
  wr_decisions :: "(string \<times> nat) list"

record step_rollup =
  sl_count :: nat
  sl_succeeded :: nat
  sl_failed :: nat
  sl_reasoning :: nat
  sl_fallbacks :: nat

record tool_rollup =
  tl_invocations :: nat
  tl_successes :: nat
  tl_failures :: nat

record decision_rollup =
  dr_evaluations :: nat
  dr_executions :: nat

record aggregated_metrics =
  am_scope :: nat
  am_workflows :: "(string \<times> workflow_rollup) list"
  am_steps :: "(string \<times> step_rollup) list"
  am_tools :: "(string \<times> tool_rollup) list"
  am_decisions :: "(string \<times> decision_rollup) list"

record anomaly =
  an_code :: string
  an_severity :: string
  an_explanation :: string
  an_evidence :: pydict

record evaluation_summary =
  ev_scope :: string
  ev_sample_size :: nat
  ev_aggregated :: aggregated_metrics
  ev_anomalies :: "anomaly list"
  ev_score :: "rat option"
  ev_score_notes :: "string option"

section \<open>One execution\<close>

definition ratio :: "nat \<Rightarrow> nat \<Rightarrow> rat" where
  "ratio k n = to_float (of_nat k / of_nat n)"

definition planner_name :: "step \<Rightarrow> string option" where
  "planner_name s = as_str (dget (st_input s) ''planner_step_name'')"

definition is_validation_like_step :: "step \<Rightarrow> bool" where
  "is_validation_like_step s \<longleftrightarrow>
     st_type s = ST_VALIDATION \<or> lower (step_type_value (st_type s)) = ''validation'' \<or>
     (case planner_name s of None \<Rightarrow> False | Some nm \<Rightarrow> nm \<noteq> [] \<and> contains ''validate'' (lower nm))"

definition summary_validation :: "pydict option \<Rightarrow> bool option \<times> string option" where
  "summary_validation vs =
     (case vs of None \<Rightarrow> (None, Some ''no validation-class step or validation_summary'')
      | Some d \<Rightarrow>
         if d = [] then (None, Some ''no validation-class step or validation_summary'')
         else case as_str (py_or (dget d ''status'') (dget d ''overall'')) of
             None \<Rightarrow> (None, Some ''validation_summary present but no explicit status'')
           | Some s \<Rightarrow>
               if lower s \<in> set [''passed'', ''success'', ''ok'', ''complete''] then (Some True, Some ''validation_summary.status'')
               else if lower s \<in> set [''failed'', ''fail'', ''error''] then (Some False, Some ''validation_summary.status'')
               else (None, Some ''validation_summary present but no explicit status''))"

definition passed_words :: "string list" where
  "passed_words = [''passed'', ''success'', ''ok'']"

definition step_outcome :: "(uuid \<times> step_result) list \<Rightarrow> step \<Rightarrow> bool list" where
  "step_outcome results s =
     (case map_of results (st_id s) of None \<Rightarrow> []
      | Some sr \<Rightarrow>
         (case sr_validation sr of
            Some vo \<Rightarrow> [lower (vo_status vo) \<in> set passed_words]
          | None \<Rightarrow>
              if st_status s = SS_FAILED then [False]
              else case (st_status s = SS_SUCCEEDED, sr_output sr) of
                  (True, Some out) \<Rightarrow>
                    (case as_str (dget out ''validation_status'') of
                       None \<Rightarrow> [] | Some v \<Rightarrow> [lower v \<in> set passed_words])
                | _ \<Rightarrow> []))"

definition validation_success ::
  "step list \<Rightarrow> (uuid \<times> step_result) list \<Rightarrow> pydict option \<Rightarrow> bool option \<times> string option" where
  "validation_success ss results vs =
     (let vsteps = filter is_validation_like_step ss;
          outcomes = concat (map (step_outcome results) vsteps)
      in if vsteps = [] then summary_validation vs
         else if outcomes = [] then (None, Some ''validation steps present but no outcomes recorded'')
         else (Some (list_all id outcomes), Some ''aggregated validation step outcomes''))"

definition is_reasoning :: "pydict \<Rightarrow> bool" where
  "is_reasoning row \<longleftrightarrow> dget row ''event_type'' = PStr ''model_reasoning''"

definition is_fallback_event :: "pydict \<Rightarrow> bool" where
  "is_fallback_event row \<longleftrightarrow> is_reasoning row \<and> dget row ''path'' = PStr ''deterministic_fallback''"

text \<open>\<open>int(delta.total_seconds() * 1000)\<close>: two roundings and a truncation.\<close>

definition wall_clock_ms :: "execution \<Rightarrow> int option" where
  "wall_clock_ms ex =
     (case ex_completed_at ex of None \<Rightarrow> None
      | Some t \<Rightarrow> Some (int_trunc (float_of (float_of (of_int (t - ex_created_at ex) / 1000000) * 1000))))"

definition latencies :: "step list \<Rightarrow> (uuid \<times> step_result) list \<Rightarrow> int list" where
  "latencies ss results =
     concat (map (\<lambda>s. case map_of results (st_id s) of None \<Rightarrow> []
       | Some sr \<Rightarrow> (case sr_latency_ms sr of None \<Rightarrow> [] | Some l \<Rightarrow> [l])) ss)"

definition compute_execution_metrics ::
  "execution \<Rightarrow> step list \<Rightarrow> (uuid \<times> step_result) list \<Rightarrow> tool_call list \<Rightarrow> policy_evaluation list \<Rightarrow>
   string option \<Rightarrow> execution_metrics" where
  "compute_execution_metrics ex ss results tools evals tenant =
     (let total = length (filter is_reasoning (ex_timeline ex));
          fallbacks = length (filter is_fallback_event (ex_timeline ex));
          (val_ok, val_detail) = validation_success ss results (ex_validation_summary ex);
          decisions = map (\<lambda>e. policy_decision_value (pe_decision e)) (sort_key pe_created_at evals);
          n = length tools; ok = length (filter (\<lambda>t. tc_status t = TC_SUCCESS) tools);
          lats = latencies ss results; step_sum = (if lats = [] then None else Some (sum_list lats));
          wc = wall_clock_ms ex;
          notes = (if total = 0 then [''model_fallback_rate undefined: no model_reasoning timeline events'']
                   else [''model_fallback_rate = count(model_reasoning with path=deterministic_fallback) / '' @
                     ''count(model_reasoning events)''])
            @ (case val_detail of None \<Rightarrow> [] | Some d \<Rightarrow> if d = [] then [] else [''validation_success: '' @ d])
            @ (if evals = [] then [] else [''policy_decisions ordered by policy_evaluation.created_at''])
            @ (if n = 0 then [] else [''tool_success_rate uses ToolCallStatus.SUCCESS vs all tool_calls rows''])
            @ (if wc = None then [] else [''wall_clock_ms = completed_at - created_at''])
            @ [if wc \<noteq> None then
                 ''total_latency_ms = wall_clock_ms (execution completed_at present; preferred over step sum)''
               else if step_sum \<noteq> None then
                 ''total_latency_ms = step_latency_sum_ms (no completed_at wall clock; sum of StepResult.latency_ms)''
               else ''total_latency_ms undefined: no wall clock and no step latencies'']
      in \<lparr>em_execution_id = uuid_str (ex_id ex), em_workflow_type = ex_workflow_type ex,
          em_status = execution_status_value (ex_status ex), em_tenant_id = tenant,
          em_reasoning = total, em_fallbacks = fallbacks,
          em_fallback_rate = (if total = 0 then None else Some (ratio fallbacks total)),
          em_validation = val_ok, em_validation_detail = val_detail,
          em_decisions = decisions, em_outcome = (if decisions = [] then None else Some (last decisions)),
          em_tools_total = n, em_tools_success = ok, em_tool_rate = (if n = 0 then None else Some (ratio ok n)),
          em_step_latency_ms = step_sum, em_wall_clock_ms = wc,
          em_total_latency_ms = (case wc of Some t \<Rightarrow> Some t | None \<Rightarrow> step_sum), em_notes = notes\<rparr>)"

definition load_tool_calls_for_execution :: "repo \<Rightarrow> step list \<Rightarrow> tool_call list" where
  "load_tool_calls_for_execution r ss = concat (map (\<lambda>s. list_tool_calls_for_step r (st_id s)) ss)"

section \<open>Roll-ups\<close>

text \<open>\<open>sum(xs) / len(xs)\<close>.\<close>

definition mean :: "rat list \<Rightarrow> rat option" where
  "mean xs = (if xs = [] then None else Some (to_float (to_float (sum_list xs) / of_nat (length xs))))"

definition somes :: "('a \<Rightarrow> 'b option) \<Rightarrow> 'a list \<Rightarrow> 'b list" where
  "somes f xs = concat (map (\<lambda>x. case f x of None \<Rightarrow> [] | Some y \<Rightarrow> [y]) xs)"

definition is_failed :: "execution_metrics \<Rightarrow> bool" where
  "is_failed m \<longleftrightarrow> em_status m = ''failed''"

definition workflow_rollup_of :: "execution_metrics list \<Rightarrow> workflow_rollup" where
  "workflow_rollup_of rows =
     \<lparr>wr_count = length rows, wr_failed = length (filter is_failed rows),
      wr_mean_fallback = mean (somes em_fallback_rate rows), wr_mean_tool = mean (somes em_tool_rate rows),
      wr_decisions = foldl (\<lambda>c d. count_up d c) [] (concat (map em_decisions rows))\<rparr>"

definition aggregate_from_execution_metrics :: "execution_metrics list \<Rightarrow> aggregated_metrics" where
  "aggregate_from_execution_metrics per =
     (let by_wf = foldl (\<lambda>g m. append_to (em_workflow_type m) m g) [] per;
          by_pol = foldl (\<lambda>g (d, eid). append_to d eid g) []
            (concat (map (\<lambda>m. map (\<lambda>d. (d, em_execution_id m)) (em_decisions m)) per))
      in \<lparr>am_scope = length per,
          am_workflows = map (\<lambda>(wf, rows). (wf, workflow_rollup_of rows)) by_wf, am_steps = [], am_tools = [],
          am_decisions = map (\<lambda>(d, ids). (d,
            \<lparr>dr_evaluations = length (filter (\<lambda>x. x = d) (concat (map em_decisions per))),
             dr_executions = card (set ids)\<rparr>)) by_pol\<rparr>)"

text \<open>\<open>d[k]\<close> of a dictionary with a default, changed in place.\<close>

definition change_at :: "'v \<Rightarrow> 'k \<Rightarrow> ('v \<Rightarrow> 'v) \<Rightarrow> ('k \<times> 'v) list \<Rightarrow> ('k \<times> 'v) list" where
  "change_at zero k f d = AList.update k (f (case map_of d k of None \<Rightarrow> zero | Some v \<Rightarrow> v)) d"

definition no_steps :: step_rollup where
  "no_steps = \<lparr>sl_count = 0, sl_succeeded = 0, sl_failed = 0, sl_reasoning = 0, sl_fallbacks = 0\<rparr>"

definition no_calls :: tool_rollup where
  "no_calls = \<lparr>tl_invocations = 0, tl_successes = 0, tl_failures = 0\<rparr>"

definition count_step :: "(string \<times> step_rollup) list \<Rightarrow> step \<Rightarrow> (string \<times> step_rollup) list" where
  "count_step d s = change_at no_steps (step_type_value (st_type s))
     (\<lambda>r. r\<lparr>sl_count := Suc (sl_count r),
          sl_succeeded := sl_succeeded r + (if st_status s = SS_SUCCEEDED then 1 else 0),
          sl_failed := sl_failed r + (if st_status s = SS_FAILED then 1 else 0)\<rparr>) d"

text \<open>A reasoning event whose \<open>step_id\<close> names one of the steps.\<close>

definition event_step :: "(uuid \<times> step) list \<Rightarrow> pydict \<Rightarrow> step option" where
  "event_step by_sid row =
     (if \<not> is_reasoning row \<or> dget row ''step_id'' = PNone then None
      else case uuid_parse (py_str (dget row ''step_id'')) of None \<Rightarrow> None | Some u \<Rightarrow> map_of by_sid u)"

definition count_event ::
  "(uuid \<times> step) list \<Rightarrow> (string \<times> step_rollup) list \<Rightarrow> pydict \<Rightarrow> (string \<times> step_rollup) list" where
  "count_event by_sid d row =
     (case event_step by_sid row of None \<Rightarrow> d
      | Some s \<Rightarrow> change_at no_steps (step_type_value (st_type s))
          (\<lambda>r. r\<lparr>sl_reasoning := Suc (sl_reasoning r),
               sl_fallbacks := sl_fallbacks r + (if dget row ''path'' = PStr ''deterministic_fallback'' then 1 else 0)\<rparr>) d)"

definition count_call :: "(string \<times> tool_rollup) list \<Rightarrow> tool_call \<Rightarrow> (string \<times> tool_rollup) list" where
  "count_call d t = change_at no_calls (if tc_tool_name t = [] then ''unknown'' else tc_tool_name t)
     (\<lambda>r. r\<lparr>tl_invocations := Suc (tl_invocations r),
          tl_successes := tl_successes r + (if tc_status t = TC_SUCCESS then 1 else 0),
          tl_failures := tl_failures r + (if tc_status t = TC_SUCCESS then 0 else 1)\<rparr>) d"

definition extend_with_step_and_tool_dimensions ::
  "aggregated_metrics \<Rightarrow> execution list \<Rightarrow> (string \<times> step list) list \<Rightarrow> (string \<times> tool_call list) list \<Rightarrow>
   aggregated_metrics" where
  "extend_with_step_and_tool_dimensions base exs steps_by tools_by =
     base\<lparr>am_steps := foldl (\<lambda>d ex.
            let ss = found steps_by (uuid_str (ex_id ex));
                by_sid = foldl (\<lambda>m s. AList.update (st_id s) s m) [] ss
            in foldl (count_event by_sid) (foldl count_step d ss) (ex_timeline ex)) [] exs,
          am_tools := foldl (\<lambda>d ex. foldl count_call d (found tools_by (uuid_str (ex_id ex)))) [] exs\<rparr>"

definition build_full_aggregated_metrics :: "repo \<Rightarrow> execution_metrics list \<Rightarrow> execution list \<Rightarrow> aggregated_metrics" where
  "build_full_aggregated_metrics r per exs =
     extend_with_step_and_tool_dimensions (aggregate_from_execution_metrics per) exs
       (foldl (\<lambda>m ex. AList.update (uuid_str (ex_id ex)) (list_steps_for_execution r (ex_id ex)) m) [] exs)
       (foldl (\<lambda>m ex. AList.update (uuid_str (ex_id ex))
          (load_tool_calls_for_execution r (list_steps_for_execution r (ex_id ex))) m) [] exs)"

section \<open>Anomalies\<close>

definition fallback_anomaly :: "execution_metrics \<Rightarrow> anomaly list" where
  "fallback_anomaly m =
     (case em_fallback_rate m of None \<Rightarrow> []
      | Some rate \<Rightarrow>
          if 4 \<le> em_reasoning m \<and> to_float (45 / 100) \<le> rate
          then [\<lparr>an_code = ''high_model_fallback_single_execution'', an_severity = ''elevated'',
                 an_explanation = ''Model reasoning fallback share exceeds threshold for this execution ('' @
                   fixed2_str rate @ '' >= 0.45).'',
                 an_evidence = [(''execution_id'', PStr (em_execution_id m)),
                   (''model_reasoning_event_count'', PInt (int (em_reasoning m))),
                   (''model_reasoning_fallback_event_count'', PInt (int (em_fallbacks m))),
                   (''threshold'', PFloat (45 / 100))]\<rparr>]
          else [])"

definition workflow_anomaly :: "string \<times> workflow_rollup \<Rightarrow> anomaly list" where
  "workflow_anomaly = (\<lambda>(wf, r).
     let fr = ratio (wr_failed r) (wr_count r)
     in if 5 \<le> wr_count r \<and> to_float (35 / 100) \<le> fr
        then [\<lparr>an_code = ''elevated_execution_failure_rate'', an_severity = ''warning'',
               an_explanation = ''Workflow '' @ repr_str wf @ '' failure rate '' @ fixed2_str fr @ '' >= 0.35 over '' @
                 nat_digits (wr_count r) @ '' executions.'',
               an_evidence = [(''workflow_type'', PStr wf), (''failed_execution_count'', PInt (int (wr_failed r))),
                 (''execution_count'', PInt (int (wr_count r)))]\<rparr>]
        else [])"

definition policy_anomaly :: "aggregated_metrics \<Rightarrow> anomaly list" where
  "policy_anomaly a =
     (let total = sum_list (map (\<lambda>(d, r). dr_evaluations r) (am_decisions a))
      in case map_of (am_decisions a) ''deny'' of None \<Rightarrow> []
         | Some deny \<Rightarrow>
             let share = ratio (dr_evaluations deny) total
             in if 6 \<le> total \<and> 1 / 4 \<le> share
                then [\<lparr>an_code = ''high_policy_deny_share'', an_severity = ''elevated'',
                       an_explanation = ''Policy deny evaluations are '' @ fixed2_str share @
                         '' of all evaluations (threshold 0.25).'',
                       an_evidence = [(''deny_evaluation_count'', PInt (int (dr_evaluations deny))),
                         (''total_policy_evaluations'', PInt (int total))]\<rparr>]
                else [])"

definition tool_anomaly :: "string \<times> tool_rollup \<Rightarrow> anomaly list" where
  "tool_anomaly = (\<lambda>(nm, r).
     let share = ratio (tl_failures r) (tl_invocations r)
     in if 8 \<le> tl_invocations r \<and> 1 / 2 \<le> share
        then [\<lparr>an_code = ''repeated_tool_failures'', an_severity = ''warning'',
               an_explanation = ''Tool '' @ repr_str nm @ '' failure share '' @ fixed2_str share @ '' >= 0.5 over '' @
                 nat_digits (tl_invocations r) @ '' invocations in scope (aggregated ToolCall rows).'',
               an_evidence = [(''tool_name'', PStr nm), (''invocations'', PInt (int (tl_invocations r))),
                 (''failures'', PInt (int (tl_failures r))), (''threshold_failure_share'', PFloat (1 / 2))]\<rparr>]
        else [])"

definition detect_anomalies :: "execution_metrics list \<Rightarrow> aggregated_metrics \<Rightarrow> anomaly list" where
  "detect_anomalies per a =
     concat (map fallback_anomaly per) @ concat (map workflow_anomaly (am_workflows a)) @ policy_anomaly a
     @ concat (map tool_anomaly (am_tools a))"

section \<open>Score\<close>

definition compute_evaluation_score :: "execution_metrics list \<Rightarrow> rat option \<times> string option" where
  "compute_evaluation_score per =
     (if per = [] then (None, None)
      else let tool_part = mean (somes em_tool_rate per);
               fb_part = map_option (\<lambda>x. to_float (1 - x)) (mean (somes em_fallback_rate per));
               penalty = ratio (length (filter is_failed per)) (length per);
               base = to_float (to_float (1 / 10) * to_float (1 - penalty))
           in case (tool_part, fb_part) of
               (Some t, Some f) \<Rightarrow>
                 (Some (round_to 4 (to_float (to_float (to_float (to_float (45 / 100) * t) + to_float (to_float (45 / 100) * f)) + base))),
                  Some ''0.45*mean(tool_success) + 0.45*(1-mean(model_fallback_rate)) + 0.10*(1-failed/total)'')
             | (Some t, None) \<Rightarrow>
                 (Some (round_to 4 (to_float (to_float (to_float (9 / 10) * t) + base))),
                  Some ''tool signal only: 0.90*mean(tool_success) + 0.10*(1-failed/total)'')
             | (None, Some f) \<Rightarrow>
                 (Some (round_to 4 (to_float (to_float (to_float (9 / 10) * f) + base))),
                  Some ''fallback signal only: 0.90*(1-mean(model_fallback_rate)) + 0.10*(1-failed/total)'')
             | (None, None) \<Rightarrow>
                 (None, Some ''No tool_success_rate or model_fallback_rate on any execution in scope.''))"

section \<open>The service\<close>

text \<open>A status filter is a member of the enumeration or any other text.\<close>

datatype status_filter = Status_Member execution_status | Status_Text string

fun status_filter_value :: "status_filter \<Rightarrow> string" where
  "status_filter_value (Status_Member s) = execution_status_value s"
| "status_filter_value (Status_Text s) = s"

definition upper_char :: "char \<Rightarrow> char" where
  "upper_char c = (let n = of_char c :: nat in if 97 \<le> n \<and> n \<le> 122 then char_of (n - 32) else c)"

fun status_filter_repr :: "status_filter \<Rightarrow> string" where
  "status_filter_repr (Status_Member s) =
     ''<ExecutionStatus.'' @ map upper_char (execution_status_value s) @ '': '' @ repr_str (execution_status_value s) @ ''>''"
| "status_filter_repr (Status_Text s) = repr_str s"

record metric_filters =
  mf_tenant_id :: "string option"
  mf_workflow_type :: "string option"
  mf_status :: "status_filter option"
  mf_limit :: int

definition filters_valid :: "metric_filters \<Rightarrow> bool" where
  "filters_valid f \<longleftrightarrow> 1 \<le> mf_limit f \<and> mf_limit f \<le> 10000"

definition service_execution_metrics :: "repo \<Rightarrow> uuid \<Rightarrow> execution_metrics option" where
  "service_execution_metrics r eid =
     (case get_execution r eid of None \<Rightarrow> None
      | Some ex \<Rightarrow>
          let ss = list_steps_for_execution r eid;
              results = foldl (\<lambda>m s. case get_step_result r (st_id s) of None \<Rightarrow> m
                | Some sr \<Rightarrow> AList.update (st_id s) sr m) [] ss
          in Some (compute_execution_metrics ex ss results (load_tool_calls_for_execution r ss)
               (list_policy_evaluations_for_execution r eid)
               (map_option ctx_tenant_id (get_context r (ex_context_id ex)))))"

definition filtered_executions :: "repo \<Rightarrow> metric_filters \<Rightarrow> execution list" where
  "filtered_executions r f =
     list_executions r (mf_tenant_id f) (mf_workflow_type f) (map_option status_filter_value (mf_status f)) (mf_limit f)"

definition metrics_in_scope :: "repo \<Rightarrow> metric_filters \<Rightarrow> execution_metrics list" where
  "metrics_in_scope r f = somes (\<lambda>ex. service_execution_metrics r (ex_id ex)) (filtered_executions r f)"

definition service_aggregated_metrics :: "repo \<Rightarrow> metric_filters \<Rightarrow> aggregated_metrics" where
  "service_aggregated_metrics r f =
     build_full_aggregated_metrics r (metrics_in_scope r f) (filtered_executions r f)"

definition opt_repr :: "('a \<Rightarrow> string) \<Rightarrow> 'a option \<Rightarrow> string" where
  "opt_repr show x = (case x of None \<Rightarrow> ''None'' | Some v \<Rightarrow> show v)"

definition service_evaluation_summary :: "repo \<Rightarrow> metric_filters \<Rightarrow> evaluation_summary" where
  "service_evaluation_summary r f =
     (let a = service_aggregated_metrics r f; per = metrics_in_scope r f;
          (score, notes) = compute_evaluation_score per
      in \<lparr>ev_scope = ''tenant_id='' @ opt_repr repr_str (mf_tenant_id f) @ '', workflow_type='' @
            opt_repr repr_str (mf_workflow_type f) @ '', status='' @ opt_repr status_filter_repr (mf_status f) @
            '', limit='' @ int_str (mf_limit f),
          ev_sample_size = length per, ev_aggregated = a, ev_anomalies = detect_anomalies per a,
          ev_score = score, ev_score_notes = notes\<rparr>)"

section \<open>The facade of the gateway\<close>

definition metric_filters_of ::
  "string option \<Rightarrow> string option \<Rightarrow> string option \<Rightarrow> int \<Rightarrow> exn + metric_filters" where
  "metric_filters_of tenant workflow status limit =
     checked ''AggregatedMetricFilters'' filters_valid
       \<lparr>mf_tenant_id = tenant, mf_workflow_type = workflow,
        mf_status = map_option (\<lambda>s. case find (\<lambda>m. execution_status_value m = s) all_execution_statuses of
            Some m \<Rightarrow> Status_Member m | None \<Rightarrow> Status_Text s) status,
        mf_limit = limit\<rparr>"

definition get_aggregated_metrics ::
  "repo \<Rightarrow> string option \<Rightarrow> string option \<Rightarrow> string option \<Rightarrow> int \<Rightarrow> exn + aggregated_metrics" where
  "get_aggregated_metrics r tenant workflow status limit =
     and_then (metric_filters_of tenant workflow status limit) (\<lambda>f. Inr (service_aggregated_metrics r f))"

definition get_anomalies_insight ::
  "repo \<Rightarrow> string option \<Rightarrow> string option \<Rightarrow> string option \<Rightarrow> int \<Rightarrow> exn + string \<times> nat \<times> anomaly list" where
  "get_anomalies_insight r tenant workflow status limit =
     and_then (metric_filters_of tenant workflow status limit) (\<lambda>f.
       let s = service_evaluation_summary r f in Inr (ev_scope s, ev_sample_size s, ev_anomalies s))"

end
