(* ===== verification/Evaluation_Properties.thy ===== *)
theory Evaluation_Properties
  imports Evaluation Sample_World
begin

text \<open>
  The roll-ups lose and invent nothing, and rates and scores stay between zero and one whatever the
  floating-point rounding.
\<close>

section \<open>Rates\<close>

definition unit_rate :: "rat option \<Rightarrow> bool" where
  "unit_rate x \<longleftrightarrow> (case x of None \<Rightarrow> True | Some r \<Rightarrow> 0 \<le> r \<and> r \<le> 1)"

lemma ratio_unit: "k \<le> n \<Longrightarrow> 0 \<le> ratio k n \<and> ratio k n \<le> 1"
  unfolding ratio_def by (intro to_float_unit) (auto simp: divide_le_eq_1)

definition metrics_ok :: "execution_metrics \<Rightarrow> bool" where
  "metrics_ok m \<longleftrightarrow> unit_rate (em_fallback_rate m) \<and> unit_rate (em_tool_rate m) \<and>
     em_fallbacks m \<le> em_reasoning m \<and> em_tools_success m \<le> em_tools_total m"

lemma length_filter_imp: "(\<And>x. P x \<Longrightarrow> Q x) \<Longrightarrow> length (filter P xs) \<le> length (filter Q xs)"
  by (induction xs) (auto simp: le_SucI)

lemma computed_fields:
  fixes ex ss results tools evals tenant
  defines "m \<equiv> compute_execution_metrics ex ss results tools evals tenant"
  shows "em_reasoning m = length (filter is_reasoning (ex_timeline ex))"
    "em_fallbacks m = length (filter is_fallback_event (ex_timeline ex))"
    "em_fallback_rate m = (if length (filter is_reasoning (ex_timeline ex)) = 0 then None
       else Some (ratio (length (filter is_fallback_event (ex_timeline ex))) (length (filter is_reasoning (ex_timeline ex)))))"
    "em_tools_total m = length tools" "em_tools_success m = length (filter (\<lambda>t. tc_status t = TC_SUCCESS) tools)"
    "em_tool_rate m = (if length tools = 0 then None
       else Some (ratio (length (filter (\<lambda>t. tc_status t = TC_SUCCESS) tools)) (length tools)))"
    "em_execution_id m = uuid_str (ex_id ex)" "em_workflow_type m = ex_workflow_type ex"
    "em_status m = execution_status_value (ex_status ex)"
  by (simp_all only: m_def compute_execution_metrics_def Let_def split_beta execution_metrics.simps)

lemma metrics_ok_computed: "metrics_ok (compute_execution_metrics ex ss results tools evals tenant)"
proof -
  have "length (filter is_fallback_event rows) \<le> length (filter is_reasoning rows)" for rows
    by (rule length_filter_imp) (simp add: is_fallback_event_def)
  then show ?thesis
    by (auto simp: metrics_ok_def computed_fields unit_rate_def ratio_unit simp del: filter_empty_conv)
qed

lemma somes_member: "y \<in> set (somes f xs) \<longleftrightarrow> (\<exists>x \<in> set xs. f x = Some y)"
  by (induction xs) (auto simp: somes_def split: option.splits)

lemma somes_length: "length (somes f xs) \<le> length xs"
  by (induction xs) (auto simp: somes_def split: option.split)

lemma mean_unit:
  assumes "\<forall>x \<in> set xs. 0 \<le> x \<and> x \<le> 1" "length xs \<le> 2 ^ 52"
  shows "unit_rate (mean xs)"
proof -
  have s: "0 \<le> sum_list xs \<and> sum_list xs \<le> of_nat (length xs)"
    using assms(1) by (induction xs) auto
  then have "0 \<le> to_float (sum_list xs)" "to_float (sum_list xs) \<le> of_nat (length xs)"
    using to_float_nonneg to_float_below_nat[OF _ _ assms(2)] by auto
  then show ?thesis
    by (auto simp: mean_def unit_rate_def divide_le_eq_1 intro!: to_float_unit[THEN conjunct1] to_float_unit[THEN conjunct2])
qed

lemma mean_of_rates:
  assumes "\<forall>m \<in> set per. unit_rate (f m)" "length per \<le> 2 ^ 52"
  shows "unit_rate (mean (somes f per))"
proof (rule mean_unit)
  show "\<forall>x \<in> set (somes f per). 0 \<le> x \<and> x \<le> 1"
    using assms(1) by (fastforce simp: somes_member unit_rate_def)
  show "length (somes f per) \<le> 2 ^ 52" using somes_length[of f per] assms(2) by linarith
qed

section \<open>Score\<close>

text \<open>The factor by which a rounding may exceed its argument.\<close>

definition ulp_factor :: rat where
  "ulp_factor = 1 + 1 / 2 ^ 52"

lemma to_float_factor: "0 \<le> x \<Longrightarrow> x \<le> y \<Longrightarrow> to_float x \<le> y * ulp_factor"
  using to_float_error[of x] mult_right_mono[of x y ulp_factor] by (simp add: ulp_factor_def)

lemma weighted_part: "0 \<le> t \<Longrightarrow> t \<le> 1 \<Longrightarrow> 0 \<le> w \<Longrightarrow>
   0 \<le> to_float (to_float w * t) \<and> to_float (to_float w * t) \<le> w * ulp_factor * ulp_factor"
  using to_float_nonneg[of w] to_float_factor[of w w] mult_left_le[of t "to_float w"]
  by (auto intro!: to_float_nonneg to_float_factor)

lemma rounded_score:
  assumes "0 \<le> x" "x \<le> 1 + 1 / 20000" shows "0 \<le> round_to 4 x \<and> round_to 4 x \<le> 1"
proof -
  have "\<lfloor>20001 / 2 :: rat\<rfloor> = 10000" by (rule floor_unique) auto
  then have "round_to 4 (1 + 1 / 20000) = 1"
    by (simp add: round_to_def round_half_even_def Let_def)
  with round_to_mono[OF assms(2), of 4] round_to_mono[OF assms(1), of 4] show ?thesis
    using round_to_of_int[of 4 0] by simp
qed

lemma ulp_small: "ulp_factor * ulp_factor * ulp_factor * ulp_factor \<le> 1 + 1 / 20000" "1 \<le> ulp_factor"
  by (simp_all add: ulp_factor_def)

lemma score_sum:
  assumes "0 \<le> a" "a \<le> 9 / 10 * ulp_factor * ulp_factor * ulp_factor"
    and "0 \<le> b" "b \<le> 1 / 10 * ulp_factor * ulp_factor"
  shows "0 \<le> round_to 4 (to_float (a + b)) \<and> round_to 4 (to_float (a + b)) \<le> 1"
proof (rule rounded_score)
  have "1 / 10 * ulp_factor * ulp_factor * 1 \<le> 1 / 10 * ulp_factor * ulp_factor * ulp_factor"
    using ulp_small(2) by (intro mult_left_mono) auto
  with assms have "a + b \<le> ulp_factor * ulp_factor * ulp_factor" by simp
  with assms have "to_float (a + b) \<le> ulp_factor * ulp_factor * ulp_factor * ulp_factor"
    by (intro to_float_factor) auto
  with ulp_small(1) show "to_float (a + b) \<le> 1 + 1 / 20000" by linarith
  show "0 \<le> to_float (a + b)" using assms by (intro to_float_nonneg) auto
qed

lemma blended_score_unit:
  assumes per: "\<forall>m \<in> set per. metrics_ok m" "length per \<le> 2 ^ 52"
  shows "unit_rate (fst (compute_evaluation_score per))"
proof -
  let ?base = "to_float (to_float (1 / 10) * to_float (1 - ratio (length (filter is_failed per)) (length per)))"
  have tool: "unit_rate (mean (somes em_tool_rate per))" and fall: "unit_rate (mean (somes em_fallback_rate per))"
    using per by (auto intro!: mean_of_rates simp: metrics_ok_def)
  have "0 \<le> to_float (1 - ratio (length (filter is_failed per)) (length per)) \<and>
      to_float (1 - ratio (length (filter is_failed per)) (length per)) \<le> 1"
    using ratio_unit[of "length (filter is_failed per)" "length per"] by (intro to_float_unit) auto
  then have base: "0 \<le> ?base" "?base \<le> 1 / 10 * ulp_factor * ulp_factor"
    using weighted_part[of "to_float (1 - ratio (length (filter is_failed per)) (length per))" "1 / 10"] by auto
  have one: "0 \<le> to_float (1 - x) \<and> to_float (1 - x) \<le> 1" if "0 \<le> x" "x \<le> 1" for x
    using that by (intro to_float_unit) auto
  have single: "0 \<le> round_to 4 (to_float (to_float (to_float (9 / 10) * t) + ?base)) \<and>
      round_to 4 (to_float (to_float (to_float (9 / 10) * t) + ?base)) \<le> 1" if t: "0 \<le> t" "t \<le> 1" for t
  proof (rule score_sum)
    have "9 / 10 * ulp_factor * ulp_factor * 1 \<le> 9 / 10 * ulp_factor * ulp_factor * ulp_factor"
      using ulp_small(2) by (intro mult_left_mono) auto
    with weighted_part[OF t, of "9 / 10"]
    show "to_float (to_float (9 / 10) * t) \<le> 9 / 10 * ulp_factor * ulp_factor * ulp_factor" by simp
  qed (use weighted_part[OF t, of "9 / 10"] base in auto)
  have both: "0 \<le> round_to 4 (to_float (to_float (to_float (to_float (45 / 100) * t) + to_float (to_float (45 / 100) * f)) + ?base)) \<and>
      round_to 4 (to_float (to_float (to_float (to_float (45 / 100) * t) + to_float (to_float (45 / 100) * f)) + ?base)) \<le> 1"
    if t: "0 \<le> t" "t \<le> 1" and f: "0 \<le> f" "f \<le> 1" for t f
  proof (rule score_sum)
    show "to_float (to_float (to_float (45 / 100) * t) + to_float (to_float (45 / 100) * f))
        \<le> 9 / 10 * ulp_factor * ulp_factor * ulp_factor"
      using weighted_part[OF t, of "45 / 100"] weighted_part[OF f, of "45 / 100"] by (intro to_float_factor) auto
    show "0 \<le> to_float (to_float (to_float (45 / 100) * t) + to_float (to_float (45 / 100) * f))"
      using weighted_part[OF t, of "45 / 100"] weighted_part[OF f, of "45 / 100"] by (intro to_float_nonneg) auto
  qed (use base in auto)
  show ?thesis
    using tool fall one single both
    by (auto simp: compute_evaluation_score_def Let_def unit_rate_def split: option.splits)
qed

lemma metrics_in_scope_ok: "\<forall>m \<in> set (metrics_in_scope r f). metrics_ok m"
  by (auto simp: metrics_in_scope_def somes_member service_execution_metrics_def Let_def metrics_ok_computed
      split: option.splits)

lemma metrics_in_scope_length: "length (metrics_in_scope r f) \<le> 500"
proof -
  have "length (filtered_executions r f) \<le> 500"
    by (simp add: filtered_executions_def list_executions_def Let_def limit_rows_def)
  with somes_length[of "\<lambda>ex. service_execution_metrics r (ex_id ex)" "filtered_executions r f"]
  show ?thesis unfolding metrics_in_scope_def by linarith
qed

text \<open>C27. A summary covers at most 500 executions, whatever limit up to 10000 the filter asks for, and its score,
  when there is one, is between zero and one in spite of every rounding on the way.\<close>

theorem score_between_zero_and_one:
  "ev_sample_size (service_evaluation_summary r f) \<le> 500 \<and> unit_rate (ev_score (service_evaluation_summary r f))"
proof -
  have "unit_rate (fst (compute_evaluation_score (metrics_in_scope r f)))"
  proof (rule blended_score_unit[OF metrics_in_scope_ok])
    have "(500 :: nat) \<le> 2 ^ 52" by simp
    with metrics_in_scope_length[of r f] show "length (metrics_in_scope r f) \<le> 2 ^ 52" by (rule order_trans)
  qed
  then show ?thesis
    using metrics_in_scope_length[of r f]
    by (simp add: service_evaluation_summary_def Let_def split_beta)
qed

section \<open>Roll-ups\<close>

definition alist_sum :: "('v \<Rightarrow> nat) \<Rightarrow> ('k \<times> 'v) list \<Rightarrow> nat" where
  "alist_sum g d = sum_list (map (\<lambda>(k, v). g v) d)"

lemma alist_sum_update:
  "distinct (map fst d) \<Longrightarrow>
   alist_sum g (AList.update k v d) + (case map_of d k of None \<Rightarrow> 0 | Some w \<Rightarrow> g w) = alist_sum g d + g v"
  by (induction d) (auto simp: alist_sum_def)

lemma alist_all_update: "(\<forall>(k, v) \<in> set d. P v) \<Longrightarrow> P v' \<Longrightarrow> (\<forall>(k, v) \<in> set (AList.update k' v' d). P v)"
  by (induction d) auto

text \<open>One tally by key: the values' weights grow by one at each row.\<close>

lemma change_at_sum:
  assumes "distinct (map fst d)" "g zero = 0" "\<And>v. g (f v) = Suc (g v)"
  shows "alist_sum g (change_at zero k f d) = Suc (alist_sum g d)" "distinct (map fst (change_at zero k f d))"
  using alist_sum_update[OF assms(1), of g k "f (case map_of d k of None \<Rightarrow> zero | Some v \<Rightarrow> v)"] assms
  by (cases "map_of d k"; simp add: change_at_def distinct_update del: map_of_eq_Some_iff)+

lemma change_at_all:
  assumes "\<forall>(k, v) \<in> set d. P v" "P zero" "\<And>v. P v \<Longrightarrow> P (f v)"
  shows "\<forall>(k, v) \<in> set (change_at zero k' f d). P v"
  unfolding change_at_def
  using assms by (intro alist_all_update) (auto split: option.split dest!: map_of_SomeD)

definition tool_ok :: "tool_rollup \<Rightarrow> bool" where
  "tool_ok r \<longleftrightarrow> tl_successes r + tl_failures r = tl_invocations r"

definition step_ok :: "step_rollup \<Rightarrow> bool" where
  "step_ok r \<longleftrightarrow> sl_succeeded r + sl_failed r \<le> sl_count r \<and> sl_fallbacks r \<le> sl_reasoning r"

lemma count_call_ok: "\<forall>(k, v) \<in> set d. tool_ok v \<Longrightarrow> \<forall>(k, v) \<in> set (count_call d t). tool_ok v"
  unfolding count_call_def by (rule change_at_all) (auto simp: tool_ok_def no_calls_def)

lemma count_step_ok: "\<forall>(k, v) \<in> set d. step_ok v \<Longrightarrow> \<forall>(k, v) \<in> set (count_step d s). step_ok v"
  unfolding count_step_def by (rule change_at_all) (auto simp: step_ok_def no_steps_def)

lemma count_event_ok: "\<forall>(k, v) \<in> set d. step_ok v \<Longrightarrow> \<forall>(k, v) \<in> set (count_event by_sid d row). step_ok v"
proof (cases "event_step by_sid row")
  case (Some s)
  assume "\<forall>(k, v) \<in> set d. step_ok v"
  then show ?thesis
    unfolding count_event_def Some option.case by (rule change_at_all) (auto simp: step_ok_def no_steps_def)
qed (simp add: count_event_def)

lemma append_to_change: "append_to k x d = change_at [] k (\<lambda>xs. xs @ [x]) d"
  by (simp add: append_to_def change_at_def found_def)

text \<open>Rows grouped under their keys.\<close>

definition grouped :: "('k \<times> 'v) list \<Rightarrow> ('k \<times> 'v list) list" where
  "grouped ps = foldl (\<lambda>g (k, x). append_to k x g) [] ps"

lemma grouped_Nil: "grouped [] = []"
  by (simp add: grouped_def)

lemma grouped_snoc: "grouped (ps @ [(a, x)]) = append_to a x (grouped ps)"
  by (simp add: grouped_def)

lemma grouped_distinct: "distinct (map fst (grouped ps))"
  by (induction ps rule: rev_induct) (auto simp: grouped_Nil grouped_snoc append_to_def distinct_update)

lemma grouped_found: "found (grouped ps) k = map snd (filter (\<lambda>p. fst p = k) ps)"
  by (induction ps rule: rev_induct) (auto simp: grouped_Nil grouped_snoc found_append_to)

lemma grouped_nonempty: "\<forall>(k, xs) \<in> set (grouped ps). xs \<noteq> []"
proof (induction ps rule: rev_induct)
  case (snoc p ps)
  obtain a x where p: "p = (a, x)" by (cases p)
  show ?case unfolding p grouped_snoc append_to_def by (rule alist_all_update[OF snoc]) simp
qed (simp add: grouped_Nil)

lemma grouped_member:
  assumes "(k, xs) \<in> set (grouped ps)" shows "xs = map snd (filter (\<lambda>p. fst p = k) ps) \<and> xs \<noteq> []"
proof -
  have "map_of (grouped ps) k = Some xs" using assms grouped_distinct[of ps] by simp
  then have "found (grouped ps) k = xs" by (simp add: found_def)
  with assms grouped_nonempty[of ps] show ?thesis by (auto simp: grouped_found)
qed

lemma grouped_sum: "sum_list (map (\<lambda>(k, xs). length xs) (grouped ps)) = length ps"
proof (induction ps rule: rev_induct)
  case (snoc p ps)
  obtain a x where p: "p = (a, x)" by (cases p)
  have "alist_sum length (append_to a x (grouped ps)) = Suc (alist_sum length (grouped ps))"
    unfolding append_to_change by (intro change_at_sum grouped_distinct) auto
  with snoc show ?case by (simp add: p grouped_snoc alist_sum_def)
qed (simp add: grouped_Nil)

lemma aggregate_parts:
  fixes per
  defines "a \<equiv> aggregate_from_execution_metrics per"
    and "events \<equiv> concat (map (\<lambda>m. map (\<lambda>d. (d, em_execution_id m)) (em_decisions m)) per)"
  shows "am_scope a = length per"
    and "am_workflows a = map (\<lambda>(wf, rows). (wf, workflow_rollup_of rows)) (grouped (map (\<lambda>m. (em_workflow_type m, m)) per))"
    and "am_decisions a = map (\<lambda>(d, ids). (d, \<lparr>dr_evaluations = length ids, dr_executions = card (set ids)\<rparr>)) (grouped events)"
proof -
  have flat: "concat (map em_decisions per) = map fst events"
    by (simp add: events_def map_concat o_def)
  show "am_scope a = length per" by (simp add: a_def aggregate_from_execution_metrics_def Let_def)
  show "am_workflows a = map (\<lambda>(wf, rows). (wf, workflow_rollup_of rows)) (grouped (map (\<lambda>m. (em_workflow_type m, m)) per))"
    by (simp add: a_def aggregate_from_execution_metrics_def Let_def grouped_def foldl_map)
  have "length (filter (\<lambda>x. x = d) (map fst events)) = length ids" if "(d, ids) \<in> set (grouped events)" for d ids
    using grouped_member[OF that] by (simp add: filter_map o_def)
  then show "am_decisions a = map (\<lambda>(d, ids). (d, \<lparr>dr_evaluations = length ids, dr_executions = card (set ids)\<rparr>)) (grouped events)"
    unfolding a_def aggregate_from_execution_metrics_def Let_def flat grouped_def[symmetric] events_def[symmetric]
    by (auto simp: grouped_def[symmetric])
qed



end
