(* ===== verification/Gateway_Access.thy ===== *)
theory Gateway_Access
  imports Execution_Service Results
begin

text \<open>
  Who may do what through the API gateway (\<open>services/api-gateway/gateway\<close>): roles and request contexts
  (\<open>common_schemas/access.py\<close>, \<open>auth.py\<close>), the role checks of the routes (\<open>rbac.py\<close>), the tenant check
  (\<open>tenant_access.py\<close>), the trusted part of a new execution's context (\<open>context_merge.py\<close>) and the error
  envelope (\<open>http_errors.py\<close>).  Headers are an association list from lower-case names.
\<close>

section \<open>Roles and contexts\<close>

datatype role = R_VIEWER | R_OPERATOR | R_APPROVER | R_ADMIN

fun role_value :: "role \<Rightarrow> string" where
  "role_value R_VIEWER = ''viewer''"
| "role_value R_OPERATOR = ''operator''"
| "role_value R_APPROVER = ''approver''"
| "role_value R_ADMIN = ''admin''"

definition parse_role :: "string \<Rightarrow> role option" where
  "parse_role s = find (\<lambda>r. role_value r = s) [R_VIEWER, R_OPERATOR, R_APPROVER, R_ADMIN]"

record request_context =
  rc_principal_id :: string
  rc_roles :: "role list"
  rc_tenant_id :: string
  rc_request_id :: string
  rc_permissions :: "string list"

text \<open>The bounds of \<open>Principal\<close>, \<open>TenantContext\<close> and \<open>RequestContext\<close>.\<close>

definition request_context_valid :: "request_context \<Rightarrow> bool" where
  "request_context_valid c \<longleftrightarrow>
     length (rc_principal_id c) \<le> 256 \<and> length (rc_tenant_id c) \<le> 256 \<and> length (rc_request_id c) \<le> 128"

definition has_role :: "request_context \<Rightarrow> role \<Rightarrow> bool" where
  "has_role c r \<longleftrightarrow> r \<in> set (rc_roles c)"

definition has_any_role :: "request_context \<Rightarrow> role list \<Rightarrow> bool" where
  "has_any_role c rs \<longleftrightarrow> list_ex (has_role c) rs"

section \<open>Requests and replies\<close>

record gateway_settings =
  gs_schedule_start :: bool
  gs_use_queue :: bool
  gs_allow_dev :: bool
  gs_dev_principal :: string
  gs_dev_tenant :: string
  gs_dev_roles :: string
  gs_poll_ms :: int
  gs_heartbeat_sec :: int
  gs_max_duration_sec :: int

definition default_gateway_settings :: gateway_settings where
  "default_gateway_settings =
     \<lparr>gs_schedule_start = True, gs_use_queue = True, gs_allow_dev = True, gs_dev_principal = ''dev-operator'',
      gs_dev_tenant = ''dev-tenant'', gs_dev_roles = ''operator,admin'', gs_poll_ms = 500, gs_heartbeat_sec = 15,
      gs_max_duration_sec = 600\<rparr>"

type_synonym headers = "(string \<times> string) list"

record http_error =
  he_status :: nat
  he_code :: string
  he_message :: string
  he_request_id :: "string option"

text \<open>An endpoint replies, raises an \<open>HTTPException\<close> with the error envelope, or raises anything else.\<close>

datatype 'a reply = Reply 'a | Http_Error http_error | Unhandled exn

type_synonym ('s, 'a) endpoint = "'s \<Rightarrow> 'a reply \<times> 's"

definition answer :: "'a \<Rightarrow> ('s, 'a) endpoint" where
  "answer x = (\<lambda>s. (Reply x, s))"

definition and_next :: "('s, 'a) endpoint \<Rightarrow> ('a \<Rightarrow> ('s, 'b) endpoint) \<Rightarrow> ('s, 'b) endpoint" where
  "and_next m f = (\<lambda>s. case m s of
      (Reply x, t) \<Rightarrow> f x t
    | (Http_Error e, t) \<Rightarrow> (Http_Error e, t)
    | (Unhandled e, t) \<Rightarrow> (Unhandled e, t))"

text \<open>A call of the code behind the gateway, with the \<open>except\<close> clauses of the route.\<close>

definition calling :: "('s, 'a) prog \<Rightarrow> (exn \<Rightarrow> ('s, 'a) endpoint) \<Rightarrow> ('s, 'a) endpoint" where
  "calling m handler = (\<lambda>s. case m s of (Inr x, t) \<Rightarrow> (Reply x, t) | (Inl e, t) \<Rightarrow> handler e t)"

definition unhandled :: "exn \<Rightarrow> ('s, 'a) endpoint" where
  "unhandled e = (\<lambda>s. (Unhandled e, s))"

text \<open>\<open>request.headers.get(k)\<close> as a condition: a missing or an empty header is false.\<close>

definition header_text :: "headers \<Rightarrow> string \<Rightarrow> string option" where
  "header_text hs k = (case map_of hs k of None \<Rightarrow> None | Some v \<Rightarrow> if v = [] then None else Some v)"

text \<open>\<open>raise api_error(...)\<close>: with a request, its identifier is the header's or a fresh one.\<close>

definition error_request_id :: "headers option \<Rightarrow> (env, string option) prog" where
  "error_request_id request =
     (case request of None \<Rightarrow> ret None
      | Some hs \<Rightarrow> (case header_text hs ''x-request-id'' of
            Some r \<Rightarrow> ret (Some r)
          | None \<Rightarrow> bnd uuid4 (\<lambda>u. ret (Some (uuid_str u)))))"

definition api_error :: "headers option \<Rightarrow> string \<Rightarrow> string \<Rightarrow> nat \<Rightarrow> (world, 'a) endpoint" where
  "api_error request code msg status =
     and_next (calling (in_env (error_request_id request)) unhandled)
       (\<lambda>rid w. (Http_Error \<lparr>he_status = status, he_code = code, he_message = msg, he_request_id = rid\<rparr>, w))"

section \<open>Authentication\<close>

fun split_on :: "char \<Rightarrow> string \<Rightarrow> string list" where
  "split_on sep [] = [[]]"
| "split_on sep (c # s) =
     (case split_on sep s of
        [] \<Rightarrow> [[c]]
      | part # rest \<Rightarrow> if c = sep then [] # part # rest else (c # part) # rest)"

definition parse_roles :: "string option \<Rightarrow> role list" where
  "parse_roles raw =
     (case raw of None \<Rightarrow> []
      | Some s \<Rightarrow>
          if strip s = [] then []
          else concat (map (\<lambda>part. case parse_role (lower (strip part)) of None \<Rightarrow> [] | Some r \<Rightarrow> [r])
                 (split_on (CHR '','') s)))"

definition request_context_of :: "string \<Rightarrow> role list \<Rightarrow> string \<Rightarrow> string \<Rightarrow> request_context" where
  "request_context_of who roles tenant request_id =
     \<lparr>rc_principal_id = who, rc_roles = roles, rc_tenant_id = tenant, rc_request_id = request_id,
      rc_permissions = map role_value roles\<rparr>"

definition checked_context :: "request_context \<Rightarrow> (world, request_context) endpoint" where
  "checked_context c =
     (if request_context_valid c then answer c else unhandled (Exn PydanticValidationError ''RequestContext''))"

definition resolve_request_context :: "headers \<Rightarrow> gateway_settings \<Rightarrow> (world, request_context) endpoint" where
  "resolve_request_context hs st =
     (let request_id = (case header_text hs ''x-request-id'' of Some r \<Rightarrow> r | None \<Rightarrow> ''gateway'')
      in case (header_text hs ''x-principal-id'', header_text hs ''x-tenant-id'') of
           (Some who, Some tenant) \<Rightarrow>
             (let roles = parse_roles (map_of hs ''x-roles'')
              in checked_context (request_context_of (strip who) (if roles = [] then [R_VIEWER] else roles)
                   (strip tenant) request_id))
         | _ \<Rightarrow>
             if gs_allow_dev st then
               (let roles = parse_roles (Some (gs_dev_roles st))
                in checked_context (request_context_of (gs_dev_principal st) (if roles = [] then [R_OPERATOR] else roles)
                     (gs_dev_tenant st) request_id))
             else api_error (Some hs) ''UNAUTHORIZED'' ''Missing X-Principal-Id and X-Tenant-Id; dev fallback disabled'' 401)"

section \<open>Roles of the routes\<close>

definition require_any_role :: "role list \<Rightarrow> headers \<Rightarrow> gateway_settings \<Rightarrow> (world, request_context) endpoint" where
  "require_any_role rs hs st =
     and_next (resolve_request_context hs st) (\<lambda>ctx.
       if has_any_role ctx rs then answer ctx
       else api_error (Some hs) ''FORBIDDEN'' (''requires one of roles: '' @ join '', '' (map role_value rs)) 403)"

definition executions_read :: "headers \<Rightarrow> gateway_settings \<Rightarrow> (world, request_context) endpoint" where
  "executions_read = require_any_role [R_VIEWER, R_OPERATOR, R_APPROVER, R_ADMIN]"

definition executions_write :: "headers \<Rightarrow> gateway_settings \<Rightarrow> (world, request_context) endpoint" where
  "executions_write = require_any_role [R_OPERATOR, R_ADMIN]"

definition approvals_write :: "headers \<Rightarrow> gateway_settings \<Rightarrow> (world, request_context) endpoint" where
  "approvals_write = require_any_role [R_APPROVER, R_ADMIN]"

definition policies_admin :: "headers \<Rightarrow> gateway_settings \<Rightarrow> (world, request_context) endpoint" where
  "policies_admin = require_any_role [R_ADMIN]"

section \<open>Tenants\<close>

definition assert_execution_visible :: "headers option \<Rightarrow> uuid \<Rightarrow> request_context \<Rightarrow> (world, execution) endpoint" where
  "assert_execution_visible request eid auth =
     (\<lambda>w. case get_execution (w_repo w) eid of
        None \<Rightarrow> api_error request ''NOT_FOUND'' ''execution not found'' 404 w
      | Some ex \<Rightarrow>
          (case get_context (w_repo w) (ex_context_id ex) of
             None \<Rightarrow> api_error request ''FORBIDDEN'' ''execution not visible for tenant'' 403 w
           | Some ctx \<Rightarrow>
               if ctx_tenant_id ctx \<noteq> rc_tenant_id auth
               then api_error request ''FORBIDDEN'' ''execution not visible for tenant'' 403 w
               else (Reply ex, w)))"

definition merge_execution_context :: "pydict \<Rightarrow> request_context \<Rightarrow> exn + pydict" where
  "merge_execution_context client auth =
     (let client_tenant = dget client ''tenant_id'' in
      if client_tenant \<noteq> PNone \<and> py_str client_tenant \<noteq> rc_tenant_id auth then
        Inl (Exn ValueError ''context.tenant_id must match authenticated tenant'')
      else
        let m = dset ''principal_id'' (PStr (rc_principal_id auth)) (dset ''tenant_id'' (PStr (rc_tenant_id auth)) client);
            m = (if truthy (dget m ''request_id'') then m else dset ''request_id'' (PStr (rc_request_id auth)) m);
            perms = (case as_dict (dget m ''permissions_scope'') of None \<Rightarrow> [] | Some d \<Rightarrow> d);
            perms = (if has_key perms ''roles'' then perms
                     else dset ''roles'' (PList (map (\<lambda>r. PStr (role_value r)) (rc_roles auth))) perms)
        in Inr (dset ''permissions_scope'' (PDict perms) m))"

end
