(* ===== verification/Gateway.thy ===== *)
theory Gateway
  imports Gateway_Access Replay Replay_Diff Mukti Evaluation
begin

text \<open>
  The API gateway (\<open>services/api-gateway/gateway\<close>): the facades over the services
  (\<open>services/execution_facade.py\<close> and the others) and the routes (\<open>routers/\<close>), each with its role, its tenant
  check and its error mapping.  The state is the world of the orchestrator, the feedback store, the
  idempotency table and the starts scheduled to run after the response.  FastAPI itself (routing, the
  decoding of requests, the limits of query parameters) is not modelled; responses are records.
\<close>

record gateway =
  gw_world :: world
  gw_feedback :: feedback_repo
  gw_idempotency :: "((string \<times> string \<times> string) \<times> uuid) list"
  gw_background :: "uuid list"

definition on_world :: "(world, 'a) prog \<Rightarrow> (gateway, 'a) prog" where
  "on_world m = (\<lambda>g. case m (gw_world g) of (r, w) \<Rightarrow> (r, g\<lparr>gw_world := w\<rparr>))"

definition at_world :: "(world, 'a) endpoint \<Rightarrow> (gateway, 'a) endpoint" where
  "at_world m = (\<lambda>g. case m (gw_world g) of (r, w) \<Rightarrow> (r, g\<lparr>gw_world := w\<rparr>))"

definition http_error_at :: "headers \<Rightarrow> string \<Rightarrow> string \<Rightarrow> nat \<Rightarrow> (gateway, 'a) endpoint" where
  "http_error_at hs code msg status = at_world (api_error (Some hs) code msg status)"

section \<open>The execution facade\<close>

definition REGISTERED_WORKFLOW_TYPES :: "string list" where
  "REGISTERED_WORKFLOW_TYPES = [''cost_attribution'', ''generic'', ''incident_triage'']"

record create_request =
  cr_workflow_type :: string
  cr_input :: pydict
  cr_context :: pydict
  cr_idempotency_key :: "string option"
  cr_execution_mode :: "string option"

definition requested_mode :: "pydict \<Rightarrow> execution_mode option" where
  "requested_mode ctx =
     (let raw = dget ctx ''execution_mode''
      in if raw = PNone then Some EM_BACKGROUND
         else find (\<lambda>m. execution_mode_value m = py_str raw) [EM_INTERACTIVE, EM_BACKGROUND])"

definition facade_create_args :: "create_request \<Rightarrow> pydict \<Rightarrow> execution_mode \<Rightarrow> create_args" where
  "facade_create_args rq ctx mode =
     \<lparr>ca_workflow_type = cr_workflow_type rq, ca_input = cr_input rq, ca_tenant_id = py_str (dget ctx ''tenant_id''),
      ca_request_id = py_str (py_or (dget ctx ''request_id'') (PStr ''gateway'')),
      ca_environment = py_str (py_or (dget ctx ''environment'') (PStr ''dev'')),
      ca_policy_scope = py_str (dget ctx ''policy_scope''),
      ca_principal_id = (let p = dget ctx ''principal_id'' in if truthy p then Some (py_str p) else None),
      ca_mode = mode, ca_permissions_scope = as_dict (dget ctx ''permissions_scope''), ca_parent_id = None,
      ca_feature_flags = as_dict (dget ctx ''feature_flags''), ca_now = None\<rparr>"

text \<open>\<open>if idempotency_key:\<close> and the key of the table.\<close>

definition idempotency_key :: "create_request \<Rightarrow> pydict \<Rightarrow> (string \<times> string \<times> string) option" where
  "idempotency_key rq ctx =
     (case cr_idempotency_key rq of
        None \<Rightarrow> None
      | Some k \<Rightarrow> if k = [] then None else Some (py_str (dget ctx ''tenant_id''), cr_workflow_type rq, k))"

definition known_execution :: "(string \<times> string \<times> string) option \<Rightarrow> gateway \<Rightarrow> execution option" where
  "known_execution key g =
     (case key of None \<Rightarrow> None
      | Some k \<Rightarrow> (case map_of (gw_idempotency g) k of None \<Rightarrow> None
          | Some eid \<Rightarrow> get_execution (w_repo (gw_world g)) eid))"

definition remember_key :: "(string \<times> string \<times> string) option \<Rightarrow> uuid \<Rightarrow> (gateway, unit) prog" where
  "remember_key key eid =
     (case key of None \<Rightarrow> ret ()
      | Some k \<Rightarrow> modifies (\<lambda>g. g\<lparr>gw_idempotency := AList.update k eid (gw_idempotency g)\<rparr>))"

definition schedule_start ::
  "gateway_settings \<Rightarrow> engine \<Rightarrow> bool option \<Rightarrow> bool \<Rightarrow> execution_mode \<Rightarrow> uuid \<Rightarrow> (gateway, unit) prog" where
  "schedule_start st eng schedule callback mode eid =
     (let do_start = (case schedule of None \<Rightarrow> gs_schedule_start st | Some b \<Rightarrow> b)
      in if \<not> do_start then ret ()
         else if gs_use_queue st \<and> mode = EM_BACKGROUND then bnd (on_world (enqueue_execution eid None)) (\<lambda>ex. ret ())
         else if callback then modifies (\<lambda>g. g\<lparr>gw_background := gw_background g @ [eid]\<rparr>)
         else bnd (on_world (start_execution eng eid)) (\<lambda>ex. ret ()))"

definition facade_create_execution ::
  "gateway_settings \<Rightarrow> engine \<Rightarrow> bool option \<Rightarrow> bool \<Rightarrow> create_request \<Rightarrow> pydict \<Rightarrow> (gateway, execution) prog" where
  "facade_create_execution st eng schedule callback rq ctx =
     (if cr_workflow_type rq \<notin> set REGISTERED_WORKFLOW_TYPES then
        throw ValueError (''unsupported workflow_type (registered: ''
          @ py_repr (PList (map PStr REGISTERED_WORKFLOW_TYPES)) @ '')'')
      else if \<not> truthy (dget ctx ''tenant_id'') \<or> \<not> truthy (dget ctx ''policy_scope'') then
        throw ValueError ''context.tenant_id and context.policy_scope are required''
      else case requested_mode ctx of
          None \<Rightarrow> throw ValueError ''execution_mode must be interactive or background''
        | Some mode \<Rightarrow>
            (let key = idempotency_key rq ctx in
             bnd (reads (known_execution key)) (\<lambda>known. case known of
                 Some ex \<Rightarrow> ret ex
               | None \<Rightarrow>
                   bnd (on_world (create_execution (facade_create_args rq ctx mode))) (\<lambda>ex.
                   andthen (remember_key key (ex_id ex))
                   (andthen (schedule_start st eng schedule callback mode (ex_id ex)) (ret ex))))))"

text \<open>The trace: the records whose JSON the response carries.\<close>

record trace_projection =
  tp_execution_id :: uuid
  tp_context :: exec_context
  tp_plans :: "execution_plan list"
  tp_steps :: "(step \<times> step_result option) list"
  tp_tool_calls :: "tool_call list"
  tp_evaluations :: "policy_evaluation list"
  tp_approvals :: "approval list"
  tp_timeline :: "pydict list"

definition build_trace_projection :: "uuid \<Rightarrow> repo \<Rightarrow> trace_projection option" where
  "build_trace_projection eid r =
     (case get_execution r eid of None \<Rightarrow> None
      | Some ex \<Rightarrow>
          (case get_context r (ex_context_id ex) of None \<Rightarrow> None
           | Some ctx \<Rightarrow>
               let ss = list_steps_for_execution r eid;
                   plan_ids = sort_key uuid_str (remdups (map st_plan_id ss))
               in Some \<lparr>tp_execution_id = eid, tp_context = ctx,
                    tp_plans = concat (map (\<lambda>p. case get_plan r p of None \<Rightarrow> [] | Some pl \<Rightarrow> [pl]) plan_ids),
                    tp_steps = map (\<lambda>s. (s, get_step_result r (st_id s))) ss,
                    tp_tool_calls = concat (map (\<lambda>s. list_tool_calls_for_step r (st_id s)) ss),
                    tp_evaluations = list_policy_evaluations_for_execution r eid,
                    tp_approvals = list_approvals_for_execution r eid, tp_timeline = ex_timeline ex\<rparr>))"

definition parse_approval_decision :: "string \<Rightarrow> approval_decision option" where
  "parse_approval_decision s = find (\<lambda>d. approval_decision_value d = s) [AD_APPROVE, AD_REJECT, AD_DEFER]"

text \<open>The identifiers are compared with the governance snapshot only when both are given.\<close>

definition snapshot_mismatch :: "execution \<Rightarrow> uuid option \<Rightarrow> uuid option \<Rightarrow> string option" where
  "snapshot_mismatch ex proposal evaluation =
     (if ex_status ex \<noteq> ES_AWAITING_APPROVAL then None
      else case ex_result ex of None \<Rightarrow> None
        | Some res \<Rightarrow>
            (case (as_dict (dget res ''governance''), proposal, evaluation) of
               (Some gov, Some p, Some v) \<Rightarrow>
                 if uuid_str p \<noteq> py_str (dget gov ''proposal_id'')
                 then Some ''action_proposal_id does not match execution governance snapshot''
                 else if uuid_str v \<noteq> py_str (dget gov ''evaluation_id'')
                 then Some ''policy_evaluation_id does not match execution governance snapshot''
                 else None
             | _ \<Rightarrow> None))"

definition facade_submit_approval ::
  "uuid \<Rightarrow> uuid option \<Rightarrow> uuid option \<Rightarrow> string \<Rightarrow> string \<Rightarrow> string option \<Rightarrow> (world, approval) prog" where
  "facade_submit_approval eid proposal evaluation decision approver notes =
     (if proposal = None \<and> evaluation = None then
        throw ValueError ''at least one of action_proposal_id or policy_evaluation_id is required''
      else case parse_approval_decision decision of
          None \<Rightarrow> throw ValueError (''invalid decision: '' @ decision)
        | Some ad \<Rightarrow>
            bnd (require_execution eid) (\<lambda>ex. case snapshot_mismatch ex proposal evaluation of
                Some msg \<Rightarrow> throw ValueError msg
              | None \<Rightarrow>
                  bnd (submit_approval eid approver ad notes) (\<lambda>after.
                  bnd (ask (\<lambda>r. list_approvals_for_execution r eid)) (\<lambda>rows.
                    if rows = [] then throw RuntimeError ''approval not persisted'' else ret (last rows)))))"

record replay_body =
  rb_mode :: string
  rb_plan_id :: "uuid option"
  rb_environment_target :: string
  rb_label :: "string option"
  rb_reason :: "string option"
  rb_requested_by :: "string option"
  rb_input_overrides :: "pydict option"
  rb_start :: bool

definition facade_request_replay :: "engine \<Rightarrow> uuid \<Rightarrow> replay_body \<Rightarrow> (world, replay_response) prog" where
  "facade_request_replay eng sid b =
     (case find (\<lambda>m. replay_mode_value m = rb_mode b) [RM_EXACT, RM_INVESTIGATIVE] of
        None \<Rightarrow> throw ValueError (''invalid replay mode: '' @ rb_mode b)
      | Some mode \<Rightarrow>
          try_except
            (create_replay eng
               \<lparr>rr_source = sid, rr_mode = mode, rr_environment_target = rb_environment_target b,
                rr_anchor_plan = rb_plan_id b, rr_override_plan = None, rr_input_overrides = rb_input_overrides b,
                rr_reason = rb_reason b, rr_requested_by = rb_requested_by b, rr_execution_mode = None,
                rr_label = rb_label b, rr_start = rb_start b\<rparr> None)
            (\<lambda>e. if exn_class e = ReplayNotFoundError then throw KeyError (repr_str (exn_message e))
                 else if exn_class e = ReplayValidationError then throw ValueError (exn_message e)
                 else rethrow e))"

section \<open>Responses\<close>

record create_response =
  ct_execution_id :: uuid
  ct_status :: string
  ct_workflow_type :: string
  ct_created_at :: datetime
  ct_links :: "(string \<times> string) list"

record execution_detail =
  xd_execution_id :: uuid
  xd_workflow_type :: string
  xd_status :: string
  xd_context_id :: uuid
  xd_plan_id :: "uuid option"
  xd_parent_id :: "uuid option"
  xd_input :: pydict
  xd_result :: "pydict option"
  xd_validation_summary :: "pydict option"
  xd_created_at :: datetime
  xd_updated_at :: datetime
  xd_completed_at :: "datetime option"
  xd_cancelled_at :: "datetime option"

definition to_detail :: "execution \<Rightarrow> execution_detail" where
  "to_detail ex =
     \<lparr>xd_execution_id = ex_id ex, xd_workflow_type = ex_workflow_type ex,
      xd_status = execution_status_value (ex_status ex), xd_context_id = ex_context_id ex, xd_plan_id = ex_plan_id ex,
      xd_parent_id = ex_parent_id ex, xd_input = ex_input ex, xd_result = ex_result ex,
      xd_validation_summary = ex_validation_summary ex, xd_created_at = ex_created_at ex,
      xd_updated_at = ex_updated_at ex, xd_completed_at = ex_completed_at ex, xd_cancelled_at = ex_cancelled_at ex\<rparr>"

record list_item =
  li_execution_id :: uuid
  li_status :: string
  li_workflow_type :: string
  li_created_at :: datetime

definition to_item :: "execution \<Rightarrow> list_item" where
  "to_item ex = \<lparr>li_execution_id = ex_id ex, li_status = execution_status_value (ex_status ex),
     li_workflow_type = ex_workflow_type ex, li_created_at = ex_created_at ex\<rparr>"

record approval_response =
  ar_approval_id :: uuid
  ar_execution_id :: uuid
  ar_decision :: string
  ar_decided_at :: datetime

record feedback_response =
  fp_record_id :: uuid
  fp_execution_id :: uuid
  fp_created_at :: datetime

section \<open>Executions\<close>

text \<open>\<open>except ValueError\<close> of the routes.\<close>

definition value_error_400 :: "headers \<Rightarrow> exn \<Rightarrow> (gateway, 'a) endpoint" where
  "value_error_400 hs e =
     (if is_value_error e then http_error_at hs ''VALIDATION_ERROR'' (exn_message e) 400 else unhandled e)"

definition key_error_404 :: "headers \<Rightarrow> string \<Rightarrow> (exn \<Rightarrow> (gateway, 'a) endpoint) \<Rightarrow> exn \<Rightarrow> (gateway, 'a) endpoint" where
  "key_error_404 hs msg otherwise e =
     (if is_key_error e then http_error_at hs ''NOT_FOUND'' msg 404 else otherwise e)"

definition run_create :: "gateway_settings \<Rightarrow> engine \<Rightarrow> request_context \<Rightarrow> create_request \<Rightarrow> (gateway, execution) prog" where
  "run_create st eng auth rq =
     (case merge_execution_context (cr_context rq) auth of
        Inl e \<Rightarrow> rethrow e
      | Inr ctx \<Rightarrow>
          facade_create_execution st eng (Some (gs_schedule_start st)) (gs_schedule_start st) rq
            (case cr_execution_mode rq of None \<Rightarrow> ctx | Some m \<Rightarrow> dset ''execution_mode'' (PStr m) ctx))"

definition post_execution ::
  "gateway_settings \<Rightarrow> engine \<Rightarrow> headers \<Rightarrow> create_request \<Rightarrow> (gateway, create_response) endpoint" where
  "post_execution st eng hs rq =
     and_next (at_world (executions_write hs st)) (\<lambda>auth.
     and_next (calling (run_create st eng auth rq) (value_error_400 hs)) (\<lambda>ex.
       answer \<lparr>ct_execution_id = ex_id ex, ct_status = execution_status_value (ex_status ex),
         ct_workflow_type = ex_workflow_type ex, ct_created_at = ex_created_at ex,
         ct_links = [(''self'', ''/v1/executions/'' @ uuid_str (ex_id ex))]\<rparr>))"

definition visible_to ::
  "(headers \<Rightarrow> gateway_settings \<Rightarrow> (world, request_context) endpoint) \<Rightarrow> gateway_settings \<Rightarrow> headers \<Rightarrow> uuid \<Rightarrow>
   (gateway, request_context \<times> execution) endpoint" where
  "visible_to role_check st hs eid =
     and_next (at_world (role_check hs st)) (\<lambda>auth.
     and_next (at_world (assert_execution_visible (Some hs) eid auth)) (\<lambda>ex. answer (auth, ex)))"

definition get_execution_route :: "gateway_settings \<Rightarrow> headers \<Rightarrow> uuid \<Rightarrow> (gateway, execution_detail) endpoint" where
  "get_execution_route st hs eid = and_next (visible_to executions_read st hs eid) (\<lambda>(auth, ex). answer (to_detail ex))"

definition scoped_tenant_id :: "headers \<Rightarrow> request_context \<Rightarrow> string option \<Rightarrow> (gateway, string) endpoint" where
  "scoped_tenant_id hs auth tenant =
     (if tenant \<noteq> None \<and> tenant \<noteq> Some (rc_tenant_id auth)
      then http_error_at hs ''FORBIDDEN'' ''tenant_id query must match authenticated tenant'' 403
      else answer (rc_tenant_id auth))"

definition list_executions_route ::
  "gateway_settings \<Rightarrow> headers \<Rightarrow> string option \<Rightarrow> string option \<Rightarrow> string option \<Rightarrow> int \<Rightarrow> (gateway, list_item list) endpoint" where
  "list_executions_route st hs tenant workflow status limit =
     and_next (at_world (executions_read hs st)) (\<lambda>auth.
     and_next (scoped_tenant_id hs auth tenant) (\<lambda>scoped.
     and_next (calling (on_world (service_list_executions (Some scoped) workflow status limit)) unhandled) (\<lambda>rows.
       answer (map to_item rows))))"

definition cancel_route :: "gateway_settings \<Rightarrow> headers \<Rightarrow> uuid \<Rightarrow> (gateway, execution_detail) endpoint" where
  "cancel_route st hs eid =
     and_next (visible_to executions_write st hs eid) (\<lambda>visible.
     and_next (calling (on_world (request_cancellation eid ''api_request''))
         (key_error_404 hs ''execution not found'' unhandled)) (\<lambda>ex.
       answer (to_detail ex)))"

definition trace_route :: "gateway_settings \<Rightarrow> headers \<Rightarrow> uuid \<Rightarrow> (gateway, trace_projection) endpoint" where
  "trace_route st hs eid =
     and_next (visible_to executions_read st hs eid) (\<lambda>visible.
     and_next (calling (on_world (ask (build_trace_projection eid))) unhandled) (\<lambda>data. case data of
         None \<Rightarrow> http_error_at hs ''NOT_FOUND'' ''execution not found'' 404
       | Some tp \<Rightarrow> answer tp))"

section \<open>Approvals, replays and feedback\<close>

record approval_body =
  ab_proposal_id :: "uuid option"
  ab_evaluation_id :: "uuid option"
  ab_decision :: string
  ab_approver :: string
  ab_notes :: "string option"

definition approval_route :: "gateway_settings \<Rightarrow> headers \<Rightarrow> uuid \<Rightarrow> approval_body \<Rightarrow> (gateway, approval_response) endpoint" where
  "approval_route st hs eid b =
     and_next (visible_to approvals_write st hs eid) (\<lambda>visible.
     and_next (calling (on_world (facade_submit_approval eid (ab_proposal_id b) (ab_evaluation_id b) (ab_decision b)
           (ab_approver b) (ab_notes b)))
         (key_error_404 hs ''execution not found'' (\<lambda>e.
            if is_value_error e then http_error_at hs ''VALIDATION_ERROR'' (exn_message e) 400
            else if is_orchestration_error e then http_error_at hs ''CONFLICT'' (exn_message e) 409
            else unhandled e))) (\<lambda>a.
       answer \<lparr>ar_approval_id = apr_id a, ar_execution_id = apr_execution_id a,
         ar_decision = approval_decision_value (apr_decision a), ar_decided_at = apr_decided_at a\<rparr>))"

definition replay_route ::
  "gateway_settings \<Rightarrow> engine \<Rightarrow> headers \<Rightarrow> uuid \<Rightarrow> replay_body \<Rightarrow> (gateway, replay_response) endpoint" where
  "replay_route st eng hs eid b =
     and_next (visible_to executions_write st hs eid) (\<lambda>visible.
       calling (on_world (facade_request_replay eng eid b)) (key_error_404 hs ''execution not found'' (value_error_400 hs)))"

text \<open>\<open>ReplayDiffNotFoundError\<close> becomes \<open>KeyError\<close> in the facade.\<close>

definition replay_diff_route ::
  "gateway_settings \<Rightarrow> provenance_reader \<Rightarrow> headers \<Rightarrow> uuid \<Rightarrow> uuid \<Rightarrow> (gateway, diff_summary) endpoint" where
  "replay_diff_route st read hs sid rid =
     and_next (at_world (executions_read hs st)) (\<lambda>auth.
     and_next (at_world (assert_execution_visible (Some hs) sid auth)) (\<lambda>source.
     and_next (at_world (assert_execution_visible (Some hs) rid auth)) (\<lambda>replay.
       calling (on_world (in_repo (compare read sid rid))) (\<lambda>e.
         if exn_class e = OtherException ''ReplayDiffNotFoundError'' \<or> is_key_error e
         then http_error_at hs ''NOT_FOUND'' ''source or replay execution not found'' 404 else unhandled e))))"

record feedback_body =
  fd_source :: string
  fd_labels :: "string list option"
  fd_detail :: "pydict option"
  fd_source_scope :: "pydict option"

definition store_feedback :: "uuid \<Rightarrow> feedback_body \<Rightarrow> (gateway, operator_feedback) prog" where
  "store_feedback eid b =
     (\<lambda>g. case submit_feedback eid (fd_source b) (fd_labels b) (fd_detail b) (fd_source_scope b) (gw_feedback g)
            (w_env (gw_world g)) of
        (Inl e, env') \<Rightarrow> (Inl e, g\<lparr>gw_world := (gw_world g)\<lparr>w_env := env'\<rparr>\<rparr>)
      | (Inr (x, r'), env') \<Rightarrow> (Inr x, g\<lparr>gw_world := (gw_world g)\<lparr>w_env := env'\<rparr>, gw_feedback := r'\<rparr>))"

definition feedback_route :: "gateway_settings \<Rightarrow> headers \<Rightarrow> uuid \<Rightarrow> feedback_body \<Rightarrow> (gateway, feedback_response) endpoint" where
  "feedback_route st hs eid b =
     and_next (visible_to executions_write st hs eid) (\<lambda>visible.
     and_next (calling (store_feedback eid b) (value_error_400 hs)) (\<lambda>x.
       answer \<lparr>fp_record_id = of_id x, fp_execution_id = of_execution_id x, fp_created_at = of_created_at x\<rparr>))"

section \<open>Metrics, insights and policies\<close>

definition pure_call :: "(gateway \<Rightarrow> exn + 'a) \<Rightarrow> (gateway, 'a) endpoint" where
  "pure_call f = (\<lambda>g. case f g of Inl e \<Rightarrow> (Unhandled e, g) | Inr x \<Rightarrow> (Reply x, g))"

definition execution_metrics_route :: "gateway_settings \<Rightarrow> headers \<Rightarrow> uuid \<Rightarrow> (gateway, execution_metrics) endpoint" where
  "execution_metrics_route st hs eid =
     and_next (visible_to executions_read st hs eid) (\<lambda>visible.
     and_next (pure_call (\<lambda>g. Inr (service_execution_metrics (w_repo (gw_world g)) eid))) (\<lambda>m. case m of
         None \<Rightarrow> http_error_at hs ''NOT_FOUND'' ''execution not found'' 404
       | Some x \<Rightarrow> answer x))"

definition in_tenant ::
  "gateway_settings \<Rightarrow> headers \<Rightarrow> string option \<Rightarrow> (string \<Rightarrow> (gateway, 'a) endpoint) \<Rightarrow> (gateway, 'a) endpoint" where
  "in_tenant st hs tenant f =
     and_next (at_world (executions_read hs st)) (\<lambda>auth. and_next (scoped_tenant_id hs auth tenant) f)"

definition metrics_route ::
  "gateway_settings \<Rightarrow> headers \<Rightarrow> string option \<Rightarrow> string option \<Rightarrow> string option \<Rightarrow> int \<Rightarrow>
   (gateway, aggregated_metrics) endpoint" where
  "metrics_route st hs tenant workflow status limit = in_tenant st hs tenant (\<lambda>scoped.
     pure_call (\<lambda>g. get_aggregated_metrics (w_repo (gw_world g)) (Some scoped) workflow status limit))"

definition anomalies_route ::
  "gateway_settings \<Rightarrow> headers \<Rightarrow> string option \<Rightarrow> string option \<Rightarrow> string option \<Rightarrow> int \<Rightarrow>
   (gateway, string \<times> nat \<times> anomaly list) endpoint" where
  "anomalies_route st hs tenant workflow status limit = in_tenant st hs tenant (\<lambda>scoped.
     pure_call (\<lambda>g. get_anomalies_insight (w_repo (gw_world g)) (Some scoped) workflow status limit))"

definition with_feedback :: "(feedback_repo \<Rightarrow> (world, 'a) prog) \<Rightarrow> (gateway, 'a) prog" where
  "with_feedback f = (\<lambda>g. on_world (f (gw_feedback g)) g)"

definition mukti_route ::
  "gateway_settings \<Rightarrow> (uuid list \<Rightarrow> uuid list) \<Rightarrow> headers \<Rightarrow> string option \<Rightarrow> string option \<Rightarrow> string option \<Rightarrow> int \<Rightarrow>
   (gateway, insights_summary) endpoint" where
  "mukti_route st order hs tenant workflow status limit = in_tenant st hs tenant (\<lambda>scoped.
     calling (with_feedback (\<lambda>fr. get_mukti_insights order fr (Some scoped) workflow status limit)) unhandled)"

definition mukti_by_id_route ::
  "gateway_settings \<Rightarrow> (uuid list \<Rightarrow> uuid list) \<Rightarrow> headers \<Rightarrow> uuid \<Rightarrow> string option \<Rightarrow> string option \<Rightarrow> string option \<Rightarrow> int \<Rightarrow>
   (gateway, insight) endpoint" where
  "mukti_by_id_route st order hs insight_id tenant workflow status limit = in_tenant st hs tenant (\<lambda>scoped.
     and_next (calling (with_feedback (\<lambda>fr. get_mukti_insight_by_id order fr insight_id (Some scoped) workflow status limit))
       unhandled) (\<lambda>found. case found of
         None \<Rightarrow> http_error_at hs ''NOT_FOUND'' ''insight not found'' 404
       | Some i \<Rightarrow> answer i))"

definition policies_route :: "gateway_settings \<Rightarrow> headers \<Rightarrow> (gateway, string \<times> rule_descriptor list) endpoint" where
  "policies_route st hs =
     and_next (at_world (policies_admin hs st)) (\<lambda>auth. answer (rule_pack_id, list_rule_descriptors))"

definition simulate_route :: "gateway_settings \<Rightarrow> evaluator \<Rightarrow> headers \<Rightarrow> simulate_request \<Rightarrow> (gateway, simulate_result) endpoint" where
  "simulate_route st ev hs rq =
     and_next (at_world (policies_admin hs st)) (\<lambda>auth.
       if \<not> truthy (dget (sq_context rq) ''policy_scope'')
       then http_error_at hs ''VALIDATION_ERROR'' ''execution_context.policy_scope is required'' 400
       else calling (on_world (in_env (simulate_policy ev rq (rc_tenant_id auth) (Some (rc_principal_id auth)) (rc_request_id auth))))
         (value_error_400 hs))"

end
