(* ===== verification/Streaming.thy ===== *)
theory Streaming
  imports Gateway
begin

text \<open>
  The observation stream of an execution (\<open>services/api-gateway/gateway/streaming\<close>, the events of
  \<open>common_schemas/streaming.py\<close> and \<open>routers/stream.py\<close>): the difference of a snapshot with a cursor, the
  text of a message and the polling loop.  A poll is the loop time, the repository as it then is, and the
  two readings of the clock a turn may take; the list of polls ends when the client goes away while the loop
  sleeps.  A second walk of the loop makes its counters and log events.
\<close>

section \<open>Events\<close>

datatype stream_event_type =
    SE_EXECUTION_UPDATED | SE_STEP_UPDATED | SE_TRACE_EVENT | SE_APPROVAL_REQUIRED | SE_EXECUTION_COMPLETED
  | SE_EXECUTION_FAILED | SE_EXECUTION_CANCELLED | SE_REPLAY_CREATED | SE_HEARTBEAT

fun stream_event_type_value :: "stream_event_type \<Rightarrow> string" where
  "stream_event_type_value SE_EXECUTION_UPDATED = ''execution_updated''"
| "stream_event_type_value SE_STEP_UPDATED = ''step_updated''"
| "stream_event_type_value SE_TRACE_EVENT = ''trace_event''"
| "stream_event_type_value SE_APPROVAL_REQUIRED = ''approval_required''"
| "stream_event_type_value SE_EXECUTION_COMPLETED = ''execution_completed''"
| "stream_event_type_value SE_EXECUTION_FAILED = ''execution_failed''"
| "stream_event_type_value SE_EXECUTION_CANCELLED = ''execution_cancelled''"
| "stream_event_type_value SE_REPLAY_CREATED = ''replay_created''"
| "stream_event_type_value SE_HEARTBEAT = ''heartbeat''"

record stream_event =
  se_type :: stream_event_type
  se_execution_id :: uuid
  se_sequence :: nat
  se_emitted_at :: datetime
  se_payload :: pydict

definition is_terminal_event :: "stream_event \<Rightarrow> bool" where
  "is_terminal_event ev \<longleftrightarrow> se_type ev \<in> {SE_EXECUTION_COMPLETED, SE_EXECUTION_FAILED, SE_EXECUTION_CANCELLED}"

definition is_terminal_execution_status :: "string \<Rightarrow> bool" where
  "is_terminal_execution_status s \<longleftrightarrow> s \<in> set (map execution_status_value [ES_COMPLETED, ES_FAILED, ES_CANCELLED])"

record stream_cursor =
  sc_status :: "string option"
  sc_timeline_len :: nat
  sc_step_status :: "(string \<times> string) list"
  sc_approval_count :: nat
  sc_sequence :: nat

definition new_cursor :: stream_cursor where
  "new_cursor = \<lparr>sc_status = None, sc_timeline_len = 0, sc_step_status = [], sc_approval_count = 0, sc_sequence = 0\<rparr>"

section \<open>Payloads\<close>

definition copied_keys :: "string list \<Rightarrow> pydict \<Rightarrow> pydict" where
  "copied_keys keys d = concat (map (\<lambda>k. if has_key d k then [(k, dget d k)] else []) keys)"

definition bounded_trace_payload :: "pydict \<Rightarrow> pydict" where
  "bounded_trace_payload row =
     (let out = [(''event_type'', dget row ''event_type''), (''at'', dget row ''at'')]
                @ copied_keys [''step_id'', ''planner_step_name'', ''workflow_type'', ''status'', ''path'', ''task'',
                    ''tool_name''] row;
          detail = filter (\<lambda>(k, v). k \<noteq> ''event_type'' \<and> k \<noteq> ''at'') row
      in if detail = [] then out
         else let raw = json_text (PDict detail)
              in if 800 < length raw then out @ [(''detail_excerpt'', PStr (take 800 raw))]
                 else out @ [(''detail'', PDict detail)])"

definition step_payload :: "step \<Rightarrow> step_result option \<Rightarrow> pydict" where
  "step_payload s result =
     [(''step_id'', PStr (uuid_str (st_id s))), (''status'', PStr (step_status_value (st_status s))),
      (''step_type'', PStr (step_type_value (st_type s))),
      (''planner_step_name'', dget (st_input s) ''planner_step_name'')]
     @ (case result of None \<Rightarrow> []
        | Some sr \<Rightarrow>
            [(''confidence_score'', case sr_confidence sr of None \<Rightarrow> PNone | Some c \<Rightarrow> PFloat c)]
            @ (case sr_validation sr of None \<Rightarrow> [] | Some vo \<Rightarrow> [(''validation_status'', PStr (vo_status vo))]))"

definition result_summary :: "execution \<Rightarrow> pydict" where
  "result_summary ex =
     (case ex_result ex of None \<Rightarrow> []
      | Some res \<Rightarrow> copied_keys [''outcome'', ''workflow_type'', ''validation_status'', ''likely_cause'',
          ''confidence_score'', ''confidence''] res)"

section \<open>The difference of a snapshot with the cursor\<close>

type_synonym emission = "stream_event_type \<times> pydict"

definition status_emissions :: "execution \<Rightarrow> emission list" where
  "status_emissions ex =
     (let status = PStr (execution_status_value (ex_status ex)) in
      [(SE_EXECUTION_UPDATED, [(''status'', status), (''workflow_type'', PStr (ex_workflow_type ex)),
          (''updated_at'', PStr (isoformat (ex_updated_at ex)))])]
      @ (case ex_status ex of
           ES_AWAITING_APPROVAL \<Rightarrow>
             [(SE_APPROVAL_REQUIRED, [(''status'', status), (''governance'', PDict (
                 case ex_result ex of None \<Rightarrow> []
                 | Some res \<Rightarrow> (case as_dict (dget res ''governance'') of None \<Rightarrow> [] | Some g \<Rightarrow> g)))])]
         | ES_COMPLETED \<Rightarrow>
             [(SE_EXECUTION_COMPLETED, [(''status'', status), (''result_summary'', PDict (result_summary ex))])]
         | ES_FAILED \<Rightarrow>
             [(SE_EXECUTION_FAILED, [(''status'', status), (''result_summary'', PDict (result_summary ex))])]
         | ES_CANCELLED \<Rightarrow>
             [(SE_EXECUTION_CANCELLED, [(''status'', status),
                (''cancelled_at'', case ex_cancelled_at ex of None \<Rightarrow> PNone | Some t \<Rightarrow> PStr (isoformat t))])]
         | _ \<Rightarrow> []))"

definition row_emissions :: "uuid \<Rightarrow> pydict \<Rightarrow> emission list" where
  "row_emissions eid row =
     (SE_TRACE_EVENT, bounded_trace_payload row)
     # (if py_str (py_or (dget row ''event_type'') (PStr '''')) = ''replay_created''
        then [(SE_REPLAY_CREATED, [(''replay_execution_id'', dget row ''replay_execution_id''),
               (''source_execution_id'', py_or (dget row ''source_execution_id'') (PStr (uuid_str eid))),
               (''replay_mode'', dget row ''replay_mode'')])]
        else [])"

fun step_emissions ::
  "(step \<times> step_result option) list \<Rightarrow> (string \<times> string) list \<Rightarrow> emission list \<times> (string \<times> string) list" where
  "step_emissions [] seen = ([], seen)"
| "step_emissions ((s, result) # rest) seen =
     (let sid = uuid_str (st_id s);
          status = step_status_value (st_status s)
      in if map_of seen sid = Some status then step_emissions rest seen
         else case step_emissions rest (AList.update sid status seen) of
                (ems, seen') \<Rightarrow> ((SE_STEP_UPDATED, step_payload s result) # ems, seen'))"

definition approval_emissions :: "approval list \<Rightarrow> nat \<Rightarrow> emission list" where
  "approval_emissions rows count =
     (if count < length rows then
        [(SE_EXECUTION_UPDATED, [(''approval_recorded'', PBool True),
           (''decision'', PStr (approval_decision_value (apr_decision (last rows)))),
           (''approver'', PStr (apr_approver (last rows)))])]
      else [])"

definition emissions :: "execution \<Rightarrow> trace_projection \<Rightarrow> stream_cursor \<Rightarrow> emission list" where
  "emissions ex tp c =
     (if sc_status c = Some (execution_status_value (ex_status ex)) then [] else status_emissions ex)
     @ concat (map (row_emissions (ex_id ex)) (drop (sc_timeline_len c) (tp_timeline tp)))
     @ fst (step_emissions (tp_steps tp) (sc_step_status c))
     @ approval_emissions (tp_approvals tp) (sc_approval_count c)"

text \<open>\<open>emit\<close>: the cursor numbers the events from one.\<close>

definition number_events :: "uuid \<Rightarrow> datetime \<Rightarrow> nat \<Rightarrow> emission list \<Rightarrow> stream_event list" where
  "number_events eid ts n ems =
     map (\<lambda>(i, ty, payload). \<lparr>se_type = ty, se_execution_id = eid, se_sequence = i, se_emitted_at = ts,
       se_payload = payload\<rparr>) (enumerate (Suc n) ems)"

definition diff_stream_events ::
  "execution \<Rightarrow> trace_projection \<Rightarrow> datetime \<Rightarrow> stream_cursor \<Rightarrow> stream_event list \<times> stream_cursor" where
  "diff_stream_events ex tp ts c =
     (let ems = emissions ex tp c
      in (number_events (ex_id ex) ts (sc_sequence c) ems,
          \<lparr>sc_status = Some (execution_status_value (ex_status ex)), sc_timeline_len = length (tp_timeline tp),
           sc_step_status = snd (step_emissions (tp_steps tp) (sc_step_status c)),
           sc_approval_count = max (sc_approval_count c) (length (tp_approvals tp)),
           sc_sequence = sc_sequence c + length ems\<rparr>))"

section \<open>Messages\<close>

definition event_json :: "stream_event \<Rightarrow> pyval" where
  "event_json ev = PDict
     [(''event_type'', PStr (stream_event_type_value (se_type ev))),
      (''execution_id'', PStr (uuid_str (se_execution_id ev))), (''sequence'', PInt (int (se_sequence ev))),
      (''emitted_at'', PStr (json_datetime (se_emitted_at ev))), (''payload'', PDict (se_payload ev))]"

definition format_sse_message :: "stream_event \<Rightarrow> string" where
  "format_sse_message ev =
     (if se_type ev = SE_HEARTBEAT then '': heartbeat'' @ [char_of (10 :: nat), char_of (10 :: nat)]
      else ''event: '' @ stream_event_type_value (se_type ev) @ [char_of (10 :: nat)]
           @ ''data: '' @ json_text (event_json ev) @ [char_of (10 :: nat), char_of (10 :: nat)])"

section \<open>The polling loop\<close>

record poll =
  po_time :: rat
  po_repo :: repo
  po_batch_at :: datetime
  po_extra_at :: datetime

record stream_state =
  ss_cursor :: stream_cursor
  ss_last_heartbeat :: rat
  ss_terminal_sent :: bool

datatype stream_end = Timed_Out | Execution_Gone | Trace_Gone | Terminal_Reached | Still_Open

definition bare_event :: "uuid \<Rightarrow> stream_event_type \<Rightarrow> datetime \<Rightarrow> nat \<Rightarrow> pydict \<Rightarrow> stream_event" where
  "bare_event eid ty ts n payload =
     \<lparr>se_type = ty, se_execution_id = eid, se_sequence = n, se_emitted_at = ts, se_payload = payload\<rparr>"

text \<open>The envelope for a stream that has sent no terminal event.\<close>

definition terminal_envelope :: "uuid \<Rightarrow> datetime \<Rightarrow> nat \<Rightarrow> string \<Rightarrow> stream_event" where
  "terminal_envelope eid ts n status =
     bare_event eid
       (if status = ''failed'' then SE_EXECUTION_FAILED
        else if status = ''cancelled'' then SE_EXECUTION_CANCELLED else SE_EXECUTION_COMPLETED)
       ts (Suc n) [(''status'', PStr status)]"

text \<open>One turn of \<open>while True\<close>: what it sends, and how it goes on or why the stream ends.\<close>

definition heartbeat_turn ::
  "rat \<Rightarrow> uuid \<Rightarrow> poll \<Rightarrow> stream_event list \<Rightarrow> stream_state \<Rightarrow> stream_event list \<times> (stream_end + stream_state)" where
  "heartbeat_turn heartbeat eid p batch st =
     (if heartbeat \<le> float_of (po_time p - ss_last_heartbeat st) then
        (batch @ [bare_event eid SE_HEARTBEAT (po_extra_at p) (sc_sequence (ss_cursor st)) []],
         Inr (st\<lparr>ss_last_heartbeat := po_time p\<rparr>))
      else (batch, Inr st))"

definition stream_turn ::
  "rat \<Rightarrow> rat \<Rightarrow> rat \<Rightarrow> uuid \<Rightarrow> poll \<Rightarrow> stream_state \<Rightarrow> stream_event list \<times> (stream_end + stream_state)" where
  "stream_turn started heartbeat longest eid p st =
     (if longest < float_of (po_time p - started) then ([], Inl Timed_Out)
      else case get_execution (po_repo p) eid of
          None \<Rightarrow> ([], Inl Execution_Gone)
        | Some ex \<Rightarrow>
            (case build_trace_projection eid (po_repo p) of
               None \<Rightarrow> ([], Inl Trace_Gone)
             | Some tp \<Rightarrow>
                 let (batch, c) = diff_stream_events ex tp (po_batch_at p) (ss_cursor st);
                     sent = (ss_terminal_sent st \<or> list_ex is_terminal_event batch);
                     status = execution_status_value (ex_status ex)
                 in if is_terminal_execution_status status \<and> (sent \<or> batch = []) then
                      (batch @ (if sent then [] else [terminal_envelope eid (po_extra_at p) (sc_sequence c) status]),
                       Inl Terminal_Reached)
                    else heartbeat_turn heartbeat eid p batch (st\<lparr>ss_cursor := c, ss_terminal_sent := sent\<rparr>)))"

fun stream_loop ::
  "rat \<Rightarrow> rat \<Rightarrow> rat \<Rightarrow> uuid \<Rightarrow> poll list \<Rightarrow> stream_state \<Rightarrow> stream_event list \<times> stream_end" where
  "stream_loop started heartbeat longest eid [] st = ([], Still_Open)"
| "stream_loop started heartbeat longest eid (p # ps) st =
     (case stream_turn started heartbeat longest eid p st of
        (out, Inl why) \<Rightarrow> (out, why)
      | (out, Inr st') \<Rightarrow>
          (case stream_loop started heartbeat longest eid ps st' of (later, why) \<Rightarrow> (out @ later, why)))"

definition stream_events :: "gateway_settings \<Rightarrow> uuid \<Rightarrow> rat \<Rightarrow> poll list \<Rightarrow> stream_event list \<times> stream_end" where
  "stream_events st eid started polls =
     stream_loop started (max 5 (of_int (gs_heartbeat_sec st))) (max 30 (of_int (gs_max_duration_sec st))) eid polls
       \<lparr>ss_cursor = new_cursor, ss_last_heartbeat = started, ss_terminal_sent = False\<rparr>"

section \<open>Counters and log events\<close>

definition stream_event_log :: "string \<Rightarrow> uuid \<Rightarrow> pydict \<Rightarrow> (env, unit) prog" where
  "stream_event_log ty eid kvs = emit_event ty ((''execution_id'', PStr (uuid_str eid)) # kvs)"

definition stream_opened :: "uuid \<Rightarrow> request_context \<Rightarrow> (env, unit) prog" where
  "stream_opened eid auth =
     andthen (inc_metric ''execution_streams_active'' [])
       (stream_event_log ''execution_stream_opened'' eid
          [(''tenant_id'', PStr (rc_tenant_id auth)), (''principal_id'', PStr (rc_principal_id auth))])"

text \<open>The events of the difference are counted one by one, as they are sent.\<close>

fun count_events :: "stream_event list \<Rightarrow> (env, unit) prog" where
  "count_events [] = ret ()"
| "count_events (ev # evs) =
     andthen (inc_metric ''execution_stream_events_total'' [(''event_type'', stream_event_type_value (se_type ev))])
       (count_events evs)"

definition turn_batch :: "rat \<Rightarrow> rat \<Rightarrow> uuid \<Rightarrow> poll \<Rightarrow> stream_state \<Rightarrow> stream_event list" where
  "turn_batch started longest eid p st =
     (if longest < float_of (po_time p - started) then []
      else case (get_execution (po_repo p) eid, build_trace_projection eid (po_repo p)) of
          (Some ex, Some tp) \<Rightarrow> fst (diff_stream_events ex tp (po_batch_at p) (ss_cursor st))
        | _ \<Rightarrow> [])"

fun observed_loop ::
  "rat \<Rightarrow> rat \<Rightarrow> rat \<Rightarrow> uuid \<Rightarrow> poll list \<Rightarrow> stream_state \<Rightarrow> (env, stream_event list \<times> stream_end) prog" where
  "observed_loop started heartbeat longest eid [] st = ret ([], Still_Open)"
| "observed_loop started heartbeat longest eid (p # ps) st =
     andthen (count_events (turn_batch started longest eid p st))
       (case stream_turn started heartbeat longest eid p st of
          (out, Inl why) \<Rightarrow> ret (out, why)
        | (out, Inr st') \<Rightarrow>
            bnd (observed_loop started heartbeat longest eid ps st') (\<lambda>(later, why). ret (out @ later, why)))"

text \<open>Why the loop was left, and the \<open>finally\<close>; a client that goes away cancels the sleeping generator.\<close>

definition stream_left :: "uuid \<Rightarrow> stream_end \<Rightarrow> (env, unit) prog" where
  "stream_left eid why =
     (case why of
        Timed_Out \<Rightarrow> stream_event_log ''execution_stream_timeout'' eid []
      | Execution_Gone \<Rightarrow> stream_event_log ''execution_stream_error'' eid [(''reason'', PStr ''not_found'')]
      | Trace_Gone \<Rightarrow> ret ()
      | Terminal_Reached \<Rightarrow> ret ()
      | Still_Open \<Rightarrow> stream_event_log ''execution_stream_cancelled'' eid [])"

definition stream_closed :: "uuid \<Rightarrow> (env, unit) prog" where
  "stream_closed eid =
     andthen (inc_metric ''execution_streams_closed_total'' []) (stream_event_log ''execution_stream_closed'' eid [])"

definition observed_stream ::
  "gateway_settings \<Rightarrow> uuid \<Rightarrow> request_context \<Rightarrow> rat \<Rightarrow> poll list \<Rightarrow> (env, stream_event list \<times> stream_end) prog" where
  "observed_stream st eid auth started polls =
     andthen (stream_opened eid auth)
       (bnd (observed_loop started (max 5 (of_int (gs_heartbeat_sec st))) (max 30 (of_int (gs_max_duration_sec st))) eid polls
               \<lparr>ss_cursor = new_cursor, ss_last_heartbeat = started, ss_terminal_sent = False\<rparr>) (\<lambda>(evs, why).
          andthen (stream_left eid why) (andthen (stream_closed eid) (ret (evs, why)))))"

text \<open>The generator checks the tenant again when it starts; that check has no request.\<close>

definition stream_execution_sse ::
  "gateway_settings \<Rightarrow> uuid \<Rightarrow> request_context \<Rightarrow> rat \<Rightarrow> poll list \<Rightarrow> (world, string list \<times> stream_end) endpoint" where
  "stream_execution_sse st eid auth started polls =
     and_next (assert_execution_visible None eid auth) (\<lambda>ex.
     and_next (calling (in_env (observed_stream st eid auth started polls)) unhandled) (\<lambda>(evs, why).
       answer (map format_sse_message evs, why)))"

definition stream_route :: "gateway_settings \<Rightarrow> headers \<Rightarrow> uuid \<Rightarrow> (gateway, request_context) endpoint" where
  "stream_route st hs eid =
     and_next (visible_to executions_read st hs eid) (\<lambda>(auth, ex).
     and_next (pure_call (\<lambda>g. Inr (get_execution (w_repo (gw_world g)) eid))) (\<lambda>found.
       if found = None then http_error_at hs ''NOT_FOUND'' ''execution not found'' 404 else answer auth))"

end
