(* ===== verification/Streaming_Properties.thy ===== *)
theory Streaming_Properties
  imports Streaming Sample_World "HOL-Library.Sublist"
begin

text \<open>
  The stream: its events carry the numbers one, two, and so on; every row of a timeline that only grows is
  sent exactly once and in order; and exactly one terminal event is sent, as the last event of a stream whose
  execution ended.  The loop is followed by one invariant of its state.
\<close>

section \<open>The events of one difference\<close>

definition trace_payloads :: "stream_event list \<Rightarrow> pydict list" where
  "trace_payloads evs = map se_payload (filter (\<lambda>ev. se_type ev = SE_TRACE_EVENT) evs)"

definition sent_numbers :: "stream_event list \<Rightarrow> nat list" where
  "sent_numbers evs = map se_sequence (filter (\<lambda>ev. se_type ev \<noteq> SE_HEARTBEAT) evs)"

lemma number_events_Nil [simp]: "number_events eid ts n [] = []"
  by (simp add: number_events_def)

lemma number_events_Cons [simp]:
  "number_events eid ts n ((ty, payload) # ems) =
     \<lparr>se_type = ty, se_execution_id = eid, se_sequence = Suc n, se_emitted_at = ts, se_payload = payload\<rparr>
     # number_events eid ts (Suc n) ems"
  by (simp add: number_events_def)

lemma number_events_eq_Nil [simp]: "number_events eid ts n ems = [] \<longleftrightarrow> ems = []"
  by (cases ems) (auto simp: number_events_def)

lemma trace_payloads_append [simp]: "trace_payloads (xs @ ys) = trace_payloads xs @ trace_payloads ys"
  by (simp add: trace_payloads_def)

lemma sent_numbers_append [simp]: "sent_numbers (xs @ ys) = sent_numbers xs @ sent_numbers ys"
  by (simp add: sent_numbers_def)

lemma trace_payloads_number:
  "trace_payloads (number_events eid ts n ems) = map snd (filter (\<lambda>em. fst em = SE_TRACE_EVENT) ems)"
proof (induction ems arbitrary: n)
  case (Cons em ems) then show ?case by (cases em) (simp add: trace_payloads_def)
qed (simp add: trace_payloads_def)

lemma sent_numbers_number:
  "\<forall>em \<in> set ems. fst em \<noteq> SE_HEARTBEAT \<Longrightarrow>
     sent_numbers (number_events eid ts n ems) = [Suc n..<Suc (n + length ems)]"
proof (induction ems arbitrary: n)
  case (Cons em ems)
  have "[Suc n..<Suc (n + length (em # ems))] = Suc n # [Suc (Suc n)..<Suc (Suc n + length ems)]"
    by (subst upt_conv_Cons) simp_all
  with Cons show ?case by (cases em) (simp add: sent_numbers_def del: upt_Suc)
qed (simp add: sent_numbers_def)

definition terminal_types :: "emission list \<Rightarrow> stream_event_type list" where
  "terminal_types ems =
     filter (\<lambda>ty. ty \<in> {SE_EXECUTION_COMPLETED, SE_EXECUTION_FAILED, SE_EXECUTION_CANCELLED}) (map fst ems)"

lemma terminal_types_Nil [simp]: "terminal_types [] = []"
  by (simp add: terminal_types_def)

lemma terminal_types_append [simp]: "terminal_types (xs @ ys) = terminal_types xs @ terminal_types ys"
  by (simp add: terminal_types_def)

lemma terminal_number:
  "map se_type (filter is_terminal_event (number_events eid ts n ems)) = terminal_types ems"
proof (induction ems arbitrary: n)
  case (Cons em ems) then show ?case by (cases em) (simp add: is_terminal_event_def terminal_types_def)
qed (simp add: terminal_types_def)

subsection \<open>The four parts\<close>

lemma step_emissions_types: "em \<in> set (fst (step_emissions rows seen)) \<Longrightarrow> fst em = SE_STEP_UPDATED"
  by (induction rows seen rule: step_emissions.induct) (auto simp: Let_def split: if_splits prod.splits)

lemma approval_emissions_types: "em \<in> set (approval_emissions rows n) \<Longrightarrow> fst em = SE_EXECUTION_UPDATED"
  by (simp add: approval_emissions_def split: if_splits)

lemma row_emissions_types: "em \<in> set (row_emissions eid row) \<Longrightarrow> fst em \<in> {SE_TRACE_EVENT, SE_REPLAY_CREATED}"
  by (auto simp: row_emissions_def split: if_splits)

lemma status_emissions_types:
  "em \<in> set (status_emissions ex) \<Longrightarrow> fst em \<notin> {SE_TRACE_EVENT, SE_HEARTBEAT, SE_STEP_UPDATED, SE_REPLAY_CREATED}"
  by (auto simp: status_emissions_def Let_def split: execution_status.splits)

lemmas emission_types = step_emissions_types approval_emissions_types row_emissions_types status_emissions_types

lemma emissions_no_heartbeat: "em \<in> set (emissions ex tp c) \<Longrightarrow> fst em \<noteq> SE_HEARTBEAT"
  by (auto simp: emissions_def dest!: emission_types split: if_splits)

lemma filter_trace_none: "(\<And>em. em \<in> set ems \<Longrightarrow> fst em \<noteq> SE_TRACE_EVENT) \<Longrightarrow> filter (\<lambda>em. fst em = SE_TRACE_EVENT) ems = []"
  by (auto simp: filter_empty_conv)

lemma rows_trace:
  "map snd (filter (\<lambda>em. fst em = SE_TRACE_EVENT) (concat (map (row_emissions eid) rows))) = map bounded_trace_payload rows"
  by (induction rows) (simp_all add: row_emissions_def)

lemma emissions_trace:
  "map snd (filter (\<lambda>em. fst em = SE_TRACE_EVENT) (emissions ex tp c)) =
     map bounded_trace_payload (drop (sc_timeline_len c) (tp_timeline tp))"
proof -
  have "filter (\<lambda>em. fst em = SE_TRACE_EVENT) (fst (step_emissions (tp_steps tp) (sc_step_status c))) = []"
       "filter (\<lambda>em. fst em = SE_TRACE_EVENT) (approval_emissions (tp_approvals tp) (sc_approval_count c)) = []"
       "filter (\<lambda>em. fst em = SE_TRACE_EVENT) (status_emissions ex) = []"
    by (rule filter_trace_none, auto dest!: emission_types)+
  then show ?thesis by (simp add: emissions_def rows_trace)
qed

lemma terminal_types_none:
  "(\<And>em. em \<in> set ems \<Longrightarrow> fst em \<notin> {SE_EXECUTION_COMPLETED, SE_EXECUTION_FAILED, SE_EXECUTION_CANCELLED}) \<Longrightarrow> terminal_types ems = []"
  by (auto simp: terminal_types_def filter_empty_conv)

definition terminal_type :: "execution_status \<Rightarrow> stream_event_type list" where
  "terminal_type s = (case s of ES_COMPLETED \<Rightarrow> [SE_EXECUTION_COMPLETED] | ES_FAILED \<Rightarrow> [SE_EXECUTION_FAILED]
     | ES_CANCELLED \<Rightarrow> [SE_EXECUTION_CANCELLED] | _ \<Rightarrow> [])"

lemma status_terminal_types: "terminal_types (status_emissions ex) = terminal_type (ex_status ex)"
  by (simp add: status_emissions_def terminal_types_def terminal_type_def Let_def split: execution_status.splits)

lemma emissions_terminal:
  "terminal_types (emissions ex tp c) =
     (if sc_status c = Some (execution_status_value (ex_status ex)) then [] else terminal_type (ex_status ex))"
proof -
  have "terminal_types (fst (step_emissions (tp_steps tp) (sc_step_status c))) = []"
       "terminal_types (approval_emissions (tp_approvals tp) (sc_approval_count c)) = []"
       "terminal_types (concat (map (row_emissions (ex_id ex)) (drop (sc_timeline_len c) (tp_timeline tp)))) = []"
    by (rule terminal_types_none, auto dest!: emission_types)+
  then show ?thesis by (simp add: emissions_def status_terminal_types)
qed

lemma terminal_status_iff:
  "is_terminal_execution_status (execution_status_value s) \<longleftrightarrow> terminal_type s \<noteq> []"
  by (cases s) (simp_all add: is_terminal_execution_status_def terminal_type_def)

lemma length_terminal_type: "length (terminal_type s) \<le> 1"
  by (simp add: terminal_type_def split: execution_status.splits)

lemma diff_facts:
  assumes "diff_stream_events ex tp ts c = (batch, c')"
  shows "trace_payloads batch = map bounded_trace_payload (drop (sc_timeline_len c) (tp_timeline tp))"
    "sent_numbers batch = [Suc (sc_sequence c)..<Suc (sc_sequence c')]"
    "map se_type (filter is_terminal_event batch) =
       (if sc_status c = Some (execution_status_value (ex_status ex)) then [] else terminal_type (ex_status ex))"
    "sc_status c' = Some (execution_status_value (ex_status ex))"
    "sc_timeline_len c' = length (tp_timeline tp)" "sc_sequence c \<le> sc_sequence c'"
proof -
  let ?ems = "emissions ex tp c"
  have eqs: "batch = number_events (ex_id ex) ts (sc_sequence c) ?ems"
    "sc_sequence c' = sc_sequence c + length ?ems" "sc_status c' = Some (execution_status_value (ex_status ex))"
    "sc_timeline_len c' = length (tp_timeline tp)"
    using assms by (auto simp: diff_stream_events_def Let_def)
  show "trace_payloads batch = map bounded_trace_payload (drop (sc_timeline_len c) (tp_timeline tp))"
    by (simp only: eqs trace_payloads_number emissions_trace)
  show "sent_numbers batch = [Suc (sc_sequence c)..<Suc (sc_sequence c')]"
    unfolding eqs by (rule sent_numbers_number) (blast dest: emissions_no_heartbeat)
  show "map se_type (filter is_terminal_event batch) =
       (if sc_status c = Some (execution_status_value (ex_status ex)) then [] else terminal_type (ex_status ex))"
    by (simp only: eqs terminal_number emissions_terminal)
qed (use assms in \<open>auto simp: diff_stream_events_def Let_def\<close>)

section \<open>The loop\<close>

definition timeline_at :: "uuid \<Rightarrow> poll \<Rightarrow> pydict list" where
  "timeline_at eid p = (case get_execution (po_repo p) eid of None \<Rightarrow> [] | Some ex \<Rightarrow> ex_timeline ex)"

lemma projected_timeline: "build_trace_projection eid r = Some tp \<Longrightarrow> get_execution r eid = Some ex \<Longrightarrow> tp_timeline tp = ex_timeline ex"
  by (auto simp: build_trace_projection_def Let_def split: option.splits)

lemma heartbeat_turn_result:
  assumes "heartbeat_turn heartbeat eid p batch st = (out, r)"
  obtains st' beat where "r = Inr st'" "ss_cursor st' = ss_cursor st" "ss_terminal_sent st' = ss_terminal_sent st"
    "out = batch @ beat" "\<forall>ev \<in> set beat. se_type ev = SE_HEARTBEAT"
proof (cases "heartbeat \<le> float_of (po_time p - ss_last_heartbeat st)")
  case True
  with assms show ?thesis
    using that[of "st\<lparr>ss_last_heartbeat := po_time p\<rparr>"
        "[bare_event eid SE_HEARTBEAT (po_extra_at p) (sc_sequence (ss_cursor st)) []]"]
    by (simp add: heartbeat_turn_def bare_event_def)
next
  case False
  with assms show ?thesis using that[of st "[]"] by (simp add: heartbeat_turn_def)
qed

text \<open>What a turn does when it does not give up.\<close>

lemma stream_turn_cases:
  assumes "stream_turn started heartbeat longest eid p st = (out, r)"
  obtains (gone) why where "out = []" "r = Inl why" "why \<in> {Timed_Out, Execution_Gone, Trace_Gone}"
    | (ended) ex tp batch c where "get_execution (po_repo p) eid = Some ex" "tp_timeline tp = timeline_at eid p"
        "diff_stream_events ex tp (po_batch_at p) (ss_cursor st) = (batch, c)" "terminal_type (ex_status ex) \<noteq> []"
        "r = Inl Terminal_Reached"
        "out = batch @ (if ss_terminal_sent st \<or> list_ex is_terminal_event batch then []
           else [terminal_envelope eid (po_extra_at p) (sc_sequence c) (execution_status_value (ex_status ex))])"
    | (goes_on) ex tp batch c st' beat where "get_execution (po_repo p) eid = Some ex" "tp_timeline tp = timeline_at eid p"
        "diff_stream_events ex tp (po_batch_at p) (ss_cursor st) = (batch, c)"
        "r = Inr st'" "ss_cursor st' = c" "ss_terminal_sent st' = (ss_terminal_sent st \<or> list_ex is_terminal_event batch)"
        "terminal_type (ex_status ex) = [] \<or> \<not> ss_terminal_sent st' \<and> batch \<noteq> []"
        "out = batch @ beat" "\<forall>ev \<in> set beat. se_type ev = SE_HEARTBEAT"
proof (cases "longest < float_of (po_time p - started) \<or> get_execution (po_repo p) eid = None
         \<or> build_trace_projection eid (po_repo p) = None")
  case True
  then show ?thesis using assms gone by (auto simp: stream_turn_def split: if_splits option.splits)
next
  case False
  then obtain ex tp where found: "get_execution (po_repo p) eid = Some ex" "build_trace_projection eid (po_repo p) = Some tp"
    by auto
  obtain batch c where diff: "diff_stream_events ex tp (po_batch_at p) (ss_cursor st) = (batch, c)" by fastforce
  have tl: "tp_timeline tp = timeline_at eid p"
    using projected_timeline[OF found(2,1)] found(1) by (simp add: timeline_at_def)
  let ?sent = "ss_terminal_sent st \<or> list_ex is_terminal_event batch"
  have turn: "stream_turn started heartbeat longest eid p st =
    (if terminal_type (ex_status ex) \<noteq> [] \<and> (?sent \<or> batch = []) then
       (batch @ (if ?sent then [] else [terminal_envelope eid (po_extra_at p) (sc_sequence c)
          (execution_status_value (ex_status ex))]), Inl Terminal_Reached)
     else heartbeat_turn heartbeat eid p batch (st\<lparr>ss_cursor := c, ss_terminal_sent := ?sent\<rparr>))"
    using False found diff by (simp add: stream_turn_def Let_def terminal_status_iff)
  show ?thesis
  proof (cases "terminal_type (ex_status ex) \<noteq> [] \<and> (?sent \<or> batch = [])")
    case True
    then have r: "r = Inl Terminal_Reached"
      "out = batch @ (if ?sent then [] else [terminal_envelope eid (po_extra_at p) (sc_sequence c)
          (execution_status_value (ex_status ex))])"
      using assms turn by simp_all
    show ?thesis by (rule ended[OF found(1) tl diff _ r]) (use True in simp)
  next
    case False
    then have turned: "heartbeat_turn heartbeat eid p batch (st\<lparr>ss_cursor := c, ss_terminal_sent := ?sent\<rparr>) = (out, r)"
      using assms by (simp only: turn if_not_P[OF False] if_False simp_thms)
    obtain st' beat where r: "r = Inr st'" "ss_cursor st' = c" "ss_terminal_sent st' = ?sent" "out = batch @ beat"
      "\<forall>ev \<in> set beat. se_type ev = SE_HEARTBEAT"
      by (rule heartbeat_turn_result[OF turned]) simp
    have "terminal_type (ex_status ex) = [] \<or> \<not> ss_terminal_sent st' \<and> batch \<noteq> []"
      using False unfolding r(3) by blast
    from goes_on[OF found(1) tl diff r(1-3) this r(4,5)] show ?thesis .
  qed
qed

lemma beats:
  assumes "\<forall>ev \<in> set beat. se_type ev = SE_HEARTBEAT"
  shows "trace_payloads beat = []" "sent_numbers beat = []" "filter is_terminal_event beat = []"
  using assms by (auto simp: trace_payloads_def sent_numbers_def is_terminal_event_def filter_empty_conv)

lemma envelope_facts:
  "trace_payloads [terminal_envelope eid ts n s] = []" "sent_numbers [terminal_envelope eid ts n s] = [Suc n]"
  by (simp_all add: terminal_envelope_def bare_event_def trace_payloads_def sent_numbers_def)

subsection \<open>Numbers\<close>

lemma upt_append: "a \<le> b \<Longrightarrow> b \<le> c \<Longrightarrow> [a..<b] @ [b..<c] = [a..<c]"
  by (metis le_add_diff_inverse upt_add_eq_append)

lemma turn_numbers:
  assumes "stream_turn started heartbeat longest eid p st = (out, r)"
  obtains m where "sc_sequence (ss_cursor st) \<le> m" "sent_numbers out = [Suc (sc_sequence (ss_cursor st))..<Suc m]"
    "\<And>st'. r = Inr st' \<Longrightarrow> sc_sequence (ss_cursor st') = m"
  using assms
proof (cases rule: stream_turn_cases)
  case (gone why)
  then show ?thesis using that[of "sc_sequence (ss_cursor st)"] by (simp add: sent_numbers_def)
next
  case (ended ex tp batch c)
  note d = diff_facts[OF ended(3)]
  show ?thesis
  proof (cases "ss_terminal_sent st \<or> list_ex is_terminal_event batch")
    case True
    then show ?thesis using that[of "sc_sequence c"] ended d by (simp del: upt_Suc)
  next
    case False
    then show ?thesis using that[of "Suc (sc_sequence c)"] ended d by (auto simp: envelope_facts)
  qed
next
  case (goes_on ex tp batch c st' beat)
  then show ?thesis using that[of "sc_sequence c"] diff_facts[OF goes_on(3)] by (simp add: beats del: upt_Suc)
qed

lemma loop_numbers:
  "stream_loop started heartbeat longest eid polls st = (evs, why) \<Longrightarrow>
     \<exists>m \<ge> sc_sequence (ss_cursor st). sent_numbers evs = [Suc (sc_sequence (ss_cursor st))..<Suc m]"
proof (induction polls arbitrary: st evs)
  case Nil
  then show ?case by (intro exI[of _ "sc_sequence (ss_cursor st)"]) (simp add: sent_numbers_def)
next
  case (Cons p ps)
  obtain out r where turn: "stream_turn started heartbeat longest eid p st = (out, r)" by fastforce
  obtain m where m: "sc_sequence (ss_cursor st) \<le> m" "sent_numbers out = [Suc (sc_sequence (ss_cursor st))..<Suc m]"
    "\<And>st'. r = Inr st' \<Longrightarrow> sc_sequence (ss_cursor st') = m"
    using turn_numbers[OF turn] by blast
  show ?case
  proof (cases r)
    case (Inl x)
    then show ?thesis using Cons.prems turn m by (auto simp del: upt_Suc)
  next
    case (Inr st')
    obtain later where later: "stream_loop started heartbeat longest eid ps st' = (later, why)" "evs = out @ later"
      using Cons.prems turn Inr by (auto split: prod.splits)
    from Cons.IH[OF later(1)] m(3)[OF Inr] obtain k where "m \<le> k" "sent_numbers later = [Suc m..<Suc k]"
      by auto
    then show ?thesis using m(1,2) later(2) upt_append[of "Suc (sc_sequence (ss_cursor st))" "Suc m" "Suc k"]
      by (intro exI[of _ k]) (simp del: upt_Suc)
  qed
qed

subsection \<open>Rows\<close>

text \<open>The timeline sent so far, and what a loop over growing timelines adds to it.\<close>

lemma prefix_drop: "prefix T T' \<Longrightarrow> prefix T' T'' \<Longrightarrow> drop (length T) T' @ drop (length T') T'' = drop (length T) T''"
  by (auto simp: prefix_def)

lemma prefix_last_take:
  assumes "sorted_wrt prefix (T # Ts)"
  shows "prefix T (last (T # take k Ts))"
proof -
  have "last (T # take k Ts) \<in> set (T # take k Ts)" by (rule last_in_set) simp
  then have "last (T # take k Ts) \<in> set (T # Ts)" by (auto dest: in_set_takeD)
  then show ?thesis using assms by auto
qed

lemma turn_rows:
  assumes "stream_turn started heartbeat longest eid p st = (out, r)" "sc_timeline_len (ss_cursor st) = length T"
  shows "trace_payloads out = [] \<and> (\<exists>why. r = Inl why \<and> why \<noteq> Still_Open \<and> why \<noteq> Terminal_Reached)
    \<or> trace_payloads out = map bounded_trace_payload (drop (length T) (timeline_at eid p))
      \<and> (r = Inl Terminal_Reached \<or> (\<exists>st'. r = Inr st' \<and> sc_timeline_len (ss_cursor st') = length (timeline_at eid p)))"
  using assms(1)
proof (cases rule: stream_turn_cases)
  case (gone why)
  then show ?thesis by (auto simp: trace_payloads_def)
next
  case (ended ex tp batch c)
  then show ?thesis using diff_facts(1)[OF ended(3)] assms(2) by (simp add: envelope_facts trace_payloads_def[of "[]"])
next
  case (goes_on ex tp batch c st' beat)
  then show ?thesis using diff_facts(1,5)[OF goes_on(3)] assms(2) by (simp add: beats)
qed

lemma loop_rows:
  assumes "stream_loop started heartbeat longest eid polls st = (evs, why)"
    and "sorted_wrt prefix (T # map (timeline_at eid) polls)" "sc_timeline_len (ss_cursor st) = length T"
  shows "\<exists>k \<le> length polls. trace_payloads evs =
      map bounded_trace_payload (drop (length T) (last (T # take k (map (timeline_at eid) polls)))) \<and>
    (why = Still_Open \<longrightarrow> k = length polls)"
  using assms
proof (induction polls arbitrary: st T evs)
  case Nil
  then show ?case by (simp add: trace_payloads_def)
next
  case (Cons p ps)
  let ?T = "timeline_at eid p"
  obtain out r where turn: "stream_turn started heartbeat longest eid p st = (out, r)" by fastforce
  from turn_rows[OF turn Cons.prems(3)] consider
      (stops) why' where "r = Inl why'" "why' \<noteq> Still_Open" "trace_payloads out = []"
    | (ends) "r = Inl Terminal_Reached" "trace_payloads out = map bounded_trace_payload (drop (length T) ?T)"
    | (on) st' where "r = Inr st'" "sc_timeline_len (ss_cursor st') = length ?T"
        "trace_payloads out = map bounded_trace_payload (drop (length T) ?T)"
    by auto
  then show ?case
  proof cases
    case stops
    then show ?thesis using Cons.prems(1) turn by (intro exI[of _ 0]) auto
  next
    case ends
    then show ?thesis using Cons.prems(1) turn by (intro exI[of _ 1]) auto
  next
    case on
    obtain later where later: "stream_loop started heartbeat longest eid ps st' = (later, why)" "evs = out @ later"
      using Cons.prems(1) turn on(1) by (auto split: prod.splits)
    have grows: "sorted_wrt prefix (?T # map (timeline_at eid) ps)" "prefix T ?T" using Cons.prems(2) by simp_all
    from Cons.IH[OF later(1) grows(1) on(2)] obtain k where k: "k \<le> length ps" "why = Still_Open \<longrightarrow> k = length ps"
      "trace_payloads later = map bounded_trace_payload (drop (length ?T) (last (?T # take k (map (timeline_at eid) ps))))"
      by blast
    have "prefix ?T (last (?T # take k (map (timeline_at eid) ps)))"
      by (rule prefix_last_take[OF grows(1)])
    then show ?thesis
      using k later(2) on(3) prefix_drop[OF grows(2)] by (intro exI[of _ "Suc k"]) (simp flip: map_append)
  qed
qed

subsection \<open>The terminal event\<close>

lemma status_value_inj: "execution_status_value s = execution_status_value s' \<longleftrightarrow> s = s'"
  by (cases s; cases s') simp_all

text \<open>While the loop goes on no terminal event has been sent and the last status seen is not terminal.\<close>

definition unfinished :: "stream_state \<Rightarrow> bool" where
  "unfinished st \<longleftrightarrow> \<not> ss_terminal_sent st \<and>
     (\<forall>s. sc_status (ss_cursor st) = Some (execution_status_value s) \<longrightarrow> terminal_type s = [])"

definition ended_at :: "uuid \<Rightarrow> poll \<Rightarrow> bool" where
  "ended_at eid p = (case get_execution (po_repo p) eid of None \<Rightarrow> False
     | Some ex \<Rightarrow> is_terminal_execution_status (execution_status_value (ex_status ex)))"

text \<open>A poll within the time limit that finds the execution with its context.\<close>

definition observes :: "rat \<Rightarrow> rat \<Rightarrow> uuid \<Rightarrow> poll \<Rightarrow> bool" where
  "observes started longest eid p \<longleftrightarrow>
     float_of (po_time p - started) \<le> longest \<and> build_trace_projection eid (po_repo p) \<noteq> None"

lemma turn_observed:
  assumes "observes started longest eid p" "stream_turn started heartbeat longest eid p st = (out, r)"
  shows "r = Inl Terminal_Reached \<or> (\<exists>st'. r = Inr st')"
proof -
  obtain ex where "get_execution (po_repo p) eid = Some ex"
    using assms(1) by (auto simp: observes_def build_trace_projection_def split: option.splits)
  then show ?thesis
    using assms unfolding observes_def stream_turn_def heartbeat_turn_def
    by (auto simp: Let_def split: if_splits prod.splits)
qed

lemma turn_terminal:
  assumes "stream_turn started heartbeat longest eid p st = (out, r)" "unfinished st"
  shows "r = Inl Terminal_Reached \<and> ended_at eid p \<and> length (filter is_terminal_event out) = 1
    \<or> filter is_terminal_event out = [] \<and> r \<noteq> Inl Terminal_Reached
      \<and> (\<forall>st'. r = Inr st' \<longrightarrow> unfinished st' \<and> \<not> ended_at eid p)"
  using assms(1)
proof (cases rule: stream_turn_cases)
  case (gone why)
  then show ?thesis by auto
next
  case (ended ex tp batch c)
  have "map se_type (filter is_terminal_event batch) = terminal_type (ex_status ex)"
    using diff_facts(3)[OF ended(3)] assms(2) ended(4) by (auto simp: unfinished_def)
  then have "length (filter is_terminal_event batch) = 1"
    using ended(4) length_terminal_type[of "ex_status ex"] by (metis length_map le_antisym length_0_conv less_one not_le)
  moreover have "list_ex is_terminal_event batch"
    using calculation by (metis One_nat_def filter_False length_0_conv list_ex_iff nat.distinct(1))
  moreover have "batch \<noteq> []" using calculation(1) by auto
  moreover have "ended_at eid p" using ended(1,4) by (simp add: ended_at_def terminal_status_iff)
  ultimately show ?thesis using ended by simp
next
  case (goes_on ex tp batch c st' beat)
  note d = diff_facts[OF goes_on(3)]
  have types: "map se_type (filter is_terminal_event batch) = terminal_type (ex_status ex)"
    using d(3) assms(2) by (auto simp: unfinished_def)
  have none: "terminal_type (ex_status ex) = []"
  proof (rule ccontr)
    assume t: "terminal_type (ex_status ex) \<noteq> []"
    then have "filter is_terminal_event batch \<noteq> []" using types by auto
    then have "list_ex is_terminal_event batch" by (auto simp: list_ex_iff filter_empty_conv)
    then show False using goes_on(6,7) t by simp
  qed
  then have "filter is_terminal_event batch = []" using types by simp
  moreover from this have "\<not> list_ex is_terminal_event batch" by (auto simp: list_ex_iff filter_empty_conv)
  moreover have "unfinished st'"
    using calculation(2) none goes_on(5,6) d(4) assms(2) by (simp add: unfinished_def status_value_inj)
  moreover have "\<not> ended_at eid p" using goes_on(1) none by (simp add: ended_at_def terminal_status_iff)
  ultimately show ?thesis using goes_on beats by simp
qed

lemma loop_terminal:
  "stream_loop started heartbeat longest eid polls st = (evs, why) \<Longrightarrow> unfinished st \<Longrightarrow>
     length (filter is_terminal_event evs) = (if why = Terminal_Reached then 1 else 0)"
proof (induction polls arbitrary: st evs)
  case (Cons p ps)
  obtain out r where turn: "stream_turn started heartbeat longest eid p st = (out, r)" by fastforce
  show ?case
    using Cons turn turn_terminal[OF turn Cons.prems(2)] by (cases r) (auto split: prod.splits)
qed simp

lemma loop_ends:
  assumes "stream_loop started heartbeat longest eid polls st = (evs, why)" "unfinished st"
    and "\<forall>p \<in> set polls. observes started longest eid p"
  shows "why = (if list_ex (ended_at eid) polls then Terminal_Reached else Still_Open)"
  using assms
proof (induction polls arbitrary: st evs)
  case (Cons p ps)
  obtain out r where turn: "stream_turn started heartbeat longest eid p st = (out, r)" by fastforce
  have seen: "observes started longest eid p" using Cons.prems(3) by simp
  from turn_observed[OF seen turn] show ?case
  proof
    assume "r = Inl Terminal_Reached"
    then show ?thesis using Cons.prems(1) turn turn_terminal[OF turn Cons.prems(2)] by simp
  next
    assume "\<exists>st'. r = Inr st'"
    then obtain st' where r: "r = Inr st'" by blast
    then have "unfinished st'" "\<not> ended_at eid p" using turn_terminal[OF turn Cons.prems(2)] by auto
    moreover obtain later where "stream_loop started heartbeat longest eid ps st' = (later, why)"
      using Cons.prems(1) turn r by (auto split: prod.splits)
    ultimately show ?thesis using Cons.IH Cons.prems(3) by simp
  qed
qed simp

lemma unfinished_new: "unfinished \<lparr>ss_cursor = new_cursor, ss_last_heartbeat = t, ss_terminal_sent = False\<rparr>"
  by (simp add: unfinished_def new_cursor_def)

subsection \<open>Counters\<close>

definition counter :: "string \<Rightarrow> (string \<times> string) list \<Rightarrow> env \<Rightarrow> rat" where
  "counter nm ls e = ddict_get (mx_counters (env_metrics e)) (nm, label_key ls)"

definition counts :: "(env, 'a) prog \<Rightarrow> 'a \<Rightarrow> (string \<Rightarrow> (string \<times> string) list \<Rightarrow> rat) \<Rightarrow> bool" where
  "counts m x d \<longleftrightarrow> (\<forall>e. \<exists>e'. m e = (Inr x, e') \<and> (\<forall>nm ls. counter nm ls e' = counter nm ls e + d nm ls))"

lemma counts_ret: "counts (ret x) x (\<lambda>_ _. 0)"
  by (simp add: counts_def ret_def)

lemma counts_bnd: "counts m x d \<Longrightarrow> counts (f x) y d' \<Longrightarrow> counts (bnd m f) y (\<lambda>nm ls. d nm ls + d' nm ls)"
  unfolding counts_def
proof
  fix e
  assume "\<forall>e. \<exists>e'. m e = (Inr x, e') \<and> (\<forall>nm ls. counter nm ls e' = counter nm ls e + d nm ls)"
  then obtain e1 where "m e = (Inr x, e1)" "\<forall>nm ls. counter nm ls e1 = counter nm ls e + d nm ls" by blast
  moreover assume "\<forall>e. \<exists>e'. f x e = (Inr y, e') \<and> (\<forall>nm ls. counter nm ls e' = counter nm ls e + d' nm ls)"
  then obtain e2 where "f x e1 = (Inr y, e2)" "\<forall>nm ls. counter nm ls e2 = counter nm ls e1 + d' nm ls" by blast
  ultimately show "\<exists>e'. bnd m f e = (Inr y, e') \<and> (\<forall>nm ls. counter nm ls e' = counter nm ls e + (d nm ls + d' nm ls))"
    by (simp add: bnd_def)
qed

lemma counts_andthen: "counts m () d \<Longrightarrow> counts n y d' \<Longrightarrow> counts (andthen m n) y (\<lambda>nm ls. d nm ls + d' nm ls)"
  unfolding andthen_def by (rule counts_bnd)

lemma counts_cong: "counts m x d \<Longrightarrow> (\<And>nm ls. d nm ls = d' nm ls) \<Longrightarrow> counts m x d'"
  by (simp add: counts_def)

lemma counts_inc:
  "counts (inc_metric nm ls) () (\<lambda>nm' ls'. if nm = nm' \<and> label_key ls = label_key ls' then 1 else 0)"
  by (simp add: counts_def counter_def inc_metric_def modifies_def metrics_inc_def ddict_get_add)

lemma counts_log: "counts (stream_event_log ty eid kvs) () (\<lambda>_ _. 0)"
  by (simp add: counts_def stream_event_log_def emit_event_def utc_now_def bnd_def modifies_def counter_def)

definition events_total :: "stream_event list \<Rightarrow> string \<Rightarrow> (string \<times> string) list \<Rightarrow> rat" where
  "events_total evs nm ls = of_nat (length (filter (\<lambda>ev. se_type ev \<noteq> SE_HEARTBEAT \<and> nm = ''execution_stream_events_total'' \<and>
     label_key ls = [(''event_type'', stream_event_type_value (se_type ev))]) evs))"

lemma events_total_append: "events_total (xs @ ys) nm ls = events_total xs nm ls + events_total ys nm ls"
  by (simp add: events_total_def)

lemma counts_events: "\<forall>ev \<in> set evs. se_type ev \<noteq> SE_HEARTBEAT \<Longrightarrow> counts (count_events evs) () (events_total evs)"
proof (induction evs)
  case Nil
  then show ?case using counts_ret by (auto simp: events_total_def elim: counts_cong)
next
  case (Cons ev evs)
  then have "counts (count_events evs) () (events_total evs)" by simp
  note one = counts_andthen[OF counts_inc this]
  show ?case unfolding count_events.simps
    by (rule counts_cong, rule one) (use Cons.prems in \<open>simp add: events_total_def label_key_def\<close>)
qed

lemma number_events_types: "ev \<in> set (number_events eid ts n ems) \<Longrightarrow> \<exists>em \<in> set ems. se_type ev = fst em"
proof (induction ems arbitrary: n)
  case (Cons em ems)
  then show ?case by (cases em) fastforce
qed simp

text \<open>The difference of a turn is what the turn sends, heartbeats apart: no envelope is ever added.\<close>

lemma turn_batch_sent:
  assumes "stream_turn started heartbeat longest eid p st = (out, r)" "unfinished st"
  shows "(\<forall>ev \<in> set (turn_batch started longest eid p st). se_type ev \<noteq> SE_HEARTBEAT) \<and>
    events_total (turn_batch started longest eid p st) = events_total out"
proof (cases "longest < float_of (po_time p - started) \<or> get_execution (po_repo p) eid = None
         \<or> build_trace_projection eid (po_repo p) = None")
  case True
  then have "out = []" "turn_batch started longest eid p st = []"
    using assms(1) by (auto simp: stream_turn_def turn_batch_def split: if_splits option.splits)
  then show ?thesis by simp
next
  case False
  then obtain ex tp where found: "get_execution (po_repo p) eid = Some ex" "build_trace_projection eid (po_repo p) = Some tp"
    by auto
  obtain batch c where diff: "diff_stream_events ex tp (po_batch_at p) (ss_cursor st) = (batch, c)" by fastforce
  have same: "turn_batch started longest eid p st = batch"
    using False found diff by (simp add: turn_batch_def)
  have "batch = number_events (ex_id ex) (po_batch_at p) (sc_sequence (ss_cursor st)) (emissions ex tp (ss_cursor st))"
    using diff by (auto simp: diff_stream_events_def Let_def)
  then have live: "\<forall>ev \<in> set batch. se_type ev \<noteq> SE_HEARTBEAT"
    using number_events_types[of _ "ex_id ex" "po_batch_at p" "sc_sequence (ss_cursor st)"] emissions_no_heartbeat by metis
  have "map se_type (filter is_terminal_event batch) = terminal_type (ex_status ex)"
    using diff_facts(3)[OF diff] assms(2) by (auto simp: unfinished_def)
  then have "filter is_terminal_event batch = [] \<longleftrightarrow> terminal_type (ex_status ex) = []"
    by (metis map_is_Nil_conv)
  then have told: "terminal_type (ex_status ex) \<noteq> [] \<longleftrightarrow> list_ex is_terminal_event batch"
    by (auto simp: list_ex_iff filter_empty_conv)
  obtain beat where "out = batch @ beat" "\<forall>ev \<in> set beat. se_type ev = SE_HEARTBEAT"
  proof (cases "terminal_type (ex_status ex) \<noteq> []")
    case True
    then have "out = batch @ []"
      using False found diff told assms(1) by (simp add: stream_turn_def Let_def terminal_status_iff)
    then show ?thesis by (rule that) simp
  next
    case no: False
    let ?st = "st\<lparr>ss_cursor := c, ss_terminal_sent := ss_terminal_sent st \<or> list_ex is_terminal_event batch\<rparr>"
    have "heartbeat_turn heartbeat eid p batch ?st = (out, r)"
      using False found diff no assms(1) by (simp add: stream_turn_def Let_def terminal_status_iff)
    then show ?thesis by (rule heartbeat_turn_result) (rule that)
  qed
  then show ?thesis using same live by (auto simp: events_total_def fun_eq_iff filter_empty_conv)
qed

lemma counts_loop:
  assumes "unfinished st"
  shows "counts (observed_loop started heartbeat longest eid polls st) (stream_loop started heartbeat longest eid polls st)
    (events_total (fst (stream_loop started heartbeat longest eid polls st)))"
  using assms
proof (induction polls arbitrary: st)
  case Nil
  then show ?case using counts_ret by (auto simp: events_total_def elim: counts_cong)
next
  case (Cons p ps)
  obtain out r where turn: "stream_turn started heartbeat longest eid p st = (out, r)" by fastforce
  have batch: "counts (count_events (turn_batch started longest eid p st)) () (events_total out)"
    using turn_batch_sent[OF turn Cons.prems] counts_events by metis
  show ?case
  proof (cases r)
    case (Inl why)
    then show ?thesis using counts_andthen[OF batch counts_ret[of "(out, why)"]] turn by simp
  next
    case (Inr st')
    then have "unfinished st'" using turn_terminal[OF turn Cons.prems] by auto
    from Cons.IH[OF this] obtain later why where rest: "stream_loop started heartbeat longest eid ps st' = (later, why)"
      "counts (observed_loop started heartbeat longest eid ps st') (later, why) (events_total later)"
      by (metis fst_conv surj_pair)
    have "counts (bnd (observed_loop started heartbeat longest eid ps st') (\<lambda>(later, why). ret (out @ later, why)))
        (out @ later, why) (\<lambda>nm ls. events_total later nm ls + 0)"
      by (rule counts_bnd[OF rest(2)]) (simp add: counts_ret)
    from counts_andthen[OF batch this] show ?thesis
      using turn Inr rest(1) by (auto simp: events_total_append elim: counts_cong)
  qed
qed

lemma counts_left: "counts (stream_left eid why) () (\<lambda>_ _. 0)"
  by (cases why) (simp_all add: stream_left_def counts_ret counts_log)

section \<open>Properties\<close>

lemma type_value_inj: "stream_event_type_value a = stream_event_type_value b \<longleftrightarrow> a = b"
  by (cases a; cases b) simp_all


text \<open>C32. The events a stream sends, heartbeats apart, carry the sequence numbers one, two, three and so on
  without a gap or a repetition, however its polls go.\<close>

theorem stream_numbers:
  "sent_numbers (fst (stream_events st eid started polls)) =
     [1..<Suc (length (sent_numbers (fst (stream_events st eid started polls))))]"
proof -
  obtain evs why where loop: "stream_events st eid started polls = (evs, why)" by fastforce
  then obtain m where "sent_numbers evs = [1..<Suc m]"
    using loop_numbers unfolding stream_events_def by (fastforce simp: new_cursor_def simp del: upt_Suc)
  then show ?thesis using loop by (simp del: upt_Suc)
qed


text \<open>C34. A stream whose polls stay within the time limit and find the execution ends exactly when a poll
  finds a terminal status; it has then sent exactly one terminal event, and none before that.\<close>

theorem stream_terminal:
  assumes "\<forall>p \<in> set polls. observes started (max 30 (of_int (gs_max_duration_sec st))) eid p"
    and "stream_events st eid started polls = (evs, why)"
  shows "why = (if list_ex (ended_at eid) polls then Terminal_Reached else Still_Open) \<and>
    length (filter is_terminal_event evs) = (if list_ex (ended_at eid) polls then 1 else 0)"
  using loop_ends[OF assms(2)[unfolded stream_events_def] unfinished_new assms(1)]
    loop_terminal[OF assms(2)[unfolded stream_events_def] unfinished_new] by simp

text \<open>A stream over two polls: the execution starts with one row, then completes with two.\<close>

definition stream_poll :: "rat \<Rightarrow> execution_status \<Rightarrow> string list \<Rightarrow> poll" where
  "stream_poll t s rows =
     \<lparr>po_time = t,
      po_repo = save_execution (new_execution sample_args 1 0 0
          \<lparr>ex_status := s, ex_timeline := map (\<lambda>r. [(''event_type'', PStr r)]) rows\<rparr>)
        (save_context (new_context sample_args 0 0) empty_repo),
      po_batch_at = 0, po_extra_at = 0\<rparr>"

definition stream_polls :: "poll list" where
  "stream_polls = [stream_poll 0 ES_EXECUTING [''step_started''], stream_poll 1 ES_COMPLETED [''step_started'', ''execution_completed'']]"

lemma stream_poll_facts:
  "timeline_at 1 (stream_poll t s rows) = map (\<lambda>r. [(''event_type'', PStr r)]) rows"
  "ended_at 1 (stream_poll t s rows) = (terminal_type s \<noteq> [])"
  "build_trace_projection 1 (po_repo (stream_poll t s rows)) \<noteq> None" "po_time (stream_poll t s rows) = t"
  by (simp_all add: timeline_at_def ended_at_def stream_poll_def get_execution_def save_execution_def new_execution_def
      save_context_def new_context_def empty_repo_def build_trace_projection_def get_context_def terminal_status_iff Let_def)


lemma float_of_small: "float_of 0 \<le> 1" "float_of 1 \<le> 1"
  using to_float_unit[of 0] to_float_unit[of 1] by (simp_all add: float_of_def)

lemma observes_sample: "t \<in> {0, 1} \<Longrightarrow> observes 0 (max 30 (of_int (gs_max_duration_sec default_gateway_settings))) 1 (stream_poll t s rows)"
  using float_of_small by (auto simp: observes_def stream_poll_facts default_gateway_settings_def simp del: One_nat_def)

theorem stream_terminal_witness:
  "snd (stream_events default_gateway_settings 1 0 stream_polls) = Terminal_Reached \<and>
   length (filter is_terminal_event (fst (stream_events default_gateway_settings 1 0 stream_polls))) = 1"
  using stream_terminal[of stream_polls 0 default_gateway_settings 1
      "fst (stream_events default_gateway_settings 1 0 stream_polls)"
      "snd (stream_events default_gateway_settings 1 0 stream_polls)"]
  by (simp add: stream_polls_def stream_poll_facts observes_sample terminal_type_def del: One_nat_def)

end
