(* ===== verification/Gateway_Properties.thy ===== *)
theory Gateway_Properties
  imports Streaming_Properties Run_Outcome
begin

text \<open>
  The gateway's promises: no per-execution request of another tenant or of a missing role is served or
  changes anything, an execution created through the gateway belongs to the authenticated tenant, and a
  create request repeated with its idempotency key returns the execution of the first.
\<close>

section \<open>Per-execution requests\<close>

text \<open>The eight routes under \<open>/executions/{execution_id}\<close>, and the roles each asks for.\<close>

datatype execution_request =
    Get_Execution | Cancel_Execution | Get_Trace | Post_Approval approval_body | Post_Replay replay_body
  | Post_Feedback feedback_body | Get_Metrics | Open_Stream

datatype execution_reply =
    Detail execution_detail | Trace trace_projection | Approved approval_response | Replayed replay_response
  | Feedback_Stored feedback_response | Metrics execution_metrics | Stream_Opened request_context

definition replying :: "('a \<Rightarrow> 'b) \<Rightarrow> ('s, 'a) endpoint \<Rightarrow> ('s, 'b) endpoint" where
  "replying f m = and_next m (\<lambda>x. answer (f x))"

fun serve :: "gateway_settings \<Rightarrow> engine \<Rightarrow> headers \<Rightarrow> uuid \<Rightarrow> execution_request \<Rightarrow> (gateway, execution_reply) endpoint" where
  "serve st eng hs eid Get_Execution = replying Detail (get_execution_route st hs eid)"
| "serve st eng hs eid Cancel_Execution = replying Detail (cancel_route st hs eid)"
| "serve st eng hs eid Get_Trace = replying Trace (trace_route st hs eid)"
| "serve st eng hs eid (Post_Approval b) = replying Approved (approval_route st hs eid b)"
| "serve st eng hs eid (Post_Replay b) = replying Replayed (replay_route st eng hs eid b)"
| "serve st eng hs eid (Post_Feedback b) = replying Feedback_Stored (feedback_route st hs eid b)"
| "serve st eng hs eid Get_Metrics = replying Metrics (execution_metrics_route st hs eid)"
| "serve st eng hs eid Open_Stream = replying Stream_Opened (stream_route st hs eid)"

fun roles_for :: "execution_request \<Rightarrow> role list" where
  "roles_for Get_Execution = [R_VIEWER, R_OPERATOR, R_APPROVER, R_ADMIN]"
| "roles_for Get_Trace = [R_VIEWER, R_OPERATOR, R_APPROVER, R_ADMIN]"
| "roles_for Get_Metrics = [R_VIEWER, R_OPERATOR, R_APPROVER, R_ADMIN]"
| "roles_for Open_Stream = [R_VIEWER, R_OPERATOR, R_APPROVER, R_ADMIN]"
| "roles_for (Post_Approval b) = [R_APPROVER, R_ADMIN]"
| "roles_for _ = [R_OPERATOR, R_ADMIN]"

definition execution_tenant :: "repo \<Rightarrow> uuid \<Rightarrow> string option" where
  "execution_tenant r eid =
     (case get_execution r eid of None \<Rightarrow> None
      | Some ex \<Rightarrow> map_option ctx_tenant_id (get_context r (ex_context_id ex)))"

definition permitted :: "gateway_settings \<Rightarrow> headers \<Rightarrow> uuid \<Rightarrow> execution_request \<Rightarrow> gateway \<Rightarrow> bool" where
  "permitted st hs eid rq g \<longleftrightarrow>
     (case fst (resolve_request_context hs st (gw_world g)) of
        Reply auth \<Rightarrow> has_any_role auth (roles_for rq)
          \<and> execution_tenant (w_repo (gw_world g)) eid = Some (rc_tenant_id auth)
      | _ \<Rightarrow> False)"

text \<open>A request that is refused: no reply, and only identifiers for error envelopes are drawn.\<close>

definition drew_ids :: "world \<Rightarrow> world \<Rightarrow> bool" where
  "drew_ids w w' \<longleftrightarrow> (\<exists>n \<ge> env_uuid_ix (w_env w). w' = w\<lparr>w_env := (w_env w)\<lparr>env_uuid_ix := n\<rparr>\<rparr>)"

definition refuses :: "('s \<Rightarrow> 's \<Rightarrow> bool) \<Rightarrow> ('s, 'a) endpoint \<Rightarrow> 's \<Rightarrow> bool" where
  "refuses same m s \<longleftrightarrow> (case m s of
      (Reply x, t) \<Rightarrow> False
    | (Http_Error e, t) \<Rightarrow> he_status e \<in> {401, 403, 404} \<and> same s t
    | (Unhandled e, t) \<Rightarrow> exn_class e = PydanticValidationError \<and> same s t)"

definition gateway_drew :: "gateway \<Rightarrow> gateway \<Rightarrow> bool" where
  "gateway_drew g g' \<longleftrightarrow> drew_ids (gw_world g) (gw_world g') \<and> g' = g\<lparr>gw_world := gw_world g'\<rparr>"

lemma drew_ids_refl: "drew_ids w w"
  by (auto simp: drew_ids_def intro: exI[of _ "env_uuid_ix (w_env w)"])

lemma drew_ids_one: "drew_ids w (w\<lparr>w_env := (w_env w)\<lparr>env_uuid_ix := Suc (env_uuid_ix (w_env w))\<rparr>\<rparr>)"
  unfolding drew_ids_def by (rule exI[of _ "Suc (env_uuid_ix (w_env w))"]) simp

lemma refuses_and_next: "refuses same m s \<Longrightarrow> refuses same (and_next m f) s"
  by (auto simp: refuses_def and_next_def split: prod.splits reply.splits)

lemma refuses_after:
  "m s = (Reply x, s) \<Longrightarrow> refuses same (f x) s \<Longrightarrow> refuses same (and_next m f) s"
  by (simp add: refuses_def and_next_def)

lemma refuses_at_world: "refuses drew_ids m (gw_world g) \<Longrightarrow> refuses gateway_drew (at_world m) g"
  by (auto simp: refuses_def at_world_def gateway_drew_def split: prod.splits reply.splits)

lemma api_error_refuses: "status \<in> {401, 403, 404} \<Longrightarrow> refuses drew_ids (api_error request code msg status) w"
  by (auto simp: refuses_def api_error_def and_next_def calling_def in_env_def error_request_id_def bnd_def uuid4_def
      ret_def drew_ids_refl drew_ids_one split: option.splits)

lemma checked_context_cases:
  "checked_context c w = (Reply c, w) \<or> checked_context c w = (Unhandled (Exn PydanticValidationError ''RequestContext''), w)"
  by (simp add: checked_context_def answer_def unhandled_def)

text \<open>The identity of a caller is found without touching the world, or the request is refused.\<close>

lemma resolve_cases:
  "(\<exists>auth. resolve_request_context hs st w = (Reply auth, w)) \<or> refuses drew_ids (resolve_request_context hs st) w"
proof -
  have checked: "(\<exists>auth. checked_context c w = (Reply auth, w)) \<or> refuses drew_ids (checked_context c) w" for c
    using checked_context_cases[of c w] by (auto simp: refuses_def drew_ids_refl)
  show ?thesis
    unfolding resolve_request_context_def Let_def
    by (auto split: option.splits intro: api_error_refuses simp: checked)
qed

lemma require_any_role_cases:
  assumes "resolve_request_context hs st w = (Reply auth, w)"
  shows "require_any_role rs hs st w = (Reply auth, w) \<and> has_any_role auth rs
    \<or> refuses drew_ids (require_any_role rs hs st) w \<and> \<not> has_any_role auth rs"
proof (cases "has_any_role auth rs")
  case True
  then show ?thesis using assms by (simp add: require_any_role_def and_next_def answer_def)
next
  case False
  have "refuses drew_ids (require_any_role rs hs st) w"
    unfolding require_any_role_def
    by (rule refuses_after[where x = auth and m = "resolve_request_context hs st"]) (simp_all add: assms False api_error_refuses)
  then show ?thesis using False by simp
qed

lemma refuses_cong: "m s = n s \<Longrightarrow> refuses same n s \<Longrightarrow> refuses same m s"
  by (simp add: refuses_def)

lemma assert_visible_refuses:
  assumes "execution_tenant (w_repo w) eid \<noteq> Some (rc_tenant_id auth)"
  shows "refuses drew_ids (assert_execution_visible request eid auth) w"
proof (cases "get_execution (w_repo w) eid")
  case None
  then show ?thesis
    by (intro refuses_cong[OF _ api_error_refuses[of 404]]) (simp_all add: assert_execution_visible_def)
next
  case (Some ex)
  then have "assert_execution_visible request eid auth w =
    api_error request ''FORBIDDEN'' ''execution not visible for tenant'' 403 w"
    using assms by (simp add: assert_execution_visible_def execution_tenant_def split: option.split)
  then show ?thesis by (rule refuses_cong) (simp add: api_error_refuses)
qed

lemma visible_refuses:
  assumes "case fst (resolve_request_context hs st (gw_world g)) of
      Reply auth \<Rightarrow> \<not> (has_any_role auth rs \<and> execution_tenant (w_repo (gw_world g)) eid = Some (rc_tenant_id auth))
    | _ \<Rightarrow> True"
  shows "refuses gateway_drew (visible_to (require_any_role rs) st hs eid) g"
proof (cases "\<exists>auth. resolve_request_context hs st (gw_world g) = (Reply auth, gw_world g)")
  case True
  then obtain auth where auth: "resolve_request_context hs st (gw_world g) = (Reply auth, gw_world g)" by blast
  from require_any_role_cases[OF auth, of rs] show ?thesis
  proof
    assume a: "require_any_role rs hs st (gw_world g) = (Reply auth, gw_world g) \<and> has_any_role auth rs"
    then have "execution_tenant (w_repo (gw_world g)) eid \<noteq> Some (rc_tenant_id auth)" using assms auth by simp
    note foreign = refuses_at_world[OF assert_visible_refuses[OF this]]
    show ?thesis unfolding visible_to_def
      by (rule refuses_after[where x = auth]) (use a in \<open>simp add: at_world_def\<close>, rule refuses_and_next[OF foreign])
  next
    assume "refuses drew_ids (require_any_role rs hs st) (gw_world g) \<and> \<not> has_any_role auth rs"
    then show ?thesis unfolding visible_to_def by (intro refuses_and_next refuses_at_world) simp
  qed
next
  case False
  then have "refuses drew_ids (resolve_request_context hs st) (gw_world g)" using resolve_cases by blast
  then show ?thesis unfolding visible_to_def require_any_role_def by (intro refuses_and_next refuses_at_world)
qed

lemmas role_checks = executions_read_def executions_write_def approvals_write_def
lemmas execution_routes = get_execution_route_def cancel_route_def trace_route_def approval_route_def replay_route_def
  feedback_route_def execution_metrics_route_def stream_route_def

text \<open>C29. A request on an execution is served only to a caller of the execution's tenant with one of the
  route's roles; any other is refused with status 401, 403 or 404 (or its context is malformed), and
  changes nothing but the supply of identifiers for error envelopes.\<close>

theorem foreign_request_refused:
  assumes "\<not> permitted st hs eid rq g"
  shows "refuses gateway_drew (serve st eng hs eid rq) g"
proof -
  have "refuses gateway_drew (visible_to (require_any_role (roles_for rq)) st hs eid) g"
    by (rule visible_refuses) (use assms in \<open>simp add: permitted_def split: reply.splits\<close>)
  then show ?thesis
    by (cases rq) (auto simp: replying_def execution_routes role_checks intro!: refuses_and_next)
qed

text \<open>A caller of another tenant asks for the stored execution.\<close>

definition sample_gateway :: gateway where
  "sample_gateway = \<lparr>gw_world = sample_world, gw_feedback = empty_feedback, gw_idempotency = [], gw_background = []\<rparr>"

definition sample_headers :: "string \<Rightarrow> headers" where
  "sample_headers tenant = [(''x-principal-id'', ''ann''), (''x-tenant-id'', tenant), (''x-roles'', ''operator'')]"

lemma sample_caller:
  "resolve_request_context (sample_headers tenant) st w =
     checked_context (request_context_of ''ann'' [R_OPERATOR] (strip tenant) ''gateway'') w" if "tenant \<noteq> []"
  using that
  by (simp add: resolve_request_context_def sample_headers_def header_text_def parse_roles_def parse_role_def
      strip_def is_space_def lower_def lower_char_def)

lemma sample_caller_context:
  "length (strip tenant) \<le> 256 \<Longrightarrow> tenant \<noteq> [] \<Longrightarrow>
     resolve_request_context (sample_headers tenant) st w =
       (Reply (request_context_of ''ann'' [R_OPERATOR] (strip tenant) ''gateway''), w)"
  by (simp add: sample_caller checked_context_def request_context_of_def request_context_valid_def answer_def)

lemma sample_tenant: "execution_tenant (w_repo sample_world) 1 = Some ''acme''"
  by (simp add: execution_tenant_def get_execution_def get_context_def sample_world_eq save_execution_def save_context_def
      sample_execution_def new_execution_def new_context_def sample_args_def empty_repo_def)

theorem foreign_request_refused_witness:
  "refuses gateway_drew (serve default_gateway_settings sample_engine (sample_headers ''rival'') 1 Cancel_Execution) sample_gateway"
proof (rule foreign_request_refused)
  have "execution_tenant (w_repo (gw_world sample_gateway)) 1 = Some ''acme''"
    by (simp only: sample_gateway_def sample_tenant gateway.select_convs)
  then show "\<not> permitted default_gateway_settings (sample_headers ''rival'') 1 Cancel_Execution sample_gateway"
    by (simp add: permitted_def sample_caller_context strip_def is_space_def request_context_of_def)
qed

section \<open>Creation\<close>

text \<open>An execution stored with a context of a tenant.\<close>

definition owned :: "repo \<Rightarrow> string \<Rightarrow> string \<Rightarrow> uuid \<Rightarrow> bool" where
  "owned r tenant workflow eid \<longleftrightarrow>
     (\<exists>ex ctx. get_execution r eid = Some ex \<and> ex_workflow_type ex = workflow \<and>
        get_context r (ex_context_id ex) = Some ctx \<and> ctx_tenant_id ctx = tenant)"

lemma owned_tenant: "owned r tenant workflow eid \<Longrightarrow> execution_tenant r eid = Some tenant"
  by (auto simp: owned_def execution_tenant_def)

text \<open>Executions are stored under their own identifiers, and the supply never repeats one in use.\<close>

definition ids_ok :: "world \<Rightarrow> bool" where
  "ids_ok w \<longleftrightarrow> inj (env_uuids (w_env w)) \<and>
     (\<forall>k ex. get_execution (w_repo w) k = Some ex \<longrightarrow> ex_id ex = k) \<and>
     (\<forall>i \<ge> env_uuid_ix (w_env w). get_execution (w_repo w) (env_uuids (w_env w) i) = None
        \<and> get_context (w_repo w) (env_uuids (w_env w) i) = None)"

text \<open>The idempotency table only names stored executions of the key's tenant and workflow type.\<close>

definition keys_ok :: "gateway \<Rightarrow> bool" where
  "keys_ok g \<longleftrightarrow> (\<forall>tenant workflow k eid. map_of (gw_idempotency g) (tenant, workflow, k) = Some eid \<longrightarrow>
     owned (w_repo (gw_world g)) tenant workflow eid)"

definition gateway_ok :: "gateway \<Rightarrow> bool" where
  "gateway_ok g \<longleftrightarrow> ids_ok (gw_world g) \<and> keys_ok g"

text \<open>What creating and queueing do to the stored executions: every one stays with its owner.\<close>

definition keeps :: "world \<Rightarrow> world \<Rightarrow> bool" where
  "keeps w w' \<longleftrightarrow> (ids_ok w \<longrightarrow>
     ids_ok w' \<and> (\<forall>t wt k. owned (w_repo w) t wt k \<longrightarrow> owned (w_repo w') t wt k))"

interpretation keeps: step_preorder keeps
  by unfold_locales (auto simp: keeps_def)

lemma keeps_in_env: "steps env_le m \<Longrightarrow> steps keeps (in_env m)"
proof (rule stepsI, goal_cases)
  case (1 w)
  obtain r e where run: "m (w_env w) = (r, e)" by fastforce
  then have "env_le (w_env w) e" using \<open>steps env_le m\<close> by (rule stepsD[rotated])
  then show ?case using run by (auto simp: in_env_def keeps_def ids_ok_def env_le_def)
qed

lemma keeps_put_work: "steps keeps (put_work eid ts)"
  by (simp add: steps_def put_work_def keeps_def ids_ok_def split: prod.split)

lemma keeps_mark_queued:
  assumes rest: "\<And>ex. steps keeps (rest ex)"
  shows "steps keeps (bnd (require_execution eid) (\<lambda>ex.
    andthen (in_repo (update_execution (mark_queued ts ex))) (rest ex)))"
proof (rule stepsI, goal_cases)
  case (1 w)
  show ?case
  proof (cases "get_execution (w_repo w) eid")
    case None
    then show ?thesis
      by (simp add: require_execution_def bnd_def bnd_ask[unfolded bnd_def] ask_eq throw_def keeps.R_refl)
  next
    case (Some ex)
    let ?w = "w\<lparr>w_repo := save_execution (mark_queued ts ex) (w_repo w)\<rparr>"
    show ?thesis
    proof (cases "ids_ok w")
      case True
      then have id: "ex_id ex = eid" using Some by (simp add: ids_ok_def)
      have look: "get_execution (w_repo ?w) = (get_execution (w_repo w))(eid \<mapsto> mark_queued ts ex)"
        "get_context (w_repo ?w) = get_context (w_repo w)" "ex_context_id (mark_queued ts ex) = ex_context_id ex"
        using id by (simp_all add: fun_eq_iff get_execution_def get_context_def save_execution_def update_conv' meta_marks)
      have "ids_ok ?w" using True Some id unfolding ids_ok_def look by auto
      moreover have "owned (w_repo ?w) t wt k" if "owned (w_repo w) t wt k" for t wt k
        using that Some unfolding owned_def look by (cases "k = eid") (simp_all add: look(3))
      ultimately have "keeps w ?w" by (simp add: keeps_def)
      moreover have "keeps ?w (snd (rest ex ?w))" using rest by (simp add: steps_def)
      ultimately have "keeps w (snd (rest ex ?w))" by (rule keeps.R_trans)
      then show ?thesis
        using Some id by (simp add: require_execution_def bnd_def ask_eq ret_def andthen_def update_execution_hit)
    qed (simp add: keeps_def)
  qed
qed

lemma keeps_enqueue: "steps keeps (enqueue_execution eid now)"
  unfolding enqueue_execution_def Let_def
  by (intro keeps.st_bnd keeps.st_andthen keeps_mark_queued keeps.st_ret keeps_put_work keeps_in_env env_le_rules)

text \<open>Storing a new pair of context and execution under two drawn identifiers.\<close>

lemma new_execution_owned:
  fixes w :: world and a :: create_args and ts :: datetime
  assumes "ids_ok w" "env_uuids e = env_uuids (w_env w)" "env_uuid_ix e = env_uuid_ix (w_env w) + 2"
  defines "cid \<equiv> env_uuids (w_env w) (env_uuid_ix (w_env w))"
    and "eid \<equiv> env_uuids (w_env w) (Suc (env_uuid_ix (w_env w)))"
  defines "r \<equiv> save_execution (new_execution a eid cid ts) (save_context (new_context a cid ts) (w_repo w))"
  shows "owned r (ca_tenant_id a) (ca_workflow_type a) eid"
    and "keeps w (w\<lparr>w_env := e, w_repo := r\<rparr>)"
proof -
  have look: "get_execution r = (get_execution (w_repo w))(eid \<mapsto> new_execution a eid cid ts)"
    "get_context r = (get_context (w_repo w))(cid \<mapsto> new_context a cid ts)"
    by (simp_all add: r_def fun_eq_iff get_execution_def get_context_def save_execution_def save_context_def
        new_execution_def new_context_def update_conv')
  have new: "get_execution (w_repo w) eid = None" "get_context (w_repo w) cid = None"
    using assms(1) by (simp_all add: ids_ok_def cid_def eid_def)
  show "owned r (ca_tenant_id a) (ca_workflow_type a) eid"
    by (auto simp: owned_def look new_execution_def new_context_def)
  have later: "env_uuids (w_env w) i \<noteq> eid \<and> env_uuids (w_env w) i \<noteq> cid" if "i \<ge> env_uuid_ix (w_env w) + 2" for i
    using assms(1) that by (auto simp: ids_ok_def cid_def eid_def dest: injD)
  have "owned r t wt k" if "owned (w_repo w) t wt k" for t wt k
  proof -
    obtain ex ctx where o: "get_execution (w_repo w) k = Some ex" "ex_workflow_type ex = wt"
      "get_context (w_repo w) (ex_context_id ex) = Some ctx" "ctx_tenant_id ctx = t"
      using \<open>owned (w_repo w) t wt k\<close> by (auto simp: owned_def)
    then have "k \<noteq> eid" "ex_context_id ex \<noteq> cid" using new by auto
    then show ?thesis using o by (auto simp: owned_def look)
  qed
  moreover have "ids_ok (w\<lparr>w_env := e, w_repo := r\<rparr>)"
    using assms(1-3) later by (auto simp: ids_ok_def look new_execution_def)
  ultimately show "keeps w (w\<lparr>w_env := e, w_repo := r\<rparr>)" by (simp add: keeps_def)
qed

lemma wp_create_owned:
  assumes "ids_ok w"
    and "\<And>ex w'. owned (w_repo w') (ca_tenant_id a) (ca_workflow_type a) (ex_id ex) \<Longrightarrow> keeps w w' \<Longrightarrow> Q ex w'"
  shows "wp (create_execution a) Q E w"
  unfolding create_execution_def wp_bnd
proof (rule wp_clock_exact, goal_cases)
  case (1 ts e)
  let ?w = "w\<lparr>w_env := e\<lparr>env_uuid_ix := Suc (Suc (env_uuid_ix (w_env w)))\<rparr>,
     w_repo := save_execution (new_execution a (env_uuids (w_env w) (Suc (env_uuid_ix (w_env w))))
        (env_uuids (w_env w) (env_uuid_ix (w_env w))) ts)
       (save_context (new_context a (env_uuids (w_env w) (env_uuid_ix (w_env w))) ts) (w_repo w))\<rparr>"
  have "owned (w_repo ?w) (ca_tenant_id a) (ca_workflow_type a) (env_uuids (w_env w) (Suc (env_uuid_ix (w_env w))))"
    "keeps w ?w"
    using new_execution_owned[OF assms(1), of "e\<lparr>env_uuid_ix := Suc (Suc (env_uuid_ix (w_env w)))\<rparr>" a ts] 1
    by simp_all
  then show ?case
    using assms(2)[of ?w "new_execution a (env_uuids (w_env w) (Suc (env_uuid_ix (w_env w))))
        (env_uuids (w_env w) (env_uuid_ix (w_env w))) ts"] 1
    by (simp add: wp_uuid4 wp_andthen wp_on_repo wp_ret Let_def new_execution_def)
qed

section \<open>Creating through the gateway\<close>

lemma wp_on_world: "wp (on_world m) Q E g = wp m (\<lambda>x w. Q x (g\<lparr>gw_world := w\<rparr>)) (\<lambda>e w. E e (g\<lparr>gw_world := w\<rparr>)) (gw_world g)"
  by (simp add: wp_def on_world_def split: prod.split sum.split)

lemma wp_steps: "steps R m \<Longrightarrow> (\<And>x t. R s t \<Longrightarrow> Q x t) \<Longrightarrow> (\<And>e t. R s t \<Longrightarrow> E e t) \<Longrightarrow> wp m Q E s"
  by (auto simp: wp_def split: prod.split sum.split dest: stepsD)

lemma keys_ok_keeps:
  assumes "keys_ok g" "keeps (gw_world g) w" "ids_ok (gw_world g)"
  shows "keys_ok (g\<lparr>gw_world := w\<rparr>)"
  using assms by (auto simp: keys_ok_def keeps_def)

lemma gateway_ok_keeps: "gateway_ok g \<Longrightarrow> keeps (gw_world g) w \<Longrightarrow> gateway_ok (g\<lparr>gw_world := w\<rparr>)"
  using keys_ok_keeps by (auto simp: gateway_ok_def keeps_def)

text \<open>What a creation leaves: a stored execution of the tenant, remembered under the key.\<close>

definition created :: "string \<Rightarrow> string \<Rightarrow> (string \<times> string \<times> string) option \<Rightarrow> execution \<Rightarrow> gateway \<Rightarrow> bool" where
  "created tenant workflow key ex g \<longleftrightarrow>
     gateway_ok g \<and> owned (w_repo (gw_world g)) tenant workflow (ex_id ex) \<and>
     (\<forall>k. key = Some k \<longrightarrow> map_of (gw_idempotency g) k = Some (ex_id ex))"

lemma wp_schedule:
  assumes "created tenant workflow key ex g"
  shows "wp (schedule_start st eng (Some b) b mode eid) (\<lambda>_. created tenant workflow key ex) (\<lambda>_ _. True) g"
proof -
  have queued: "wp (on_world (enqueue_execution eid None))
      (\<lambda>x. wp (ret ()) (\<lambda>_. created tenant workflow key ex) (\<lambda>_ _. True)) (\<lambda>_ _. True) g"
    unfolding wp_on_world wp_ret
    by (rule wp_steps[OF keeps_enqueue])
      (use assms gateway_ok_keeps[of g] in \<open>auto simp: created_def gateway_ok_def keeps_def\<close>)
  have later: "created tenant workflow key ex (g\<lparr>gw_background := bg\<rparr>)" for bg
    using assms by (simp add: created_def gateway_ok_def keys_ok_def)
  show ?thesis
    using queued assms later by (auto simp: schedule_start_def wp_if wp_bnd wp_modifies wp_ret Let_def)
qed

lemma wp_remember:
  assumes "gateway_ok g" "owned (w_repo (gw_world g)) tenant workflow (ex_id ex)"
    and "\<And>t wt k. key = Some (t, wt, k) \<Longrightarrow> t = tenant \<and> wt = workflow"
  shows "wp (remember_key key (ex_id ex)) (\<lambda>_. created tenant workflow key ex) E g"
  using assms
  by (auto simp: remember_key_def wp_simps created_def gateway_ok_def keys_ok_def update_conv' split: option.split)

lemma known_owned:
  assumes "gateway_ok g" "known_execution (Some (t, wt, k)) g = Some ex"
  shows "map_of (gw_idempotency g) (t, wt, k) = Some (ex_id ex)" "owned (w_repo (gw_world g)) t wt (ex_id ex)"
proof -
  obtain eid where eid: "map_of (gw_idempotency g) (t, wt, k) = Some eid" "get_execution (w_repo (gw_world g)) eid = Some ex"
    using assms(2) by (auto simp: known_execution_def split: option.splits)
  then have "ex_id ex = eid" using assms(1) by (simp add: gateway_ok_def ids_ok_def)
  then show "map_of (gw_idempotency g) (t, wt, k) = Some (ex_id ex)" "owned (w_repo (gw_world g)) t wt (ex_id ex)"
    using eid assms(1) by (auto simp: gateway_ok_def keys_ok_def)
qed

lemma idempotency_key_parts:
  "idempotency_key rq ctx = Some (t, wt, k) \<Longrightarrow> t = py_str (dget ctx ''tenant_id'') \<and> wt = cr_workflow_type rq"
  by (auto simp: idempotency_key_def split: option.splits if_splits)

lemma wp_facade_create:
  assumes ok: "gateway_ok g"
  shows "wp (facade_create_execution st eng (Some b) b rq ctx)
    (created (py_str (dget ctx ''tenant_id'')) (cr_workflow_type rq) (idempotency_key rq ctx)) (\<lambda>_ _. True) g"
proof -
  let ?key = "idempotency_key rq ctx" and ?t = "py_str (dget ctx ''tenant_id'')" and ?wt = "cr_workflow_type rq"
  have new: "wp (on_world (create_execution (facade_create_args rq ctx mode)))
      (\<lambda>ex. wp (andthen (remember_key ?key (ex_id ex)) (andthen (schedule_start st eng (Some b) b mode (ex_id ex)) (ret ex)))
         (created ?t ?wt ?key) (\<lambda>_ _. True)) (\<lambda>_ _. True) g" for mode
    unfolding wp_on_world
  proof (rule wp_create_owned)
    show "ids_ok (gw_world g)" using ok by (simp add: gateway_ok_def)
    fix ex :: execution and w'
    assume o: "owned (w_repo w') (ca_tenant_id (facade_create_args rq ctx mode))
        (ca_workflow_type (facade_create_args rq ctx mode)) (ex_id ex)" and k: "keeps (gw_world g) w'"
    have "wp (remember_key ?key (ex_id ex)) (\<lambda>_. created ?t ?wt ?key ex) (\<lambda>_ _. True) (g\<lparr>gw_world := w'\<rparr>)"
      using wp_remember[OF gateway_ok_keeps[OF ok k]] o idempotency_key_parts by (auto simp: facade_create_args_def)
    then show "wp (andthen (remember_key ?key (ex_id ex)) (andthen (schedule_start st eng (Some b) b mode (ex_id ex)) (ret ex)))
         (created ?t ?wt ?key) (\<lambda>_ _. True) (g\<lparr>gw_world := w'\<rparr>)"
      unfolding wp_andthen by (rule wp_mono) (auto intro: wp_mono[OF wp_schedule] simp: wp_ret)
  qed
  have old: "created ?t ?wt ?key ex g" if "known_execution ?key g = Some ex" for ex :: execution
  proof (cases ?key)
    case None
    then show ?thesis using that by (simp add: known_execution_def)
  next
    case (Some key)
    obtain t wt k where key: "key = (t, wt, k)" by (cases key)
    show ?thesis
      using known_owned[OF ok, of t wt k ex] idempotency_key_parts[of rq ctx t wt k] that ok
      by (simp add: created_def Some key)
  qed
  show ?thesis
    unfolding facade_create_execution_def Let_def
    by (auto simp: wp_simps old new split: option.split)
qed

lemma merged_tenant:
  "merge_execution_context client auth = Inr ctx \<Longrightarrow> dget ctx ''tenant_id'' = PStr (rc_tenant_id auth)
     \<and> dget ctx ''principal_id'' = PStr (rc_principal_id auth)"
  by (auto simp: merge_execution_context_def Let_def split: if_splits)

lemma api_error_no_reply: "api_error request code msg status w \<noteq> (Reply x, w')"
  by (auto simp: api_error_def and_next_def calling_def unhandled_def split: prod.splits reply.splits sum.splits)

text \<open>The identity of a caller does not depend on the world.\<close>

lemma resolve_anywhere:
  assumes "resolve_request_context hs st w = (Reply auth, w')"
  shows "w' = w \<and> resolve_request_context hs st v = (Reply auth, v)"
  using assms
  by (auto simp: resolve_request_context_def Let_def checked_context_def answer_def unhandled_def api_error_no_reply
      split: option.splits if_splits)

lemma require_anywhere:
  assumes "require_any_role rs hs st w = (Reply auth, w')"
  shows "w' = w \<and> resolve_request_context hs st w = (Reply auth, w) \<and> has_any_role auth rs \<and>
    require_any_role rs hs st v = (Reply auth, v)"
proof -
  obtain a u where a: "resolve_request_context hs st w = (Reply a, u)"
    using assms by (auto simp: require_any_role_def and_next_def split: prod.splits reply.splits)
  then show ?thesis
    using assms resolve_anywhere[OF a]
    by (auto simp: require_any_role_def and_next_def answer_def api_error_no_reply split: if_splits prod.splits)
qed

definition create_reply :: "execution \<Rightarrow> create_response" where
  "create_reply ex =
     \<lparr>ct_execution_id = ex_id ex, ct_status = execution_status_value (ex_status ex),
      ct_workflow_type = ex_workflow_type ex, ct_created_at = ex_created_at ex,
      ct_links = [(''self'', ''/v1/executions/'' @ uuid_str (ex_id ex))]\<rparr>"

lemma post_execution_parts:
  assumes "post_execution st eng hs rq g = (Reply ct, g')"
  obtains auth ex where "executions_write hs st (gw_world g) = (Reply auth, gw_world g)"
    "run_create st eng auth rq g = (Inr ex, g')" "ct = create_reply ex"
proof -
  obtain auth w where auth: "executions_write hs st (gw_world g) = (Reply auth, w)"
    using assms by (auto simp: post_execution_def and_next_def at_world_def split: prod.splits reply.splits)
  then have w: "w = gw_world g" using require_anywhere unfolding executions_write_def by blast
  have no_reply: "value_error_400 hs e u \<noteq> (Reply x, v)" for e u v and x :: execution
    by (auto simp: value_error_400_def http_error_at_def at_world_def unhandled_def api_error_no_reply
        split: prod.splits if_splits)
  have "\<exists>ex. run_create st eng auth rq g = (Inr ex, g') \<and> ct = create_reply ex"
    using assms no_reply
    by (auto simp: post_execution_def and_next_def at_world_def auth w calling_def answer_def create_reply_def
        split: prod.splits reply.splits sum.splits)
  then show ?thesis using that auth w by auto
qed

lemma post_execution_eq:
  assumes "executions_write hs st (gw_world g) = (Reply auth, gw_world g)" "run_create st eng auth rq g = (Inr ex, g')"
  shows "post_execution st eng hs rq g = (Reply (create_reply ex), g')"
  using assms by (simp add: post_execution_def and_next_def at_world_def calling_def answer_def create_reply_def)

definition create_context :: "request_context \<Rightarrow> create_request \<Rightarrow> exn + pydict" where
  "create_context auth rq =
     (case merge_execution_context (cr_context rq) auth of Inl e \<Rightarrow> Inl e
      | Inr ctx \<Rightarrow> Inr (case cr_execution_mode rq of None \<Rightarrow> ctx | Some m \<Rightarrow> dset ''execution_mode'' (PStr m) ctx))"

lemma run_create_eq:
  "run_create st eng auth rq =
     (case create_context auth rq of Inl e \<Rightarrow> rethrow e
      | Inr ctx \<Rightarrow> facade_create_execution st eng (Some (gs_schedule_start st)) (gs_schedule_start st) rq ctx)"
  by (simp add: run_create_def create_context_def split: sum.split)

lemma create_context_tenant:
  "create_context auth rq = Inr ctx \<Longrightarrow> py_str (dget ctx ''tenant_id'') = rc_tenant_id auth"
  using merged_tenant by (fastforce simp: create_context_def split: sum.splits option.splits)

lemma run_create_created:
  assumes "gateway_ok g" "run_create st eng auth rq g = (Inr ex, g')"
  obtains ctx where "create_context auth rq = Inr ctx"
    "created (rc_tenant_id auth) (cr_workflow_type rq) (idempotency_key rq ctx) ex g'"
proof (cases "create_context auth rq")
  case (Inl e)
  then show ?thesis using assms(2) by (simp add: run_create_eq rethrow_def)
next
  case (Inr ctx)
  then have "facade_create_execution st eng (Some (gs_schedule_start st)) (gs_schedule_start st) rq ctx g = (Inr ex, g')"
    using assms(2) by (simp add: run_create_eq)
  from wp_Inr[OF wp_facade_create[OF assms(1)] this] show ?thesis
    using that[OF Inr] create_context_tenant[OF Inr] by simp
qed

text \<open>An operator of a tenant creates an interactive execution in an empty store.\<close>

definition start_gateway :: gateway where
  "start_gateway = \<lparr>gw_world = start_world sample_env, gw_feedback = empty_feedback, gw_idempotency = [], gw_background = []\<rparr>"

definition sample_create :: create_request where
  "sample_create = \<lparr>cr_workflow_type = ''generic'', cr_input = [], cr_context = [(''policy_scope'', PStr ''default'')],
     cr_idempotency_key = Some ''k1'', cr_execution_mode = Some ''interactive''\<rparr>"

lemma start_gateway_ok: "gateway_ok start_gateway"
  by (simp add: gateway_ok_def start_gateway_def ids_ok_def keys_ok_def start_world_def sample_env_def empty_repo_def
      get_execution_def get_context_def inj_def)

lemma sample_create_args:
  "\<exists>ctx. create_context (request_context_of ''ann'' [R_OPERATOR] ''acme'' ''gateway'') sample_create = Inr ctx \<and>
     dget ctx ''tenant_id'' = PStr ''acme'' \<and> dget ctx ''policy_scope'' = PStr ''default'' \<and>
     dget ctx ''execution_mode'' = PStr ''interactive''"
  by (simp add: create_context_def merge_execution_context_def sample_create_def request_context_of_def Let_def
      dget_def[of "[(''policy_scope'', _)]"])

lemma sample_create_accepted:
  "\<exists>ct g'. post_execution default_gateway_settings sample_engine (sample_headers ''acme'') sample_create start_gateway
     = (Reply ct, g')"
proof -
  let ?auth = "request_context_of ''ann'' [R_OPERATOR] ''acme'' ''gateway''"
  obtain ctx where ctx: "create_context ?auth sample_create = Inr ctx" "dget ctx ''tenant_id'' = PStr ''acme''"
    "dget ctx ''policy_scope'' = PStr ''default''" "dget ctx ''execution_mode'' = PStr ''interactive''"
    using sample_create_args by blast
  have "executions_write (sample_headers ''acme'') default_gateway_settings (gw_world start_gateway) =
      (Reply ?auth, gw_world start_gateway)"
    by (simp add: executions_write_def require_any_role_def and_next_def sample_caller_context strip_def is_space_def
        has_any_role_def has_role_def request_context_of_def answer_def)
  moreover have "requested_mode ctx = Some EM_INTERACTIVE"
    by (simp add: requested_mode_def ctx(4))
  then have "\<exists>ex g'. run_create default_gateway_settings sample_engine ?auth sample_create start_gateway = (Inr ex, g')"
    using ctx
    by (auto simp: run_create_eq facade_create_execution_def sample_create_def REGISTERED_WORKFLOW_TYPES_def Let_def
        bnd_def reads_def known_execution_def idempotency_key_def start_gateway_def on_world_def create_execution_def
        in_env_def now_or_clock_def utc_now_def uuid4_def andthen_def on_repo_def modifies_def ret_def remember_key_def
        schedule_start_def default_gateway_settings_def facade_create_args_def)
  ultimately show ?thesis using post_execution_eq by blast
qed

text \<open>C30. An execution created through the gateway belongs to the authenticated tenant, whatever context the
  client sent: the caller has a writing role, the stored execution has a context of the caller's tenant,
  and the idempotency table keeps naming executions of the tenants of its keys.\<close>

theorem created_for_caller:
  assumes "gateway_ok g" "post_execution st eng hs rq g = (Reply ct, g')"
  shows "\<exists>auth. resolve_request_context hs st (gw_world g) = (Reply auth, gw_world g) \<and>
    has_any_role auth [R_OPERATOR, R_ADMIN] \<and>
    execution_tenant (w_repo (gw_world g')) (ct_execution_id ct) = Some (rc_tenant_id auth) \<and> gateway_ok g'"
proof -
  obtain auth ex where parts: "executions_write hs st (gw_world g) = (Reply auth, gw_world g)"
    "run_create st eng auth rq g = (Inr ex, g')" "ct = create_reply ex"
    by (rule post_execution_parts[OF assms(2)])
  obtain ctx where "created (rc_tenant_id auth) (cr_workflow_type rq) (idempotency_key rq ctx) ex g'"
    by (rule run_create_created[OF assms(1) parts(2)])
  then show ?thesis
    using require_anywhere parts(1,3) owned_tenant unfolding executions_write_def created_def
    by (fastforce simp: create_reply_def)
qed

theorem created_for_caller_witness:
  "\<exists>ct g'. post_execution default_gateway_settings sample_engine (sample_headers ''acme'') sample_create start_gateway
     = (Reply ct, g') \<and> execution_tenant (w_repo (gw_world g')) (ct_execution_id ct) = Some ''acme''"
proof -
  obtain ct g' where post: "post_execution default_gateway_settings sample_engine (sample_headers ''acme'') sample_create
      start_gateway = (Reply ct, g')"
    using sample_create_accepted by blast
  from created_for_caller[OF start_gateway_ok post] post show ?thesis
    by (auto simp: sample_caller_context strip_def is_space_def request_context_of_def)
qed

text \<open>C31. A create request repeated with its idempotency key stores nothing and returns the execution of
  the first request.\<close>

theorem repeated_create:
  assumes "gateway_ok g" "post_execution st eng hs rq g = (Reply ct, g')" "cr_idempotency_key rq = Some (c # k)"
  shows "\<exists>ct'. post_execution st eng hs rq g' = (Reply ct', g') \<and> ct_execution_id ct' = ct_execution_id ct"
proof -
  obtain auth ex where parts: "executions_write hs st (gw_world g) = (Reply auth, gw_world g)"
    "run_create st eng auth rq g = (Inr ex, g')" "ct = create_reply ex"
    by (rule post_execution_parts[OF assms(2)])
  obtain ctx where ctx: "create_context auth rq = Inr ctx"
    "created (rc_tenant_id auth) (cr_workflow_type rq) (idempotency_key rq ctx) ex g'"
    by (rule run_create_created[OF assms(1) parts(2)])
  obtain key where key: "idempotency_key rq ctx = Some key" using assms(3) by (simp add: idempotency_key_def)
  obtain again where again: "get_execution (w_repo (gw_world g')) (ex_id ex) = Some again" "ex_id again = ex_id ex"
    using ctx(2) by (auto simp: created_def owned_def gateway_ok_def ids_ok_def)
  have known: "known_execution (idempotency_key rq ctx) g' = Some again"
    using ctx(2) again key by (simp add: created_def known_execution_def)
  have "run_create st eng auth rq g' = (Inr again, g')"
    using parts(2) ctx(1) known
    by (auto simp: run_create_eq facade_create_execution_def throw_def reads_def bnd_def ret_def Let_def
        split: if_splits option.splits)
  moreover have "executions_write hs st (gw_world g') = (Reply auth, gw_world g')"
    using require_anywhere parts(1) unfolding executions_write_def by blast
  ultimately show ?thesis
    using post_execution_eq parts(3) again(2) by (auto simp: create_reply_def)
qed

theorem repeated_create_witness:
  "\<exists>ct g' ct'. post_execution default_gateway_settings sample_engine (sample_headers ''acme'') sample_create start_gateway
       = (Reply ct, g') \<and>
     post_execution default_gateway_settings sample_engine (sample_headers ''acme'') sample_create g' = (Reply ct', g') \<and>
     ct_execution_id ct' = ct_execution_id ct"
proof -
  obtain ct g' where post: "post_execution default_gateway_settings sample_engine (sample_headers ''acme'') sample_create
      start_gateway = (Reply ct, g')"
    using sample_create_accepted by blast
  have "cr_idempotency_key sample_create = Some (CHR ''k'' # ''1'')" by (simp add: sample_create_def)
  from repeated_create[OF start_gateway_ok post this] post show ?thesis by blast
qed

end
