(* ===== verification/Rows.thy ===== *)
theory Rows
  imports Repository Contracts Results Replay_Diff
begin

text \<open>
  The rows of the PostgreSQL adapter (\<open>app/adapters/models.py\<close>) and the mapping between rows and records
  (\<open>app/adapters/repository.py\<close>): every record is written as a row of plain columns and read back through
  the enumerations and the validators of its model.  A column gives back the value written to it.
\<close>

section \<open>Rows\<close>

record context_row =
  xc_id :: uuid
  xc_tenant_id :: string
  xc_principal_id :: "string option"
  xc_actor :: "string option"
  xc_request_id :: string
  xc_environment :: string
  xc_permissions_scope :: pydict
  xc_policy_scope :: string
  xc_feature_flags :: "pydict option"
  xc_created_at :: datetime
  xc_updated_at :: datetime

record execution_row =
  xe_id :: uuid
  xe_workflow_type :: string
  xe_status :: string
  xe_context_id :: uuid
  xe_parent_id :: "uuid option"
  xe_plan_id :: "uuid option"
  xe_input :: pydict
  xe_result :: "pydict option"
  xe_timeline :: "pydict list"
  xe_validation_summary :: "pydict option"
  xe_created_at :: datetime
  xe_updated_at :: datetime
  xe_completed_at :: "datetime option"
  xe_cancelled_at :: "datetime option"

record plan_row =
  xp_id :: uuid
  xp_execution_id :: uuid
  xp_parent_id :: "uuid option"
  xp_version :: int
  xp_revision_reason :: "string option"
  xp_goal :: pydict
  xp_steps :: "pydict list"
  xp_dependencies :: "pydict list"
  xp_ordering :: pydict
  xp_metadata :: pydict
  xp_created_at :: datetime

record step_row =
  xs_id :: uuid
  xs_execution_id :: uuid
  xs_plan_id :: uuid
  xs_type :: string
  xs_agent :: string
  xs_input :: pydict
  xs_status :: string
  xs_dependencies :: "pydict list"
  xs_retry_count :: int
  xs_degraded_allowed :: bool
  xs_created_at :: datetime
  xs_updated_at :: datetime

record result_row =
  xr_id :: uuid
  xr_step_id :: uuid
  xr_output :: "pydict option"
  xr_evidence :: "pydict list"
  xr_errors :: "pydict list"
  xr_latency_ms :: "int option"
  xr_latency_started_at :: "datetime option"
  xr_latency_ended_at :: "datetime option"
  xr_confidence :: "rat option"
  xr_confidence_detail :: "pydict option"
  xr_completeness :: "string option"
  xr_validation :: "pydict option"
  xr_created_at :: datetime
  xr_updated_at :: datetime

record proposal_row =
  xa_id :: uuid
  xa_execution_id :: uuid
  xa_step_id :: "uuid option"
  xa_action_type :: string
  xa_payload :: pydict
  xa_risk_level :: string
  xa_requires_approval :: bool
  xa_status :: string
  xa_created_at :: datetime
  xa_updated_at :: datetime

record evaluation_row =
  xv_id :: uuid
  xv_execution_id :: uuid
  xv_context_id :: uuid
  xv_decision :: string
  xv_reason :: string
  xv_rules :: "pydict list"
  xv_subject_ref :: pydict
  xv_created_at :: datetime
  xv_updated_at :: datetime

record approval_table_row =
  xo_id :: uuid
  xo_execution_id :: uuid
  xo_evaluation_id :: "uuid option"
  xo_proposal_id :: "uuid option"
  xo_approver :: string
  xo_decision :: string
  xo_notes :: "string option"
  xo_decided_at :: datetime
  xo_created_at :: datetime
  xo_updated_at :: datetime

record tool_call_table_row =
  xt_id :: uuid
  xt_execution_id :: uuid
  xt_step_id :: uuid
  xt_context_id :: uuid
  xt_proposal_id :: "uuid option"
  xt_tool_name :: string
  xt_side_effect :: string
  xt_idempotency :: string
  xt_input :: pydict
  xt_output :: "pydict option"
  xt_status :: string
  xt_latency_ms :: "int option"
  xt_error :: "pydict option"
  xt_created_at :: datetime
  xt_updated_at :: datetime

section \<open>Columns\<close>

text \<open>\<open>Enum(value)\<close>.\<close>

definition parse_member :: "string \<Rightarrow> ('a \<Rightarrow> string) \<Rightarrow> 'a list \<Rightarrow> string \<Rightarrow> exn + 'a" where
  "parse_member enum value members s =
     (case find (\<lambda>x. value x = s) members of Some x \<Rightarrow> Inr x
      | None \<Rightarrow> Inl (Exn ValueError (repr_str s @ '' is not a valid '' @ enum)))"

definition parse_execution_status :: "string \<Rightarrow> exn + execution_status" where
  "parse_execution_status = parse_member ''ExecutionStatus'' execution_status_value all_execution_statuses"

definition parse_execution_mode :: "string \<Rightarrow> exn + execution_mode" where
  "parse_execution_mode = parse_member ''ExecutionMode'' execution_mode_value [EM_INTERACTIVE, EM_BACKGROUND]"

definition parse_step_status :: "string \<Rightarrow> exn + step_status" where
  "parse_step_status = parse_member ''StepStatus'' step_status_value
     [SS_PENDING, SS_RUNNING, SS_SUCCEEDED, SS_FAILED, SS_SKIPPED, SS_CANCELLED]"

definition step_type_members :: "step_type list" where
  "step_type_members = [ST_RETRIEVAL, ST_TOOL, ST_REASONING, ST_VALIDATION, ST_ACTION]"

text \<open>A text that names no member stays a text.\<close>

definition read_step_type :: "string \<Rightarrow> step_type" where
  "read_step_type s =
     (case parse_member ''StepType'' step_type_value step_type_members s of Inr t \<Rightarrow> t | Inl e \<Rightarrow> ST_Plain s)"

definition read_completeness :: "string option \<Rightarrow> exn + completeness option" where
  "read_completeness v =
     (case v of None \<Rightarrow> Inr None
      | Some s \<Rightarrow> and_then (parse_member ''StepCompleteness'' completeness_value [SC_FULL, SC_PARTIAL, SC_DEGRADED] s)
          (\<lambda>x. Inr (Some x)))"

definition parse_risk_level :: "string \<Rightarrow> exn + risk_level" where
  "parse_risk_level = parse_member ''RiskLevel'' risk_level_value [RL_LOW, RL_MEDIUM, RL_HIGH]"

fun proposal_status_value :: "proposal_status \<Rightarrow> string" where
  "proposal_status_value AP_PROPOSED = ''proposed''"
| "proposal_status_value AP_POLICY_DENIED = ''policy_denied''"
| "proposal_status_value AP_AWAITING_APPROVAL = ''awaiting_approval''"
| "proposal_status_value AP_APPROVED = ''approved''"
| "proposal_status_value AP_REJECTED = ''rejected''"
| "proposal_status_value AP_EXECUTED = ''executed''"
| "proposal_status_value AP_FAILED = ''failed''"

definition parse_proposal_status :: "string \<Rightarrow> exn + proposal_status" where
  "parse_proposal_status = parse_member ''ActionProposalStatus'' proposal_status_value
     [AP_PROPOSED, AP_POLICY_DENIED, AP_AWAITING_APPROVAL, AP_APPROVED, AP_REJECTED, AP_EXECUTED, AP_FAILED]"

definition parse_policy_decision :: "string \<Rightarrow> exn + policy_decision" where
  "parse_policy_decision = parse_member ''PolicyDecision'' policy_decision_value [PD_ALLOW, PD_DENY, PD_CONDITIONAL]"

definition read_approval_decision :: "string \<Rightarrow> exn + approval_decision" where
  "read_approval_decision = parse_member ''ApprovalDecision'' approval_decision_value [AD_APPROVE, AD_REJECT, AD_DEFER]"

definition parse_side_effect :: "string \<Rightarrow> exn + side_effect_class" where
  "parse_side_effect = parse_member ''ToolSideEffectClass'' side_effect_value [SE_READ_ONLY, SE_STATE_CHANGING]"

definition parse_idempotency :: "string \<Rightarrow> exn + tool_idempotency" where
  "parse_idempotency = parse_member ''ToolIdempotency'' idempotency_value [TI_IDEMPOTENT, TI_NON_IDEMPOTENT]"

definition parse_tool_call_status :: "string \<Rightarrow> exn + tool_call_status" where
  "parse_tool_call_status = parse_member ''ToolCallStatus'' tool_call_status_value
     [TC_SUCCESS, TC_FAILURE, TC_TIMEOUT, TC_REJECTED_BY_POLICY]"

text \<open>The mode of an execution has no column: it travels inside the input, under a reserved key.\<close>

definition ORCH_EXECUTION_MODE_KEY :: string where
  "ORCH_EXECUTION_MODE_KEY = ''__orch_execution_mode__''"

definition persist_execution_input :: "execution \<Rightarrow> pydict" where
  "persist_execution_input ex = dset ORCH_EXECUTION_MODE_KEY (PStr (execution_mode_value (ex_mode ex))) (ex_input ex)"

definition restore_execution_input_and_mode :: "pydict \<Rightarrow> pydict \<times> execution_mode" where
  "restore_execution_input_and_mode raw =
     (dpop ORCH_EXECUTION_MODE_KEY raw,
      let v = dget raw ORCH_EXECUTION_MODE_KEY in
      if v = PNone then EM_BACKGROUND
      else case parse_execution_mode (py_str v) of Inr m \<Rightarrow> m | Inl e \<Rightarrow> EM_BACKGROUND)"

definition dependencies_to_json :: "uuid list \<Rightarrow> pydict list" where
  "dependencies_to_json deps = map (\<lambda>d. [(''step_id'', PStr (uuid_str d))]) deps"

definition read_dependency :: "pydict \<Rightarrow> exn + uuid" where
  "read_dependency d =
     (case uuid_parse (py_str (dget d ''step_id'')) of Some u \<Rightarrow> Inr u
      | None \<Rightarrow> Inl (Exn ValueError ''badly formed hexadecimal UUID string''))"

definition dependencies_from_json :: "pydict list \<Rightarrow> exn + uuid list" where
  "dependencies_from_json raw = all_ok (map read_dependency (filter (\<lambda>d. has_key d ''step_id'') raw))"

definition validation_outcome_json :: "validation_outcome \<Rightarrow> pydict" where
  "validation_outcome_json vo = [(''status'', PStr (vo_status vo)), (''details'', PDict (vo_details vo))]"

text \<open>\<open>ValidationOutcome.model_validate\<close>: a required text, a dictionary, no other field.\<close>

definition validation_outcome_of_json :: "pydict \<Rightarrow> exn + validation_outcome" where
  "validation_outcome_of_json d =
     (case (as_str (dget d ''status''), as_dict (if has_key d ''details'' then dget d ''details'' else PDict [])) of
        (Some s, Some details) \<Rightarrow>
          if list_all (\<lambda>(k, v). k \<in> {''status'', ''details''}) d then Inr \<lparr>vo_status = s, vo_details = details\<rparr>
          else Inl (Exn PydanticValidationError ''ValidationOutcome'')
      | _ \<Rightarrow> Inl (Exn PydanticValidationError ''ValidationOutcome''))"

definition read_validation_outcome :: "pydict option \<Rightarrow> exn + validation_outcome option" where
  "read_validation_outcome v =
     (case v of None \<Rightarrow> Inr None | Some d \<Rightarrow> and_then (validation_outcome_of_json d) (\<lambda>x. Inr (Some x)))"

text \<open>The bounds the models check on every construction.\<close>

definition plan_valid :: "execution_plan \<Rightarrow> bool" where
  "plan_valid p \<longleftrightarrow> 1 \<le> pl_version p"

definition step_valid :: "step \<Rightarrow> bool" where
  "step_valid s \<longleftrightarrow> 0 \<le> st_retry_count s"

definition tool_call_valid :: "tool_call \<Rightarrow> bool" where
  "tool_call_valid t \<longleftrightarrow> nonneg_opt (tc_latency_ms t)"

section \<open>The mapping\<close>

definition context_to_row :: "exec_context \<Rightarrow> context_row" where
  "context_to_row c =
     \<lparr>xc_id = ctx_id c, xc_tenant_id = ctx_tenant_id c, xc_principal_id = ctx_principal_id c,
      xc_actor = ctx_actor c, xc_request_id = ctx_request_id c, xc_environment = ctx_environment c,
      xc_permissions_scope = ctx_permissions_scope c, xc_policy_scope = ctx_policy_scope c,
      xc_feature_flags = ctx_feature_flags c, xc_created_at = ctx_created_at c, xc_updated_at = ctx_updated_at c\<rparr>"

definition row_to_context :: "context_row \<Rightarrow> exn + exec_context" where
  "row_to_context w =
       Inr
         \<lparr>ctx_id = xc_id w, ctx_tenant_id = xc_tenant_id w, ctx_principal_id = xc_principal_id w,
          ctx_actor = xc_actor w, ctx_request_id = xc_request_id w, ctx_environment = xc_environment w,
          ctx_permissions_scope = xc_permissions_scope w, ctx_policy_scope = xc_policy_scope w,
          ctx_feature_flags = xc_feature_flags w, ctx_created_at = xc_created_at w,
          ctx_updated_at = xc_updated_at w\<rparr>"

definition execution_to_row :: "execution \<Rightarrow> execution_row" where
  "execution_to_row ex =
     \<lparr>xe_id = ex_id ex, xe_workflow_type = ex_workflow_type ex,
      xe_status = execution_status_value (ex_status ex), xe_context_id = ex_context_id ex,
      xe_parent_id = ex_parent_id ex, xe_plan_id = ex_plan_id ex, xe_input = persist_execution_input ex,
      xe_result = ex_result ex, xe_timeline = ex_timeline ex, xe_validation_summary = ex_validation_summary ex,
      xe_created_at = ex_created_at ex, xe_updated_at = ex_updated_at ex, xe_completed_at = ex_completed_at ex,
      xe_cancelled_at = ex_cancelled_at ex\<rparr>"

definition row_to_execution :: "execution_row \<Rightarrow> exn + execution" where
  "row_to_execution w =
     and_then (parse_execution_status (xe_status w)) (\<lambda>status.
       Inr
         \<lparr>ex_id = xe_id w, ex_workflow_type = xe_workflow_type w, ex_status = status,
          ex_mode = snd (restore_execution_input_and_mode (xe_input w)), ex_context_id = xe_context_id w,
          ex_parent_id = xe_parent_id w, ex_plan_id = xe_plan_id w,
          ex_input = fst (restore_execution_input_and_mode (xe_input w)), ex_result = xe_result w,
          ex_timeline = xe_timeline w, ex_validation_summary = xe_validation_summary w,
          ex_created_at = xe_created_at w, ex_updated_at = xe_updated_at w, ex_completed_at = xe_completed_at w,
          ex_cancelled_at = xe_cancelled_at w\<rparr>)"

definition plan_to_row :: "execution_plan \<Rightarrow> plan_row" where
  "plan_to_row p =
     \<lparr>xp_id = pl_id p, xp_execution_id = pl_execution_id p, xp_parent_id = pl_parent_id p,
      xp_version = pl_version p, xp_revision_reason = pl_revision_reason p, xp_goal = pl_goal p,
      xp_steps = pl_steps p, xp_dependencies = pl_dependencies p, xp_ordering = pl_ordering p,
      xp_metadata = pl_metadata p, xp_created_at = pl_created_at p\<rparr>"

definition row_to_plan :: "plan_row \<Rightarrow> exn + execution_plan" where
  "row_to_plan w =
       checked ''ExecutionPlan'' plan_valid
         \<lparr>pl_id = xp_id w, pl_execution_id = xp_execution_id w, pl_parent_id = xp_parent_id w,
          pl_version = xp_version w, pl_revision_reason = xp_revision_reason w, pl_goal = xp_goal w,
          pl_steps = xp_steps w, pl_dependencies = xp_dependencies w, pl_ordering = xp_ordering w,
          pl_metadata = xp_metadata w, pl_created_at = xp_created_at w\<rparr>"

definition step_to_row :: "step \<Rightarrow> step_row" where
  "step_to_row s =
     \<lparr>xs_id = st_id s, xs_execution_id = st_execution_id s, xs_plan_id = st_plan_id s,
      xs_type = step_type_value (st_type s), xs_agent = st_agent s, xs_input = st_input s,
      xs_status = step_status_value (st_status s), xs_dependencies = dependencies_to_json (st_dependencies s),
      xs_retry_count = st_retry_count s, xs_degraded_allowed = st_degraded_allowed s,
      xs_created_at = st_created_at s, xs_updated_at = st_updated_at s\<rparr>"

definition row_to_step :: "step_row \<Rightarrow> exn + step" where
  "row_to_step w =
     and_then (parse_step_status (xs_status w)) (\<lambda>status.
     and_then (dependencies_from_json (xs_dependencies w)) (\<lambda>deps.
       checked ''Step'' step_valid
         \<lparr>st_id = xs_id w, st_execution_id = xs_execution_id w, st_plan_id = xs_plan_id w,
          st_type = read_step_type (xs_type w), st_agent = xs_agent w, st_input = xs_input w,
          st_status = status, st_dependencies = deps, st_retry_count = xs_retry_count w,
          st_degraded_allowed = xs_degraded_allowed w, st_created_at = xs_created_at w,
          st_updated_at = xs_updated_at w\<rparr>))"

definition result_to_row :: "step_result \<Rightarrow> result_row" where
  "result_to_row r =
     \<lparr>xr_id = sr_id r, xr_step_id = sr_step_id r, xr_output = sr_output r, xr_evidence = sr_evidence r,
      xr_errors = sr_errors r, xr_latency_ms = sr_latency_ms r, xr_latency_started_at = sr_latency_started_at r,
      xr_latency_ended_at = sr_latency_ended_at r, xr_confidence = sr_confidence r,
      xr_confidence_detail = sr_confidence_detail r,
      xr_completeness = map_option completeness_value (sr_completeness r),
      xr_validation = map_option validation_outcome_json (sr_validation r), xr_created_at = sr_created_at r,
      xr_updated_at = sr_updated_at r\<rparr>"

definition row_to_result :: "result_row \<Rightarrow> exn + step_result" where
  "row_to_result w =
     and_then (read_completeness (xr_completeness w)) (\<lambda>compl.
     and_then (read_validation_outcome (xr_validation w)) (\<lambda>outcome.
       checked ''StepResult'' step_result_valid
         \<lparr>sr_id = xr_id w, sr_step_id = xr_step_id w, sr_output = xr_output w, sr_evidence = xr_evidence w,
          sr_errors = xr_errors w, sr_latency_ms = xr_latency_ms w,
          sr_latency_started_at = xr_latency_started_at w, sr_latency_ended_at = xr_latency_ended_at w,
          sr_confidence = xr_confidence w, sr_confidence_detail = xr_confidence_detail w,
          sr_completeness = compl, sr_validation = outcome, sr_created_at = xr_created_at w,
          sr_updated_at = xr_updated_at w\<rparr>))"

definition proposal_to_row :: "action_proposal \<Rightarrow> proposal_row" where
  "proposal_to_row p =
     \<lparr>xa_id = ap_id p, xa_execution_id = ap_execution_id p, xa_step_id = ap_step_id p,
      xa_action_type = ap_action_type p, xa_payload = ap_payload p,
      xa_risk_level = risk_level_value (ap_risk_level p), xa_requires_approval = ap_requires_approval p,
      xa_status = proposal_status_value (ap_status p), xa_created_at = ap_created_at p,
      xa_updated_at = ap_updated_at p\<rparr>"

definition row_to_proposal :: "proposal_row \<Rightarrow> exn + action_proposal" where
  "row_to_proposal w =
     and_then (parse_risk_level (xa_risk_level w)) (\<lambda>risk.
     and_then (parse_proposal_status (xa_status w)) (\<lambda>status.
       Inr
         \<lparr>ap_id = xa_id w, ap_execution_id = xa_execution_id w, ap_step_id = xa_step_id w,
          ap_action_type = xa_action_type w, ap_payload = xa_payload w, ap_risk_level = risk,
          ap_requires_approval = xa_requires_approval w, ap_status = status, ap_created_at = xa_created_at w,
          ap_updated_at = xa_updated_at w\<rparr>))"

definition evaluation_to_row :: "policy_evaluation \<Rightarrow> evaluation_row" where
  "evaluation_to_row e =
     \<lparr>xv_id = pe_id e, xv_execution_id = pe_execution_id e, xv_context_id = pe_context_id e,
      xv_decision = policy_decision_value (pe_decision e), xv_reason = pe_reason e, xv_rules = pe_rules e,
      xv_subject_ref = pe_subject_ref e, xv_created_at = pe_created_at e, xv_updated_at = pe_updated_at e\<rparr>"

definition row_to_evaluation :: "evaluation_row \<Rightarrow> exn + policy_evaluation" where
  "row_to_evaluation w =
     and_then (parse_policy_decision (xv_decision w)) (\<lambda>dec.
       Inr
         \<lparr>pe_id = xv_id w, pe_execution_id = xv_execution_id w, pe_context_id = xv_context_id w,
          pe_decision = dec, pe_reason = xv_reason w, pe_rules = xv_rules w, pe_subject_ref = xv_subject_ref w,
          pe_created_at = xv_created_at w, pe_updated_at = xv_updated_at w\<rparr>)"

definition approval_to_row :: "approval \<Rightarrow> approval_table_row" where
  "approval_to_row a =
     \<lparr>xo_id = apr_id a, xo_execution_id = apr_execution_id a, xo_evaluation_id = apr_evaluation_id a,
      xo_proposal_id = apr_proposal_id a, xo_approver = apr_approver a,
      xo_decision = approval_decision_value (apr_decision a), xo_notes = apr_notes a,
      xo_decided_at = apr_decided_at a, xo_created_at = apr_created_at a, xo_updated_at = apr_updated_at a\<rparr>"

definition row_to_approval :: "approval_table_row \<Rightarrow> exn + approval" where
  "row_to_approval w =
     and_then (read_approval_decision (xo_decision w)) (\<lambda>dec.
       checked ''Approval'' approval_valid
         \<lparr>apr_id = xo_id w, apr_execution_id = xo_execution_id w, apr_evaluation_id = xo_evaluation_id w,
          apr_proposal_id = xo_proposal_id w, apr_approver = xo_approver w, apr_decision = dec,
          apr_notes = xo_notes w, apr_decided_at = xo_decided_at w, apr_created_at = xo_created_at w,
          apr_updated_at = xo_updated_at w\<rparr>)"

definition tool_call_to_row :: "tool_call \<Rightarrow> tool_call_table_row" where
  "tool_call_to_row t =
     \<lparr>xt_id = tc_id t, xt_execution_id = tc_execution_id t, xt_step_id = tc_step_id t,
      xt_context_id = tc_context_id t, xt_proposal_id = tc_proposal_id t, xt_tool_name = tc_tool_name t,
      xt_side_effect = side_effect_value (tc_side_effect t),
      xt_idempotency = idempotency_value (tc_idempotency t), xt_input = tc_input t, xt_output = tc_output t,
      xt_status = tool_call_status_value (tc_status t), xt_latency_ms = tc_latency_ms t, xt_error = tc_error t,
      xt_created_at = tc_created_at t, xt_updated_at = tc_updated_at t\<rparr>"

definition row_to_tool_call :: "tool_call_table_row \<Rightarrow> exn + tool_call" where
  "row_to_tool_call w =
     and_then (parse_side_effect (xt_side_effect w)) (\<lambda>effect.
     and_then (parse_idempotency (xt_idempotency w)) (\<lambda>idem.
     and_then (parse_tool_call_status (xt_status w)) (\<lambda>status.
       checked ''ToolCall'' tool_call_valid
         \<lparr>tc_id = xt_id w, tc_execution_id = xt_execution_id w, tc_step_id = xt_step_id w,
          tc_context_id = xt_context_id w, tc_proposal_id = xt_proposal_id w, tc_tool_name = xt_tool_name w,
          tc_side_effect = effect, tc_idempotency = idem, tc_input = xt_input w, tc_output = xt_output w,
          tc_status = status, tc_latency_ms = xt_latency_ms w, tc_error = xt_error w,
          tc_created_at = xt_created_at w, tc_updated_at = xt_updated_at w\<rparr>)))"

section \<open>Round trips\<close>

lemma parse_execution_status_back [simp]: "parse_execution_status (execution_status_value x) = Inr x"
  by (cases x) (simp_all add: parse_execution_status_def parse_member_def all_execution_statuses_def)

lemma parse_execution_mode_back [simp]: "parse_execution_mode (execution_mode_value x) = Inr x"
  by (cases x) (simp_all add: parse_execution_mode_def parse_member_def)

lemma parse_step_status_back [simp]: "parse_step_status (step_status_value x) = Inr x"
  by (cases x) (simp_all add: parse_step_status_def parse_member_def)

lemma parse_risk_level_back [simp]: "parse_risk_level (risk_level_value x) = Inr x"
  by (cases x) (simp_all add: parse_risk_level_def parse_member_def)

lemma parse_proposal_status_back [simp]: "parse_proposal_status (proposal_status_value x) = Inr x"
  by (cases x) (simp_all add: parse_proposal_status_def parse_member_def)

lemma parse_policy_decision_back [simp]: "parse_policy_decision (policy_decision_value x) = Inr x"
  by (cases x) (simp_all add: parse_policy_decision_def parse_member_def)

lemma read_approval_decision_back [simp]: "read_approval_decision (approval_decision_value x) = Inr x"
  by (cases x) (simp_all add: read_approval_decision_def parse_member_def)

lemma parse_side_effect_back [simp]: "parse_side_effect (side_effect_value x) = Inr x"
  by (cases x) (simp_all add: parse_side_effect_def parse_member_def)

lemma parse_idempotency_back [simp]: "parse_idempotency (idempotency_value x) = Inr x"
  by (cases x) (simp_all add: parse_idempotency_def parse_member_def)

lemma parse_tool_call_status_back [simp]: "parse_tool_call_status (tool_call_status_value x) = Inr x"
  by (cases x) (simp_all add: parse_tool_call_status_def parse_member_def)

lemma read_completeness_back [simp]: "read_completeness (map_option completeness_value c) = Inr c"
proof (cases c)
  case (Some x)
  then show ?thesis by (cases x) (simp_all add: read_completeness_def parse_member_def)
qed (simp add: read_completeness_def)

lemma read_validation_outcome_back [simp]: "read_validation_outcome (map_option validation_outcome_json vo) = Inr vo"
  by (cases vo) (simp_all add: read_validation_outcome_def validation_outcome_of_json_def validation_outcome_json_def
      dget_def has_key_def)

definition step_type_ok :: "step_type \<Rightarrow> bool" where
  "step_type_ok t \<longleftrightarrow> t \<in> set step_type_members \<or> step_type_value t \<notin> set (map step_type_value step_type_members)"

lemma read_step_type_back: "step_type_ok t \<Longrightarrow> read_step_type (step_type_value t) = t"
  by (cases t) (auto simp: step_type_ok_def step_type_members_def read_step_type_def parse_member_def)

lemma dependencies_back:
  "\<forall>d \<in> set deps. d < uuid_bound \<Longrightarrow> dependencies_from_json (dependencies_to_json deps) = Inr deps"
proof -
  assume "\<forall>d \<in> set deps. d < uuid_bound"
  then have "map read_dependency (filter (\<lambda>d. has_key d ''step_id'') (dependencies_to_json deps)) = map Inr deps"
    by (induction deps) (simp_all add: dependencies_to_json_def read_dependency_def has_key_def dget_def uuid_parse_str)
  then show ?thesis by (simp add: dependencies_from_json_def all_ok_map)
qed

lemma delete_update_absent: "map_of d k = None \<Longrightarrow> AList.delete k (AList.update k v d) = d"
  by (induction d) (auto simp: AList.delete_eq map_of_eq_None_iff split: if_splits)

lemma restore_persisted:
  "\<not> has_key (ex_input ex) ORCH_EXECUTION_MODE_KEY \<Longrightarrow>
     restore_execution_input_and_mode (persist_execution_input ex) = (ex_input ex, ex_mode ex)"
  by (auto simp: restore_execution_input_and_mode_def persist_execution_input_def Let_def has_key_def dpop_def dset_def
      delete_update_absent dget_dset[unfolded dset_def])

text \<open>What a record must satisfy to be read back: the reserved key is unused, the bounds of the model hold,
  and a step type written as a text is not the name of a member.\<close>

definition execution_storable :: "execution \<Rightarrow> bool" where
  "execution_storable ex \<longleftrightarrow> \<not> has_key (ex_input ex) ORCH_EXECUTION_MODE_KEY"

definition step_storable :: "step \<Rightarrow> bool" where
  "step_storable s \<longleftrightarrow> step_valid s \<and> step_type_ok (st_type s) \<and> (\<forall>d \<in> set (st_dependencies s). d < uuid_bound)"

lemma rows_read_back:
  "row_to_context (context_to_row c) = Inr c"
  "execution_storable ex \<Longrightarrow> row_to_execution (execution_to_row ex) = Inr ex"
  "plan_valid p \<Longrightarrow> row_to_plan (plan_to_row p) = Inr p"
  "step_storable s \<Longrightarrow> row_to_step (step_to_row s) = Inr s"
  "step_result_valid r \<Longrightarrow> row_to_result (result_to_row r) = Inr r"
  "row_to_proposal (proposal_to_row ap) = Inr ap"
  "row_to_evaluation (evaluation_to_row e) = Inr e"
  "approval_valid a \<Longrightarrow> row_to_approval (approval_to_row a) = Inr a"
  "tool_call_valid t \<Longrightarrow> row_to_tool_call (tool_call_to_row t) = Inr t"
  by (simp_all add: row_to_context_def context_to_row_def row_to_execution_def execution_to_row_def restore_persisted
      execution_storable_def row_to_plan_def plan_to_row_def row_to_step_def step_to_row_def step_storable_def
      read_step_type_back dependencies_back row_to_result_def result_to_row_def row_to_proposal_def proposal_to_row_def
      row_to_evaluation_def evaluation_to_row_def row_to_approval_def approval_to_row_def row_to_tool_call_def
      tool_call_to_row_def checked_def plan_valid_def step_valid_def step_result_valid_def approval_valid_def tool_call_valid_def)

text \<open>An input that uses the reserved key comes back without it.\<close>

lemma reserved_key_lost:
  assumes "row_to_execution (execution_to_row ex) = Inr ex'"
  shows "\<not> has_key (ex_input ex') ORCH_EXECUTION_MODE_KEY"
  using assms
  by (auto simp: row_to_execution_def execution_to_row_def restore_execution_input_and_mode_def has_key_def dpop_def
      and_then_def delete_conv' split: sum.splits)

end
