(* ===== verification/Tables.thy ===== *)
theory Tables
  imports Repository Results "HOL-Library.Multiset"
begin

text \<open>
  A table of the database as the adapters use it.  Its operations are a parameter (\<open>relation\<close>): writing a row
  under its key (\<open>session.merge\<close>, or adding or changing a mapped object and committing), looking a row up by
  its key, and selecting rows with a condition, an order and a limit.  \<open>relation_ok\<close> says what they do to the
  rows the table holds; rows that tie in the order come in any order.  The locale \<open>row_mapping\<close> is what an
  adapter relies on of the mapping between records and rows: its lemmas say that the rows then behave like the
  dictionary of the records.
\<close>

section \<open>Operations on a table\<close>

record ('s, 'r) relation =
  rel_merge :: "'r \<Rightarrow> 's \<Rightarrow> 's"
  rel_get :: "'s \<Rightarrow> uuid \<Rightarrow> 'r option"
  rel_select :: "('r \<Rightarrow> bool) \<Rightarrow> ('r \<Rightarrow> int) \<Rightarrow> nat option \<Rightarrow> 's \<Rightarrow> 'r list"

definition read_row :: "('r \<Rightarrow> exn + 'a) \<Rightarrow> 'r option \<Rightarrow> exn + 'a option" where
  "read_row from_row found =
     (case found of None \<Rightarrow> Inr None | Some row \<Rightarrow> and_then (from_row row) (\<lambda>x. Inr (Some x)))"

definition read_rows :: "('r \<Rightarrow> exn + 'a) \<Rightarrow> 'r list \<Rightarrow> exn + 'a list" where
  "read_rows from_row rows = all_ok (map from_row rows)"

section \<open>What a table holds\<close>

type_synonym 'r table = "(uuid \<times> 'r) list"

definition merge_row :: "('r \<Rightarrow> uuid) \<Rightarrow> 'r \<Rightarrow> 'r table \<Rightarrow> 'r table" where
  "merge_row key row t = AList.update (key row) row t"

definition limited :: "nat option \<Rightarrow> 'r list \<Rightarrow> 'r list" where
  "limited limit rows = (case limit of None \<Rightarrow> rows | Some n \<Rightarrow> take n rows)"

definition selection :: "('r \<Rightarrow> bool) \<Rightarrow> ('r \<Rightarrow> int) \<Rightarrow> nat option \<Rightarrow> 'r table \<Rightarrow> 'r list \<Rightarrow> bool" where
  "selection wanted order_by limit t out \<longleftrightarrow>
     (\<exists>rows. mset rows = mset (filter wanted (map snd t)) \<and> sorted (map order_by rows) \<and> out = limited limit rows)"

definition relation_ok ::
  "('r \<Rightarrow> uuid) \<Rightarrow> ('d \<Rightarrow> 'r table) \<Rightarrow> ('r table \<Rightarrow> 'd \<Rightarrow> 'd) \<Rightarrow> ('s \<Rightarrow> 'd) \<Rightarrow> ('s, 'r) relation \<Rightarrow> bool" where
  "relation_ok key table replace view rel \<longleftrightarrow>
     (\<forall>row s. view (rel_merge rel row s) = replace (merge_row key row (table (view s))) (view s)) \<and>
     (\<forall>s k. rel_get rel s k = map_of (table (view s)) k) \<and>
     (\<forall>wanted order_by limit s. selection wanted order_by limit (table (view s)) (rel_select rel wanted order_by limit s))"

lemma relation_selects:
  "relation_ok key table replace view rel \<Longrightarrow> selection wanted order_by limit (table (view s)) (rel_select rel wanted order_by limit s)"
  by (simp add: relation_ok_def)

text \<open>The operations on the tables themselves.\<close>

definition relation_of :: "('r \<Rightarrow> uuid) \<Rightarrow> ('d \<Rightarrow> 'r table) \<Rightarrow> ('r table \<Rightarrow> 'd \<Rightarrow> 'd) \<Rightarrow> ('d, 'r) relation" where
  "relation_of key table replace =
     \<lparr>rel_merge = (\<lambda>row d. replace (merge_row key row (table d)) d),
      rel_get = (\<lambda>d. map_of (table d)),
      rel_select = (\<lambda>wanted order_by limit d. limited limit (sort_key order_by (filter wanted (map snd (table d)))))\<rparr>"

lemma relation_of_ok: "relation_ok key table replace id (relation_of key table replace)"
  unfolding relation_ok_def relation_of_def selection_def
  by (auto intro!: exI[of _ "sort_key _ (filter _ (map snd (table _)))"])

section \<open>The table of a dictionary\<close>

definition table_of :: "('a \<Rightarrow> 'r) \<Rightarrow> (uuid \<times> 'a) list \<Rightarrow> 'r table" where
  "table_of to_row d = map (map_prod id to_row) d"

lemma map_of_table: "map_of (table_of to_row d) k = map_option to_row (map_of d k)"
  by (induction d) (auto simp: table_of_def)

lemma keys_table [simp]: "map fst (table_of to_row d) = map fst d"
  by (simp add: table_of_def)

lemma values_table: "map snd (table_of to_row d) = map to_row (map snd d)"
  by (simp add: table_of_def)

lemma update_table: "AList.update k (to_row x) (table_of to_row d) = table_of to_row (AList.update k x d)"
  by (induction d) (auto simp: table_of_def)

lemma sort_key_map: "sort_key f (map g xs) = map g (sort_key (f \<circ> g) xs)"
proof -
  have "insort_key f (g x) (map g ys) = map g (insort_key (f \<circ> g) x ys)" for x ys
    by (induction ys) simp_all
  then show ?thesis by (induction xs) simp_all
qed

locale row_mapping =
  fixes key :: "'a \<Rightarrow> uuid" and row_key :: "'r \<Rightarrow> uuid" and to_row :: "'a \<Rightarrow> 'r" and from_row :: "'r \<Rightarrow> exn + 'a"
    and storable :: "'a \<Rightarrow> bool"
  assumes key_to_row: "row_key (to_row x) = key x"
    and round_trip: "storable x \<Longrightarrow> from_row (to_row x) = Inr x"
begin

lemma merge_refines: "merge_row row_key (to_row x) (table_of to_row d) = table_of to_row (AList.update (key x) x d)"
  by (simp add: merge_row_def key_to_row update_table)

lemma read_refines:
  "\<forall>x \<in> set (map snd d). storable x \<Longrightarrow> read_row from_row (map_of (table_of to_row d) k) = Inr (map_of d k)"
  by (auto simp: read_row_def map_of_table round_trip split: option.split dest!: map_of_SomeD)

lemma read_rows_refines: "\<forall>x \<in> set xs. storable x \<Longrightarrow> read_rows from_row (map to_row xs) = Inr xs"
  using round_trip by (simp add: read_rows_def o_def cong: map_cong) (metis all_ok_map)

lemma select_refines:
  assumes "selection wanted order_by limit (table_of to_row d) out"
    and "\<And>x. wanted (to_row x) = wanted' x" "\<And>x. order_by (to_row x) = order_by' x"
    and "inj_on order_by' (set (filter wanted' (map snd d)))"
  shows "out = map to_row (limited limit (sort_key order_by' (filter wanted' (map snd d))))"
proof -
  define xs where "xs = filter wanted' (map snd d)"
  have rows: "filter wanted (map snd (table_of to_row d)) = map to_row xs"
    using assms(2) by (simp add: xs_def values_table filter_map o_def)
  obtain ys where ys: "mset ys = mset (map to_row xs)" "sorted (map order_by ys)" "out = limited limit ys"
    using assms(1) unfolding selection_def rows by blast
  have "inj_on order_by (set (map to_row xs))"
    using assms(4) unfolding inj_on_def xs_def set_map ball_simps(9) assms(3) by blast
  then have "ys = sort_key order_by (map to_row xs)"
    using sort_key_inj_key_eq[OF ys(1)[symmetric] _ ys(2)] by simp
  then show ?thesis
    using ys(3) assms(3) by (simp add: sort_key_map o_def xs_def limited_def take_map split: option.split)
qed

lemma list_refines:
  assumes "selection wanted order_by limit (table_of to_row d) out"
    and "\<And>x. wanted (to_row x) = wanted' x" "\<And>x. order_by (to_row x) = order_by' x"
    and "inj_on order_by' (set (map snd d))" "\<forall>x \<in> set (map snd d). storable x"
  shows "read_rows from_row out = Inr (limited limit (sort_key order_by' (filter wanted' (map snd d))))"
proof -
  have inj: "inj_on order_by' (set (filter wanted' (map snd d)))"
    using assms(4) by (rule inj_on_subset) auto
  have "set (limited limit (sort_key order_by' (filter wanted' (map snd d)))) \<subseteq> set (map snd d)"
    by (auto simp: limited_def dest: in_set_takeD split: option.split)
  then have members: "\<forall>x \<in> set (limited limit (sort_key order_by' (filter wanted' (map snd d)))). storable x"
    using assms(5) by blast
  show ?thesis
    by (simp only: select_refines[OF assms(1-3) inj] read_rows_refines[OF members])
qed

end

end
