(* ===== verification/Postgres.thy ===== *)
theory Postgres
  imports Rows Tables
begin

text \<open>
  The PostgreSQL adapter (\<open>PostgresRepository\<close> of \<open>app/adapters/repository.py\<close>): every operation is one
  session that is committed.  The session is a parameter: its operations on the table of each class of
  \<open>app/adapters/models.py\<close>, over a state of any type.  \<open>session_ok\<close> is their documented behaviour, and under
  it the adapter refines the in-memory repository.
\<close>

section \<open>The adapter\<close>

record 's session =
  s_contexts :: "('s, context_row) relation"
  s_executions :: "('s, execution_row) relation"
  s_plans :: "('s, plan_row) relation"
  s_steps :: "('s, step_row) relation"
  s_results :: "('s, result_row) relation"
  s_proposals :: "('s, proposal_row) relation"
  s_evaluations :: "('s, evaluation_row) relation"
  s_approvals :: "('s, approval_table_row) relation"
  s_tool_calls :: "('s, tool_call_table_row) relation"

definition pg_save_context :: "'s session \<Rightarrow> exec_context \<Rightarrow> 's \<Rightarrow> 's" where
  "pg_save_context ss x = rel_merge (s_contexts ss) (context_to_row x)"

definition pg_get_context :: "'s session \<Rightarrow> 's \<Rightarrow> uuid \<Rightarrow> exn + exec_context option" where
  "pg_get_context ss s k = read_row row_to_context (rel_get (s_contexts ss) s k)"

definition pg_save_execution :: "'s session \<Rightarrow> execution \<Rightarrow> 's \<Rightarrow> 's" where
  "pg_save_execution ss x = rel_merge (s_executions ss) (execution_to_row x)"

definition pg_get_execution :: "'s session \<Rightarrow> 's \<Rightarrow> uuid \<Rightarrow> exn + execution option" where
  "pg_get_execution ss s k = read_row row_to_execution (rel_get (s_executions ss) s k)"

definition pg_update_execution :: "'s session \<Rightarrow> execution \<Rightarrow> ('s, unit) prog" where
  "pg_update_execution ss x s =
     (case rel_get (s_executions ss) s (ex_id x) of
        None \<Rightarrow> (Inl (Exn KeyError (repr_str (''execution '' @ uuid_str (ex_id x) @ '' not found''))), s)
      | Some existing \<Rightarrow> (Inr (), rel_merge (s_executions ss) (execution_to_row x) s))"

definition pg_save_plan :: "'s session \<Rightarrow> execution_plan \<Rightarrow> 's \<Rightarrow> 's" where
  "pg_save_plan ss x = rel_merge (s_plans ss) (plan_to_row x)"

definition pg_get_plan :: "'s session \<Rightarrow> 's \<Rightarrow> uuid \<Rightarrow> exn + execution_plan option" where
  "pg_get_plan ss s k = read_row row_to_plan (rel_get (s_plans ss) s k)"

definition pg_save_step :: "'s session \<Rightarrow> step \<Rightarrow> 's \<Rightarrow> 's" where
  "pg_save_step ss x = rel_merge (s_steps ss) (step_to_row x)"

definition pg_get_step :: "'s session \<Rightarrow> 's \<Rightarrow> uuid \<Rightarrow> exn + step option" where
  "pg_get_step ss s k = read_row row_to_step (rel_get (s_steps ss) s k)"

definition pg_update_step :: "'s session \<Rightarrow> step \<Rightarrow> ('s, unit) prog" where
  "pg_update_step ss x s =
     (case rel_get (s_steps ss) s (st_id x) of
        None \<Rightarrow> (Inl (Exn KeyError (repr_str (''step '' @ uuid_str (st_id x) @ '' not found''))), s)
      | Some existing \<Rightarrow> (Inr (), rel_merge (s_steps ss) (step_to_row x) s))"

text \<open>The row of the step is overwritten when there is one and added otherwise.\<close>

definition pg_save_step_result :: "'s session \<Rightarrow> step_result \<Rightarrow> 's \<Rightarrow> 's" where
  "pg_save_step_result ss x s =
     (case rel_get (s_results ss) s (sr_step_id x) of
        None \<Rightarrow> rel_merge (s_results ss) (result_to_row x) s
      | Some existing \<Rightarrow> rel_merge (s_results ss) (result_to_row x) s)"

definition pg_get_step_result :: "'s session \<Rightarrow> 's \<Rightarrow> uuid \<Rightarrow> exn + step_result option" where
  "pg_get_step_result ss s k = read_row row_to_result (rel_get (s_results ss) s k)"

definition pg_save_action_proposal :: "'s session \<Rightarrow> action_proposal \<Rightarrow> 's \<Rightarrow> 's" where
  "pg_save_action_proposal ss x = rel_merge (s_proposals ss) (proposal_to_row x)"

definition pg_get_action_proposal :: "'s session \<Rightarrow> 's \<Rightarrow> uuid \<Rightarrow> exn + action_proposal option" where
  "pg_get_action_proposal ss s k = read_row row_to_proposal (rel_get (s_proposals ss) s k)"

definition pg_save_policy_evaluation :: "'s session \<Rightarrow> policy_evaluation \<Rightarrow> 's \<Rightarrow> 's" where
  "pg_save_policy_evaluation ss x = rel_merge (s_evaluations ss) (evaluation_to_row x)"

definition pg_get_policy_evaluation :: "'s session \<Rightarrow> 's \<Rightarrow> uuid \<Rightarrow> exn + policy_evaluation option" where
  "pg_get_policy_evaluation ss s k = read_row row_to_evaluation (rel_get (s_evaluations ss) s k)"

definition pg_save_approval :: "'s session \<Rightarrow> approval \<Rightarrow> 's \<Rightarrow> 's" where
  "pg_save_approval ss x = rel_merge (s_approvals ss) (approval_to_row x)"

definition pg_get_approval :: "'s session \<Rightarrow> 's \<Rightarrow> uuid \<Rightarrow> exn + approval option" where
  "pg_get_approval ss s k = read_row row_to_approval (rel_get (s_approvals ss) s k)"

definition pg_save_tool_call :: "'s session \<Rightarrow> tool_call \<Rightarrow> 's \<Rightarrow> 's" where
  "pg_save_tool_call ss x = rel_merge (s_tool_calls ss) (tool_call_to_row x)"

definition pg_get_tool_call :: "'s session \<Rightarrow> 's \<Rightarrow> uuid \<Rightarrow> exn + tool_call option" where
  "pg_get_tool_call ss s k = read_row row_to_tool_call (rel_get (s_tool_calls ss) s k)"

definition pg_list_steps_for_execution :: "'s session \<Rightarrow> 's \<Rightarrow> uuid \<Rightarrow> exn + step list" where
  "pg_list_steps_for_execution ss s k =
     read_rows row_to_step (rel_select (s_steps ss) (\<lambda>w. xs_execution_id w = k) xs_created_at None s)"

definition pg_list_tool_calls_for_step :: "'s session \<Rightarrow> 's \<Rightarrow> uuid \<Rightarrow> exn + tool_call list" where
  "pg_list_tool_calls_for_step ss s k =
     read_rows row_to_tool_call (rel_select (s_tool_calls ss) (\<lambda>w. xt_step_id w = k) xt_created_at None s)"

definition pg_list_policy_evaluations_for_execution :: "'s session \<Rightarrow> 's \<Rightarrow> uuid \<Rightarrow> exn + policy_evaluation list" where
  "pg_list_policy_evaluations_for_execution ss s k =
     read_rows row_to_evaluation (rel_select (s_evaluations ss) (\<lambda>w. xv_execution_id w = k) xv_created_at None s)"

definition pg_list_action_proposals_for_execution :: "'s session \<Rightarrow> 's \<Rightarrow> uuid \<Rightarrow> exn + action_proposal list" where
  "pg_list_action_proposals_for_execution ss s k =
     read_rows row_to_proposal (rel_select (s_proposals ss) (\<lambda>w. xa_execution_id w = k) xa_created_at None s)"

definition pg_list_approvals_for_execution :: "'s session \<Rightarrow> 's \<Rightarrow> uuid \<Rightarrow> exn + approval list" where
  "pg_list_approvals_for_execution ss s k =
     read_rows row_to_approval (rel_select (s_approvals ss) (\<lambda>w. xo_execution_id w = k) xo_decided_at None s)"

text \<open>The row of an execution joined with the row of its context; without one it is not selected.\<close>

definition execution_selected ::
  "'s session \<Rightarrow> 's \<Rightarrow> string option \<Rightarrow> string option \<Rightarrow> string option \<Rightarrow> execution_row \<Rightarrow> bool" where
  "execution_selected ss s tenant workflow status w \<longleftrightarrow>
     (case rel_get (s_contexts ss) s (xe_context_id w) of None \<Rightarrow> False
      | Some c \<Rightarrow> (case tenant of None \<Rightarrow> True | Some t \<Rightarrow> xc_tenant_id c = t))
     \<and> (case workflow of None \<Rightarrow> True | Some wt \<Rightarrow> xe_workflow_type w = wt)
     \<and> (case status of None \<Rightarrow> True | Some st \<Rightarrow> xe_status w = st)"

definition pg_list_executions ::
  "'s session \<Rightarrow> 's \<Rightarrow> string option \<Rightarrow> string option \<Rightarrow> string option \<Rightarrow> int \<Rightarrow> exn + execution list" where
  "pg_list_executions ss s tenant workflow status limit =
     read_rows row_to_execution (rel_select (s_executions ss) (execution_selected ss s tenant workflow status)
       (\<lambda>w. - xe_created_at w) (Some (nat (max 1 (min limit 500)))) s)"

definition pg_list_executions_by_parent :: "'s session \<Rightarrow> 's \<Rightarrow> uuid \<Rightarrow> int \<Rightarrow> exn + execution list" where
  "pg_list_executions_by_parent ss s parent limit =
     read_rows row_to_execution (rel_select (s_executions ss) (\<lambda>w. xe_parent_id w = Some parent)
       (\<lambda>w. - xe_created_at w) (Some (nat (max 1 (min limit 500)))) s)"

section \<open>The database\<close>

text \<open>What a session is documented to do: its state stands for nine tables, and each operation is the one of
  its table and of no other.\<close>

record database =
  t_contexts :: "context_row table"
  t_executions :: "execution_row table"
  t_plans :: "plan_row table"
  t_steps :: "step_row table"
  t_results :: "result_row table"
  t_proposals :: "proposal_row table"
  t_evaluations :: "evaluation_row table"
  t_approvals :: "approval_table_row table"
  t_tool_calls :: "tool_call_table_row table"

definition empty_database :: database where
  "empty_database = \<lparr>t_contexts = [], t_executions = [], t_plans = [], t_steps = [], t_results = [],
     t_proposals = [], t_evaluations = [], t_approvals = [], t_tool_calls = []\<rparr>"

definition session_ok :: "('s \<Rightarrow> database) \<Rightarrow> 's session \<Rightarrow> bool" where
  "session_ok view ss \<longleftrightarrow>
     relation_ok xc_id t_contexts (\<lambda>t. t_contexts_update (\<lambda>_. t)) view (s_contexts ss) \<and>
     relation_ok xe_id t_executions (\<lambda>t. t_executions_update (\<lambda>_. t)) view (s_executions ss) \<and>
     relation_ok xp_id t_plans (\<lambda>t. t_plans_update (\<lambda>_. t)) view (s_plans ss) \<and>
     relation_ok xs_id t_steps (\<lambda>t. t_steps_update (\<lambda>_. t)) view (s_steps ss) \<and>
     relation_ok xr_step_id t_results (\<lambda>t. t_results_update (\<lambda>_. t)) view (s_results ss) \<and>
     relation_ok xa_id t_proposals (\<lambda>t. t_proposals_update (\<lambda>_. t)) view (s_proposals ss) \<and>
     relation_ok xv_id t_evaluations (\<lambda>t. t_evaluations_update (\<lambda>_. t)) view (s_evaluations ss) \<and>
     relation_ok xo_id t_approvals (\<lambda>t. t_approvals_update (\<lambda>_. t)) view (s_approvals ss) \<and>
     relation_ok xt_id t_tool_calls (\<lambda>t. t_tool_calls_update (\<lambda>_. t)) view (s_tool_calls ss)"

lemma session_relations:
  assumes "session_ok view ss"
  shows "relation_ok xc_id t_contexts (\<lambda>t. t_contexts_update (\<lambda>_. t)) view (s_contexts ss)"
    and "relation_ok xe_id t_executions (\<lambda>t. t_executions_update (\<lambda>_. t)) view (s_executions ss)"
    and "relation_ok xp_id t_plans (\<lambda>t. t_plans_update (\<lambda>_. t)) view (s_plans ss)"
    and "relation_ok xs_id t_steps (\<lambda>t. t_steps_update (\<lambda>_. t)) view (s_steps ss)"
    and "relation_ok xr_step_id t_results (\<lambda>t. t_results_update (\<lambda>_. t)) view (s_results ss)"
    and "relation_ok xa_id t_proposals (\<lambda>t. t_proposals_update (\<lambda>_. t)) view (s_proposals ss)"
    and "relation_ok xv_id t_evaluations (\<lambda>t. t_evaluations_update (\<lambda>_. t)) view (s_evaluations ss)"
    and "relation_ok xo_id t_approvals (\<lambda>t. t_approvals_update (\<lambda>_. t)) view (s_approvals ss)"
    and "relation_ok xt_id t_tool_calls (\<lambda>t. t_tool_calls_update (\<lambda>_. t)) view (s_tool_calls ss)"
  using assms by (simp_all only: session_ok_def)

lemma session_gets:
  assumes "session_ok view ss"
  shows "rel_get (s_contexts ss) s k = map_of (t_contexts (view s)) k"
    and "rel_get (s_executions ss) s k = map_of (t_executions (view s)) k"
    and "rel_get (s_plans ss) s k = map_of (t_plans (view s)) k"
    and "rel_get (s_steps ss) s k = map_of (t_steps (view s)) k"
    and "rel_get (s_results ss) s k = map_of (t_results (view s)) k"
    and "rel_get (s_proposals ss) s k = map_of (t_proposals (view s)) k"
    and "rel_get (s_evaluations ss) s k = map_of (t_evaluations (view s)) k"
    and "rel_get (s_approvals ss) s k = map_of (t_approvals (view s)) k"
    and "rel_get (s_tool_calls ss) s k = map_of (t_tool_calls (view s)) k"
  using session_relations[OF assms] by (simp_all only: relation_ok_def)

lemma session_merges:
  assumes "session_ok view ss"
  shows "view (rel_merge (s_contexts ss) w0 s) = (view s)\<lparr>t_contexts := merge_row xc_id w0 (t_contexts (view s))\<rparr>"
    and "view (rel_merge (s_executions ss) w1 s) = (view s)\<lparr>t_executions := merge_row xe_id w1 (t_executions (view s))\<rparr>"
    and "view (rel_merge (s_plans ss) w2 s) = (view s)\<lparr>t_plans := merge_row xp_id w2 (t_plans (view s))\<rparr>"
    and "view (rel_merge (s_steps ss) w3 s) = (view s)\<lparr>t_steps := merge_row xs_id w3 (t_steps (view s))\<rparr>"
    and "view (rel_merge (s_results ss) w4 s) = (view s)\<lparr>t_results := merge_row xr_step_id w4 (t_results (view s))\<rparr>"
    and "view (rel_merge (s_proposals ss) w5 s) = (view s)\<lparr>t_proposals := merge_row xa_id w5 (t_proposals (view s))\<rparr>"
    and "view (rel_merge (s_evaluations ss) w6 s) = (view s)\<lparr>t_evaluations := merge_row xv_id w6 (t_evaluations (view s))\<rparr>"
    and "view (rel_merge (s_approvals ss) w7 s) = (view s)\<lparr>t_approvals := merge_row xo_id w7 (t_approvals (view s))\<rparr>"
    and "view (rel_merge (s_tool_calls ss) w8 s) = (view s)\<lparr>t_tool_calls := merge_row xt_id w8 (t_tool_calls (view s))\<rparr>"
  using session_relations[OF assms] by (simp_all only: relation_ok_def)

text \<open>The session over the tables themselves.\<close>

definition table_session :: "database session" where
  "table_session =
     \<lparr>s_contexts = relation_of xc_id t_contexts (\<lambda>t. t_contexts_update (\<lambda>_. t)),
      s_executions = relation_of xe_id t_executions (\<lambda>t. t_executions_update (\<lambda>_. t)),
      s_plans = relation_of xp_id t_plans (\<lambda>t. t_plans_update (\<lambda>_. t)),
      s_steps = relation_of xs_id t_steps (\<lambda>t. t_steps_update (\<lambda>_. t)),
      s_results = relation_of xr_step_id t_results (\<lambda>t. t_results_update (\<lambda>_. t)),
      s_proposals = relation_of xa_id t_proposals (\<lambda>t. t_proposals_update (\<lambda>_. t)),
      s_evaluations = relation_of xv_id t_evaluations (\<lambda>t. t_evaluations_update (\<lambda>_. t)),
      s_approvals = relation_of xo_id t_approvals (\<lambda>t. t_approvals_update (\<lambda>_. t)),
      s_tool_calls = relation_of xt_id t_tool_calls (\<lambda>t. t_tool_calls_update (\<lambda>_. t))\<rparr>"

lemma table_session_ok: "session_ok id table_session"
  by (simp add: session_ok_def table_session_def relation_of_ok)

text \<open>The tables that hold the rows of a repository.\<close>

definition database_of :: "repo \<Rightarrow> database" where
  "database_of r =
     \<lparr>t_contexts = table_of context_to_row (r_contexts r),
      t_executions = table_of execution_to_row (r_executions r),
      t_plans = table_of plan_to_row (r_plans r),
      t_steps = table_of step_to_row (r_steps r),
      t_results = table_of result_to_row (r_step_results r),
      t_proposals = table_of proposal_to_row (r_proposals r),
      t_evaluations = table_of evaluation_to_row (r_evaluations r),
      t_approvals = table_of approval_to_row (r_approvals r),
      t_tool_calls = table_of tool_call_to_row (r_tool_calls r)\<rparr>"

lemma database_of_empty: "database_of empty_repo = empty_database"
  by (simp add: database_of_def empty_repo_def empty_database_def table_of_def)

interpretation context_rows: row_mapping ctx_id xc_id context_to_row row_to_context "\<lambda>_. True"
  by unfold_locales (simp add: context_to_row_def, simp add: rows_read_back)

interpretation execution_rows: row_mapping ex_id xe_id execution_to_row row_to_execution "execution_storable"
  by unfold_locales (simp add: execution_to_row_def, simp add: rows_read_back)

interpretation plan_rows: row_mapping pl_id xp_id plan_to_row row_to_plan "plan_valid"
  by unfold_locales (simp add: plan_to_row_def, simp add: rows_read_back)

interpretation step_rows: row_mapping st_id xs_id step_to_row row_to_step "step_storable"
  by unfold_locales (simp add: step_to_row_def, simp add: rows_read_back)

interpretation step_result_rows: row_mapping sr_step_id xr_step_id result_to_row row_to_result "step_result_valid"
  by unfold_locales (simp add: result_to_row_def, simp add: rows_read_back)

interpretation action_proposal_rows: row_mapping ap_id xa_id proposal_to_row row_to_proposal "\<lambda>_. True"
  by unfold_locales (simp add: proposal_to_row_def, simp add: rows_read_back)

interpretation policy_evaluation_rows: row_mapping pe_id xv_id evaluation_to_row row_to_evaluation "\<lambda>_. True"
  by unfold_locales (simp add: evaluation_to_row_def, simp add: rows_read_back)

interpretation approval_rows: row_mapping apr_id xo_id approval_to_row row_to_approval "approval_valid"
  by unfold_locales (simp add: approval_to_row_def, simp add: rows_read_back)

interpretation tool_call_rows: row_mapping tc_id xt_id tool_call_to_row row_to_tool_call "tool_call_valid"
  by unfold_locales (simp add: tool_call_to_row_def, simp add: rows_read_back)

section \<open>Writing\<close>

datatype store_call =
    Save_Context exec_context
  | Save_Execution execution
  | Save_Plan execution_plan
  | Save_Step step
  | Save_Step_Result step_result
  | Save_Proposal action_proposal
  | Save_Evaluation policy_evaluation
  | Save_Approval approval
  | Save_Tool_Call tool_call
  | Update_Execution execution
  | Update_Step step

fun memory_call :: "store_call \<Rightarrow> (repo, unit) prog" where
  "memory_call (Save_Context x) = modifies (save_context x)"
| "memory_call (Save_Execution x) = modifies (save_execution x)"
| "memory_call (Save_Plan x) = modifies (save_plan x)"
| "memory_call (Save_Step x) = modifies (save_step x)"
| "memory_call (Save_Step_Result x) = modifies (save_step_result x)"
| "memory_call (Save_Proposal x) = modifies (save_action_proposal x)"
| "memory_call (Save_Evaluation x) = modifies (save_policy_evaluation x)"
| "memory_call (Save_Approval x) = modifies (save_approval x)"
| "memory_call (Save_Tool_Call x) = modifies (save_tool_call x)"
| "memory_call (Update_Execution x) = update_execution x"
| "memory_call (Update_Step x) = update_step x"

fun postgres_call :: "'s session \<Rightarrow> store_call \<Rightarrow> ('s, unit) prog" where
  "postgres_call ss (Save_Context x) = modifies (pg_save_context ss x)"
| "postgres_call ss (Save_Execution x) = modifies (pg_save_execution ss x)"
| "postgres_call ss (Save_Plan x) = modifies (pg_save_plan ss x)"
| "postgres_call ss (Save_Step x) = modifies (pg_save_step ss x)"
| "postgres_call ss (Save_Step_Result x) = modifies (pg_save_step_result ss x)"
| "postgres_call ss (Save_Proposal x) = modifies (pg_save_action_proposal ss x)"
| "postgres_call ss (Save_Evaluation x) = modifies (pg_save_policy_evaluation ss x)"
| "postgres_call ss (Save_Approval x) = modifies (pg_save_approval ss x)"
| "postgres_call ss (Save_Tool_Call x) = modifies (pg_save_tool_call ss x)"
| "postgres_call ss (Update_Execution x) = pg_update_execution ss x"
| "postgres_call ss (Update_Step x) = pg_update_step ss x"

lemma saves_refine:
  assumes "session_ok view ss" "view s = database_of r"
  shows "view (pg_save_context ss x0 s) = database_of (save_context x0 r)"
    and "view (pg_save_execution ss x1 s) = database_of (save_execution x1 r)"
    and "view (pg_save_plan ss x2 s) = database_of (save_plan x2 r)"
    and "view (pg_save_step ss x3 s) = database_of (save_step x3 r)"
    and "view (pg_save_step_result ss x4 s) = database_of (save_step_result x4 r)"
    and "view (pg_save_action_proposal ss x5 s) = database_of (save_action_proposal x5 r)"
    and "view (pg_save_policy_evaluation ss x6 s) = database_of (save_policy_evaluation x6 r)"
    and "view (pg_save_approval ss x7 s) = database_of (save_approval x7 r)"
    and "view (pg_save_tool_call ss x8 s) = database_of (save_tool_call x8 r)"
  unfolding pg_save_context_def pg_save_execution_def pg_save_plan_def pg_save_step_def pg_save_step_result_def
    pg_save_action_proposal_def pg_save_policy_evaluation_def pg_save_approval_def pg_save_tool_call_def repo_saves
  by (simp_all add: session_merges[OF assms(1)] assms(2) database_of_def context_rows.merge_refines execution_rows.merge_refines plan_rows.merge_refines
    step_rows.merge_refines step_result_rows.merge_refines action_proposal_rows.merge_refines policy_evaluation_rows.merge_refines approval_rows.merge_refines tool_call_rows.merge_refines split: option.split)

lemma updates_refine:
  assumes "session_ok view ss" "view s = database_of r"
  shows "fst (pg_update_execution ss x s) = fst (update_execution x r)"
    and "view (snd (pg_update_execution ss x s)) = database_of (snd (update_execution x r))"
    and "fst (pg_update_step ss y s) = fst (update_step y r)"
    and "view (snd (pg_update_step ss y s)) = database_of (snd (update_step y r))"
proof -
  have found: "(rel_get (s_executions ss) s k = None) = (k \<notin> set (map fst (r_executions r)))"
    "(rel_get (s_steps ss) s k = None) = (k \<notin> set (map fst (r_steps r)))" for k
    by (simp_all add: session_gets[OF assms(1)] assms(2) database_of_def map_of_table map_of_eq_None_iff)
  show "fst (pg_update_execution ss x s) = fst (update_execution x r)"
    "view (snd (pg_update_execution ss x s)) = database_of (snd (update_execution x r))"
    using found(1)[of "ex_id x"] saves_refine(2)[OF assms, of x] assms(2)
    by (auto simp: pg_update_execution_def update_execution_def pg_save_execution_def split: option.split)
  show "fst (pg_update_step ss y s) = fst (update_step y r)"
    "view (snd (pg_update_step ss y s)) = database_of (snd (update_step y r))"
    using found(2)[of "st_id y"] saves_refine(4)[OF assms, of y] assms(2)
    by (auto simp: pg_update_step_def update_step_def pg_save_step_def split: option.split)
qed

lemma call_refines:
  assumes "session_ok view ss" "view s = database_of r"
  shows "fst (postgres_call ss c s) = fst (memory_call c r)"
    and "view (snd (postgres_call ss c s)) = database_of (snd (memory_call c r))"
  by (cases c; simp add: modifies_def saves_refine[OF assms] updates_refine[OF assms])+

text \<open>A history of writes: what each call returns, and the store it leaves.\<close>

fun history :: "(store_call \<Rightarrow> ('s, unit) prog) \<Rightarrow> store_call list \<Rightarrow> 's \<Rightarrow> (exn + unit) list \<times> 's" where
  "history call [] s = ([], s)"
| "history call (c # cs) s =
     (let s' = snd (call c s) in (fst (call c s) # fst (history call cs s'), snd (history call cs s')))"

lemma history_refines:
  assumes "session_ok view ss" "view s = database_of r"
  shows "fst (history (postgres_call ss) cs s) = fst (history memory_call cs r) \<and>
    view (snd (history (postgres_call ss) cs s)) = database_of (snd (history memory_call cs r))"
  using assms(2)
proof (induction cs arbitrary: s r)
  case (Cons c cs)
  note step = call_refines[OF assms(1) Cons.prems, of c]
  show ?case using Cons.IH[OF step(2)] step(1) by (simp add: Let_def)
qed simp

section \<open>Reading\<close>

definition all_values :: "('a \<Rightarrow> bool) \<Rightarrow> (uuid \<times> 'a) list \<Rightarrow> bool" where
  "all_values ok d \<longleftrightarrow> (\<forall>x \<in> set (map snd d). ok x)"

lemma all_values_update: "all_values ok d \<Longrightarrow> ok x \<Longrightarrow> all_values ok (AList.update k x d)"
  by (induction d) (auto simp: all_values_def)

definition repo_storable :: "repo \<Rightarrow> bool" where
  "repo_storable r \<longleftrightarrow> all_values execution_storable (r_executions r) \<and> all_values plan_valid (r_plans r) \<and>
     all_values step_storable (r_steps r) \<and> all_values step_result_valid (r_step_results r) \<and>
     all_values approval_valid (r_approvals r) \<and> all_values tool_call_valid (r_tool_calls r)"

fun call_storable :: "store_call \<Rightarrow> bool" where
  "call_storable (Save_Execution x) = execution_storable x"
| "call_storable (Update_Execution x) = execution_storable x"
| "call_storable (Save_Plan x) = plan_valid x"
| "call_storable (Save_Step x) = step_storable x"
| "call_storable (Update_Step x) = step_storable x"
| "call_storable (Save_Step_Result x) = step_result_valid x"
| "call_storable (Save_Approval x) = approval_valid x"
| "call_storable (Save_Tool_Call x) = tool_call_valid x"
| "call_storable c = True"

lemma storable_call: "repo_storable r \<Longrightarrow> call_storable c \<Longrightarrow> repo_storable (snd (memory_call c r))"
  by (cases c) (simp_all add: modifies_def repo_saves repo_storable_def all_values_update update_execution_def update_step_def)

lemma storable_history:
  "repo_storable r \<Longrightarrow> \<forall>c \<in> set cs. call_storable c \<Longrightarrow> repo_storable (snd (history memory_call cs r))"
  by (induction cs arbitrary: r) (simp_all add: Let_def storable_call)

lemma storable_empty: "repo_storable empty_repo"
  by (simp add: repo_storable_def empty_repo_def all_values_def)

lemma reads_refine:
  assumes "session_ok view ss" "view s = database_of r" "repo_storable r"
  shows "pg_get_context ss s k = Inr (get_context r k)"
    and "pg_get_execution ss s k = Inr (get_execution r k)"
    and "pg_get_plan ss s k = Inr (get_plan r k)"
    and "pg_get_step ss s k = Inr (get_step r k)"
    and "pg_get_step_result ss s k = Inr (get_step_result r k)"
    and "pg_get_action_proposal ss s k = Inr (get_action_proposal r k)"
    and "pg_get_policy_evaluation ss s k = Inr (get_policy_evaluation r k)"
    and "pg_get_approval ss s k = Inr (get_approval r k)"
    and "pg_get_tool_call ss s k = Inr (get_tool_call r k)"
  unfolding pg_get_context_def pg_get_execution_def pg_get_plan_def pg_get_step_def pg_get_step_result_def
    pg_get_action_proposal_def pg_get_policy_evaluation_def pg_get_approval_def pg_get_tool_call_def repo_gets session_gets[OF assms(1)] assms(2)
  using assms(3)
  by (simp_all add: database_of_def repo_storable_def all_values_def context_rows.read_refines execution_rows.read_refines plan_rows.read_refines
    step_rows.read_refines step_result_rows.read_refines action_proposal_rows.read_refines policy_evaluation_rows.read_refines approval_rows.read_refines tool_call_rows.read_refines)

end
