(* ===== verification/Postgres_Properties.thy ===== *)
theory Postgres_Properties
  imports Postgres Sample_World
begin

text \<open>
  The PostgreSQL adapter against the in-memory repository: after the same writes both give the same answers,
  and a listing is the same wherever the order of the database is determined.
\<close>

section \<open>Reads after writes\<close>

definition reads_alike :: "'s session \<Rightarrow> 's \<Rightarrow> repo \<Rightarrow> bool" where
  "reads_alike ss s r \<longleftrightarrow> (\<forall>k.
     pg_get_context ss s k = Inr (get_context r k) \<and> pg_get_execution ss s k = Inr (get_execution r k) \<and>
     pg_get_plan ss s k = Inr (get_plan r k) \<and> pg_get_step ss s k = Inr (get_step r k) \<and>
     pg_get_step_result ss s k = Inr (get_step_result r k) \<and>
     pg_get_action_proposal ss s k = Inr (get_action_proposal r k) \<and>
     pg_get_policy_evaluation ss s k = Inr (get_policy_evaluation r k) \<and>
     pg_get_approval ss s k = Inr (get_approval r k) \<and> pg_get_tool_call ss s k = Inr (get_tool_call r k))"

lemma reads_alike_of: "session_ok view ss \<Longrightarrow> view s = database_of r \<Longrightarrow> repo_storable r \<Longrightarrow> reads_alike ss s r"
  by (simp add: reads_alike_def reads_refine)

lemma stored_in_database:
  assumes "\<forall>c \<in> set cs. call_storable c"
  shows "repo_storable (snd (history memory_call cs empty_repo))"
  using assms storable_history[OF storable_empty] by blast

text \<open>Two executions, the second one updated, and an update of a step that does not exist.\<close>

definition stored_step :: step where
  "stored_step = \<lparr>st_id = 9, st_execution_id = 1, st_plan_id = 5, st_type = ST_TOOL, st_agent = ''a'', st_input = [],
     st_status = SS_PENDING, st_dependencies = [3], st_retry_count = 0, st_degraded_allowed = False,
     st_created_at = 7, st_updated_at = 7\<rparr>"

definition sample_writes :: "store_call list" where
  "sample_writes =
     [Save_Context (new_context sample_args 2 5), Save_Execution (new_execution sample_args 1 2 5),
      Save_Execution (new_execution sample_args 3 2 6),
      Update_Execution (new_execution sample_args 3 2 6\<lparr>ex_status := ES_PLANNING\<rparr>), Update_Step stored_step,
      Save_Step stored_step]"


lemma sample_writes_storable: "\<forall>c \<in> set sample_writes. call_storable c"
  by (simp add: sample_writes_def execution_storable_def new_execution_def sample_args_def has_key_def
      ORCH_EXECUTION_MODE_KEY_def stored_step_def step_storable_def step_valid_def step_type_ok_def step_type_members_def)

definition stored_repo :: repo where
  "stored_repo = snd (history memory_call sample_writes empty_repo)"

lemma stored_repo_is:
  "stored_repo = empty_repo
     \<lparr>r_contexts := [(2, new_context sample_args 2 5)],
      r_executions := [(1, new_execution sample_args 1 2 5), (3, new_execution sample_args 3 2 6\<lparr>ex_status := ES_PLANNING\<rparr>)],
      r_steps := [(9, stored_step)]\<rparr>"
  by (simp add: stored_repo_def sample_writes_def modifies_def repo_saves update_execution_def update_step_def empty_repo_def
      new_execution_def new_context_def stored_step_def)


section \<open>Listings\<close>

text \<open>No two rows of a table tie in the order its listing asks for.\<close>

definition no_ties :: "repo \<Rightarrow> bool" where
  "no_ties r \<longleftrightarrow> inj_on ex_created_at (set (map snd (r_executions r))) \<and>
     inj_on st_created_at (set (map snd (r_steps r))) \<and> inj_on tc_created_at (set (map snd (r_tool_calls r))) \<and>
     inj_on pe_created_at (set (map snd (r_evaluations r))) \<and> inj_on ap_created_at (set (map snd (r_proposals r))) \<and>
     inj_on apr_decided_at (set (map snd (r_approvals r)))"

text \<open>The foreign key of an execution: its context is stored.\<close>

definition contexts_stored :: "repo \<Rightarrow> bool" where
  "contexts_stored r \<longleftrightarrow> all_values (\<lambda>ex. get_context r (ex_context_id ex) \<noteq> None) (r_executions r)"

lemma row_columns:
  "xs_execution_id (step_to_row s) = st_execution_id s" "xs_created_at (step_to_row s) = st_created_at s"
  "xt_step_id (tool_call_to_row t) = tc_step_id t" "xt_created_at (tool_call_to_row t) = tc_created_at t"
  "xv_execution_id (evaluation_to_row e) = pe_execution_id e" "xv_created_at (evaluation_to_row e) = pe_created_at e"
  "xa_execution_id (proposal_to_row p) = ap_execution_id p" "xa_created_at (proposal_to_row p) = ap_created_at p"
  "xo_execution_id (approval_to_row a) = apr_execution_id a" "xo_decided_at (approval_to_row a) = apr_decided_at a"
  "xe_context_id (execution_to_row ex) = ex_context_id ex" "xe_parent_id (execution_to_row ex) = ex_parent_id ex"
  "xe_workflow_type (execution_to_row ex) = ex_workflow_type ex"
  "xe_status (execution_to_row ex) = execution_status_value (ex_status ex)"
  "xe_created_at (execution_to_row ex) = ex_created_at ex" "xc_tenant_id (context_to_row c) = ctx_tenant_id c"
  by (simp_all add: step_to_row_def tool_call_to_row_def evaluation_to_row_def proposal_to_row_def approval_to_row_def
      execution_to_row_def context_to_row_def)

lemma session_selects:
  assumes "session_ok view ss" "view s = database_of r"
  shows "selection w1 o1 l1 (table_of step_to_row (r_steps r)) (rel_select (s_steps ss) w1 o1 l1 s)"
    and "selection w2 o2 l2 (table_of tool_call_to_row (r_tool_calls r)) (rel_select (s_tool_calls ss) w2 o2 l2 s)"
    and "selection w3 o3 l3 (table_of evaluation_to_row (r_evaluations r)) (rel_select (s_evaluations ss) w3 o3 l3 s)"
    and "selection w4 o4 l4 (table_of proposal_to_row (r_proposals r)) (rel_select (s_proposals ss) w4 o4 l4 s)"
    and "selection w5 o5 l5 (table_of approval_to_row (r_approvals r)) (rel_select (s_approvals ss) w5 o5 l5 s)"
    and "selection w6 o6 l6 (table_of execution_to_row (r_executions r)) (rel_select (s_executions ss) w6 o6 l6 s)"
  using session_relations[OF assms(1), THEN relation_selects, of _ _ _ s] unfolding assms(2)
  by (simp_all add: database_of_def)

lemma listings_refine:
  assumes "session_ok view ss" "view s = database_of r" "repo_storable r" "no_ties r"
  shows "pg_list_steps_for_execution ss s k = Inr (list_steps_for_execution r k)"
    and "pg_list_tool_calls_for_step ss s k = Inr (list_tool_calls_for_step r k)"
    and "pg_list_policy_evaluations_for_execution ss s k = Inr (list_policy_evaluations_for_execution r k)"
    and "pg_list_action_proposals_for_execution ss s k = Inr (list_action_proposals_for_execution r k)"
    and "pg_list_approvals_for_execution ss s k = Inr (list_approvals_for_execution r k)"
proof -
  note records = repo_storable_def all_values_def no_ties_def limited_def
  note selects = session_selects[OF assms(1,2)]
  show "pg_list_steps_for_execution ss s k = Inr (list_steps_for_execution r k)"
    using assms(3,4) step_rows.list_refines[where wanted' = "\<lambda>x. st_execution_id x = k" and order_by' = st_created_at, OF selects(1)]
    by (simp add: pg_list_steps_for_execution_def list_steps_for_execution_def row_columns records)
  show "pg_list_tool_calls_for_step ss s k = Inr (list_tool_calls_for_step r k)"
    using assms(3,4) tool_call_rows.list_refines[where wanted' = "\<lambda>x. tc_step_id x = k" and order_by' = tc_created_at, OF selects(2)]
    by (simp add: pg_list_tool_calls_for_step_def list_tool_calls_for_step_def row_columns records)
  show "pg_list_policy_evaluations_for_execution ss s k = Inr (list_policy_evaluations_for_execution r k)"
    using assms(3,4) policy_evaluation_rows.list_refines[where wanted' = "\<lambda>x. pe_execution_id x = k" and order_by' = pe_created_at, OF selects(3)]
    by (simp add: pg_list_policy_evaluations_for_execution_def list_policy_evaluations_for_execution_def row_columns records)
  show "pg_list_action_proposals_for_execution ss s k = Inr (list_action_proposals_for_execution r k)"
    using assms(3,4) action_proposal_rows.list_refines[where wanted' = "\<lambda>x. ap_execution_id x = k" and order_by' = ap_created_at, OF selects(4)]
    by (simp add: pg_list_action_proposals_for_execution_def list_action_proposals_for_execution_def row_columns records)
  show "pg_list_approvals_for_execution ss s k = Inr (list_approvals_for_execution r k)"
    using assms(3,4) approval_rows.list_refines[where wanted' = "\<lambda>x. apr_execution_id x = k" and order_by' = apr_decided_at, OF selects(5)]
    by (simp add: pg_list_approvals_for_execution_def list_approvals_for_execution_def row_columns records)
qed

definition listed :: "repo \<Rightarrow> string option \<Rightarrow> string option \<Rightarrow> string option \<Rightarrow> execution \<Rightarrow> bool" where
  "listed r tenant workflow status ex \<longleftrightarrow>
     (case tenant of None \<Rightarrow> True
      | Some t \<Rightarrow> (case get_context r (ex_context_id ex) of None \<Rightarrow> False | Some c \<Rightarrow> ctx_tenant_id c = t))
     \<and> (case workflow of None \<Rightarrow> True | Some wt \<Rightarrow> ex_workflow_type ex = wt)
     \<and> (case status of None \<Rightarrow> True | Some s \<Rightarrow> execution_status_value (ex_status ex) = s)"

lemma list_executions_listed:
  "list_executions r tenant workflow status limit = limited (Some (nat (max 1 (min limit 500))))
     (sort_key (\<lambda>ex. - ex_created_at ex) (filter (listed r tenant workflow status) (map snd (r_executions r))))"
  by (cases tenant; cases workflow; cases status)
     (simp_all add: list_executions_def Let_def limit_rows_def newest_first_def listed_def[abs_def] limited_def
      conj_commute conj_left_commute)

lemma selected_listed:
  assumes "session_ok view ss" "view s = database_of r" "get_context r (ex_context_id ex) \<noteq> None"
  shows "execution_selected ss s tenant workflow status (execution_to_row ex) = listed r tenant workflow status ex"
  using assms(3)
  by (auto simp: execution_selected_def listed_def session_gets[OF assms(1)] assms(2) database_of_def map_of_table
      row_columns get_context_def split: option.splits)

lemma executions_refine:
  assumes "session_ok view ss" "view s = database_of r" "repo_storable r" "no_ties r"
  shows "contexts_stored r \<Longrightarrow> pg_list_executions ss s tenant workflow status limit =
      Inr (list_executions r tenant workflow status limit)"
    and "pg_list_executions_by_parent ss s k limit = Inr (list_executions_by_parent r k limit)"
proof -
  note records = repo_storable_def all_values_def no_ties_def
  have newest: "inj_on (\<lambda>ex. - ex_created_at ex) (set (map snd (r_executions r)))"
    using assms(4) by (simp add: no_ties_def inj_on_def)
  note refines = execution_rows.list_refines[where order_by' = "\<lambda>ex. - ex_created_at ex", OF session_selects(6)[OF assms(1,2)]]
  show "pg_list_executions ss s tenant workflow status limit = Inr (list_executions r tenant workflow status limit)"
    if "contexts_stored r"
  proof -
    have "filter (listed r tenant workflow status) (map snd (r_executions r)) =
        filter (\<lambda>ex. execution_selected ss s tenant workflow status (execution_to_row ex)) (map snd (r_executions r))"
      using that selected_listed[OF assms(1,2)] by (intro filter_cong) (auto simp: contexts_stored_def all_values_def)
    then show ?thesis
      unfolding list_executions_listed pg_list_executions_def
      using assms(3) newest refines by (simp add: row_columns records)
  qed
  show "pg_list_executions_by_parent ss s k limit = Inr (list_executions_by_parent r k limit)"
    using assms(3) newest refines[where wanted' = "\<lambda>ex. ex_parent_id ex = Some k"]
    by (simp add: pg_list_executions_by_parent_def list_executions_by_parent_def limit_rows_def newest_first_def
        row_columns records limited_def)
qed



end
