(* ===== verification/Feedback_Postgres.thy ===== *)
theory Feedback_Postgres
  imports Feedback Tables
begin

text \<open>
  The PostgreSQL adapter of the feedback service (\<open>PostgresFeedbackRepository\<close> of
  \<open>feedback_service/repository.py\<close>) over the two tables of \<open>feedback_service/models.py\<close>.  The session is a
  parameter as in \<open>Postgres\<close>; an insert that updates the row on a conflict is its \<open>rel_merge\<close>.
\<close>

section \<open>The adapter\<close>

record 's feedback_session =
  fs_operator :: "('s, operator_row) relation"
  fs_mukti :: "('s, feedback_row) relation"

definition pg_save_operator_feedback :: "'s feedback_session \<Rightarrow> operator_feedback \<Rightarrow> 's \<Rightarrow> 's" where
  "pg_save_operator_feedback ss x = rel_merge (fs_operator ss) (op_to_row x)"

definition pg_get_operator_feedback :: "'s feedback_session \<Rightarrow> 's \<Rightarrow> uuid \<Rightarrow> exn + operator_feedback option" where
  "pg_get_operator_feedback ss s k = read_row row_to_op (rel_get (fs_operator ss) s k)"

definition pg_list_operator_feedback :: "'s feedback_session \<Rightarrow> 's \<Rightarrow> uuid \<Rightarrow> exn + operator_feedback list" where
  "pg_list_operator_feedback ss s eid =
     read_rows row_to_op (rel_select (fs_operator ss) (\<lambda>w. or_execution_id w = eid) or_created_at None s)"

definition pg_save_execution_feedback :: "'s feedback_session \<Rightarrow> execution_feedback \<Rightarrow> 's \<Rightarrow> 's" where
  "pg_save_execution_feedback ss x = rel_merge (fs_mukti ss) (ef_to_row x)"

definition pg_get_execution_feedback :: "'s feedback_session \<Rightarrow> 's \<Rightarrow> uuid \<Rightarrow> exn + execution_feedback option" where
  "pg_get_execution_feedback ss s k = read_row row_to_ef (rel_get (fs_mukti ss) s k)"

definition pg_list_execution_feedback_for_execution ::
  "'s feedback_session \<Rightarrow> 's \<Rightarrow> uuid \<Rightarrow> exn + execution_feedback list" where
  "pg_list_execution_feedback_for_execution ss s eid =
     read_rows row_to_ef (rel_select (fs_mukti ss) (\<lambda>w. fw_execution_id w = eid) fw_created_at None s)"

definition pg_list_execution_feedback ::
  "'s feedback_session \<Rightarrow> 's \<Rightarrow> int \<Rightarrow> uuid list option \<Rightarrow> exn + execution_feedback list" where
  "pg_list_execution_feedback ss s limit ids =
     read_rows row_to_ef (rel_select (fs_mukti ss)
       (\<lambda>w. case ids of None \<Rightarrow> True | Some allowed \<Rightarrow> fw_execution_id w \<in> set allowed)
       (\<lambda>w. - fw_created_at w) (Some (nat (max 1 limit))) s)"

section \<open>The two tables\<close>

record feedback_tables =
  ft_operator :: "operator_row table"
  ft_mukti :: "feedback_row table"

definition feedback_session_ok :: "('s \<Rightarrow> feedback_tables) \<Rightarrow> 's feedback_session \<Rightarrow> bool" where
  "feedback_session_ok view ss \<longleftrightarrow>
     relation_ok or_id ft_operator (\<lambda>t. ft_operator_update (\<lambda>_. t)) view (fs_operator ss) \<and>
     relation_ok fw_id ft_mukti (\<lambda>t. ft_mukti_update (\<lambda>_. t)) view (fs_mukti ss)"

definition feedback_table_session :: "feedback_tables feedback_session" where
  "feedback_table_session =
     \<lparr>fs_operator = relation_of or_id ft_operator (\<lambda>t. ft_operator_update (\<lambda>_. t)),
      fs_mukti = relation_of fw_id ft_mukti (\<lambda>t. ft_mukti_update (\<lambda>_. t))\<rparr>"

lemma feedback_table_session_ok: "feedback_session_ok id feedback_table_session"
  by (simp add: feedback_session_ok_def feedback_table_session_def relation_of_ok)

definition feedback_tables_of :: "feedback_repo \<Rightarrow> feedback_tables" where
  "feedback_tables_of r =
     \<lparr>ft_operator = table_of op_to_row (fr_operator r), ft_mukti = table_of ef_to_row (fr_mukti r)\<rparr>"

text \<open>The table of an analysis has no column for the time of an update.\<close>

definition analysis_storable :: "execution_feedback \<Rightarrow> bool" where
  "analysis_storable f \<longleftrightarrow> execution_feedback_valid f \<and> ef_updated_at f = None"

lemma feedback_read_back:
  "row_to_op (op_to_row r) = Inr r"
  "analysis_storable f \<Longrightarrow> row_to_ef (ef_to_row f) = Inr f"
  by (simp_all add: row_to_op_def op_to_row_def parse_source_value row_to_ef_def ef_to_row_def checked_def
      o_def patterns_read_back suggestions_read_back execution_feedback_valid_def analysis_storable_def)

interpretation operator_rows: row_mapping of_id or_id op_to_row row_to_op "\<lambda>_. True"
  by unfold_locales (simp add: op_to_row_def, simp add: feedback_read_back)

interpretation analysis_rows: row_mapping ef_id fw_id ef_to_row row_to_ef analysis_storable
  by unfold_locales (simp add: ef_to_row_def, simp add: feedback_read_back)

lemma feedback_relation:
  assumes "feedback_session_ok view ss"
  shows "view (rel_merge (fs_operator ss) w s) = (view s)\<lparr>ft_operator := merge_row or_id w (ft_operator (view s))\<rparr>"
    and "view (rel_merge (fs_mukti ss) v s) = (view s)\<lparr>ft_mukti := merge_row fw_id v (ft_mukti (view s))\<rparr>"
    and "rel_get (fs_operator ss) s k = map_of (ft_operator (view s)) k"
    and "rel_get (fs_mukti ss) s k = map_of (ft_mukti (view s)) k"
    and "selection p1 o1 l1 (ft_operator (view s)) (rel_select (fs_operator ss) p1 o1 l1 s)"
    and "selection p2 o2 l2 (ft_mukti (view s)) (rel_select (fs_mukti ss) p2 o2 l2 s)"
  using assms by (simp_all add: feedback_session_ok_def relation_ok_def)

section \<open>Refinement\<close>

definition no_feedback_ties :: "feedback_repo \<Rightarrow> bool" where
  "no_feedback_ties r \<longleftrightarrow> inj_on of_created_at (set (map snd (fr_operator r))) \<and>
     inj_on ef_created_at (set (map snd (fr_mukti r)))"

definition feedback_storable :: "feedback_repo \<Rightarrow> bool" where
  "feedback_storable r \<longleftrightarrow> (\<forall>f \<in> set (map snd (fr_mukti r)). analysis_storable f)"

lemma feedback_reads:
  assumes "feedback_session_ok view ss" "view s = feedback_tables_of r" "feedback_storable r" "no_feedback_ties r"
  shows "pg_get_operator_feedback ss s k = Inr (get_operator_feedback r k)"
    and "pg_get_execution_feedback ss s k = Inr (get_execution_feedback r k)"
    and "pg_list_operator_feedback ss s k = Inr (list_operator_feedback r k)"
    and "pg_list_execution_feedback_for_execution ss s k = Inr (list_execution_feedback_for_execution r k)"
    and "pg_list_execution_feedback ss s limit ids = Inr (list_execution_feedback r limit ids)"
proof -
  have tables: "ft_operator (view s) = table_of op_to_row (fr_operator r)" "ft_mukti (view s) = table_of ef_to_row (fr_mukti r)"
    by (simp_all add: assms(2) feedback_tables_of_def)
  note selects = feedback_relation(5,6)[OF assms(1), of _ _ _ s, unfolded tables]
  have ordered: "inj_on of_created_at (set (map snd (fr_operator r)))" "inj_on ef_created_at (set (map snd (fr_mukti r)))"
    "inj_on (\<lambda>x. - ef_created_at x) (set (map snd (fr_mukti r)))"
    using assms(4) by (simp_all add: no_feedback_ties_def inj_on_def)
  note stored = assms(3)[unfolded feedback_storable_def]
  show "pg_get_operator_feedback ss s k = Inr (get_operator_feedback r k)"
    by (simp add: pg_get_operator_feedback_def get_operator_feedback_def feedback_relation[OF assms(1)] tables
        operator_rows.read_refines)
  show "pg_get_execution_feedback ss s k = Inr (get_execution_feedback r k)"
    using stored by (simp add: pg_get_execution_feedback_def get_execution_feedback_def feedback_relation[OF assms(1)] tables
        analysis_rows.read_refines)
  show "pg_list_operator_feedback ss s k = Inr (list_operator_feedback r k)"
    using operator_rows.list_refines[where wanted' = "\<lambda>x. of_execution_id x = k", OF selects(1) _ _ ordered(1)]
    by (simp add: pg_list_operator_feedback_def list_operator_feedback_def op_to_row_def limited_def)
  show "pg_list_execution_feedback_for_execution ss s k = Inr (list_execution_feedback_for_execution r k)"
    using analysis_rows.list_refines[where wanted' = "\<lambda>x. ef_execution_id x = k", OF selects(2) _ _ ordered(2) stored]
    by (simp add: pg_list_execution_feedback_for_execution_def list_execution_feedback_for_execution_def ef_to_row_def limited_def)
  show "pg_list_execution_feedback ss s limit ids = Inr (list_execution_feedback r limit ids)"
    using analysis_rows.list_refines[where wanted' = "\<lambda>x. case ids of None \<Rightarrow> True | Some a \<Rightarrow> ef_execution_id x \<in> set a",
        OF selects(2) _ _ ordered(3) stored]
    by (simp add: pg_list_execution_feedback_def list_execution_feedback_def ef_to_row_def limited_def Let_def split: option.split)
qed

lemma feedback_saves:
  assumes "feedback_session_ok view ss" "view s = feedback_tables_of r"
  shows "view (pg_save_operator_feedback ss x s) = feedback_tables_of (save_operator_feedback x r)"
    and "view (pg_save_execution_feedback ss y s) = feedback_tables_of (save_execution_feedback y r)"
  by (simp_all add: pg_save_operator_feedback_def pg_save_execution_feedback_def feedback_relation[OF assms(1)] assms(2)
      feedback_tables_of_def save_operator_feedback_def save_execution_feedback_def operator_rows.merge_refines
      analysis_rows.merge_refines)

text \<open>The PostgreSQL adapter of the feedback service simulates the in-memory one: saving keeps the
  tables those of the repository, and every read and listing answers as the repository does, when the analyses have
  no time of update and no two records tie in the order of a listing.\<close>

theorem feedback_postgres_refines:
  assumes "feedback_session_ok view ss" "view s = feedback_tables_of r" "feedback_storable r" "no_feedback_ties r"
  shows "view (pg_save_operator_feedback ss x s) = feedback_tables_of (save_operator_feedback x r) \<and>
    view (pg_save_execution_feedback ss y s) = feedback_tables_of (save_execution_feedback y r) \<and>
    pg_get_operator_feedback ss s k = Inr (get_operator_feedback r k) \<and>
    pg_get_execution_feedback ss s k = Inr (get_execution_feedback r k) \<and>
    pg_list_operator_feedback ss s k = Inr (list_operator_feedback r k) \<and>
    pg_list_execution_feedback_for_execution ss s k = Inr (list_execution_feedback_for_execution r k) \<and>
    pg_list_execution_feedback ss s limit ids = Inr (list_execution_feedback r limit ids)"
  using feedback_saves[OF assms(1,2)] feedback_reads[OF assms] by simp

end
