(* ===== verification/Http_Providers.thy ===== *)
theory Http_Providers
  imports Model_Runtime Rounding
begin

text \<open>
  The providers that ask a chat-completions service (\<open>providers/openai_compatible.py\<close>,
  \<open>providers/http_common.py\<close>), the factory (\<open>providers/factory.py\<close>) and their configuration
  (\<open>config.py\<close>).  The network is a parameter: the outcome of \<open>urlopen\<close>, or an exception.  So are the readers
  of texts of the standard library, \<open>json.loads\<close>, \<open>int\<close> and \<open>float\<close> on a text; everything else the code does
  with an answer is modelled on an arbitrary answer.
\<close>

section \<open>Configuration\<close>

record http_config =
  hc_provider_type :: string
  hc_api_key :: "string option"
  hc_base_url :: "string option"
  hc_model_name :: string
  hc_azure_deployment :: "string option"
  hc_azure_api_version :: string
  hc_timeout_seconds :: rat
  hc_max_retries :: int
  hc_retry_backoff_seconds :: rat

definition default_http_config :: http_config where
  "default_http_config =
     \<lparr>hc_provider_type = ''fake'', hc_api_key = None, hc_base_url = None, hc_model_name = ''gpt-4o-mini'',
      hc_azure_deployment = None, hc_azure_api_version = ''2024-02-15-preview'', hc_timeout_seconds = 30,
      hc_max_retries = 2, hc_retry_backoff_seconds = 1 / 2\<rparr>"

text \<open>\<open>not s\<close> of an optional text, and \<open>a or b\<close>.\<close>

definition is_given :: "string option \<Rightarrow> bool" where
  "is_given s \<longleftrightarrow> s \<noteq> None \<and> s \<noteq> Some []"

definition or_else :: "string option \<Rightarrow> string option \<Rightarrow> string option" where
  "or_else a b = (if is_given a then a else b)"

text \<open>The readers of texts.\<close>

record text_readers =
  tx_loads :: "string \<Rightarrow> pyval option"
  tx_int :: "string \<Rightarrow> int option"
  tx_float :: "string \<Rightarrow> rat option"

definition text_to_int :: "text_readers \<Rightarrow> string \<Rightarrow> exn + int" where
  "text_to_int tx s = (case tx_int tx s of Some i \<Rightarrow> Inr i
     | None \<Rightarrow> Inl (Exn ValueError (''invalid literal for int() with base 10: '' @ repr_str s)))"

definition text_to_float :: "text_readers \<Rightarrow> string \<Rightarrow> exn + rat" where
  "text_to_float tx s = (case tx_float tx s of Some x \<Rightarrow> Inr x
     | None \<Rightarrow> Inl (Exn ValueError (''could not convert string to float: '' @ repr_str s)))"

definition env_get :: "(string \<times> string) list \<Rightarrow> string \<Rightarrow> string \<Rightarrow> string" where
  "env_get vars k d = (case map_of vars k of None \<Rightarrow> d | Some v \<Rightarrow> v)"

definition provider_type_of :: "string \<Rightarrow> string" where
  "provider_type_of raw =
     (if raw \<in> {''openai'', ''openai_compatible''} then ''openai''
      else if raw \<in> {''azure'', ''azure_openai'', ''azure_openai_compatible''} then ''azure_openai''
      else ''fake'')"

definition base_url_of :: "(string \<times> string) list \<Rightarrow> string \<Rightarrow> string option" where
  "base_url_of vars ptype =
     (let url = or_else (map_of vars ''MODEL_BASE_URL'') (map_of vars ''OPENAI_BASE_URL'');
          url = (if ptype = ''openai'' \<and> \<not> is_given url then Some ''https://api.openai.com/v1'' else url)
      in if ptype = ''azure_openai'' then or_else (map_of vars ''AZURE_OPENAI_ENDPOINT'') url else url)"

definition load_config_from_env :: "text_readers \<Rightarrow> (string \<times> string) list \<Rightarrow> exn + http_config" where
  "load_config_from_env tx vars =
     (let ptype = provider_type_of (lower (strip (env_get vars ''MODEL_PROVIDER'' ''fake'')));
          key = or_else (map_of vars ''MODEL_API_KEY'')
            (or_else (map_of vars ''OPENAI_API_KEY'') (map_of vars ''AZURE_OPENAI_API_KEY''))
      in and_then (text_to_float tx (env_get vars ''MODEL_TIMEOUT_SECONDS'' ''30'')) (\<lambda>timeout.
         and_then (text_to_int tx (env_get vars ''MODEL_MAX_RETRIES'' ''2'')) (\<lambda>retries.
         and_then (text_to_float tx (env_get vars ''MODEL_RETRY_BACKOFF_SECONDS'' ''0.5'')) (\<lambda>backoff.
           Inr \<lparr>hc_provider_type = ptype, hc_api_key = key, hc_base_url = base_url_of vars ptype,
             hc_model_name = env_get vars ''MODEL_NAME'' ''gpt-4o-mini'',
             hc_azure_deployment = map_of vars ''AZURE_OPENAI_DEPLOYMENT'',
             hc_azure_api_version = env_get vars ''AZURE_OPENAI_API_VERSION'' ''2024-02-15-preview'',
             hc_timeout_seconds = timeout, hc_max_retries = retries, hc_retry_backoff_seconds = backoff\<rparr>))))"

section \<open>One request\<close>

datatype http_outcome =
    Http_Response string
  | Http_Status int "string option" string
  | Url_Failure bool string

type_synonym transport = "string \<Rightarrow> (string \<times> string) list \<Rightarrow> string \<Rightarrow> rat \<Rightarrow> (env, http_outcome) prog"

text \<open>The body of an error answer, or its reason when the body cannot be read.\<close>

definition read_http_error_body :: "string option \<Rightarrow> string \<Rightarrow> string" where
  "read_http_error_body body reason = (case body of Some text \<Rightarrow> take 500 text | None \<Rightarrow> reason)"

definition read_response :: "text_readers \<Rightarrow> http_outcome \<Rightarrow> exn + pyval" where
  "read_response tx out =
     (case out of
        Http_Response raw \<Rightarrow>
          (case tx_loads tx raw of Some v \<Rightarrow> Inr v | None \<Rightarrow> Inl (Exn NonRetryableModelError ''invalid JSON response''))
      | Http_Status code body reason \<Rightarrow>
          Inl (Exn (classify_http_status code) (''HTTP '' @ int_str code @ '': '' @ read_http_error_body body reason))
      | Url_Failure timed_out reason \<Rightarrow>
          Inl (Exn TransientModelError (if timed_out then ''request timed out'' else reason)))"

definition of_result :: "exn + 'a \<Rightarrow> ('s, 'a) prog" where
  "of_result r = (case r of Inl e \<Rightarrow> rethrow e | Inr x \<Rightarrow> ret x)"

definition post_json ::
  "text_readers \<Rightarrow> transport \<Rightarrow> string \<Rightarrow> (string \<times> string) list \<Rightarrow> pydict \<Rightarrow> rat \<Rightarrow> (env, pyval) prog" where
  "post_json tx net url headers body timeout =
     try_except (bnd (net url headers (json_text (PDict body)) timeout) (\<lambda>out. of_result (read_response tx out)))
       (\<lambda>e. if exn_class e = TimeoutError then throw TransientModelError ''request timed out'' else rethrow e)"

section \<open>Reading an answer\<close>

definition extract_message_content :: "pydict \<Rightarrow> exn + string" where
  "extract_message_content resp =
     (case as_list (dget resp ''choices'') of
        None \<Rightarrow> Inl (Exn SchemaValidationModelError ''missing choices in provider response'')
      | Some [] \<Rightarrow> Inl (Exn SchemaValidationModelError ''missing choices in provider response'')
      | Some (first # _) \<Rightarrow>
          (case as_dict first of None \<Rightarrow> Inl (Exn SchemaValidationModelError ''invalid choice shape'')
           | Some choice \<Rightarrow>
             (case as_dict (dget choice ''message'') of
                None \<Rightarrow> Inl (Exn SchemaValidationModelError ''missing message in choice'')
              | Some message \<Rightarrow>
                  (case as_str (dget message ''content'') of
                     None \<Rightarrow> Inl (Exn SchemaValidationModelError ''empty message content'')
                   | Some content \<Rightarrow> if strip content = [] then Inl (Exn SchemaValidationModelError ''empty message content'')
                       else Inr content))))"

text \<open>\<open>type(v).__name__\<close>, \<open>int(v)\<close> and \<open>float(v)\<close>.\<close>

fun type_name :: "pyval \<Rightarrow> string" where
  "type_name PNone = ''NoneType''"
| "type_name (PBool _) = ''bool''"
| "type_name (PInt _) = ''int''"
| "type_name (PFloat _) = ''float''"
| "type_name (PStr _) = ''str''"
| "type_name (PList _) = ''list''"
| "type_name (PDict _) = ''dict''"

fun int_of_value :: "text_readers \<Rightarrow> pyval \<Rightarrow> exn + int" where
  "int_of_value tx (PInt i) = Inr i"
| "int_of_value tx (PBool b) = Inr (if b then 1 else 0)"
| "int_of_value tx (PFloat x) = Inr (int_trunc x)"
| "int_of_value tx (PStr s) = text_to_int tx s"
| "int_of_value tx v = Inl (Exn TypeError
     (''int() argument must be a string, a bytes-like object or a real number, not '' @ repr_str (type_name v)))"

fun float_of_value :: "text_readers \<Rightarrow> pyval \<Rightarrow> exn + rat" where
  "float_of_value tx (PInt i) = Inr (float_of (of_int i))"
| "float_of_value tx (PBool b) = Inr (if b then 1 else 0)"
| "float_of_value tx (PFloat x) = Inr x"
| "float_of_value tx (PStr s) = text_to_float tx s"
| "float_of_value tx v = Inl (Exn TypeError
     (''float() argument must be a string or a real number, not '' @ repr_str (type_name v)))"

text \<open>\<open>int(usage.get(k) or 0)\<close>.\<close>

definition token_count :: "text_readers \<Rightarrow> pydict \<Rightarrow> string \<Rightarrow> exn + int" where
  "token_count tx usage k = int_of_value tx (py_or (dget usage k) (PInt 0))"

definition telemetry_valid :: "string \<Rightarrow> string \<Rightarrow> int list \<Rightarrow> bool" where
  "telemetry_valid ptype model counts \<longleftrightarrow> length ptype \<le> 32 \<and> length model \<le> 128 \<and> list_all (\<lambda>n. 0 \<le> n) counts"

definition usage_telemetry :: "text_readers \<Rightarrow> string \<Rightarrow> string \<Rightarrow> nat \<Rightarrow> pydict \<Rightarrow> exn + model_telemetry" where
  "usage_telemetry tx ptype model latency_ms resp =
     (let usage = (case as_dict (dget resp ''usage'') of Some u \<Rightarrow> u | None \<Rightarrow> [])
      in and_then (token_count tx usage ''prompt_tokens'') (\<lambda>n_in.
         and_then (token_count tx usage ''completion_tokens'') (\<lambda>n_out.
         and_then (token_count tx usage ''total_tokens'') (\<lambda>total.
           if telemetry_valid ptype model [n_in, n_out, total] then
             Inr \<lparr>mt_latency_ms = latency_ms, mt_retry_count = 0, mt_provider_type = ptype, mt_model_name = model,
               mt_input_tokens = nat n_in, mt_output_tokens = nat n_out, mt_total_tokens = nat total, mt_timed_out = False\<rparr>
           else Inl (Exn PydanticValidationError ''ModelInvocationTelemetry'')))))"

definition parse_content :: "text_readers \<Rightarrow> pydict \<Rightarrow> exn + pydict" where
  "parse_content tx resp =
     and_then (extract_message_content resp) (\<lambda>content.
       (case tx_loads tx content of None \<Rightarrow> Inl (Exn SchemaValidationModelError ''provider JSON parse failed'')
        | Some v \<Rightarrow> (case as_dict v of Some d \<Rightarrow> Inr d
            | None \<Rightarrow> Inl (Exn SchemaValidationModelError ''provider response must be a JSON object''))))"

text \<open>\<open>except ValidationError as exc: raise SchemaValidationModelError(str(exc))\<close>.\<close>

definition schema_error :: "exn + 'a \<Rightarrow> exn + 'a" where
  "schema_error r = (case r of Inr x \<Rightarrow> Inr x
     | Inl e \<Rightarrow> Inl (if exn_class e = PydanticValidationError then Exn SchemaValidationModelError (exn_message e) else e))"

definition analysis_output_valid :: "incident_analysis_output \<Rightarrow> bool" where
  "analysis_output_valid x \<longleftrightarrow> length (io_incident_summary x) \<le> 4000 \<and> length (io_possible_causes x) \<le> 16 \<and>
     length (io_invocation_id x) \<le> 128 \<and> length (io_provider_label x) \<le> 64"

definition validation_output_valid :: "incident_validation_output \<Rightarrow> bool" where
  "validation_output_valid x \<longleftrightarrow> length (jo_likely_cause x) \<le> 128 \<and> length (jo_validation_status x) \<le> 32 \<and>
     0 \<le> jo_confidence x \<and> jo_confidence x \<le> 1 \<and> length (jo_rationale x) \<le> 500 \<and> length (jo_digest x) \<le> 64 \<and>
     length (jo_invocation_id x) \<le> 128 \<and> length (jo_provider_label x) \<le> 64"

text \<open>\<open>str(parsed.get(k, ""))[:n]\<close>.\<close>

definition text_field :: "pydict \<Rightarrow> string \<Rightarrow> nat \<Rightarrow> string" where
  "text_field parsed k n = take n (py_str (dget_default parsed k (PStr [])))"

definition parse_analyze :: "pydict \<Rightarrow> string \<Rightarrow> string \<Rightarrow> model_telemetry \<Rightarrow> exn + incident_analysis_output" where
  "parse_analyze parsed inv_id label t =
     (let causes = (case as_list (dget parsed ''possible_causes'') of Some xs \<Rightarrow> map py_str xs | None \<Rightarrow> [])
      in schema_error (checked ''IncidentAnalysisReasoningOutput'' analysis_output_valid
           \<lparr>io_incident_summary = text_field parsed ''incident_summary'' 4000, io_possible_causes = take 16 causes,
            io_invocation_id = inv_id, io_provider_label = label, io_invocation = Some t\<rparr>))"

definition parse_validate ::
  "text_readers \<Rightarrow> pydict \<Rightarrow> string \<Rightarrow> string \<Rightarrow> model_telemetry \<Rightarrow> exn + incident_validation_output" where
  "parse_validate tx parsed inv_id label t =
     schema_error
       (and_then (float_of_value tx (dget_default parsed ''confidence_score'' (PFloat 0))) (\<lambda>confidence.
          checked ''IncidentValidationReasoningOutput'' validation_output_valid
            \<lparr>jo_likely_cause = text_field parsed ''likely_cause'' 128,
             jo_validation_status = text_field parsed ''validation_status'' 32, jo_confidence = confidence,
             jo_rationale = text_field parsed ''rationale_short'' 500, jo_digest = text_field parsed ''digest'' 64,
             jo_invocation_id = inv_id, jo_provider_label = label, jo_invocation = Some t\<rparr>))"

section \<open>The providers\<close>

definition rstrip_slashes :: "string \<Rightarrow> string" where
  "rstrip_slashes s = rev (dropWhile (\<lambda>c. c = CHR ''/'') (rev s))"

definition text_of :: "string option \<Rightarrow> string" where
  "text_of s = (case s of None \<Rightarrow> [] | Some t \<Rightarrow> t)"

definition chat_messages :: "string \<Rightarrow> pydict \<Rightarrow> pydict \<Rightarrow> pyval" where
  "chat_messages instruction schema_hint user_payload =
     PList
       [PDict [(''role'', PStr ''system''), (''content'', PStr (instruction @ json_text (PDict schema_hint)))],
        PDict [(''role'', PStr ''user''), (''content'', PStr (json_dumps (PDict user_payload)))]]"

text \<open>What an endpoint asks with: its address, its headers, its body and how it names itself and the model.\<close>

record chat_endpoint =
  ep_type :: string
  ep_class :: string
  ep_url :: string
  ep_headers :: "(string \<times> string) list"
  ep_body :: "pydict \<Rightarrow> pydict \<Rightarrow> pydict"
  ep_model :: string
  ep_label :: string
  ep_timeout :: rat

definition openai_body :: "http_config \<Rightarrow> pydict \<Rightarrow> pydict \<Rightarrow> pydict" where
  "openai_body cfg schema_hint user_payload =
     [(''model'', PStr (hc_model_name cfg)), (''response_format'', PDict [(''type'', PStr ''json_object'')]),
      (''messages'', chat_messages ''Return a single JSON object only. Fields must match this schema hint: ''
         schema_hint user_payload), (''temperature'', PInt 0)]"

definition openai_endpoint :: "http_config \<Rightarrow> chat_endpoint" where
  "openai_endpoint cfg =
     \<lparr>ep_type = ''openai'', ep_class = ''OpenAICompatibleProvider'',
      ep_url = rstrip_slashes (text_of (hc_base_url cfg)) @ ''/chat/completions'',
      ep_headers = [(''Authorization'', ''Bearer '' @ text_of (hc_api_key cfg)), (''Content-Type'', ''application/json'')],
      ep_body = openai_body cfg, ep_model = hc_model_name cfg, ep_label = ''openai:'' @ hc_model_name cfg,
      ep_timeout = hc_timeout_seconds cfg\<rparr>"

definition azure_chat_url :: "http_config \<Rightarrow> string" where
  "azure_chat_url cfg =
     rstrip_slashes (text_of (hc_base_url cfg)) @ ''/openai/deployments/'' @ text_of (hc_azure_deployment cfg)
       @ ''/chat/completions?api-version='' @ hc_azure_api_version cfg"

definition azure_auth_headers :: "http_config \<Rightarrow> (string \<times> string) list" where
  "azure_auth_headers cfg = [(''api-key'', text_of (hc_api_key cfg)), (''Content-Type'', ''application/json'')]"

definition azure_body :: "pydict \<Rightarrow> pydict \<Rightarrow> pydict" where
  "azure_body schema_hint user_payload =
     [(''messages'', chat_messages ''Return a single JSON object only. Fields must match: '' schema_hint user_payload),
      (''temperature'', PInt 0), (''response_format'', PDict [(''type'', PStr ''json_object'')])]"

definition azure_endpoint :: "http_config \<Rightarrow> chat_endpoint" where
  "azure_endpoint cfg =
     (let model = text_of (or_else (hc_azure_deployment cfg) (Some (hc_model_name cfg)))
      in \<lparr>ep_type = ''azure_openai'', ep_class = ''AzureOpenAICompatibleProvider'', ep_url = azure_chat_url cfg,
          ep_headers = azure_auth_headers cfg, ep_body = azure_body, ep_model = model, ep_label = ''azure_openai:'' @ model,
          ep_timeout = hc_timeout_seconds cfg\<rparr>)"

text \<open>\<open>_invoke\<close>; \<open>resp.get\<close> needs a dictionary.\<close>

type_synonym post_fn = "string \<Rightarrow> (string \<times> string) list \<Rightarrow> pydict \<Rightarrow> rat \<Rightarrow> (env, pyval) prog"

definition response_dict :: "pyval \<Rightarrow> exn + pydict" where
  "response_dict v = (case as_dict v of Some d \<Rightarrow> Inr d
     | None \<Rightarrow> Inl (Exn (OtherException ''AttributeError'') (repr_str (type_name v) @ '' object has no attribute '' @ repr_str ''get'')))"

definition invoke ::
  "text_readers \<Rightarrow> post_fn \<Rightarrow> chat_endpoint \<Rightarrow> pydict \<Rightarrow> pydict \<Rightarrow>
   (pydict \<Rightarrow> string \<Rightarrow> string \<Rightarrow> model_telemetry \<Rightarrow> exn + 'o) \<Rightarrow> (env, 'o \<times> model_telemetry) prog" where
  "invoke tx post ep user_payload schema_hint build_output =
     bnd perf_counter_ns (\<lambda>started.
     bnd (post (ep_url ep) (ep_headers ep) (ep_body ep schema_hint user_payload) (ep_timeout ep)) (\<lambda>answer.
     bnd (latency_since started) (\<lambda>latency_ms.
     bnd (of_result (response_dict answer)) (\<lambda>resp.
     bnd (of_result (usage_telemetry tx (ep_type ep) (ep_model ep) latency_ms resp)) (\<lambda>t.
     bnd (of_result (parse_content tx resp)) (\<lambda>parsed.
     bnd uuid4 (\<lambda>inv_id.
     bnd (of_result (build_output parsed (uuid_str inv_id) (ep_label ep) t)) (\<lambda>out. ret (out, t)))))))))"

definition http_analyze_incident ::
  "text_readers \<Rightarrow> post_fn \<Rightarrow> chat_endpoint \<Rightarrow> incident_analysis_request \<Rightarrow> (env, incident_analysis_output \<times> model_telemetry) prog" where
  "http_analyze_incident tx post ep rq =
     invoke tx post ep
       [(''task'', PStr ''analyze_incident''), (''incident_id'', PStr (iq_incident_id rq)),
        (''workflow_type'', PStr (iq_workflow_type rq)), (''execution_input_excerpt'', PDict (iq_excerpt rq))]
       [(''incident_summary'', PStr ''string''), (''possible_causes'', PList [PStr ''string''])]
       parse_analyze"

definition http_validate_incident ::
  "text_readers \<Rightarrow> post_fn \<Rightarrow> chat_endpoint \<Rightarrow> incident_validation_request \<Rightarrow> (env, incident_validation_output \<times> model_telemetry) prog" where
  "http_validate_incident tx post ep rq =
     invoke tx post ep
       [(''task'', PStr ''validate_incident''), (''incident_id'', PStr (jq_incident_id rq)),
        (''prior_possible_causes'', PList (map PStr (jq_prior_causes rq))),
        (''prior_incident_summary_excerpt'', PStr (jq_prior_summary rq)),
        (''evidence_summary_excerpt'', PStr (jq_evidence_summary rq))]
       [(''likely_cause'', PStr ''string''), (''validation_status'', PStr ''string''), (''confidence_score'', PFloat 0),
        (''rationale_short'', PStr ''string''), (''digest'', PStr ''string'')]
       (parse_validate tx)"

text \<open>The class has no method for the cost workflow.\<close>

definition no_method :: "chat_endpoint \<Rightarrow> string \<Rightarrow> ('s, 'a) prog" where
  "no_method ep name =
     throw (OtherException ''AttributeError'') (repr_str (ep_class ep) @ '' object has no attribute '' @ repr_str name)"

definition http_provider :: "text_readers \<Rightarrow> post_fn \<Rightarrow> chat_endpoint \<Rightarrow> provider" where
  "http_provider tx post ep =
     \<lparr>pv_type = ep_type ep, pv_analyze_incident = http_analyze_incident tx post ep,
      pv_validate_incident = http_validate_incident tx post ep,
      pv_analyze_cost = (\<lambda>rq. no_method ep ''analyze_cost_anomaly''),
      pv_validate_cost = (\<lambda>rq. no_method ep ''validate_cost_attribution'')\<rparr>"

definition openai_provider :: "text_readers \<Rightarrow> post_fn \<Rightarrow> http_config \<Rightarrow> exn + provider" where
  "openai_provider tx post cfg =
     (if \<not> is_given (hc_api_key cfg) then
        Inl (Exn NonRetryableModelError ''MODEL_API_KEY or OPENAI_API_KEY is required for openai provider'')
      else if \<not> is_given (hc_base_url cfg) then
        Inl (Exn NonRetryableModelError ''MODEL_BASE_URL is required for openai provider'')
      else Inr (http_provider tx post (openai_endpoint cfg)))"

definition azure_provider :: "text_readers \<Rightarrow> post_fn \<Rightarrow> http_config \<Rightarrow> exn + provider" where
  "azure_provider tx post cfg =
     (if \<not> is_given (hc_api_key cfg) then
        Inl (Exn NonRetryableModelError ''AZURE_OPENAI_API_KEY is required for azure_openai provider'')
      else if \<not> is_given (hc_base_url cfg) then
        Inl (Exn NonRetryableModelError ''AZURE_OPENAI_ENDPOINT is required for azure_openai provider'')
      else if \<not> is_given (hc_azure_deployment cfg) then
        Inl (Exn NonRetryableModelError ''AZURE_OPENAI_DEPLOYMENT is required for azure_openai provider'')
      else and_then (openai_provider tx post cfg) (\<lambda>_. Inr (http_provider tx post (azure_endpoint cfg))))"

definition build_provider :: "text_readers \<Rightarrow> transport \<Rightarrow> http_config option \<Rightarrow> exn + provider" where
  "build_provider tx net config =
     (let cfg = (case config of Some c \<Rightarrow> c | None \<Rightarrow> default_http_config); post = post_json tx net
      in if hc_provider_type cfg = ''fake'' then Inr fake_provider
         else if hc_provider_type cfg = ''openai'' then openai_provider tx post cfg
         else if hc_provider_type cfg = ''azure_openai'' then azure_provider tx post cfg
         else Inl (Exn NonRetryableModelError (''unknown provider_type: '' @ hc_provider_type cfg)))"

end
