(* ===== verification/Http_Properties.thy ===== *)
theory Http_Properties
  imports Http_Providers Default_Engine Model_Runtime_Properties
begin

text \<open>
  What the rest of the system can rely on of an HTTP provider, whatever the service answers: an output is within
  the bounds of its model, a status is an error of its class and is retried exactly when that class is
  transient, and the theorems on the engine apply to it.
\<close>

section \<open>Outputs\<close>

lemma of_result_eq: "of_result r s = (r, s)"
  by (cases r) (simp_all add: of_result_def rethrow_def ret_def)

lemma schema_error_Inr: "schema_error r = Inr x \<longleftrightarrow> r = Inr x"
  by (cases r) (simp_all add: schema_error_def)

lemma invoke_Inr:
  assumes "invoke tx post ep user hint build e = (Inr (out, t), e')"
  shows "\<exists>parsed inv_id. build parsed inv_id (ep_label ep) t = Inr out"
    and "mt_provider_type t = ep_type ep" "mt_model_name t = ep_model ep" "mt_retry_count t = 0"
    and "length (ep_type ep) \<le> 32" "length (ep_model ep) \<le> 128"
proof -
  from assms obtain e1 e2 started answer latency resp parsed inv_id where
    "usage_telemetry tx (ep_type ep) (ep_model ep) latency resp = Inr t"
    and built: "build parsed inv_id (ep_label ep) t = Inr out"
    unfolding invoke_def by (elim bnd_InrE) (auto simp: of_result_eq ret_def)
  then show "mt_provider_type t = ep_type ep" "mt_model_name t = ep_model ep" "mt_retry_count t = 0"
    "length (ep_type ep) \<le> 32" "length (ep_model ep) \<le> 128"
    by (auto simp: usage_telemetry_def Let_def and_then_Inr telemetry_valid_def split: if_splits)
  show "\<exists>parsed inv_id. build parsed inv_id (ep_label ep) t = Inr out"
    using built by blast
qed

lemma parse_analyze_Inr:
  "parse_analyze parsed inv_id label t = Inr out \<Longrightarrow> analysis_output_valid out \<and> io_invocation out = Some t \<and> io_provider_label out = label"
  by (auto simp: parse_analyze_def Let_def schema_error_Inr checked_Inr)

lemma parse_validate_Inr:
  "parse_validate tx parsed inv_id label t = Inr out \<Longrightarrow>
     validation_output_valid out \<and> jo_invocation out = Some t \<and> jo_provider_label out = label"
  by (auto simp: parse_validate_def schema_error_Inr and_then_Inr checked_Inr)

lemma analyzed_Inr:
  assumes "http_analyze_incident tx post ep rq e = (Inr (out, t), e')"
  shows "analysis_output_valid out \<and> io_invocation out = Some t \<and> mt_provider_type t = ep_type ep \<and> mt_retry_count t = 0"
  using invoke_Inr[OF assms[unfolded http_analyze_incident_def]] parse_analyze_Inr by blast

lemma validated_Inr:
  assumes "http_validate_incident tx post ep rq e = (Inr (out, t), e')"
  shows "validation_output_valid out \<and> jo_invocation out = Some t \<and> mt_provider_type t = ep_type ep \<and> mt_retry_count t = 0"
  using invoke_Inr[OF assms[unfolded http_validate_incident_def]] parse_validate_Inr by blast

lemma endpoint_types: "ep_type (openai_endpoint cfg) = ''openai''" "ep_type (azure_endpoint cfg) = ''azure_openai''"
  by (simp_all add: openai_endpoint_def azure_endpoint_def Let_def)

text \<open>Which provider a configuration gives.\<close>

lemma build_provider_http:
  assumes "build_provider tx net (Some cfg) = Inr pv" "hc_provider_type cfg \<noteq> ''fake''"
  obtains ep where "pv = http_provider tx (post_json tx net) ep" "ep_type ep = hc_provider_type cfg"
proof -
  from assms have "pv = http_provider tx (post_json tx net) (openai_endpoint cfg) \<and> hc_provider_type cfg = ''openai''
      \<or> pv = http_provider tx (post_json tx net) (azure_endpoint cfg) \<and> hc_provider_type cfg = ''azure_openai''"
    by (auto simp: build_provider_def openai_provider_def azure_provider_def Let_def and_then_Inr split: if_splits)
  then show thesis
    using that endpoint_types by metis
qed


text \<open>A service that answers with the content \<open>report\<close>, which reads as one object for both tasks.\<close>

definition sample_report :: pydict where
  "sample_report =
     [(''incident_summary'', PStr ''errors on checkout''), (''possible_causes'', PList [PStr ''dependency'', PInt 7]),
      (''likely_cause'', PStr ''dependency''), (''validation_status'', PStr ''passed''), (''confidence_score'', PFloat (1 / 2))]"

definition sample_readers :: text_readers where
  "sample_readers =
     \<lparr>tx_loads = (\<lambda>s. if s = ''answer'' then Some (PDict [(''choices'', PList [PDict [(''message'',
            PDict [(''content'', PStr ''report'')])]]), (''usage'', PDict [(''total_tokens'', PInt 30)])])
        else if s = ''report'' then Some (PDict sample_report) else None),
      tx_int = (\<lambda>_. None), tx_float = (\<lambda>_. None)\<rparr>"

definition sample_net :: transport where
  "sample_net url headers data timeout = ret (Http_Response ''answer'')"

definition sample_http_config :: http_config where
  "sample_http_config = default_http_config\<lparr>hc_provider_type := ''openai'', hc_api_key := Some ''k'',
     hc_base_url := Some ''https://example.test/v1/'', hc_model_name := ''gpt-test''\<rparr>"

lemma sample_http_builds: "build_provider sample_readers net (Some sample_http_config) =
    Inr (http_provider sample_readers (post_json sample_readers net) (openai_endpoint sample_http_config))"
  by (simp add: build_provider_def openai_provider_def sample_http_config_def default_http_config_def is_given_def Let_def)

definition sample_answer :: pydict where
  "sample_answer =
     [(''choices'', PList [PDict [(''message'', PDict [(''content'', PStr ''report'')])]]),
      (''usage'', PDict [(''total_tokens'', PInt 30)])]"

lemma sample_post: "post_json sample_readers sample_net url headers data timeout e = (Inr (PDict sample_answer), e)"
  by (simp add: post_json_def sample_net_def sample_readers_def read_response_def of_result_eq try_except_def bnd_def ret_def
      sample_answer_def)

lemma sample_usage: "usage_telemetry sample_readers ''openai'' ''gpt-test'' n sample_answer =
    Inr \<lparr>mt_latency_ms = n, mt_retry_count = 0, mt_provider_type = ''openai'', mt_model_name = ''gpt-test'',
      mt_input_tokens = 0, mt_output_tokens = 0, mt_total_tokens = 30, mt_timed_out = False\<rparr>"
  by (simp add: usage_telemetry_def token_count_def dget_def py_or_def telemetry_valid_def sample_answer_def)

lemma sample_content: "parse_content sample_readers sample_answer = Inr sample_report"
  by (simp add: parse_content_def extract_message_content_def sample_answer_def dget_def sample_readers_def strip_def is_space_def)

lemma sample_invoke:
  "fst (invoke sample_readers (post_json sample_readers sample_net) (openai_endpoint sample_http_config) user hint build e) =
     and_then (build sample_report (uuid_str (env_uuids e (env_uuid_ix e))) ''openai:gpt-test''
         \<lparr>mt_latency_ms = nat ((env_perf e (Suc (env_perf_ix e)) - env_perf e (env_perf_ix e)) div 1000000), mt_retry_count = 0,
          mt_provider_type = ''openai'', mt_model_name = ''gpt-test'',
          mt_input_tokens = 0, mt_output_tokens = 0, mt_total_tokens = 30, mt_timed_out = False\<rparr>)
       (\<lambda>out. Inr (out, \<lparr>mt_latency_ms = nat ((env_perf e (Suc (env_perf_ix e)) - env_perf e (env_perf_ix e)) div 1000000),
          mt_retry_count = 0, mt_provider_type = ''openai'', mt_model_name = ''gpt-test'',
          mt_input_tokens = 0, mt_output_tokens = 0, mt_total_tokens = 30, mt_timed_out = False\<rparr>))"
proof -
  have "ep_type (openai_endpoint sample_http_config) = ''openai''" "ep_model (openai_endpoint sample_http_config) = ''gpt-test''"
    "ep_label (openai_endpoint sample_http_config) = ''openai:gpt-test''"
    by (simp_all add: openai_endpoint_def sample_http_config_def default_http_config_def)
  then show ?thesis
    by (simp add: invoke_def sample_post bnd_def of_result_eq perf_counter_ns_def latency_since_def ret_def uuid4_def
        sample_usage sample_content response_dict_def and_then_def split: sum.split)
qed

definition sample_analysis :: incident_analysis_request where
  "sample_analysis = \<lparr>iq_execution_id = 1, iq_step_id = 2, iq_incident_id = ''INC-1'',
     iq_workflow_type = ''incident_triage'', iq_excerpt = []\<rparr>"

definition sample_check :: incident_validation_request where
  "sample_check = \<lparr>jq_execution_id = 1, jq_step_id = 2, jq_incident_id = ''INC-1'', jq_prior_causes = [],
     jq_prior_summary = [], jq_evidence_summary = []\<rparr>"


section \<open>Failures of the transport\<close>

lemma same_sleeps_eq: "steps same_sleeps fn \<longleftrightarrow> (\<forall>e. env_sleeps (snd (fn e)) = env_sleeps e)"
  by (simp add: steps_def same_sleeps_def)

lemma bnd_raises: "fst (m s) = Inl x \<Longrightarrow> bnd m f s = (Inl x, snd (m s))"
  by (cases "m s") (simp add: bnd_def)

lemma attempt_raises:
  assumes "\<And>e. fst (fn e) = Inl x"
  shows "fst (model_attempt cs put fn attempt e) = Inl x"
  unfolding model_attempt_def model_event_def
  by (simp add: andthen_def bnd_Inr[OF emit_event_row] bnd_Inr[OF perf_counter_ns_def[THEN fun_cong]] bnd_raises[of fn] assms)

lemma try_raises: "fst (m s) = Inl x \<Longrightarrow> try_except m h s = h x (snd (m s))"
  by (cases "m s") (simp add: try_except_def)

text \<open>One turn of the loop when the call raises.\<close>

lemma failing_turn:
  assumes "\<And>e. fst (fn e) = Inl x"
  shows "call_attempts left attempt cfg cs put fn e =
     (if exn_class x = SchemaValidationModelError then give_up cs ''schema_validation'' ''model_schema_failure'' x
      else if exn_class x = TransientModelError then
        andthen (record_retry cs attempt x) (case left of
           0 \<Rightarrow> retries_exhausted cs x
         | Suc n \<Rightarrow> andthen (sleep_ms (mc_backoff_ms cfg * (attempt + 1)))
             (call_attempts n (Suc attempt) cfg cs put fn))
      else give_up cs (exn_name x) ''model_failure'' x) (snd (model_attempt cs put fn attempt e))"
  by (subst call_attempts.simps) (simp only: try_raises[OF attempt_raises[OF assms]])

lemma retry_recorded:
  obtains e' where "env_sleeps e' = env_sleeps e" "andthen (record_retry cs attempt x) m e = m e'"
proof -
  obtain e' where noted: "record_retry cs attempt x e = (Inr (), e')"
    using no_raiseE[OF same_sleeps_record(2)] by (metis old.unit.exhaust)
  then show thesis
    using that[of e'] sleeps_after[OF same_sleeps_record(1) noted] by (simp add: andthen_def bnd_Inr[of "record_retry cs attempt x", OF noted])
qed

lemma call_always_fails:
  fixes fn :: "(env, 'o \<times> model_telemetry) prog"
  assumes "\<And>e. fst (fn e) = Inl x" "steps same_sleeps fn"
  shows "fst (call_attempts left attempt cfg cs put fn e) = Inl x \<and>
    env_sleeps (snd (call_attempts left attempt cfg cs put fn e)) = env_sleeps e @
      (if exn_class x = TransientModelError then map (\<lambda>i. mc_backoff_ms cfg * (attempt + i + 1)) [0..<left] else [])"
proof (induction left arbitrary: attempt e)
  case 0
  let ?e1 = "snd (model_attempt cs put fn attempt e)"
  have e1: "env_sleeps ?e1 = env_sleeps e"
    by (rule sleeps_final[OF same_sleeps_attempt[OF assms(2)]])
  let ?stop = "retries_exhausted cs x :: (env, 'o \<times> model_telemetry) prog"
  obtain e2 where "env_sleeps e2 = env_sleeps ?e1" "andthen (record_retry cs attempt x) ?stop ?e1 = ?stop e2"
    using retry_recorded .
  then show ?case
    using e1 by (simp add: failing_turn[OF assms(1)] raised_again sleeps_final[OF same_sleeps_give_up]
        sleeps_final[OF same_sleeps_exhausted])
next
  case (Suc left)
  let ?e1 = "snd (model_attempt cs put fn attempt e)"
  have e1: "env_sleeps ?e1 = env_sleeps e"
    by (rule sleeps_final[OF same_sleeps_attempt[OF assms(2)]])
  show ?case
  proof (cases "exn_class x = TransientModelError")
    case False
    then show ?thesis
      using e1 by (simp add: failing_turn[OF assms(1)] raised_again sleeps_final[OF same_sleeps_give_up])
  next
    case True
    let ?again = "andthen (sleep_ms (mc_backoff_ms cfg * (attempt + 1))) (call_attempts left (Suc attempt) cfg cs put fn)"
    obtain e2 where e2: "env_sleeps e2 = env_sleeps ?e1" "andthen (record_retry cs attempt x) ?again ?e1 = ?again e2"
      using retry_recorded .
    let ?e3 = "e2\<lparr>env_sleeps := env_sleeps e2 @ [mc_backoff_ms cfg * (attempt + 1)]\<rparr>"
    have "call_attempts (Suc left) attempt cfg cs put fn e = ?again e2"
      using True e2(2) by (simp add: failing_turn[OF assms(1)])
    also have "\<dots> = call_attempts left (Suc attempt) cfg cs put fn ?e3"
      by (simp add: andthen_def bnd_def sleep_ms_def modifies_def)
    finally show ?thesis
      using Suc.IH[of "Suc attempt" ?e3] True e1 e2(1)
      by (simp add: upt_conv_Cons map_Suc_upt[symmetric] del: upt_Suc)
  qed
qed

text \<open>A service that answers every request with one status.\<close>

definition answers_status :: "transport \<Rightarrow> int \<Rightarrow> string \<Rightarrow> bool" where
  "answers_status net code body \<longleftrightarrow>
     (\<forall>url headers data timeout e. fst (net url headers data timeout e) = Inr (Http_Status code (Some body) []) \<and>
        env_sleeps (snd (net url headers data timeout e)) = env_sleeps e)"

definition status_error :: "int \<Rightarrow> string \<Rightarrow> exn" where
  "status_error code body = Exn (classify_http_status code) (''HTTP '' @ int_str code @ '': '' @ take 500 body)"

lemma status_class: "exn_class (status_error code body) \<noteq> TimeoutError"
  by (simp add: status_error_def classify_http_status_def)

lemma read_status: "read_response tx (Http_Status code (Some body) reason) = Inl (status_error code body)"
  by (simp add: read_response_def read_http_error_body_def status_error_def)

lemma post_status:
  assumes "answers_status net code body"
  shows "fst (post_json tx net url headers data timeout e) = Inl (status_error code body)"
    and "env_sleeps (snd (post_json tx net url headers data timeout e)) = env_sleeps e"
proof -
  obtain e1 where "net url headers (json_text (PDict data)) timeout e = (Inr (Http_Status code (Some body) []), e1)"
    "env_sleeps e1 = env_sleeps e"
    using assms unfolding answers_status_def by (metis prod.collapse)
  then show "fst (post_json tx net url headers data timeout e) = Inl (status_error code body)"
    "env_sleeps (snd (post_json tx net url headers data timeout e)) = env_sleeps e"
    using status_class[of code body]
    by (simp_all add: post_json_def try_except_def bnd_def of_result_eq read_status rethrow_def del: json_text.simps)
qed

lemma invoke_status:
  assumes "answers_status net code body"
  shows "fst (invoke tx (post_json tx net) ep user hint build e) = Inl (status_error code body)"
    and "env_sleeps (snd (invoke tx (post_json tx net) ep user hint build e)) = env_sleeps e"
  unfolding invoke_def bnd_Inr[OF perf_counter_ns_def[THEN fun_cong]]
  by (simp_all add: bnd_raises[of "post_json tx net _ _ _ _", OF post_status(1)[OF assms]] post_status(2)[OF assms])

text \<open>C39. A status the service answers is an error of the class of the status.  When that class is transient the
  model runtime tries again, with growing pauses, until its attempts are used; any other status ends the call at
  once.\<close>

theorem http_status_decides_retries:
  assumes "answers_status net code body"
    and "build_provider tx net (Some cfg) = Inr pv" "hc_provider_type cfg \<noteq> ''fake''"
  shows "fst (analyze_incident mcfg pv rq e) = Inl (status_error code body) \<and>
    env_sleeps (snd (analyze_incident mcfg pv rq e)) = env_sleeps e @
      (if code \<in> {408, 429} \<or> 500 \<le> code \<or> code \<notin> {400, 401, 403, 404, 422}
       then map (\<lambda>i. mc_backoff_ms mcfg * (i + 1)) [0..<max_model_attempts mcfg - 1] else [])"
proof -
  obtain ep where ep: "pv = http_provider tx (post_json tx net) ep" "ep_type ep = hc_provider_type cfg"
    using build_provider_http[OF assms(2,3)] .
  have "fst (pv_analyze_incident pv rq e) = Inl (status_error code body)" "steps same_sleeps (pv_analyze_incident pv rq)" for e
    by (simp_all add: ep http_provider_def http_analyze_incident_def same_sleeps_eq invoke_status[OF assms(1)])
  note fails = call_always_fails[of "pv_analyze_incident pv rq", OF this]
  have "(exn_class (status_error code body) = TransientModelError) \<longleftrightarrow>
      code \<in> {408, 429} \<or> 500 \<le> code \<or> code \<notin> {400, 401, 403, 404, 422}"
    by (auto simp: status_error_def classify_http_status_def)
  then show ?thesis
    using fails by (simp add: analyze_incident_def call_with_retries_def)
qed

definition overloaded_net :: transport where
  "overloaded_net url headers data timeout = ret (Http_Status 503 (Some ''busy'') [])"

theorem http_status_decides_retries_witness:
  "fst (analyze_incident \<lparr>mc_max_retries = 2, mc_backoff_ms = 500\<rparr> (http_provider sample_readers
        (post_json sample_readers overloaded_net) (openai_endpoint sample_http_config)) sample_analysis sample_env) =
      Inl (Exn TransientModelError ''HTTP 503: busy'') \<and>
    env_sleeps (snd (analyze_incident \<lparr>mc_max_retries = 2, mc_backoff_ms = 500\<rparr> (http_provider sample_readers
        (post_json sample_readers overloaded_net) (openai_endpoint sample_http_config)) sample_analysis sample_env)) =
      [500, 1000]"
proof -
  have "answers_status overloaded_net 503 ''busy''"
    by (simp add: answers_status_def overloaded_net_def ret_def)
  moreover have "map (\<lambda>i. 500 * (i + 1)) [0..<2] = [500, 1000 :: nat]"
    by (simp add: upt_rec)
  moreover have "status_error 503 ''busy'' = Exn TransientModelError ''HTTP 503: busy''"
    by code_simp
  ultimately show ?thesis
    using http_status_decides_retries[of overloaded_net 503 "''busy''" sample_readers sample_http_config _
        "\<lparr>mc_max_retries = 2, mc_backoff_ms = 500\<rparr>" sample_analysis sample_env, OF _ sample_http_builds]
    by (simp add: max_model_attempts_def sample_http_config_def sample_env_def)
qed

section \<open>The contract of the services\<close>

lemma env_le_of_result: "steps env_le (of_result r)"
  unfolding of_result_def by (cases r) (simp, intro env_le_rules)+

lemma env_le_post:
  assumes "\<And>url headers data timeout. steps env_le (net url headers data timeout)"
  shows "steps env_le (post_json tx net url headers body timeout)"
  unfolding post_json_def by (intro env_le_rules env_le_of_result assms)

lemma env_le_invoke:
  assumes "\<And>url headers body timeout. steps env_le (post url headers body timeout)"
  shows "steps env_le (invoke tx post ep user hint build)"
  unfolding invoke_def latency_since_def by (intro env_le_rules env_le_of_result assms)

lemma env_le_no_method: "steps env_le (no_method ep name)"
  unfolding no_method_def by (intro env_le_rules)

lemma http_provider_ok:
  assumes "\<And>url headers data timeout. steps env_le (net url headers data timeout)"
  shows "provider_ok (http_provider tx (post_json tx net) ep)"
  by (simp add: provider_ok_def http_provider_def http_analyze_incident_def http_validate_incident_def env_le_invoke
      env_le_post env_le_no_method assms)



section \<open>The cost workflow\<close>

text \<open>The HTTP providers have no methods for it: every call ends at once with an \<open>AttributeError\<close>.\<close>

lemma http_cost_calls_raise:
  assumes "pv = http_provider tx post ep"
  shows "exn_name (projl (fst (analyze_cost_anomaly mcfg pv rq e))) = ''AttributeError''"
    and "env_sleeps (snd (analyze_cost_anomaly mcfg pv rq e)) = env_sleeps e"
proof -
  let ?x = "Exn (OtherException ''AttributeError'')
      (repr_str (ep_class ep) @ '' object has no attribute '' @ repr_str ''analyze_cost_anomaly'')"
  have "fst (pv_analyze_cost pv rq e) = Inl ?x" "steps same_sleeps (pv_analyze_cost pv rq)" for e
    by (simp_all add: assms http_provider_def no_method_def throw_def same_sleeps_eq)
  note fails = call_always_fails[of "pv_analyze_cost pv rq", OF this]
  show "exn_name (projl (fst (analyze_cost_anomaly mcfg pv rq e))) = ''AttributeError''"
    "env_sleeps (snd (analyze_cost_anomaly mcfg pv rq e)) = env_sleeps e"
    using fails by (simp_all add: analyze_cost_anomaly_def call_with_retries_def exn_name_def)
qed

text \<open>A confidence that is not a number leaves the provider as a \<open>ValueError\<close> or a \<open>TypeError\<close>, not as the
  error of a schema.\<close>

lemma unreadable_confidence_escapes:
  assumes "dget parsed ''confidence_score'' = PStr s" "tx_float tx s = None"
  shows "\<exists>msg. parse_validate tx parsed inv_id label t = Inl (Exn ValueError msg)"
  using assms by (simp add: parse_validate_def dget_def dget_default_def schema_error_def text_to_float_def split: option.splits)

end
