(* ===== verification/Gateway_Wiring.thy ===== *)
theory Gateway_Wiring
  imports Gateway_Properties Http_Providers
begin

text \<open>
  How the gateway is put together and runs (\<open>gateway/dependencies.py\<close>, \<open>gateway/main.py\<close>): its state at startup, the
  background task of a response, the worker thread, and the endpoints for operators (\<open>routers/operational.py\<close>).  The
  repositories are those in memory; \<open>Postgres_Properties\<close> shows that the stored ones behave the same.
\<close>

section \<open>Startup\<close>

text \<open>\<open>build_gateway_state\<close> with the repositories in memory: empty stores and an empty queue.\<close>

definition build_gateway_state :: "env \<Rightarrow> gateway" where
  "build_gateway_state e =
     \<lparr>gw_world = start_world e, gw_feedback = empty_feedback, gw_idempotency = [], gw_background = []\<rparr>"

section \<open>Work after the response\<close>

text \<open>The start a request left to run after its response.\<close>

definition run_scheduled :: "engine \<Rightarrow> gateway \<Rightarrow> gateway" where
  "run_scheduled eng g =
     (case gw_background g of [] \<Rightarrow> g
      | eid # later \<Rightarrow> final (on_world (start_execution eng eid)) (g\<lparr>gw_background := later\<rparr>))"

text \<open>One turn of the loop of the worker thread, and whether the thread goes on: nothing catches what a turn raises.
  A turn without work sleeps.\<close>

definition worker_thread_turn :: "engine \<Rightarrow> gateway \<Rightarrow> gateway \<times> bool" where
  "worker_thread_turn eng g =
     (case on_world (worker_run_once eng ''worker-1'') g of
        (Inl e, g') \<Rightarrow> (g', False)
      | (Inr worked, g') \<Rightarrow> (if worked then g' else final (on_world (in_env (sleep_ms 50))) g', True))"

fun worker_thread :: "nat \<Rightarrow> engine \<Rightarrow> gateway \<Rightarrow> gateway \<times> bool" where
  "worker_thread 0 eng g = (g, True)"
| "worker_thread (Suc n) eng g =
     (case worker_thread_turn eng g of (g', False) \<Rightarrow> (g', False) | (g', True) \<Rightarrow> worker_thread n eng g')"

section \<open>Endpoints for operators\<close>

definition operational_metrics :: "gateway \<Rightarrow> string" where
  "operational_metrics g = render_prometheus (env_metrics (w_env (gw_world g)))"

text \<open>The variables of the process are an argument, as in \<open>load_config_from_env\<close>.\<close>

definition runtime_health :: "text_readers \<Rightarrow> (string \<times> string) list \<Rightarrow> string \<Rightarrow> (string \<times> string) list" where
  "runtime_health tx vars app_name =
     [(''status'', ''ok''), (''gateway'', app_name),
      (''model_provider'',
         case load_config_from_env tx vars of Inl e \<Rightarrow> ''unavailable'' | Inr cfg \<Rightarrow> hc_provider_type cfg)]"

text \<open>The health check always answers, and names a provider the factory builds or none.\<close>

lemma health_names_provider:
  "map_of (runtime_health tx vars app_name) ''model_provider''
     \<in> Some ` {''fake'', ''openai'', ''azure_openai'', ''unavailable''}"
proof -
  have "case load_config_from_env tx vars of Inl e \<Rightarrow> True
      | Inr cfg \<Rightarrow> hc_provider_type cfg \<in> {''fake'', ''openai'', ''azure_openai''}"
    by (auto simp: load_config_from_env_def provider_type_of_def and_then_def Let_def split: sum.split)
  then show ?thesis by (auto simp: runtime_health_def split: sum.splits)
qed

end
