(* ===== verification/Gateway_System.thy ===== *)
theory Gateway_System
  imports Gateway_Wiring Replay_Diff_Properties
begin

text \<open>
  The whole system behind the gateway: any requests of any callers, the starts they schedule and the turns of the
  worker thread, in any order.  A request, a start and a turn are one step each, as in \<open>Reachability\<close>; finer
  interleavings of the threads are not modelled.  The invariant of the orchestrator holds in every state that can
  arise, and a request of one tenant leaves the executions of the others alone: \<open>behind\<close> carries the invariant of
  \<open>Engine_Invariant\<close> through the routes, with the executions a caller may not see in its ghost.
\<close>

section \<open>Requests\<close>

datatype api_request =
    Create_Execution create_request
  | On_Execution uuid execution_request
  | Compare_Replay uuid uuid
  | List_Executions "string option" "string option" "string option" int
  | Aggregated_Metrics "string option" "string option" "string option" int
  | Anomalies "string option" "string option" "string option" int
  | Insights "string option" "string option" "string option" int
  | Insight uuid "string option" "string option" "string option" int
  | List_Policies
  | Simulate_Policy simulate_request

text \<open>What the application is configured with.\<close>

record application =
  app_settings :: gateway_settings
  app_engine :: engine
  app_evaluator :: evaluator
  app_order :: "uuid list \<Rightarrow> uuid list"
  app_reader :: provenance_reader

definition served :: "('s, 'a) endpoint \<Rightarrow> ('s, unit) endpoint" where
  "served m = and_next m (\<lambda>_. answer ())"

fun handle :: "application \<Rightarrow> headers \<Rightarrow> api_request \<Rightarrow> (gateway, unit) endpoint" where
  "handle app hs (Create_Execution rq) = served (post_execution (app_settings app) (app_engine app) hs rq)"
| "handle app hs (On_Execution eid rq) = served (serve (app_settings app) (app_engine app) hs eid rq)"
| "handle app hs (Compare_Replay sid rid) = served (replay_diff_route (app_settings app) (app_reader app) hs sid rid)"
| "handle app hs (List_Executions t wt s n) = served (list_executions_route (app_settings app) hs t wt s n)"
| "handle app hs (Aggregated_Metrics t wt s n) = served (metrics_route (app_settings app) hs t wt s n)"
| "handle app hs (Anomalies t wt s n) = served (anomalies_route (app_settings app) hs t wt s n)"
| "handle app hs (Insights t wt s n) = served (mukti_route (app_settings app) (app_order app) hs t wt s n)"
| "handle app hs (Insight i t wt s n) = served (mukti_by_id_route (app_settings app) (app_order app) hs i t wt s n)"
| "handle app hs List_Policies = served (policies_route (app_settings app) hs)"
| "handle app hs (Simulate_Policy rq) = served (simulate_route (app_settings app) (app_evaluator app) hs rq)"

inductive system :: "application \<Rightarrow> gateway \<Rightarrow> bool" for app where
  startup: "supply_ok e \<Longrightarrow> system app (build_gateway_state e)"
| request: "system app g \<Longrightarrow> system app (snd (handle app hs rq g))"
| scheduled: "system app g \<Longrightarrow> system app (run_scheduled (app_engine app) g)"
| worker: "system app g \<Longrightarrow> system app (fst (worker_thread_turn (app_engine app) g))"

section \<open>Programs that preserve a condition\<close>

definition preserves :: "('s \<Rightarrow> bool) \<Rightarrow> ('s \<Rightarrow> 'r \<times> 's) \<Rightarrow> bool" where
  "preserves P m \<longleftrightarrow> (\<forall>s. P s \<longrightarrow> P (snd (m s)))"

lemma preservesD: "preserves P m \<Longrightarrow> P s \<Longrightarrow> P (snd (m s))"
  by (simp add: preserves_def)

lemma preserves_end:
  "preserves P (ret x)" "preserves P (throw c msg)" "preserves P (rethrow e)" "preserves P (reads f)" "preserves P (answer y)"
  "preserves P (unhandled e)"
  by (simp_all add: preserves_def ret_def throw_def rethrow_def reads_def answer_def unhandled_def)

lemma preserves_bnd: "preserves P m \<Longrightarrow> (\<And>x. preserves P (f x)) \<Longrightarrow> preserves P (bnd m f)"
  unfolding preserves_def bnd_def by (fastforce split: prod.split sum.split)

lemma preserves_andthen: "preserves P m \<Longrightarrow> preserves P n \<Longrightarrow> preserves P (andthen m n)"
  unfolding andthen_def by (rule preserves_bnd)

lemma preserves_try: "preserves P m \<Longrightarrow> (\<And>e. preserves P (h e)) \<Longrightarrow> preserves P (try_except m h)"
  unfolding preserves_def try_except_def by (fastforce split: prod.split sum.split)

lemma preserves_and_next: "preserves P m \<Longrightarrow> (\<And>x. preserves P (f x)) \<Longrightarrow> preserves P (and_next m f)"
  unfolding preserves_def and_next_def by (fastforce split: prod.split reply.split)

lemma preserves_calling: "preserves P m \<Longrightarrow> (\<And>e. preserves P (h e)) \<Longrightarrow> preserves P (calling m h)"
  unfolding preserves_def calling_def by (fastforce split: prod.split sum.split)

lemma preserves_if: "(c \<Longrightarrow> preserves P m) \<Longrightarrow> (\<not> c \<Longrightarrow> preserves P n) \<Longrightarrow> preserves P (if c then m else n)"
  by simp

lemma preserves_option:
  "preserves P m \<Longrightarrow> (\<And>x. preserves P (f x)) \<Longrightarrow> preserves P (case v of None \<Rightarrow> m | Some x \<Rightarrow> f x)"
  by (cases v) auto

lemma preserves_sum:
  "(\<And>e. preserves P (h e)) \<Longrightarrow> (\<And>x. preserves P (f x)) \<Longrightarrow> preserves P (case v of Inl e \<Rightarrow> h e | Inr x \<Rightarrow> f x)"
  by (cases v) auto

lemma preserves_prod: "(\<And>a b. preserves P (f a b)) \<Longrightarrow> preserves P (case v of (a, b) \<Rightarrow> f a b)"
  by (cases v) auto

lemma preserves_let: "(\<And>x. preserves P (f x)) \<Longrightarrow> preserves P (let x = v in f x)"
  by simp

lemmas preserves_rules = preserves_end preserves_bnd preserves_andthen preserves_try preserves_and_next preserves_calling
  preserves_if preserves_option preserves_sum preserves_prod preserves_let

lemma preserves_safe: "(\<And>w. winv fz w \<Longrightarrow> safe fz m (R w) w) \<Longrightarrow> preserves (winv fz) m"
  using safe_final by (fastforce simp: preserves_def final_def)

lemma preserves_in_env: "steps env_le m \<Longrightarrow> preserves (winv fz) (in_env m)"
  by (auto simp: preserves_def in_env_def steps_def winv_env split: prod.split) (metis snd_conv winv_env)

lemma preserves_ask: "preserves P (ask f)"
  by (simp add: preserves_def ask_def reads_def)

text \<open>The invariant of the orchestrator, behind the gateway.\<close>

definition behind :: "ghost \<Rightarrow> gateway \<Rightarrow> bool" where
  "behind fz g \<longleftrightarrow> winv fz (gw_world g)"

lemma preserves_on_world: "preserves (winv fz) m \<Longrightarrow> preserves (behind fz) (on_world m)"
  by (auto simp: preserves_def on_world_def behind_def split: prod.split)

lemma preserves_at_world: "preserves (winv fz) m \<Longrightarrow> preserves (behind fz) (at_world m)"
  by (auto simp: preserves_def at_world_def behind_def split: prod.split)

section \<open>Access checks\<close>

lemma preserves_api_error: "preserves (winv fz) (api_error request code msg status)"
proof -
  have "steps env_le (error_request_id request)"
    unfolding error_request_id_def by (intro env_le_rules)
  moreover have "preserves (winv fz) (\<lambda>w. (Http_Error e, w))" for e
    by (simp add: preserves_def)
  ultimately show ?thesis
    unfolding api_error_def by (intro preserves_rules preserves_in_env)
qed

lemma preserves_role: "preserves (winv fz) (require_any_role rs hs st)"
  unfolding require_any_role_def resolve_request_context_def checked_context_def
  by (intro preserves_rules preserves_api_error)

lemma preserves_visible: "preserves (winv fz) (assert_execution_visible request eid auth)"
  by (auto simp: assert_execution_visible_def preserves_def preserves_api_error[unfolded preserves_def, rule_format]
      split: option.split)

lemma preserves_roles:
  "preserves (winv fz) (executions_read hs st)" "preserves (winv fz) (executions_write hs st)"
  "preserves (winv fz) (approvals_write hs st)" "preserves (winv fz) (policies_admin hs st)"
  by (simp_all add: executions_read_def executions_write_def approvals_write_def policies_admin_def preserves_role)

lemma preserves_errors:
  "preserves (behind fz) (http_error_at hs code msg status)" "preserves (behind fz) (value_error_400 hs e)"
  "(\<And>e. preserves (behind fz) (other e)) \<Longrightarrow> preserves (behind fz) (key_error_404 hs msg other e)"
  unfolding http_error_at_def value_error_400_def key_error_404_def
  by (intro preserves_rules preserves_at_world preserves_api_error | assumption)+

lemma preserves_pure: "preserves P (pure_call f)"
  by (auto simp: preserves_def pure_call_def split: sum.split)

lemmas access_rules = preserves_rules preserves_at_world preserves_on_world preserves_roles preserves_visible preserves_errors
  preserves_pure preserves_ask

section \<open>Requests keep the invariant\<close>

text \<open>The calls of the services; the executions of the ghost are those they are not about.\<close>

lemma preserves_calls:
  assumes "\<And>q. gh_queue fz q"
  shows "preserves (winv fz) (create_execution a)"
    and "eid \<notin> gh_frozen fz \<Longrightarrow> preserves (winv fz) (enqueue_execution eid now)"
    and "eid \<notin> gh_frozen fz \<Longrightarrow> services_ok eng \<Longrightarrow> preserves (winv fz) (start_execution eng eid)"
    and "eid \<notin> gh_frozen fz \<Longrightarrow> preserves (winv fz) (request_cancellation eid reason)"
    and "eid \<notin> gh_frozen fz \<Longrightarrow> preserves (winv fz) (submit_approval eid approver d notes)"
    and "services_ok eng \<Longrightarrow> preserves (winv fz) (create_replay eng rq now)"
    and "eid \<notin> gh_frozen fz \<Longrightarrow> preserves (winv fz) (require_execution eid)"
  using assms by (auto simp: submit_approval_def intro!: preserves_safe safe_create_execution safe_enqueue_execution
      safe_start_execution safe_request_cancellation safe_submit_approval safe_create_replay safe_require_execution)

lemma preserves_facades:
  assumes "\<And>q. gh_queue fz q"
  shows "eid \<notin> gh_frozen fz \<Longrightarrow> preserves (winv fz) (facade_submit_approval eid p v decision approver notes)"
    and "services_ok eng \<Longrightarrow> preserves (winv fz) (facade_request_replay eng sid b)"
  unfolding facade_submit_approval_def facade_request_replay_def
  by (intro preserves_rules preserves_calls assms preserves_ask | assumption)+

text \<open>A new execution is none of the ghost's.\<close>

lemma behind_fields:
  "behind fz (g\<lparr>gw_idempotency := t\<rparr>) = behind fz g" "behind fz (g\<lparr>gw_background := b\<rparr>) = behind fz g"
  "behind fz (g\<lparr>gw_feedback := f\<rparr>) = behind fz g"
  by (simp_all add: behind_def)

lemma preserves_remember: "preserves (behind fz) (remember_key key eid)"
  unfolding remember_key_def by (intro preserves_rules) (simp add: preserves_def modifies_def behind_fields)

lemma preserves_schedule:
  assumes "\<And>q. gh_queue fz q" "services_ok eng" "eid \<notin> gh_frozen fz"
  shows "preserves (behind fz) (schedule_start st eng schedule callback mode eid)"
proof -
  have "preserves (behind fz) (modifies (\<lambda>g. g\<lparr>gw_background := gw_background g @ [eid]\<rparr>))"
    by (simp add: preserves_def modifies_def behind_fields)
  then show ?thesis
    unfolding schedule_start_def by (intro preserves_rules preserves_on_world preserves_calls assms)
qed

lemma preserves_create:
  assumes "\<And>q. gh_queue fz q" "\<And>ex. ex_id ex \<notin> gh_frozen fz \<Longrightarrow> preserves (behind fz) (h ex)"
  shows "preserves (behind fz) (bnd (on_world (create_execution a)) h)"
  unfolding preserves_def
proof (intro allI impI)
  fix g assume g: "behind fz g"
  obtain r w where run: "create_execution a (gw_world g) = (r, w)" by (cases "create_execution a (gw_world g)")
  have ok: "behind fz (g\<lparr>gw_world := w\<rparr>)"
    using preservesD[OF preserves_calls(1)[OF assms(1)], of "gw_world g" a] g run by (simp add: behind_def)
  show "behind fz (snd (bnd (on_world (create_execution a)) h g))"
  proof (cases r)
    case (Inl e)
    then show ?thesis using run ok by (simp add: bnd_def on_world_def)
  next
    case (Inr ex)
    have "ex_id ex \<notin> gh_frozen fz"
      using safe_create_execution[of fz "gw_world g" a] g run Inr by (simp add: behind_def wp_def good_def)
    then show ?thesis using run ok assms(2) Inr by (simp add: bnd_def on_world_def preserves_def)
  qed
qed

lemma preserves_post:
  assumes "\<And>q. gh_queue fz q" "services_ok eng"
  shows "preserves (behind fz) (post_execution st eng hs rq)"
proof -
  have created: "preserves (behind fz) (bnd (on_world (create_execution a)) (\<lambda>ex. andthen (remember_key key (ex_id ex))
      (andthen (schedule_start st eng s c mode (ex_id ex)) (ret ex))))" for a key s c mode
    by (intro preserves_create assms) (intro access_rules preserves_remember preserves_schedule assms)
  show ?thesis
    unfolding post_execution_def run_create_def facade_create_execution_def
    by (rule created | rule access_rules | assumption)+
qed

text \<open>A route on one execution: behind the visibility check it may only be about an execution the ghost does not
  hold, or it is refused.\<close>

lemma gateway_drew_behind: "gateway_drew g g' \<Longrightarrow> behind fz g \<Longrightarrow> behind fz g'"
  by (auto simp: gateway_drew_def drew_ids_def behind_def winv_env_ix)

lemma behind_visible:
  assumes "behind fz g" "eid \<in> gh_frozen fz \<Longrightarrow> refuses gateway_drew (visible_to role st hs eid) g"
    and "\<And>x. eid \<notin> gh_frozen fz \<Longrightarrow> preserves (behind fz) (f x)"
    and "\<And>hs st. preserves (winv fz) (role hs st)"
  shows "behind fz (snd (and_next (visible_to role st hs eid) f g))"
proof (cases "eid \<in> gh_frozen fz")
  case True
  from refuses_and_next[OF assms(2)[OF this], of f] show ?thesis
    using assms(1) by (auto simp: refuses_def gateway_drew_behind split: prod.splits reply.splits)
next
  case False
  have "preserves (behind fz) (visible_to role st hs eid)"
    unfolding visible_to_def by (intro access_rules assms(4))
  then have "preserves (behind fz) (and_next (visible_to role st hs eid) f)"
    using assms(3) False by (intro access_rules)
  then show ?thesis using assms(1) by (rule preservesD)
qed

lemma preserves_store_feedback: "preserves (behind fz) (store_feedback eid b)"
proof -
  have "steps env_le (submit_feedback eid src labels detail scope r)" for src labels detail scope r
    unfolding submit_feedback_def submit_operator_feedback_def by (intro env_le_rules)
  then have "env_le e (snd (submit_feedback eid src labels detail scope r e))" for src labels detail scope r e
    by (simp add: steps_def)
  then show ?thesis
    unfolding preserves_def store_feedback_def behind_def
    by (auto split: prod.split sum.split) (metis snd_conv winv_env)+
qed

lemmas served_routes = replying_def get_execution_route_def cancel_route_def trace_route_def approval_route_def replay_route_def
  feedback_route_def execution_metrics_route_def stream_route_def executions_read_def executions_write_def approvals_write_def

text \<open>Every route on one execution is the check for its roles, and then something that is about it alone.\<close>

lemma and_next_assoc: "and_next (and_next m f) h = and_next m (\<lambda>x. and_next (f x) h)"
  by (auto simp: and_next_def fun_eq_iff split: prod.split reply.split)

lemma behind_serve:
  assumes "behind fz g" "\<And>q. gh_queue fz q" "services_ok eng"
    and refused: "eid \<in> gh_frozen fz \<Longrightarrow> refuses gateway_drew (visible_to (require_any_role (roles_for rq)) st hs eid) g"
  shows "behind fz (snd (serve st eng hs eid rq g))"
proof -
  note visible = behind_visible[OF assms(1) _ _ preserves_role]
  note keep = access_rules preserves_calls preserves_facades preserves_store_feedback assms(2,3)
  note expand = serve.simps served_routes and_next_assoc
  show ?thesis
  proof (cases rq)
    case Get_Execution
    show ?thesis unfolding Get_Execution expand
      by (rule visible[OF refused[unfolded Get_Execution roles_for.simps]]) (rule keep | assumption)+
  next
    case Cancel_Execution
    show ?thesis unfolding Cancel_Execution expand
      by (rule visible[OF refused[unfolded Cancel_Execution roles_for.simps]]) (rule keep | assumption)+
  next
    case Get_Trace
    show ?thesis unfolding Get_Trace expand
      by (rule visible[OF refused[unfolded Get_Trace roles_for.simps]]) (rule keep | assumption)+
  next
    case (Post_Approval b)
    show ?thesis unfolding Post_Approval expand
      by (rule visible[OF refused[unfolded Post_Approval roles_for.simps]]) (rule keep | assumption)+
  next
    case (Post_Replay b)
    show ?thesis unfolding Post_Replay expand
      by (rule visible[OF refused[unfolded Post_Replay roles_for.simps]]) (rule keep | assumption)+
  next
    case (Post_Feedback b)
    show ?thesis unfolding Post_Feedback expand
      by (rule visible[OF refused[unfolded Post_Feedback roles_for.simps]]) (rule keep | assumption)+
  next
    case Get_Metrics
    show ?thesis unfolding Get_Metrics expand
      by (rule visible[OF refused[unfolded Get_Metrics roles_for.simps]]) (rule keep | assumption)+
  next
    case Open_Stream
    show ?thesis unfolding Open_Stream expand
      by (rule visible[OF refused[unfolded Open_Stream roles_for.simps]]) (rule keep | assumption)+
  qed
qed

text \<open>The other routes read the store, or only draw identifiers.\<close>

lemma preserves_compare: "preserves (winv fz) (in_repo (compare read sid rid))"
proof -
  have "w\<lparr>w_repo := snd (compare read sid rid (w_repo w))\<rparr> = w" for w
    using diff_reads_only[of read sid rid "w_repo w"] by simp
  note same = this
  show ?thesis by (simp add: preserves_def in_repo_def split_def same)
qed

lemma preserves_simulate: "preserves (winv fz) (in_env (simulate_policy ev rq tenant actor request))"
proof -
  have "steps env_le (simulate_record d)" for d
    unfolding simulate_record_def record_policy_simulation_def record_policy_evaluation_def Let_def by (intro env_le_rules; cases "pd_decision d"; simp add: env_le_rules)
  then show ?thesis
    unfolding simulate_policy_def Let_def by (intro preserves_in_env env_le_rules)
qed

lemma preserves_insights: "preserves (winv fz) (get_mukti_insights order fr tenant workflow status limit)"
  unfolding get_mukti_insights_def service_list_executions_def by (intro preserves_rules preserves_ask)

lemma preserves_with_feedback: "(\<And>fr. preserves (winv fz) (f fr)) \<Longrightarrow> preserves (behind fz) (with_feedback f)"
  using preserves_on_world by (fastforce simp: preserves_def with_feedback_def)

lemmas other_routes = replay_diff_route_def list_executions_route_def metrics_route_def anomalies_route_def mukti_route_def
  mukti_by_id_route_def policies_route_def simulate_route_def in_tenant_def scoped_tenant_id_def service_list_executions_def
  get_mukti_insight_by_id_def

lemma preserves_others:
  "preserves (behind fz) (replay_diff_route st read hs sid rid)"
  "preserves (behind fz) (list_executions_route st hs t wt s n)" "preserves (behind fz) (metrics_route st hs t wt s n)"
  "preserves (behind fz) (anomalies_route st hs t wt s n)" "preserves (behind fz) (mukti_route st order hs t wt s n)"
  "preserves (behind fz) (mukti_by_id_route st order hs i t wt s n)" "preserves (behind fz) (policies_route st hs)"
  "preserves (behind fz) (simulate_route st ev hs rq)"
  unfolding other_routes
  by (rule access_rules preserves_compare preserves_simulate preserves_insights preserves_with_feedback)+

text \<open>A request keeps the invariant, and the executions of the ghost with it, when it may see none of them.\<close>

lemma behind_handle:
  assumes "behind fz g" "\<And>q. gh_queue fz q" "services_ok (app_engine app)"
    and refused: "\<And>eid q. rq = On_Execution eid q \<Longrightarrow> eid \<in> gh_frozen fz \<Longrightarrow>
      refuses gateway_drew (visible_to (require_any_role (roles_for q)) (app_settings app) hs eid) g"
  shows "behind fz (snd (handle app hs rq g))"
proof -
  have served: "behind fz (snd (served m g))" if "behind fz (snd (m g))" for m :: "(gateway, 'a) endpoint"
    using that by (auto simp: served_def and_next_def answer_def split: prod.split reply.split)
  show ?thesis
  proof (cases rq)
    case (On_Execution eid q)
    then show ?thesis using behind_serve[OF assms(1-3) refused] by (simp add: served)
  qed (use preserves_others assms(1) in \<open>simp_all add: served preserves_def preserves_post[unfolded preserves_def] assms\<close>)
qed

section \<open>Every state of the system\<close>

lemma system_behind:
  assumes "system app g" "services_ok (app_engine app)"
  shows "behind no_ghost g"
  using assms(1)
proof induction
  case (startup e)
  then show ?case by (simp add: behind_def build_gateway_state_def winv_start)
next
  case (request g hs rq)
  then show ?case using assms(2) by (intro behind_handle) simp_all
next
  case (scheduled g)
  have "preserves (behind no_ghost) (on_world (start_execution (app_engine app) eid))" for eid
    using assms(2) by (intro preserves_on_world preserves_calls) simp_all
  then show ?case using scheduled.IH
    by (auto simp: run_scheduled_def preserves_def final_def behind_fields split: list.split)
next
  case (worker g)
  let ?run = "worker_run_once (app_engine app) ''worker-1'' (gw_world g)"
  have w: "winv (at_queue {} empty_repo (w_queue (gw_world g))) (gw_world g)"
    using worker.IH by (simp add: behind_def winv_def)
  obtain r w' where run: "?run = (r, w')" by fastforce
  from wp_run[OF worker_turn[OF w assms(2)] run] have "winv no_ghost w'"
    by (auto simp: winv_def split: sum.splits)
  moreover from this have "winv no_ghost (snd (in_env (sleep_ms 50) w'))"
    by (rule preservesD[OF preserves_in_env, rotated]) (rule env_le_sleep)
  ultimately show ?case
    using run by (auto simp: behind_def worker_thread_turn_def on_world_def final_def split: sum.split prod.split)
qed

text \<open>The tenant a caller is authenticated as, when it is.\<close>

definition caller_tenant :: "gateway_settings \<Rightarrow> headers \<Rightarrow> gateway \<Rightarrow> string option" where
  "caller_tenant st hs g =
     (case fst (resolve_request_context hs st (gw_world g)) of Reply auth \<Rightarrow> Some (rc_tenant_id auth) | _ \<Rightarrow> None)"

lemma foreign_refused:
  assumes "\<And>t. caller_tenant st hs g = Some t \<Longrightarrow> execution_tenant (w_repo (gw_world g)) eid \<noteq> Some t"
  shows "refuses gateway_drew (visible_to (require_any_role rs) st hs eid) g"
  by (rule visible_refuses) (use assms in \<open>auto simp: caller_tenant_def split: reply.splits\<close>)

section \<open>A small system\<close>

definition sample_app :: application where
  "sample_app = \<lparr>app_settings = default_gateway_settings, app_engine = sample_engine, app_evaluator = evaluate,
     app_order = (\<lambda>ids. ids), app_reader = (\<lambda>_. None)\<rparr>"

lemma sample_system:
  obtains g k ex where "system sample_app g" "get_execution (w_repo (gw_world g)) k = Some ex"
    "execution_tenant (w_repo (gw_world g)) k = Some ''acme''"
proof -
  let ?hs = "sample_headers ''acme''"
  obtain ct g where post: "post_execution default_gateway_settings sample_engine ?hs sample_create start_gateway = (Reply ct, g)"
    using sample_create_accepted by blast
  have "start_gateway = build_gateway_state sample_env" by (simp add: start_gateway_def build_gateway_state_def)
  then have "system sample_app start_gateway" using system.startup[OF supply_sample] by simp
  then have "system sample_app (snd (handle sample_app ?hs (Create_Execution sample_create) start_gateway))"
    by (rule system.request)
  then have sys: "system sample_app g" using post by (simp add: sample_app_def served_def and_next_def answer_def)
  obtain auth ex where parts: "executions_write ?hs default_gateway_settings (gw_world start_gateway) = (Reply auth, gw_world start_gateway)"
    "run_create default_gateway_settings sample_engine auth sample_create start_gateway = (Inr ex, g)"
    by (rule post_execution_parts[OF post])
  obtain ctx where "created (rc_tenant_id auth) (cr_workflow_type sample_create) (idempotency_key sample_create ctx) ex g"
    by (rule run_create_created[OF start_gateway_ok parts(2)])
  then have tenant: "execution_tenant (w_repo (gw_world g)) (ex_id ex) = Some (rc_tenant_id auth)"
    unfolding created_def by (blast dest: owned_tenant)
  moreover have "rc_tenant_id auth = ''acme''"
    using parts(1) require_anywhere unfolding executions_write_def
    by (fastforce simp: sample_caller_context strip_def is_space_def request_context_of_def)
  moreover obtain stored where "get_execution (w_repo (gw_world g)) (ex_id ex) = Some stored"
    using tenant by (auto simp: execution_tenant_def split: option.splits)
  ultimately show ?thesis using that sys by simp
qed

section \<open>Properties of the system\<close>



text \<open>C5. No request of a caller of another tenant, nor of one who is not authenticated, changes a stored execution or
  its steps, whichever request it is.\<close>

theorem requests_stay_in_tenant:
  assumes "system app g" "services_ok (app_engine app)" "get_execution (w_repo (gw_world g)) k = Some ex"
    and "caller_tenant (app_settings app) hs g = None \<or>
      caller_tenant (app_settings app) hs g \<noteq> execution_tenant (w_repo (gw_world g)) k"
  shows "get_execution (w_repo (gw_world (snd (handle app hs rq g)))) k = Some ex \<and>
    steps_of (w_repo (gw_world (snd (handle app hs rq g)))) k = steps_of (w_repo (gw_world g)) k"
proof -
  let ?fz = "\<lparr>gh_frozen = {k}, gh_repo = w_repo (gw_world g), gh_queue = (\<lambda>_. True)\<rparr>"
  have "behind ?fz g"
    using system_behind[OF assms(1,2)] assms(3) by (simp add: behind_def winv_def untouched_def)
  moreover have "refuses gateway_drew (visible_to (require_any_role (roles_for q)) (app_settings app) hs k) g" for q
    using assms(4) by (intro foreign_refused) auto
  ultimately have "behind ?fz (snd (handle app hs rq g))" using assms(2) by (intro behind_handle) simp_all
  then show ?thesis using assms(3) by (simp add: behind_def winv_def untouched_def)
qed

text \<open>Another tenant asks to cancel the execution.\<close>

theorem requests_stay_in_tenant_witness:
  "\<exists>g k ex. system sample_app g \<and> get_execution (w_repo (gw_world g)) k = Some ex \<and>
     get_execution (w_repo (gw_world (snd (handle sample_app (sample_headers ''rival'') (On_Execution k Cancel_Execution) g)))) k
       = Some ex"
proof -
  obtain g k ex where g: "system sample_app g" "get_execution (w_repo (gw_world g)) k = Some ex"
    "execution_tenant (w_repo (gw_world g)) k = Some ''acme''"
    by (rule sample_system)
  have eng: "services_ok (app_engine sample_app)" by (simp add: sample_app_def services_sample)
  have "caller_tenant (app_settings sample_app) (sample_headers ''rival'') g = Some ''rival''"
    by (simp add: caller_tenant_def sample_caller_context strip_def is_space_def request_context_of_def)
  with g(3) have "caller_tenant (app_settings sample_app) (sample_headers ''rival'') g = None \<or>
      caller_tenant (app_settings sample_app) (sample_headers ''rival'') g \<noteq> execution_tenant (w_repo (gw_world g)) k"
    by simp
  from requests_stay_in_tenant[OF g(1) eng g(2) this] g show ?thesis by blast
qed

end
