(* ===== verification/Worker_Outcome.thy ===== *)
theory Worker_Outcome
  imports Replay_Outcome
begin

text \<open>
  What a worker makes of queued work: an execution that is created and enqueued is run to the end its policy
  decision calls for by the turn that takes it from the queue, and that turn never raises.  \<open>ready_to_start\<close> is what
  every call before the start keeps.
\<close>

section \<open>Ready to start\<close>

text \<open>An execution as it was created: it has no step yet, and the identifiers the supply hands out next name none.\<close>

definition ready_to_start :: "string \<Rightarrow> string \<Rightarrow> string \<Rightarrow> env \<Rightarrow> nat \<Rightarrow> uuid \<Rightarrow> world \<Rightarrow> bool" where
  "ready_to_start wt environment scope e ix eid w \<longleftrightarrow>
     repo_ok (w_repo w) \<and> steps_of (w_repo w) eid = [] \<and> inj (env_uuids e) \<and>
     env_uuids (w_env w) = env_uuids e \<and> env_uuid_ix (w_env w) = ix \<and>
     (\<forall>i \<ge> ix. get_step (w_repo w) (env_uuids e i) = None) \<and>
     (\<exists>ex ctx. get_execution (w_repo w) eid = Some ex \<and> ex_status ex = ES_CREATED \<and> ex_workflow_type ex = wt \<and>
        get_context (w_repo w) (ex_context_id ex) = Some ctx \<and> ctx_environment ctx = environment \<and>
        ctx_policy_scope ctx = scope)"

definition uncancelled :: "uuid \<Rightarrow> world \<Rightarrow> bool" where
  "uncancelled eid w \<longleftrightarrow> (\<exists>ex. get_execution (w_repo w) eid = Some ex \<and> \<not> is_cancellation_requested ex)"

lemma ready_cong:
  "ready_to_start wt en sc e ix eid w \<Longrightarrow> w_repo v = w_repo w \<Longrightarrow> env_uuids (w_env v) = env_uuids (w_env w) \<Longrightarrow>
     env_uuid_ix (w_env v) = env_uuid_ix (w_env w) \<Longrightarrow> ready_to_start wt en sc e ix eid v"
  by (simp add: ready_to_start_def)

lemma ready_queue [simp]: "ready_to_start wt en sc e ix eid (w\<lparr>w_queue := q\<rparr>) = ready_to_start wt en sc e ix eid w"
  by (simp add: ready_to_start_def)

lemma uncancelled_rest [simp]: "uncancelled eid (w\<lparr>w_queue := q\<rparr>) = uncancelled eid w"
  "uncancelled eid (w\<lparr>w_env := e'\<rparr>) = uncancelled eid w"
  by (simp_all add: uncancelled_def)

lemma ready_execution:
  assumes "ready_to_start wt en sc e ix eid w"
  obtains ex where "get_execution (w_repo w) eid = Some ex" "ex_id ex = eid" "ex_status ex = ES_CREATED"
  using assms get_execution_id unfolding ready_to_start_def by blast

text \<open>A mark on the execution keeps it ready.\<close>

lemma ready_update:
  assumes r: "ready_to_start wt en sc e ix eid w" and ex: "get_execution (w_repo w) eid = Some ex"
    and v: "w_repo v = save_execution (apply_runtime_meta patch ex) (w_repo w)" "env_uuids (w_env v) = env_uuids (w_env w)"
      "env_uuid_ix (w_env v) = env_uuid_ix (w_env w)"
  shows "ready_to_start wt en sc e ix eid v"
proof -
  have "ex_id ex = eid" using r ex get_execution_id by (auto simp: ready_to_start_def)
  moreover have "r_steps (save_execution x r) = r_steps r" for x r by (simp add: save_execution_def)
  ultimately show ?thesis
    using assms by (auto simp: ready_to_start_def repo_ok_saves executions.get_save steps_of_def get_context_saves
        get_step_def)
qed

text \<open>Counting and logging draw no identifier.\<close>

lemma wp_calls_exact:
  assumes "\<And>e. env_uuids e = env_uuids (w_env w) \<Longrightarrow> env_uuid_ix e = env_uuid_ix (w_env w) \<Longrightarrow> Q () (w\<lparr>w_env := e\<rparr>)"
  shows "wp (in_env (inc_metric nm ls)) Q E w" "wp (in_env (observe_metric nm v ls)) Q E w"
    "wp (in_env (emit_event ty kvs)) Q E w"
  using assms by (simp_all add: wp_def in_env_def inc_metric_def observe_metric_def emit_event_def modifies_def bnd_def utc_now_def)

section \<open>Created, queued, taken\<close>

lemma wp_create_ready:
  assumes w: "winv no_ghost w"
  shows "wp (create_execution a) (\<lambda>ex v. ready_to_start (ca_workflow_type a) (ca_environment a) (ca_policy_scope a)
      (w_env w) (Suc (Suc (env_uuid_ix (w_env w)))) (ex_id ex) v \<and> w_queue v = w_queue w) no_error w"
proof -
  let ?u = "env_uuids (w_env w)" and ?ix = "env_uuid_ix (w_env w)"
  have ok: "repo_ok (w_repo w)" and inj: "inj ?u" and fresh: "\<And>i. ?ix \<le> i \<Longrightarrow> ?u i \<notin> known_ids (w_repo w)"
    using w by (simp_all add: winv_def fresh_def)
  have unused: "get_step (w_repo w) (?u i) = None" if "?ix \<le> i" for i
    using fresh[OF that] by (force simp: known_ids_def get_step_def map_of_eq_None_iff)
  have "?u (Suc ?ix) \<notin> st_execution_id ` snd ` set (r_steps (w_repo w))" using fresh[of "Suc ?ix"] by (simp add: known_ids_def)
  then have none: "steps_of (w_repo w) (?u (Suc ?ix)) = []" by (force simp: steps_of_def filter_empty_conv)
  have kept: "r_steps (save_execution x r) = r_steps r" "r_steps (save_context y r) = r_steps r" for x y r
    by (simp_all add: save_execution_def save_context_def)
  show ?thesis
    unfolding create_execution_def wp_bnd
    apply (rule wp_clock_exact)
    using none unused inj ok
    by (auto simp: wp_uuid4 wp_andthen wp_on_repo wp_ret Let_def ready_to_start_def executions.get_save get_context_saves
        repo_ok_saves steps_of_def get_step_def kept) (simp_all add: new_context_def)
qed

lemma wp_require:
  "get_execution (w_repo w) eid = Some ex \<Longrightarrow> Q ex w \<Longrightarrow> wp (require_execution eid) Q E w"
  by (simp add: require_execution_def wp_bnd wp_ask wp_ret)

lemma wp_put_work:
  "Q (Suc (length (w_queue w))) (w\<lparr>w_queue := w_queue w @ [\<lparr>wi_execution_id = eid, wi_enqueued_at = ts\<rparr>]\<rparr>) \<Longrightarrow>
     wp (put_work eid ts) Q E w"
  by (simp add: wp_def put_work_def queue_enqueue_def Let_def)

lemma wp_enqueue:
  assumes r: "ready_to_start wt en sc e ix eid w"
  shows "wp (enqueue_execution eid now) (\<lambda>ex v. ready_to_start wt en sc e ix eid v \<and> uncancelled eid v \<and>
      (\<exists>ts. w_queue v = w_queue w @ [\<lparr>wi_execution_id = eid, wi_enqueued_at = ts\<rparr>])) no_error w"
proof -
  obtain ex where ex: "get_execution (w_repo w) eid = Some ex" "ex_id ex = eid" by (rule ready_execution[OF r])
  have marked: "ready_to_start wt en sc e ix eid v"
    if "w_repo v = save_execution (mark_queued ts ex) (w_repo w)" "env_uuids (w_env v) = env_uuids (w_env w)"
      "env_uuid_ix (w_env v) = env_uuid_ix (w_env w)" for v ts
    using that unfolding mark_queued_def by (rule ready_update[OF r ex(1)])
  show ?thesis
    unfolding enqueue_execution_def wp_bnd Let_def wp_andthen wp_ret
    apply (rule wp_clock_exact)
    apply (rule wp_require[where ex = ex])
     apply (simp add: ex)
    apply (rule wp_update_execution)
     apply (simp add: ex)
    apply (rule wp_put_work)
    apply (rule wp_calls_exact)+
    by (simp add: uncancelled_def executions.get_save ex marked)
qed

text \<open>The turn of the worker: the work is taken, marked, started and reported.\<close>

lemma wp_record_started:
  assumes r: "ready_to_start wt en sc e ix eid w" and unc: "uncancelled eid w"
  shows "wp (record_worker_started eid worker now)
    (\<lambda>ex v. ready_to_start wt en sc e ix eid v \<and> uncancelled eid v) no_error w"
proof -
  obtain ex where ex: "get_execution (w_repo w) eid = Some ex" "ex_id ex = eid" by (rule ready_execution[OF r])
  have marked: "ready_to_start wt en sc e ix eid v"
    if "w_repo v = save_execution (mark_worker_started worker ts ex) (w_repo w)" "env_uuids (w_env v) = env_uuids (w_env w)"
      "env_uuid_ix (w_env v) = env_uuid_ix (w_env w)" for v ts
    using that unfolding mark_worker_started_def by (rule ready_update[OF r ex(1)])
  have "\<not> is_cancellation_requested ex" using unc ex(1) by (simp add: uncancelled_def)
  then show ?thesis
    unfolding record_worker_started_def wp_bnd Let_def wp_andthen wp_ret
    apply (intro wp_clock_exact)
    apply (rule wp_require[where ex = ex])
     apply (simp add: ex)
    apply (rule wp_update_execution)
     apply (simp add: ex)
    by (simp add: uncancelled_def executions.get_save ex marked)
qed

lemma wp_start_ready:
  assumes r: "ready_to_start wt en sc e ix eid w" and unc: "uncancelled eid w"
    and eng: "services_ok eng" "self_contained eng" "eng_policy eng = evaluate"
    and keys: "distinct (map uuid_str (next_ids e (Suc ix) (plan_count wt)))"
  shows "wp (start_execution eng eid) (ends_decided eid (decided wt (decision_spec ''escalate_incident'' en sc))) no_error w"
proof -
  obtain ex ctx where ex: "get_execution (w_repo w) eid = Some ex" "ex_status ex = ES_CREATED" "ex_workflow_type ex = wt"
    and ctx: "get_context (w_repo w) (ex_context_id ex) = Some ctx" "ctx_environment ctx = en" "ctx_policy_scope ctx = sc"
    and rest: "repo_ok (w_repo w)" "steps_of (w_repo w) eid = []" "inj (env_uuids e)" "env_uuids (w_env w) = env_uuids e"
      "env_uuid_ix (w_env w) = ix" "\<forall>i \<ge> ix. get_step (w_repo w) (env_uuids e i) = None"
    using r by (auto simp: ready_to_start_def)
  have same: "next_ids (w_env w) i m = next_ids e i m" for i m using rest(4) by (simp add: next_ids_def)
  show ?thesis
  proof (rule wp_start_created[OF eng(1,2) _ rest(1,2) ex _ ctx(1)])
    show "pd_decision (eng_policy eng ctx p) = decision_spec ''escalate_incident'' en sc"
      if "ap_action_type p = ''escalate_incident''" for p
      using that ctx by (simp add: eng(3) evaluate_decision)
    show "\<not> is_cancellation_requested ex" using unc ex(1) by (simp add: uncancelled_def)
    show "\<forall>u \<in> set (next_ids (w_env w) (Suc (env_uuid_ix (w_env w)) + plan_count wt) (plan_count wt)).
        get_step (w_repo w) u = None"
      using rest by (auto simp: next_ids_def)
  qed (use keys distinct_next_ids[OF rest(3)] rest in \<open>simp_all add: same\<close>)
qed

lemma ends_decided_env [simp]: "ends_decided eid st ex (w\<lparr>w_env := e\<rparr>) = ends_decided eid st ex w"
  by (simp add: ends_decided_def)

lemma wp_process_ready:
  assumes r: "ready_to_start wt en sc e ix eid w" and unc: "uncancelled eid w" and it: "wi_execution_id it = eid"
    and eng: "services_ok eng" "self_contained eng" "eng_policy eng = evaluate"
    and keys: "distinct (map uuid_str (next_ids e (Suc ix) (plan_count wt)))"
  shows "wp (process_item eng worker it)
    (\<lambda>_ v. \<exists>ex. ends_decided eid (decided wt (decision_spec ''escalate_incident'' en sc)) ex v) no_error w"
proof -
  obtain ex where ex: "get_execution (w_repo w) eid = Some ex" by (rule ready_execution[OF r])
  have start: "wp (start_execution eng eid) (\<lambda>ex v. ends_decided eid (decided wt (decision_spec ''escalate_incident'' en sc)) ex v)
      no_error v" if "ready_to_start wt en sc e ix eid v" "uncancelled eid v" for v
    using wp_start_ready[OF that eng keys] .
  show ?thesis
    unfolding process_item_def wp_bnd Let_def wp_andthen wp_reads service_get_execution_def wp_ask it
    apply (rule wp_clock_exact)
    apply (rule wp_calls_exact)+
    apply (simp only: w_repo_env ex option.case wp_andthen wp_bnd)
    apply (rule wp_mono[OF wp_record_started[of wt en sc e ix]])
       apply (rule ready_cong[OF r]; simp)
      apply (simp add: unc)
     apply (elim conjE)
     apply (simp only: wp_bnd wp_andthen)
     apply (rule wp_clock_exact)
     apply (simp only: wp_bnd wp_andthen)
     apply (rule wp_mono[OF start])
        apply (erule ready_cong; simp)
       apply simp
      apply (simp only: wp_bnd wp_andthen)
      apply (rule wp_env_clock)
      apply (simp only: wp_bnd wp_andthen)
      apply (rule wp_env_calls)
      apply (simp only: wp_bnd wp_andthen)
      apply (rule wp_env_calls)
      apply (simp only: wp_bnd wp_ask)
      apply (rule wp_env_calls)
      apply auto
    done
qed

text \<open>The worker takes the only item and runs it to its decision.\<close>

lemma wp_worker_ready:
  assumes r: "ready_to_start wt en sc e ix eid w" and unc: "uncancelled eid w"
    and q: "w_queue w = [\<lparr>wi_execution_id = eid, wi_enqueued_at = ts\<rparr>]"
    and eng: "services_ok eng" "self_contained eng" "eng_policy eng = evaluate"
    and keys: "distinct (map uuid_str (next_ids e (Suc ix) (plan_count wt)))"
  shows "wp (worker_run_once eng worker) (\<lambda>ran v. ran \<and>
    (\<exists>ex. ends_decided eid (decided wt (decision_spec ''escalate_incident'' en sc)) ex v)) no_error w"
proof -
  let ?it = "\<lparr>wi_execution_id = eid, wi_enqueued_at = ts\<rparr>"
  have taken: "take_work w = (Inr (Some ?it), w\<lparr>w_queue := []\<rparr>)"
    by (simp add: take_work_def queue_dequeue_def q)
  have "wp (process_item eng worker ?it)
      (\<lambda>_ v. \<exists>ex. ends_decided eid (decided wt (decision_spec ''escalate_incident'' en sc)) ex v) no_error (w\<lparr>w_queue := []\<rparr>)"
    by (rule wp_process_ready[OF _ _ _ eng keys]) (simp_all add: r unc)
  then show ?thesis
    unfolding worker_run_once_def wp_bnd wp_result[where m = take_work, OF taken] option.case wp_andthen
    by (rule wp_mono) (simp_all add: wp_ret)
qed

end
