(* ===== verification/Gateway_Queue.thy ===== *)
theory Gateway_Queue
  imports Gateway_System Worker_Outcome
begin

text \<open>
  From the request to the decision: an execution posted in background mode goes to the queue, and the turn of the
  worker thread that takes it runs it to the end the policy decides on.  The lemmas follow the request through the
  facade with \<open>ready_to_start\<close> of \<open>Worker_Outcome\<close>.
\<close>

section \<open>The request\<close>

definition queued_for :: "string \<Rightarrow> gateway \<Rightarrow> uuid \<Rightarrow> gateway \<Rightarrow> bool" where
  "queued_for wt g eid g' \<longleftrightarrow> (\<exists>en sc ts.
     ready_to_start wt en sc (w_env (gw_world g)) (Suc (Suc (env_uuid_ix (w_env (gw_world g))))) eid (gw_world g') \<and>
     uncancelled eid (gw_world g') \<and>
     w_queue (gw_world g') = w_queue (gw_world g) @ [\<lparr>wi_execution_id = eid, wi_enqueued_at = ts\<rparr>])"

lemma wp_facade_queued:
  assumes w: "winv no_ghost (gw_world g)" and st: "gs_use_queue st"
    and rq: "cr_workflow_type rq \<in> set REGISTERED_WORKFLOW_TYPES" "truthy (dget ctx ''tenant_id'')"
      "truthy (dget ctx ''policy_scope'')" "requested_mode ctx = Some EM_BACKGROUND"
  shows "wp (facade_create_execution st eng (Some True) b rq ctx)
    (\<lambda>ex g'. known_execution (idempotency_key rq ctx) g = Some ex
       \<or> queued_for (cr_workflow_type rq) g (ex_id ex) g') (\<lambda>_ _. False) g"
proof -
  let ?key = "idempotency_key rq ctx" and ?a = "facade_create_args rq ctx EM_BACKGROUND"
  let ?Q = "\<lambda>ex g'. known_execution ?key g = Some ex
       \<or> queued_for (cr_workflow_type rq) g (ex_id ex) g'"
  have later: "wp (andthen (remember_key ?key (ex_id ex)) (andthen (schedule_start st eng (Some True) b EM_BACKGROUND (ex_id ex)) (ret ex)))
      ?Q (\<lambda>_ _. False) (g\<lparr>gw_world := v\<rparr>)"
    if v: "ready_to_start (ca_workflow_type ?a) (ca_environment ?a) (ca_policy_scope ?a) (w_env (gw_world g))
        (Suc (Suc (env_uuid_ix (w_env (gw_world g))))) (ex_id ex) v" "w_queue v = w_queue (gw_world g)" for ex :: execution and v
  proof -
    have queued: "wp (schedule_start st eng (Some True) b EM_BACKGROUND (ex_id ex)) (\<lambda>_. ?Q ex) (\<lambda>_ _. False) u"
      if "gw_world u = v" for u
      unfolding schedule_start_def Let_def
      using wp_mono[OF wp_enqueue[OF v(1), of None], of "\<lambda>_ v. ?Q ex (u\<lparr>gw_world := v\<rparr>)"] that v(2) st
      by (fastforce simp: wp_simps wp_on_world queued_for_def facade_create_args_def)
    show ?thesis
      by (auto simp: wp_simps remember_key_def split: option.split intro!: wp_mono[OF queued])
  qed
  have "wp (on_world (create_execution ?a)) (\<lambda>ex. wp (andthen (remember_key ?key (ex_id ex))
      (andthen (schedule_start st eng (Some True) b EM_BACKGROUND (ex_id ex)) (ret ex))) ?Q (\<lambda>_ _. False)) (\<lambda>_ _. False) g"
    unfolding wp_on_world by (rule wp_mono[OF wp_create_ready[OF w]]) (elim conjE, rule later, simp_all)
  then show ?thesis
    using rq unfolding facade_create_execution_def Let_def by (auto simp: wp_simps split: option.split)
qed

lemma facade_guards:
  assumes "facade_create_execution st eng s b rq ctx g = (Inr ex, g')"
  shows "cr_workflow_type rq \<in> set REGISTERED_WORKFLOW_TYPES" "truthy (dget ctx ''tenant_id'')" "truthy (dget ctx ''policy_scope'')"
  using assms by (auto simp: facade_create_execution_def throw_def split: if_splits)

lemma known_is_stored:
  assumes "repo_ok (w_repo (gw_world g))" "known_execution key g = Some ex"
  shows "get_execution (w_repo (gw_world g)) (ex_id ex) = Some ex"
  using assms get_execution_id by (fastforce simp: known_execution_def split: option.splits)

lemma background_mode:
  "create_context auth rq = Inr ctx \<Longrightarrow> cr_execution_mode rq = Some ''background'' \<Longrightarrow> requested_mode ctx = Some EM_BACKGROUND"
  by (auto simp: create_context_def requested_mode_def split: sum.splits)

lemma post_queued:
  assumes w: "winv no_ghost (gw_world g)" and st: "gs_schedule_start st" "gs_use_queue st"
    and rq: "cr_execution_mode rq = Some ''background''" "post_execution st eng hs rq g = (Reply ct, g')"
    and new: "get_execution (w_repo (gw_world g)) (ct_execution_id ct) = None"
  shows "queued_for (cr_workflow_type rq) g (ct_execution_id ct) g'"
proof -
  obtain auth ex where parts: "run_create st eng auth rq g = (Inr ex, g')" "ct = create_reply ex"
    by (rule post_execution_parts[OF rq(2)])
  obtain ctx where ctx: "create_context auth rq = Inr ctx"
    and run: "facade_create_execution st eng (Some True) True rq ctx g = (Inr ex, g')"
    using parts(1) st(1) by (auto simp: run_create_eq rethrow_def split: sum.splits)
  note created = wp_Inr[OF wp_facade_queued[OF w st(2) facade_guards[OF run] background_mode[OF ctx rq(1)]] run]
  have "repo_ok (w_repo (gw_world g))" using w by (simp add: winv_def)
  then have "known_execution (idempotency_key rq ctx) g \<noteq> Some ex"
    using known_is_stored new parts(2) by (auto simp: create_reply_def)
  with created show ?thesis by (simp add: parts(2) create_reply_def)
qed

section \<open>The turn\<close>

lemma turn_decides:
  assumes q: "queued_for wt g eid g'" "w_queue (gw_world g) = []"
    and eng: "services_ok eng" "self_contained eng" "eng_policy eng = evaluate"
    and keys: "distinct (map uuid_str (next_ids (w_env (gw_world g)) (env_uuid_ix (w_env (gw_world g)) + 3) (plan_count wt)))"
  obtains ex c ex' g'' where "get_execution (w_repo (gw_world g')) eid = Some ex"
    "get_context (w_repo (gw_world g')) (ex_context_id ex) = Some c" "worker_thread_turn eng g' = (g'', True)"
    "ends_decided eid (decided wt (decision_spec ''escalate_incident'' (ctx_environment c) (ctx_policy_scope c))) ex' (gw_world g'')"
proof -
  obtain en sc ts where r: "ready_to_start wt en sc (w_env (gw_world g)) (Suc (Suc (env_uuid_ix (w_env (gw_world g))))) eid (gw_world g')"
    and rest: "uncancelled eid (gw_world g')" "w_queue (gw_world g') = [\<lparr>wi_execution_id = eid, wi_enqueued_at = ts\<rparr>]"
    using q by (auto simp: queued_for_def)
  have keys': "distinct (map uuid_str (next_ids (w_env (gw_world g)) (Suc (Suc (Suc (env_uuid_ix (w_env (gw_world g)))))) (plan_count wt)))"
    using keys by (simp add: numeral_3_eq_3)
  obtain w where "worker_run_once eng ''worker-1'' (gw_world g') = (Inr True, w)"
    and ends: "\<exists>ex. ends_decided eid (decided wt (decision_spec ''escalate_incident'' en sc)) ex w"
    using wp_total[OF wp_worker_ready[OF r rest eng keys', of "''worker-1''"]] by auto blast
  then have "worker_thread_turn eng g' = (g'\<lparr>gw_world := w\<rparr>, True)"
    by (simp add: worker_thread_turn_def on_world_def)
  moreover obtain ex c where "get_execution (w_repo (gw_world g')) eid = Some ex"
    "get_context (w_repo (gw_world g')) (ex_context_id ex) = Some c" "ctx_environment c = en" "ctx_policy_scope c = sc"
    using r by (auto simp: ready_to_start_def)
  ultimately show ?thesis using ends that by fastforce
qed

section \<open>Property\<close>


text \<open>An operator posts a generic workflow in background mode to an empty store.\<close>

definition queued_create :: create_request where
  "queued_create = sample_create\<lparr>cr_execution_mode := Some ''background''\<rparr>"

lemma queued_create_accepted:
  "\<exists>ct g'. post_execution default_gateway_settings sample_engine (sample_headers ''acme'') queued_create start_gateway
     = (Reply ct, g')"
proof -
  let ?auth = "request_context_of ''ann'' [R_OPERATOR] ''acme'' ''gateway''"
  have "\<exists>ctx. create_context ?auth queued_create = Inr ctx \<and> dget ctx ''tenant_id'' = PStr ''acme'' \<and>
      dget ctx ''policy_scope'' = PStr ''default''"
    by (simp add: create_context_def merge_execution_context_def queued_create_def sample_create_def request_context_of_def Let_def
        dget_def[of "[(''policy_scope'', _)]"])
  then obtain ctx where ctx: "create_context ?auth queued_create = Inr ctx" "dget ctx ''tenant_id'' = PStr ''acme''"
      "dget ctx ''policy_scope'' = PStr ''default''"
    by blast
  have "executions_write (sample_headers ''acme'') default_gateway_settings (gw_world start_gateway) =
      (Reply ?auth, gw_world start_gateway)"
    by (simp add: executions_write_def require_any_role_def and_next_def sample_caller_context strip_def is_space_def
        has_any_role_def has_role_def request_context_of_def answer_def)
  moreover have "cr_execution_mode queued_create = Some ''background''" by (simp add: queued_create_def)
  note mode = background_mode[OF ctx(1) this]
  have w: "winv no_ghost (gw_world start_gateway)" by (simp add: start_gateway_def winv_start supply_sample)
  have "wp (facade_create_execution default_gateway_settings sample_engine (Some True) True queued_create ctx)
      (\<lambda>_ _. True) (\<lambda>_ _. False) start_gateway"
    by (rule wp_mono[OF wp_facade_queued[OF w _ _ _ _ mode]])
      (simp_all add: ctx default_gateway_settings_def queued_create_def sample_create_def REGISTERED_WORKFLOW_TYPES_def)
  then have "\<exists>ex g'. run_create default_gateway_settings sample_engine ?auth queued_create start_gateway = (Inr ex, g')"
    using ctx by (auto simp: run_create_eq default_gateway_settings_def wp_def split: prod.splits sum.splits)
  ultimately show ?thesis using post_execution_eq by blast
qed


end
