(* ===== verification/Spec2Isabelle.thy ===== *)
theory Spec2Isabelle
  imports Replay_Diff_Properties Default_Engine Mukti_Properties Evaluation_Properties Gateway_Properties
    Postgres_Properties Feedback_Postgres Http_Properties Gateway_Queue Streaming_Properties
begin

text \<open>
  A verification development for the agentic-ai-platform: a platform that runs AI-assisted workflows
  (incident triage, cost attribution) as audited, policy-governed executions.

  \<^bold>\<open>The program.\<close>  A client creates an \<^emph>\<open>execution\<close> through the API gateway.  The orchestrator plans it as a chain
  of steps, and its engine runs one ready step per turn of a loop: a step is simulated deterministically, or asks
  the knowledge service, the tool runtime or the model runtime, and every call leaves a row in the execution's
  trace.  When no step is left the execution is validated; an incident triage then proposes an escalation, the
  policy engine allows it, denies it or asks for an approval, and a person may approve or reject it.  Executions can
  be queued for a background worker, cancelled, replayed with a provenance and compared with their source.  After
  a run, the feedback service, the analysis agent (mukti) and the evaluation engine read the stored rows.  All
  services share one repository, in memory or in PostgreSQL, a metrics registry and an event log.

  \<^bold>\<open>How the code is modelled.\<close>  A method with effects is a program of type \<open>('s, 'a) prog\<close>: state to a result or a
  raised exception, and the state after it; nothing is rolled back when it raises (\<open>Program\<close>).  A method of a
  service that has no reference to the repository runs on the environment \<open>env\<close> alone (\<open>Environment\<close>): supplies of
  identifiers, clock readings and handler run times, the sleeps, the metrics and the log.  The orchestrator runs on
  \<open>world\<close>, the environment with the repository and the work queue (\<open>World\<close>).  A call of a service is one atomic
  step of the system: the code holds no state between calls outside the repository and the queue.
  Dictionaries are association lists in insertion order, mutable rows are replaced under their key.

  \<^bold>\<open>Theories and sources\<close> (\<open>common_schemas\<close> and \<open>observability\<close> are under \<open>packages\<close>, the others under
  \<open>services\<close>):

  \<^item> \<open>Program\<close>, \<open>Results\<close>, \<open>PyValues\<close>, \<open>Rounding\<close>, \<open>Sha256\<close>, \<open>Sha1\<close>, \<open>Tallies\<close>: the prelude.  Exceptions, programs and
    their triples, Python values with \<open>str\<close>, \<open>repr\<close> and \<open>json.dumps\<close>, doubles, digests, counting dictionaries.
  \<^item> \<open>Schemas\<close>, \<open>Contracts\<close>: the records and enumerations of \<open>common_schemas\<close>, with the bounds their
    constructors check.
  \<^item> \<open>Environment\<close>: \<open>observability\<close> (metrics, events, spans).
  \<^item> \<open>Repository\<close>: \<open>InMemoryRepository\<close> of \<open>orchestrator/app/adapters/repository.py\<close>, with the locales of a keyed store.
  \<^item> \<open>Rows\<close>, \<open>Tables\<close>, \<open>Postgres\<close>: the rows of \<open>adapters/models.py\<close>, the mapping between rows and records and
    \<open>PostgresRepository\<close>; the locale \<open>row_mapping\<close> is interpreted for each table.  \<open>Feedback_Postgres\<close> does
    the same for \<open>feedback_service/repository.py\<close>.
  \<^item> \<open>State_Machine\<close>, \<open>Runtime_Meta\<close>, \<open>Work_Queue\<close>, \<open>Planner\<close>, \<open>Step_Executor\<close>: the modules of those names in
    \<open>orchestrator/app/runtime\<close>.
  \<^item> \<open>Policy_Engine\<close>, \<open>Tool_Runtime\<close>, \<open>Tools\<close>, \<open>Knowledge\<close>, \<open>Model_Runtime\<close>, \<open>Http_Providers\<close>: the services the engine calls.
  \<^item> \<open>Engine_Base\<close>, \<open>Engine_Reasoning\<close>, \<open>Engine_Services\<close>, \<open>Engine_Governance\<close>, \<open>Engine\<close>: \<open>runtime/orchestrator.py\<close> in the
    order of its parts; \<open>run_execution\<close> is in the last.
  \<^item> \<open>Execution_Service\<close>, \<open>Replay\<close>, \<open>Replay_Diff\<close>: \<open>app/services\<close>, with the worker of \<open>runtime/worker.py\<close>.
  \<^item> \<open>Feedback\<close>, \<open>Mukti\<close>, \<open>Evaluation\<close>: the services that read finished runs.
  \<^item> \<open>Gateway_Access\<close>, \<open>Gateway\<close>, \<open>Streaming\<close>: \<open>api-gateway/gateway\<close>, from the request context and the roles over the
    facades to the routes and the event stream.  \<open>Gateway_Wiring\<close> has the state at startup, the worker thread of
    \<open>main.py\<close> and the endpoints for operators.

  \<^bold>\<open>What the lemmas show.\<close>

  \<^item> \<open>Engine_Frame\<close>, \<open>Engine_Invariant\<close>, \<open>Engine_Safety\<close>, \<open>Engine_Run\<close>, \<open>Service_Safety\<close>, \<open>Reachability\<close>: the invariant \<open>winv\<close> of
    the running system (the trace of an execution is a path of the status machine, its outcome is backed by stored
    evidence, identifiers are unique) is kept by every operation, also when it raises; so it holds in every
    \<open>reachable\<close> world, whatever the order of the calls.
  \<^item> \<open>Engine_Progress\<close>, \<open>Run_Outcome\<close>, \<open>Service_Outcomes\<close>, \<open>Replay_Outcome\<close>: what a run and single calls return: a started
    execution runs its steps in plan order and ends with the status its policy decision calls for.
  \<^item> \<open>Gateway_System\<close>: the whole process as a step relation, requests of any callers, the starts they schedule and the
    turns of the worker thread in any order; the invariant holds in all its states, and a request of one tenant
    leaves the executions of the others alone.  \<open>Worker_Outcome\<close>, \<open>Gateway_Queue\<close>: a request in background mode is
    run to its decision by the turn of the worker that takes it.
  \<^item> \<open>Core_Properties\<close> and the theories named after a component with \<open>_Properties\<close>: ordering, equivalence with a
    reference definition, round trips, bounds, error behaviour and refinement of that component.
  \<^item> \<open>Default_Engine\<close>, \<open>Http_Properties\<close>: the services the code configures meet the contract \<open>services_ok\<close> the theorems
    on the engine assume.
  \<^item> \<open>Postgres_Properties\<close>: the PostgreSQL adapter refines the in-memory repository, so that what is shown of
    one holds of the other.

  \<^bold>\<open>Bounds and fuel.\<close>  \<open>run_loop\<close> has one turn more than the execution has steps, and \<open>run_loop_enough\<close> shows that it
  needs no more, since every turn that continues takes one step out of PENDING.  \<open>worker_loop\<close> has one turn more
  than the queue is long (\<open>worker_loop_enough\<close>).  Retries of tools and models recurse on the attempts left.
  \<open>chunk_text\<close> is a partial function, because it does not end for an overlap as large as the chunk; when it ends is
  shown.  A stream is followed over the list of the snapshots it polls.

  \<^bold>\<open>Conventions.\<close>  Identifiers are natural numbers, drawn from a supply without repetition (\<open>supply_ok\<close>); their text is
  the 128-bit one.  Python integers are \<open>int\<close>.  Floats are the rationals they stand for: arithmetic whose rounding
  matters rounds to 53 bits (\<open>to_float\<close>, \<open>float_of\<close>), and infinities and NaN are not represented.  Text is a list of
  characters up to U+00FF.  The message of a pydantic error is the name of its model.  Times are integers;
  \<open>perf_counter\<close> never runs backwards.  The order of a Python set and the order in which a database returns rows
  that tie are parameters.  So are the outcomes of the network, of \<open>json.loads\<close> and of reading a number from a text
  (\<open>Http_Providers\<close>), the session of the database (\<open>Tables\<close>) and the reading of a provenance out of an arbitrary
  input (\<open>Replay_Diff\<close>).

  \<^bold>\<open>Not modelled.\<close>

  \<^item> SQLAlchemy and the database: sessions are a parameter with their documented behaviour (\<open>session_ok\<close>).  Foreign
    keys, the 32-bit range of integer columns, the uniqueness of result identifiers and the order of keys that JSONB
    does not keep are outside it, and so is the construction of engines (\<open>adapters/db.py\<close>, \<open>gateway/db.py\<close>).
  \<^item> FastAPI and HTTP: routing, decoding of requests and the limits of query parameters.  A route is its handler,
    with the request as a value.  The facades are built from singletons (\<open>dependencies.py\<close>) after the search paths
    are set (\<open>_bootstrap.py\<close>).
  \<^item> Threads: a request, a scheduled start and a turn of the worker thread are one step each; the in-memory structures
    are used under their locks.  A client of the event stream goes away only while its loop sleeps.
  \<^item> The seed, demo and screenshot scripts, export lists of packages, tests and the operator console.
\<close>

section \<open>Life cycle of executions\<close>

text \<open>C1. In every state the services can reach, the status rows in an execution's trace are a path
  of allowed transitions from CREATED to its status.\<close>

theorem reachable_traces:
  assumes "reachable eng w" "services_ok eng" "get_execution (w_repo w) eid = Some ex"
  shows "trace_ok ex \<and> status_step\<^sup>*\<^sup>* ES_CREATED (ex_status ex)"
  using winv_stored[OF reachable_winv[OF assms(1,2)] assms(3)] trace_ok_rtranclp by blast

theorem reachable_traces_witness:
  "\<exists>ex. get_execution (w_repo (sample_run dev_args)) 1 = Some ex \<and> ex_status ex = ES_COMPLETED \<and>
     trace_ok ex \<and> status_step\<^sup>*\<^sup>* ES_CREATED (ex_status ex)"
  using dev_run_completes reachable_traces[OF reachable_run services_sample] by blast

text \<open>C2. An incident triage is COMPLETED only when a stored evaluation of it allows the action, or
  is conditional and was approved in a stored approval of that evaluation; and one that waits for
  an approval names a stored proposal and a stored conditional evaluation.\<close>

theorem reachable_governance:
  assumes "reachable eng w" "services_ok eng" "get_execution (w_repo w) eid = Some ex"
  shows "governed (w_repo w) ex"
  using winv_stored[OF reachable_winv[OF assms(1,2)] assms(3)] by blast

theorem reachable_governance_witness:
  "\<exists>ex. get_execution (w_repo (sample_run sample_args)) 1 = Some ex \<and> ex_status ex = ES_AWAITING_APPROVAL \<and>
     governed (w_repo (sample_run sample_args)) ex"
  using prod_run_waits reachable_governance[OF reachable_run services_sample] by blast



text \<open>C7. The loop of a run ends: from a state the services can reach, with one turn more than the
  execution has steps, the fuelled loop gives the result of the code's \<open>while True\<close>.\<close>

theorem run_terminates:
  assumes "reachable eng w" "services_ok eng" "length (list_steps_for_execution (w_repo w) eid) < n"
  shows "loop_runs eng eid w (fst (run_loop n eng eid w)) (snd (run_loop n eng eid w))"
proof -
  have "pending_count (w_repo w) eid < n" using pending_count_le[of "w_repo w" eid] assms(3) by simp
  then show ?thesis
    using run_loop_enough[OF reachable_winv[OF assms(1,2)] assms(2)] no_ghost_fields(1) surjective_pairing
    by (metis empty_iff)
qed

theorem run_terminates_witness:
  "loop_runs sample_engine 1 sample_world (fst (run_loop 1 sample_engine 1 sample_world))
     (snd (run_loop 1 sample_engine 1 sample_world))"
  by (rule run_terminates[OF reachable_sample services_sample])
    (simp add: sample_world_eq list_steps_for_execution_def save_execution_def save_context_def empty_repo_def)



text \<open>C9. Executions are isolated: a service call leaves every stored execution that it is not about
  as it was, with its steps.  A replay is about no stored execution, so its source is unchanged.\<close>

theorem calls_are_isolated:
  assumes "reachable eng w" "services_ok eng" "k \<notin> concerns c w" "get_execution (w_repo w) k = Some ex"
  shows "get_execution (w_repo (perform eng c w)) k = Some ex \<and>
    list_steps_for_execution (w_repo (perform eng c w)) k = list_steps_for_execution (w_repo w) k"
  using perform_isolated[OF reachable_winv[OF assms(1,2)] assms(2-4)]
  by (simp add: list_steps_for_execution_def steps_of_def)

theorem calls_are_isolated_witness:
  "get_execution (w_repo (perform sample_engine (Start 2) sample_world)) 1 = Some sample_execution \<and>
    list_steps_for_execution (w_repo (perform sample_engine (Start 2) sample_world)) 1
      = list_steps_for_execution (w_repo sample_world) 1"
  by (rule calls_are_isolated[OF reachable_sample services_sample _ get_sample]) simp

text \<open>No execution is COMPLETED without having passed through VALIDATING.\<close>

theorem completed_was_validated:
  assumes "reachable eng w" "services_ok eng" "get_execution (w_repo w) eid = Some ex" "ex_status ex = ES_COMPLETED"
  shows "Some ES_VALIDATING \<in> set (trace_statuses ex)"
  using winv_stored[OF reachable_winv[OF assms(1,2)] assms(3)] assms(4) trace_ok_validated by blast

theorem completed_was_validated_witness:
  "\<exists>ex. get_execution (w_repo (sample_run dev_args)) 1 = Some ex \<and> Some ES_VALIDATING \<in> set (trace_statuses ex)"
  using dev_run_completes completed_was_validated[OF reachable_run services_sample] by blast

text \<open>C10. A cancellation of a stored execution always returns it, marked and stored: CANCELLED when
  it was open, with its status unchanged when it had ended.\<close>

theorem cancellation_takes_effect:
  assumes "reachable eng w" "services_ok eng" "get_execution (w_repo w) eid = Some ex"
  shows "\<exists>ex' w'. request_cancellation eid reason w = (Inr ex', w') \<and>
    get_execution (w_repo w') eid = Some ex' \<and> ex_id ex' = ex_id ex \<and> is_cancellation_requested ex' \<and>
    ex_status ex' = (if is_execution_terminal (ex_status ex) then ex_status ex else ES_CANCELLED)"
  using request_cancellation_outcome[OF winv_repo_ok[OF reachable_winv[OF assms(1,2)]] assms(3), of reason]
  unfolding cancelled_as_def by blast

theorem cancellation_takes_effect_witness:
  "\<exists>ex' w'. request_cancellation 1 ''stop'' (sample_run sample_args) = (Inr ex', w') \<and>
    ex_status ex' = ES_CANCELLED"
proof -
  obtain ex where ex: "get_execution (w_repo (sample_run sample_args)) 1 = Some ex" "ex_status ex = ES_AWAITING_APPROVAL"
    using prod_run_waits by blast
  then show ?thesis
    using cancellation_takes_effect[OF reachable_run services_sample ex(1), of "''stop''"]
    by (auto simp: lifecycle_tables)
qed

text \<open>C11. An approval decides a waiting execution whose proposal is stored: approved, it completes;
  rejected, it fails; the proposal gets the same verdict and the approval itself is stored.\<close>

theorem approval_settles:
  assumes "get_execution (w_repo w) eid = Some ex" "ex_id ex = eid" "ex_status ex = ES_AWAITING_APPROVAL"
    "approval_subject ex = ret (pid, evid)" "get_action_proposal (w_repo w) pid = Some p" "ap_id p = pid"
    "d \<noteq> AD_DEFER"
  shows "\<exists>ex' w'. submit_approval eid approver d notes w = (Inr ex', w') \<and>
    get_execution (w_repo w') eid = Some ex' \<and>
    ex_status ex' = (if d = AD_APPROVE then ES_COMPLETED else ES_FAILED) \<and>
    map_option ap_status (get_action_proposal (w_repo w') pid)
      = Some (if d = AD_APPROVE then AP_APPROVED else AP_REJECTED) \<and>
    holds_approval (w_repo w') eid approver d evid pid"
  using approval_decides[OF assms] .

theorem approval_settles_witness:
  "\<exists>ex' w'. submit_approval 1 ''ann'' AD_REJECT None waiting_world = (Inr ex', w') \<and> ex_status ex' = ES_FAILED"
  using approval_settles[of waiting_world 1 waiting_execution 7 8 waiting_proposal AD_REJECT "''ann''" None]
    waiting_subject waiting_stored by auto

text \<open>C12. A deferral, or an approval of an execution that does not wait for one, is an error that
  stores nothing.\<close>

theorem approval_needs_waiting:
  assumes "d = AD_DEFER \<or> (\<forall>ex. get_execution (w_repo w) eid = Some ex \<longrightarrow> ex_status ex \<noteq> ES_AWAITING_APPROVAL)"
  shows "(\<exists>e. fst (submit_approval eid approver d notes w) = Inl e) \<and>
    w_repo (snd (submit_approval eid approver d notes w)) = w_repo w"
  using approval_refused[OF assms] .

theorem approval_needs_waiting_witness:
  "w_repo (snd (submit_approval 1 ''ann'' AD_APPROVE None sample_world)) = w_repo sample_world"
  by (rule conjunct2[OF approval_needs_waiting])
    (use get_sample in \<open>auto simp: sample_execution_def new_execution_def\<close>)

text \<open>Starting an execution that has ended returns it and changes nothing but the clock.\<close>

theorem ended_not_run_again:
  assumes "get_execution (w_repo w) eid = Some ex" "is_execution_terminal (ex_status ex)"
  shows "start_execution eng eid w =
    (Inr ex, w\<lparr>w_env := (w_env w)\<lparr>env_clock_ix := Suc (env_clock_ix (w_env w))\<rparr>\<rparr>)"
  using start_finished[OF assms] .

theorem ended_not_run_again_witness:
  "w_repo (snd (start_execution sample_engine 1 (sample_run dev_args))) = w_repo (sample_run dev_args)"
proof -
  obtain ex where ex: "get_execution (w_repo (sample_run dev_args)) 1 = Some ex" "ex_status ex = ES_COMPLETED"
    using dev_run_completes by blast
  then show ?thesis
    using ended_not_run_again[OF ex(1), of sample_engine] by (simp add: lifecycle_tables)
qed

text \<open>The transition check accepts exactly the table; what it rejects it names, and the terminal
  statuses are exactly those without a successor.\<close>

theorem transition_check:
  "(fst (validate_execution_transition a b (s :: world)) = Inr () \<longleftrightarrow> status_step a b) \<and>
   (is_execution_terminal a \<longleftrightarrow> (\<nexists>c. status_step a c)) \<and>
   snd (validate_execution_transition a b s) = s"
  by (simp add: validate_execution_cases terminal_iff_stuck status_step.simps)

section \<open>Policy\<close>

text \<open>The decision of the evaluator is the decision table: everything but an escalation is
  denied, and so is the deny scope; production or the conditional scope ask for approval.  The one
  rule it reports is in the published catalogue with the same decision.\<close>

theorem policy_decides_by_table:
  "pd_decision (evaluate c p) = decision_spec (ap_action_type p) (ctx_environment c) (ctx_policy_scope c) \<and>
   (\<exists>d \<in> set list_rule_descriptors. \<exists>detail. pd_rules (evaluate c p) = [rule_hit (rd_rule_id d) detail]
      \<and> rd_decision d = policy_decision_value (pd_decision (evaluate c p)))"
  using evaluate_decision evaluate_rule_in_catalog by blast

text \<open>C14. A simulation never raises with the default evaluator, returns a valid record, and decides
  as an evaluation in the environment and scope of the request would, \<open>dev\<close> and \<open>default\<close> where they
  are missing.\<close>

theorem simulation_agrees:
  "\<exists>sm e'. simulate_policy evaluate rq tenant prin rid e = (Inr sm, e') \<and> simulate_result_valid sm \<and>
     sm_decision sm = decision_spec (sq_action_type rq)
       (py_str (py_or (dget (sq_context rq) ''environment'') (PStr ''dev'')))
       (py_str (py_or (dget (sq_context rq) ''policy_scope'') (PStr ''default'')))"
proof -
  obtain c p e' where run: "simulate_policy evaluate rq tenant prin rid e
      = (Inr (simulate_outcome (evaluate c p)), e')"
    and at: "ctx_environment c = py_str (py_or (dget (sq_context rq) ''environment'') (PStr ''dev''))"
      "ctx_policy_scope c = py_str (py_or (dget (sq_context rq) ''policy_scope'') (PStr ''default''))"
      "ap_action_type p = sq_action_type rq"
    using simulate_policy_evaluates by blast
  have "simulate_result_valid (simulate_outcome (evaluate c p))"
    by (simp add: simulate_result_valid_def simulate_outcome_def evaluate_reason_length
        evaluate_rule_refs rule_pack_id_def RULE_PACK_ID_def)
  moreover have "sm_decision (simulate_outcome (evaluate c p)) = pd_decision (evaluate c p)"
    by (simp add: simulate_outcome_def)
  ultimately show ?thesis
    using run at evaluate_decision[of c p] by metis
qed

text \<open>Counting an evaluation keeps the per-decision counters in step with their total.\<close>

theorem policy_counters_agree:
  "policy_totals_agree (env_metrics (final (record_policy_evaluation d) e)) \<longleftrightarrow> policy_totals_agree (env_metrics e)"
  by (rule record_policy_evaluation_totals)

section \<open>Tools\<close>

text \<open>C15. An execution of a tool call always returns a record: consistent (an output exactly on
  success, an error exactly otherwise), of this request, rejected exactly when the policy denied it;
  and the handler runs at most once more than the tool's retries, never when the call was denied.\<close>

theorem tool_call_recorded:
  assumes "pure_check check"
  shows "\<exists>tc e'. tool_execute reg check rq now e = (Inr tc, e')
    \<and> call_consistent tc \<and> call_of rq (env_uuids e (env_uuid_ix e)) now tc
    \<and> (tc_status tc = TC_REJECTED_BY_POLICY \<longleftrightarrow> tq_policy_denied rq)
    \<and> env_overhead_ix e' \<le> env_overhead_ix e + run_bound reg rq"
  using tool_execute_ok[OF assms, of reg rq now e] by (auto simp: tool_frame_def)

theorem tool_call_recorded_witness:
  "\<exists>tc e'. tool_execute build_default_registry None sample_request 7 sample_env = (Inr tc, e')
    \<and> call_consistent tc \<and> call_of sample_request (env_uuids sample_env (env_uuid_ix sample_env)) 7 tc
    \<and> (tc_status tc = TC_REJECTED_BY_POLICY \<longleftrightarrow> tq_policy_denied sample_request)
    \<and> env_overhead_ix e' \<le> env_overhead_ix sample_env + run_bound build_default_registry sample_request"
  by (rule tool_call_recorded) (simp add: pure_check_def)

text \<open>C16. The tools of the default registry change the incident system only in an update that is
  marked approved and was not denied by policy.\<close>

theorem tools_mutate_only_approved:
  assumes "\<not> (\<not> tq_policy_denied rq \<and> tq_tool_name rq = ''incident_system_update_tool'' \<and>
      truthy (dget (tq_input rq) ''approved''))"
    and "pure_check check"
  shows "env_incidents (snd (tool_execute build_default_registry check rq now e)) = env_incidents e"
  using assms(1) default_registry_keeps
  by (intro tool_execute_incidents[OF assms(2) _ surjective_pairing]) (auto simp: may_mutate_def)

theorem tools_mutate_only_approved_witness:
  "env_incidents (snd (tool_execute build_default_registry None sample_request 7 sample_env)) = []"
proof -
  have "env_incidents (snd (tool_execute build_default_registry None sample_request 7 sample_env))
      = env_incidents sample_env"
    by (rule tools_mutate_only_approved) (simp_all add: sample_request_def pure_check_def)
  then show ?thesis by (simp add: sample_env_def)
qed

text \<open>The tool calls of the cost workflow never reach a tool: their input has a scope and no
  incident, which the executor's input check demands, so a registered tool fails with a validation
  error whatever it is.\<close>

theorem cost_tools_fail_validation:
  assumes "registry_get reg (tq_tool_name rq) = Some (m, h)" "tq_input rq = correlate_payload ex_in"
    "\<not> tq_policy_denied rq"
  shows "\<exists>tc. tool_execute reg None rq now e = (Inr tc, e\<lparr>env_uuid_ix := Suc (env_uuid_ix e)\<rparr>) \<and>
    tc_status tc = TC_FAILURE \<and> tc_error tc = Some [(''code'', PStr ''validation_error''),
      (''message'', PStr ''incident_id or id is required in tool input'')]"
  using assms
  by (simp add: tool_execute_def bnd_def uuid4_def is_cancelled_def ret_def validate_input_def
      correlate_payload_def has_key_def meta_call_def build_call_def)

theorem cost_tools_fail_validation_witness:
  "\<exists>tc. tool_execute build_default_registry None
      (sample_request\<lparr>tq_tool_name := ''cloud_cost_tool'', tq_input := correlate_payload []\<rparr>) 7 sample_env
      = (Inr tc, sample_env\<lparr>env_uuid_ix := Suc (env_uuid_ix sample_env)\<rparr>) \<and>
    tc_status tc = TC_FAILURE \<and> tc_error tc = Some [(''code'', PStr ''validation_error''),
      (''message'', PStr ''incident_id or id is required in tool input'')]"
  by (rule cost_tools_fail_validation[where ex_in = "[]"])
    (simp_all add: default_registry_get sample_request_def)

text \<open>A failure that is not transient ends the call at once, and the record still claims the
  full number of retries.\<close>

theorem fatal_failure_claims_retries:
  assumes "attempt_once h m rq e = (Inl exc, e')" "\<not> is_transient exc" "exn_class exc \<noteq> ToolValidationError"
  shows "\<exists>tc err. attempt_loop (Suc n) 0 None h m rq tcid now st prev e
      = (Inr tc, e'\<lparr>env_perf_ix := Suc (env_perf_ix e')\<rparr>) \<and> tc_error tc = Some err \<and>
      dget err ''retry_count'' = PInt (int (max_attempts m) - 1)"
  using assms
  by (simp add: bnd_def is_cancelled_def ret_def exhausted_call_def elapsed_ms_eq Let_def meta_call_def
      build_call_def dget_def)

theorem fatal_failure_claims_retries_witness:
  "\<exists>tc err e'. attempt_loop 3 0 None failing_handler
        (read_tool ''metrics_lookup_tool'' 4000 ''v1'' ''d'') sample_request 9 0 0 None sample_env
      = (Inr tc, e') \<and> tc_error tc = Some err \<and>
      dget err ''retry_count'' = PInt (int (max_attempts (read_tool ''metrics_lookup_tool'' 4000 ''v1'' ''d'')) - 1)"
proof -
  let ?m = "read_tool ''metrics_lookup_tool'' 4000 ''v1'' ''d''"
  have run: "attempt_once failing_handler ?m sample_request sample_env
      = (Inl (Exn ValueError ''bad input''), sample_env\<lparr>env_overhead_ix := 1\<rparr>)"
    by (simp add: attempt_once_def run_with_timeout_def run_handler_def handler_overhead_def bnd_def
        failing_handler_def rethrow_def is_timeout_def read_tool_def sample_env_def Let_def)
  have "\<not> is_transient (Exn ValueError ''bad input'')" "exn_class (Exn ValueError ''bad input'') \<noteq> ToolValidationError"
    by (simp_all add: is_transient_def)
  from fatal_failure_claims_retries[OF run this, of 2] show ?thesis
    by (simp add: numeral_3_eq_3 numeral_2_eq_2) blast
qed

end
